(* ===== verification/Prelude.thy ===== *)
theory Prelude
  imports
    Main
    "HOL-Library.Word"
    "HOL-Library.Char_ord"
    "HOL-Library.List_Lexorder"
    "HOL-Library.Product_Lexorder"
begin

section \<open>Prelude: the part of Rust's standard library the sources use\<close>

text \<open>
  Everything the component theories share.

  \<^item> \<^bold>\<open>Text.\<close> A Rust \<^verbatim>\<open>str\<close> is the list of its \<^verbatim>\<open>char\<close>s. An Isabelle
    \<^typ>\<open>char\<close> stands for a Unicode scalar value below 256, and in that range
    \<^verbatim>\<open>char::is_whitespace\<close>, \<^verbatim>\<open>char::is_control\<close> and \<^verbatim>\<open>str::to_lowercase\<close> are
    modelled exactly (White\_Space is 9-13, 32, 133 and 160; the capitals are A-Z and
    192-222 without 215, each 32 below its small letter). Text with larger code points
    is outside the model. \<^verbatim>\<open>str::len\<close> counts UTF-8 bytes: one below 128, two from
    128 on (\<open>utf8_len\<close>). The order on \<^typ>\<open>string\<close> is the lexicographic one of
    the library, which is Rust's byte order, because UTF-8 preserves code point order.
  \<^item> \<^bold>\<open>Results.\<close> \<^verbatim>\<open>Result<T, E>\<close> is a sum type with the error on the left, and the
    \<^verbatim>\<open>?\<close> operator is a case split that returns the error unchanged.
  \<^item> \<^bold>\<open>Numbers.\<close> \<^verbatim>\<open>u64\<close>, \<^verbatim>\<open>u32\<close> are machine words; \<^verbatim>\<open>{}\<close>, \<^verbatim>\<open>{:02}\<close> and
    \<^verbatim>\<open>{:04x}\<close> formatting is \<open>show_nat\<close>, \<open>pad0\<close> and \<open>show_hex\<close>.
  \<^item> \<^bold>\<open>JSON.\<close> \<^verbatim>\<open>serde_json::Value\<close> is the datatype \<open>json\<close> of JSON values with the
    accessors the sources call.

  The lemma collections: \<open>text_simps\<close> (algebra of the text functions), \<open>text_eval\<close>
  (evaluates them on literals) and \<open>shape_rules\<close> (which characters rendered text is
  made of).
\<close>

named_theorems text_simps \<open>rewrite rules for the text functions\<close>
named_theorems text_eval \<open>evaluation of the text functions on literals\<close>
named_theorems shape_rules \<open>which characters the output of a renderer is made of\<close>

type_synonym u64 = "64 word"
type_synonym u32 = "32 word"
type_synonym ('e, 'a) result = "'e + 'a"

subsection \<open>Characters\<close>

abbreviation code :: "char \<Rightarrow> nat" where
  "code c \<equiv> of_char c"

definition is_whitespace :: "char \<Rightarrow> bool" where
  "is_whitespace c \<longleftrightarrow> 9 \<le> code c \<and> code c \<le> 13 \<or> code c = 32 \<or> code c = 133 \<or> code c = 160"

definition is_control :: "char \<Rightarrow> bool" where
  "is_control c \<longleftrightarrow> code c \<le> 31 \<or> 127 \<le> code c \<and> code c \<le> 159"

definition lower_char :: "char \<Rightarrow> char" where
  "lower_char c =
     (if 65 \<le> code c \<and> code c \<le> 90 \<or> 192 \<le> code c \<and> code c \<le> 222 \<and> code c \<noteq> 215
      then char_of (code c + 32) else c)"

definition ascii_lower_char :: "char \<Rightarrow> char" where
  "ascii_lower_char c = (if 65 \<le> code c \<and> code c \<le> 90 then char_of (code c + 32) else c)"

definition is_ascii_digit :: "char \<Rightarrow> bool" where
  "is_ascii_digit c \<longleftrightarrow> 48 \<le> code c \<and> code c \<le> 57"

definition is_ascii_alphanumeric :: "char \<Rightarrow> bool" where
  "is_ascii_alphanumeric c \<longleftrightarrow> is_ascii_digit c \<or> 65 \<le> code c \<and> code c \<le> 90 \<or> 97 \<le> code c \<and> code c \<le> 122"

subsection \<open>Strings\<close>

definition to_lowercase :: "string \<Rightarrow> string" where
  "to_lowercase s = map lower_char s"

definition to_ascii_lowercase :: "string \<Rightarrow> string" where
  "to_ascii_lowercase s = map ascii_lower_char s"

definition eq_ignore_ascii_case :: "string \<Rightarrow> string \<Rightarrow> bool" where
  "eq_ignore_ascii_case a b \<longleftrightarrow> to_ascii_lowercase a = to_ascii_lowercase b"

definition trim_start_matches :: "(char \<Rightarrow> bool) \<Rightarrow> string \<Rightarrow> string" where
  "trim_start_matches p s = dropWhile p s"

definition trim_end_matches :: "(char \<Rightarrow> bool) \<Rightarrow> string \<Rightarrow> string" where
  "trim_end_matches p s = rev (dropWhile p (rev s))"

definition trim_matches :: "(char \<Rightarrow> bool) \<Rightarrow> string \<Rightarrow> string" where
  "trim_matches p s = trim_end_matches p (trim_start_matches p s)"

definition trim_start :: "string \<Rightarrow> string" where
  "trim_start s = trim_start_matches is_whitespace s"

definition trim :: "string \<Rightarrow> string" where
  "trim s = trim_matches is_whitespace s"

text \<open>\<^verbatim>\<open>value.trim().is_empty()\<close>, the blankness test of every validator.\<close>

abbreviation blank :: "string \<Rightarrow> bool" where
  "blank s \<equiv> trim s = []"

definition utf8_len_char :: "char \<Rightarrow> nat" where
  "utf8_len_char c = (if code c < 128 then 1 else 2)"

fun utf8_len :: "string \<Rightarrow> nat" where
  "utf8_len [] = 0"
| "utf8_len (c # s) = utf8_len_char c + utf8_len s"

text \<open>The UTF-8 bytes of a character, as numbers.\<close>

definition utf8_bytes_char :: "char \<Rightarrow> nat list" where
  "utf8_bytes_char c =
     (if code c < 128 then [code c] else [192 + code c div 64, 128 + code c mod 64])"

definition utf8_bytes :: "string \<Rightarrow> nat list" where
  "utf8_bytes s = concat (map utf8_bytes_char s)"

fun strip_prefix :: "string \<Rightarrow> string \<Rightarrow> string option" where
  "strip_prefix [] s = Some s"
| "strip_prefix (p # ps) [] = None"
| "strip_prefix (p # ps) (c # s) = (if p = c then strip_prefix ps s else None)"

definition starts_with :: "string \<Rightarrow> string \<Rightarrow> bool" where
  "starts_with s p \<longleftrightarrow> strip_prefix p s \<noteq> None"

text \<open>\<^verbatim>\<open>s.find(pattern)\<close>: what comes before and after the first occurrence.\<close>

fun split_at_sub :: "string \<Rightarrow> string \<Rightarrow> (string \<times> string) option" where
  "split_at_sub p s =
     (case strip_prefix p s of
        Some rest \<Rightarrow> Some ([], rest)
      | None \<Rightarrow>
          (case s of
             [] \<Rightarrow> None
           | c # s' \<Rightarrow> map_option (\<lambda>(a, b). (c # a, b)) (split_at_sub p s')))"

declare split_at_sub.simps [simp del]

definition contains :: "string \<Rightarrow> string \<Rightarrow> bool" where
  "contains s p \<longleftrightarrow> split_at_sub p s \<noteq> None"

text \<open>\<^verbatim>\<open>s.split_once(c)\<close> and \<^verbatim>\<open>s.split(c)\<close>; the latter always yields one piece.\<close>

fun split_once :: "char \<Rightarrow> string \<Rightarrow> (string \<times> string) option" where
  "split_once d [] = None"
| "split_once d (c # s) =
     (if c = d then Some ([], s) else map_option (\<lambda>(a, b). (c # a, b)) (split_once d s))"

fun split_on :: "char \<Rightarrow> string \<Rightarrow> string list" where
  "split_on d [] = [[]]"
| "split_on d (c # s) =
     (if c = d then [] # split_on d s
      else case split_on d s of [] \<Rightarrow> [[c]] | p # ps \<Rightarrow> (c # p) # ps)"

fun join :: "string \<Rightarrow> string list \<Rightarrow> string" where
  "join sep [] = []"
| "join sep [s] = s"
| "join sep (s # t # ts) = s @ sep @ join sep (t # ts)"

text \<open>
  \<^verbatim>\<open>s.lines()\<close>: split at line feeds, without a last empty line, and with the carriage
  return before a line feed removed.
\<close>

definition strip_cr :: "string \<Rightarrow> string" where
  "strip_cr l = (if l \<noteq> [] \<and> last l = char_of (13::nat) then butlast l else l)"

definition lines :: "string \<Rightarrow> string list" where
  "lines s =
     (let ps = split_on (char_of (10::nat)) s in
      map strip_cr (butlast ps) @ (if last ps = [] then [] else [last ps]))"

subsection \<open>Numbers as text\<close>

definition digit_char :: "nat \<Rightarrow> char" where
  "digit_char d = char_of (48 + d)"

fun show_nat :: "nat \<Rightarrow> string" where
  "show_nat n = (if n < 10 then [digit_char n] else show_nat (n div 10) @ [digit_char (n mod 10)])"

declare show_nat.simps [simp del]

definition show_int :: "int \<Rightarrow> string" where
  "show_int n = (if n < 0 then ''-'' @ show_nat (nat (- n)) else show_nat (nat n))"

text \<open>\<^verbatim>\<open>{:0w}\<close>: at least \<open>w\<close> digits.\<close>

definition pad0 :: "nat \<Rightarrow> nat \<Rightarrow> string" where
  "pad0 w n = (let s = show_nat n in replicate (w - length s) (CHR ''0'') @ s)"

definition hex_upper :: "nat \<Rightarrow> char" where
  "hex_upper d = (if d < 10 then char_of (48 + d) else char_of (55 + d))"

definition hex_lower :: "nat \<Rightarrow> char" where
  "hex_lower d = (if d < 10 then char_of (48 + d) else char_of (87 + d))"

text \<open>Reading decimal text, and \<^verbatim>\<open>parse::<u64>()\<close>, which allows one leading plus sign.\<close>

definition read_digits :: "string \<Rightarrow> nat" where
  "read_digits s = foldl (\<lambda>n c. 10 * n + (code c - 48)) 0 s"

definition parse_u64 :: "string \<Rightarrow> nat option" where
  "parse_u64 s =
     (let ds = (if s \<noteq> [] \<and> hd s = CHR ''+'' then List.tl s else s) in
      if ds = [] \<or> \<not> list_all is_ascii_digit ds \<or> read_digits ds \<ge> 2 ^ 64 then None
      else Some (read_digits ds))"

text \<open>\<^verbatim>\<open>{:04x}\<close> of a \<^verbatim>\<open>u16\<close>.\<close>

definition show_hex4 :: "nat \<Rightarrow> string" where
  "show_hex4 n = [hex_lower (n div 4096 mod 16), hex_lower (n div 256 mod 16),
                  hex_lower (n div 16 mod 16), hex_lower (n mod 16)]"

text \<open>Rust's integer division truncates towards zero.\<close>

definition tdiv :: "int \<Rightarrow> int \<Rightarrow> int" where
  "tdiv a b = sgn a * sgn b * (\<bar>a\<bar> div \<bar>b\<bar>)"

definition saturating_add :: "'a::len word \<Rightarrow> 'a word \<Rightarrow> 'a word" where
  "saturating_add a b = (if unat a + unat b < 2 ^ LENGTH('a) then a + b else - 1)"

definition saturating_mul :: "'a::len word \<Rightarrow> 'a word \<Rightarrow> 'a word" where
  "saturating_mul a b = (if unat a * unat b < 2 ^ LENGTH('a) then a * b else - 1)"

definition saturating_sub :: "'a::len word \<Rightarrow> 'a word \<Rightarrow> 'a word" where
  "saturating_sub a b = (if b \<le> a then a - b else 0)"

subsection \<open>Options\<close>

text \<open>\<^verbatim>\<open>a.or_else(|| b)\<close>, \<^verbatim>\<open>a.or(b)\<close>, \<^verbatim>\<open>a.unwrap_or(d)\<close> and \<^verbatim>\<open>a.filter(p)\<close>.\<close>

fun or_else :: "'a option \<Rightarrow> 'a option \<Rightarrow> 'a option" where
  "or_else (Some a) b = Some a"
| "or_else None b = b"

fun unwrap_or :: "'a option \<Rightarrow> 'a \<Rightarrow> 'a" where
  "unwrap_or (Some a) d = a"
| "unwrap_or None d = d"

fun filter_option :: "('a \<Rightarrow> bool) \<Rightarrow> 'a option \<Rightarrow> 'a option" where
  "filter_option p (Some a) = (if p a then Some a else None)"
| "filter_option p None = None"

text \<open>\<^verbatim>\<open>iter.find_map(f)\<close> and \<^verbatim>\<open>iter.filter_map(f).collect()\<close>.\<close>

fun find_map :: "('a \<Rightarrow> 'b option) \<Rightarrow> 'a list \<Rightarrow> 'b option" where
  "find_map f [] = None"
| "find_map f (x # xs) = (case f x of Some y \<Rightarrow> Some y | None \<Rightarrow> find_map f xs)"

text \<open>The \<^verbatim>\<open>?\<close> operator.\<close>

definition and_then :: "('e, 'a) result \<Rightarrow> ('a \<Rightarrow> ('e, 'b) result) \<Rightarrow> ('e, 'b) result" where
  "and_then r f = (case r of Inl e \<Rightarrow> Inl e | Inr a \<Rightarrow> f a)"

subsection \<open>JSON values\<close>

datatype json =
    Null
  | Bool bool
  | Number int
  | String string
  | Array "json list"
  | Object "(string \<times> json) list"

text \<open>\<^verbatim>\<open>Value::get(key)\<close> with a string key answers on objects only.\<close>

fun json_get :: "json \<Rightarrow> string \<Rightarrow> json option" where
  "json_get (Object kvs) k = map_of kvs k"
| "json_get _ k = None"

fun as_str :: "json \<Rightarrow> string option" where
  "as_str (String s) = Some s"
| "as_str _ = None"

fun as_array :: "json \<Rightarrow> json list option" where
  "as_array (Array vs) = Some vs"
| "as_array _ = None"

fun as_object :: "json \<Rightarrow> (string \<times> json) list option" where
  "as_object (Object kvs) = Some kvs"
| "as_object _ = None"

fun as_u64 :: "json \<Rightarrow> nat option" where
  "as_u64 (Number n) = (if 0 \<le> n \<and> n < 2 ^ 64 then Some (nat n) else None)"
| "as_u64 _ = None"

fun as_i64 :: "json \<Rightarrow> int option" where
  "as_i64 (Number n) = (if - (2 ^ 63) \<le> n \<and> n < 2 ^ 63 then Some n else None)"
| "as_i64 _ = None"

fun as_bool :: "json \<Rightarrow> bool option" where
  "as_bool (Bool b) = Some b"
| "as_bool _ = None"

subsection \<open>Facts about results\<close>

lemma and_then_simps [simp]: "and_then (Inl e) f = Inl e" "and_then (Inr a) f = f a"
  by (simp_all add: and_then_def)

lemma and_then_Inr_iff: "and_then r f = Inr b \<longleftrightarrow> (\<exists>a. r = Inr a \<and> f a = Inr b)"
  by (cases r) simp_all

subsection \<open>Facts about characters\<close>

lemma code_char_of [simp]: "n < 256 \<Longrightarrow> code (char_of n) = n"
  by simp

lemma lower_char_idem [simp]: "lower_char (lower_char c) = lower_char c"
proof (cases "65 \<le> code c \<and> code c \<le> 90 \<or> 192 \<le> code c \<and> code c \<le> 222 \<and> code c \<noteq> 215")
  case True
  then have "code (lower_char c) = code c + 32"
    by (auto simp: lower_char_def)
  with True show ?thesis
    by (auto simp: lower_char_def [of "lower_char c"])
next
  case False
  then have "lower_char c = c"
    unfolding lower_char_def by (rule if_not_P)
  then show ?thesis by simp
qed

lemma whitespace_lower_char [simp]: "is_whitespace (lower_char c) = is_whitespace c"
  by (auto simp: lower_char_def is_whitespace_def)

lemma alphanumeric_not_control: "is_ascii_alphanumeric c \<Longrightarrow> \<not> is_control c"
  by (auto simp: is_ascii_alphanumeric_def is_ascii_digit_def is_control_def)

lemma alphanumeric_not_whitespace: "is_ascii_alphanumeric c \<Longrightarrow> \<not> is_whitespace c"
  by (auto simp: is_ascii_alphanumeric_def is_ascii_digit_def is_whitespace_def)

lemma char_of_numeral [text_eval]:
  "char_of (numeral k :: nat) =
     Char (odd (numeral k :: nat)) (bit (numeral k :: nat) 1) (bit (numeral k :: nat) 2)
       (bit (numeral k :: nat) 3) (bit (numeral k :: nat) 4) (bit (numeral k :: nat) 5)
       (bit (numeral k :: nat) 6) (bit (numeral k :: nat) 7)"
  by (simp add: char_of_def bit_0)

lemma replicate_eval [text_eval]: "replicate (numeral k) x = x # replicate (pred_numeral k) x"
  by (simp add: numeral_eq_Suc)

lemmas [text_eval] =
  is_whitespace_def is_control_def lower_char_def ascii_lower_char_def is_ascii_digit_def
  is_ascii_alphanumeric_def to_lowercase_def to_ascii_lowercase_def eq_ignore_ascii_case_def
  trim_start_matches_def trim_end_matches_def trim_matches_def trim_start_def trim_def
  utf8_len_char_def utf8_bytes_char_def utf8_bytes_def starts_with_def contains_def
  split_at_sub.simps strip_cr_def lines_def digit_char_def pad0_def hex_upper_def hex_lower_def
  show_hex4_def bit_0

lemma show_nat_eval [text_eval]:
  "numeral k < (10::nat) \<Longrightarrow> show_nat (numeral k) = [digit_char (numeral k)]"
  "\<not> numeral k < (10::nat) \<Longrightarrow>
     show_nat (numeral k) = show_nat (numeral k div 10) @ [digit_char (numeral k mod 10)]"
  "show_nat 0 = ''0''" "show_nat 1 = ''1''"
  "show_nat (Suc 0) = ''1''"
  by (simp_all add: show_nat.simps digit_char_def char_of_def bit_0)

subsection \<open>Facts about trimming\<close>

lemma dropWhile_fixpoint: "dropWhile p (dropWhile p s) = dropWhile p s"
  by (induction s) auto

lemma trim_end_Nil_iff: "trim_end_matches p s = [] \<longleftrightarrow> (\<forall>c \<in> set s. p c)"
  by (simp add: trim_end_matches_def)

lemma hd_trim_end:
  "trim_end_matches p s \<noteq> [] \<Longrightarrow> hd (trim_end_matches p s) = hd s"
  by (induction s rule: rev_induct) (auto simp: trim_end_matches_def hd_append)

lemma trim_end_keeps_start:
  assumes "s = [] \<or> \<not> p (hd s)"
  shows "dropWhile p (trim_end_matches p s) = trim_end_matches p s"
proof (cases "trim_end_matches p s = []")
  case False
  then have "s \<noteq> []" by (auto simp: trim_end_matches_def)
  with False assms have "\<not> p (hd (trim_end_matches p s))"
    by (simp add: hd_trim_end)
  with False show ?thesis by (cases "trim_end_matches p s") auto
qed simp

lemma trim_matches_idem [simp]: "trim_matches p (trim_matches p s) = trim_matches p s"
proof -
  let ?t = "dropWhile p s"
  have "?t = [] \<or> \<not> p (hd ?t)"
    by (metis hd_dropWhile)
  then have "dropWhile p (trim_end_matches p ?t) = trim_end_matches p ?t"
    by (rule trim_end_keeps_start)
  then show ?thesis
    by (simp add: trim_matches_def trim_start_matches_def)
      (simp add: trim_end_matches_def dropWhile_fixpoint)
qed

lemma trim_idem [simp, text_simps]: "trim (trim s) = trim s"
  by (simp add: trim_def)

lemma dropWhile_map_inv: "(\<And>c. p (f c) = p c) \<Longrightarrow> dropWhile p (map f s) = map f (dropWhile p s)"
  by (induction s) auto

lemma trim_to_lowercase [text_simps]: "trim (to_lowercase s) = to_lowercase (trim s)"
  by (simp add: trim_def trim_matches_def trim_end_matches_def trim_start_matches_def
      to_lowercase_def dropWhile_map_inv rev_map)

lemma to_lowercase_idem [simp, text_simps]: "to_lowercase (to_lowercase s) = to_lowercase s"
  by (simp add: to_lowercase_def)

lemma set_trim_matches: "set (trim_matches p s) \<subseteq> set s"
  unfolding trim_matches_def trim_end_matches_def trim_start_matches_def
  by (metis set_dropWhileD set_rev subsetI)

lemma set_trim: "set (trim s) \<subseteq> set s"
  by (simp add: trim_def set_trim_matches)

lemma trim_Nil_iff: "trim s = [] \<longleftrightarrow> (\<forall>c \<in> set s. is_whitespace c)"
proof -
  have "(\<forall>c \<in> set (dropWhile is_whitespace s). is_whitespace c) \<longleftrightarrow> (\<forall>c \<in> set s. is_whitespace c)"
    by (induction s) auto
  then show ?thesis
    by (simp add: trim_def trim_matches_def trim_end_Nil_iff trim_start_matches_def)
qed

lemma dropWhile_none: "\<forall>c \<in> set s. \<not> p c \<Longrightarrow> dropWhile p s = s"
  by (cases s) auto

lemma trim_no_whitespace [text_simps]: "\<forall>c \<in> set s. \<not> is_whitespace c \<Longrightarrow> trim s = s"
  by (simp add: trim_def trim_matches_def trim_end_matches_def trim_start_matches_def
      dropWhile_none)

lemma utf8_len_append [simp]: "utf8_len (s @ t) = utf8_len s + utf8_len t"
  by (induction s) auto

lemma length_le_utf8_len: "length s \<le> utf8_len s"
  by (induction s) (auto simp: utf8_len_char_def)

lemma utf8_len_ascii: "\<forall>c \<in> set s. code c < 128 \<Longrightarrow> utf8_len s = length s"
  by (induction s) (auto simp: utf8_len_char_def)

subsection \<open>Facts about numbers as text\<close>

lemma code_digit_char [simp]: "d < 10 \<Longrightarrow> code (digit_char d) = 48 + d"
  by (simp add: digit_char_def)

lemma read_digits_snoc: "read_digits (s @ [c]) = 10 * read_digits s + (code c - 48)"
  by (simp add: read_digits_def)

lemma read_digits_show_nat [simp]: "read_digits (show_nat n) = n"
proof (induction n rule: show_nat.induct)
  case (1 n)
  show ?case
  proof (cases "n < 10")
    case True
    then show ?thesis
      by (simp add: show_nat.simps [of n]) (simp add: read_digits_def)
  next
    case False
    with 1 show ?thesis
      by (simp add: show_nat.simps [of n] read_digits_snoc)
  qed
qed

lemma show_nat_inject [simp]: "show_nat m = show_nat n \<longleftrightarrow> m = n"
  by (metis read_digits_show_nat)

lemma show_nat_not_Nil [simp]: "show_nat n \<noteq> []"
  by (subst show_nat.simps) simp

lemma show_nat_digits [shape_rules]: "c \<in> set (show_nat n) \<Longrightarrow> is_ascii_digit c"
proof (induction n arbitrary: c rule: show_nat.induct)
  case (1 n)
  show ?case
  proof (cases "n < 10")
    case True
    with 1(2) show ?thesis
      by (simp add: show_nat.simps [of n] is_ascii_digit_def)
  next
    case False
    with 1 show ?thesis
      by (auto simp: show_nat.simps [of n] is_ascii_digit_def)
  qed
qed

lemma length_show_nat: "n < 10 ^ Suc k \<Longrightarrow> length (show_nat n) \<le> Suc k"
proof (induction k arbitrary: n)
  case 0
  then show ?case by (simp add: show_nat.simps)
next
  case (Suc k)
  show ?case
  proof (cases "n < 10")
    case True
    then show ?thesis by (simp add: show_nat.simps)
  next
    case False
    from Suc.prems have "n div 10 < 10 ^ Suc k"
      by (simp add: less_mult_imp_div_less mult.commute)
    then have "length (show_nat (n div 10)) \<le> Suc k" by (rule Suc.IH)
    with False show ?thesis by (simp add: show_nat.simps [of n])
  qed
qed

lemma read_digits_zeros [simp]: "read_digits (replicate k (CHR ''0'') @ s) = read_digits s"
proof -
  have "foldl (\<lambda>n c. 10 * n + (code c - 48)) 0 (replicate k (CHR ''0'')) = 0"
    by (induction k) auto
  then show ?thesis by (simp add: read_digits_def)
qed

lemma read_digits_pad0 [simp]: "read_digits (pad0 w n) = n"
  by (simp add: pad0_def Let_def)

lemma pad0_inject [simp]: "pad0 w m = pad0 w n \<longleftrightarrow> m = n"
  by (metis read_digits_pad0)

lemma pad0_digits [shape_rules]: "c \<in> set (pad0 w n) \<Longrightarrow> is_ascii_digit c"
  by (auto simp: pad0_def Let_def is_ascii_digit_def dest: show_nat_digits)

lemma length_pad0 [simp]: "n < 10 ^ Suc k \<Longrightarrow> length (pad0 (Suc k) n) = Suc k"
  using length_show_nat [of n k] by (simp add: pad0_def Let_def)

subsection \<open>Saturating arithmetic\<close>

lemma unat_saturating_add:
  fixes a b :: "'a::len word"
  shows "unat (saturating_add a b) = min (2 ^ LENGTH('a) - 1) (unat a + unat b)"
proof (cases "unat a + unat b < 2 ^ LENGTH('a)")
  case True
  then show ?thesis by (simp add: saturating_add_def unat_word_ariths)
next
  case False
  then show ?thesis
    by (simp add: saturating_add_def unsigned_minus_1_eq_mask mask_eq_exp_minus_1)
qed

lemma unat_saturating_mul:
  fixes a b :: "'a::len word"
  shows "unat (saturating_mul a b) = min (2 ^ LENGTH('a) - 1) (unat a * unat b)"
proof (cases "unat a * unat b < 2 ^ LENGTH('a)")
  case True
  then show ?thesis by (simp add: saturating_mul_def unat_word_ariths)
next
  case False
  then show ?thesis
    by (simp add: saturating_mul_def unsigned_minus_1_eq_mask mask_eq_exp_minus_1)
qed

subsection \<open>Taking delimited text apart\<close>

lemma delimited_inject:
  assumes "a @ d # b = a' @ d # b'" and "d \<notin> set a" and "d \<notin> set a'"
  shows "a = a' \<and> b = b'"
proof -
  have "takeWhile (\<lambda>c. c \<noteq> d) (a @ d # b) = a" if "d \<notin> set a" for a b
    using that by (induction a) auto
  then have "a = a'" using assms by metis
  with assms(1) show ?thesis by simp
qed

lemma fixed_width_inject:
  "a @ b = a' @ b' \<Longrightarrow> length a = length a' \<Longrightarrow> a = a' \<and> b = b'"
  by simp

lemma strip_prefix_append [simp]: "strip_prefix p (p @ s) = Some s"
  by (induction p) auto

lemma strip_prefix_Some_iff: "strip_prefix p s = Some t \<longleftrightarrow> s = p @ t"
  by (induction p s rule: strip_prefix.induct) auto

lemma split_once_Some:
  "split_once d s = Some (a, b) \<Longrightarrow> s = a @ d # b \<and> d \<notin> set a"
  by (induction s arbitrary: a b) (auto split: if_splits)

lemma split_once_append [simp]: "d \<notin> set a \<Longrightarrow> split_once d (a @ d # b) = Some (a, b)"
  by (induction a) auto

end
