(* ===== verification/Issue_Model.thy ===== *)
theory Issue_Model
  imports Prelude
begin

section \<open>The tracker-neutral issue model (\<^verbatim>\<open>src/model.rs\<close>)\<close>

text \<open>
  The structs of \<^verbatim>\<open>src/model.rs\<close> as records, one field per Rust field with a
  two-letter prefix, its state normalisation, the native parent and subissue readers, the
  subissue gate that keeps a parent issue from being dispatched while a child is open, and
  the token accounting. \<^verbatim>\<open>BTreeMap<String, Value>\<close> is a map to JSON values and
  \<^verbatim>\<open>BTreeSet<String>\<close> a set of strings. The full-width punctuation and the Chinese
  negations that the exception reader also accepts are code points above 255, which the
  text model does not have.
\<close>

subsection \<open>Issues and pull requests\<close>

record BlockerRef =
  br_id :: "string option"
  br_identifier :: "string option"
  br_state :: "string option"

datatype LinkedPullRequestSource = Unknown | GithubNative | FallbackDiagnostic

record LinkedPullRequest =
  pr_id :: "string option"
  pr_number :: "u64 option"
  pr_url :: "string option"
  pr_state :: "string option"
  pr_is_draft :: "bool option"
  pr_merge_state_status :: "string option"
  pr_review_decision :: "string option"
  pr_base_ref_name :: "string option"
  pr_head_ref_name :: "string option"
  pr_head_sha :: "string option"
  pr_source :: LinkedPullRequestSource

definition is_github_native_linkage :: "LinkedPullRequest \<Rightarrow> bool" where
  "is_github_native_linkage p \<longleftrightarrow>
     pr_source p = GithubNative \<or>
     pr_source p = Unknown \<and> (case pr_id p of Some i \<Rightarrow> i \<noteq> [] | None \<Rightarrow> False)"

record TrackerIssue =
  ti_tracker_kind :: string
  ti_id :: string
  ti_item_id :: "string option"
  ti_identifier :: string
  ti_title :: string
  ti_description :: "string option"
  ti_url :: "string option"
  ti_state :: string
  ti_labels :: "string list"
  ti_assignees :: "string list"
  ti_priority :: "int option"
  ti_branch_name :: "string option"
  ti_linked_pull_requests :: "LinkedPullRequest list"
  ti_blocked_by :: "BlockerRef list"
  ti_project_fields :: "string \<rightharpoonup> json"
  ti_created_at :: "string option"
  ti_updated_at :: "string option"

record NativeSubissueStatus =
  ns_identifier :: string
  ns_project_state :: "string option"
  ns_github_state :: "string option"

definition normalize_state :: "string \<Rightarrow> string" where
  "normalize_state s = to_lowercase (trim s)"

definition normalized_state :: "TrackerIssue \<Rightarrow> string" where
  "normalized_state i = normalize_state (ti_state i)"

definition labels_lowercase :: "TrackerIssue \<Rightarrow> string list" where
  "labels_lowercase i = map to_lowercase (ti_labels i)"

subsection \<open>Native parents and subissues\<close>

definition issue_ref_from_value :: "json \<Rightarrow> string option" where
  "issue_ref_from_value v =
     or_else (Option.bind (json_get v ''identifier'') as_str)
       (or_else (as_str v)
         (map_option (\<lambda>n. ''#'' @ show_nat n) (Option.bind (json_get v ''number'') as_u64)))"

definition native_parent_identifier :: "TrackerIssue \<Rightarrow> string option" where
  "native_parent_identifier i =
     or_else
       (Option.bind (ti_project_fields i ''GitHub Native Parent'')
          (\<lambda>v. or_else (Option.bind (json_get v ''identifier'') as_str) (issue_ref_from_value v)))
       (Option.bind (ti_project_fields i ''Native Parent Issue'') as_str)"

definition is_native_subissue :: "TrackerIssue \<Rightarrow> bool" where
  "is_native_subissue i \<longleftrightarrow> native_parent_identifier i \<noteq> None"

definition normalize_issue_ref :: "string \<Rightarrow> string" where
  "normalize_issue_ref s = trim_start_matches (\<lambda>c. c = CHR ''#'') (trim s)"

definition issue_refs_match :: "string \<Rightarrow> string \<Rightarrow> bool" where
  "issue_refs_match l r \<longleftrightarrow> normalize_issue_ref l = normalize_issue_ref r"

text \<open>
  A second mention of the same issue only fills in what the first one did not say; the
  list keeps the first mention's spelling and position.
\<close>

definition merge_native_subissue_status ::
    "NativeSubissueStatus \<Rightarrow> NativeSubissueStatus \<Rightarrow> NativeSubissueStatus" where
  "merge_native_subissue_status e c =
     e\<lparr>ns_project_state := or_else (ns_project_state e) (ns_project_state c),
       ns_github_state := or_else (ns_github_state e) (ns_github_state c)\<rparr>"

fun push_native_subissue_status ::
    "NativeSubissueStatus list \<Rightarrow> NativeSubissueStatus \<Rightarrow> NativeSubissueStatus list" where
  "push_native_subissue_status [] c = [c]"
| "push_native_subissue_status (e # es) c =
     (if issue_refs_match (ns_identifier e) (ns_identifier c)
      then merge_native_subissue_status e c # es
      else e # push_native_subissue_status es c)"

definition parse_issue_state_pairs :: "string \<Rightarrow> (string \<times> string) list" where
  "parse_issue_state_pairs raw =
     List.map_filter
       (\<lambda>pair. Option.bind (split_once (CHR ''='') (trim pair))
          (\<lambda>(r, st). if trim r = [] \<or> trim st = [] then None else Some (trim r, trim st)))
       (split_on (CHR '','') raw)"

definition subissues_from_array :: "TrackerIssue \<Rightarrow> NativeSubissueStatus list" where
  "subissues_from_array i =
     (case Option.bind (ti_project_fields i ''GitHub Native Subissues'') as_array of
        None \<Rightarrow> []
      | Some vs \<Rightarrow>
          List.map_filter
            (\<lambda>v. map_option
               (\<lambda>r. \<lparr>ns_identifier = r,
                     ns_project_state = Option.bind (json_get v ''project_state'') as_str,
                     ns_github_state = Option.bind (json_get v ''state'') as_str\<rparr>)
               (issue_ref_from_value v)) vs)"

definition subissues_from_state_pairs :: "TrackerIssue \<Rightarrow> NativeSubissueStatus list" where
  "subissues_from_state_pairs i =
     (case Option.bind (ti_project_fields i ''Native Subissue Project States'') as_str of
        None \<Rightarrow> []
      | Some raw \<Rightarrow>
          map (\<lambda>(r, st). \<lparr>ns_identifier = r, ns_project_state = Some st, ns_github_state = None\<rparr>)
            (parse_issue_state_pairs raw))"

definition subissues_from_list :: "TrackerIssue \<Rightarrow> NativeSubissueStatus list" where
  "subissues_from_list i =
     (case Option.bind (ti_project_fields i ''Native Subissues'') as_str of
        None \<Rightarrow> []
      | Some raw \<Rightarrow>
          map (\<lambda>r. \<lparr>ns_identifier = r, ns_project_state = None, ns_github_state = None\<rparr>)
            (filter (\<lambda>r. r \<noteq> []) (map trim (split_on (CHR '','') raw))))"

definition native_subissue_statuses :: "TrackerIssue \<Rightarrow> NativeSubissueStatus list" where
  "native_subissue_statuses i =
     foldl push_native_subissue_status []
       (subissues_from_array i @ subissues_from_state_pairs i @ subissues_from_list i)"

definition subissue_incomplete :: "string set \<Rightarrow> NativeSubissueStatus \<Rightarrow> bool" where
  "subissue_incomplete terminal n =
     (case ns_project_state n of None \<Rightarrow> True | Some st \<Rightarrow> normalize_state st \<notin> terminal)"

definition incomplete_native_subissues ::
    "TrackerIssue \<Rightarrow> string set \<Rightarrow> NativeSubissueStatus list" where
  "incomplete_native_subissues i terminal =
     filter (subissue_incomplete terminal) (native_subissue_statuses i)"

definition native_subissue_gate_blocker :: "TrackerIssue \<Rightarrow> string set \<Rightarrow> string option" where
  "native_subissue_gate_blocker i terminal =
     (let incomplete = incomplete_native_subissues i terminal in
      if incomplete = [] then None
      else Some (''blocked by incomplete native subissues: '' @
        join '', ''
          (map (\<lambda>n. ns_identifier n @ ''='' @ unwrap_or (ns_project_state n) ''missing Project status'')
             incomplete)))"

subsection \<open>The Human Review exception of a subissue\<close>

definition exception_trim_char :: "char \<Rightarrow> bool" where
  "exception_trim_char c \<longleftrightarrow> is_whitespace c \<or> c \<in> set ''`*_.,;:'' \<or> code c = 34 \<or> code c = 39"

definition normalize_exception_value :: "string \<Rightarrow> string" where
  "normalize_exception_value v = to_lowercase (trim_matches exception_trim_char v)"

definition exception_value_is_truthy :: "string \<Rightarrow> bool" where
  "exception_value_is_truthy v \<longleftrightarrow>
     (let n = normalize_exception_value v in
      n \<noteq> [] \<and>
      n \<notin> set [''false'', ''no'', ''none'', ''n/a'', ''na'', ''not applicable'', ''not required'',
               ''not needed'', ''null'', ''nil''])"

definition field_value_after_label :: "string \<Rightarrow> string \<Rightarrow> string option" where
  "field_value_after_label line label =
     (case split_at_sub (to_ascii_lowercase label) (to_ascii_lowercase line) of
        None \<Rightarrow> None
      | Some (before, _) \<Rightarrow>
          (let after_label = trim_start (drop (length before + length label) line) in
           map_option trim
             (or_else (strip_prefix '':'' after_label)
               (or_else (strip_prefix ''='' after_label) (strip_prefix ''-'' after_label)))))"

definition exception_labels :: "string list" where
  "exception_labels =
     [''Subissue Human Review Exception'', ''Direct Human Review Exception'',
      ''Direct Human Review Required'', ''Requires Direct Human Review'',
      ''Requires Routine Direct Human Review'']"

definition description_has_truthy_subissue_human_review_exception :: "string \<Rightarrow> bool" where
  "description_has_truthy_subissue_human_review_exception d \<longleftrightarrow>
     (\<exists>line \<in> set (lines d). \<exists>label \<in> set exception_labels.
        case field_value_after_label line label of
          None \<Rightarrow> False
        | Some v \<Rightarrow> exception_value_is_truthy v)"

definition explicit_truthy_project_field :: "TrackerIssue \<Rightarrow> string \<Rightarrow> bool" where
  "explicit_truthy_project_field i f =
     (case ti_project_fields i f of
        Some (Bool b) \<Rightarrow> b
      | Some (String s) \<Rightarrow> exception_value_is_truthy s
      | _ \<Rightarrow> False)"

definition native_subissue_human_review_exception :: "TrackerIssue \<Rightarrow> bool" where
  "native_subissue_human_review_exception i \<longleftrightarrow>
     (if \<exists>f \<in> set [''Subissue Human Review Exception'', ''Direct Human Review Required'',
                   ''subissue_human_review_exception'', ''direct_human_review_required''].
           explicit_truthy_project_field i f
      then True
      else case ti_description i of
             None \<Rightarrow> False
           | Some d \<Rightarrow> description_has_truthy_subissue_human_review_exception d)"

subsection \<open>Gate decisions and runtime snapshots\<close>

datatype GateDecisionKind =
    Ready
  | ReadyWithAssumptions
  | NeedToClarify
  | TooBroad
  | Blocked
  | DuplicateAlreadyCovered

record GateDecision =
  gd_kind :: GateDecisionKind
  gd_missing :: "string list"
  gd_assumptions :: "string list"
  gd_notes :: "string list"

definition ready :: GateDecision where
  "ready = \<lparr>gd_kind = Ready, gd_missing = [], gd_assumptions = [], gd_notes = []\<rparr>"

definition is_dispatchable :: "GateDecision \<Rightarrow> bool" where
  "is_dispatchable d \<longleftrightarrow> gd_kind d \<in> {Ready, ReadyWithAssumptions}"

record RunningSnapshot =
  rs_issue_id :: string
  rs_identifier :: string
  rs_state :: string
  rs_backend :: string
  rs_workspace_path :: "string option"
  rs_session_id :: "string option"
  rs_profile_id :: "string option"
  rs_instance_name :: "string option"

record SessionStatusSnapshot =
  ss_session_id :: string
  ss_lane :: string
  ss_backend :: string
  ss_run_id :: "string option"
  ss_status :: string
  ss_evidence_source :: string
  ss_evidence :: string
  ss_issue_identifier :: "string option"
  ss_issue_title :: "string option"
  ss_attach_command :: "string option"
  ss_log_path :: "string option"
  ss_updated_at_ms :: u64

record RetrySnapshot =
  ry_issue_id :: string
  ry_identifier :: string
  ry_attempt :: u32
  ry_due_in_ms :: u64
  ry_error :: "string option"

record LatestStatus =
  ls_lane :: string
  ls_category :: string
  ls_action :: string
  ls_issue_identifier :: "string option"
  ls_issue_title :: "string option"
  ls_actor_label :: "string option"
  ls_workspace :: "string option"
  ls_branch :: "string option"
  ls_session_id :: "string option"
  ls_next :: "string option"

record SkippedIssue =
  sk_issue_id :: string
  sk_identifier :: string
  sk_reason :: string
  sk_gate :: "GateDecision option"

record PollingSnapshot =
  ps_checking :: bool
  ps_next_poll_in_ms :: "u64 option"
  ps_poll_interval_ms :: u64

record TokenTotals =
  tt_input_tokens :: u64
  tt_output_tokens :: u64
  tt_total_tokens :: u64
  tt_seconds_running :: u64

definition token_totals_default :: TokenTotals where
  "token_totals_default =
     \<lparr>tt_input_tokens = 0, tt_output_tokens = 0, tt_total_tokens = 0, tt_seconds_running = 0\<rparr>"

datatype AgentEvent =
    SessionStarted string string
  | Message string "string option" string
  | TokenUsage string u64 u64 u64
  | Completed string "string option" string
  | Failed string string

text \<open>One turn of the accounting loop: the running totals and the latest reported total.\<close>

fun token_step :: "TokenTotals \<times> u64 \<Rightarrow> AgentEvent \<Rightarrow> TokenTotals \<times> u64" where
  "token_step (t, latest) (TokenUsage b i out tot) =
     (t\<lparr>tt_input_tokens := saturating_add (tt_input_tokens t) i,
        tt_output_tokens := saturating_add (tt_output_tokens t) out\<rparr>, tot)"
| "token_step (t, latest) _ = (t, latest)"

definition from_agent_events :: "AgentEvent list \<Rightarrow> TokenTotals" where
  "from_agent_events es =
     (let (t, latest) = foldl token_step (token_totals_default, 0) es;
          summed = saturating_add (tt_input_tokens t) (tt_output_tokens t)
      in t\<lparr>tt_total_tokens := max summed latest\<rparr>)"

record RuntimeSnapshot =
  sn_planned :: "RunningSnapshot list"
  sn_running :: "RunningSnapshot list"
  sn_retrying :: "RetrySnapshot list"
  sn_codex_totals :: TokenTotals
  sn_polling :: PollingSnapshot
  sn_sessions :: "SessionStatusSnapshot list"
  sn_skipped :: "SkippedIssue list"
  sn_integration_gaps :: "string list"
  sn_latest_status :: "LatestStatus option"
  sn_event_log_path :: "string option"

text \<open>A minimal issue with a given identifier and state, for the concrete instances.\<close>

definition sample_issue :: "string \<Rightarrow> string \<Rightarrow> TrackerIssue" where
  "sample_issue n state =
     \<lparr>ti_tracker_kind = ''memory'', ti_id = n, ti_item_id = None, ti_identifier = ''#'' @ n,
      ti_title = ''Title'', ti_description = Some ''Body'', ti_url = None, ti_state = state,
      ti_labels = [], ti_assignees = [], ti_priority = None, ti_branch_name = None,
      ti_linked_pull_requests = [], ti_blocked_by = [], ti_project_fields = Map.empty,
      ti_created_at = None, ti_updated_at = None\<rparr>"

subsection \<open>Facts: state normalisation\<close>

lemma normalize_state_idem [simp]: "normalize_state (normalize_state s) = normalize_state s"
  by (simp add: normalize_state_def trim_to_lowercase)

lemma normalize_state_blank_iff: "normalize_state s = [] \<longleftrightarrow> blank s"
  by (simp add: normalize_state_def to_lowercase_def)

subsection \<open>Facts: subissue statuses\<close>

abbreviation ref_key :: "NativeSubissueStatus \<Rightarrow> string" where
  "ref_key n \<equiv> normalize_issue_ref (ns_identifier n)"

text \<open>The mentions of subissues in the order in which the reader meets them.\<close>

definition subissue_mentions :: "TrackerIssue \<Rightarrow> NativeSubissueStatus list" where
  "subissue_mentions i =
     subissues_from_array i @ subissues_from_state_pairs i @ subissues_from_list i"

lemma ref_key_merge [simp]: "ref_key (merge_native_subissue_status e c) = ref_key e"
  by (simp add: merge_native_subissue_status_def)

lemma push_ref_keys:
  "map ref_key (push_native_subissue_status es c) =
     (if ref_key c \<in> set (map ref_key es) then map ref_key es else map ref_key es @ [ref_key c])"
  by (induction es) (auto simp: issue_refs_match_def)

lemma push_distinct:
  "distinct (map ref_key es) \<Longrightarrow> distinct (map ref_key (push_native_subissue_status es c))"
  by (simp add: push_ref_keys)

lemma foldl_push_distinct:
  "distinct (map ref_key es) \<Longrightarrow>
   distinct (map ref_key (foldl push_native_subissue_status es cs))"
proof (induction cs arbitrary: es)
  case (Cons c cs)
  then show ?case using push_distinct by auto
qed simp

text \<open>What the list says about one key: \<^term>\<open>None\<close> when the key is not listed.\<close>

definition state_of_key :: "string \<Rightarrow> NativeSubissueStatus list \<Rightarrow> string option option" where
  "state_of_key k es = map_option ns_project_state (find (\<lambda>n. ref_key n = k) es)"

lemma state_of_key_push:
  "state_of_key k (push_native_subissue_status es c) =
     (if ref_key c = k
      then Some (case state_of_key k es of
                   None \<Rightarrow> ns_project_state c
                 | Some st \<Rightarrow> or_else st (ns_project_state c))
      else state_of_key k es)"
  by (induction es)
    (auto simp: state_of_key_def issue_refs_match_def merge_native_subissue_status_def)

lemma find_map_append: "find_map f (xs @ ys) = or_else (find_map f xs) (find_map f ys)"
  by (induction xs) (auto split: option.splits)

lemma or_else_assoc: "or_else (or_else a b) c = or_else a (or_else b c)"
  by (cases a) auto

lemma state_of_key_foldl:
  "state_of_key k (foldl push_native_subissue_status es cs) =
     (let ms = filter (\<lambda>n. ref_key n = k) cs in
      case state_of_key k es of
        None \<Rightarrow> if ms = [] then None else Some (find_map ns_project_state ms)
      | Some st \<Rightarrow> Some (or_else st (find_map ns_project_state ms)))"
proof (induction cs arbitrary: es)
  case Nil
  have "or_else st None = st" for st :: "string option" by (cases st) auto
  then show ?case by (auto split: option.splits)
next
  case (Cons c cs)
  then show ?case
    by (auto simp: state_of_key_push Let_def or_else_assoc split: option.splits)
qed

lemma statuses_as_fold:
  "native_subissue_statuses i = foldl push_native_subissue_status [] (subissue_mentions i)"
  by (simp add: native_subissue_statuses_def subissue_mentions_def)

lemma statuses_distinct: "distinct (map ref_key (native_subissue_statuses i))"
  by (simp add: statuses_as_fold foldl_push_distinct)

lemma incomplete_iff:
  "\<not> subissue_incomplete T n \<longleftrightarrow> (\<exists>st. ns_project_state n = Some st \<and> normalize_state st \<in> T)"
  by (auto simp: subissue_incomplete_def split: option.splits)

lemma gate_blocker_None_iff:
  "native_subissue_gate_blocker i T = None \<longleftrightarrow>
     (\<forall>n \<in> set (native_subissue_statuses i). \<not> subissue_incomplete T n)"
  by (auto simp: native_subissue_gate_blocker_def incomplete_native_subissues_def Let_def
      filter_empty_conv)

subsection \<open>Facts: token accounting\<close>

fun usage_input :: "AgentEvent \<Rightarrow> nat" where
  "usage_input (TokenUsage b i out tot) = unat i"
| "usage_input _ = 0"

fun usage_output :: "AgentEvent \<Rightarrow> nat" where
  "usage_output (TokenUsage b i out tot) = unat out"
| "usage_output _ = 0"

definition cap64 :: "nat \<Rightarrow> nat" where
  "cap64 n = min (2 ^ 64 - 1) n"

lemma cap64_add: "cap64 (cap64 m + n) = cap64 (m + n)"
  by (auto simp: cap64_def)

lemma token_fold_sums:
  assumes "foldl token_step (t, l) es = (t', l')"
  shows "unat (tt_input_tokens t') = cap64 (unat (tt_input_tokens t) + sum_list (map usage_input es))"
    and "unat (tt_output_tokens t') = cap64 (unat (tt_output_tokens t) + sum_list (map usage_output es))"
proof -
  have base: "cap64 (unat (w :: u64)) = unat w" for w
  proof -
    have "unat w < 2 ^ LENGTH(64)" by (rule unsigned_less)
    then show ?thesis by (simp add: cap64_def)
  qed
  have sat: "unat (saturating_add a b) = cap64 (unat a + unat b)" for a b :: u64
    by (simp add: unat_saturating_add cap64_def)
  have "unat (tt_input_tokens t') = cap64 (unat (tt_input_tokens t) + sum_list (map usage_input es)) \<and>
    unat (tt_output_tokens t') = cap64 (unat (tt_output_tokens t) + sum_list (map usage_output es))"
    using assms
  proof (induction es arbitrary: t l)
    case Nil
    then show ?case by (simp add: base)
  next
    case (Cons e es)
    then show ?case
      by (cases e) (fastforce simp: sat cap64_add add.assoc)+
  qed
  then show "unat (tt_input_tokens t') = cap64 (unat (tt_input_tokens t) + sum_list (map usage_input es))"
    and "unat (tt_output_tokens t') = cap64 (unat (tt_output_tokens t) + sum_list (map usage_output es))"
    by simp_all
qed


subsection \<open>Properties\<close>

lemma foldl_push_keys:
  "set (map ref_key (foldl push_native_subissue_status es cs)) =
     set (map ref_key es) \<union> set (map ref_key cs)"
proof (induction cs arbitrary: es)
  case (Cons c cs)
  show ?case unfolding foldl_Cons Cons.IH push_ref_keys by auto
qed simp

lemma state_of_key_statuses:
  "state_of_key k (native_subissue_statuses i) =
     (let ms = filter (\<lambda>n. ref_key n = k) (subissue_mentions i) in
      if ms = [] then None else Some (find_map ns_project_state ms))"
  by (simp add: statuses_as_fold state_of_key_foldl state_of_key_def [of _ "[]"])

lemma state_of_key_member:
  "distinct (map ref_key es) \<Longrightarrow> n \<in> set es \<Longrightarrow> state_of_key (ref_key n) es = Some (ns_project_state n)"
proof (induction es)
  case (Cons e es)
  then show ?case
    by (cases "e = n") (auto simp: state_of_key_def image_iff)
qed simp

text \<open>However often and in whichever of the three project fields a native subissue is
  mentioned, the issue lists it once, and its project state is the first one any mention
  states.\<close>

theorem subissue_first_state_wins:
  "distinct (map ref_key (native_subissue_statuses i)) \<and>
   state_of_key k (native_subissue_statuses i) =
     (let ms = filter (\<lambda>n. ref_key n = k) (subissue_mentions i) in
      if ms = [] then None else Some (find_map ns_project_state ms))"
  using statuses_distinct state_of_key_statuses by blast

text \<open>A parent issue passes the subissue gate exactly when the first project state stated
  for every mentioned subissue is terminal; a subissue without a project state blocks it.\<close>

theorem subissue_gate_passes_iff:
  "native_subissue_gate_blocker i T = None \<longleftrightarrow>
     set (map ref_key (subissue_mentions i)) \<subseteq>
       {k. \<exists>st. find_map ns_project_state (filter (\<lambda>n. ref_key n = k) (subissue_mentions i)) = Some st \<and>
             normalize_state st \<in> T}"
  (is "?gate \<longleftrightarrow> ?keys \<subseteq> ?closed")
proof -
  let ?ss = "native_subissue_statuses i"
  have keys: "set (map ref_key ?ss) = ?keys"
    by (simp only: statuses_as_fold foldl_push_keys) simp
  have closed: "ref_key n \<in> ?closed \<longleftrightarrow> \<not> subissue_incomplete T n" if n: "n \<in> set ?ss" for n
  proof -
    have "Some (ns_project_state n) = state_of_key (ref_key n) ?ss"
      using state_of_key_member [OF statuses_distinct n] by simp
    also have "\<dots> = Some (find_map ns_project_state
        (filter (\<lambda>m. ref_key m = ref_key n) (subissue_mentions i)))"
      using calculation by (auto simp: state_of_key_statuses Let_def split: if_splits)
    finally show ?thesis by (simp add: incomplete_iff)
  qed
  have "?gate \<longleftrightarrow> (\<forall>n \<in> set ?ss. ref_key n \<in> ?closed)"
    using closed by (auto simp: gate_blocker_None_iff)
  also have "\<dots> \<longleftrightarrow> set (map ref_key ?ss) \<subseteq> ?closed"
    by (simp add: image_subset_iff)
  finally show ?thesis unfolding keys .
qed

fun reported_totals :: "AgentEvent list \<Rightarrow> u64 list" where
  "reported_totals [] = []"
| "reported_totals (TokenUsage b i out tot # es) = tot # reported_totals es"
| "reported_totals (_ # es) = reported_totals es"

lemma token_fold_latest: "snd (foldl token_step (t, l) es) = last (l # reported_totals es)"
proof (induction es arbitrary: t l)
  case (Cons e es)
  then show ?case by (cases e) simp_all
qed simp

text \<open>The input and output totals are the sums of the reported amounts, held at
  \<open>2^64 - 1\<close>, and the total is the larger of their (held) sum and the last reported total:
  no report makes a total smaller than what was counted, and no sum wraps around.\<close>

theorem token_totals_saturate:
  "unat (tt_input_tokens (from_agent_events es)) = cap64 (sum_list (map usage_input es)) \<and>
   unat (tt_output_tokens (from_agent_events es)) = cap64 (sum_list (map usage_output es)) \<and>
   tt_total_tokens (from_agent_events es) =
     max (saturating_add (tt_input_tokens (from_agent_events es)) (tt_output_tokens (from_agent_events es)))
       (last (0 # reported_totals es)) \<and>
   tt_seconds_running (from_agent_events es) = 0"
proof -
  obtain t l where f: "foldl token_step (token_totals_default, 0) es = (t, l)"
    by (cases "foldl token_step (token_totals_default, 0) es")
  have secs: "tt_seconds_running (fst (foldl token_step tl es)) = tt_seconds_running (fst tl)" for tl
  proof (induction es arbitrary: tl)
    case (Cons e es)
    then show ?case by (cases tl; cases e) simp_all
  qed simp
  show ?thesis
    using token_fold_sums [OF f] secs [of "(token_totals_default, 0)"]
      token_fold_latest [of "token_totals_default" 0 es] f
    by (simp add: from_agent_events_def Let_def token_totals_default_def)
qed

end
