(* ===== verification/Config.thy ===== *)
theory Config
  imports Prelude
begin

section \<open>Runtime configuration (\<^verbatim>\<open>src/config.rs\<close>)\<close>

text \<open>
  The configuration structs, one record per struct and one field per field. Counts (\<^verbatim>\<open>usize\<close>)
  are natural numbers. The raw copy of the parsed front matter is kept as a JSON value.
\<close>

record StateMap =
  sm_backlog :: string
  sm_todo :: string
  sm_need_to_clarify :: string
  sm_in_progress :: string
  sm_need_human_input :: string
  sm_agent_review :: string
  sm_human_review :: string
  sm_rework :: string
  sm_merging :: string
  sm_done :: string

record AssigneeFilter =
  af_source :: string
  af_additional_assignees :: "string list"

record WorkpadConfig =
  wc_source :: string
  wc_marker :: string

record TrackerConfig =
  tc_kind :: string
  tc_endpoint :: "string option"
  tc_api_key :: "string option"
  tc_owner :: "string option"
  tc_repo :: "string option"
  tc_project_owner :: "string option"
  tc_project_owner_type :: "string option"
  tc_project_number :: "u64 option"
  tc_project_slug :: "string option"
  tc_status_field :: string
  tc_state_map :: StateMap
  tc_assignee_filter :: AssigneeFilter
  tc_workpad :: WorkpadConfig
  tc_active_states :: "string list"
  tc_terminal_states :: "string list"
  tc_fixture_path :: "string option"

record GitConfig =
  gc_base_branch :: string

record TemporalTaskQueuesConfig =
  tmq_core :: string
  tmq_agent :: string
  tmq_local :: string

record TemporalWorkerConfig =
  tmw_core_concurrency :: nat
  tmw_agent_concurrency :: nat
  tmw_local_concurrency :: nat

record TemporalConfig =
  tmp_address :: string
  tmp_namespace :: string
  tmp_task_queues :: TemporalTaskQueuesConfig
  tmp_worker :: TemporalWorkerConfig

record PollingConfig =
  pc_interval_ms :: u64

record WorkspaceConfig =
  wsp_root :: string

record WorkerConfig =
  wrk_ssh_hosts :: "string list"
  wrk_max_concurrent_agents_per_host :: "int option"

record HooksConfig =
  hks_after_create :: "string option"
  hks_before_run :: "string option"
  hks_after_run :: "string option"
  hks_before_remove :: "string option"
  hks_timeout_ms :: u64

record AgentConfig =
  ac_max_concurrent_agents :: nat
  ac_max_turns :: u32
  ac_max_retry_backoff_ms :: u64
  ac_max_concurrent_agents_by_state :: "string \<rightharpoonup> nat"
  ac_backend :: string

record BackendConfig =
  bc_kind :: string

record CodexConfig =
  cdx_command :: string
  cdx_model :: "string option"
  cdx_reasoning_effort :: string
  cdx_approval_policy :: json
  cdx_thread_sandbox :: string
  cdx_turn_sandbox_policy :: "json option"
  cdx_turn_timeout_ms :: u64
  cdx_read_timeout_ms :: u64
  cdx_stall_timeout_ms :: u64
  cdx_session_stale_after_ms :: u64

record ClaudeConfig =
  cld_command :: string
  cld_turn_timeout_ms :: u64

record TmuxConfig =
  tmx_command :: string
  tmx_agent_command :: string
  tmx_main_agent_command :: "string option"
  tmx_review_agent_command :: "string option"
  tmx_merge_agent_command :: "string option"
  tmx_session_prefix :: string

record ReviewConfig =
  rvw_backend :: string
  rvw_gemini_command :: string
  rvw_gemini_model :: "string option"
  rvw_gemini_allowed_tools :: "string list"
  rvw_agy_command :: string
  rvw_agy_model :: "string option"
  rvw_claude_command :: string
  rvw_codex_command :: string
  rvw_codex_approval_policy :: json
  rvw_codex_thread_sandbox :: string
  rvw_codex_turn_sandbox_policy :: "json option"
  rvw_timeout_ms :: u64
  rvw_max_concurrent_workers :: nat

record MergeLaneConfig =
  mgl_max_concurrent_workers :: nat
  mgl_agent_backend :: string

record IssueTemplatesConfig =
  ist_executable :: string

record LlmQualityGateConfig =
  lqg_mode :: string
  lqg_command :: "string option"
  lqg_timeout_ms :: u64

record QualityGateConfig =
  qgt_llm :: LlmQualityGateConfig

record VerificationConfig =
  vrf_commands :: "string list"
  vrf_timeout_ms :: u64

record RuntimeProfileConfig =
  rtp_path :: string
  rtp_required :: bool
  rtp_timeout_ms :: u64

record CockpitToolsProfilesConfig =
  ckt_codex_instances_path :: "string option"

record ExecutionProfileConfig =
  epf_id :: string
  epf_instance_name :: "string option"
  epf_backend :: "string option"
  epf_workspace_namespace :: "string option"
  epf_user_data_dir :: "string option"
  epf_working_dir :: "string option"
  epf_extra_args :: "string option"
  epf_env :: "string \<rightharpoonup> string"

record ProfilesConfig =
  pfs_default :: "string option"
  pfs_cockpit_tools :: CockpitToolsProfilesConfig
  pfs_entries :: "ExecutionProfileConfig list"

record GitIdentityConfig =
  gi_name :: "string option"
  gi_email :: "string option"
  gi_signing_key :: "string option"
  gi_extra :: "string \<rightharpoonup> string"

record IdentityConfig =
  ic_actor_role :: string
  ic_actor_label :: string
  ic_git :: GitIdentityConfig

record ArtifactConfig =
  art_root :: string
  art_namespace :: "string option"

record ObservabilityConfig =
  obs_dashboard_enabled :: bool
  obs_refresh_ms :: u64
  obs_render_interval_ms :: u64
  obs_logs_root :: string

record ServerConfig =
  srv_port :: "16 word option"
  srv_host :: string

record RuntimeConfig =
  rc_tracker :: TrackerConfig
  rc_git :: GitConfig
  rc_temporal :: TemporalConfig
  rc_polling :: PollingConfig
  rc_workspace :: WorkspaceConfig
  rc_worker :: WorkerConfig
  rc_hooks :: HooksConfig
  rc_agent :: AgentConfig
  rc_backend :: BackendConfig
  rc_codex :: CodexConfig
  rc_claude :: ClaudeConfig
  rc_tmux :: TmuxConfig
  rc_review :: ReviewConfig
  rc_merge_lane :: MergeLaneConfig
  rc_issue_templates :: IssueTemplatesConfig
  rc_quality_gate :: QualityGateConfig
  rc_verification :: VerificationConfig
  rc_profiles :: ProfilesConfig
  rc_runtime_profile :: RuntimeProfileConfig
  rc_identity :: IdentityConfig
  rc_artifacts :: ArtifactConfig
  rc_observability :: ObservabilityConfig
  rc_server :: ServerConfig
  rc_raw :: json

definition git_base_branch :: "RuntimeConfig \<Rightarrow> string" where
  "git_base_branch c = gc_base_branch (rc_git c)"

definition DEFAULT_CODEX_COMMAND :: string where
  "DEFAULT_CODEX_COMMAND = ''codex app-server -c '' @ [char_of (39 :: nat)] @ ''service_tier='' @ [char_of (34 :: nat)] @ ''fast'' @ [char_of (34 :: nat)] @ [char_of (39 :: nat)]"

definition normalized_nonblank :: "string list \<Rightarrow> string list" where
  "normalized_nonblank ss = filter (\<lambda>s. s \<noteq> []) (map (\<lambda>s. to_lowercase (trim s)) ss)"

definition active_state_set :: "RuntimeConfig \<Rightarrow> string list" where
  "active_state_set c = normalized_nonblank (tc_active_states (rc_tracker c))"

definition terminal_state_set :: "RuntimeConfig \<Rightarrow> string list" where
  "terminal_state_set c = normalized_nonblank (tc_terminal_states (rc_tracker c))"

text \<open>The state map the repository ships, used by the concrete instances.\<close>

definition default_state_map :: StateMap where
  "default_state_map =
     \<lparr>sm_backlog = ''Backlog'', sm_todo = ''Todo'', sm_need_to_clarify = ''Need to Clarify'',
      sm_in_progress = ''In Progress'', sm_need_human_input = ''Need Human Input'',
      sm_agent_review = ''Agent Review'', sm_human_review = ''Human Review'',
      sm_rework = ''Rework'', sm_merging = ''Merging'', sm_done = ''Done''\<rparr>"

definition example_config :: "nat \<Rightarrow> RuntimeConfig" where
  "example_config slots =
     \<lparr>rc_tracker =
        \<lparr>tc_kind = ''github_project_v2'', tc_endpoint = None, tc_api_key = None,
         tc_owner = Some ''Alive24'', tc_repo = Some ''shea-symphony'', tc_project_owner = None,
         tc_project_owner_type = None, tc_project_number = None, tc_project_slug = None,
         tc_status_field = ''Status'', tc_state_map = default_state_map,
         tc_assignee_filter = \<lparr>af_source = ''current'', af_additional_assignees = []\<rparr>,
         tc_workpad = \<lparr>wc_source = ''comment'', wc_marker = ''workpad''\<rparr>,
         tc_active_states = [''Todo'', ''In Progress'', ''Rework''],
         tc_terminal_states = [''Done''], tc_fixture_path = None\<rparr>,
      rc_git = \<lparr>gc_base_branch = ''main''\<rparr>,
      rc_temporal = \<lparr>tmp_address = ''localhost:7233'', tmp_namespace = ''default'',
        tmp_task_queues = \<lparr>tmq_core = ''symphony-core'', tmq_agent = ''symphony-agent'', tmq_local = ''symphony-local''\<rparr>,
        tmp_worker = \<lparr>tmw_core_concurrency = 3, tmw_agent_concurrency = 3, tmw_local_concurrency = 8\<rparr>\<rparr>,
      rc_polling = \<lparr>pc_interval_ms = 30000\<rparr>,
      rc_workspace = \<lparr>wsp_root = ''/w''\<rparr>,
      rc_worker = \<lparr>wrk_ssh_hosts = [], wrk_max_concurrent_agents_per_host = None\<rparr>,
      rc_hooks = \<lparr>hks_after_create = None, hks_before_run = None, hks_after_run = None,
        hks_before_remove = None, hks_timeout_ms = 60000\<rparr>,
      rc_agent =
        \<lparr>ac_max_concurrent_agents = slots, ac_max_turns = 20, ac_max_retry_backoff_ms = 300000,
         ac_max_concurrent_agents_by_state = Map.empty, ac_backend = ''codex''\<rparr>,
      rc_backend = \<lparr>bc_kind = ''codex''\<rparr>,
      rc_codex = \<lparr>cdx_command = DEFAULT_CODEX_COMMAND, cdx_model = None, cdx_reasoning_effort = ''high'',
        cdx_approval_policy = String ''never'', cdx_thread_sandbox = ''workspace-write'',
        cdx_turn_sandbox_policy = None, cdx_turn_timeout_ms = 3600000, cdx_read_timeout_ms = 5000,
        cdx_stall_timeout_ms = 300000, cdx_session_stale_after_ms = 1800000\<rparr>,
      rc_claude = \<lparr>cld_command = ''claude'', cld_turn_timeout_ms = 3600000\<rparr>,
      rc_tmux = \<lparr>tmx_command = ''tmux'', tmx_agent_command = ''codex'', tmx_main_agent_command = None,
        tmx_review_agent_command = None, tmx_merge_agent_command = None, tmx_session_prefix = ''shea''\<rparr>,
      rc_review = \<lparr>rvw_backend = ''fake'', rvw_gemini_command = ''gemini'', rvw_gemini_model = None,
        rvw_gemini_allowed_tools = [], rvw_agy_command = ''agy'', rvw_agy_model = None,
        rvw_claude_command = ''claude'', rvw_codex_command = DEFAULT_CODEX_COMMAND,
        rvw_codex_approval_policy = String ''never'', rvw_codex_thread_sandbox = ''read-only'',
        rvw_codex_turn_sandbox_policy = None, rvw_timeout_ms = 600000, rvw_max_concurrent_workers = 1\<rparr>,
      rc_merge_lane = \<lparr>mgl_max_concurrent_workers = 1, mgl_agent_backend = ''codex''\<rparr>,
      rc_issue_templates = \<lparr>ist_executable = ''/w/template/issue/executable.md''\<rparr>,
      rc_quality_gate = \<lparr>qgt_llm = \<lparr>lqg_mode = ''disabled'', lqg_command = None, lqg_timeout_ms = 120000\<rparr>\<rparr>,
      rc_verification = \<lparr>vrf_commands = [], vrf_timeout_ms = 600000\<rparr>,
      rc_profiles = \<lparr>pfs_default = None, pfs_cockpit_tools = \<lparr>ckt_codex_instances_path = None\<rparr>, pfs_entries = []\<rparr>,
      rc_runtime_profile = \<lparr>rtp_path = ''/w/runtime-profile.json'', rtp_required = False, rtp_timeout_ms = 10000\<rparr>,
      rc_identity = \<lparr>ic_actor_role = ''agent'', ic_actor_label = ''Shea Symphony Agent'',
        ic_git = \<lparr>gi_name = None, gi_email = None, gi_signing_key = None, gi_extra = Map.empty\<rparr>\<rparr>,
      rc_artifacts = \<lparr>art_root = ''/w/artifacts'', art_namespace = None\<rparr>,
      rc_observability = \<lparr>obs_dashboard_enabled = True, obs_refresh_ms = 1000, obs_render_interval_ms = 16,
        obs_logs_root = ''/w/log''\<rparr>,
      rc_server = \<lparr>srv_port = None, srv_host = ''127.0.0.1''\<rparr>,
      rc_raw = Null\<rparr>"

lemma terminal_state_nonblank: "s \<in> set (terminal_state_set c) \<Longrightarrow> s \<noteq> []"
  by (simp add: terminal_state_set_def normalized_nonblank_def)

end
