(* ===== verification/Tracker_State.thy ===== *)
theory Tracker_State
  imports Config Issue_Model
begin

section \<open>Configured tracker states (\<^verbatim>\<open>src/tracker/state.rs\<close>)\<close>

text \<open>
  Symphony has ten canonical states; the configuration gives each a provider-facing
  display value. \<open>resolve_configured_tracker_state\<close> accepts a key or a display value, up
  to surrounding whitespace and case, and refuses an input that names no state or more
  than one. The claim decision, the assignee filter and the idempotent status update rest
  on it.
\<close>

record ResolvedTrackerState =
  rt_canonical_key :: string
  rt_display_value :: string

datatype TrackerStateResolutionError =
    UnknownInput string
  | AmbiguousConfiguration string "string list"

definition normalize_configured_state_input :: "string \<Rightarrow> string" where
  "normalize_configured_state_input s = to_lowercase (trim s)"

definition configured_states :: "StateMap \<Rightarrow> (string \<times> string) list" where
  "configured_states m =
     [(''backlog'', sm_backlog m),
      (''todo'', sm_todo m),
      (''need_to_clarify'', sm_need_to_clarify m),
      (''in_progress'', sm_in_progress m),
      (''need_human_input'', sm_need_human_input m),
      (''agent_review'', sm_agent_review m),
      (''human_review'', sm_human_review m),
      (''rework'', sm_rework m),
      (''merging'', sm_merging m),
      (''done'', sm_done m)]"

definition accepts :: "string \<Rightarrow> string \<times> string \<Rightarrow> bool" where
  "accepts n kd \<longleftrightarrow>
     n = normalize_configured_state_input (fst kd) \<or> n = normalize_configured_state_input (snd kd)"

definition resolve_configured_tracker_state ::
    "StateMap \<Rightarrow> string \<Rightarrow> (TrackerStateResolutionError, ResolvedTrackerState) result" where
  "resolve_configured_tracker_state m input =
     (case filter (accepts (normalize_configured_state_input input)) (configured_states m) of
        [] \<Rightarrow> Inl (UnknownInput input)
      | [(key, display)] \<Rightarrow> Inr \<lparr>rt_canonical_key = key, rt_display_value = display\<rparr>
      | matches \<Rightarrow> Inl (AmbiguousConfiguration input (sort (remdups (map fst matches)))))"

datatype ClaimDecision =
    AlreadyInProgress
  | Claimable
  | StopAndReplan string

definition claim_decision :: "TrackerIssue \<Rightarrow> RuntimeConfig \<Rightarrow> ClaimDecision" where
  "claim_decision i c =
     (case resolve_configured_tracker_state (tc_state_map (rc_tracker c)) (ti_state i) of
        Inr r \<Rightarrow>
          (if rt_canonical_key r = ''in_progress'' then AlreadyInProgress
           else if rt_canonical_key r \<in> {''todo'', ''rework''} then Claimable
           else StopAndReplan (ti_state i))
      | Inl _ \<Rightarrow> StopAndReplan (ti_state i))"

definition status_update_required :: "TrackerIssue \<Rightarrow> string \<Rightarrow> bool" where
  "status_update_required i target \<longleftrightarrow>
     normalize_configured_state_input (ti_state i) \<noteq> normalize_configured_state_input target"

definition status_is_mapped :: "string \<Rightarrow> RuntimeConfig \<Rightarrow> bool" where
  "status_is_mapped s c =
     (case resolve_configured_tracker_state (tc_state_map (rc_tracker c)) s of Inr _ \<Rightarrow> True | Inl _ \<Rightarrow> False)"

definition issue_matches_assignee_filter ::
    "TrackerIssue \<Rightarrow> AssigneeFilter \<Rightarrow> string option \<Rightarrow> bool" where
  "issue_matches_assignee_filter i f login =
     (if ti_assignees i = [] then False
      else let allowed = map normalize_state
                 ((case login of None \<Rightarrow> [] | Some l \<Rightarrow> [l]) @ af_additional_assignees f)
           in \<exists>a \<in> set (ti_assignees i). normalize_state a \<in> set allowed)"

definition configured_state_has_key :: "StateMap \<Rightarrow> string \<Rightarrow> string list \<Rightarrow> bool" where
  "configured_state_has_key m input keys =
     (case resolve_configured_tracker_state m input of
        Inr r \<Rightarrow> rt_canonical_key r \<in> set keys
      | Inl _ \<Rightarrow> False)"

subsection \<open>Facts about resolution\<close>

lemma fst_configured_states:
  "map fst (configured_states m) =
     [''backlog'', ''todo'', ''need_to_clarify'', ''in_progress'', ''need_human_input'',
      ''agent_review'', ''human_review'', ''rework'', ''merging'', ''done'']"
  by (simp add: configured_states_def)

lemma distinct_configured_keys: "distinct (map fst (configured_states m))"
  by (simp add: fst_configured_states)

lemma configured_key_functional:
  "(k, d) \<in> set (configured_states m) \<Longrightarrow> (k, d') \<in> set (configured_states m) \<Longrightarrow> d = d'"
  using distinct_configured_keys by (rule eq_key_imp_eq_value)

text \<open>The states an input names.\<close>

definition named_states :: "StateMap \<Rightarrow> string \<Rightarrow> (string \<times> string) set" where
  "named_states m input =
     {kd \<in> set (configured_states m). accepts (normalize_configured_state_input input) kd}"

lemma filter_singleton_iff:
  "distinct xs \<Longrightarrow> filter p xs = [x] \<longleftrightarrow> {y \<in> set xs. p y} = {x}"
proof -
  assume "distinct xs"
  then have "distinct (filter p xs)" by simp
  then have "filter p xs = [x] \<longleftrightarrow> set (filter p xs) = {x}"
    by (cases "filter p xs" rule: remdups_adj.cases) (auto simp: insert_eq_iff)
  then show ?thesis by (simp add: set_filter)
qed

lemma resolve_Inr_iff:
  "resolve_configured_tracker_state m input = Inr r \<longleftrightarrow>
     named_states m input = {(rt_canonical_key r, rt_display_value r)}"
proof -
  let ?f = "filter (accepts (normalize_configured_state_input input)) (configured_states m)"
  have d: "distinct (configured_states m)"
    using distinct_configured_keys [of m] by (simp add: distinct_map)
  have "resolve_configured_tracker_state m input = Inr r \<longleftrightarrow>
      ?f = [(rt_canonical_key r, rt_display_value r)]"
    by (auto simp: resolve_configured_tracker_state_def split: list.splits prod.splits)
  then show ?thesis
    by (simp add: filter_singleton_iff [OF d] named_states_def)
qed

lemma resolve_Unknown_iff:
  "resolve_configured_tracker_state m input = Inl (UnknownInput s) \<longleftrightarrow>
     named_states m input = {} \<and> s = input"
proof -
  let ?f = "filter (accepts (normalize_configured_state_input input)) (configured_states m)"
  have "named_states m input = {} \<longleftrightarrow> ?f = []"
    by (auto simp: named_states_def filter_empty_conv)
  then show ?thesis
    by (auto simp: resolve_configured_tracker_state_def split: list.splits prod.splits)
qed

lemma resolve_Ambiguous_iff:
  "(\<exists>s ks. resolve_configured_tracker_state m input = Inl (AmbiguousConfiguration s ks)) \<longleftrightarrow>
     2 \<le> card (named_states m input)"
proof -
  let ?f = "filter (accepts (normalize_configured_state_input input)) (configured_states m)"
  have "distinct ?f"
    using distinct_configured_keys [of m] by (simp add: distinct_map)
  moreover have "named_states m input = set ?f"
    by (auto simp: named_states_def)
  ultimately have "card (named_states m input) = length ?f"
    by (simp only: distinct_card)
  then show ?thesis
    by (auto simp: resolve_configured_tracker_state_def split: list.splits prod.splits)
qed

text \<open>A state map in which no two states share a spelling.\<close>

definition spellings :: "string \<times> string \<Rightarrow> string list" where
  "spellings kd =
     remdups [normalize_configured_state_input (fst kd), normalize_configured_state_input (snd kd)]"

definition unambiguous :: "StateMap \<Rightarrow> bool" where
  "unambiguous m \<longleftrightarrow> distinct (concat (map spellings (configured_states m)))"

lemma accepts_iff_spelling: "accepts n kd \<longleftrightarrow> n \<in> set (spellings kd)"
  by (auto simp: accepts_def spellings_def)

lemma distinct_concat_map_inj:
  "distinct (concat (map f xs)) \<Longrightarrow> x \<in> set xs \<Longrightarrow> y \<in> set xs \<Longrightarrow>
   z \<in> set (f x) \<Longrightarrow> z \<in> set (f y) \<Longrightarrow> x = y"
  by (induction xs) auto

lemma unambiguous_named_states:
  assumes "unambiguous m" and kd: "kd \<in> set (configured_states m)"
    and "accepts (normalize_configured_state_input input) kd"
  shows "named_states m input = {kd}"
proof -
  let ?n = "normalize_configured_state_input input"
  have "kd' = kd" if "kd' \<in> set (configured_states m)" and "accepts ?n kd'" for kd'
  proof (rule distinct_concat_map_inj)
    show "distinct (concat (map spellings (configured_states m)))"
      using assms(1) by (simp only: unambiguous_def)
    show "?n \<in> set (spellings kd')" "?n \<in> set (spellings kd)"
      using that assms(3) by (simp_all only: accepts_iff_spelling)
  qed (use that kd in simp_all)
  then show ?thesis
    unfolding named_states_def using kd assms(3) by blast
qed

lemmas state_eval =
  normalize_configured_state_input_def configured_states_def default_state_map_def

lemma normalized_spellings:
  "normalize_configured_state_input ''backlog'' = ''backlog''"
  "normalize_configured_state_input ''todo'' = ''todo''"
  "normalize_configured_state_input ''need_to_clarify'' = ''need_to_clarify''"
  "normalize_configured_state_input ''in_progress'' = ''in_progress''"
  "normalize_configured_state_input ''need_human_input'' = ''need_human_input''"
  "normalize_configured_state_input ''agent_review'' = ''agent_review''"
  "normalize_configured_state_input ''human_review'' = ''human_review''"
  "normalize_configured_state_input ''rework'' = ''rework''"
  "normalize_configured_state_input ''merging'' = ''merging''"
  "normalize_configured_state_input ''done'' = ''done''"
  "normalize_configured_state_input ''Backlog'' = ''backlog''"
  "normalize_configured_state_input ''Todo'' = ''todo''"
  "normalize_configured_state_input ''Need to Clarify'' = ''need to clarify''"
  "normalize_configured_state_input ''In Progress'' = ''in progress''"
  "normalize_configured_state_input ''Need Human Input'' = ''need human input''"
  "normalize_configured_state_input ''Agent Review'' = ''agent review''"
  "normalize_configured_state_input ''Human Review'' = ''human review''"
  "normalize_configured_state_input ''Rework'' = ''rework''"
  "normalize_configured_state_input ''Merging'' = ''merging''"
  "normalize_configured_state_input ''Done'' = ''done''"
  by (simp_all only: normalize_configured_state_input_def) (simp_all add: text_eval)

lemma default_state_map_unambiguous: "unambiguous default_state_map"
  by (simp add: unambiguous_def spellings_def configured_states_def default_state_map_def
      normalized_spellings)

lemma normalize_configured_idem [simp]:
  "normalize_configured_state_input (normalize_configured_state_input s) =
     normalize_configured_state_input s"
  by (simp add: normalize_configured_state_input_def trim_to_lowercase)

subsection \<open>Properties\<close>

text \<open>Resolution succeeds exactly when the input names one configured state, and then
  returns that state; an input that names none is reported as unknown, and any other input
  as ambiguous.\<close>

theorem resolve_exactly_one:
  "(resolve_configured_tracker_state m input = Inr r \<longleftrightarrow>
      named_states m input = {(rt_canonical_key r, rt_display_value r)}) \<and>
   (resolve_configured_tracker_state m input = Inl (UnknownInput s) \<longleftrightarrow>
      named_states m input = {} \<and> s = input) \<and>
   ((\<exists>s ks. resolve_configured_tracker_state m input = Inl (AmbiguousConfiguration s ks)) \<longleftrightarrow>
      2 \<le> card (named_states m input))"
  by (intro conjI resolve_Inr_iff resolve_Unknown_iff resolve_Ambiguous_iff)

text \<open>Under a state map without shared spellings, the canonical key and the display
  value of every configured state resolve to that state, whatever whitespace and case an
  operator or a provider adds.\<close>

theorem resolve_round_trip:
  assumes "unambiguous m" and "(k, d) \<in> set (configured_states m)"
    and "normalize_configured_state_input input \<in>
      {normalize_configured_state_input k, normalize_configured_state_input d}"
  shows "resolve_configured_tracker_state m input = Inr \<lparr>rt_canonical_key = k, rt_display_value = d\<rparr>"
proof -
  have "accepts (normalize_configured_state_input input) (k, d)"
    using assms(3) by (auto simp: accepts_def)
  with assms(1,2) have "named_states m input = {(k, d)}"
    by (rule unambiguous_named_states)
  then show ?thesis by (simp add: resolve_Inr_iff)
qed

theorem resolve_round_trip_witness:
  "resolve_configured_tracker_state default_state_map ''  aGeNt ReViEw  '' =
     Inr \<lparr>rt_canonical_key = ''agent_review'', rt_display_value = ''Agent Review''\<rparr>"
proof (rule resolve_round_trip)
  show "unambiguous default_state_map" by (rule default_state_map_unambiguous)
  show "(''agent_review'', ''Agent Review'') \<in> set (configured_states default_state_map)"
    by (simp add: state_eval)
  show "normalize_configured_state_input ''  aGeNt ReViEw  '' \<in>
      {normalize_configured_state_input ''agent_review'', normalize_configured_state_input ''Agent Review''}"
    by (simp add: normalize_configured_state_input_def text_eval)
qed

end
