(* ===== verification/Quality_Gate.thy ===== *)
theory Quality_Gate
  imports Issue_Model
begin

section \<open>The issue quality gate (\<^verbatim>\<open>src/quality_gate.rs\<close>)\<close>

text \<open>
  Deterministic safety of a candidate issue, the dependency preflight and the optional
  semantic gate. The semantic evaluator is a command that the code runs in a subprocess:
  what the process did with one request is the argument \<open>proc\<close>, a function from the command
  and the request's contents to a \<open>ProcessOutcome\<close>, and \<open>from_str\<close> stands for
  \<^verbatim>\<open>serde_json::from_str\<close>. Everything the code decides from their answers is modelled. An
  object's association list holds its entries in the order in which \<^verbatim>\<open>keys()\<close> yields them.
\<close>

definition MAX_CANDIDATE_BYTES :: nat where
  "MAX_CANDIDATE_BYTES = 256 * 1024"

definition contains_unresolved_liquid :: "string \<Rightarrow> bool" where
  "contains_unresolved_liquid s \<longleftrightarrow>
     list_ex (contains s) [''{{'', ''}}'', ''{%'', ''%}'']"

definition candidate_missing :: "string \<Rightarrow> string list" where
  "candidate_missing d =
     (if d = [] then [''non-empty executable issue candidate'']
      else (if utf8_len d > MAX_CANDIDATE_BYTES
            then [''candidate body within the '' @ show_nat MAX_CANDIDATE_BYTES @ ''-byte safety limit'']
            else []) @
           (if char_of (0::nat) \<in> set d then [''candidate body without NUL bytes''] else []) @
           (if contains_unresolved_liquid d
            then [''candidate body without unresolved Liquid syntax''] else []))"

definition evaluate_issue :: "TrackerIssue \<Rightarrow> GateDecision" where
  "evaluate_issue i =
     (let missing = (if trim (ti_title i) = [] then [''non-empty issue title''] else []) @
            candidate_missing (trim (unwrap_or (ti_description i) []))
      in if missing = [] then ready
         else \<lparr>gd_kind = NeedToClarify, gd_missing = missing, gd_assumptions = [],
               gd_notes = [''Generic deterministic candidate-input safety failed before semantic evaluation.'']\<rparr>)"

definition evaluate_issue_with_source_alignment ::
    "TrackerIssue \<Rightarrow> string \<Rightarrow> string option \<Rightarrow> GateDecision" where
  "evaluate_issue_with_source_alignment i repo_root expected =
     (let d = evaluate_issue i in
      if is_dispatchable d
      then d\<lparr>gd_notes := gd_notes d @
              [''Deterministic repository root: `'' @ repo_root @ ''`.''] @
              (case expected of
                 None \<Rightarrow> []
               | Some r \<Rightarrow> [''Configured repository identity: `'' @ r @ ''`; semantic agreement is template-led.''])\<rparr>
      else d)"

definition blocker_resolved :: "string set \<Rightarrow> BlockerRef \<Rightarrow> bool" where
  "blocker_resolved T b = (case br_state b of None \<Rightarrow> False | Some st \<Rightarrow> normalize_state st \<in> T)"

definition unresolved_tracker_blocker :: "TrackerIssue \<Rightarrow> string set \<Rightarrow> string option" where
  "unresolved_tracker_blocker i T =
     find_map (\<lambda>b. if blocker_resolved T b then None
                   else Some (unwrap_or (or_else (br_identifier b) (br_id b)) ''unknown blocker''))
       (ti_blocked_by i)"

definition evaluate_issue_with_dependency_preflight ::
    "TrackerIssue \<Rightarrow> string set \<Rightarrow> GateDecision" where
  "evaluate_issue_with_dependency_preflight i T =
     (let d = evaluate_issue i in
      if \<not> is_dispatchable d then d
      else case unresolved_tracker_blocker i T of
             Some b \<Rightarrow>
               \<lparr>gd_kind = Blocked,
                gd_missing = [''unresolved native blocking dependency: '' @ b],
                gd_assumptions = gd_assumptions d,
                gd_notes = [''Tracker dependency preflight blocked dispatch.'']\<rparr>
           | None \<Rightarrow> d)"

subsection \<open>The semantic gate\<close>

datatype LlmGateMode = Disabled | Advisory | Required

definition llm_gate_mode_parse :: "string \<Rightarrow> LlmGateMode" where
  "llm_gate_mode_parse s =
     (if s = ''advisory'' then Advisory else if s = ''required'' then Required else Disabled)"

record LlmGateOptions =
  lo_mode :: LlmGateMode
  lo_command :: "string option"
  lo_timeout_ms :: u64

record LlmGateContext =
  lc_trusted_template :: string
  lc_template_path :: string
  lc_expected_repository :: "string option"
  lc_repository_root :: string
  lc_verification_commands :: "string list"

record LlmGateReport =
  lr_kind :: GateDecisionKind
  lr_missing :: "string list"
  lr_assumptions :: "string list"
  lr_notes :: "string list"

definition into_gate_decision :: "LlmGateReport \<Rightarrow> GateDecision" where
  "into_gate_decision r =
     \<lparr>gd_kind = lr_kind r, gd_missing = lr_missing r, gd_assumptions = lr_assumptions r,
      gd_notes = lr_notes r\<rparr>"

text \<open>The variant's name, as \<^verbatim>\<open>{:?}\<close> prints it and as the protocol spells it.\<close>

fun gate_kind_name :: "GateDecisionKind \<Rightarrow> string" where
  "gate_kind_name Ready = ''Ready''"
| "gate_kind_name ReadyWithAssumptions = ''ReadyWithAssumptions''"
| "gate_kind_name NeedToClarify = ''NeedToClarify''"
| "gate_kind_name TooBroad = ''TooBroad''"
| "gate_kind_name Blocked = ''Blocked''"
| "gate_kind_name DuplicateAlreadyCovered = ''DuplicateAlreadyCovered''"

definition parse_gate_kind :: "string \<Rightarrow> GateDecisionKind option" where
  "parse_gate_kind s =
     (if s = ''Ready'' then Some Ready
      else if s = ''ReadyWithAssumptions'' then Some ReadyWithAssumptions
      else if s = ''NeedToClarify'' then Some NeedToClarify
      else if s = ''TooBroad'' then Some TooBroad
      else if s = ''Blocked'' then Some Blocked
      else if s = ''DuplicateAlreadyCovered'' then Some DuplicateAlreadyCovered
      else None)"

definition advisory_decision :: "GateDecision \<Rightarrow> LlmGateReport \<Rightarrow> GateDecision" where
  "advisory_decision d r =
     d\<lparr>gd_notes := gd_notes d @ [''Semantic advisory decision: '' @ gate_kind_name (lr_kind r)] @
         map (\<lambda>m. ''Semantic finding: '' @ m) (lr_missing r) @ lr_notes r,
       gd_assumptions := gd_assumptions d @ map (\<lambda>a. ''Semantic evaluator: '' @ a) (lr_assumptions r)\<rparr>"

fun strict_items :: "string \<Rightarrow> nat \<Rightarrow> json list \<Rightarrow> (string, string list) result" where
  "strict_items key n [] = Inr []"
| "strict_items key n (v # vs) =
     (case filter_option (\<lambda>s. trim s \<noteq> []) (as_str v) of
        None \<Rightarrow> Inl (''`'' @ key @ ''['' @ show_nat n @ '']` must be a non-empty string'')
      | Some s \<Rightarrow>
          (case strict_items key (Suc n) vs of Inl e \<Rightarrow> Inl e | Inr ss \<Rightarrow> Inr (s # ss)))"

definition strict_string_array :: "json option \<Rightarrow> string \<Rightarrow> (string, string list) result" where
  "strict_string_array v key =
     (case Option.bind v as_array of
        None \<Rightarrow> Inl (''`'' @ key @ ''` must be an array of strings'')
      | Some items \<Rightarrow> strict_items key 0 items)"

definition report_contradiction ::
    "GateDecisionKind \<Rightarrow> string list \<Rightarrow> string list \<Rightarrow> string option" where
  "report_contradiction kind missing assumptions =
     (if kind = Ready \<and> (missing \<noteq> [] \<or> assumptions \<noteq> [])
      then Some ''contradictory Ready result contains missing items or assumptions''
      else if kind = ReadyWithAssumptions \<and> (missing \<noteq> [] \<or> assumptions = [])
      then Some ''contradictory ReadyWithAssumptions result needs assumptions and no missing items''
      else if kind \<in> {NeedToClarify, TooBroad, Blocked, DuplicateAlreadyCovered} \<and> missing = []
      then Some ''non-ready semantic result must include at least one missing item''
      else None)"

definition parse_llm_gate_response ::
    "(string \<Rightarrow> (string, json) result) \<Rightarrow> string \<Rightarrow> (string, LlmGateReport) result" where
  "parse_llm_gate_response from_str raw =
     (case from_str raw of
        Inl e \<Rightarrow> Inl (''malformed JSON: '' @ e)
      | Inr v \<Rightarrow>
     (case as_object v of
        None \<Rightarrow> Inl ''structured result must be a JSON object''
      | Some kvs \<Rightarrow>
     (case find (\<lambda>k. k \<notin> {''decision'', ''missing'', ''assumptions'', ''notes''}) (map fst kvs) of
        Some k \<Rightarrow> Inl (''unsupported structured result field `'' @ k @ ''`'')
      | None \<Rightarrow>
     (case Option.bind (map_of kvs ''decision'') as_str of
        None \<Rightarrow> Inl ''missing `decision`''
      | Some decision \<Rightarrow>
     (case parse_gate_kind decision of
        None \<Rightarrow> Inl (''unsupported semantic gate decision `'' @ decision @ ''`'')
      | Some kind \<Rightarrow>
     (case strict_string_array (map_of kvs ''missing'') ''missing'' of
        Inl e \<Rightarrow> Inl e
      | Inr missing \<Rightarrow>
     (case strict_string_array (map_of kvs ''assumptions'') ''assumptions'' of
        Inl e \<Rightarrow> Inl e
      | Inr assumptions \<Rightarrow>
     (case strict_string_array (map_of kvs ''notes'') ''notes'' of
        Inl e \<Rightarrow> Inl e
      | Inr notes \<Rightarrow>
     (case report_contradiction kind missing assumptions of
        Some e \<Rightarrow> Inl e
      | None \<Rightarrow>
          Inr \<lparr>lr_kind = kind, lr_missing = missing, lr_assumptions = assumptions,
               lr_notes = notes\<rparr>)))))))))"

datatype ProcessOutcome =
    IoError string
  | ExitFailure "int option" string
  | ExitSuccess string
  | TimedOut

text \<open>
  The subprocess loop: spawning, writing the request and polling may fail, the child may
  exit with or without success, or the timeout kills it.
\<close>

definition run_llm_gate_command ::
    "(string \<Rightarrow> (string, json) result) \<Rightarrow>
     (string \<Rightarrow> TrackerIssue \<Rightarrow> GateDecision \<Rightarrow> LlmGateContext \<Rightarrow> ProcessOutcome) \<Rightarrow>
     TrackerIssue \<Rightarrow> GateDecision \<Rightarrow> LlmGateOptions \<Rightarrow> LlmGateContext \<Rightarrow>
     (string, LlmGateReport) result" where
  "run_llm_gate_command from_str proc i d opts ctx =
     (case filter_option (\<lambda>c. trim c \<noteq> []) (lo_command opts) of
        None \<Rightarrow> Inl ''command not configured''
      | Some command \<Rightarrow>
          (case proc command i d ctx of
             IoError e \<Rightarrow> Inl e
           | ExitFailure status stderr \<Rightarrow>
               Inl (''command exited with status '' @ show_int (unwrap_or status (- 1)) @ '': '' @ trim stderr)
           | ExitSuccess stdout \<Rightarrow> parse_llm_gate_response from_str stdout
           | TimedOut \<Rightarrow>
               Inl (''command timed out after '' @ show_nat (unat (lo_timeout_ms opts)) @ ''ms'')))"

definition evaluate_issue_with_llm_gate ::
    "(string \<Rightarrow> (string, json) result) \<Rightarrow>
     (string \<Rightarrow> TrackerIssue \<Rightarrow> GateDecision \<Rightarrow> LlmGateContext \<Rightarrow> ProcessOutcome) \<Rightarrow>
     TrackerIssue \<Rightarrow> GateDecision \<Rightarrow> LlmGateOptions \<Rightarrow> LlmGateContext \<Rightarrow> GateDecision" where
  "evaluate_issue_with_llm_gate from_str proc i d opts ctx =
     (if \<not> is_dispatchable d
      then (if lo_mode opts \<noteq> Disabled
            then d\<lparr>gd_notes := gd_notes d @
                    [''Semantic model gate skipped because deterministic safety failed.'']\<rparr>
            else d)
      else case lo_mode opts of
        Disabled \<Rightarrow> d
      | Advisory \<Rightarrow>
          (case run_llm_gate_command from_str proc i d opts ctx of
             Inr r \<Rightarrow> advisory_decision d r
           | Inl e \<Rightarrow> d\<lparr>gd_notes := gd_notes d @ [''Semantic advisory gate unavailable: '' @ e]\<rparr>)
      | Required \<Rightarrow>
          (case run_llm_gate_command from_str proc i d opts ctx of
             Inr r \<Rightarrow> into_gate_decision r
           | Inl e \<Rightarrow>
               \<lparr>gd_kind = NeedToClarify,
                gd_missing = [''required template-led semantic quality result''],
                gd_assumptions = gd_assumptions d,
                gd_notes = [''Required semantic quality gate failed: '' @ e]\<rparr>))"

subsection \<open>Facts\<close>

definition candidate_safe :: "TrackerIssue \<Rightarrow> bool" where
  "candidate_safe i \<longleftrightarrow>
     \<not> blank (ti_title i) \<and>
     (\<exists>d. ti_description i = Some d \<and> \<not> blank d \<and> utf8_len (trim d) \<le> 262144 \<and>
        char_of (0::nat) \<notin> set (trim d) \<and> \<not> contains_unresolved_liquid (trim d))"

lemma evaluate_issue_dispatchable: "is_dispatchable (evaluate_issue i) \<longleftrightarrow> candidate_safe i"
proof -
  have blank_nil: "trim [] = []" by (simp add: trim_Nil_iff)
  have "is_dispatchable (evaluate_issue i) \<longleftrightarrow>
      \<not> blank (ti_title i) \<and> candidate_missing (trim (unwrap_or (ti_description i) [])) = []"
    by (simp add: evaluate_issue_def Let_def ready_def is_dispatchable_def)
  also have "\<dots> \<longleftrightarrow> candidate_safe i"
    by (cases "ti_description i")
      (auto simp: candidate_missing_def candidate_safe_def MAX_CANDIDATE_BYTES_def blank_nil)
  finally show ?thesis .
qed

lemma evaluate_issue_ready: "is_dispatchable (evaluate_issue i) \<Longrightarrow> evaluate_issue i = ready"
  by (auto simp: evaluate_issue_def Let_def is_dispatchable_def split: if_splits)

lemma find_map_None_iff: "find_map f xs = None \<longleftrightarrow> (\<forall>x \<in> set xs. f x = None)"
  by (induction xs) (auto split: option.splits)

lemma unresolved_blocker_None:
  "unresolved_tracker_blocker i T = None \<longleftrightarrow> list_all (blocker_resolved T) (ti_blocked_by i)"
  by (auto simp: unresolved_tracker_blocker_def find_map_None_iff list_all_iff)

lemma preflight_dispatchable:
  "is_dispatchable (evaluate_issue_with_dependency_preflight i T) \<longleftrightarrow>
     candidate_safe i \<and> list_all (blocker_resolved T) (ti_blocked_by i)"
  by (auto simp: evaluate_issue_with_dependency_preflight_def Let_def
      simp flip: unresolved_blocker_None evaluate_issue_dispatchable split: option.splits)
    (simp_all add: is_dispatchable_def)

lemma parse_gate_kind_name [simp]: "parse_gate_kind (gate_kind_name k) = Some k"
  by (cases k) (simp_all add: parse_gate_kind_def)

definition report_consistent :: "LlmGateReport \<Rightarrow> bool" where
  "report_consistent r =
     (case lr_kind r of
        Ready \<Rightarrow> lr_missing r = [] \<and> lr_assumptions r = []
      | ReadyWithAssumptions \<Rightarrow> lr_missing r = [] \<and> lr_assumptions r \<noteq> []
      | _ \<Rightarrow> lr_missing r \<noteq> [])"

lemma report_contradiction_None:
  "report_contradiction (lr_kind r) (lr_missing r) (lr_assumptions r) = None \<longleftrightarrow> report_consistent r"
  by (cases "lr_kind r") (simp_all add: report_contradiction_def report_consistent_def)

lemma strict_items_nonblank: "strict_items key n vs = Inr ss \<Longrightarrow> list_all (\<lambda>s. \<not> blank s) ss"
proof (induction vs arbitrary: n ss)
  case (Cons v vs)
  show ?case
  proof (cases "as_str v")
    case None
    with Cons.prems show ?thesis by simp
  next
    case (Some s)
    with Cons show ?thesis by (auto split: if_splits sum.splits)
  qed
qed simp

lemma strict_array_nonblank: "strict_string_array v key = Inr ss \<Longrightarrow> list_all (\<lambda>s. \<not> blank s) ss"
  by (auto simp: strict_string_array_def split: option.splits dest: strict_items_nonblank)

lemma parse_response_consistent:
  assumes "parse_llm_gate_response from_str raw = Inr r"
  shows "report_consistent r \<and> list_all (\<lambda>s. \<not> blank s) (lr_missing r @ lr_assumptions r @ lr_notes r)"
proof -
  from assms obtain missing assumptions ns kind u v w where
    r: "r = \<lparr>lr_kind = kind, lr_missing = missing, lr_assumptions = assumptions, lr_notes = ns\<rparr>" and
    c: "report_contradiction kind missing assumptions = None" and
    a: "strict_string_array u ''missing'' = Inr missing"
      "strict_string_array v ''assumptions'' = Inr assumptions"
      "strict_string_array w ''notes'' = Inr ns"
    by (auto simp: parse_llm_gate_response_def split: sum.splits option.splits)
  have "report_consistent r"
    using c report_contradiction_None [of r] by (simp add: r)
  then show ?thesis
    using a [THEN strict_array_nonblank] by (simp add: r)
qed

lemma run_command_consistent:
  "run_llm_gate_command from_str proc i d opts ctx = Inr r \<Longrightarrow> report_consistent r"
  by (auto simp: run_llm_gate_command_def split: option.splits ProcessOutcome.splits
      dest: parse_response_consistent)

subsection \<open>Properties\<close>

text \<open>An issue passes the deterministic gate with the dependency preflight exactly when
  its title is not blank, its trimmed description is nonempty, at most 256 KiB, free of NUL
  characters and of unresolved Liquid markers, and every native blocker has a terminal
  state.\<close>

theorem preflight_accepts_exactly:
  "is_dispatchable (evaluate_issue_with_dependency_preflight i T) \<longleftrightarrow>
     candidate_safe i \<and> list_all (blocker_resolved T) (ti_blocked_by i)"
  by (rule preflight_dispatchable)

text \<open>C35: The semantic gate never makes an issue dispatchable that deterministic safety
  refused; in advisory mode it never changes the verdict, whatever the evaluator's process
  does; and in required mode a dispatchable verdict comes only from a well-formed report of
  the evaluator, with no missing items, and with assumptions exactly if it says so.\<close>

theorem semantic_gate_never_loosens:
  "(is_dispatchable (evaluate_issue_with_llm_gate from_str proc i d opts ctx) \<longrightarrow>
      is_dispatchable d) \<and>
   (lo_mode opts \<noteq> Required \<longrightarrow>
      gd_kind (evaluate_issue_with_llm_gate from_str proc i d opts ctx) = gd_kind d) \<and>
   (lo_mode opts = Required \<and>
    is_dispatchable (evaluate_issue_with_llm_gate from_str proc i d opts ctx) \<longrightarrow>
      (\<exists>r. run_llm_gate_command from_str proc i d opts ctx = Inr r \<and>
         evaluate_issue_with_llm_gate from_str proc i d opts ctx = into_gate_decision r \<and>
         lr_missing r = [] \<and> (lr_assumptions r = [] \<longleftrightarrow> lr_kind r = Ready)))"
  (is "(?disp ?gate \<longrightarrow> ?disp d) \<and> (?mode \<longrightarrow> ?kind) \<and> (?req \<longrightarrow> ?report)")
proof -
  let ?run = "run_llm_gate_command from_str proc i d opts ctx"
  have 1: "?disp d" if "?disp ?gate"
    using that by (auto simp: evaluate_issue_with_llm_gate_def is_dispatchable_def split: if_splits)
  have 2: "?kind" if "?mode"
    using that by (cases "lo_mode opts"; cases ?run)
      (simp_all add: evaluate_issue_with_llm_gate_def advisory_decision_def)
  have 3: "?report" if req: "?req"
  proof -
    have d: "?disp d" and m: "lo_mode opts = Required"
      using req 1 by blast+
    show ?report
    proof (cases ?run)
      case (Inl e)
      have "gd_kind ?gate = NeedToClarify"
        using d m Inl by (simp add: evaluate_issue_with_llm_gate_def)
      with req show ?thesis by (simp add: is_dispatchable_def)
    next
      case (Inr r)
      have g: "?gate = into_gate_decision r"
        using d m Inr by (simp add: evaluate_issue_with_llm_gate_def)
      have "lr_kind r \<in> {Ready, ReadyWithAssumptions}"
        using conjunct2 [OF req, unfolded g] by (simp add: is_dispatchable_def into_gate_decision_def)
      then show ?thesis
        using Inr g run_command_consistent [OF Inr] by (auto simp: report_consistent_def)
    qed
  qed
  show ?thesis
    using 1 2 3 by (intro conjI impI)
qed

definition example_gate_options :: LlmGateOptions where
  "example_gate_options = \<lparr>lo_mode = Required, lo_command = Some ''judge'', lo_timeout_ms = 1000\<rparr>"

definition example_gate_context :: LlmGateContext where
  "example_gate_context =
     \<lparr>lc_trusted_template = ''body'', lc_template_path = ''issue.md'', lc_expected_repository = None,
      lc_repository_root = ''/repo'', lc_verification_commands = []\<rparr>"

definition example_report_json :: json where
  "example_report_json =
     Object [(''decision'', String ''Ready''), (''missing'', Array []), (''assumptions'', Array []),
             (''notes'', Array [String ''fine''])]"

theorem semantic_gate_never_loosens_witness:
  "\<exists>r. run_llm_gate_command (\<lambda>raw. Inr example_report_json) (\<lambda>c i d x. ExitSuccess ''out'')
         (sample_issue ''1'' ''Todo'') ready example_gate_options example_gate_context = Inr r \<and> lr_notes r = [''fine''] \<and> lr_missing r = []"
proof -
  let ?gate = "evaluate_issue_with_llm_gate (\<lambda>raw. Inr example_report_json) (\<lambda>c i d x. ExitSuccess ''out'')
    (sample_issue ''1'' ''Todo'') ready example_gate_options example_gate_context"
  let ?run = "run_llm_gate_command (\<lambda>raw. Inr example_report_json) (\<lambda>c i d x. ExitSuccess ''out'')
    (sample_issue ''1'' ''Todo'') ready example_gate_options example_gate_context"
  have judge: "trim ''judge'' \<noteq> []" "trim ''fine'' \<noteq> []" by (simp_all add: text_eval)
  have run: "?run = Inr \<lparr>lr_kind = Ready, lr_missing = [], lr_assumptions = [], lr_notes = [''fine'']\<rparr>"
    using judge by (simp add: run_llm_gate_command_def example_gate_options_def parse_llm_gate_response_def
        example_report_json_def parse_gate_kind_def strict_string_array_def report_contradiction_def)
  have "lo_mode example_gate_options = Required \<and> is_dispatchable ?gate"
    using run by (simp add: evaluate_issue_with_llm_gate_def is_dispatchable_def ready_def
        into_gate_decision_def example_gate_options_def)
  then show ?thesis
    using semantic_gate_never_loosens [of "\<lambda>raw. Inr example_report_json" "\<lambda>c i d x. ExitSuccess ''out''"
        "sample_issue ''1'' ''Todo''" ready example_gate_options example_gate_context] run by auto
qed

end
