(* ===== verification/Dispatch.thy ===== *)
theory Dispatch
  imports Config Quality_Gate "HOL-Library.Multiset" "HOL-Library.Sublist"
begin

section \<open>Dispatch planning (\<^verbatim>\<open>src/orchestrator.rs\<close>)\<close>

text \<open>
  \<open>plan_dispatch\<close> sorts the issues of the tracker, filters the ones that may run and fills
  the global and the per-state slots in that order. The loop's body is \<open>plan_step\<close> on the
  mutable variables \<open>selected\<close>, \<open>skipped\<close> and \<open>state_counts\<close>; a \<^verbatim>\<open>continue\<close> is a step
  that returns. \<open>retry_delay_ms\<close> is kept at its 64-bit width.
\<close>

record DispatchPlan =
  dp_selected :: "TrackerIssue list"
  dp_snapshot :: RuntimeSnapshot
  dp_integration_gaps :: "string list"

definition priority_rank :: "int option \<Rightarrow> int" where
  "priority_rank p = unwrap_or (filter_option (\<lambda>v. 1 \<le> v \<and> v \<le> 4) p) 5"

definition created_sort_key :: "TrackerIssue \<Rightarrow> string" where
  "created_sort_key i = unwrap_or (ti_created_at i) ''9999-12-31T23:59:59Z''"

definition dispatch_key :: "TrackerIssue \<Rightarrow> int \<times> string \<times> string" where
  "dispatch_key i = (priority_rank (ti_priority i), created_sort_key i, ti_identifier i)"

definition sort_issues_for_dispatch :: "TrackerIssue list \<Rightarrow> TrackerIssue list" where
  "sort_issues_for_dispatch is = sort_key dispatch_key is"

definition issue_blocked_by_non_terminal :: "TrackerIssue \<Rightarrow> string set \<Rightarrow> bool" where
  "issue_blocked_by_non_terminal i T \<longleftrightarrow>
     normalized_state i \<in> {''todo'', ''rework''} \<and>
     list_ex (\<lambda>b. case br_state b of Some st \<Rightarrow> normalize_state st \<notin> T | None \<Rightarrow> True) (ti_blocked_by i)"

definition issue_has_rich_contract :: "TrackerIssue \<Rightarrow> bool" where
  "issue_has_rich_contract i =
     (case ti_description i of Some d \<Rightarrow> trim d \<noteq> [] | None \<Rightarrow> False)"

definition skip_issue :: "TrackerIssue \<Rightarrow> string \<Rightarrow> SkippedIssue" where
  "skip_issue i reason =
     \<lparr>sk_issue_id = ti_id i, sk_identifier = ti_identifier i, sk_reason = reason, sk_gate = None\<rparr>"

record plan_state =
  pl_selected :: "TrackerIssue list"
  pl_skipped :: "SkippedIssue list"
  pl_counts :: "string \<Rightarrow> nat option"

definition state_limit :: "RuntimeConfig \<Rightarrow> string \<Rightarrow> nat" where
  "state_limit c n =
     unwrap_or (ac_max_concurrent_agents_by_state (rc_agent c) n) (ac_max_concurrent_agents (rc_agent c))"

definition used_for_state :: "plan_state \<Rightarrow> string \<Rightarrow> nat" where
  "used_for_state s n = unwrap_or (pl_counts s n) 0"

definition plan_step :: "RuntimeConfig \<Rightarrow> plan_state \<Rightarrow> TrackerIssue \<Rightarrow> plan_state" where
  "plan_step c s i =
     (let active = set (active_state_set c); T = set (terminal_state_set c); n = normalized_state i;
          skipping = (\<lambda>e. s\<lparr>pl_skipped := pl_skipped s @ [e]\<rparr>) in
      if n \<notin> active \<or> n \<in> T then s
      else if issue_blocked_by_non_terminal i T
      then skipping (skip_issue i ''issue has unresolved tracker dependencies'')
      else case native_subissue_gate_blocker i T of
        Some reason \<Rightarrow> skipping (skip_issue i reason)
      | None \<Rightarrow>
      if issue_has_rich_contract i \<and> \<not> is_dispatchable (evaluate_issue_with_dependency_preflight i T)
      then skipping \<lparr>sk_issue_id = ti_id i, sk_identifier = ti_identifier i,
             sk_reason = ''issue quality gate did not pass'',
             sk_gate = Some (evaluate_issue_with_dependency_preflight i T)\<rparr>
      else if length (pl_selected s) \<ge> ac_max_concurrent_agents (rc_agent c)
      then skipping (skip_issue i ''global concurrency limit reached'')
      else if used_for_state s n \<ge> state_limit c n
      then skipping (skip_issue i ''state concurrency limit reached'')
      else s\<lparr>pl_selected := pl_selected s @ [i],
             pl_counts := (pl_counts s)(n \<mapsto> used_for_state s n + 1)\<rparr>)"

definition plan_initial :: plan_state where
  "plan_initial = \<lparr>pl_selected = [], pl_skipped = [], pl_counts = Map.empty\<rparr>"

definition plan_loop :: "RuntimeConfig \<Rightarrow> TrackerIssue list \<Rightarrow> plan_state" where
  "plan_loop c is = foldl (plan_step c) plan_initial (sort_issues_for_dispatch is)"

definition planned_snapshot :: "RuntimeConfig \<Rightarrow> TrackerIssue \<Rightarrow> RunningSnapshot" where
  "planned_snapshot c i =
     \<lparr>rs_issue_id = ti_id i, rs_identifier = ti_identifier i, rs_state = ti_state i,
      rs_backend = bc_kind (rc_backend c), rs_workspace_path = None, rs_session_id = None,
      rs_profile_id = None, rs_instance_name = None\<rparr>"

definition plan_dispatch :: "RuntimeConfig \<Rightarrow> TrackerIssue list \<Rightarrow> DispatchPlan" where
  "plan_dispatch c is =
     (let s = plan_loop c is in
      \<lparr>dp_selected = pl_selected s,
       dp_snapshot =
         \<lparr>sn_planned = map (planned_snapshot c) (pl_selected s), sn_running = [], sn_retrying = [],
          sn_codex_totals = token_totals_default,
          sn_polling = \<lparr>ps_checking = False, ps_next_poll_in_ms = Some (pc_interval_ms (rc_polling c)),
                        ps_poll_interval_ms = pc_interval_ms (rc_polling c)\<rparr>,
          sn_sessions = [], sn_skipped = pl_skipped s, sn_integration_gaps = [],
          sn_latest_status = None, sn_event_log_path = None\<rparr>,
       dp_integration_gaps = []\<rparr>)"

definition retry_delay_ms :: "RuntimeConfig \<Rightarrow> u32 \<Rightarrow> bool \<Rightarrow> u64" where
  "retry_delay_ms c attempt continuation =
     (if continuation \<and> attempt = 1 then 1000
      else let power = min (saturating_sub attempt 1) 10;
               delay = saturating_mul 10000 (push_bit (unat power) 1)
           in min delay (ac_max_retry_backoff_ms (rc_agent c)))"

subsection \<open>Facts: one turn of the loop\<close>

text \<open>An issue that only the concurrency limits can keep from being selected, and one the
  loop passes over without a word.\<close>

definition dispatch_candidate :: "RuntimeConfig \<Rightarrow> TrackerIssue \<Rightarrow> bool" where
  "dispatch_candidate c i \<longleftrightarrow>
     normalized_state i \<in> set (active_state_set c) \<and> normalized_state i \<notin> set (terminal_state_set c)"

definition dispatch_eligible :: "RuntimeConfig \<Rightarrow> TrackerIssue \<Rightarrow> bool" where
  "dispatch_eligible c i \<longleftrightarrow>
     (let T = set (terminal_state_set c) in
      dispatch_candidate c i \<and> \<not> issue_blocked_by_non_terminal i T \<and>
      native_subissue_gate_blocker i T = None \<and>
      (blank (unwrap_or (ti_description i) []) \<or>
       candidate_safe i \<and> list_all (blocker_resolved T) (ti_blocked_by i)))"

definition has_slot :: "RuntimeConfig \<Rightarrow> plan_state \<Rightarrow> TrackerIssue \<Rightarrow> bool" where
  "has_slot c s i \<longleftrightarrow>
     length (pl_selected s) < ac_max_concurrent_agents (rc_agent c) \<and>
     used_for_state s (normalized_state i) < state_limit c (normalized_state i)"

lemma rich_contract_iff: "issue_has_rich_contract i \<longleftrightarrow> \<not> blank (unwrap_or (ti_description i) [])"
proof -
  have "trim [] = []" by (simp add: trim_Nil_iff)
  then show ?thesis by (cases "ti_description i") (simp_all add: issue_has_rich_contract_def)
qed

lemma plan_step_selects:
  "dispatch_eligible c i \<Longrightarrow> has_slot c s i \<Longrightarrow>
   plan_step c s i =
     s\<lparr>pl_selected := pl_selected s @ [i],
       pl_counts := (pl_counts s)(normalized_state i \<mapsto> used_for_state s (normalized_state i) + 1)\<rparr>"
  by (auto simp: plan_step_def dispatch_eligible_def dispatch_candidate_def has_slot_def Let_def
      rich_contract_iff preflight_dispatchable not_le)

lemma plan_step_ignores: "\<not> dispatch_candidate c i \<Longrightarrow> plan_step c s i = s"
  by (auto simp: plan_step_def dispatch_candidate_def Let_def)

lemma plan_step_skips:
  assumes "dispatch_candidate c i" and "\<not> (dispatch_eligible c i \<and> has_slot c s i)"
  shows "\<exists>reason gate. plan_step c s i =
    s\<lparr>pl_skipped := pl_skipped s @
       [\<lparr>sk_issue_id = ti_id i, sk_identifier = ti_identifier i, sk_reason = reason, sk_gate = gate\<rparr>]\<rparr>"
proof (cases "native_subissue_gate_blocker i (set (terminal_state_set c))")
  case None
  with assms show ?thesis
    by (auto simp: plan_step_def dispatch_eligible_def dispatch_candidate_def has_slot_def Let_def
        rich_contract_iff preflight_dispatchable skip_issue_def not_less)
next
  case (Some reason)
  with assms show ?thesis
    by (auto simp: plan_step_def dispatch_candidate_def Let_def skip_issue_def)
qed

lemma plan_step_cases:
  obtains (selected) "dispatch_eligible c i" "has_slot c s i"
      "plan_step c s i = s\<lparr>pl_selected := pl_selected s @ [i],
         pl_counts := (pl_counts s)(normalized_state i \<mapsto> used_for_state s (normalized_state i) + 1)\<rparr>"
  | (skipped) reason gate where "dispatch_candidate c i" "\<not> (dispatch_eligible c i \<and> has_slot c s i)"
      "plan_step c s i = s\<lparr>pl_skipped := pl_skipped s @
         [\<lparr>sk_issue_id = ti_id i, sk_identifier = ti_identifier i, sk_reason = reason, sk_gate = gate\<rparr>]\<rparr>"
  | (ignored) "\<not> dispatch_candidate c i" "plan_step c s i = s"
  using plan_step_selects plan_step_ignores plan_step_skips by metis

subsection \<open>Facts: the whole loop\<close>

abbreviation run_plan :: "RuntimeConfig \<Rightarrow> plan_state \<Rightarrow> TrackerIssue list \<Rightarrow> plan_state" where
  "run_plan c \<equiv> foldl (plan_step c)"

definition in_state :: "string \<Rightarrow> TrackerIssue \<Rightarrow> bool" where
  "in_state n i \<longleftrightarrow> normalized_state i = n"

text \<open>What holds of the loop's variables between two turns, \<open>xs\<close> being the issues seen.\<close>

definition plan_inv :: "RuntimeConfig \<Rightarrow> TrackerIssue list \<Rightarrow> plan_state \<Rightarrow> bool" where
  "plan_inv c xs s \<longleftrightarrow>
     subseq (pl_selected s) xs \<and> list_all (dispatch_eligible c) (pl_selected s) \<and>
     length (pl_selected s) \<le> ac_max_concurrent_agents (rc_agent c) \<and>
     (\<forall>n. used_for_state s n = length (filter (in_state n) (pl_selected s)) \<and>
          length (filter (in_state n) (pl_selected s)) \<le> state_limit c n) \<and>
     mset (map ti_identifier (pl_selected s)) + mset (map sk_identifier (pl_skipped s)) =
       mset (map ti_identifier (filter (dispatch_candidate c) xs))"

lemma plan_inv_initial: "plan_inv c [] plan_initial"
  by (simp add: plan_inv_def plan_initial_def used_for_state_def)

lemma eligible_candidate: "dispatch_eligible c i \<Longrightarrow> dispatch_candidate c i"
  by (simp add: dispatch_eligible_def Let_def)

lemma used_for_state_select:
  "used_for_state (s\<lparr>pl_selected := l, pl_counts := (pl_counts s)(m \<mapsto> k)\<rparr>) n =
     (if n = m then k else used_for_state s n)"
  "used_for_state (s\<lparr>pl_skipped := sk\<rparr>) n = used_for_state s n"
  by (simp_all add: used_for_state_def)

lemma plan_inv_step:
  assumes inv: "plan_inv c xs s"
  shows "plan_inv c (xs @ [i]) (plan_step c s i)"
proof (cases rule: plan_step_cases [of c i s])
  case selected
  have "subseq (pl_selected s @ [i]) (xs @ [i])"
    using inv by (simp add: plan_inv_def)
  with selected inv show ?thesis
    by (simp add: plan_inv_def used_for_state_select has_slot_def eligible_candidate in_state_def
        Suc_le_eq)
next
  case (skipped reason gate)
  have "subseq (pl_selected s) (xs @ [i])"
    using inv by (simp add: plan_inv_def subseq_rev_drop_many)
  with skipped inv show ?thesis
    by (simp add: plan_inv_def used_for_state_select)
next
  case ignored
  have "subseq (pl_selected s) (xs @ [i])"
    using inv by (simp add: plan_inv_def subseq_rev_drop_many)
  with ignored inv show ?thesis
    by (simp add: plan_inv_def)
qed

lemma plan_inv_run: "plan_inv c ys s \<Longrightarrow> plan_inv c (ys @ xs) (run_plan c s xs)"
proof (induction xs arbitrary: ys s)
  case (Cons x xs)
  then have "plan_inv c ((ys @ [x]) @ xs) (run_plan c (plan_step c s x) xs)"
    using plan_inv_step by blast
  then show ?case by simp
qed simp

lemma run_plan_grows: "\<exists>l. pl_selected (run_plan c s xs) = pl_selected s @ l \<and> set l \<subseteq> set xs"
proof (induction xs arbitrary: s)
  case (Cons x xs)
  obtain l where l: "pl_selected (run_plan c (plan_step c s x) xs) = pl_selected (plan_step c s x) @ l"
    "set l \<subseteq> set xs"
    using Cons.IH by blast
  show ?case
  proof (cases rule: plan_step_cases [of c x s])
    case selected
    then have "pl_selected (run_plan c s (x # xs)) = pl_selected s @ (x # l)"
      using l by simp
    with l(2) show ?thesis by (intro exI [of _ "x # l"]) auto
  next
    case (skipped reason gate)
    with l show ?thesis by (intro exI [of _ l]) auto
  next
    case ignored
    with l show ?thesis by (intro exI [of _ l]) auto
  qed
qed simp

lemma run_plan_full:
  "ac_max_concurrent_agents (rc_agent c) \<le> length (pl_selected s) \<Longrightarrow>
   pl_selected (run_plan c s xs) = pl_selected s"
proof (induction xs arbitrary: s)
  case (Cons x xs)
  then have "\<not> has_slot c s x" by (simp add: has_slot_def)
  then have "pl_selected (plan_step c s x) = pl_selected s"
    by (cases rule: plan_step_cases [of c x s]) auto
  with Cons show ?case by simp
qed simp

lemma plan_loop_inv: "plan_inv c (sort_issues_for_dispatch is) (plan_loop c is)"
  using plan_inv_run [OF plan_inv_initial, of c "sort_issues_for_dispatch is"]
  by (simp add: plan_loop_def)

lemma sorted_dispatch: "sorted (map dispatch_key (sort_issues_for_dispatch is))"
  by (simp add: sort_issues_for_dispatch_def)

lemma unselected_reason:
  assumes i: "i \<in> set is" "dispatch_eligible c i" "i \<notin> set (pl_selected (plan_loop c is))"
  defines "sel \<equiv> pl_selected (plan_loop c is)"
  shows "length sel = ac_max_concurrent_agents (rc_agent c) \<and>
      list_all (\<lambda>j. dispatch_key j \<le> dispatch_key i) sel \<or>
    length (filter (\<lambda>j. in_state (normalized_state i) j \<and> dispatch_key j \<le> dispatch_key i) sel) =
      state_limit c (normalized_state i)"
proof -
  let ?n = "normalized_state i"
  have "i \<in> set (sort_issues_for_dispatch is)"
    using i(1) by (simp add: sort_issues_for_dispatch_def)
  then obtain xs ys where split: "sort_issues_for_dispatch is = xs @ i # ys"
    by (blast dest: split_list)
  define s where "s = run_plan c plan_initial xs"
  have s: "plan_inv c xs s"
    using plan_inv_run [OF plan_inv_initial, of c xs] by (simp add: s_def)
  have loop: "plan_loop c is = run_plan c (plan_step c s i) ys"
    by (simp add: plan_loop_def split s_def)
  obtain l where l: "sel = pl_selected (plan_step c s i) @ l"
    using run_plan_grows loop by (metis sel_def)
  have noslot: "\<not> has_slot c s i"
    using plan_step_selects [OF i(2)] i(3) l by (auto simp flip: sel_def)
  then have same: "pl_selected (plan_step c s i) = pl_selected s"
    by (cases rule: plan_step_cases [of c i s]) auto
  have "\<forall>j \<in> set xs. dispatch_key j \<le> dispatch_key i"
    using sorted_dispatch [of "is"] by (auto simp: split sorted_append)
  moreover have "set (pl_selected s) \<subseteq> set xs"
    using s by (auto simp: plan_inv_def dest: list_emb_set)
  ultimately have before: "list_all (\<lambda>j. dispatch_key j \<le> dispatch_key i) (pl_selected s)"
    by (auto simp: list_all_iff)
  have s_len: "length (pl_selected s) \<le> ac_max_concurrent_agents (rc_agent c)"
    and s_used: "used_for_state s ?n = length (filter (in_state ?n) (pl_selected s))"
    using s by (simp_all add: plan_inv_def)
  show ?thesis
  proof (cases "ac_max_concurrent_agents (rc_agent c) \<le> length (pl_selected s)")
    case True
    then have "sel = pl_selected s"
      using run_plan_full [of c "plan_step c s i" ys] by (simp add: sel_def loop same)
    with True before s_len show ?thesis by simp
  next
    case False
    let ?m = "\<lambda>j. in_state ?n j \<and> dispatch_key j \<le> dispatch_key i"
    from False noslot have "state_limit c ?n \<le> length (filter (in_state ?n) (pl_selected s))"
      by (simp add: has_slot_def not_less s_used)
    also have "filter (in_state ?n) (pl_selected s) = filter ?m (pl_selected s)"
      using before by (intro filter_cong) (auto simp: list_all_iff)
    also have "length \<dots> \<le> length (filter ?m sel)"
      by (simp add: l same)
    finally have "state_limit c ?n \<le> length (filter ?m sel)" .
    moreover have "length (filter ?m sel) \<le> length (filter (in_state ?n) sel)"
      by (induction sel) auto
    moreover have "length (filter (in_state ?n) sel) \<le> state_limit c ?n"
      using plan_loop_inv [of c "is"] by (auto simp: plan_inv_def sel_def)
    ultimately show ?thesis by simp
  qed
qed

subsection \<open>Facts: retry delays\<close>

lemma unat_min: "unat (min a b) = min (unat a) (unat b)"
  by (simp add: min_def word_le_nat_alt)

lemma unat_saturating_sub: "unat (saturating_sub a b) = unat a - unat b"
  by (auto simp: saturating_sub_def unat_sub word_le_nat_alt)

lemma unat_push_bit_small: "k \<le> 10 \<Longrightarrow> unat (push_bit k (1 :: u64)) = 2 ^ k"
  by (subst unsigned_push_bit_eq) (simp add: push_bit_eq_mult take_bit_nat_eq_self_iff
      less_le_trans [of "2 ^ k" "2 ^ 11"] power_strict_increasing)

subsection \<open>Properties\<close>


text \<open>C22: No slot stays idle and no issue overtakes another: an eligible issue that is not
  selected lost to issues that come no later in dispatch order (priority, creation time,
  identifier), which fill either all global slots or all slots of its state.\<close>

theorem plan_dispatch_no_overtaking:
  assumes "i \<in> set is" and "dispatch_eligible c i" and "i \<notin> set (dp_selected (plan_dispatch c is))"
  shows "length (dp_selected (plan_dispatch c is)) = ac_max_concurrent_agents (rc_agent c) \<and>
      list_all (\<lambda>j. dispatch_key j \<le> dispatch_key i) (dp_selected (plan_dispatch c is)) \<or>
    length (filter (\<lambda>j. in_state (normalized_state i) j \<and> dispatch_key j \<le> dispatch_key i)
        (dp_selected (plan_dispatch c is))) = state_limit c (normalized_state i)"
  using unselected_reason [of i "is" c] assms by (simp add: plan_dispatch_def Let_def)

definition example_first :: TrackerIssue where
  "example_first = (sample_issue ''1'' ''Todo'')\<lparr>ti_description := None, ti_priority := Some 1\<rparr>"

definition example_second :: TrackerIssue where
  "example_second = (sample_issue ''2'' ''Todo'')\<lparr>ti_description := None, ti_priority := Some 3\<rparr>"

lemma example_normalized: "normalized_state example_first = ''todo''" "normalized_state example_second = ''todo''"
  by (simp_all add: normalized_state_def normalize_state_def example_first_def example_second_def
      sample_issue_def text_eval)

lemma example_states:
  "active_state_set (example_config n) = [''todo'', ''in progress'', ''rework'']"
  "terminal_state_set (example_config n) = [''done'']"
  by (simp_all add: active_state_set_def terminal_state_set_def normalized_nonblank_def
      example_config_def text_eval)

lemma example_no_subissues:
  "ti_project_fields i = Map.empty \<Longrightarrow> native_subissue_gate_blocker i T = None"
  by (simp add: gate_blocker_None_iff native_subissue_statuses_def subissues_from_array_def
      subissues_from_state_pairs_def subissues_from_list_def)

lemma example_fields:
  "ti_blocked_by example_first = []" "ti_blocked_by example_second = []"
  "ti_project_fields example_first = Map.empty" "ti_project_fields example_second = Map.empty"
  "ti_description example_first = None" "ti_description example_second = None"
  by (simp_all add: example_first_def example_second_def sample_issue_def)

definition one_slot :: RuntimeConfig where
  "one_slot = example_config 1"

lemma one_slot_limits: "ac_max_concurrent_agents (rc_agent one_slot) = 1" "state_limit one_slot n = 1"
  by (simp_all add: one_slot_def example_config_def state_limit_def)

lemma example_eligible: "dispatch_eligible one_slot example_first" "dispatch_eligible one_slot example_second"
  by (simp_all add: dispatch_eligible_def dispatch_candidate_def Let_def one_slot_def example_states
      example_normalized issue_blocked_by_non_terminal_def example_no_subissues example_fields
      trim_Nil_iff)

lemma example_selected:
  "dp_selected (plan_dispatch one_slot [example_second, example_first]) = [example_first]"
proof -
  have order: "sort_issues_for_dispatch [example_second, example_first] = [example_first, example_second]"
    by (simp add: sort_issues_for_dispatch_def dispatch_key_def priority_rank_def
        example_first_def example_second_def)
  have slot: "has_slot one_slot plan_initial example_first"
    by (simp add: has_slot_def plan_initial_def used_for_state_def one_slot_limits)
  let ?s = "plan_step one_slot plan_initial example_first"
  have first: "pl_selected ?s = [example_first]"
    using plan_step_selects [OF example_eligible(1) slot] by (simp add: plan_initial_def)
  have "pl_selected (run_plan one_slot ?s [example_second]) = pl_selected ?s"
    by (rule run_plan_full) (simp add: first one_slot_limits)
  then show ?thesis
    by (simp add: plan_dispatch_def Let_def plan_loop_def order first)
qed

theorem plan_dispatch_no_overtaking_witness:
  "dispatch_eligible one_slot example_second \<and>
   example_second \<notin> set (dp_selected (plan_dispatch one_slot [example_second, example_first])) \<and>
   (length (dp_selected (plan_dispatch one_slot [example_second, example_first])) = 1 \<or>
    length (filter (\<lambda>j. in_state ''todo'' j \<and> dispatch_key j \<le> dispatch_key example_second)
        (dp_selected (plan_dispatch one_slot [example_second, example_first]))) = 1)"
proof -
  have "example_second \<noteq> example_first"
    by (simp add: example_first_def example_second_def sample_issue_def)
  then have un: "example_second \<notin> set (dp_selected (plan_dispatch one_slot [example_second, example_first]))"
    by (simp add: example_selected)
  show ?thesis
    using plan_dispatch_no_overtaking [OF _ example_eligible(2) un, unfolded example_normalized one_slot_limits]
      un example_eligible(2) by auto
qed

text \<open>A retry waits one second for the first continuation and otherwise ten seconds
  doubled per attempt, at most ten times, and never longer than the configured maximum; no
  attempt number makes the computation overflow.\<close>

theorem retry_delay_exact:
  "unat (retry_delay_ms c attempt continuation) =
     (if continuation \<and> attempt = 1 then 1000
      else min (10000 * 2 ^ min (unat attempt - 1) 10)
             (unat (ac_max_retry_backoff_ms (rc_agent c))))"
proof -
  let ?p = "min (saturating_sub attempt 1) 10"
  have p: "unat ?p = min (unat attempt - 1) 10"
    by (simp add: unat_min unat_saturating_sub)
  then have le: "unat ?p \<le> 10" by simp
  then have "(2::nat) ^ unat ?p \<le> 2 ^ 10" by (intro power_increasing) auto
  then have "unat (saturating_mul (10000 :: u64) (push_bit (unat ?p) 1)) = 10000 * 2 ^ unat ?p"
    unfolding unat_saturating_mul unat_push_bit_small [OF le] by simp
  then show ?thesis
    by (simp add: retry_delay_ms_def Let_def unat_min unat_saturating_sub)
qed


end
