(* ===== verification/Lane_Claim.thy ===== *)
theory Lane_Claim
  imports Prelude
begin

section \<open>Lane claims (\<^verbatim>\<open>src/lane_claim.rs\<close>)\<close>

text \<open>
  A lane claim is the line of \<^verbatim>\<open>key=value\<close> tokens that an agent leaves in the tracker to
  own an issue. The parser's cursor \<^verbatim>\<open>Peekable<CharIndices>\<close> is the text that is left to
  read, so that a byte range of the input is the difference of two such texts (\<open>slice\<close>). The
  token loop reads at least one character per turn, which is its termination proof. Run
  identifiers carry the time of the claim, computed with the civil calendar.
\<close>

datatype LaneClaimLane = Main | Review | Merge
datatype LaneClaimActor = Codex | Gemini | Antigravity | Claude | Human
datatype LaneClaimSource = Loop | Manual | Goal
datatype LaneClaimState = Active | Done | Stale | Failed | Superseded

record LaneClaim =
  cl_lane :: LaneClaimLane
  cl_actor :: LaneClaimActor
  cl_worker :: "string option"
  cl_source :: LaneClaimSource
  cl_issue :: string
  cl_run :: string
  cl_state :: LaneClaimState
  cl_thread :: string
  cl_registry :: string

datatype LaneClaimParseError =
    MissingKey string
  | UnsupportedVersion string
  | InvalidToken string
  | InvalidValue string string

fun claim_error_display :: "LaneClaimParseError \<Rightarrow> string" where
  "claim_error_display (MissingKey k) = ''missing claim key `'' @ k @ ''`''"
| "claim_error_display (UnsupportedVersion v) = ''unsupported claim version `'' @ v @ ''`''"
| "claim_error_display (InvalidToken t) = ''invalid claim token `'' @ t @ ''`''"
| "claim_error_display (InvalidValue k v) = ''invalid claim value `'' @ k @ ''='' @ v @ ''`''"

fun lane_as_str :: "LaneClaimLane \<Rightarrow> string" where
  "lane_as_str Main = ''main''"
| "lane_as_str Review = ''review''"
| "lane_as_str Merge = ''merge''"

fun actor_as_str :: "LaneClaimActor \<Rightarrow> string" where
  "actor_as_str Codex = ''codex''"
| "actor_as_str Gemini = ''gemini''"
| "actor_as_str Antigravity = ''antigravity''"
| "actor_as_str Claude = ''claude''"
| "actor_as_str Human = ''human''"

fun source_as_str :: "LaneClaimSource \<Rightarrow> string" where
  "source_as_str Loop = ''loop''"
| "source_as_str Manual = ''manual''"
| "source_as_str Goal = ''goal''"

fun state_as_str :: "LaneClaimState \<Rightarrow> string" where
  "state_as_str Active = ''active''"
| "state_as_str Done = ''done''"
| "state_as_str Stale = ''stale''"
| "state_as_str Failed = ''failed''"
| "state_as_str Superseded = ''superseded''"

definition is_terminal_audit_pointer :: "LaneClaimState \<Rightarrow> bool" where
  "is_terminal_audit_pointer s \<longleftrightarrow> s \<in> {Done, Stale, Failed, Superseded}"

subsection \<open>Run identifiers\<close>

definition civil_from_days :: "int \<Rightarrow> int \<times> int \<times> int" where
  "civil_from_days d0 =
     (let days = d0 + 719468;
          era = tdiv (if days \<ge> 0 then days else days - 146096) 146097;
          day_of_era = days - era * 146097;
          year_of_era = tdiv (day_of_era - tdiv day_of_era 1460 + tdiv day_of_era 36524
                              - tdiv day_of_era 146096) 365;
          year = year_of_era + era * 400;
          day_of_year = day_of_era - (365 * year_of_era + tdiv year_of_era 4 - tdiv year_of_era 100);
          month_prime = tdiv (5 * day_of_year + 2) 153;
          day = day_of_year - tdiv (153 * month_prime + 2) 5 + 1;
          month = month_prime + (if month_prime < 10 then 3 else - 9)
      in (if month \<le> 2 then year + 1 else year, month, day))"

text \<open>Years are at least 1970 here, months and days positive.\<close>

definition format_utc_compact :: "nat \<Rightarrow> string" where
  "format_utc_compact seconds =
     (let days = int (seconds div 86400); seconds_of_day = seconds mod 86400;
          (year, month, day) = civil_from_days days;
          hour = seconds_of_day div 3600; minute = seconds_of_day mod 3600 div 60
      in pad0 4 (nat year) @ pad0 2 (nat month) @ pad0 2 (nat day) @ ''T'' @ pad0 2 hour @
         pad0 2 minute @ ''Z'')"

definition generate_run_id :: "u64 \<Rightarrow> string \<Rightarrow> LaneClaimLane \<Rightarrow> string" where
  "generate_run_id now_ms issue lane =
     (let seconds = unat now_ms div 1000; suffix = unat now_ms mod 65536
      in format_utc_compact seconds @ ''-issue'' @
         trim_start_matches (\<lambda>c. c = CHR ''#'') (trim issue) @ ''-'' @ lane_as_str lane @ ''-'' @
         show_hex4 suffix)"

subsection \<open>Building claims\<close>

definition claim_active ::
    "string \<Rightarrow> LaneClaimLane \<Rightarrow> LaneClaimActor \<Rightarrow> LaneClaimSource \<Rightarrow> u64 \<Rightarrow> LaneClaim" where
  "claim_active issue lane actor source now_ms =
     (let run = generate_run_id now_ms issue lane in
      \<lparr>cl_lane = lane, cl_actor = actor, cl_worker = None, cl_source = source, cl_issue = issue,
       cl_run = run, cl_state = Active, cl_thread = ''unknown'', cl_registry = ''run/'' @ run\<rparr>)"

definition with_state :: "LaneClaim \<Rightarrow> LaneClaimState \<Rightarrow> LaneClaim" where
  "with_state c s = c\<lparr>cl_state := s\<rparr>"

definition with_worker :: "LaneClaim \<Rightarrow> string \<Rightarrow> LaneClaim" where
  "with_worker c w = c\<lparr>cl_worker := (if trim w \<noteq> [] then Some (trim w) else None)\<rparr>"

subsection \<open>Rendering\<close>

definition NEWLINE :: char where "NEWLINE = char_of (10::nat)"
definition RETURN :: char where "RETURN = char_of (13::nat)"
definition TAB :: char where "TAB = char_of (9::nat)"
definition QUOTE :: char where "QUOTE = char_of (34::nat)"
definition BACKSLASH :: char where "BACKSLASH = char_of (92::nat)"

definition escape_char :: "char \<Rightarrow> string" where
  "escape_char c =
     (if c = BACKSLASH then [BACKSLASH, BACKSLASH]
      else if c = QUOTE then [BACKSLASH, QUOTE]
      else if c = NEWLINE then [BACKSLASH, CHR ''n'']
      else if c = RETURN then [BACKSLASH, CHR ''r'']
      else if c = TAB then [BACKSLASH, CHR ''t'']
      else [c])"

definition needs_quotes :: "string \<Rightarrow> bool" where
  "needs_quotes v \<longleftrightarrow> v = [] \<or> list_ex (\<lambda>c. is_whitespace c \<or> c = QUOTE \<or> c = BACKSLASH) v"

definition render_claim_value :: "string \<Rightarrow> string" where
  "render_claim_value v =
     (if needs_quotes v then QUOTE # concat (map escape_char v) @ [QUOTE] else v)"

definition claim_token :: "string \<Rightarrow> string \<Rightarrow> string" where
  "claim_token key v = key @ ''='' @ render_claim_value v"

definition claim_render :: "LaneClaim \<Rightarrow> string" where
  "claim_render c =
     join '' '' ([''v=1'', claim_token ''lane'' (lane_as_str (cl_lane c)),
                claim_token ''actor'' (actor_as_str (cl_actor c))] @
               (case cl_worker c of None \<Rightarrow> [] | Some w \<Rightarrow> [claim_token ''worker'' w]) @
               [claim_token ''source'' (source_as_str (cl_source c)),
                claim_token ''issue'' (cl_issue c),
                claim_token ''run'' (cl_run c),
                claim_token ''state'' (state_as_str (cl_state c)),
                claim_token ''thread'' (cl_thread c),
                claim_token ''registry'' (cl_registry c)])"

subsection \<open>Parsing\<close>

definition slice :: "string \<Rightarrow> string \<Rightarrow> string" where
  "slice from_here upto_here = take (length from_here - length upto_here) from_here"

definition invalid_token_from :: "string \<Rightarrow> string \<Rightarrow> LaneClaimParseError" where
  "invalid_token_from start cursor = InvalidToken (slice start cursor)"

text \<open>The key loop: the key and the text after its \<^verbatim>\<open>=\<close>, or the text at the whitespace.\<close>

fun claim_key :: "string \<Rightarrow> (string, string \<times> string) result" where
  "claim_key [] = Inr ([], [])"
| "claim_key (c # s) =
     (if c = CHR ''='' then Inr ([], s)
      else if is_whitespace c then Inl (c # s)
      else case claim_key s of Inl r \<Rightarrow> Inl r | Inr (k, r) \<Rightarrow> Inr (c # k, r))"

definition unescape_char :: "char \<Rightarrow> char" where
  "unescape_char c =
     (if c = CHR ''n'' then NEWLINE else if c = CHR ''r'' then RETURN
      else if c = CHR ''t'' then TAB else c)"

text \<open>The value up to the closing quote and the text after it; \<^term>\<open>None\<close> if the input
  ends first.\<close>

fun quoted_value :: "string \<Rightarrow> (string \<times> string) option" where
  "quoted_value [] = None"
| "quoted_value (c # s) =
     (if c = QUOTE then Some ([], s)
      else if c = BACKSLASH
      then (case s of
              [] \<Rightarrow> None
            | e # s' \<Rightarrow> map_option (\<lambda>(v, r). (unescape_char e # v, r)) (quoted_value s'))
      else map_option (\<lambda>(v, r). (c # v, r)) (quoted_value s))"

definition parse_quoted_claim_value ::
    "string \<Rightarrow> string \<Rightarrow> (LaneClaimParseError, string \<times> string) result" where
  "parse_quoted_claim_value start s =
     (case quoted_value s of
        None \<Rightarrow> Inl (InvalidToken start)
      | Some (v, rest) \<Rightarrow>
          (if rest \<noteq> [] \<and> \<not> is_whitespace (hd rest)
           then Inl (invalid_token_from start rest) else Inr (v, rest)))"

definition parse_unquoted_claim_value :: "string \<Rightarrow> string \<times> string" where
  "parse_unquoted_claim_value s =
     (takeWhile (\<lambda>c. \<not> is_whitespace c) s, dropWhile (\<lambda>c. \<not> is_whitespace c) s)"

text \<open>One token: its key, its value and the text after it.\<close>

definition parse_claim_token ::
    "string \<Rightarrow> (LaneClaimParseError, string \<times> string \<times> string) result" where
  "parse_claim_token start =
     (case claim_key start of
        Inl cursor \<Rightarrow> Inl (invalid_token_from start cursor)
      | Inr (key, cursor) \<Rightarrow>
          (if key = [] then Inl (invalid_token_from start cursor)
           else case cursor of
                  [] \<Rightarrow> Inl (InvalidToken key)
                | c # s \<Rightarrow>
                    (case (if c = QUOTE then parse_quoted_claim_value start s
                           else Inr (parse_unquoted_claim_value cursor)) of
                       Inl e \<Rightarrow> Inl e
                     | Inr (v, rest) \<Rightarrow>
                         (if v = [] then Inl (InvalidToken (key @ ''='')) else Inr (key, v, rest)))))"

lemma claim_key_length: "claim_key s = Inr (k, r) \<Longrightarrow> length k + length r \<le> length s"
  by (induction s arbitrary: k r) (auto split: if_splits sum.splits)

lemma quoted_value_length: "quoted_value s = Some (v, r) \<Longrightarrow> length r < length s"
proof (induction s arbitrary: v r rule: quoted_value.induct)
  case (2 c s)
  then show ?case by (fastforce split: if_splits list.splits)
qed simp

lemma parse_quoted_length: "parse_quoted_claim_value start s = Inr (v, r) \<Longrightarrow> length r \<le> length s"
  by (auto simp: parse_quoted_claim_value_def split: option.splits if_splits
      dest!: quoted_value_length)

lemma parse_unquoted_length: "parse_unquoted_claim_value s = (v, r) \<Longrightarrow> length r \<le> length s"
  by (auto simp: parse_unquoted_claim_value_def length_dropWhile_le)

lemma parse_claim_token_length: "parse_claim_token s = Inr (k, v, r) \<Longrightarrow> length r < length s"
proof -
  assume "parse_claim_token s = Inr (k, v, r)"
  then obtain c t where k: "claim_key s = Inr (k, c # t)" and "k \<noteq> []"
    and val: "(if c = QUOTE then parse_quoted_claim_value s t
               else Inr (parse_unquoted_claim_value (c # t))) = Inr (v, r)"
    by (auto simp: parse_claim_token_def split: sum.splits if_splits list.splits)
  have "length r \<le> length (c # t)"
    using val parse_quoted_length [of s t v r] parse_unquoted_length [of "c # t" v r]
    by (auto split: if_splits)
  moreover have "length k + length (c # t) \<le> length s"
    using claim_key_length [OF k] by simp
  moreover have "0 < length k" using \<open>k \<noteq> []\<close> by simp
  ultimately show "length r < length s" by linarith
qed

function parse_claim_tokens :: "string \<Rightarrow> (LaneClaimParseError, (string \<times> string) list) result" where
  "parse_claim_tokens [] = Inr []"
| "parse_claim_tokens (c # s) =
     (if is_whitespace c then parse_claim_tokens s
      else case parse_claim_token (c # s) of
             Inl e \<Rightarrow> Inl e
           | Inr (key, v, rest) \<Rightarrow>
               (case parse_claim_tokens rest of Inl e \<Rightarrow> Inl e | Inr kvs \<Rightarrow> Inr ((key, v) # kvs)))"
  by pat_completeness auto
termination
  by (relation "measure length") (auto dest: parse_claim_token_length)

definition required :: "(string \<rightharpoonup> string) \<Rightarrow> string \<Rightarrow> (LaneClaimParseError, string) result" where
  "required m key = (case m key of Some v \<Rightarrow> Inr v | None \<Rightarrow> Inl (MissingKey key))"

definition parse_lane :: "string \<Rightarrow> (LaneClaimParseError, LaneClaimLane) result" where
  "parse_lane v =
     (if v = ''main'' then Inr Main else if v = ''review'' then Inr Review
      else if v = ''merge'' then Inr Merge else Inl (InvalidValue ''lane'' v))"

definition parse_actor :: "string \<Rightarrow> (LaneClaimParseError, LaneClaimActor) result" where
  "parse_actor v =
     (if v = ''codex'' then Inr Codex else if v = ''gemini'' then Inr Gemini
      else if v = ''antigravity'' then Inr Antigravity else if v = ''claude'' then Inr Claude
      else if v = ''human'' then Inr Human else Inl (InvalidValue ''actor'' v))"

definition parse_source :: "string \<Rightarrow> (LaneClaimParseError, LaneClaimSource) result" where
  "parse_source v =
     (if v = ''loop'' then Inr Loop else if v = ''manual'' then Inr Manual
      else if v = ''goal'' then Inr Goal else Inl (InvalidValue ''source'' v))"

definition parse_state :: "string \<Rightarrow> (LaneClaimParseError, LaneClaimState) result" where
  "parse_state v =
     (if v = ''active'' then Inr Active else if v = ''done'' then Inr Done
      else if v = ''stale'' then Inr Stale else if v = ''failed'' then Inr Failed
      else if v = ''superseded'' then Inr Superseded else Inl (InvalidValue ''state'' v))"

definition claim_values :: "(string \<times> string) list \<Rightarrow> string \<rightharpoonup> string" where
  "claim_values kvs = foldl (\<lambda>m (k, v). m(k \<mapsto> v)) Map.empty kvs"

definition claim_parse :: "string \<Rightarrow> (LaneClaimParseError, LaneClaim) result" where
  "claim_parse input =
     and_then (parse_claim_tokens input) (\<lambda>kvs. let values = claim_values kvs in
     and_then (required values ''v'') (\<lambda>version.
     if version \<noteq> ''1'' then Inl (UnsupportedVersion version)
     else
       and_then (and_then (required values ''lane'') parse_lane) (\<lambda>lane.
       and_then (and_then (required values ''actor'') parse_actor) (\<lambda>actor.
       and_then (and_then (required values ''source'') parse_source) (\<lambda>source.
       and_then (required values ''issue'') (\<lambda>issue.
       and_then (required values ''run'') (\<lambda>run.
       and_then (and_then (required values ''state'') parse_state) (\<lambda>state.
       and_then (required values ''thread'') (\<lambda>thread.
       and_then (required values ''registry'') (\<lambda>registry.
         Inr \<lparr>cl_lane = lane, cl_actor = actor, cl_worker = values ''worker'', cl_source = source,
              cl_issue = issue, cl_run = run, cl_state = state, cl_thread = thread,
              cl_registry = registry\<rparr>))))))))))"

subsection \<open>Facts: a rendered token is read back\<close>

lemma special_chars [simp]:
  "QUOTE \<noteq> BACKSLASH" "BACKSLASH \<noteq> QUOTE" "NEWLINE \<noteq> QUOTE" "RETURN \<noteq> QUOTE" "TAB \<noteq> QUOTE"
  "NEWLINE \<noteq> BACKSLASH" "RETURN \<noteq> BACKSLASH" "TAB \<noteq> BACKSLASH"
  "QUOTE \<noteq> CHR ''n''" "QUOTE \<noteq> CHR ''r''" "QUOTE \<noteq> CHR ''t''"
  "BACKSLASH \<noteq> CHR ''n''" "BACKSLASH \<noteq> CHR ''r''" "BACKSLASH \<noteq> CHR ''t''"
  by (simp_all add: QUOTE_def BACKSLASH_def NEWLINE_def RETURN_def TAB_def text_eval)

lemma escape_special [simp]:
  "escape_char BACKSLASH = [BACKSLASH, BACKSLASH]" "escape_char QUOTE = [BACKSLASH, QUOTE]"
  "escape_char NEWLINE = [BACKSLASH, CHR ''n'']" "escape_char RETURN = [BACKSLASH, CHR ''r'']"
  "escape_char TAB = [BACKSLASH, CHR ''t'']"
  by (simp_all add: escape_char_def) (simp_all add: RETURN_def NEWLINE_def TAB_def text_eval)

lemma whitespace_space [simp]: "is_whitespace (CHR '' '')"
  by (simp add: is_whitespace_def)

lemma quoted_value_escape:
  "quoted_value (concat (map escape_char v) @ QUOTE # rest) = Some (v, rest)"
proof (induction v)
  case (Cons c v)
  consider "c = BACKSLASH" | "c = QUOTE" | "c = NEWLINE" | "c = RETURN" | "c = TAB"
    | "c \<notin> {BACKSLASH, QUOTE, NEWLINE, RETURN, TAB}" by blast
  then show ?case
  proof cases
    case 6
    then have "escape_char c = [c]" by (simp add: escape_char_def)
    with 6 Cons show ?thesis by simp
  qed (simp_all add: unescape_char_def Cons)
qed simp

definition separated :: "string \<Rightarrow> bool" where
  "separated rest \<longleftrightarrow> rest = [] \<or> is_whitespace (hd rest)"

definition plain_key :: "string \<Rightarrow> bool" where
  "plain_key k \<longleftrightarrow> k \<noteq> [] \<and> list_all (\<lambda>c. \<not> is_whitespace c \<and> c \<noteq> CHR ''='') k"

lemma claim_key_plain:
  "list_all (\<lambda>c. \<not> is_whitespace c \<and> c \<noteq> CHR ''='') k \<Longrightarrow> claim_key (k @ CHR ''='' # s) = Inr (k, s)"
  by (induction k) auto

lemma unquoted_value_plain:
  "list_all (\<lambda>c. \<not> is_whitespace c) v \<Longrightarrow> separated rest \<Longrightarrow>
   parse_unquoted_claim_value (v @ rest) = (v, rest)"
  by (induction v)
    (auto simp: parse_unquoted_claim_value_def separated_def takeWhile_eq_Nil_iff dropWhile_eq_self_iff)

lemma parse_rendered_token:
  assumes "plain_key k" and "v \<noteq> []" and "separated rest"
  shows "parse_claim_token (claim_token k v @ rest) = Inr (k, v, rest)"
proof -
  let ?start = "claim_token k v @ rest"
  have key: "claim_key ?start = Inr (k, render_claim_value v @ rest)"
    using claim_key_plain [of k] assms(1) by (simp add: plain_key_def claim_token_def)
  show ?thesis
  proof (cases "needs_quotes v")
    case True
    then have "render_claim_value v @ rest = QUOTE # (concat (map escape_char v) @ QUOTE # rest)"
      by (simp add: render_claim_value_def)
    moreover have "parse_quoted_claim_value ?start (concat (map escape_char v) @ QUOTE # rest) = Inr (v, rest)"
      using assms(3) by (auto simp: parse_quoted_claim_value_def quoted_value_escape separated_def)
    ultimately show ?thesis
      using assms(1,2) by (simp add: parse_claim_token_def key plain_key_def)
  next
    case False
    then have plain: "list_all (\<lambda>c. \<not> is_whitespace c) v" "hd v \<noteq> QUOTE"
      using assms(2) by (auto simp: needs_quotes_def list_all_iff list_ex_iff)
    from assms(2) obtain c w where v: "v = c # w" by (cases v) auto
    have "parse_unquoted_claim_value (c # w @ rest) = (v, rest)"
      using unquoted_value_plain [OF plain(1) assms(3)] by (simp add: v)
    moreover have "claim_key ?start = Inr (k, c # w @ rest)"
      unfolding key using False by (simp add: render_claim_value_def v)
    ultimately show ?thesis
      unfolding parse_claim_token_def using plain(2) assms(1,2) by (simp add: plain_key_def v)
  qed
qed

lemma parse_claim_tokens_cons:
  assumes "plain_key k" and "v \<noteq> []" and "separated rest"
  shows "parse_claim_tokens (claim_token k v @ rest) =
    and_then (parse_claim_tokens rest) (\<lambda>kvs. Inr ((k, v) # kvs))"
proof -
  obtain c s where c: "claim_token k v @ rest = c # s" and "\<not> is_whitespace c"
    using assms(1) by (cases k) (auto simp: plain_key_def claim_token_def)
  then show ?thesis
    using parse_rendered_token [OF assms] by (simp add: and_then_def split: sum.splits)
qed

text \<open>Any list of plain keys and nonempty values survives rendering and reading.\<close>

lemma parse_joined_tokens:
  assumes "list_all (\<lambda>(k, v). plain_key k \<and> v \<noteq> []) kvs"
  shows "parse_claim_tokens (join '' '' (map (\<lambda>(k, v). claim_token k v) kvs)) = Inr kvs"
  using assms
proof (induction kvs rule: induct_list012)
  case (2 kv)
  then show ?case
    using parse_claim_tokens_cons [of "fst kv" "snd kv" "[]"]
    by (auto simp: separated_def split: prod.splits)
next
  case (3 kv kv' kvs)
  let ?rest = "join '' '' (map (\<lambda>(k, v). claim_token k v) (kv' # kvs))"
  have "separated (CHR '' '' # ?rest)" by (simp add: separated_def)
  then have "parse_claim_tokens (claim_token (fst kv) (snd kv) @ CHR '' '' # ?rest) =
      and_then (parse_claim_tokens ?rest) (\<lambda>kvs. Inr (kv # kvs))"
    using 3(3) parse_claim_tokens_cons [of "fst kv" "snd kv" "CHR '' '' # ?rest"]
    by (auto split: prod.splits)
  then show ?case using 3 by (simp split: prod.splits)
qed simp

lemma parsed_values_nonempty:
  "parse_claim_tokens s = Inr kvs \<Longrightarrow> (k, v) \<in> set kvs \<Longrightarrow> v \<noteq> []"
proof (induction s arbitrary: kvs rule: parse_claim_tokens.induct)
  case (2 c s)
  show ?case
  proof (cases "is_whitespace c")
    case True
    with 2 show ?thesis by simp
  next
    case False
    with "2.prems"(1) obtain key w rest kvs' where
      t: "parse_claim_token (c # s) = Inr (key, w, rest)" and
      r: "parse_claim_tokens rest = Inr kvs'" and kvs: "kvs = (key, w) # kvs'"
      by (auto split: sum.splits)
    have "w \<noteq> []" using t by (auto simp: parse_claim_token_def split: sum.splits if_splits list.splits)
    with "2.IH"(2) [OF False t _ _ r] "2.prems"(2) show ?thesis by (auto simp: kvs)
  qed
qed simp

subsection \<open>Facts: claims\<close>

definition claim_fields :: "LaneClaim \<Rightarrow> (string \<times> string) list" where
  "claim_fields c =
     [(''v'', ''1''), (''lane'', lane_as_str (cl_lane c)), (''actor'', actor_as_str (cl_actor c))] @
     (case cl_worker c of None \<Rightarrow> [] | Some w \<Rightarrow> [(''worker'', w)]) @
     [(''source'', source_as_str (cl_source c)), (''issue'', cl_issue c), (''run'', cl_run c),
      (''state'', state_as_str (cl_state c)), (''thread'', cl_thread c), (''registry'', cl_registry c)]"

definition claim_complete :: "LaneClaim \<Rightarrow> bool" where
  "claim_complete c \<longleftrightarrow>
     cl_issue c \<noteq> [] \<and> cl_run c \<noteq> [] \<and> cl_thread c \<noteq> [] \<and> cl_registry c \<noteq> [] \<and> cl_worker c \<noteq> Some []"

lemma claim_render_fields: "claim_render c = join '' '' (map (\<lambda>(k, v). claim_token k v) (claim_fields c))"
  by (simp add: claim_render_def claim_fields_def claim_token_def [of "''v''"] render_claim_value_def
      needs_quotes_def QUOTE_def BACKSLASH_def text_eval split: option.splits)

lemma enum_texts_nonempty [simp]:
  "lane_as_str l \<noteq> []" "actor_as_str a \<noteq> []" "source_as_str s \<noteq> []" "state_as_str t \<noteq> []"
proof -
  show "lane_as_str l \<noteq> []" by (cases l) simp_all
  show "actor_as_str a \<noteq> []" by (cases a) simp_all
  show "source_as_str s \<noteq> []" by (cases s) simp_all
  show "state_as_str t \<noteq> []" by (cases t) simp_all
qed

lemma claim_fields_plain:
  "claim_complete c \<Longrightarrow> list_all (\<lambda>(k, v). plain_key k \<and> v \<noteq> []) (claim_fields c)"
  by (cases "cl_worker c") (simp_all add: claim_fields_def claim_complete_def plain_key_def is_whitespace_def)

lemma claim_values_map_of: "claim_values kvs = map_of (rev kvs)"
proof -
  have "foldl (\<lambda>m (k, v). m(k \<mapsto> v)) m kvs = m ++ map_of (rev kvs)" for m
    by (induction kvs arbitrary: m) (auto simp: map_add_def fun_eq_iff split: option.splits)
  then show ?thesis by (simp add: claim_values_def)
qed

lemma claim_values_fields:
  "claim_values (claim_fields c) ''v'' = Some ''1''"
  "claim_values (claim_fields c) ''lane'' = Some (lane_as_str (cl_lane c))"
  "claim_values (claim_fields c) ''actor'' = Some (actor_as_str (cl_actor c))"
  "claim_values (claim_fields c) ''worker'' = cl_worker c"
  "claim_values (claim_fields c) ''source'' = Some (source_as_str (cl_source c))"
  "claim_values (claim_fields c) ''issue'' = Some (cl_issue c)"
  "claim_values (claim_fields c) ''run'' = Some (cl_run c)"
  "claim_values (claim_fields c) ''state'' = Some (state_as_str (cl_state c))"
  "claim_values (claim_fields c) ''thread'' = Some (cl_thread c)"
  "claim_values (claim_fields c) ''registry'' = Some (cl_registry c)"
  by (cases "cl_worker c"; simp add: claim_values_map_of claim_fields_def)+

lemma enum_texts_parse [simp]:
  "parse_lane (lane_as_str l) = Inr l" "parse_actor (actor_as_str a) = Inr a"
  "parse_source (source_as_str s) = Inr s" "parse_state (state_as_str t) = Inr t"
proof -
  show "parse_lane (lane_as_str l) = Inr l" by (cases l) (simp_all add: parse_lane_def)
  show "parse_actor (actor_as_str a) = Inr a" by (cases a) (simp_all add: parse_actor_def)
  show "parse_source (source_as_str s) = Inr s" by (cases s) (simp_all add: parse_source_def)
  show "parse_state (state_as_str t) = Inr t" by (cases t) (simp_all add: parse_state_def)
qed

lemma parse_render_complete:
  assumes "claim_complete c"
  shows "claim_parse (claim_render c) = Inr c"
  unfolding claim_parse_def claim_render_fields
    parse_joined_tokens [OF claim_fields_plain [OF assms]]
  by (simp add: claim_values_fields required_def)

lemma parsed_claim_complete:
  assumes "claim_parse s = Inr c"
  shows "claim_complete c"
proof -
  from assms obtain kvs where kvs: "parse_claim_tokens s = Inr kvs"
    by (auto simp: claim_parse_def and_then_Inr_iff)
  have ne: "v \<noteq> []" if "claim_values kvs k = Some v" for k v
    using that parsed_values_nonempty [OF kvs, of k v]
    by (auto simp: claim_values_map_of dest!: map_of_SomeD)
  have "claim_values kvs ''issue'' = Some (cl_issue c) \<and> claim_values kvs ''run'' = Some (cl_run c) \<and>
      claim_values kvs ''thread'' = Some (cl_thread c) \<and>
      claim_values kvs ''registry'' = Some (cl_registry c) \<and> claim_values kvs ''worker'' = cl_worker c"
    using assms kvs
    by (auto simp: claim_parse_def Let_def required_def and_then_Inr_iff split: if_splits option.splits)
  then show ?thesis
    unfolding claim_complete_def using ne by metis
qed

subsection \<open>Properties\<close>

text \<open>C34: A rendered claim is parsed back to the same claim exactly when its issue, run,
  thread and registry, and its worker if it has one, are nonempty: spaces, quotes,
  backslashes and line breaks in the values survive. (An empty value is rendered as two
  quotes, which the parser refuses.)\<close>

theorem claim_round_trip:
  "claim_parse (claim_render c) = Inr c \<longleftrightarrow> claim_complete c"
  using parse_render_complete parsed_claim_complete by blast

text \<open>Whatever text is parsed, an accepted claim is complete, so it can be rendered and
  parsed again without change: parsing is a projection onto the well-formed claims.\<close>

theorem claim_parse_stable:
  assumes "claim_parse s = Inr c"
  shows "claim_complete c \<and> claim_parse (claim_render c) = Inr c"
  using parsed_claim_complete [OF assms] parse_render_complete by blast

theorem claim_parse_stable_witness:
  "\<exists>s c. claim_parse s = Inr c \<and> cl_issue c = ''a b'' \<and> claim_complete c \<and> claim_parse (claim_render c) = Inr c"
proof -
  let ?c = "claim_active ''a b'' Review Codex Loop 0"
  have "claim_complete ?c"
    by (simp add: claim_complete_def claim_active_def Let_def generate_run_id_def)
  then have "claim_parse (claim_render ?c) = Inr ?c" by (rule parse_render_complete)
  from claim_parse_stable [OF this] this show ?thesis
    by (intro exI [of _ "claim_render ?c"] exI [of _ ?c]) (simp add: claim_active_def Let_def)
qed

text \<open>The claim an agent opens on an issue, closed later in any state and with any worker
  name, survives being written to and read from the tracker, whenever the issue is named.\<close>

theorem opened_claim_round_trip:
  "claim_parse (claim_render (with_worker (with_state (claim_active issue lane actor source now_ms) st) w)) =
     Inr (with_worker (with_state (claim_active issue lane actor source now_ms) st) w) \<longleftrightarrow> issue \<noteq> []"
proof -
  have "claim_complete (with_worker (with_state (claim_active issue lane actor source now_ms) st) w) \<longleftrightarrow>
      issue \<noteq> []"
    by (auto simp: claim_complete_def claim_active_def with_state_def with_worker_def Let_def
        generate_run_id_def)
  then show ?thesis
    using parse_render_complete parsed_claim_complete by blast
qed

end
