(* ===== verification/Identity.thy ===== *)
theory Identity
  imports Prelude
begin

section \<open>Identities of the 2607 runtime (\<^verbatim>\<open>src/symphony/local_state/identity.rs\<close>)\<close>

text \<open>
  Repository, issue and workflow identities and the enumerations the local read model
  stores by spelling. The newtypes \<^verbatim>\<open>WorkflowId\<close> and \<^verbatim>\<open>WorkspaceRuntimeId\<close> wrap a
  string and are type synonyms here. \<open>OffsetDateTime\<close> is the value of the \<^verbatim>\<open>time\<close>
  crate that the sources read through its calendar accessors; what the crate guarantees of
  such a value is the predicate \<open>valid_datetime\<close>.
\<close>

record RepoId =
  ri_host :: string
  ri_owner :: string
  ri_repo :: string

definition repo_database_key :: "RepoId \<Rightarrow> string" where
  "repo_database_key r = ri_host r @ ''/'' @ ri_owner r @ ''/'' @ ri_repo r"

type_synonym WorkspaceRuntimeId = string
type_synonym WorkflowId = string

datatype TrackerBackend = GithubProjectV2 | Linear

fun backend_as_str :: "TrackerBackend \<Rightarrow> string" where
  "backend_as_str GithubProjectV2 = ''github_project_v2''"
| "backend_as_str Linear = ''linear''"

record IssueRef =
  ir_tracker_backend :: TrackerBackend
  ir_repo_id :: RepoId
  ir_number :: u64

definition issue_database_key :: "IssueRef \<Rightarrow> string" where
  "issue_database_key i =
     backend_as_str (ir_tracker_backend i) @ ''|'' @ repo_database_key (ir_repo_id i) @ ''|'' @
     show_nat (unat (ir_number i))"

definition display_ref :: "IssueRef \<Rightarrow> string" where
  "display_ref i = ''#'' @ show_nat (unat (ir_number i))"

datatype WorkflowIndexStatus =
    Starting
  | Running
  | Completed
  | Failed
  | StartFailed
  | StaleStart
  | StaleMissing
  | ClosedUnknown

fun status_as_str :: "WorkflowIndexStatus \<Rightarrow> string" where
  "status_as_str Starting = ''starting''"
| "status_as_str Running = ''running''"
| "status_as_str Completed = ''completed''"
| "status_as_str Failed = ''failed''"
| "status_as_str StartFailed = ''start_failed''"
| "status_as_str StaleStart = ''stale_start''"
| "status_as_str StaleMissing = ''stale_missing''"
| "status_as_str ClosedUnknown = ''closed_unknown''"

definition status_is_active :: "WorkflowIndexStatus \<Rightarrow> bool" where
  "status_is_active s \<longleftrightarrow> s \<in> {Starting, Running}"

definition ACTIVE_WORKFLOW_STATUSES :: "WorkflowIndexStatus list" where
  "ACTIVE_WORKFLOW_STATUSES = [Starting, Running]"

datatype Freshness = Fresh | Stale | Refreshing | FreshnessFailed | FreshnessUnknown

fun freshness_as_str :: "Freshness \<Rightarrow> string" where
  "freshness_as_str Fresh = ''fresh''"
| "freshness_as_str Stale = ''stale''"
| "freshness_as_str Refreshing = ''refreshing''"
| "freshness_as_str FreshnessFailed = ''failed''"
| "freshness_as_str FreshnessUnknown = ''unknown''"

subsection \<open>Calendar values\<close>

record OffsetDateTime =
  dt_year :: int
  dt_month :: nat
  dt_day :: nat
  dt_hour :: nat
  dt_minute :: nat
  dt_second :: nat
  dt_nanosecond :: nat
  dt_offset :: int

definition valid_datetime :: "OffsetDateTime \<Rightarrow> bool" where
  "valid_datetime t \<longleftrightarrow>
     1 \<le> dt_month t \<and> dt_month t \<le> 12 \<and> 1 \<le> dt_day t \<and> dt_day t \<le> 31 \<and>
     dt_hour t < 24 \<and> dt_minute t < 60 \<and> dt_second t < 60 \<and> dt_nanosecond t < 10 ^ 9"

text \<open>\<^verbatim>\<open>{:04}\<close> of a year, whose sign takes one of the four columns.\<close>

definition show_year :: "int \<Rightarrow> string" where
  "show_year y = (if y < 0 then ''-'' @ pad0 3 (nat (- y)) else pad0 4 (nat y))"

subsection \<open>Facts\<close>

lemma active_statuses: "s \<in> set ACTIVE_WORKFLOW_STATUSES \<longleftrightarrow> status_is_active s"
  by (simp add: ACTIVE_WORKFLOW_STATUSES_def status_is_active_def)

lemma status_as_str_inject [simp]: "status_as_str a = status_as_str b \<longleftrightarrow> a = b"
  by (cases a; cases b) simp_all

lemma freshness_as_str_inject [simp]: "freshness_as_str a = freshness_as_str b \<longleftrightarrow> a = b"
  by (cases a; cases b) simp_all

lemma repo_database_key_inject:
  assumes "repo_database_key a = repo_database_key b"
    and "CHR ''/'' \<notin> set (ri_host a) \<union> set (ri_owner a)"
    and "CHR ''/'' \<notin> set (ri_host b) \<union> set (ri_owner b)"
  shows "a = b"
proof -
  have "ri_host a = ri_host b \<and>
      ri_owner a @ CHR ''/'' # ri_repo a = ri_owner b @ CHR ''/'' # ri_repo b"
    using assms by (intro delimited_inject) (auto simp: repo_database_key_def)
  moreover from this have "ri_owner a = ri_owner b \<and> ri_repo a = ri_repo b"
    using assms by (intro delimited_inject) auto
  ultimately show ?thesis by simp
qed

end
