(* ===== verification/Coordinator.thy ===== *)
theory Coordinator
  imports Identity
begin

section \<open>Coordinator activation and workflow identity (\<^verbatim>\<open>src/symphony/coordinator/mod.rs\<close>)\<close>

text \<open>
  The Coordinator turns an observed tracker snapshot into the decision to run an episode.
  A request carries optimistic expectations and provenance; evaluating it against the
  snapshot yields a stale expectation, a static lane or an executable activation with a
  retry-stable Temporal Workflow ID. Nothing here performs I/O.
\<close>

definition MAX_AUDIT_REASON_BYTES :: nat where
  "MAX_AUDIT_REASON_BYTES = 512"

definition MAX_WORKFLOW_ID_BYTES :: nat where
  "MAX_WORKFLOW_ID_BYTES = 256"

datatype CoordinatorTrackerState =
    Backlog
  | Todo
  | NeedToClarify
  | InProgress
  | NeedHumanInput
  | AgentReview
  | HumanReview
  | Rework
  | Merging
  | Done

fun tracker_state_as_str :: "CoordinatorTrackerState \<Rightarrow> string" where
  "tracker_state_as_str Backlog = ''backlog''"
| "tracker_state_as_str Todo = ''todo''"
| "tracker_state_as_str NeedToClarify = ''need-to-clarify''"
| "tracker_state_as_str InProgress = ''in-progress''"
| "tracker_state_as_str NeedHumanInput = ''need-human-input''"
| "tracker_state_as_str AgentReview = ''agent-review''"
| "tracker_state_as_str HumanReview = ''human-review''"
| "tracker_state_as_str Rework = ''rework''"
| "tracker_state_as_str Merging = ''merging''"
| "tracker_state_as_str Done = ''done''"

datatype CoordinatorTargetKind = WorkTarget | ReviewTarget | ReworkTarget | MergeTarget

fun target_kind :: "CoordinatorTrackerState \<Rightarrow> CoordinatorTargetKind option" where
  "target_kind Todo = Some WorkTarget"
| "target_kind InProgress = Some WorkTarget"
| "target_kind AgentReview = Some ReviewTarget"
| "target_kind Rework = Some ReworkTarget"
| "target_kind Merging = Some MergeTarget"
| "target_kind Backlog = None"
| "target_kind NeedToClarify = None"
| "target_kind NeedHumanInput = None"
| "target_kind HumanReview = None"
| "target_kind Done = None"

fun target_kind_as_str :: "CoordinatorTargetKind \<Rightarrow> string" where
  "target_kind_as_str WorkTarget = ''work''"
| "target_kind_as_str ReviewTarget = ''review''"
| "target_kind_as_str ReworkTarget = ''rework''"
| "target_kind_as_str MergeTarget = ''merge''"

datatype CoordinatorSourceKind = TrackerSource | OperatorAction | Doctor | Reconciliation

fun source_kind_as_str :: "CoordinatorSourceKind \<Rightarrow> string" where
  "source_kind_as_str TrackerSource = ''tracker''"
| "source_kind_as_str OperatorAction = ''operator-action''"
| "source_kind_as_str Doctor = ''doctor''"
| "source_kind_as_str Reconciliation = ''reconciliation''"

datatype RepositoryComponent = Host | Owner | Repository

datatype TrackerRevisionKind = Expected | Observed

datatype CoordinatorActivationError =
    EmptyRepositoryComponent RepositoryComponent
  | ZeroIssueNumber
  | EpisodeTimeNotUtc
  | EpisodeTimeNotSecondPrecision
  | EpisodeYearOutOfRange int
  | EmptySourceRef
  | EmptyTrackerRevision TrackerRevisionKind
  | EmptyAuditReason
  | AuditReasonTooLong nat nat
  | WorkflowIdTooLong nat nat

record ObservedTrackerSnapshot =
  os_state :: CoordinatorTrackerState
  os_revision :: string

definition observed_tracker_snapshot_new ::
    "CoordinatorTrackerState \<Rightarrow> string \<Rightarrow>
     (CoordinatorActivationError, ObservedTrackerSnapshot) result" where
  "observed_tracker_snapshot_new st revision =
     (if blank revision then Inl (EmptyTrackerRevision Observed)
      else Inr \<lparr>os_state = st, os_revision = revision\<rparr>)"

record CoordinatorActivationRequest =
  ar_issue_ref :: IssueRef
  ar_expected_tracker_state :: "CoordinatorTrackerState option"
  ar_expected_tracker_revision :: "string option"
  ar_episode_time :: OffsetDateTime
  ar_source_kind :: CoordinatorSourceKind
  ar_source_ref :: string
  ar_audit_reason :: string

fun first_blank :: "(RepositoryComponent \<times> string) list \<Rightarrow> RepositoryComponent option" where
  "first_blank [] = None"
| "first_blank ((c, v) # cvs) = (if blank v then Some c else first_blank cvs)"

definition validate_issue_ref :: "IssueRef \<Rightarrow> (CoordinatorActivationError, unit) result" where
  "validate_issue_ref i =
     (case first_blank [(Host, ri_host (ir_repo_id i)), (Owner, ri_owner (ir_repo_id i)),
                        (Repository, ri_repo (ir_repo_id i))] of
        Some c \<Rightarrow> Inl (EmptyRepositoryComponent c)
      | None \<Rightarrow> if ir_number i = 0 then Inl ZeroIssueNumber else Inr ())"

definition validate_episode_time ::
    "OffsetDateTime \<Rightarrow> (CoordinatorActivationError, unit) result" where
  "validate_episode_time t =
     (if dt_offset t \<noteq> 0 then Inl EpisodeTimeNotUtc
      else if dt_nanosecond t \<noteq> 0 then Inl EpisodeTimeNotSecondPrecision
      else if \<not> (0 \<le> dt_year t \<and> dt_year t \<le> 9999) then Inl (EpisodeYearOutOfRange (dt_year t))
      else Inr ())"

definition coordinator_activation_request_new ::
    "IssueRef \<Rightarrow> CoordinatorTrackerState option \<Rightarrow> string option \<Rightarrow> OffsetDateTime \<Rightarrow>
     CoordinatorSourceKind \<Rightarrow> string \<Rightarrow> string \<Rightarrow>
     (CoordinatorActivationError, CoordinatorActivationRequest) result" where
  "coordinator_activation_request_new iref est erev t sk sref reason =
     (case validate_issue_ref iref of
        Inl e \<Rightarrow> Inl e
      | Inr _ \<Rightarrow>
     (case validate_episode_time t of
        Inl e \<Rightarrow> Inl e
      | Inr _ \<Rightarrow>
     (if (case erev of Some r \<Rightarrow> blank r | None \<Rightarrow> False)
      then Inl (EmptyTrackerRevision Expected)
      else if blank sref then Inl EmptySourceRef
      else if trim reason = [] then Inl EmptyAuditReason
      else if utf8_len (trim reason) > MAX_AUDIT_REASON_BYTES
      then Inl (AuditReasonTooLong (utf8_len (trim reason)) MAX_AUDIT_REASON_BYTES)
      else Inr \<lparr>ar_issue_ref = iref, ar_expected_tracker_state = est,
                ar_expected_tracker_revision = erev, ar_episode_time = t,
                ar_source_kind = sk, ar_source_ref = sref, ar_audit_reason = trim reason\<rparr>)))"

subsection \<open>The Workflow ID\<close>

definition unreserved :: "nat \<Rightarrow> bool" where
  "unreserved b \<longleftrightarrow>
     48 \<le> b \<and> b \<le> 57 \<or> 65 \<le> b \<and> b \<le> 90 \<or> 97 \<le> b \<and> b \<le> 122 \<or> b \<in> {45, 46, 95, 126}"

definition encode_byte :: "nat \<Rightarrow> string" where
  "encode_byte b =
     (if unreserved b then [char_of b]
      else [CHR ''%'', hex_upper (b div 16), hex_upper (b mod 16)])"

definition encode_component :: "string \<Rightarrow> string" where
  "encode_component s = concat (map encode_byte (utf8_bytes s))"

definition workflow_id_text ::
    "CoordinatorActivationRequest \<Rightarrow> CoordinatorTrackerState \<Rightarrow> CoordinatorTargetKind \<Rightarrow> string" where
  "workflow_id_text r st k =
     (let repo = ir_repo_id (ar_issue_ref r); t = ar_episode_time r in
      ''issue:'' @ encode_component (ri_host repo) @ ''/'' @ encode_component (ri_owner repo) @ ''/'' @
      encode_component (ri_repo repo) @ '':'' @ show_nat (unat (ir_number (ar_issue_ref r))) @
      '':pulse:'' @ tracker_state_as_str st @ ''-to-'' @ target_kind_as_str k @ '':'' @
      show_year (dt_year t) @ pad0 2 (dt_month t) @ pad0 2 (dt_day t) @ ''T'' @
      pad0 2 (dt_hour t) @ pad0 2 (dt_minute t) @ pad0 2 (dt_second t) @ ''Z:'' @
      source_kind_as_str (ar_source_kind r) @ ''-'' @ encode_component (ar_source_ref r))"

definition build_workflow_id ::
    "CoordinatorActivationRequest \<Rightarrow> CoordinatorTrackerState \<Rightarrow> CoordinatorTargetKind \<Rightarrow>
     (CoordinatorActivationError, WorkflowId) result" where
  "build_workflow_id r st k =
     (let w = workflow_id_text r st k in
      if utf8_len w > MAX_WORKFLOW_ID_BYTES
      then Inl (WorkflowIdTooLong (utf8_len w) MAX_WORKFLOW_ID_BYTES)
      else Inr w)"

subsection \<open>Evaluating a request\<close>

record CoordinatorExecutableActivation =
  ea_issue_ref :: IssueRef
  ea_observed :: ObservedTrackerSnapshot
  ea_target_kind :: CoordinatorTargetKind
  ea_episode_time :: OffsetDateTime
  ea_source_kind :: CoordinatorSourceKind
  ea_source_ref :: string
  ea_audit_reason :: string
  ea_workflow_id :: WorkflowId

datatype CoordinatorActivationDecision =
    Static IssueRef ObservedTrackerSnapshot
  | Executable CoordinatorExecutableActivation
  | StaleExpectation IssueRef "CoordinatorTrackerState option" "string option" ObservedTrackerSnapshot

definition expectation_stale ::
    "CoordinatorActivationRequest \<Rightarrow> ObservedTrackerSnapshot \<Rightarrow> bool" where
  "expectation_stale r ob \<longleftrightarrow>
     (case ar_expected_tracker_state r of Some st \<Rightarrow> st \<noteq> os_state ob | None \<Rightarrow> False) \<or>
     (case ar_expected_tracker_revision r of Some v \<Rightarrow> v \<noteq> os_revision ob | None \<Rightarrow> False)"

definition evaluate ::
    "CoordinatorActivationRequest \<Rightarrow> ObservedTrackerSnapshot \<Rightarrow>
     (CoordinatorActivationError, CoordinatorActivationDecision) result" where
  "evaluate r ob =
     (if expectation_stale r ob
      then Inr (StaleExpectation (ar_issue_ref r) (ar_expected_tracker_state r)
                  (ar_expected_tracker_revision r) ob)
      else case target_kind (os_state ob) of
             None \<Rightarrow> Inr (Static (ar_issue_ref r) ob)
           | Some k \<Rightarrow>
               (case build_workflow_id r (os_state ob) k of
                  Inl e \<Rightarrow> Inl e
                | Inr w \<Rightarrow>
                    Inr (Executable
                      \<lparr>ea_issue_ref = ar_issue_ref r, ea_observed = ob, ea_target_kind = k,
                       ea_episode_time = ar_episode_time r, ea_source_kind = ar_source_kind r,
                       ea_source_ref = ar_source_ref r, ea_audit_reason = ar_audit_reason r,
                       ea_workflow_id = w\<rparr>)))"

subsection \<open>Facts: percent encoding loses nothing\<close>

definition unhex :: "char \<Rightarrow> nat" where
  "unhex c = (if code c < 58 then code c - 48 else code c - 55)"

text \<open>The decoder a reader of a Workflow ID would use: percent escapes, then UTF-8.\<close>

fun percent_decode :: "string \<Rightarrow> nat list" where
  "percent_decode [] = []"
| "percent_decode (c # s) =
     (if c = CHR ''%''
      then case s of
             h # l # rest \<Rightarrow> (16 * unhex h + unhex l) # percent_decode rest
           | _ \<Rightarrow> []
      else code c # percent_decode s)"

fun utf8_decode :: "nat list \<Rightarrow> string" where
  "utf8_decode [] = []"
| "utf8_decode [b] = [char_of b]"
| "utf8_decode (b # c # bs) =
     (if b < 128 then char_of b # utf8_decode (c # bs)
      else char_of ((b - 192) * 64 + (c - 128)) # utf8_decode bs)"

lemma unhex_hex_upper [simp]: "d < 16 \<Longrightarrow> unhex (hex_upper d) = d"
  by (simp add: unhex_def hex_upper_def)

lemma unreserved_less: "unreserved b \<Longrightarrow> b < 128 \<and> b \<noteq> 37"
  by (auto simp: unreserved_def)

lemma percent_decode_encode_byte:
  assumes "b < 256"
  shows "percent_decode (encode_byte b @ s) = b # percent_decode s"
proof (cases "unreserved b")
  case True
  have "code (char_of b) \<noteq> code (CHR ''%'')"
    using True unreserved_less [of b] assms by simp
  then have "char_of b \<noteq> CHR ''%''" by metis
  with True assms show ?thesis by (simp add: encode_byte_def)
next
  case False
  have "b div 16 < 16" using assms by simp
  with False show ?thesis by (simp add: encode_byte_def)
qed

lemma percent_decode_encode:
  "\<forall>b \<in> set bs. b < 256 \<Longrightarrow> percent_decode (concat (map encode_byte bs)) = bs"
  by (induction bs) (simp_all add: percent_decode_encode_byte)

lemma utf8_bytes_range: "b \<in> set (utf8_bytes s) \<Longrightarrow> b < 256"
proof -
  have "b < 256" if b: "b \<in> set (utf8_bytes_char c)" for c
  proof -
    have "code c < 256" by simp
    then have "code c div 64 < 4" by (simp add: less_mult_imp_div_less)
    moreover have "code c mod 64 < 64" by simp
    moreover have "b = code c \<or> b = 192 + code c div 64 \<or> b = 128 + code c mod 64"
      using b by (simp add: utf8_bytes_char_def split: if_splits)
    ultimately show "b < 256" using \<open>code c < 256\<close> by linarith
  qed
  then show "b \<in> set (utf8_bytes s) \<Longrightarrow> b < 256"
    by (auto simp: utf8_bytes_def)
qed

lemma utf8_decode_char: "utf8_decode (utf8_bytes_char c @ bs) = c # utf8_decode bs"
proof (cases "code c < 128")
  case True
  then show ?thesis by (cases bs) (simp_all add: utf8_bytes_char_def)
next
  case False
  have "code c div 64 * 64 + code c mod 64 = code c" by simp
  with False show ?thesis by (simp add: utf8_bytes_char_def)
qed

lemma utf8_decode_bytes: "utf8_decode (utf8_bytes s) = s"
  by (induction s) (simp_all add: utf8_bytes_def utf8_decode_char)

lemma encode_component_decodes: "utf8_decode (percent_decode (encode_component s)) = s"
  by (simp add: encode_component_def percent_decode_encode utf8_bytes_range utf8_decode_bytes)

lemma encode_component_inject [simp]: "encode_component s = encode_component t \<longleftrightarrow> s = t"
  by (metis encode_component_decodes)

subsection \<open>Facts: the shape of the Workflow ID\<close>

definition id_char :: "char \<Rightarrow> bool" where
  "id_char c \<longleftrightarrow> unreserved (code c) \<or> c = CHR ''%''"

lemma hex_upper_id_char: "d < 16 \<Longrightarrow> id_char (hex_upper d)"
  by (auto simp: id_char_def unreserved_def hex_upper_def)

lemma encode_byte_id_char: "b < 256 \<Longrightarrow> c \<in> set (encode_byte b) \<Longrightarrow> id_char c"
proof -
  assume b: "b < 256" and c: "c \<in> set (encode_byte b)"
  show "id_char c"
  proof (cases "unreserved b")
    case True
    with c unreserved_less [of b] show ?thesis
      by (auto simp: encode_byte_def id_char_def)
  next
    case False
    with b c show ?thesis
      by (auto simp: encode_byte_def hex_upper_id_char) (simp add: id_char_def)
  qed
qed

lemma encode_component_id_char [shape_rules]: "c \<in> set (encode_component s) \<Longrightarrow> id_char c"
  by (auto simp: encode_component_def dest: utf8_bytes_range encode_byte_id_char)

lemma id_char_separators [simp]: "\<not> id_char (CHR '':'')" "\<not> id_char (CHR ''/'')"
  by (simp_all add: id_char_def unreserved_def)

lemma encode_component_separators [simp]:
  "CHR '':'' \<notin> set (encode_component s)" "CHR ''/'' \<notin> set (encode_component s)"
  using encode_component_id_char id_char_separators by blast+

lemma digit_separators: "\<not> is_ascii_digit (CHR '':'')" "\<not> is_ascii_digit (CHR ''/'')"
  by (simp_all add: is_ascii_digit_def)

lemma show_nat_separators [simp]: "CHR '':'' \<notin> set (show_nat n)" "CHR ''/'' \<notin> set (show_nat n)"
  using show_nat_digits digit_separators by blast+

lemma route_separators [simp]:
  "CHR '':'' \<notin> set (tracker_state_as_str st)" "CHR '':'' \<notin> set (target_kind_as_str k)"
  by (cases st; simp) (cases k; simp)

lemma route_no_colon: "CHR '':'' \<notin> set (tracker_state_as_str st @ ''-to-'' @ target_kind_as_str k)"
  by simp

lemma route_inject:
  assumes "tracker_state_as_str st @ ''-to-'' @ target_kind_as_str k =
      tracker_state_as_str st' @ ''-to-'' @ target_kind_as_str k'"
    and "target_kind st = Some k" and "target_kind st' = Some k'"
  shows "st = st' \<and> k = k'"
  using assms by (cases st; cases st') auto

lemma source_kind_inject:
  "source_kind_as_str a @ CHR ''-'' # x = source_kind_as_str b @ CHR ''-'' # y \<Longrightarrow> a = b \<and> x = y"
  by (cases a; cases b) auto


definition request_ok :: "CoordinatorActivationRequest \<Rightarrow> bool" where
  "request_ok r \<longleftrightarrow>
     (let i = ar_issue_ref r; t = ar_episode_time r in
      \<not> blank (ri_host (ir_repo_id i)) \<and> \<not> blank (ri_owner (ir_repo_id i)) \<and>
      \<not> blank (ri_repo (ir_repo_id i)) \<and> ir_number i \<noteq> 0 \<and>
      dt_offset t = 0 \<and> dt_nanosecond t = 0 \<and> 0 \<le> dt_year t \<and> dt_year t \<le> 9999 \<and>
      (\<forall>v. ar_expected_tracker_revision r = Some v \<longrightarrow> \<not> blank v) \<and>
      \<not> blank (ar_source_ref r) \<and>
      ar_audit_reason r \<noteq> [] \<and> trim (ar_audit_reason r) = ar_audit_reason r \<and>
      utf8_len (ar_audit_reason r) \<le> 512)"

lemma validate_issue_ref_Inr:
  "validate_issue_ref i = Inr u \<longleftrightarrow>
     \<not> blank (ri_host (ir_repo_id i)) \<and> \<not> blank (ri_owner (ir_repo_id i)) \<and>
     \<not> blank (ri_repo (ir_repo_id i)) \<and> ir_number i \<noteq> 0"
  by (simp add: validate_issue_ref_def)

lemma validate_episode_time_Inr:
  "validate_episode_time t = Inr u \<longleftrightarrow>
     dt_offset t = 0 \<and> dt_nanosecond t = 0 \<and> 0 \<le> dt_year t \<and> dt_year t \<le> 9999"
  by (simp add: validate_episode_time_def)

lemma request_new_Inr:
  "coordinator_activation_request_new iref est erev t sk sref reason = Inr r \<longleftrightarrow>
     r = \<lparr>ar_issue_ref = iref, ar_expected_tracker_state = est,
          ar_expected_tracker_revision = erev, ar_episode_time = t,
          ar_source_kind = sk, ar_source_ref = sref, ar_audit_reason = trim reason\<rparr> \<and>
     request_ok r"
  (is "?new = Inr r \<longleftrightarrow> r = ?req \<and> request_ok r")
proof -
  have ok: "request_ok ?req \<longleftrightarrow>
      validate_issue_ref iref = Inr () \<and> validate_episode_time t = Inr () \<and>
      (\<forall>v. erev = Some v \<longrightarrow> \<not> blank v) \<and> \<not> blank sref \<and> trim reason \<noteq> [] \<and>
      utf8_len (trim reason) \<le> MAX_AUDIT_REASON_BYTES"
    by (simp add: request_ok_def Let_def validate_issue_ref_Inr validate_episode_time_Inr
        MAX_AUDIT_REASON_BYTES_def)
  have "?new = Inr r \<longleftrightarrow> r = ?req \<and> request_ok ?req"
    unfolding ok coordinator_activation_request_new_def
    by (cases "validate_issue_ref iref"; cases "validate_episode_time t"; cases erev) auto
  then show ?thesis by blast
qed

lemma show_year_inject:
  "0 \<le> y \<Longrightarrow> 0 \<le> y' \<Longrightarrow> show_year y = show_year y' \<longleftrightarrow> y = y'"
  by (auto simp: show_year_def)

definition time_text :: "OffsetDateTime \<Rightarrow> string" where
  "time_text t = show_year (dt_year t) @ pad0 2 (dt_month t) @ pad0 2 (dt_day t) @ ''T'' @
     pad0 2 (dt_hour t) @ pad0 2 (dt_minute t) @ pad0 2 (dt_second t)"

lemma length_pad2 [simp]: "n < 100 \<Longrightarrow> length (pad0 2 n) = 2"
  using length_pad0 [of n 1] by (simp add: numeral_2_eq_2 power2_eq_square)

lemma length_show_year: "0 \<le> y \<Longrightarrow> y \<le> 9999 \<Longrightarrow> length (show_year y) = 4"
  using length_pad0 [of "nat y" 3] by (simp add: show_year_def)

lemma time_text_inject:
  assumes "time_text t = time_text t'"
    and "valid_datetime t" and "valid_datetime t'"
    and "validate_episode_time t = Inr ()" and "validate_episode_time t' = Inr ()"
  shows "t = t'"
proof -
  have "dt_year t = dt_year t' \<and> dt_month t = dt_month t' \<and> dt_day t = dt_day t' \<and>
      dt_hour t = dt_hour t' \<and> dt_minute t = dt_minute t' \<and> dt_second t = dt_second t'"
    using assms
    by (simp add: time_text_def valid_datetime_def validate_episode_time_Inr length_show_year
        show_year_inject)
  with assms(4,5) show ?thesis
    by (simp add: validate_episode_time_Inr)
qed

lemma time_text_length:
  "valid_datetime t \<Longrightarrow> validate_episode_time t = Inr () \<Longrightarrow> length (time_text t) = 15"
  by (simp add: time_text_def valid_datetime_def validate_episode_time_Inr length_show_year)

text \<open>The ID as colon-separated fields.\<close>

lemma workflow_id_fields:
  "workflow_id_text r st k =
     ''issue:'' @ encode_component (ri_host (ir_repo_id (ar_issue_ref r))) @ CHR ''/'' #
     encode_component (ri_owner (ir_repo_id (ar_issue_ref r))) @ CHR ''/'' #
     encode_component (ri_repo (ir_repo_id (ar_issue_ref r))) @ CHR '':'' #
     show_nat (unat (ir_number (ar_issue_ref r))) @ CHR '':'' # ''pulse:'' @
     (tracker_state_as_str st @ ''-to-'' @ target_kind_as_str k) @ CHR '':'' #
     time_text (ar_episode_time r) @ ''Z:'' @
     source_kind_as_str (ar_source_kind r) @ CHR ''-'' # encode_component (ar_source_ref r)"
  by (simp add: workflow_id_text_def time_text_def Let_def)

lemma workflow_id_text_inject:
  assumes eq: "workflow_id_text r st k = workflow_id_text r' st' k'"
    and "request_ok r" and "request_ok r'"
    and "valid_datetime (ar_episode_time r)" and "valid_datetime (ar_episode_time r')"
    and "target_kind st = Some k" and "target_kind st' = Some k'"
  shows "ir_repo_id (ar_issue_ref r) = ir_repo_id (ar_issue_ref r') \<and>
    ir_number (ar_issue_ref r) = ir_number (ar_issue_ref r') \<and> st = st' \<and> k = k' \<and>
    ar_episode_time r = ar_episode_time r' \<and> ar_source_kind r = ar_source_kind r' \<and>
    ar_source_ref r = ar_source_ref r'"
proof -
  let ?repo = "\<lambda>r. ir_repo_id (ar_issue_ref r)" and ?num = "\<lambda>r. ir_number (ar_issue_ref r)"
  let ?tail = "\<lambda>r. source_kind_as_str (ar_source_kind r) @ CHR ''-'' # encode_component (ar_source_ref r)"
  let ?route = "\<lambda>st k. tracker_state_as_str st @ ''-to-'' @ target_kind_as_str k"
  let ?t1 = "\<lambda>r. time_text (ar_episode_time r) @ ''Z:'' @ ?tail r"
  let ?t2 = "\<lambda>r st k. ?route st k @ CHR '':'' # ?t1 r"
  let ?t3 = "\<lambda>r st k. show_nat (unat (?num r)) @ CHR '':'' # ''pulse:'' @ ?t2 r st k"
  let ?t4 = "\<lambda>r st k. encode_component (ri_repo (?repo r)) @ CHR '':'' # ?t3 r st k"
  let ?t5 = "\<lambda>r st k. encode_component (ri_owner (?repo r)) @ CHR ''/'' # ?t4 r st k"
  have times: "validate_episode_time (ar_episode_time r) = Inr ()"
      "validate_episode_time (ar_episode_time r') = Inr ()"
    using assms(2,3) by (simp_all add: validate_episode_time_Inr request_ok_def Let_def)
  from eq have "encode_component (ri_host (?repo r)) @ CHR ''/'' # ?t5 r st k =
      encode_component (ri_host (?repo r')) @ CHR ''/'' # ?t5 r' st' k'"
    by (simp add: workflow_id_fields)
  from delimited_inject [OF this]
  have 1: "ri_host (?repo r) = ri_host (?repo r')" "?t5 r st k = ?t5 r' st' k'"
    by (simp_all only: encode_component_inject encode_component_separators simp_thms)
  from delimited_inject [OF 1(2)]
  have 2: "ri_owner (?repo r) = ri_owner (?repo r')" "?t4 r st k = ?t4 r' st' k'"
    by (simp_all only: encode_component_inject encode_component_separators simp_thms)
  from delimited_inject [OF 2(2)]
  have 3: "ri_repo (?repo r) = ri_repo (?repo r')" "?t3 r st k = ?t3 r' st' k'"
    by (simp_all only: encode_component_inject encode_component_separators simp_thms)
  from delimited_inject [OF 3(2)]
  have 4: "?num r = ?num r'" "?t2 r st k = ?t2 r' st' k'"
    by (simp_all only: show_nat_separators show_nat_inject word_unat_eq_iff append.simps list.inject simp_thms)
  from delimited_inject [OF 4(2)]
  have 5: "?route st k = ?route st' k'" "?t1 r = ?t1 r'"
    by (simp_all only: route_no_colon simp_thms)
  from fixed_width_inject [OF 5(2)]
  have 6: "time_text (ar_episode_time r) = time_text (ar_episode_time r')" "?tail r = ?tail r'"
    using assms(4,5) times by (simp_all add: time_text_length)
  have "?repo r = ?repo r'" using 1(1) 2(1) 3(1) by simp
  moreover have "ar_source_kind r = ar_source_kind r' \<and> ar_source_ref r = ar_source_ref r'"
    using source_kind_inject [OF 6(2)] by simp
  ultimately show ?thesis
    using 4(1) route_inject [OF 5(1) assms(6,7)] time_text_inject [OF 6(1) assms(4,5) times]
    by simp
qed

lemma id_text_printable: "c \<in> set (workflow_id_text r st k) \<Longrightarrow> 33 \<le> code c \<and> code c \<le> 126"
proof -
  have enc: "33 \<le> code c \<and> code c \<le> 126" if "c \<in> set (encode_component s)" for c s
    using encode_component_id_char [OF that] by (auto simp: id_char_def unreserved_def)
  have dig: "33 \<le> code c \<and> code c \<le> 126" if "is_ascii_digit c" for c
    using that by (simp add: is_ascii_digit_def)
  have year: "33 \<le> code c \<and> code c \<le> 126" if "c \<in> set (show_year y)" for c y
    using that by (auto simp: show_year_def split: if_splits dest!: pad0_digits dig)
  have st: "\<forall>c \<in> set (tracker_state_as_str st). 33 \<le> code c \<and> code c \<le> 126" by (cases st) simp_all
  have k: "\<forall>c \<in> set (target_kind_as_str k). 33 \<le> code c \<and> code c \<le> 126" by (cases k) simp_all
  have sk: "\<forall>c \<in> set (source_kind_as_str sk). 33 \<le> code c \<and> code c \<le> 126" for sk
    by (cases sk) simp_all
  assume "c \<in> set (workflow_id_text r st k)"
  then show ?thesis
    by (auto simp: workflow_id_text_def Let_def dest!: enc year show_nat_digits pad0_digits dig
        st [rule_format] k [rule_format] sk [rule_format])
qed

lemma evaluate_Executable_iff:
  "evaluate r ob = Inr (Executable a) \<longleftrightarrow>
     \<not> expectation_stale r ob \<and>
     (\<exists>k. target_kind (os_state ob) = Some k \<and>
        utf8_len (workflow_id_text r (os_state ob) k) \<le> 256 \<and>
        a = \<lparr>ea_issue_ref = ar_issue_ref r, ea_observed = ob, ea_target_kind = k,
             ea_episode_time = ar_episode_time r, ea_source_kind = ar_source_kind r,
             ea_source_ref = ar_source_ref r, ea_audit_reason = ar_audit_reason r,
             ea_workflow_id = workflow_id_text r (os_state ob) k\<rparr>)"
  by (auto simp: evaluate_def build_workflow_id_def Let_def MAX_WORKFLOW_ID_BYTES_def
      split: option.splits sum.splits)

lemma workflow_id_text_cong:
  assumes "ir_repo_id (ar_issue_ref r) = ir_repo_id (ar_issue_ref r')"
    and "ir_number (ar_issue_ref r) = ir_number (ar_issue_ref r')"
    and "ar_episode_time r = ar_episode_time r'" and "ar_source_kind r = ar_source_kind r'"
    and "ar_source_ref r = ar_source_ref r'"
  shows "workflow_id_text r st k = workflow_id_text r' st k"
  using assms by (simp add: workflow_id_text_def)

subsection \<open>Properties\<close>

text \<open>C40: A request is built exactly from an issue with three nonblank repository components
  and a nonzero number, a UTC episode time of second precision in the years 0 to 9999, a
  nonblank source reference, a nonblank expected revision if there is one, and an audit
  reason that is nonempty and at most 512 bytes after trimming; the request then carries the
  given values, with the reason trimmed.\<close>

theorem activation_request_accepts_exactly:
  "coordinator_activation_request_new iref est erev t sk sref reason = Inr r \<longleftrightarrow>
     r = \<lparr>ar_issue_ref = iref, ar_expected_tracker_state = est,
          ar_expected_tracker_revision = erev, ar_episode_time = t,
          ar_source_kind = sk, ar_source_ref = sref, ar_audit_reason = trim reason\<rparr> \<and>
     request_ok r"
  by (rule request_new_Inr)

text \<open>C1: The Workflow ID names the episode and nothing else: two executable activations have
  the same ID exactly when they agree on the repository, the issue number, the observed
  tracker state, the episode time, the source kind and the source reference. Retries that
  differ in the audit reason, the expectations or the observed revision reuse the ID, and no
  two different episodes share one.\<close>

theorem workflow_id_identifies_episode:
  assumes "evaluate r ob = Inr (Executable a)" and "evaluate r' ob' = Inr (Executable a')"
    and "request_ok r" and "request_ok r'"
    and "valid_datetime (ar_episode_time r)" and "valid_datetime (ar_episode_time r')"
  shows "ea_workflow_id a = ea_workflow_id a' \<longleftrightarrow>
    ir_repo_id (ar_issue_ref r) = ir_repo_id (ar_issue_ref r') \<and>
    ir_number (ar_issue_ref r) = ir_number (ar_issue_ref r') \<and>
    os_state ob = os_state ob' \<and>
    ar_episode_time r = ar_episode_time r' \<and> ar_source_kind r = ar_source_kind r' \<and>
    ar_source_ref r = ar_source_ref r'"
    (is "?same \<longleftrightarrow> ?agree")
proof -
  from assms(1,2) obtain k k' where
    k: "target_kind (os_state ob) = Some k" "target_kind (os_state ob') = Some k'" and
    id: "ea_workflow_id a = workflow_id_text r (os_state ob) k"
      "ea_workflow_id a' = workflow_id_text r' (os_state ob') k'"
    by (auto simp: evaluate_Executable_iff)
  have "?agree" if "?same"
    using workflow_id_text_inject [OF that [unfolded id] assms(3-6) k] by blast
  moreover have "?same" if "?agree"
    using that k workflow_id_text_cong [of r r' "os_state ob'" k'] by (simp add: id)
  ultimately show ?thesis by blast
qed

definition example_issue :: IssueRef where
  "example_issue =
     \<lparr>ir_tracker_backend = GithubProjectV2,
      ir_repo_id = \<lparr>ri_host = ''github.com'', ri_owner = ''Alive24'', ri_repo = ''shea symphony''\<rparr>,
      ir_number = 42\<rparr>"

definition example_time :: OffsetDateTime where
  "example_time = \<lparr>dt_year = 2026, dt_month = 7, dt_day = 5, dt_hour = 9, dt_minute = 30,
     dt_second = 0, dt_nanosecond = 0, dt_offset = 0\<rparr>"

definition example_request :: "string \<Rightarrow> CoordinatorActivationRequest" where
  "example_request reason =
     \<lparr>ar_issue_ref = example_issue, ar_expected_tracker_state = Some Todo,
      ar_expected_tracker_revision = None, ar_episode_time = example_time,
      ar_source_kind = OperatorAction, ar_source_ref = ''cli/1'', ar_audit_reason = reason\<rparr>"

lemma example_id:
  "workflow_id_text (example_request reason) Todo WorkTarget =
     ''issue:github.com/Alive24/shea%20symphony:42:pulse:todo-to-work:20260705T093000Z:operator-action-cli%2F1''"
  by (simp add: workflow_id_text_def example_request_def example_issue_def example_time_def
      encode_component_def encode_byte_def unreserved_def show_year_def text_eval)

theorem workflow_id_identifies_episode_witness:
  "\<exists>a a'. evaluate (example_request ''first'') \<lparr>os_state = Todo, os_revision = ''r1''\<rparr> = Inr (Executable a) \<and>
     evaluate (example_request ''second'') \<lparr>os_state = Todo, os_revision = ''r2''\<rparr> = Inr (Executable a') \<and>
     ea_workflow_id a = ea_workflow_id a' \<and> ea_audit_reason a \<noteq> ea_audit_reason a'"
proof -
  let ?r = example_request and ?ob = "\<lambda>v. \<lparr>os_state = Todo, os_revision = v\<rparr>"
  have ex: "\<exists>a. evaluate (?r x) (?ob v) = Inr (Executable a) \<and> ea_audit_reason a = x" for x v
    by (simp add: evaluate_Executable_iff example_id expectation_stale_def text_eval)
      (simp add: example_request_def)
  have ok: "request_ok (?r ''first'')" "request_ok (?r ''second'')"
    by (simp_all add: request_ok_def example_request_def example_issue_def example_time_def text_eval)
  have time: "valid_datetime (ar_episode_time (?r x))" for x
    by (simp add: valid_datetime_def example_request_def example_time_def)
  obtain a a' where a: "evaluate (?r ''first'') (?ob ''r1'') = Inr (Executable a)"
    "ea_audit_reason a = ''first''"
    and a': "evaluate (?r ''second'') (?ob ''r2'') = Inr (Executable a')"
    "ea_audit_reason a' = ''second''"
    using ex by metis
  have "ea_workflow_id a = ea_workflow_id a'"
    using workflow_id_identifies_episode [OF a(1) a'(1) ok time time]
    by (simp add: example_request_def)
  with a a' show ?thesis by auto
qed

text \<open>C39: The ID of an executable activation is at most 256 bytes, starts with
  \<^verbatim>\<open>issue:\<close> and consists of printable ASCII characters other than the space, whatever text
  the repository names and the source reference hold.\<close>

theorem workflow_id_bounded:
  assumes "evaluate r ob = Inr (Executable a)"
  shows "utf8_len (ea_workflow_id a) \<le> MAX_WORKFLOW_ID_BYTES \<and>
    starts_with (ea_workflow_id a) ''issue:'' \<and>
    (\<forall>c \<in> set (ea_workflow_id a). 33 \<le> code c \<and> code c \<le> 126)"
proof -
  from assms obtain k where k: "ea_workflow_id a = workflow_id_text r (os_state ob) k"
    and len: "utf8_len (ea_workflow_id a) \<le> 256"
    by (auto simp: evaluate_Executable_iff)
  have "starts_with (ea_workflow_id a) ''issue:''"
    by (simp add: k workflow_id_fields starts_with_def)
  with len show ?thesis
    by (simp add: MAX_WORKFLOW_ID_BYTES_def k id_text_printable)
qed

theorem workflow_id_bounded_witness:
  "\<exists>a. evaluate (example_request ''why'') \<lparr>os_state = Todo, os_revision = ''r1''\<rparr> = Inr (Executable a) \<and>
     starts_with (ea_workflow_id a) ''issue:''"
proof -
  obtain a where a: "evaluate (example_request ''why'') \<lparr>os_state = Todo, os_revision = ''r1''\<rparr> =
      Inr (Executable a)"
    by (simp add: evaluate_Executable_iff example_id expectation_stale_def text_eval)
      (simp add: example_request_def)
  from workflow_id_bounded [OF a] a show ?thesis by blast
qed

text \<open>Evaluation never runs an episode on a stale expectation: an executable activation
  is produced exactly when every expectation of the request matches the snapshot, the observed
  state has a lane and the ID fits; a mismatch always yields the stale decision, and a matching
  snapshot in a state without a lane the static one.\<close>

theorem evaluate_outcomes:
  "((\<exists>a. evaluate r ob = Inr (Executable a)) \<longleftrightarrow>
      ar_expected_tracker_state r \<in> {None, Some (os_state ob)} \<and>
      ar_expected_tracker_revision r \<in> {None, Some (os_revision ob)} \<and>
      (\<exists>k. target_kind (os_state ob) = Some k \<and> utf8_len (workflow_id_text r (os_state ob) k) \<le> 256)) \<and>
   (evaluate r ob = Inr (Static (ar_issue_ref r) ob) \<longleftrightarrow>
      ar_expected_tracker_state r \<in> {None, Some (os_state ob)} \<and>
      ar_expected_tracker_revision r \<in> {None, Some (os_revision ob)} \<and>
      os_state ob \<in> {Backlog, NeedToClarify, NeedHumanInput, HumanReview, Done}) \<and>
   ((\<exists>i es er s. evaluate r ob = Inr (StaleExpectation i es er s)) \<longleftrightarrow>
      \<not> (ar_expected_tracker_state r \<in> {None, Some (os_state ob)} \<and>
         ar_expected_tracker_revision r \<in> {None, Some (os_revision ob)}))"
proof -
  have stale: "expectation_stale r ob \<longleftrightarrow>
      \<not> (ar_expected_tracker_state r \<in> {None, Some (os_state ob)} \<and>
         ar_expected_tracker_revision r \<in> {None, Some (os_revision ob)})"
    by (auto simp: expectation_stale_def split: option.splits)
  have static: "target_kind (os_state ob) = None \<longleftrightarrow>
      os_state ob \<in> {Backlog, NeedToClarify, NeedHumanInput, HumanReview, Done}"
    by (cases "os_state ob") simp_all
  have "evaluate r ob = Inr (Static (ar_issue_ref r) ob) \<longleftrightarrow>
      \<not> expectation_stale r ob \<and> target_kind (os_state ob) = None"
    by (auto simp: evaluate_def split: option.splits sum.splits)
  moreover have "(\<exists>i es er s. evaluate r ob = Inr (StaleExpectation i es er s)) \<longleftrightarrow> expectation_stale r ob"
    by (auto simp: evaluate_def split: option.splits sum.splits)
  moreover have "(\<exists>a. evaluate r ob = Inr (Executable a)) \<longleftrightarrow> \<not> expectation_stale r ob \<and>
      (\<exists>k. target_kind (os_state ob) = Some k \<and> utf8_len (workflow_id_text r (os_state ob) k) \<le> 256)"
    unfolding evaluate_Executable_iff by blast
  ultimately show ?thesis
    unfolding stale static by blast
qed

end
