(* ===== verification/Workflow_Index.thy ===== *)
theory Workflow_Index
  imports Identity
begin

section \<open>The workflow index table (\<^verbatim>\<open>workflow_index.rs\<close>, \<^verbatim>\<open>migration.rs\<close>, \<^verbatim>\<open>database.rs\<close>)\<close>

text \<open>
  The table \<^verbatim>\<open>workflow_index\<close> of the local read model. A row has the same 19 columns in
  memory and on disk and differs only in how it holds status, outcome and freshness: as
  enumerations or as their stored spelling. The table is the list of its stored rows in
  insertion order. SQLite enforces the primary key and the partial unique index of the v1
  schema (one \<^verbatim>\<open>starting\<close> or \<^verbatim>\<open>running\<close> row per repository and issue): a write that
  would break them fails and changes nothing. A transaction keeps the operation's writes only
  if the operation and the commit succeed. What the environment does to a connection (it
  cannot be opened, configured or locked, it is not in WAL mode, the commit fails) is the argument
  \<open>Connection\<close>. There is one database, so the path that the errors of the code repeat is left
  out of them.
\<close>

subsection \<open>Rows and their stored form\<close>

datatype WorkflowTerminalOutcome =
    OutcomeCompleted
  | OutcomeFailed
  | OutcomeCancelled
  | OutcomeTerminated
  | OutcomeTimedOut
  | OutcomeClosedUnknown

fun outcome_as_str :: "WorkflowTerminalOutcome \<Rightarrow> string" where
  "outcome_as_str OutcomeCompleted = ''completed''"
| "outcome_as_str OutcomeFailed = ''failed''"
| "outcome_as_str OutcomeCancelled = ''cancelled''"
| "outcome_as_str OutcomeTerminated = ''terminated''"
| "outcome_as_str OutcomeTimedOut = ''timed_out''"
| "outcome_as_str OutcomeClosedUnknown = ''closed_unknown''"

definition outcome_from_storage :: "string \<Rightarrow> WorkflowTerminalOutcome option" where
  "outcome_from_storage v =
     (if v = ''completed'' then Some OutcomeCompleted
      else if v = ''failed'' then Some OutcomeFailed
      else if v = ''cancelled'' then Some OutcomeCancelled
      else if v = ''terminated'' then Some OutcomeTerminated
      else if v = ''timed_out'' then Some OutcomeTimedOut
      else if v = ''closed_unknown'' then Some OutcomeClosedUnknown
      else None)"

record ('s, 't, 'f) workflow_row =
  wr_workflow_id :: string
  wr_run_id :: "string option"
  wr_workspace_runtime_id :: string
  wr_repo_id :: string
  wr_issue_ref :: string
  wr_from_state :: string
  wr_target_kind :: string
  wr_current_state :: string
  wr_active_step :: string
  wr_waiting_kind :: "string option"
  wr_source_ref :: string
  wr_source_tracker_revision :: string
  wr_started_at :: string
  wr_last_progress_at :: "string option"
  wr_status :: 's
  wr_terminal_outcome :: "'t option"
  wr_operator_action_ref :: "string option"
  wr_freshness :: 'f
  wr_updated_at :: string

type_synonym WorkflowIndexRow =
  "(WorkflowIndexStatus, WorkflowTerminalOutcome, Freshness) workflow_row"
type_synonym StoredRow = "(string, string, string) workflow_row"

definition workflow_index_status_from_storage :: "string \<Rightarrow> WorkflowIndexStatus option" where
  "workflow_index_status_from_storage v =
     (if v = ''starting'' then Some Starting
      else if v = ''running'' then Some Running
      else if v = ''completed'' then Some Completed
      else if v = ''failed'' then Some Failed
      else if v = ''start_failed'' then Some StartFailed
      else if v = ''stale_start'' then Some StaleStart
      else if v = ''stale_missing'' then Some StaleMissing
      else if v = ''closed_unknown'' then Some ClosedUnknown
      else None)"

definition freshness_from_storage :: "string \<Rightarrow> Freshness option" where
  "freshness_from_storage v =
     (if v = ''fresh'' then Some Fresh
      else if v = ''stale'' then Some Stale
      else if v = ''refreshing'' then Some Refreshing
      else if v = ''failed'' then Some FreshnessFailed
      else if v = ''unknown'' then Some FreshnessUnknown
      else None)"

text \<open>The error codes and errors of SQLite that the sources tell apart.\<close>

datatype SqliteCode =
    ConstraintViolation | DatabaseBusyCode | DatabaseLocked | DatabaseCorrupt | NotADatabase | CannotOpen
  | ReadOnlyCode | OtherCode

datatype SqliteError =
    SqliteFailure SqliteCode
  | FromSqlConversionFailure nat string string
  | ToSqlConversionFailure string
  | QueryReturnedNoRows
  | InvalidQuery
  | InvalidColumnType nat string
  | InvalidColumnName string
  | Utf8Error nat
  | IntegralValueOutOfRange nat
  | OtherSqliteError string

definition is_busy :: "SqliteError \<Rightarrow> bool" where
  "is_busy e \<longleftrightarrow> e \<in> {SqliteFailure DatabaseBusyCode, SqliteFailure DatabaseLocked}"

definition is_corrupt :: "SqliteError \<Rightarrow> bool" where
  "is_corrupt e \<longleftrightarrow> e \<in> {SqliteFailure DatabaseCorrupt, SqliteFailure NotADatabase}"

definition unsupported_storage_value :: "nat \<Rightarrow> string \<Rightarrow> string \<Rightarrow> SqliteError" where
  "unsupported_storage_value index column v = FromSqlConversionFailure index column v"

text \<open>The columns that both forms hold as text, moved with new values for the other three.\<close>

definition convert_row :: "('s, 't, 'f) workflow_row \<Rightarrow> 's2 \<Rightarrow> 't2 option \<Rightarrow> 'f2 \<Rightarrow>
    ('s2, 't2, 'f2) workflow_row" where
  "convert_row r st oc fr =
     \<lparr>wr_workflow_id = wr_workflow_id r, wr_run_id = wr_run_id r,
      wr_workspace_runtime_id = wr_workspace_runtime_id r, wr_repo_id = wr_repo_id r,
      wr_issue_ref = wr_issue_ref r, wr_from_state = wr_from_state r,
      wr_target_kind = wr_target_kind r, wr_current_state = wr_current_state r,
      wr_active_step = wr_active_step r, wr_waiting_kind = wr_waiting_kind r,
      wr_source_ref = wr_source_ref r, wr_source_tracker_revision = wr_source_tracker_revision r,
      wr_started_at = wr_started_at r, wr_last_progress_at = wr_last_progress_at r,
      wr_status = st, wr_terminal_outcome = oc, wr_operator_action_ref = wr_operator_action_ref r,
      wr_freshness = fr, wr_updated_at = wr_updated_at r\<rparr>"

definition encode_row :: "WorkflowIndexRow \<Rightarrow> StoredRow" where
  "encode_row r =
     convert_row r (status_as_str (wr_status r)) (map_option outcome_as_str (wr_terminal_outcome r))
       (freshness_as_str (wr_freshness r))"

definition workflow_index_row :: "StoredRow \<Rightarrow> (SqliteError, WorkflowIndexRow) result" where
  "workflow_index_row r =
     (case workflow_index_status_from_storage (wr_status r) of
        None \<Rightarrow> Inl (unsupported_storage_value 14 ''status'' (wr_status r))
      | Some st \<Rightarrow>
     (case wr_terminal_outcome r of
        None \<Rightarrow>
          (case freshness_from_storage (wr_freshness r) of
             None \<Rightarrow> Inl (unsupported_storage_value 17 ''freshness'' (wr_freshness r))
           | Some fr \<Rightarrow> Inr (convert_row r st None fr))
      | Some v \<Rightarrow>
          (case outcome_from_storage v of
             None \<Rightarrow> Inl (unsupported_storage_value 15 ''terminal_outcome'' v)
           | Some oc \<Rightarrow>
               (case freshness_from_storage (wr_freshness r) of
                  None \<Rightarrow> Inl (unsupported_storage_value 17 ''freshness'' (wr_freshness r))
                | Some fr \<Rightarrow> Inr (convert_row r st (Some oc) fr)))))"

subsection \<open>The table and its constraints\<close>

type_synonym workflow_table = "StoredRow list"

definition stored_active :: "StoredRow \<Rightarrow> bool" where
  "stored_active r \<longleftrightarrow> wr_status r \<in> {''starting'', ''running''}"

definition issue_key :: "('s, 't, 'f) workflow_row \<Rightarrow> string \<times> string" where
  "issue_key r = (wr_repo_id r, wr_issue_ref r)"

text \<open>The primary key and the unique index \<^verbatim>\<open>uq_workflow_index_active_issue\<close>.\<close>

definition constraints_hold :: "workflow_table \<Rightarrow> bool" where
  "constraints_hold db \<longleftrightarrow>
     distinct (map wr_workflow_id db) \<and> distinct (map issue_key (filter stored_active db))"

definition insert_workflow ::
    "WorkflowIndexRow \<Rightarrow> workflow_table \<Rightarrow> (SqliteError, unit) result \<times> workflow_table" where
  "insert_workflow r db =
     (if constraints_hold (db @ [encode_row r]) then (Inr (), db @ [encode_row r])
      else (Inl (SqliteFailure ConstraintViolation), db))"

definition set_material_columns :: "WorkflowIndexRow \<Rightarrow> StoredRow \<Rightarrow> StoredRow" where
  "set_material_columns r s =
     (if wr_workflow_id s = wr_workflow_id r
      then s\<lparr>wr_run_id := wr_run_id r, wr_current_state := wr_current_state r,
             wr_active_step := wr_active_step r, wr_waiting_kind := wr_waiting_kind r,
             wr_started_at := wr_started_at r, wr_status := status_as_str (wr_status r),
             wr_terminal_outcome := map_option outcome_as_str (wr_terminal_outcome r),
             wr_freshness := freshness_as_str (wr_freshness r), wr_updated_at := wr_updated_at r\<rparr>
      else s)"

definition update_material_projection ::
    "WorkflowIndexRow \<Rightarrow> workflow_table \<Rightarrow> (SqliteError, unit) result \<times> workflow_table" where
  "update_material_projection r db =
     (let db' = map (set_material_columns r) db in
      if constraints_hold db' then (Inr (), db') else (Inl (SqliteFailure ConstraintViolation), db))"

definition query_row ::
    "(StoredRow \<Rightarrow> bool) \<Rightarrow> workflow_table \<Rightarrow> (SqliteError, WorkflowIndexRow option) result" where
  "query_row p db =
     (case find p db of
        None \<Rightarrow> Inr None
      | Some s \<Rightarrow> and_then (workflow_index_row s) (\<lambda>r. Inr (Some r)))"

definition load_workflow :: "workflow_table \<Rightarrow> string \<Rightarrow> (SqliteError, WorkflowIndexRow option) result" where
  "load_workflow db w = query_row (\<lambda>s. wr_workflow_id s = w) db"

definition load_active_workflow ::
    "workflow_table \<Rightarrow> string \<Rightarrow> string \<Rightarrow> (SqliteError, WorkflowIndexRow option) result" where
  "load_active_workflow db repo issue =
     query_row (\<lambda>s. wr_repo_id s = repo \<and> wr_issue_ref s = issue \<and> stored_active s) db"

subsection \<open>Transactions\<close>

datatype LocalStateError =
    HomeResolution
  | UnresolvedPath string
  | ParentDirectoryCreation string
  | UnsupportedSchemaVersion nat nat
  | UnversionedSchemaConflict
  | ProjectionInput string
  | TimestampFormat string
  | DatabaseBusy
  | CorruptDatabase SqliteError
  | OpenFailed SqliteError
  | ConfigurationFailed SqliteError
  | MigrationFailed nat SqliteError
  | PostMigrationReadback SqliteError
  | ProjectionFailed SqliteError

datatype SqlitePhase = OpenPhase | ConfigurationPhase | MigrationPhase nat | ReadbackPhase | ProjectionPhase

definition classify :: "SqliteError \<Rightarrow> SqlitePhase \<Rightarrow> LocalStateError" where
  "classify e phase =
     (if is_busy e then DatabaseBusy
      else if is_corrupt e then CorruptDatabase e
      else case phase of
             OpenPhase \<Rightarrow> OpenFailed e
           | ConfigurationPhase \<Rightarrow> ConfigurationFailed e
           | MigrationPhase v \<Rightarrow> MigrationFailed v e
           | ReadbackPhase \<Rightarrow> PostMigrationReadback e
           | ProjectionPhase \<Rightarrow> ProjectionFailed e)"

record Connection =
  cn_open_error :: "SqliteError option"
  cn_policy_error :: "SqliteError option"
  cn_journal_mode :: string
  cn_begin_error :: "SqliteError option"
  cn_commit_error :: "SqliteError option"

definition with_immediate_transaction ::
    "Connection \<Rightarrow> (workflow_table \<Rightarrow> (SqliteError, 'a) result \<times> workflow_table) \<Rightarrow>
     workflow_table \<Rightarrow> (LocalStateError, 'a) result \<times> workflow_table" where
  "with_immediate_transaction cn operation db =
     (case cn_open_error cn of
        Some e \<Rightarrow> (Inl (classify e OpenPhase), db)
      | None \<Rightarrow>
     (case cn_policy_error cn of
        Some e \<Rightarrow> (Inl (classify e ProjectionPhase), db)
      | None \<Rightarrow>
     (if \<not> eq_ignore_ascii_case (cn_journal_mode cn) ''wal''
      then (Inl (classify InvalidQuery ProjectionPhase), db)
      else
     (case cn_begin_error cn of
        Some e \<Rightarrow> (Inl (classify e ProjectionPhase), db)
      | None \<Rightarrow>
     (case operation db of
        (Inl e, _) \<Rightarrow> (Inl (classify e ProjectionPhase), db)
      | (Inr a, db') \<Rightarrow>
     (case cn_commit_error cn of
        Some e \<Rightarrow> (Inl (classify e ProjectionPhase), db)
      | None \<Rightarrow> (Inr a, db')))))))"

subsection \<open>Facts: stored spellings\<close>

lemma outcome_round_trip [simp]: "outcome_from_storage (outcome_as_str oc) = Some oc"
  by (cases oc) (simp_all add: outcome_from_storage_def)

lemma status_round_trip [simp]: "workflow_index_status_from_storage (status_as_str st) = Some st"
  by (cases st) (simp_all add: workflow_index_status_from_storage_def)

lemma freshness_round_trip [simp]: "freshness_from_storage (freshness_as_str fr) = Some fr"
  by (cases fr) (simp_all add: freshness_from_storage_def)

lemma outcome_from_storage_Some: "outcome_from_storage v = Some oc \<Longrightarrow> outcome_as_str oc = v"
  by (auto simp: outcome_from_storage_def split: if_splits)

lemma status_from_storage_Some: "workflow_index_status_from_storage v = Some st \<Longrightarrow> status_as_str st = v"
  by (auto simp: workflow_index_status_from_storage_def split: if_splits)

lemma freshness_from_storage_Some: "freshness_from_storage v = Some fr \<Longrightarrow> freshness_as_str fr = v"
  by (auto simp: freshness_from_storage_def split: if_splits)

lemma decode_encode [simp]: "workflow_index_row (encode_row r) = Inr r"
  by (cases "wr_terminal_outcome r") (simp_all add: workflow_index_row_def encode_row_def convert_row_def)

lemma encode_decode: "workflow_index_row s = Inr r \<Longrightarrow> encode_row r = s"
  by (cases s) (auto simp: workflow_index_row_def encode_row_def convert_row_def split: option.splits
      dest: outcome_from_storage_Some status_from_storage_Some freshness_from_storage_Some)

lemma decode_inject: "workflow_index_row s = Inr r \<longleftrightarrow> s = encode_row r"
  using encode_decode by auto

lemma encode_columns [simp]:
  "wr_workflow_id (encode_row r) = wr_workflow_id r" "issue_key (encode_row r) = issue_key r"
  "wr_repo_id (encode_row r) = wr_repo_id r" "wr_issue_ref (encode_row r) = wr_issue_ref r"
  by (simp_all add: encode_row_def convert_row_def issue_key_def)

lemma stored_active_encode [simp]: "stored_active (encode_row r) \<longleftrightarrow> status_is_active (wr_status r)"
  by (cases "wr_status r") (simp_all add: stored_active_def encode_row_def convert_row_def status_is_active_def)


subsection \<open>The row store as an interface\<close>

text \<open>
  What the projector relies on: a store of rows keyed by Workflow ID, in which a failed
  write changes nothing, a successful insert adds the row, and a successful update replaces
  the material columns of the row with that key. The client's view of the store is the map
  from keys to rows.
\<close>

locale workflow_store =
  fixes ok :: "'db \<Rightarrow> bool"
    and load :: "'db \<Rightarrow> string \<Rightarrow> ('e, 'row option) result"
    and insert_row :: "'row \<Rightarrow> 'db \<Rightarrow> ('e, unit) result \<times> 'db"
    and update_row :: "'row \<Rightarrow> 'db \<Rightarrow> ('e, unit) result \<times> 'db"
    and key :: "'row \<Rightarrow> string"
    and merge :: "'row \<Rightarrow> 'row \<Rightarrow> 'row"
  assumes load_total: "ok db \<Longrightarrow> \<exists>r. load db w = Inr r"
    and load_key: "ok db \<Longrightarrow> load db w = Inr (Some r) \<Longrightarrow> key r = w"
    and insert_keeps_ok: "ok db \<Longrightarrow> ok (snd (insert_row r db))"
    and update_keeps_ok: "ok db \<Longrightarrow> ok (snd (update_row r db))"
    and failed_insert: "insert_row r db = (Inl e, db') \<Longrightarrow> db' = db"
    and failed_update: "update_row r db = (Inl e, db') \<Longrightarrow> db' = db"
    and load_insert: "ok db \<Longrightarrow> insert_row r db = (Inr u, db') \<Longrightarrow>
      load db' w = (if w = key r then Inr (Some r) else load db w)"
    and load_update: "ok db \<Longrightarrow> update_row r db = (Inr u, db') \<Longrightarrow>
      load db' w =
        (if w = key r then and_then (load db w) (\<lambda>x. Inr (map_option (\<lambda>old. merge old r) x))
         else load db w)"
begin

definition contents :: "'db \<Rightarrow> string \<Rightarrow> 'row option" where
  "contents db w = (case load db w of Inr r \<Rightarrow> r | Inl _ \<Rightarrow> None)"

lemma load_contents: "ok db \<Longrightarrow> load db w = Inr (contents db w)"
  using load_total [of db w] by (auto simp: contents_def)

lemma insert_refines:
  assumes "ok db"
  shows "contents (snd (insert_row r db)) =
    (case fst (insert_row r db) of Inr _ \<Rightarrow> (contents db)(key r \<mapsto> r) | Inl _ \<Rightarrow> contents db)"
proof (cases "insert_row r db")
  case (Pair res db')
  show ?thesis
  proof (cases res)
    case (Inl e)
    with Pair failed_insert show ?thesis by auto
  next
    case (Inr u)
    with Pair load_insert [OF assms] show ?thesis
      by (auto simp: contents_def fun_eq_iff)
  qed
qed

lemma update_refines:
  assumes "ok db"
  shows "contents (snd (update_row r db)) =
    (case fst (update_row r db) of
       Inr _ \<Rightarrow> (contents db)(key r := map_option (\<lambda>old. merge old r) (contents db (key r)))
     | Inl _ \<Rightarrow> contents db)"
proof (cases "update_row r db")
  case (Pair res db')
  show ?thesis
  proof (cases res)
    case (Inl e)
    with Pair failed_update show ?thesis by auto
  next
    case (Inr u)
    obtain x where "load db (key r) = Inr x"
      using load_total [OF assms] by blast
    with Inr Pair load_update [OF assms] show ?thesis
      by (auto simp: contents_def fun_eq_iff)
  qed
qed

lemma insert_readback:
  "ok db \<Longrightarrow> insert_row r db = (Inr u, db') \<Longrightarrow> load db' (key r) = Inr (Some r)"
  by (simp add: load_insert)

lemma update_readback:
  "ok db \<Longrightarrow> load db (key r) = Inr (Some old) \<Longrightarrow> update_row r db = (Inr u, db') \<Longrightarrow>
   load db' (key r) = Inr (Some (merge old r))"
  by (simp add: load_update)

end

subsection \<open>The table provides the interface\<close>

definition table_ok :: "workflow_table \<Rightarrow> bool" where
  "table_ok db \<longleftrightarrow> constraints_hold db \<and> list_all (\<lambda>s. \<not> isl (workflow_index_row s)) db"

definition merge_row :: "WorkflowIndexRow \<Rightarrow> WorkflowIndexRow \<Rightarrow> WorkflowIndexRow" where
  "merge_row old r =
     old\<lparr>wr_run_id := wr_run_id r, wr_current_state := wr_current_state r,
         wr_active_step := wr_active_step r, wr_waiting_kind := wr_waiting_kind r,
         wr_started_at := wr_started_at r, wr_status := wr_status r,
         wr_terminal_outcome := wr_terminal_outcome r,
         wr_freshness := wr_freshness r, wr_updated_at := wr_updated_at r\<rparr>"

lemma decodable_iff: "\<not> isl (workflow_index_row s) \<longleftrightarrow> (\<exists>r. s = encode_row r)"
  by (cases "workflow_index_row s") (auto simp: decode_inject)

lemma table_ok_encoded: "table_ok db \<Longrightarrow> s \<in> set db \<Longrightarrow> \<exists>r. s = encode_row r"
  by (auto simp: table_ok_def list_all_iff decodable_iff)

lemma set_material_encode:
  "set_material_columns r (encode_row old) =
     encode_row (if wr_workflow_id old = wr_workflow_id r then merge_row old r else old)"
  by (simp add: set_material_columns_def merge_row_def encode_row_def convert_row_def)

lemma set_material_id [simp]: "wr_workflow_id (set_material_columns r s) = wr_workflow_id s"
  by (simp add: set_material_columns_def)

lemma find_Some_mem: "find p xs = Some x \<Longrightarrow> x \<in> set xs \<and> p x"
  by (induction xs) (auto split: if_splits)

lemma query_row_Some:
  assumes "table_ok db"
  shows "query_row p db = Inr (Some r) \<longleftrightarrow> find p db = Some (encode_row r)"
proof (cases "find p db")
  case None
  then show ?thesis by (simp add: query_row_def)
next
  case (Some s)
  then obtain r' where "s = encode_row r'"
    using table_ok_encoded [OF assms] find_Some_mem by metis
  with Some show ?thesis
    by (metis (no_types, lifting) and_then_simps(2) decode_encode option.inject option.simps(5)
        query_row_def sum.inject(2))
qed

lemma find_append: "find p (xs @ ys) = or_else (find p xs) (find p ys)"
  by (induction xs) auto

lemma find_map_list: "find p (map f xs) = map_option f (find (p \<circ> f) xs)"
  by (induction xs) auto

lemma load_workflow_total: "table_ok db \<Longrightarrow> \<exists>r. load_workflow db w = Inr r"
proof -
  assume ok: "table_ok db"
  show ?thesis
  proof (cases "find (\<lambda>s. wr_workflow_id s = w) db")
    case None
    then show ?thesis by (simp add: load_workflow_def query_row_def)
  next
    case (Some s)
    then obtain r where "s = encode_row r"
      using table_ok_encoded [OF ok] find_Some_mem by metis
    with Some show ?thesis by (simp add: load_workflow_def query_row_def)
  qed
qed

lemma load_workflow_iff:
  assumes "table_ok db"
  shows "load_workflow db w = Inr (Some r) \<longleftrightarrow> encode_row r \<in> set db \<and> wr_workflow_id r = w"
proof -
  have d: "distinct (map wr_workflow_id db)"
    using assms by (simp add: table_ok_def constraints_hold_def)
  have "find (\<lambda>s. wr_workflow_id s = w) db = Some s \<longleftrightarrow> s \<in> set db \<and> wr_workflow_id s = w" for s
    using d by (induction db) (auto simp: image_iff)
  then show ?thesis
    by (simp add: load_workflow_def query_row_Some [OF assms])
qed

lemma load_after_insert:
  assumes "table_ok db" and ins: "insert_workflow r db = (Inr u, db')"
  shows "load_workflow db' w = (if w = wr_workflow_id r then Inr (Some r) else load_workflow db w)"
proof -
  from ins have db': "db' = db @ [encode_row r]" and c: "constraints_hold db'"
    by (auto simp: insert_workflow_def split: if_splits)
  have fresh: "find (\<lambda>s. wr_workflow_id s = wr_workflow_id r) db = None"
  proof -
    have "wr_workflow_id r \<notin> wr_workflow_id ` set db"
      using c by (simp add: db' constraints_hold_def)
    then show ?thesis by (force simp: find_None_iff)
  qed
  show ?thesis
  proof (cases "w = wr_workflow_id r")
    case True
    with fresh show ?thesis
      by (simp add: load_workflow_def query_row_def db' find_append)
  next
    case False
    then show ?thesis
      by (cases "find (\<lambda>s. wr_workflow_id s = w) db")
        (simp_all add: load_workflow_def query_row_def db' find_append)
  qed
qed

lemma load_after_update:
  assumes ok: "table_ok db" and upd: "update_material_projection r db = (Inr u, db')"
  shows "load_workflow db' w =
    (if w = wr_workflow_id r then and_then (load_workflow db w) (\<lambda>x. Inr (map_option (\<lambda>old. merge_row old r) x))
     else load_workflow db w)"
proof -
  from upd have db': "db' = map (set_material_columns r) db"
    by (auto simp: update_material_projection_def Let_def split: if_splits)
  have comp: "(\<lambda>s. wr_workflow_id s = w) \<circ> set_material_columns r = (\<lambda>s. wr_workflow_id s = w)"
    by (simp add: fun_eq_iff)
  show ?thesis
  proof (cases "find (\<lambda>s. wr_workflow_id s = w) db")
    case None
    then show ?thesis by (auto simp: load_workflow_def query_row_def db' find_map_list comp)
  next
    case (Some s)
    have mem: "s \<in> set db" "wr_workflow_id s = w" using find_Some_mem [OF Some] by auto
    obtain old where s: "s = encode_row old" using table_ok_encoded [OF ok mem(1)] by blast
    have w: "wr_workflow_id old = w" using mem(2) by (simp add: s)
    have before: "load_workflow db w = Inr (Some old)"
      using Some by (simp add: load_workflow_def query_row_def s)
    have "load_workflow db' w = and_then (workflow_index_row (set_material_columns r s)) (\<lambda>r. Inr (Some r))"
      unfolding load_workflow_def query_row_def db' find_map_list comp Some by simp
    also have "\<dots> = Inr (Some (if wr_workflow_id old = wr_workflow_id r then merge_row old r else old))"
      unfolding s set_material_encode by simp
    finally show ?thesis
      unfolding before w by simp
  qed
qed

lemma insert_table_ok: "table_ok db \<Longrightarrow> table_ok (snd (insert_workflow r db))"
  by (auto simp: insert_workflow_def table_ok_def decodable_iff)

lemma update_table_ok: "table_ok db \<Longrightarrow> table_ok (snd (update_material_projection r db))"
proof -
  assume ok: "table_ok db"
  have "\<not> isl (workflow_index_row (set_material_columns r s))" if "s \<in> set db" for s
    using table_ok_encoded [OF ok that] set_material_encode by (auto simp: decodable_iff)
  with ok show ?thesis
    by (simp add: update_material_projection_def Let_def table_ok_def list_all_iff)
qed

interpretation store: workflow_store table_ok load_workflow insert_workflow
  update_material_projection wr_workflow_id merge_row
proof
  fix db db' :: workflow_table and r :: WorkflowIndexRow and w e u
  show "table_ok db \<Longrightarrow> \<exists>r. load_workflow db w = Inr r" by (rule load_workflow_total)
  show "table_ok db \<Longrightarrow> load_workflow db w = Inr (Some r) \<Longrightarrow> wr_workflow_id r = w"
    by (simp add: load_workflow_iff)
  show "table_ok db \<Longrightarrow> table_ok (snd (insert_workflow r db))" by (rule insert_table_ok)
  show "table_ok db \<Longrightarrow> table_ok (snd (update_material_projection r db))" by (rule update_table_ok)
  show "insert_workflow r db = (Inl e, db') \<Longrightarrow> db' = db"
    by (auto simp: insert_workflow_def split: if_splits)
  show "update_material_projection r db = (Inl e, db') \<Longrightarrow> db' = db"
    by (auto simp: update_material_projection_def Let_def split: if_splits)
  show "table_ok db \<Longrightarrow> insert_workflow r db = (Inr u, db') \<Longrightarrow>
      load_workflow db' w = (if w = wr_workflow_id r then Inr (Some r) else load_workflow db w)"
    by (rule load_after_insert)
  show "table_ok db \<Longrightarrow> update_material_projection r db = (Inr u, db') \<Longrightarrow>
      load_workflow db' w =
        (if w = wr_workflow_id r
         then and_then (load_workflow db w) (\<lambda>x. Inr (map_option (\<lambda>old. merge_row old r) x))
         else load_workflow db w)"
    by (rule load_after_update)
qed

subsection \<open>Properties\<close>

text \<open>Storing a row and reading it back yields the row, and a stored row that can be read
  is exactly the stored form of what was read: no two rows share a stored form, and no stored
  text is reinterpreted.\<close>

theorem stored_row_round_trip:
  "workflow_index_row (encode_row r) = Inr r \<and> (workflow_index_row s = Inr r \<longleftrightarrow> s = encode_row r)"
  by (simp add: decode_inject)

end
