(* ===== verification/Projector.thy ===== *)
theory Projector
  imports Workflow_Index
begin

section \<open>Lifecycle projection (\<^verbatim>\<open>src/symphony/local_state/projector.rs\<close>)\<close>

text \<open>
  The projector writes what a caller observed about a workflow execution into the table. The
  activation facts that every observation carries are the record \<open>ActivationFacts\<close>; each
  variant adds its own fields. One function per variant is the branch of \<^verbatim>\<open>project\<close> for it:
  validation, timestamps, then an operation inside one immediate transaction. The \<^verbatim>\<open>time\<close>
  crate is the argument \<open>TimeLib\<close>: formatting in UTC as RFC 3339, parsing that format, and the
  order of instants. The diagnostic text of a value that cannot be read is the value itself.
\<close>

record TimeLib =
  tl_format :: "OffsetDateTime \<Rightarrow> (string, string) result"
  tl_parse :: "string \<Rightarrow> (string, OffsetDateTime) result"
  tl_le :: "OffsetDateTime \<Rightarrow> OffsetDateTime \<Rightarrow> bool"

definition WORKFLOW_EXECUTION_STEP :: string where
  "WORKFLOW_EXECUTION_STEP = ''workflow_execution''"

definition WORKFLOW_CLOSED_STEP :: string where
  "WORKFLOW_CLOSED_STEP = ''workflow_closed''"

definition MAX_START_FAILURE_SUMMARY_BYTES :: nat where
  "MAX_START_FAILURE_SUMMARY_BYTES = 1024"

datatype WorkflowCloseStatus =
    CloseCompleted | CloseFailed | CloseCancelled | CloseTerminated | CloseTimedOut

datatype DefinitiveStartFailureCode = AlreadyExists | InvalidRequest | Rejected

fun failure_code_as_str :: "DefinitiveStartFailureCode \<Rightarrow> string" where
  "failure_code_as_str AlreadyExists = ''already_exists''"
| "failure_code_as_str InvalidRequest = ''invalid_request''"
| "failure_code_as_str Rejected = ''rejected''"

record ActivationFacts =
  fa_workflow_id :: WorkflowId
  fa_workspace_runtime_id :: WorkspaceRuntimeId
  fa_repo_id :: RepoId
  fa_issue_ref :: IssueRef
  fa_from_state :: string
  fa_current_state :: string
  fa_target_kind :: string
  fa_source_ref :: string
  fa_source_tracker_revision :: string
  fa_operator_action_ref :: "string option"

datatype WorkflowLifecycleObservation =
    DescribeOpen ActivationFacts string OffsetDateTime OffsetDateTime
  | StartResponse ActivationFacts "string option" OffsetDateTime
  | DefinitiveStartFailure ActivationFacts DefinitiveStartFailureCode string OffsetDateTime
  | DescribeClosed ActivationFacts string OffsetDateTime "WorkflowCloseStatus option"
      "OffsetDateTime option" OffsetDateTime

datatype WorkflowLifecycleProjectionOutcome =
    Applied WorkflowIndexRow
  | AlreadyApplied WorkflowIndexRow
  | StaleObservation WorkflowIndexRow
  | WorkflowIdentityConflict WorkflowIndexRow
  | ActiveProjectionConflict WorkflowId WorkflowIndexRow
  | DescribeRequired "WorkflowIndexRow option"
  | StartFailureNotProjected DefinitiveStartFailureCode string

type_synonym projection =
  "workflow_table \<Rightarrow> (SqliteError, WorkflowLifecycleProjectionOutcome) result \<times> workflow_table"

subsection \<open>Validation and rendering\<close>

definition validate_required :: "string \<Rightarrow> string \<Rightarrow> (LocalStateError, unit) result" where
  "validate_required field v = (if trim v = [] then Inl (ProjectionInput field) else Inr ())"

fun validate_all :: "(string \<times> string) list \<Rightarrow> (LocalStateError, unit) result" where
  "validate_all [] = Inr ()"
| "validate_all ((field, v) # fvs) = and_then (validate_required field v) (\<lambda>_. validate_all fvs)"

definition validate_common_observation :: "ActivationFacts \<Rightarrow> (LocalStateError, unit) result" where
  "validate_common_observation f =
     and_then (validate_all
       [(''workflow_id'', fa_workflow_id f),
        (''workspace_runtime_id'', fa_workspace_runtime_id f),
        (''repo_id.host'', ri_host (fa_repo_id f)),
        (''repo_id.owner'', ri_owner (fa_repo_id f)),
        (''repo_id.repo'', ri_repo (fa_repo_id f))]) (\<lambda>_.
     if ir_number (fa_issue_ref f) = 0 then Inl (ProjectionInput ''issue_ref'')
     else and_then (validate_all
       [(''from_state'', fa_from_state f),
        (''current_state'', fa_current_state f),
        (''target_kind'', fa_target_kind f),
        (''source_ref'', fa_source_ref f),
        (''source_tracker_revision'', fa_source_tracker_revision f)]) (\<lambda>_.
     case fa_operator_action_ref f of
       None \<Rightarrow> Inr ()
     | Some v \<Rightarrow> validate_required ''operator_action_ref'' v))"

definition validate_new_row_scope :: "RepoId \<Rightarrow> IssueRef \<Rightarrow> (SqliteError, unit) result" where
  "validate_new_row_scope repo i =
     (if ir_repo_id i \<noteq> repo then Inl (ToSqlConversionFailure ''repo_id/issue_ref'') else Inr ())"

definition format_timestamp :: "TimeLib \<Rightarrow> OffsetDateTime \<Rightarrow> (LocalStateError, string) result" where
  "format_timestamp clock t = (case tl_format clock t of Inl e \<Rightarrow> Inl (TimestampFormat e) | Inr s \<Rightarrow> Inr s)"

definition parse_persisted_timestamp :: "TimeLib \<Rightarrow> string \<Rightarrow> (SqliteError, OffsetDateTime) result" where
  "parse_persisted_timestamp clock v =
     (case tl_parse clock v of Inl e \<Rightarrow> Inl (unsupported_storage_value 12 ''started_at'' v) | Inr t \<Rightarrow> Inr t)"

fun terminal_projection ::
    "WorkflowCloseStatus option \<Rightarrow> WorkflowIndexStatus \<times> WorkflowTerminalOutcome" where
  "terminal_projection (Some CloseCompleted) = (Completed, OutcomeCompleted)"
| "terminal_projection (Some CloseFailed) = (Failed, OutcomeFailed)"
| "terminal_projection (Some CloseCancelled) = (Failed, OutcomeCancelled)"
| "terminal_projection (Some CloseTerminated) = (Failed, OutcomeTerminated)"
| "terminal_projection (Some CloseTimedOut) = (Failed, OutcomeTimedOut)"
| "terminal_projection None = (ClosedUnknown, OutcomeClosedUnknown)"

text \<open>The longest prefix of at most \<open>n\<close> bytes that ends at a character boundary.\<close>

fun prefix_bytes :: "nat \<Rightarrow> string \<Rightarrow> string" where
  "prefix_bytes n [] = []"
| "prefix_bytes n (c # s) =
     (if utf8_len_char c \<le> n then c # prefix_bytes (n - utf8_len_char c) s else [])"

definition bounded_start_failure_summary :: "string \<Rightarrow> string" where
  "bounded_start_failure_summary s =
     (if utf8_len s \<le> MAX_START_FAILURE_SUMMARY_BYTES then s
      else prefix_bytes (MAX_START_FAILURE_SUMMARY_BYTES - 3) s @ ''...'')"

definition described_row ::
    "ActivationFacts \<Rightarrow> string \<Rightarrow> string \<Rightarrow> string \<Rightarrow> WorkflowIndexStatus \<Rightarrow> string \<Rightarrow>
     WorkflowTerminalOutcome option \<Rightarrow> WorkflowIndexRow" where
  "described_row f run_id started_at observed_at status step oc =
     \<lparr>wr_workflow_id = fa_workflow_id f, wr_run_id = Some run_id,
      wr_workspace_runtime_id = fa_workspace_runtime_id f,
      wr_repo_id = repo_database_key (fa_repo_id f),
      wr_issue_ref = issue_database_key (fa_issue_ref f),
      wr_from_state = fa_from_state f, wr_target_kind = fa_target_kind f,
      wr_current_state = fa_current_state f, wr_active_step = step, wr_waiting_kind = None,
      wr_source_ref = fa_source_ref f,
      wr_source_tracker_revision = fa_source_tracker_revision f, wr_started_at = started_at,
      wr_last_progress_at = None, wr_status = status, wr_terminal_outcome = oc,
      wr_operator_action_ref = fa_operator_action_ref f, wr_freshness = Fresh,
      wr_updated_at = observed_at\<rparr>"

definition same_immutable_start_facts :: "WorkflowIndexRow \<Rightarrow> ActivationFacts \<Rightarrow> bool" where
  "same_immutable_start_facts r f \<longleftrightarrow>
     wr_workflow_id r = fa_workflow_id f \<and>
     wr_workspace_runtime_id r = fa_workspace_runtime_id f \<and>
     wr_repo_id r = repo_database_key (fa_repo_id f) \<and>
     wr_issue_ref r = issue_database_key (fa_issue_ref f) \<and>
     wr_from_state r = fa_from_state f \<and>
     wr_target_kind r = fa_target_kind f \<and>
     wr_source_ref r = fa_source_ref f \<and>
     wr_source_tracker_revision r = fa_source_tracker_revision f \<and>
     wr_operator_action_ref r = fa_operator_action_ref f"

definition readback_applied :: "string \<Rightarrow> projection" where
  "readback_applied w db =
     (case load_workflow db w of
        Inl e \<Rightarrow> (Inl e, db)
      | Inr None \<Rightarrow> (Inl QueryReturnedNoRows, db)
      | Inr (Some r) \<Rightarrow> (Inr (Applied r), db))"

definition is_constraint_violation :: "SqliteError \<Rightarrow> bool" where
  "is_constraint_violation e \<longleftrightarrow> e = SqliteFailure ConstraintViolation"

definition insert_open_or_active_conflict :: "WorkflowIndexRow \<Rightarrow> projection" where
  "insert_open_or_active_conflict proposed db =
     (case insert_workflow proposed db of
        (Inr _, db') \<Rightarrow> readback_applied (wr_workflow_id proposed) db'
      | (Inl error, db') \<Rightarrow>
          (if is_constraint_violation error
           then (case load_active_workflow db' (wr_repo_id proposed) (wr_issue_ref proposed) of
                   Inl e \<Rightarrow> (Inl e, db')
                 | Inr None \<Rightarrow> (Inl error, db')
                 | Inr (Some r) \<Rightarrow> (Inr (ActiveProjectionConflict (wr_workflow_id r) r), db'))
           else (Inl error, db')))"

definition update_and_readback :: "WorkflowIndexRow \<Rightarrow> projection" where
  "update_and_readback r db =
     (case update_material_projection r db of
        (Inl e, db') \<Rightarrow> (Inl e, db')
      | (Inr _, db') \<Rightarrow> readback_applied (wr_workflow_id r) db')"

subsection \<open>The four observations\<close>

definition project_open ::
    "TimeLib \<Rightarrow> ActivationFacts \<Rightarrow> string \<Rightarrow> OffsetDateTime \<Rightarrow> string \<Rightarrow> string \<Rightarrow> projection" where
  "project_open clock f run_id described_started_at started_at observed_at db =
     (case load_workflow db (fa_workflow_id f) of
        Inl e \<Rightarrow> (Inl e, db)
      | Inr None \<Rightarrow>
          (case validate_new_row_scope (fa_repo_id f) (fa_issue_ref f) of
             Inl e \<Rightarrow> (Inl e, db)
           | Inr _ \<Rightarrow>
               insert_open_or_active_conflict
                 (described_row f run_id started_at observed_at Running WORKFLOW_EXECUTION_STEP None) db)
      | Inr (Some row) \<Rightarrow>
     (if \<not> same_immutable_start_facts row f then (Inr (WorkflowIdentityConflict row), db)
      else if wr_status row \<noteq> Running then (Inr (StaleObservation row), db)
      else if wr_run_id row = Some run_id
      then (if wr_started_at row \<noteq> started_at then (Inr (StaleObservation row), db)
            else (Inr (AlreadyApplied row), db))
      else
     (case parse_persisted_timestamp clock (wr_started_at row) of
        Inl e \<Rightarrow> (Inl e, db)
      | Inr stored \<Rightarrow>
          (if tl_le clock described_started_at stored then (Inr (StaleObservation row), db)
           else
             update_and_readback
               (row\<lparr>wr_run_id := Some run_id, wr_current_state := fa_current_state f,
                    wr_active_step := WORKFLOW_EXECUTION_STEP, wr_waiting_kind := None,
                    wr_started_at := started_at, wr_status := Running,
                    wr_terminal_outcome := None, wr_freshness := Fresh,
                    wr_updated_at := observed_at\<rparr>) db))))"

definition project_start_response :: "ActivationFacts \<Rightarrow> string option \<Rightarrow> projection" where
  "project_start_response f run_id db =
     (case load_workflow db (fa_workflow_id f) of
        Inl e \<Rightarrow> (Inl e, db)
      | Inr None \<Rightarrow> (Inr (DescribeRequired None), db)
      | Inr (Some row) \<Rightarrow>
          (if \<not> same_immutable_start_facts row f then (Inr (WorkflowIdentityConflict row), db)
           else if run_id \<noteq> None \<and> wr_run_id row = run_id then (Inr (AlreadyApplied row), db)
           else (Inr (DescribeRequired (Some row)), db)))"

definition project_start_failure ::
    "ActivationFacts \<Rightarrow> DefinitiveStartFailureCode \<Rightarrow> string \<Rightarrow> projection" where
  "project_start_failure f fcode summary db =
     (let outcome = StartFailureNotProjected fcode (bounded_start_failure_summary summary) in
      case load_workflow db (fa_workflow_id f) of
        Inl e \<Rightarrow> (Inl e, db)
      | Inr None \<Rightarrow> (Inr outcome, db)
      | Inr (Some row) \<Rightarrow>
          (if \<not> same_immutable_start_facts row f then (Inr (WorkflowIdentityConflict row), db)
           else (Inr outcome, db)))"

text \<open>The last step of a close observation: what it does to a row of its own run, or to a
  running row of an older run.\<close>

definition project_close_row ::
    "ActivationFacts \<Rightarrow> string \<Rightarrow> string \<Rightarrow> string \<Rightarrow> WorkflowIndexStatus \<Rightarrow>
     WorkflowTerminalOutcome \<Rightarrow> WorkflowIndexRow \<Rightarrow> projection" where
  "project_close_row f run_id started_at observed_at status oc row db =
     (case wr_status row of
        Running \<Rightarrow>
          update_and_readback
            (row\<lparr>wr_run_id := Some run_id, wr_started_at := started_at,
                 wr_current_state := fa_current_state f, wr_active_step := WORKFLOW_CLOSED_STEP,
                 wr_waiting_kind := None, wr_status := status, wr_terminal_outcome := Some oc,
                 wr_freshness := Fresh, wr_updated_at := observed_at\<rparr>) db
      | ClosedUnknown \<Rightarrow>
          (if status = ClosedUnknown \<and> wr_terminal_outcome row = Some oc
           then (Inr (AlreadyApplied row), db)
           else
             update_and_readback
               (row\<lparr>wr_current_state := fa_current_state f, wr_active_step := WORKFLOW_CLOSED_STEP,
                    wr_waiting_kind := None, wr_status := status, wr_terminal_outcome := Some oc,
                    wr_freshness := Fresh, wr_updated_at := observed_at\<rparr>) db)
      | st \<Rightarrow>
          (if st \<in> {Completed, Failed} \<and> st = status \<and> wr_terminal_outcome row = Some oc
           then (Inr (AlreadyApplied row), db)
           else (Inr (StaleObservation row), db)))"

definition project_closed ::
    "TimeLib \<Rightarrow> ActivationFacts \<Rightarrow> string \<Rightarrow> OffsetDateTime \<Rightarrow> string \<Rightarrow> string \<Rightarrow>
     WorkflowCloseStatus option \<Rightarrow> projection" where
  "project_closed clock f run_id described_started_at started_at observed_at close_status db =
     (let (status, oc) = terminal_projection close_status in
      case load_workflow db (fa_workflow_id f) of
        Inl e \<Rightarrow> (Inl e, db)
      | Inr None \<Rightarrow>
          (case validate_new_row_scope (fa_repo_id f) (fa_issue_ref f) of
             Inl e \<Rightarrow> (Inl e, db)
           | Inr _ \<Rightarrow>
               (case insert_workflow
                       (described_row f run_id started_at observed_at status WORKFLOW_CLOSED_STEP (Some oc)) db of
                  (Inl e, db') \<Rightarrow> (Inl e, db')
                | (Inr _, db') \<Rightarrow> readback_applied (fa_workflow_id f) db'))
      | Inr (Some row) \<Rightarrow>
     (if \<not> same_immutable_start_facts row f then (Inr (WorkflowIdentityConflict row), db)
      else if wr_run_id row = Some run_id
      then (if wr_started_at row \<noteq> started_at then (Inr (StaleObservation row), db)
            else project_close_row f run_id started_at observed_at status oc row db)
      else if wr_status row \<noteq> Running then (Inr (StaleObservation row), db)
      else
     (case parse_persisted_timestamp clock (wr_started_at row) of
        Inl e \<Rightarrow> (Inl e, db)
      | Inr stored \<Rightarrow>
          (if tl_le clock described_started_at stored then (Inr (StaleObservation row), db)
           else project_close_row f run_id started_at observed_at status oc row db))))"

definition project_transaction ::
    "TimeLib \<Rightarrow> WorkflowLifecycleObservation \<Rightarrow> (LocalStateError, projection) result" where
  "project_transaction clock ob =
     (case ob of
        DescribeOpen f run_id started_at observed_at \<Rightarrow>
          and_then (validate_common_observation f) (\<lambda>_.
          and_then (validate_required ''run_id'' run_id) (\<lambda>_.
          and_then (format_timestamp clock started_at) (\<lambda>started.
          and_then (format_timestamp clock observed_at) (\<lambda>observed.
          Inr (project_open clock f run_id started_at started observed)))))
      | StartResponse f run_id observed_at \<Rightarrow>
          and_then (validate_common_observation f) (\<lambda>_.
          Inr (project_start_response f (filter_option (\<lambda>v. trim v \<noteq> []) run_id)))
      | DefinitiveStartFailure f fcode summary observed_at \<Rightarrow>
          and_then (validate_common_observation f) (\<lambda>_.
          Inr (project_start_failure f fcode summary))
      | DescribeClosed f run_id started_at close_status closed_at observed_at \<Rightarrow>
          and_then (validate_common_observation f) (\<lambda>_.
          and_then (validate_required ''run_id'' run_id) (\<lambda>_.
          and_then (format_timestamp clock started_at) (\<lambda>started.
          and_then (format_timestamp clock observed_at) (\<lambda>observed.
          Inr (project_closed clock f run_id started_at started observed close_status))))))"

definition project ::
    "TimeLib \<Rightarrow> Connection \<Rightarrow> WorkflowLifecycleObservation \<Rightarrow> workflow_table \<Rightarrow>
     (LocalStateError, WorkflowLifecycleProjectionOutcome) result \<times> workflow_table" where
  "project clock cn ob db =
     (case project_transaction clock ob of
        Inl e \<Rightarrow> (Inl e, db)
      | Inr operation \<Rightarrow> with_immediate_transaction cn operation db)"

subsection \<open>The lifecycle as a transition relation\<close>

text \<open>How the status of one row may move, and what a material write does to the table.\<close>

inductive status_step :: "WorkflowIndexStatus \<Rightarrow> WorkflowIndexStatus \<Rightarrow> bool" where
  new_run: "status_step Running Running"
| close: "st \<in> {Completed, Failed, ClosedUnknown} \<Longrightarrow> status_step Running st"
| refine: "st \<in> {Completed, Failed, ClosedUnknown} \<Longrightarrow> status_step ClosedUnknown st"

inductive_simps status_step_from [simp]:
  "status_step Running st" "status_step ClosedUnknown st" "status_step Completed st" "status_step Failed st"

definition row_ok :: "WorkflowIndexRow \<Rightarrow> bool" where
  "row_ok r \<longleftrightarrow>
     wr_status r = Running \<and> wr_terminal_outcome r = None \<or>
     wr_status r = Completed \<and> wr_terminal_outcome r = Some OutcomeCompleted \<or>
     wr_status r = Failed \<and> wr_terminal_outcome r \<in>
       {Some OutcomeFailed, Some OutcomeCancelled, Some OutcomeTerminated, Some OutcomeTimedOut} \<or>
     wr_status r = ClosedUnknown \<and> wr_terminal_outcome r = Some OutcomeClosedUnknown"

inductive applied_step :: "workflow_table \<Rightarrow> WorkflowIndexRow \<Rightarrow> workflow_table \<Rightarrow> bool" where
  new_row: "load_workflow db (wr_workflow_id r) = Inr None \<Longrightarrow> row_ok r \<Longrightarrow>
     insert_workflow r db = (Inr (), db') \<Longrightarrow> applied_step db r db'"
| advance: "load_workflow db (wr_workflow_id r) = Inr (Some old) \<Longrightarrow> row_ok r \<Longrightarrow>
     merge_row old r = r \<Longrightarrow> status_step (wr_status old) (wr_status r) \<Longrightarrow>
     update_material_projection r db = (Inr (), db') \<Longrightarrow> applied_step db r db'"

inductive_cases applied_stepE: "applied_step db r db'"

text \<open>Which results of an operation are sound: only an applied row changes the table, and
  then by a step of the relation.\<close>

fun sound_result :: "ActivationFacts \<Rightarrow> workflow_table \<Rightarrow>
    (SqliteError, WorkflowLifecycleProjectionOutcome) result \<times> workflow_table \<Rightarrow> bool" where
  "sound_result f db (Inl e, db') \<longleftrightarrow> True"
| "sound_result f db (Inr (Applied r), db') \<longleftrightarrow> applied_step db r db' \<and> same_immutable_start_facts r f"
| "sound_result f db (Inr (AlreadyApplied r), db') \<longleftrightarrow>
     db' = db \<and> load_workflow db (fa_workflow_id f) = Inr (Some r) \<and> same_immutable_start_facts r f"
| "sound_result f db (Inr out, db') \<longleftrightarrow> db' = db"

lemma merge_self [simp]: "merge_row r r = r"
  by (simp add: merge_row_def)

lemma readback_insert:
  "table_ok db \<Longrightarrow> insert_workflow r db = (Inr u, db') \<Longrightarrow>
   readback_applied (wr_workflow_id r) db' = (Inr (Applied r), db')"
  by (simp add: readback_applied_def store.insert_readback)

lemma readback_update:
  "table_ok db \<Longrightarrow> load_workflow db (wr_workflow_id r) = Inr (Some old) \<Longrightarrow> merge_row old r = r \<Longrightarrow>
   update_material_projection r db = (Inr u, db') \<Longrightarrow>
   readback_applied (wr_workflow_id r) db' = (Inr (Applied r), db')"
  by (simp add: readback_applied_def store.update_readback)

lemma update_and_readback_sound:
  assumes "table_ok db" and "load_workflow db (wr_workflow_id r) = Inr (Some old)"
    and "merge_row old r = r" and "row_ok r" and "status_step (wr_status old) (wr_status r)"
    and "same_immutable_start_facts r f"
  shows "sound_result f db (update_and_readback r db)"
proof (cases "update_material_projection r db")
  case (Pair res db')
  show ?thesis
  proof (cases res)
    case (Inl e)
    with Pair show ?thesis by (simp add: update_and_readback_def)
  next
    case (Inr u)
    with Pair readback_update [OF assms(1-3)] advance [OF assms(2,4,3,5)] assms(6) show ?thesis
      by (simp add: update_and_readback_def)
  qed
qed

lemma insert_open_sound:
  assumes "table_ok db" and "load_workflow db (wr_workflow_id r) = Inr None" and "row_ok r"
    and "same_immutable_start_facts r f"
  shows "sound_result f db (insert_open_or_active_conflict r db)"
proof (cases "insert_workflow r db")
  case (Pair res db')
  show ?thesis
  proof (cases res)
    case (Inl e)
    with Pair have "db' = db" using store.failed_insert by simp
    with Inl Pair show ?thesis
      by (auto simp: insert_open_or_active_conflict_def split: sum.splits option.splits)
  next
    case (Inr u)
    with Pair readback_insert [OF assms(1)] new_row [OF assms(2,3)] assms(4) show ?thesis
      by (simp add: insert_open_or_active_conflict_def)
  qed
qed

lemma row_ok_terminal:
  "terminal_projection cs = (st, oc) \<Longrightarrow> wr_status r = st \<Longrightarrow> wr_terminal_outcome r = Some oc \<Longrightarrow>
   row_ok r \<and> st \<in> {Completed, Failed, ClosedUnknown}"
  by (cases cs rule: terminal_projection.cases) (auto simp: row_ok_def)

lemma described_row_facts [simp]:
  "same_immutable_start_facts (described_row f run started observed st step oc) f"
  "wr_workflow_id (described_row f run started observed st step oc) = fa_workflow_id f"
  "wr_status (described_row f run started observed st step oc) = st"
  "wr_terminal_outcome (described_row f run started observed st step oc) = oc"
  by (simp_all add: same_immutable_start_facts_def described_row_def)

lemma same_facts_id: "same_immutable_start_facts r f \<Longrightarrow> wr_workflow_id r = fa_workflow_id f"
  by (simp add: same_immutable_start_facts_def)

lemma project_open_sound:
  assumes ok: "table_ok db"
  shows "sound_result f db (project_open clock f run described started observed db)"
proof (cases "load_workflow db (fa_workflow_id f)")
  case (Inl e)
  then show ?thesis by (simp add: project_open_def)
next
  case (Inr found)
  show ?thesis
  proof (cases found)
    case None
    have "row_ok (described_row f run started observed Running WORKFLOW_EXECUTION_STEP None)"
      by (simp add: row_ok_def)
    from insert_open_sound [OF ok _ this] None Inr show ?thesis
      by (auto simp: project_open_def split: sum.splits)
  next
    case (Some row)
    let ?new = "row\<lparr>wr_run_id := Some run, wr_current_state := fa_current_state f,
      wr_active_step := WORKFLOW_EXECUTION_STEP, wr_waiting_kind := None,
      wr_started_at := started, wr_status := Running, wr_terminal_outcome := None,
      wr_freshness := Fresh, wr_updated_at := observed\<rparr>"
    have load: "load_workflow db (fa_workflow_id f) = Inr (Some row)" using Inr Some by simp
    have upd: "sound_result f db (update_and_readback ?new db)"
      if "same_immutable_start_facts row f" "wr_status row = Running"
    proof (rule update_and_readback_sound [OF ok])
      show "load_workflow db (wr_workflow_id ?new) = Inr (Some row)"
        using that load same_facts_id by simp
    qed (use that in \<open>simp_all add: merge_row_def row_ok_def same_immutable_start_facts_def\<close>)
    then show ?thesis
      by (simp add: project_open_def load split: sum.splits)
  qed
qed

lemma project_close_row_sound:
  assumes ok: "table_ok db" and load: "load_workflow db (fa_workflow_id f) = Inr (Some row)"
    and same: "same_immutable_start_facts row f" and tp: "terminal_projection cs = (st, oc)"
  shows "sound_result f db (project_close_row f run started observed st oc row db)"
proof -
  have id: "wr_workflow_id row = fa_workflow_id f" using same by (rule same_facts_id)
  have upd: "sound_result f db (update_and_readback r db)"
    if "wr_workflow_id r = wr_workflow_id row" "merge_row row r = r" "wr_status r = st"
      "wr_terminal_outcome r = Some oc" "wr_status row \<in> {Running, ClosedUnknown}" for r
  proof (rule update_and_readback_sound [OF ok])
    show "load_workflow db (wr_workflow_id r) = Inr (Some row)" by (simp add: that id load)
    show "row_ok r" "status_step (wr_status row) (wr_status r)"
      using row_ok_terminal [OF tp that(3,4)] that(3,5) by auto
    have "same_immutable_start_facts (merge_row row r) f"
      using same by (simp add: merge_row_def same_immutable_start_facts_def)
    then show "same_immutable_start_facts r f" by (simp only: that(2))
  qed (use that in simp)
  have up2: "sound_result f db (update_and_readback (row\<lparr>wr_run_id := a, wr_started_at := b,
      wr_current_state := fa_current_state f, wr_active_step := WORKFLOW_CLOSED_STEP,
      wr_waiting_kind := None, wr_status := st, wr_terminal_outcome := Some oc,
      wr_freshness := Fresh, wr_updated_at := observed\<rparr>) db)"
    if "wr_status row \<in> {Running, ClosedUnknown}" for a b
    by (rule upd) (use that in \<open>simp_all add: merge_row_def\<close>)
  show ?thesis
    using up2 [where a = "Some run" and b = started]
      up2 [where a = "wr_run_id row" and b = "wr_started_at row"] load same
    by (auto simp: project_close_row_def split: WorkflowIndexStatus.splits)
qed

lemma project_closed_sound:
  assumes ok: "table_ok db"
  shows "sound_result f db (project_closed clock f run described started observed cs db)"
proof -
  obtain st oc where tp: "terminal_projection cs = (st, oc)" by (cases "terminal_projection cs")
  show ?thesis
  proof (cases "load_workflow db (fa_workflow_id f)")
    case (Inl e)
    then show ?thesis by (simp add: project_closed_def tp)
  next
    case (Inr found)
    show ?thesis
    proof (cases found)
      case None
      let ?r = "described_row f run started observed st WORKFLOW_CLOSED_STEP (Some oc)"
      have "row_ok ?r" using row_ok_terminal [OF tp] by simp
      then show ?thesis
        using readback_insert [OF ok, of ?r] new_row [of db ?r] None Inr
        by (auto simp: project_closed_def tp split: sum.splits prod.splits)
    next
      case (Some row)
      with Inr project_close_row_sound [OF ok _ _ tp] show ?thesis
        by (auto simp: project_closed_def tp split: sum.splits)
    qed
  qed
qed

lemma project_start_sound:
  "sound_result f db (project_start_response f run db)"
  "sound_result f db (project_start_failure f c summary db)"
  by (auto simp: project_start_response_def project_start_failure_def Let_def
      split: sum.splits option.splits)

fun facts_of :: "WorkflowLifecycleObservation \<Rightarrow> ActivationFacts" where
  "facts_of (DescribeOpen f _ _ _) = f"
| "facts_of (StartResponse f _ _) = f"
| "facts_of (DefinitiveStartFailure f _ _ _) = f"
| "facts_of (DescribeClosed f _ _ _ _ _) = f"

lemma project_transaction_sound:
  "table_ok db \<Longrightarrow> project_transaction clock ob = Inr op \<Longrightarrow> sound_result (facts_of ob) db (op db)"
  by (cases ob) (auto simp: project_transaction_def and_then_Inr_iff
      intro: project_open_sound project_closed_sound project_start_sound)

lemma with_transaction_cases:
  obtains e where "with_immediate_transaction cn op db = (Inl e, db)"
  | a db' where "op db = (Inr a, db')" "with_immediate_transaction cn op db = (Inr a, db')"
proof -
  have "(\<exists>e. with_immediate_transaction cn op db = (Inl e, db)) \<or>
      (\<exists>a db'. op db = (Inr a, db') \<and> with_immediate_transaction cn op db = (Inr a, db'))"
    by (auto simp: with_immediate_transaction_def split: option.splits sum.splits prod.splits)
  then show ?thesis using that by blast
qed

lemma project_cases:
  assumes "table_ok db"
  obtains (error) e where "project clock cn ob db = (Inl e, db)"
  | (applied) r db' where "project clock cn ob db = (Inr (Applied r), db')" "applied_step db r db'"
      "same_immutable_start_facts r (facts_of ob)"
  | (unchanged) out where "project clock cn ob db = (Inr out, db)" "\<forall>r. out \<noteq> Applied r"
proof (cases "project_transaction clock ob")
  case (Inl e)
  then have "project clock cn ob db = (Inl e, db)" by (simp add: project_def)
  then show ?thesis by (rule error)
next
  case (Inr op)
  then have p: "project clock cn ob db = with_immediate_transaction cn op db"
    by (simp add: project_def)
  note snd = project_transaction_sound [OF assms Inr]
  show ?thesis
  proof (cases rule: with_transaction_cases [of cn op db])
    case (1 e)
    with p error show ?thesis by simp
  next
    case (2 out db')
    show ?thesis
    proof (cases "\<exists>r. out = Applied r")
      case True
      with 2 snd p applied show ?thesis by auto
    next
      case False
      with 2 snd have "db' = db" by (cases out) auto
      with 2 False p unchanged show ?thesis by simp
    qed
  qed
qed

subsection \<open>Facts: steps keep the invariant\<close>

definition rows_ok :: "workflow_table \<Rightarrow> bool" where
  "rows_ok db \<longleftrightarrow> list_all (\<lambda>s. case workflow_index_row s of Inr r \<Rightarrow> row_ok r | Inl _ \<Rightarrow> False) db"

lemma rows_ok_encoded: "rows_ok (db @ [encode_row r]) \<longleftrightarrow> rows_ok db \<and> row_ok r"
  by (simp add: rows_ok_def)

lemma applied_step_table_ok: "applied_step db r db' \<Longrightarrow> table_ok db \<Longrightarrow> table_ok db'"
  by (erule applied_stepE) (metis store.insert_keeps_ok snd_conv, metis store.update_keeps_ok snd_conv)

lemma applied_step_load:
  assumes "applied_step db r db'" and ok: "table_ok db"
  shows "load_workflow db' w = (if w = wr_workflow_id r then Inr (Some r) else load_workflow db w)"
  using assms(1)
proof cases
  case new_row
  from store.load_insert [OF ok new_row(3)] show ?thesis .
next
  case (advance old)
  from store.load_update [OF ok advance(5), of w] advance(1,3) show ?thesis by simp
qed

lemma rows_ok_loaded:
  "table_ok db \<Longrightarrow> rows_ok db \<longleftrightarrow> (\<forall>w r. load_workflow db w = Inr (Some r) \<longrightarrow> row_ok r)"
proof -
  assume ok: "table_ok db"
  have "rows_ok db \<longleftrightarrow> (\<forall>r. encode_row r \<in> set db \<longrightarrow> row_ok r)"
  proof -
    have "(case workflow_index_row s of Inr r \<Rightarrow> row_ok r | Inl _ \<Rightarrow> False) \<longleftrightarrow>
        (\<forall>r. s = encode_row r \<longrightarrow> row_ok r)" if s: "s \<in> set db" for s
    proof -
      obtain r0 where r0: "s = encode_row r0" using table_ok_encoded [OF ok s] by blast
      have "s = encode_row r \<longleftrightarrow> r = r0" for r
        unfolding r0 by (metis decode_encode sum.inject(2))
      then show ?thesis by (simp add: r0)
    qed
    then show ?thesis unfolding rows_ok_def list_all_iff by blast
  qed
  also have "\<dots> \<longleftrightarrow> (\<forall>w r. load_workflow db w = Inr (Some r) \<longrightarrow> row_ok r)"
    by (simp add: load_workflow_iff [OF ok])
  finally show ?thesis .
qed

lemma applied_step_rows_ok:
  assumes "applied_step db r db'" and ok: "table_ok db" and "rows_ok db"
  shows "rows_ok db'"
proof -
  have "row_ok r" using assms(1) by cases
  then show ?thesis
    using assms(3) applied_step_load [OF assms(1,2)]
    by (auto simp: rows_ok_loaded ok rows_ok_loaded [OF applied_step_table_ok [OF assms(1,2)]]
        split: if_splits)
qed

lemma project_keeps_ok: "table_ok db \<Longrightarrow> table_ok (snd (project clock cn ob db))"
  by (cases rule: project_cases [of db clock cn ob]) (auto dest: applied_step_table_ok)

lemma project_keeps_rows: "table_ok db \<Longrightarrow> rows_ok db \<Longrightarrow> rows_ok (snd (project clock cn ob db))"
  by (cases rule: project_cases [of db clock cn ob]) (auto dest: applied_step_rows_ok)

text \<open>The tables that projections can produce from the empty one, with any observations and
  any connection failures in between.\<close>

inductive reachable :: "TimeLib \<Rightarrow> workflow_table \<Rightarrow> bool" for clock where
  initial: "reachable clock []"
| projected: "reachable clock db \<Longrightarrow> reachable clock (snd (project clock cn ob db))"

lemma reachable_ok: "reachable clock db \<Longrightarrow> table_ok db \<and> rows_ok db"
proof (induction rule: reachable.induct)
  case initial
  show ?case by (simp add: table_ok_def constraints_hold_def rows_ok_def)
next
  case projected
  then show ?case using project_keeps_ok project_keeps_rows by blast
qed

text \<open>A later table of the same history.\<close>

definition projection_step :: "TimeLib \<Rightarrow> workflow_table \<Rightarrow> workflow_table \<Rightarrow> bool" where
  "projection_step clock db db' \<longleftrightarrow> (\<exists>cn ob. db' = snd (project clock cn ob db))"

definition later_row :: "WorkflowIndexRow \<Rightarrow> WorkflowIndexRow \<Rightarrow> bool" where
  "later_row r r' \<longleftrightarrow>
     merge_row r r' = r' \<and>
     (wr_status r \<in> {Completed, Failed} \<longrightarrow> r' = r) \<and>
     (wr_status r = ClosedUnknown \<longrightarrow> wr_status r' \<in> {ClosedUnknown, Completed, Failed})"

lemma later_row_refl: "later_row r r"
  by (simp add: later_row_def)

lemma merge_trans: "merge_row a b = b \<Longrightarrow> merge_row b c = c \<Longrightarrow> merge_row a c = c"
proof -
  assume ab: "merge_row a b = b" and bc: "merge_row b c = c"
  have "merge_row a c = merge_row (merge_row a b) c" by (simp add: merge_row_def)
  then show ?thesis by (simp add: ab bc)
qed

lemma later_row_trans: "later_row a b \<Longrightarrow> later_row b c \<Longrightarrow> later_row a c"
  unfolding later_row_def by (blast intro: merge_trans)

lemma applied_step_later:
  assumes "applied_step db r db'" and ok: "table_ok db" and "load_workflow db w = Inr (Some old)"
  shows "\<exists>r'. load_workflow db' w = Inr (Some r') \<and> later_row old r'"
proof (cases "w = wr_workflow_id r")
  case False
  then show ?thesis
    using applied_step_load [OF assms(1,2)] assms(3) later_row_refl by auto
next
  case True
  from assms(1) have "later_row old r"
    using assms(3) True by cases (auto simp: later_row_def)
  then show ?thesis
    using applied_step_load [OF assms(1,2)] True by auto
qed

lemma projection_step_later:
  assumes "projection_step clock db db'" and ok: "table_ok db" and load: "load_workflow db w = Inr (Some old)"
  shows "\<exists>r'. load_workflow db' w = Inr (Some r') \<and> later_row old r'"
proof -
  from assms(1) obtain cn ob where db': "db' = snd (project clock cn ob db)"
    by (auto simp: projection_step_def)
  show ?thesis
  proof (cases rule: project_cases [OF ok, of clock cn ob])
    case (2 r db'')
    with applied_step_later [OF 2(2) ok load] show ?thesis by (simp add: db')
  qed (use load later_row_refl in \<open>auto simp: db'\<close>)
qed

lemma history_later:
  assumes "(projection_step clock)\<^sup>*\<^sup>* db db'" and "table_ok db" and "load_workflow db w = Inr (Some r)"
  shows "table_ok db' \<and> (\<exists>r'. load_workflow db' w = Inr (Some r') \<and> later_row r r')"
  using assms
proof (induction rule: rtranclp_induct)
  case base
  then show ?case using later_row_refl by blast
next
  case (step b c)
  then obtain r' where ok: "table_ok b" and r': "load_workflow b w = Inr (Some r')" "later_row r r'"
    by blast
  have "table_ok c"
    using step.hyps(2) ok project_keeps_ok by (auto simp: projection_step_def)
  with projection_step_later [OF step.hyps(2) ok r'(1)] r'(2) later_row_trans show ?case by blast
qed

subsection \<open>Facts: what an applied observation leaves in the row\<close>

lemma update_and_readback_Applied:
  assumes "table_ok db" and "load_workflow db (wr_workflow_id r0) = Inr (Some old)"
    and "merge_row old r0 = r0" and "update_and_readback r0 db = (Inr (Applied r), db')"
  shows "r = r0"
  using assms(4) readback_update [OF assms(1-3)]
  by (auto simp: update_and_readback_def split: sum.splits prod.splits)

lemma insert_open_Applied:
  "table_ok db \<Longrightarrow> insert_open_or_active_conflict r0 db = (Inr (Applied r), db') \<Longrightarrow> r = r0"
  by (auto simp: insert_open_or_active_conflict_def readback_insert
      split: sum.splits prod.splits option.splits if_splits)

lemma project_open_Applied:
  assumes ok: "table_ok db"
    and app: "project_open clock f run described started observed db = (Inr (Applied r), db')"
  shows "wr_status r = Running \<and> wr_run_id r = Some run \<and> wr_started_at r = started"
proof (cases "load_workflow db (fa_workflow_id f)")
  case (Inl e)
  with app show ?thesis by (simp add: project_open_def)
next
  case (Inr found)
  show ?thesis
  proof (cases found)
    case None
    with Inr app have "r = described_row f run started observed Running WORKFLOW_EXECUTION_STEP None"
      using insert_open_Applied [OF ok] by (auto simp: project_open_def split: sum.splits)
    then show ?thesis by (simp add: described_row_def)
  next
    case (Some row)
    let ?new = "row\<lparr>wr_run_id := Some run, wr_current_state := fa_current_state f,
      wr_active_step := WORKFLOW_EXECUTION_STEP, wr_waiting_kind := None,
      wr_started_at := started, wr_status := Running, wr_terminal_outcome := None,
      wr_freshness := Fresh, wr_updated_at := observed\<rparr>"
    from app Inr Some have same: "same_immutable_start_facts row f"
      and upd: "update_and_readback ?new db = (Inr (Applied r), db')"
      by (auto simp: project_open_def split: if_splits sum.splits)
    have "r = ?new"
      by (rule update_and_readback_Applied [OF ok _ _ upd])
        (use Inr Some same_facts_id [OF same] in \<open>simp_all add: merge_row_def\<close>)
    then show ?thesis by simp
  qed
qed

lemma project_close_row_Applied:
  assumes ok: "table_ok db" and load: "load_workflow db (wr_workflow_id row) = Inr (Some row)"
    and app: "project_close_row f run started observed st oc row db = (Inr (Applied r), db')"
    and run: "wr_status row \<noteq> Running \<Longrightarrow> wr_run_id row = Some run \<and> wr_started_at row = started"
  shows "wr_status r = st \<and> wr_terminal_outcome r = Some oc \<and> wr_run_id r = Some run \<and> wr_started_at r = started"
proof -
  let ?upd = "\<lambda>row'. row'\<lparr>wr_current_state := fa_current_state f, wr_active_step := WORKFLOW_CLOSED_STEP,
      wr_waiting_kind := None, wr_status := st, wr_terminal_outcome := Some oc,
      wr_freshness := Fresh, wr_updated_at := observed\<rparr>"
  have eq: "r = r0"
    if "update_and_readback r0 db = (Inr (Applied r), db')" "merge_row row r0 = r0"
      "wr_workflow_id r0 = wr_workflow_id row" for r0
    using update_and_readback_Applied [OF ok _ that(2,1)] load that(3) by simp
  consider "wr_status row = Running" | "wr_status row = ClosedUnknown"
    | "wr_status row \<notin> {Running, ClosedUnknown}" by blast
  then show ?thesis
  proof cases
    case 1
    let ?r = "?upd (row\<lparr>wr_run_id := Some run, wr_started_at := started\<rparr>)"
    have "r = ?r"
      by (rule eq) (use 1 app in \<open>simp_all add: project_close_row_def merge_row_def\<close>)
    then show ?thesis by simp
  next
    case 2
    have "r = ?upd row"
      by (rule eq) (use 2 app in \<open>simp_all add: project_close_row_def merge_row_def split: if_splits\<close>)
    with 2 run show ?thesis by simp
  next
    case 3
    with app show ?thesis
      by (cases "wr_status row") (auto simp: project_close_row_def split: if_splits)
  qed
qed

lemma project_closed_Applied:
  assumes ok: "table_ok db" and tp: "terminal_projection cs = (st, oc)"
    and app: "project_closed clock f run described started observed cs db = (Inr (Applied r), db')"
  shows "wr_status r = st \<and> wr_terminal_outcome r = Some oc \<and> wr_run_id r = Some run \<and> wr_started_at r = started"
proof (cases "load_workflow db (fa_workflow_id f)")
  case (Inl e)
  with app show ?thesis by (simp add: project_closed_def tp)
next
  case (Inr found)
  show ?thesis
  proof (cases found)
    case None
    let ?r = "described_row f run started observed st WORKFLOW_CLOSED_STEP (Some oc)"
    from None Inr app have "r = ?r"
      using readback_insert [OF ok, of ?r]
      by (auto simp: project_closed_def tp split: sum.splits prod.splits)
    then show ?thesis by (simp add: described_row_def)
  next
    case (Some row)
    from app Inr Some have same: "same_immutable_start_facts row f"
      and cl: "project_close_row f run started observed st oc row db = (Inr (Applied r), db')"
      and run: "wr_status row \<noteq> Running \<Longrightarrow> wr_run_id row = Some run \<and> wr_started_at row = started"
      by (auto simp: project_closed_def tp split: if_splits sum.splits)
    show ?thesis
      by (rule project_close_row_Applied [OF ok _ cl run]) (use Inr Some same_facts_id [OF same] in simp_all)
  qed
qed

lemma transaction_again:
  assumes "with_immediate_transaction cn op db = (Inr a, db')"
  shows "with_immediate_transaction cn op' x =
    (case op' x of (Inl e, _) \<Rightarrow> (Inl (classify e ProjectionPhase), x) | (Inr b, y) \<Rightarrow> (Inr b, y))"
  using assms by (auto simp: with_immediate_transaction_def split: option.splits sum.splits prod.splits if_splits)

text \<open>The same evidence, observed at another time.\<close>

fun reobserved :: "OffsetDateTime \<Rightarrow> WorkflowLifecycleObservation \<Rightarrow> WorkflowLifecycleObservation" where
  "reobserved t' (DescribeOpen f run t o') = DescribeOpen f run t t'"
| "reobserved t' (StartResponse f run o') = StartResponse f run t'"
| "reobserved t' (DefinitiveStartFailure f c summary o') = DefinitiveStartFailure f c summary t'"
| "reobserved t' (DescribeClosed f run t cs ca o') = DescribeClosed f run t cs ca t'"

lemma operation_again:
  assumes ok: "table_ok db" and op: "project_transaction clock ob = Inr op"
    and app: "op db = (Inr (Applied r), db')" and t': "format_timestamp clock t' = Inr v"
  shows "\<exists>op'. project_transaction clock (reobserved t' ob) = Inr op' \<and> op' db' = (Inr (AlreadyApplied r), db')"
proof -
  have "sound_result (facts_of ob) db (Inr (Applied r), db')"
    using project_transaction_sound [OF ok op] app by simp
  then have same: "same_immutable_start_facts r (facts_of ob)" and step: "applied_step db r db'"
    by simp_all
  have load: "load_workflow db' (fa_workflow_id (facts_of ob)) = Inr (Some r)"
    using applied_step_load [OF step ok] same_facts_id [OF same] by simp
  show ?thesis
  proof (cases ob)
    case (DescribeOpen f run t o')
    with op t' obtain started observed where op': "op = project_open clock f run t started observed"
      and again: "project_transaction clock (reobserved t' ob) = Inr (project_open clock f run t started v)"
      by (auto simp: project_transaction_def and_then_Inr_iff)
    from project_open_Applied [OF ok app [unfolded op']] load same DescribeOpen
    have "project_open clock f run t started v db' = (Inr (AlreadyApplied r), db')"
      by (simp add: project_open_def)
    with again show ?thesis by blast
  next
    case (StartResponse f run o')
    with op app show ?thesis
      by (auto simp: project_transaction_def and_then_Inr_iff project_start_response_def
          split: sum.splits option.splits if_splits)
  next
    case (DefinitiveStartFailure f c summary o')
    with op app show ?thesis
      by (auto simp: project_transaction_def and_then_Inr_iff project_start_failure_def Let_def
          split: sum.splits option.splits if_splits)
  next
    case (DescribeClosed f run t cs ca o')
    with op t' obtain started observed where op': "op = project_closed clock f run t started observed cs"
      and again: "project_transaction clock (reobserved t' ob) = Inr (project_closed clock f run t started v cs)"
      by (auto simp: project_transaction_def and_then_Inr_iff)
    obtain st oc where tp: "terminal_projection cs = (st, oc)" by (cases "terminal_projection cs")
    from project_closed_Applied [OF ok tp app [unfolded op']]
    have r: "wr_status r = st" "wr_terminal_outcome r = Some oc" "wr_run_id r = Some run"
      "wr_started_at r = started" by simp_all
    have "st \<in> {Completed, Failed, ClosedUnknown}" using row_ok_terminal [OF tp r(1,2)] by simp
    with r load same DescribeClosed
    have "project_closed clock f run t started v cs db' = (Inr (AlreadyApplied r), db')"
      by (auto simp: project_closed_def tp project_close_row_def)
    with again show ?thesis by blast
  qed
qed

subsection \<open>Facts: the active index\<close>

lemma find_Some_ex: "x \<in> set xs \<Longrightarrow> p x \<Longrightarrow> \<exists>y. find p xs = Some y"
  by (cases "find p xs") (auto simp: find_None_iff)

lemma insert_open_new:
  assumes ok: "table_ok db" and new: "load_workflow db (wr_workflow_id r) = Inr None"
    and active: "status_is_active (wr_status r)"
  shows "if \<exists>s \<in> set db. stored_active s \<and> issue_key s = issue_key r
    then \<exists>row. encode_row row \<in> set db \<and> status_is_active (wr_status row) \<and> issue_key row = issue_key r \<and>
      insert_open_or_active_conflict r db = (Inr (ActiveProjectionConflict (wr_workflow_id row) row), db)
    else insert_open_or_active_conflict r db = (Inr (Applied r), db @ [encode_row r])"
proof -
  have "encode_row x \<notin> set db \<or> wr_workflow_id x \<noteq> wr_workflow_id r" for x
    using new load_workflow_iff [OF ok, of "wr_workflow_id r" x] by auto
  then have ids: "wr_workflow_id r \<notin> wr_workflow_id ` set db"
    using table_ok_encoded [OF ok] by force
  have c: "constraints_hold db" using ok by (simp add: table_ok_def)
  have "constraints_hold (db @ [encode_row r]) \<longleftrightarrow>
      issue_key r \<notin> issue_key ` {s \<in> set db. stored_active s}"
    using c ids active by (auto simp: constraints_hold_def)
  then have ins: "insert_workflow r db =
      (if \<exists>s \<in> set db. stored_active s \<and> issue_key s = issue_key r then (Inl (SqliteFailure ConstraintViolation), db)
       else (Inr (), db @ [encode_row r]))"
    by (auto simp: insert_workflow_def image_iff)
  show ?thesis
  proof (cases "\<exists>s \<in> set db. stored_active s \<and> issue_key s = issue_key r")
    case True
    let ?p = "\<lambda>s. wr_repo_id s = wr_repo_id r \<and> wr_issue_ref s = wr_issue_ref r \<and> stored_active s"
    from True obtain s where s: "find ?p db = Some s"
      using find_Some_ex [of _ db ?p] by (auto simp: issue_key_def)
    then have mem: "s \<in> set db" "?p s" using find_Some_mem [OF s] by auto
    obtain row where row: "s = encode_row row" using table_ok_encoded [OF ok mem(1)] by blast
    have "load_active_workflow db (wr_repo_id r) (wr_issue_ref r) = Inr (Some row)"
      unfolding load_active_workflow_def query_row_def s row by simp
    with True ins have "insert_open_or_active_conflict r db =
        (Inr (ActiveProjectionConflict (wr_workflow_id row) row), db)"
      by (simp add: insert_open_or_active_conflict_def is_constraint_violation_def)
    moreover have "encode_row row \<in> set db" "status_is_active (wr_status row)" "issue_key row = issue_key r"
      using mem by (simp_all add: row issue_key_def)
    ultimately show ?thesis using True by auto
  next
    case False
    then have "insert_workflow r db = (Inr (), db @ [encode_row r])" using ins by simp
    with readback_insert [OF ok this] False show ?thesis
      by (simp add: insert_open_or_active_conflict_def)
  qed
qed

subsection \<open>Facts: newer runs\<close>

fun describe_evidence :: "WorkflowLifecycleObservation \<Rightarrow> (string \<times> OffsetDateTime) option" where
  "describe_evidence (DescribeOpen _ run t _) = Some (run, t)"
| "describe_evidence (DescribeClosed _ run t _ _ _) = Some (run, t)"
| "describe_evidence _ = None"

definition newer_run :: "TimeLib \<Rightarrow> OffsetDateTime \<Rightarrow> WorkflowIndexRow \<Rightarrow> bool" where
  "newer_run clock t old \<longleftrightarrow>
     wr_status old = Running \<and>
     (case tl_parse clock (wr_started_at old) of Inr stored \<Rightarrow> \<not> tl_le clock t stored | Inl _ \<Rightarrow> False)"

lemma operation_newer:
  assumes ok: "table_ok db" and op: "project_transaction clock ob = Inr op"
    and app: "op db = (Inr (Applied r), db')"
    and old: "load_workflow db (wr_workflow_id r) = Inr (Some old)" and ne: "wr_run_id r \<noteq> wr_run_id old"
  shows "\<exists>run t. describe_evidence ob = Some (run, t) \<and> wr_run_id r = Some run \<and> newer_run clock t old"
proof -
  have "sound_result (facts_of ob) db (Inr (Applied r), db')"
    using project_transaction_sound [OF ok op] app by simp
  then have load: "load_workflow db (fa_workflow_id (facts_of ob)) = Inr (Some old)"
    using old by (simp add: same_immutable_start_facts_def)
  show ?thesis
  proof (cases ob)
    case (DescribeOpen f run t o')
    with op obtain started observed where op': "op = project_open clock f run t started observed"
      by (auto simp: project_transaction_def and_then_Inr_iff)
    have run: "wr_run_id r = Some run" using project_open_Applied [OF ok app [unfolded op']] by simp
    from app load ne run DescribeOpen have "newer_run clock t old"
      by (auto simp: op' project_open_def newer_run_def parse_persisted_timestamp_def
          split: if_splits sum.splits)
    with run DescribeOpen show ?thesis by simp
  next
    case (StartResponse f run o')
    with op app show ?thesis
      by (auto simp: project_transaction_def and_then_Inr_iff project_start_response_def
          split: sum.splits option.splits if_splits)
  next
    case (DefinitiveStartFailure f c summary o')
    with op app show ?thesis
      by (auto simp: project_transaction_def and_then_Inr_iff project_start_failure_def Let_def
          split: sum.splits option.splits if_splits)
  next
    case (DescribeClosed f run t cs ca o')
    with op obtain started observed where op': "op = project_closed clock f run t started observed cs"
      by (auto simp: project_transaction_def and_then_Inr_iff)
    obtain st oc where tp: "terminal_projection cs = (st, oc)" by (cases "terminal_projection cs")
    have run: "wr_run_id r = Some run" using project_closed_Applied [OF ok tp app [unfolded op']] by simp
    from app load ne run DescribeClosed have "newer_run clock t old"
      by (auto simp: op' project_closed_def tp newer_run_def parse_persisted_timestamp_def
          split: if_splits sum.splits)
    with run DescribeClosed show ?thesis by simp
  qed
qed

lemma project_Inr:
  "project clock cn ob db = (Inr out, db') \<longleftrightarrow>
     (\<exists>op. project_transaction clock ob = Inr op \<and> with_immediate_transaction cn op db = (Inr out, db'))"
  by (auto simp: project_def split: sum.splits)

lemma transaction_Inr: "with_immediate_transaction cn op db = (Inr a, db') \<Longrightarrow> op db = (Inr a, db')"
  by (cases rule: with_transaction_cases [of cn op db]) auto

subsection \<open>A concrete history\<close>

text \<open>A clock that shows the seconds, a healthy connection and one episode.\<close>

definition at_second :: "nat \<Rightarrow> OffsetDateTime" where
  "at_second k = \<lparr>dt_year = 2026, dt_month = 7, dt_day = 5, dt_hour = 9, dt_minute = 30,
     dt_second = k, dt_nanosecond = 0, dt_offset = 0\<rparr>"

definition second_clock :: TimeLib where
  "second_clock = \<lparr>tl_format = (\<lambda>t. Inr (show_nat (dt_second t))),
     tl_parse = (\<lambda>s. Inr (at_second (read_digits s))), tl_le = (\<lambda>a b. dt_second a \<le> dt_second b)\<rparr>"

definition healthy :: Connection where
  "healthy = \<lparr>cn_open_error = None, cn_policy_error = None, cn_journal_mode = ''wal'', cn_begin_error = None,
     cn_commit_error = None\<rparr>"

definition episode :: "string \<Rightarrow> ActivationFacts" where
  "episode w =
     \<lparr>fa_workflow_id = w, fa_workspace_runtime_id = ''rt'',
      fa_repo_id = \<lparr>ri_host = ''h'', ri_owner = ''o'', ri_repo = ''r''\<rparr>,
      fa_issue_ref = \<lparr>ir_tracker_backend = GithubProjectV2,
        ir_repo_id = \<lparr>ri_host = ''h'', ri_owner = ''o'', ri_repo = ''r''\<rparr>, ir_number = 7\<rparr>,
      fa_from_state = ''todo'', fa_current_state = ''todo'', fa_target_kind = ''work'',
      fa_source_ref = ''s'', fa_source_tracker_revision = ''v'', fa_operator_action_ref = None\<rparr>"

definition open_run :: "string \<Rightarrow> string \<Rightarrow> nat \<Rightarrow> WorkflowLifecycleObservation" where
  "open_run w run k = DescribeOpen (episode w) run (at_second k) (at_second (k + 1))"

definition close_run :: "string \<Rightarrow> string \<Rightarrow> nat \<Rightarrow> WorkflowLifecycleObservation" where
  "close_run w run k =
     DescribeClosed (episode w) run (at_second k) (Some CloseCompleted) None (at_second (k + 1))"

lemma episode_id [simp]: "fa_workflow_id (episode w) = w"
  by (simp add: episode_def)

lemma episode_scope [simp]: "ir_repo_id (fa_issue_ref (episode w)) = fa_repo_id (episode w)"
  by (simp add: episode_def)

lemma episode_valid: "w \<in> {''w1'', ''w2''} \<Longrightarrow> validate_common_observation (episode w) = Inr ()"
proof -
  have "trim ''w1'' \<noteq> []" "trim ''w2'' \<noteq> []" "trim ''rt'' \<noteq> []" "trim ''h'' \<noteq> []" "trim ''o'' \<noteq> []"
    "trim ''r'' \<noteq> []" "trim ''todo'' \<noteq> []" "trim ''work'' \<noteq> []" "trim ''s'' \<noteq> []" "trim ''v'' \<noteq> []"
    by (simp_all add: text_eval)
  then show "w \<in> {''w1'', ''w2''} \<Longrightarrow> ?thesis"
    by (auto simp: validate_common_observation_def validate_required_def episode_def)
qed

lemma healthy_transaction:
  "with_immediate_transaction healthy op db =
     (case op db of (Inl e, _) \<Rightarrow> (Inl (classify e ProjectionPhase), db) | (Inr b, y) \<Rightarrow> (Inr b, y))"
  by (simp add: with_immediate_transaction_def healthy_def eq_ignore_ascii_case_def
      split: prod.splits sum.splits)

lemma project_open_run:
  assumes "w \<in> {''w1'', ''w2''}" and "run \<in> {''a'', ''b''}"
  shows "project second_clock healthy (open_run w run k) db =
    (case project_open second_clock (episode w) run (at_second k) (show_nat k) (show_nat (k + 1)) db of
       (Inl e, _) \<Rightarrow> (Inl (classify e ProjectionPhase), db) | (Inr b, y) \<Rightarrow> (Inr b, y))"
proof -
  have "trim run \<noteq> []" using assms(2) by (auto simp: text_eval)
  then have "project_transaction second_clock (open_run w run k) =
      Inr (project_open second_clock (episode w) run (at_second k) (show_nat k) (show_nat (k + 1)))"
    using episode_valid [OF assms(1)]
    by (simp add: open_run_def project_transaction_def validate_required_def format_timestamp_def
        second_clock_def at_second_def)
  then show ?thesis by (simp add: project_def healthy_transaction)
qed

definition first_row :: WorkflowIndexRow where
  "first_row = described_row (episode ''w1'') ''a'' (show_nat 5) (show_nat 6) Running WORKFLOW_EXECUTION_STEP None"

lemma load_empty: "load_workflow [] w = Inr None"
  by (simp add: load_workflow_def query_row_def)

lemma table_ok_empty: "table_ok []"
  by (simp add: table_ok_def constraints_hold_def)

lemma first_open: "project second_clock healthy (open_run ''w1'' ''a'' 5) [] =
    (Inr (Applied first_row), [encode_row first_row])"
proof -
  have "insert_open_or_active_conflict first_row [] = (Inr (Applied first_row), [encode_row first_row])"
    using insert_open_new [OF table_ok_empty load_empty, of first_row]
    by (simp add: first_row_def status_is_active_def)
  then show ?thesis
    by (simp add: project_open_run project_open_def load_empty validate_new_row_scope_def first_row_def)
qed

lemma first_table: "table_ok [encode_row first_row]" "load_workflow [encode_row first_row] ''w1'' = Inr (Some first_row)"
proof -
  show ok: "table_ok [encode_row first_row]"
    using project_keeps_ok [OF table_ok_empty, of second_clock healthy "open_run ''w1'' ''a'' 5"]
    by (simp add: first_open)
  have "wr_workflow_id first_row = ''w1''" by (simp add: first_row_def)
  then show "load_workflow [encode_row first_row] ''w1'' = Inr (Some first_row)"
    by (simp add: load_workflow_iff [OF ok])
qed

lemma project_again:
  assumes "table_ok db" and "project clock cn ob db = (Inr (Applied r), db')"
    and t': "format_timestamp clock t' = Inr v"
  shows "project clock cn (reobserved t' ob) db' = (Inr (AlreadyApplied r), db')"
proof -
  from assms(2) obtain op where op: "project_transaction clock ob = Inr op"
    and tr: "with_immediate_transaction cn op db = (Inr (Applied r), db')"
    by (auto simp: project_Inr)
  obtain op' where "project_transaction clock (reobserved t' ob) = Inr op'"
    "op' db' = (Inr (AlreadyApplied r), db')"
    using operation_again [OF assms(1) op transaction_Inr [OF tr] t'] by blast
  with transaction_again [OF tr, of op' db'] show ?thesis by (simp add: project_def)
qed

subsection \<open>Properties\<close>

text \<open>C2: In every table that any sequence of observations and connection failures can produce
  from the empty one, Workflow IDs are unique, at most one starting or running row exists per
  repository and issue, every stored value can be read, and status and terminal outcome agree:
  a running row has no outcome, a closed one the outcome of its close classification.\<close>

theorem reachable_tables_consistent:
  assumes "reachable clock db"
  shows "table_ok db \<and> rows_ok db"
  using assms by (rule reachable_ok)

theorem reachable_tables_consistent_witness:
  "reachable second_clock [encode_row first_row] \<and> table_ok [encode_row first_row] \<and> rows_ok [encode_row first_row]"
proof -
  have "reachable second_clock [encode_row first_row]"
    using reachable.projected [OF reachable.initial, of second_clock healthy "open_run ''w1'' ''a'' 5"]
    by (simp add: first_open)
  with reachable_tables_consistent [OF this] show ?thesis by blast
qed

text \<open>C3: No later observation, from whatever source and in whatever order, deletes a row,
  changes its activation facts, touches a completed or failed row, or reopens a closed one;
  only an unknown close may still be refined.\<close>

theorem lifecycle_never_regresses:
  assumes "(projection_step clock)\<^sup>*\<^sup>* db db'" and "table_ok db" and "load_workflow db w = Inr (Some r)"
  shows "\<exists>r'. load_workflow db' w = Inr (Some r') \<and> merge_row r r' = r' \<and>
    (wr_status r \<in> {Completed, Failed} \<longrightarrow> r' = r) \<and>
    (wr_status r = ClosedUnknown \<longrightarrow> wr_status r' \<in> {ClosedUnknown, Completed, Failed})"
  using history_later [OF assms] by (auto simp: later_row_def)

theorem lifecycle_never_regresses_witness:
  "\<exists>r'. load_workflow (snd (project second_clock healthy (open_run ''w1'' ''b'' 9) [encode_row first_row])) ''w1'' =
       Inr (Some r') \<and> merge_row first_row r' = r'"
proof -
  have "(projection_step second_clock)\<^sup>*\<^sup>* [encode_row first_row]
      (snd (project second_clock healthy (open_run ''w1'' ''b'' 9) [encode_row first_row]))"
    by (rule r_into_rtranclp) (auto simp: projection_step_def)
  from lifecycle_never_regresses [OF this first_table] show ?thesis by blast
qed

text \<open>C26: Applying evidence again changes nothing: after an observation was applied, the same
  evidence, whenever it is observed again over the same connection, reports the row as already
  applied.\<close>

theorem project_idempotent:
  assumes "table_ok db" and "project clock cn ob db = (Inr (Applied r), db')"
    and "format_timestamp clock t' = Inr v"
  shows "project clock cn (reobserved t' ob) db' = (Inr (AlreadyApplied r), db')"
  using assms by (rule project_again)

theorem project_idempotent_witness:
  "project second_clock healthy (reobserved (at_second 8) (open_run ''w1'' ''a'' 5)) [encode_row first_row] =
     (Inr (AlreadyApplied first_row), [encode_row first_row])"
proof (rule project_idempotent [OF table_ok_empty first_open])
  show "format_timestamp second_clock (at_second 8) = Inr (show_nat 8)"
    by (simp add: format_timestamp_def second_clock_def at_second_def)
qed

text \<open>Only Describe evidence that was applied changes the table: after an error, wherever
  it arose (validation, connection, reading, constraint, commit), and after every other
  outcome the table is as before; start responses and start failures never write.\<close>

theorem project_writes_only_applied_describes:
  assumes "table_ok db"
  shows "snd (project clock cn ob db) = db \<or>
    (\<exists>r. fst (project clock cn ob db) = Inr (Applied r) \<and> describe_evidence ob \<noteq> None \<and>
       load_workflow (snd (project clock cn ob db)) (wr_workflow_id r) = Inr (Some r))"
proof (cases rule: project_cases [OF assms, of clock cn ob])
  case (2 r db')
  from 2(1) obtain op where "project_transaction clock ob = Inr op" "op db = (Inr (Applied r), db')"
    by (auto simp: project_Inr dest: transaction_Inr)
  then have "describe_evidence ob \<noteq> None"
    by (cases ob) (auto simp: project_transaction_def and_then_Inr_iff project_start_response_def
        project_start_failure_def Let_def split: sum.splits option.splits if_splits)
  with 2 applied_step_load [OF 2(2) assms] show ?thesis by simp
qed simp_all

theorem project_writes_only_applied_describes_witness:
  "snd (project second_clock healthy (StartResponse (episode ''w1'') (Some ''b'') (at_second 1)) [encode_row first_row]) =
     [encode_row first_row]"
  using project_writes_only_applied_describes [OF first_table(1), of second_clock healthy
      "StartResponse (episode ''w1'') (Some ''b'') (at_second 1)"] by simp

text \<open>C32: The stored run of an episode is replaced only by a run that a Describe reports with
  a strictly later start time, and only while the stored row is running.\<close>

theorem run_replaced_only_by_newer:
  assumes "table_ok db" and "project clock cn ob db = (Inr (Applied r), db')"
    and "load_workflow db (wr_workflow_id r) = Inr (Some old)" and "wr_run_id r \<noteq> wr_run_id old"
  shows "\<exists>run t. describe_evidence ob = Some (run, t) \<and> wr_run_id r = Some run \<and> newer_run clock t old"
proof -
  from assms(2) obtain op where op: "project_transaction clock ob = Inr op" "op db = (Inr (Applied r), db')"
    by (auto simp: project_Inr dest: transaction_Inr)
  from operation_newer [OF assms(1) op assms(3,4)] show ?thesis .
qed

definition second_row :: WorkflowIndexRow where
  "second_row = described_row (episode ''w1'') ''b'' (show_nat 9) (show_nat 10) Running WORKFLOW_EXECUTION_STEP None"

lemma second_open: "project second_clock healthy (open_run ''w1'' ''b'' 9) [encode_row first_row] =
    (Inr (Applied second_row), [encode_row second_row])"
proof -
  have m: "merge_row first_row second_row = second_row"
    by (simp add: merge_row_def first_row_def second_row_def described_row_def)
  have id: "wr_workflow_id second_row = ''w1''" "wr_workflow_id first_row = ''w1''"
    by (simp_all add: first_row_def second_row_def)
  have "map (set_material_columns second_row) [encode_row first_row] = [encode_row second_row]"
    by (simp add: set_material_encode m id)
  moreover have "constraints_hold [encode_row second_row]"
    by (simp add: constraints_hold_def)
  ultimately have "update_material_projection second_row [encode_row first_row] = (Inr (), [encode_row second_row])"
    by (simp add: update_material_projection_def)
  then have upd: "update_and_readback second_row [encode_row first_row] =
      (Inr (Applied second_row), [encode_row second_row])"
    using readback_update [OF first_table(1) _ m] first_table(2) by (simp add: update_and_readback_def id)
  have new: "first_row\<lparr>wr_run_id := Some ''b'', wr_current_state := fa_current_state (episode ''w1''),
      wr_active_step := WORKFLOW_EXECUTION_STEP, wr_waiting_kind := None, wr_started_at := show_nat 9,
      wr_status := Running, wr_terminal_outcome := None, wr_freshness := Fresh,
      wr_updated_at := show_nat 10\<rparr> = second_row"
    by (simp add: first_row_def second_row_def described_row_def)
  have row: "same_immutable_start_facts first_row (episode ''w1'')" "wr_status first_row = Running"
    "wr_run_id first_row = Some ''a''" "wr_started_at first_row = show_nat 5"
    by (simp_all add: first_row_def) (simp_all add: described_row_def)
  have "parse_persisted_timestamp second_clock (show_nat 5) = Inr (at_second 5)"
    "\<not> tl_le second_clock (at_second 9) (at_second 5)"
    by (simp_all add: parse_persisted_timestamp_def second_clock_def at_second_def)
  then have "project_open second_clock (episode ''w1'') ''b'' (at_second 9) (show_nat 9) (show_nat 10)
      [encode_row first_row] = (Inr (Applied second_row), [encode_row second_row])"
    by (simp add: project_open_def first_table row new upd)
  then show ?thesis by (simp add: project_open_run)
qed

theorem run_replaced_only_by_newer_witness:
  "\<exists>run t. describe_evidence (open_run ''w1'' ''b'' 9) = Some (run, t) \<and> wr_run_id second_row = Some run \<and>
     newer_run second_clock t first_row"
proof (rule run_replaced_only_by_newer [OF first_table(1) second_open])
  show "load_workflow [encode_row first_row] (wr_workflow_id second_row) = Inr (Some first_row)"
    by (simp add: first_table second_row_def)
  show "wr_run_id second_row \<noteq> wr_run_id first_row"
    by (simp add: first_row_def second_row_def described_row_def)
qed

text \<open>An open execution without a row gets one exactly if its issue has no active row;
  otherwise nothing is written and the active workflow that holds the issue is reported,
  whatever runtime it belongs to.\<close>

theorem open_projects_or_reports_holder:
  assumes "table_ok db" and "load_workflow db (fa_workflow_id f) = Inr None"
    and "ir_repo_id (fa_issue_ref f) = fa_repo_id f"
  shows "if \<exists>s \<in> set db. stored_active s \<and>
        issue_key s = (repo_database_key (fa_repo_id f), issue_database_key (fa_issue_ref f))
    then \<exists>row. encode_row row \<in> set db \<and> status_is_active (wr_status row) \<and>
      issue_key row = (repo_database_key (fa_repo_id f), issue_database_key (fa_issue_ref f)) \<and>
      project_open clock f run t started observed db =
        (Inr (ActiveProjectionConflict (wr_workflow_id row) row), db)
    else \<exists>row. project_open clock f run t started observed db = (Inr (Applied row), db @ [encode_row row]) \<and>
      wr_status row = Running \<and> same_immutable_start_facts row f"
proof -
  let ?r = "described_row f run started observed Running WORKFLOW_EXECUTION_STEP None"
  have key: "issue_key ?r = (repo_database_key (fa_repo_id f), issue_database_key (fa_issue_ref f))"
    by (simp add: issue_key_def described_row_def)
  have op: "project_open clock f run t started observed db = insert_open_or_active_conflict ?r db"
    using assms(2,3) by (simp add: project_open_def validate_new_row_scope_def)
  have new: "load_workflow db (wr_workflow_id ?r) = Inr None" using assms(2) by simp
  have act: "status_is_active (wr_status ?r)" by (simp add: status_is_active_def)
  from insert_open_new [OF assms(1) new act, unfolded key] show ?thesis
    unfolding op by (auto split: if_splits)
qed

theorem open_projects_or_reports_holder_witness:
  "\<exists>row. encode_row row \<in> set [encode_row first_row] \<and>
     project_open second_clock (episode ''w2'') ''b'' (at_second 9) (show_nat 9) (show_nat 10) [encode_row first_row] =
       (Inr (ActiveProjectionConflict (wr_workflow_id row) row), [encode_row first_row])"
proof -
  have none: "load_workflow [encode_row first_row] (fa_workflow_id (episode ''w2'')) = Inr None"
    by (simp add: load_workflow_def query_row_def first_row_def)
  have "\<exists>s \<in> set [encode_row first_row]. stored_active s \<and>
      issue_key s = (repo_database_key (fa_repo_id (episode ''w2'')), issue_database_key (fa_issue_ref (episode ''w2'')))"
    by (simp add: first_row_def status_is_active_def issue_key_def)
      (simp add: described_row_def episode_def)
  with open_projects_or_reports_holder [OF first_table(1) none episode_scope, of second_clock "''b''"
      "at_second 9" "show_nat 9" "show_nat 10"]
  show ?thesis by auto
qed

lemma prefix_bytes_prefix: "\<exists>rest. s = prefix_bytes n s @ rest"
  by (induction n s rule: prefix_bytes.induct) auto

lemma prefix_bytes_len: "utf8_len (prefix_bytes n s) \<le> n"
  by (induction n s rule: prefix_bytes.induct) auto

lemma prefix_bytes_maximal: "n < utf8_len s \<Longrightarrow> n \<le> utf8_len (prefix_bytes n s) + 1"
proof (induction n s rule: prefix_bytes.induct)
  case (2 n c s)
  show ?case
  proof (cases "utf8_len_char c \<le> n")
    case True
    with 2 have "n - utf8_len_char c \<le> utf8_len (prefix_bytes (n - utf8_len_char c) s) + 1" by simp
    with True show ?thesis by simp
  next
    case False
    then show ?thesis by (simp add: utf8_len_char_def split: if_splits)
  qed
qed simp

text \<open>The summary of a start failure that is reported to the caller has at most 1024
  bytes; a shorter one is unchanged, a longer one is cut at a character boundary at most one
  byte below the limit and marked by three dots.\<close>

theorem start_failure_summary_bounded:
  "utf8_len (bounded_start_failure_summary s) \<le> 1024 \<and>
   (if utf8_len s \<le> 1024 then bounded_start_failure_summary s = s
    else \<exists>cut rest. s = cut @ rest \<and> bounded_start_failure_summary s = cut @ ''...'' \<and>
      utf8_len cut \<in> {1020, 1021})"
proof (cases "utf8_len s \<le> 1024")
  case True
  then show ?thesis
    by (simp add: bounded_start_failure_summary_def MAX_START_FAILURE_SUMMARY_BYTES_def)
next
  case False
  obtain rest where rest: "s = prefix_bytes 1021 s @ rest" using prefix_bytes_prefix by blast
  have len: "utf8_len (prefix_bytes 1021 s) \<in> {1020, 1021}"
    using prefix_bytes_len [of 1021 s] prefix_bytes_maximal [of 1021 s] False by auto
  have cut: "bounded_start_failure_summary s = prefix_bytes 1021 s @ ''...''"
    using False by (simp add: bounded_start_failure_summary_def MAX_START_FAILURE_SUMMARY_BYTES_def)
  have "utf8_len (prefix_bytes 1021 s @ ''...'') \<le> 1024"
    using len by (auto simp: utf8_len_char_def)
  then show ?thesis
    using False rest len cut by metis
qed

end
