(* ===== verification/Text_Tools.thy ===== *)
theory Text_Tools
  imports Prelude
begin

section \<open>More of Rust's text functions\<close>

text \<open>
  The text functions that the lane and review components use beyond those of \<open>Prelude\<close>:
  searching and replacing, splitting at whitespace, \<^verbatim>\<open>{:?}\<close> of strings and hexadecimal
  numbers, with the algebra their clients need. \<open>contains_iff\<close> turns the executable search
  into its meaning, and \<open>split_whitespace_join\<close> is the round trip of word lists.
\<close>

definition trim_end :: "string \<Rightarrow> string" where
  "trim_end s = trim_end_matches is_whitespace s"

definition ends_with :: "string \<Rightarrow> string \<Rightarrow> bool" where
  "ends_with s p \<longleftrightarrow> strip_prefix (rev p) (rev s) \<noteq> None"

definition contains_any :: "string \<Rightarrow> string list \<Rightarrow> bool" where
  "contains_any s ps \<longleftrightarrow> list_ex (contains s) ps"

fun split_pred :: "(char \<Rightarrow> bool) \<Rightarrow> string \<Rightarrow> string list" where
  "split_pred p [] = [[]]"
| "split_pred p (c # s) =
     (if p c then [] # split_pred p s
      else case split_pred p s of [] \<Rightarrow> [[c]] | w # ws \<Rightarrow> (c # w) # ws)"

definition split_whitespace :: "string \<Rightarrow> string list" where
  "split_whitespace s = filter (\<lambda>w. w \<noteq> []) (split_pred is_whitespace s)"

text \<open>\<^verbatim>\<open>safe_identifier\<close> of \<^verbatim>\<open>src/workspace.rs\<close>: a text as one component of a path.\<close>

definition safe_identifier :: "string \<Rightarrow> string" where
  "safe_identifier s =
     map (\<lambda>c. if is_ascii_alphanumeric c \<or> c = CHR ''.'' \<or> c = CHR ''_'' \<or> c = CHR ''-'' then c else CHR ''_'') s"

subsection \<open>Searching\<close>

lemma split_at_sub_Some: "split_at_sub p s = Some (a, b) \<Longrightarrow> s = a @ p @ b"
proof (induction s arbitrary: a)
  case Nil
  then show ?case
    by (subst (asm) split_at_sub.simps) (auto split: option.splits simp: strip_prefix_Some_iff)
next
  case (Cons c s)
  then show ?case
    by (subst (asm) split_at_sub.simps) (auto split: option.splits simp: strip_prefix_Some_iff)
qed

lemma split_at_sub_occurs: "split_at_sub p (a @ p @ b) \<noteq> None"
proof (induction a)
  case Nil
  show ?case by (subst split_at_sub.simps) simp
next
  case (Cons c a)
  then show ?case by (subst split_at_sub.simps) (auto split: option.splits)
qed

lemma contains_iff: "contains s p \<longleftrightarrow> (\<exists>a b. s = a @ p @ b)"
proof
  assume "contains s p"
  then obtain a b where "split_at_sub p s = Some (a, b)"
    by (auto simp: contains_def)
  from split_at_sub_Some [OF this] show "\<exists>a b. s = a @ p @ b" by blast
next
  assume "\<exists>a b. s = a @ p @ b"
  then show "contains s p" using split_at_sub_occurs by (auto simp: contains_def)
qed

lemma contains_append_left: "contains s p \<Longrightarrow> contains (s @ t) p"
proof -
  assume "contains s p"
  then obtain a b where "s = a @ p @ b" by (auto simp: contains_iff)
  then have "s @ t = a @ p @ (b @ t)" by simp
  then show ?thesis unfolding contains_iff by blast
qed

lemma contains_append_right: "contains t p \<Longrightarrow> contains (s @ t) p"
proof -
  assume "contains t p"
  then obtain a b where "t = a @ p @ b" by (auto simp: contains_iff)
  then have "s @ t = (s @ a) @ p @ b" by simp
  then show ?thesis unfolding contains_iff by blast
qed

lemma contains_self [simp]: "contains p p"
  unfolding contains_iff by (rule exI [of _ "[]"], rule exI [of _ "[]"]) simp

lemma contains_end [simp]: "contains (s @ p) p"
  by (rule contains_append_right) simp

text \<open>The first occurrence of a pattern is found where its first character first occurs.\<close>

lemma split_at_sub_first: "c \<notin> set a \<Longrightarrow> split_at_sub (c # p) (a @ (c # p) @ b) = Some (a, b)"
proof (induction a)
  case Nil
  show ?case by (subst split_at_sub.simps) (use strip_prefix_append [of "c # p" b] in simp)
next
  case (Cons d a)
  then show ?case by (subst split_at_sub.simps) auto
qed

lemma contains_subset: "contains s p \<Longrightarrow> set p \<subseteq> set s"
  by (auto simp: contains_iff)

lemma ends_with_iff: "ends_with s p \<longleftrightarrow> (\<exists>a. s = a @ p)"
proof -
  have "ends_with s p \<longleftrightarrow> (\<exists>t. rev s = rev p @ t)"
    by (auto simp: ends_with_def strip_prefix_Some_iff)
  also have "\<dots> \<longleftrightarrow> (\<exists>a. s = a @ p)"
    by (metis rev_append rev_rev_ident)
  finally show ?thesis .
qed

subsection \<open>Replacing\<close>

lemma split_at_sub_shorter:
  "split_at_sub p s = Some (a, b) \<Longrightarrow> p \<noteq> [] \<Longrightarrow> length b < length s"
  by (drule split_at_sub_Some) auto

text \<open>\<^verbatim>\<open>s.replace(p, r)\<close> for a nonempty pattern, from left to right without overlaps.\<close>

function replace_sub :: "string \<Rightarrow> string \<Rightarrow> string \<Rightarrow> string" where
  "replace_sub p r s =
     (if p = [] then s
      else case split_at_sub p s of None \<Rightarrow> s | Some (a, b) \<Rightarrow> a @ r @ replace_sub p r b)"
  by pat_completeness auto
termination
  by (relation "measure (\<lambda>(p, r, s). length s)") (auto dest: split_at_sub_shorter)

declare replace_sub.simps [simp del]

lemma replace_sub_absent: "\<not> contains s p \<Longrightarrow> replace_sub p r s = s"
  by (subst replace_sub.simps) (auto simp: contains_def split: option.splits)

lemma length_replace_sub_le:
  "length r \<le> length p \<Longrightarrow> length (replace_sub p r s) \<le> length s"
proof (induction p r s rule: replace_sub.induct)
  case (1 p r s)
  show ?case
  proof (cases "p = [] \<or> split_at_sub p s = None")
    case True
    then show ?thesis by (subst replace_sub.simps) auto
  next
    case False
    then obtain a b where ab: "split_at_sub p s = Some (a, b)" and p: "p \<noteq> []" by auto
    have "length (replace_sub p r b) \<le> length b" using 1 p ab by auto
    moreover have "replace_sub p r s = a @ r @ replace_sub p r b"
      by (subst replace_sub.simps) (simp add: ab p)
    ultimately show ?thesis using split_at_sub_Some [OF ab] 1(2) by simp
  qed
qed

lemma length_replace_sub_less:
  assumes "length r < length p" and "contains s p"
  shows "length (replace_sub p r s) < length s"
proof -
  from assms(2) obtain a b where ab: "split_at_sub p s = Some (a, b)" by (auto simp: contains_def)
  from assms(1) have p: "p \<noteq> []" by auto
  have "replace_sub p r s = a @ r @ replace_sub p r b"
    by (subst replace_sub.simps) (simp add: ab p)
  then show ?thesis
    using length_replace_sub_le [of r p b] assms(1) split_at_sub_Some [OF ab] by simp
qed

subsection \<open>Words\<close>

lemma split_pred_not_Nil [simp]: "split_pred p s \<noteq> []"
  by (induction s) (auto split: list.splits)

lemma split_pred_free: "w \<in> set (split_pred p s) \<Longrightarrow> c \<in> set w \<Longrightarrow> \<not> p c"
proof (induction s arbitrary: w)
  case (Cons d s)
  obtain v vs where v: "split_pred p s = v # vs" by (cases "split_pred p s") auto
  with Cons show ?case by (fastforce split: if_splits)
qed simp

lemma split_pred_append:
  "\<forall>c \<in> set w. \<not> p c \<Longrightarrow> p d \<Longrightarrow> split_pred p (w @ d # s) = w # split_pred p s"
  by (induction w) auto

lemma split_pred_whole: "\<forall>c \<in> set w. \<not> p c \<Longrightarrow> split_pred p w = [w]"
  by (induction w) auto

lemma split_whitespace_words:
  "w \<in> set (split_whitespace s) \<Longrightarrow> w \<noteq> [] \<and> (\<forall>c \<in> set w. \<not> is_whitespace c)"
  using split_pred_free by (auto simp: split_whitespace_def)

definition word :: "string \<Rightarrow> bool" where
  "word w \<longleftrightarrow> w \<noteq> [] \<and> list_all (\<lambda>c. \<not> is_whitespace c) w"

lemma split_whitespace_word: "w \<in> set (split_whitespace s) \<Longrightarrow> word w"
  using split_whitespace_words by (simp add: word_def list_all_iff)

lemma split_whitespace_join:
  "list_all word ws \<Longrightarrow> split_whitespace (join '' '' ws) = ws"
proof (induction ws rule: induct_list012)
  case 1
  show ?case by (simp add: split_whitespace_def)
next
  case (2 w)
  then show ?case by (simp add: split_whitespace_def split_pred_whole word_def list_all_iff)
next
  case (3 w v ws)
  have "is_whitespace (CHR '' '')" by (simp add: is_whitespace_def)
  with 3 have "split_pred is_whitespace (w @ CHR '' '' # join '' '' (v # ws)) =
      w # split_pred is_whitespace (join '' '' (v # ws))"
    by (intro split_pred_append) (auto simp: word_def list_all_iff)
  with 3 show ?case by (simp add: split_whitespace_def word_def)
qed

text \<open>\<^verbatim>\<open>s.split_whitespace().collect::<Vec<_>>().join(" ")\<close>.\<close>

definition single_line :: "string \<Rightarrow> string" where
  "single_line s = join '' '' (split_whitespace s)"

lemma single_line_idem: "single_line (single_line s) = single_line s"
  using split_whitespace_join [of "split_whitespace s"] split_whitespace_word
  by (simp add: single_line_def list_all_iff)

subsection \<open>Lines\<close>

text \<open>A text of terminated lines: \<open>log_line\<close> describes a line that is read back as it was written.\<close>

lemma split_on_line:
  "d \<notin> set l \<Longrightarrow> split_on d (l @ d # s) = l # split_on d s"
  by (induction l) auto

definition log_line :: "string \<Rightarrow> bool" where
  "log_line l \<longleftrightarrow> char_of (10::nat) \<notin> set l \<and> char_of (13::nat) \<notin> set l \<and> \<not> blank l"

definition log_text :: "string list \<Rightarrow> string" where
  "log_text ls = concat (map (\<lambda>l. l @ [char_of (10::nat)]) ls)"

lemma split_on_log_text:
  "\<forall>l \<in> set ls. char_of (10::nat) \<notin> set l \<Longrightarrow> split_on (char_of (10::nat)) (log_text ls) = ls @ [[]]"
proof (induction ls)
  case (Cons l ls)
  then show ?case
    using split_on_line [of "char_of (10::nat)" l "log_text ls"] by (simp add: log_text_def)
qed (simp add: log_text_def)

definition plain_line :: "string \<Rightarrow> bool" where
  "plain_line l \<longleftrightarrow> char_of (10::nat) \<notin> set l \<and> (l = [] \<or> last l \<noteq> char_of (13::nat))"

lemma lines_plain: "list_all plain_line ls \<Longrightarrow> lines (log_text ls) = ls"
proof -
  assume ls: "list_all plain_line ls"
  then have "split_on (char_of (10::nat)) (log_text ls) = ls @ [[]]"
    by (intro split_on_log_text) (auto simp: list_all_iff plain_line_def)
  moreover have "map strip_cr ls = ls"
    using ls by (intro map_idI) (auto simp: list_all_iff plain_line_def strip_cr_def)
  ultimately show ?thesis by (simp add: lines_def Let_def)
qed

lemma lines_log_text: "list_all log_line ls \<Longrightarrow> lines (log_text ls) = ls"
  by (rule lines_plain) (auto simp: list_all_iff log_line_def plain_line_def dest: last_in_set)

subsection \<open>Trimmed text\<close>

lemma trim_fixed: "s \<noteq> [] \<Longrightarrow> \<not> is_whitespace (hd s) \<Longrightarrow> \<not> is_whitespace (last s) \<Longrightarrow> trim s = s"
proof -
  assume s: "s \<noteq> []" "\<not> is_whitespace (hd s)" "\<not> is_whitespace (last s)"
  have "dropWhile is_whitespace s = s" using s(1,2) by (cases s) simp_all
  moreover have "dropWhile is_whitespace (rev s) = rev s"
    using s(1,3) by (cases s rule: rev_cases) simp_all
  ultimately show ?thesis
    by (simp add: trim_def trim_matches_def trim_start_matches_def trim_end_matches_def)
qed

lemma length_trim_end: "length (trim_end_matches p s) \<le> length s"
  using length_dropWhile_le [of p "rev s"] by (simp add: trim_end_matches_def)

lemma trim_nonblank_ends:
  assumes "trim s = s" and "s \<noteq> []"
  shows "\<not> is_whitespace (hd s)" and "\<not> is_whitespace (last s)"
proof -
  show "\<not> is_whitespace (hd s)"
  proof
    assume "is_whitespace (hd s)"
    then have "length (dropWhile is_whitespace s) < length s"
      using assms(2) length_dropWhile_le [of is_whitespace "List.tl s"] by (cases s) auto
    moreover have "length (trim s) \<le> length (dropWhile is_whitespace s)"
      unfolding trim_def trim_matches_def trim_start_matches_def by (rule length_trim_end)
    ultimately show False using assms(1) by simp
  qed
  then have "dropWhile is_whitespace s = s" using assms(2) by (cases s) auto
  then have e: "trim_end_matches is_whitespace s = s"
    using assms(1) by (simp add: trim_def trim_matches_def trim_start_matches_def)
  show "\<not> is_whitespace (last s)"
  proof
    assume "is_whitespace (last s)"
    then obtain t c where "s = t @ [c]" "is_whitespace c" using assms(2) by (cases s rule: rev_cases) auto
    then have "length (trim_end_matches is_whitespace s) \<le> length t"
      using length_trim_end [of is_whitespace t] by (simp add: trim_end_matches_def)
    with e \<open>s = t @ [c]\<close> show False by simp
  qed
qed

subsection \<open>Debug formatting and hexadecimal numbers\<close>

fun show_hex :: "nat \<Rightarrow> string" where
  "show_hex n = (if n < 16 then [hex_lower n] else show_hex (n div 16) @ [hex_lower (n mod 16)])"

declare show_hex.simps [simp del]

text \<open>\<^verbatim>\<open>{:016x}\<close>.\<close>

definition show_hex16 :: "nat \<Rightarrow> string" where
  "show_hex16 n = (let s = show_hex n in replicate (16 - length s) (CHR ''0'') @ s)"

text \<open>\<^verbatim>\<open>{:?}\<close> of a string: below 256 the characters that are not printable are the
  control characters, the no-break space and the soft hyphen.\<close>

definition debug_char :: "char \<Rightarrow> string" where
  "debug_char c =
     (if code c = 0 then [CHR 0x5C, CHR ''0'']
      else if code c = 9 then [CHR 0x5C, CHR ''t'']
      else if code c = 10 then [CHR 0x5C, CHR ''n'']
      else if code c = 13 then [CHR 0x5C, CHR ''r'']
      else if code c = 34 \<or> code c = 92 then [CHR 0x5C, c]
      else if is_control c \<or> code c = 160 \<or> code c = 173
      then CHR 0x5C # ''u{'' @ show_hex (code c) @ ''}''
      else [c])"

definition debug_str :: "string \<Rightarrow> string" where
  "debug_str s = CHR 0x22 # concat (map debug_char s) @ [CHR 0x22]"

definition debug_str_list :: "string list \<Rightarrow> string" where
  "debug_str_list ss = ''['' @ join '', '' (map debug_str ss) @ '']''"

fun debug_option :: "('a \<Rightarrow> string) \<Rightarrow> 'a option \<Rightarrow> string" where
  "debug_option f None = ''None''"
| "debug_option f (Some a) = ''Some('' @ f a @ '')''"

end
