(* ===== verification/Paths.thy ===== *)
theory Paths
  imports Text_Tools
begin

section \<open>Paths\<close>

text \<open>
  The part of \<^verbatim>\<open>std::path\<close> that the program uses, on Unix paths as text: joining, absolute
  paths, the parent directory and the file name. Like the library, the last two ignore
  trailing separators and \<^verbatim>\<open>.\<close> components.
\<close>

definition is_absolute :: "string \<Rightarrow> bool" where
  "is_absolute p \<longleftrightarrow> starts_with p ''/''"

definition path_join :: "string \<Rightarrow> string \<Rightarrow> string" where
  "path_join a b =
     (if is_absolute b then b
      else if a = [] \<or> last a = CHR ''/'' then a @ b
      else a @ ''/'' @ b)"

text \<open>Dropping trailing separators and \<^verbatim>\<open>/.\<close>, on the reversed text.\<close>

fun strip_path_end :: "string \<Rightarrow> string" where
  "strip_path_end (c # d # r) =
     (if c = CHR ''/'' then strip_path_end (d # r)
      else if c = CHR ''.'' \<and> d = CHR ''/'' then strip_path_end (d # r)
      else c # d # r)"
| "strip_path_end r = r"

definition path_parent :: "string \<Rightarrow> string option" where
  "path_parent p =
     (let r = strip_path_end (rev p) in
      if r = [] \<or> r = ''/'' then None
      else Some (rev (strip_path_end (dropWhile (\<lambda>c. c \<noteq> CHR ''/'') r))))"

definition file_name :: "string \<Rightarrow> string option" where
  "file_name p =
     (let name = rev (takeWhile (\<lambda>c. c \<noteq> CHR ''/'') (strip_path_end (rev p))) in
      if name \<in> {[], ''.'', ''..''} then None else Some name)"

definition with_file_name :: "string \<Rightarrow> string \<Rightarrow> string" where
  "with_file_name p name = path_join (unwrap_or (path_parent p) []) name"

lemma absolute_join: "is_absolute a \<Longrightarrow> is_absolute (path_join a b)"
  by (cases a) (auto simp: path_join_def is_absolute_def starts_with_def)

lemma absolute_iff: "is_absolute p \<longleftrightarrow> (\<exists>q. p = CHR ''/'' # q)"
  by (cases p) (auto simp: is_absolute_def starts_with_def)

lemma file_name_eval [text_eval]:
  "path_parent ''/a/b.json'' = Some ''/a''" "path_parent ''/a'' = Some ''/''" "path_parent ''a'' = Some []"
  "path_parent ''/'' = None" "file_name ''/a/b.json'' = Some ''b.json''" "file_name ''/a/..'' = None"
  by code_simp+

end
