(* ===== verification/Local_State.thy ===== *)
theory Local_State
  imports Workflow_Index Paths
begin

section \<open>The local-state database (\<^verbatim>\<open>database.rs\<close>, \<^verbatim>\<open>migration.rs\<close>, \<^verbatim>\<open>admin.rs\<close>)\<close>

text \<open>
  Paths, schema, migrations, initialization and the read-only health check of the local-state
  database. A database file is its \<^verbatim>\<open>user_version\<close>, its journal mode, the objects in
  \<^verbatim>\<open>sqlite_schema\<close> and the rows of the two tables the program reads or writes. A transaction that
  fails leaves the file as it was. What SQLite, the file system and other processes do is the
  argument \<open>InitEnv\<close>: an error at each call that can fail, the reply and the clock of each attempt
  to switch the journal mode, and what other processes commit between the inspection and the
  migration lock. A path is its text.
\<close>

subsection \<open>Paths\<close>

definition DATABASE_RELATIVE_PATH :: string where
  "DATABASE_RELATIVE_PATH = ''state/symphony.db''"

text \<open>Whether an absolute path has a parent: it names something below the root.\<close>

definition has_parent :: "string \<Rightarrow> bool" where
  "has_parent p \<longleftrightarrow> list_ex (\<lambda>c. c \<noteq> [] \<and> c \<noteq> ''.'') (split_on (CHR ''/'') p)"

definition for_home :: "string \<Rightarrow> (LocalStateError, string) result" where
  "for_home home =
     (if \<not> is_absolute home then Inl (UnresolvedPath home)
      else Inr (path_join (path_join home ''.shea'') DATABASE_RELATIVE_PATH))"

definition from_environment :: "string option \<Rightarrow> (LocalStateError, string) result" where
  "from_environment home =
     (case filter_option (\<lambda>v. v \<noteq> []) home of
        None \<Rightarrow> Inl HomeResolution
      | Some h \<Rightarrow> for_home h)"

definition with_override :: "string \<Rightarrow> string \<Rightarrow> (LocalStateError, string) result" where
  "with_override home override =
     (if is_absolute override then Inr override
      else if \<not> is_absolute home then Inl (UnresolvedPath home)
      else Inr (path_join (path_join home ''.shea'') override))"

definition at_resolved_path :: "string \<Rightarrow> (LocalStateError, string) result" where
  "at_resolved_path p = (if \<not> is_absolute p then Inl (UnresolvedPath p) else Inr p)"

subsection \<open>The file and its schema\<close>

datatype ColumnType = TextColumn | IntegerColumn

record ColumnDef =
  cd_name :: string
  cd_type :: ColumnType
  cd_not_null :: bool

datatype SchemaStatement =
    CreateTable string "ColumnDef list" "string list"
  | CreateIndex string string "string list"
  | CreateUniqueIndexWhereStatusIn string string "string list" "string list"

fun object_name :: "SchemaStatement \<Rightarrow> string" where
  "object_name (CreateTable n cols key) = n"
| "object_name (CreateIndex n t cols) = n"
| "object_name (CreateUniqueIndexWhereStatusIn n t cols sts) = n"

fun is_table :: "SchemaStatement \<Rightarrow> bool" where
  "is_table (CreateTable n cols key) = True"
| "is_table _ = False"

text \<open>The objects of \<^verbatim>\<open>sqlite_schema\<close> are kept as the statements that created them.\<close>

record DatabaseFile =
  df_user_version :: int
  df_journal_mode :: string
  df_schema :: "SchemaStatement list"
  df_meta :: "(string \<times> string) list"
  df_workflow_index :: workflow_table

definition empty_file :: DatabaseFile where
  "empty_file =
     \<lparr>df_user_version = 0, df_journal_mode = ''delete'', df_schema = [], df_meta = [],
      df_workflow_index = []\<rparr>"

definition CURRENT_SCHEMA_VERSION :: nat where
  "CURRENT_SCHEMA_VERSION = 1"

text \<open>The pragma is a signed number, which the program reads as an unsigned one.\<close>

definition read_user_version :: "DatabaseFile \<Rightarrow> (SqliteError, nat) result" where
  "read_user_version d =
     (if 0 \<le> df_user_version d then Inr (nat (df_user_version d)) else Inl (IntegralValueOutOfRange 0))"

text \<open>The pattern \<^verbatim>\<open>sqlite_%\<close> of the code: the underscore stands for any one character, and
  letters compare without case.\<close>

definition like_sqlite_internal :: "string \<Rightarrow> bool" where
  "like_sqlite_internal n \<longleftrightarrow> 7 \<le> length n \<and> eq_ignore_ascii_case (take 6 n) ''sqlite''"

definition has_application_schema :: "DatabaseFile \<Rightarrow> bool" where
  "has_application_schema d \<longleftrightarrow> list_ex (\<lambda>s. \<not> like_sqlite_internal (object_name s)) (df_schema d)"

definition name_taken :: "DatabaseFile \<Rightarrow> string \<Rightarrow> bool" where
  "name_taken d n \<longleftrightarrow> list_ex (\<lambda>s. eq_ignore_ascii_case (object_name s) n) (df_schema d)"

definition table_exists :: "DatabaseFile \<Rightarrow> string \<Rightarrow> bool" where
  "table_exists d n \<longleftrightarrow> list_ex (\<lambda>s. is_table s \<and> eq_ignore_ascii_case (object_name s) n) (df_schema d)"

text \<open>A new table is empty; a statement fails if its name is taken or its table is missing.\<close>

fun execute_schema :: "SchemaStatement \<Rightarrow> DatabaseFile \<Rightarrow> (SqliteError, DatabaseFile) result" where
  "execute_schema (CreateTable n cols key) d =
     (if name_taken d n then Inl (SqliteFailure OtherCode)
      else Inr (d\<lparr>df_schema := df_schema d @ [CreateTable n cols key],
                  df_meta := (if n = ''meta'' then [] else df_meta d),
                  df_workflow_index := (if n = ''workflow_index'' then [] else df_workflow_index d)\<rparr>))"
| "execute_schema (CreateIndex n t cols) d =
     (if name_taken d n \<or> \<not> table_exists d t then Inl (SqliteFailure OtherCode)
      else Inr (d\<lparr>df_schema := df_schema d @ [CreateIndex n t cols]\<rparr>))"
| "execute_schema (CreateUniqueIndexWhereStatusIn n t cols sts) d =
     (if name_taken d n \<or> \<not> table_exists d t then Inl (SqliteFailure OtherCode)
      else Inr (d\<lparr>df_schema := df_schema d @ [CreateUniqueIndexWhereStatusIn n t cols sts]\<rparr>))"

definition text_column :: "string \<Rightarrow> ColumnDef" where
  "text_column n = \<lparr>cd_name = n, cd_type = TextColumn, cd_not_null = False\<rparr>"

definition required_text :: "string \<Rightarrow> ColumnDef" where
  "required_text n = \<lparr>cd_name = n, cd_type = TextColumn, cd_not_null = True\<rparr>"

definition integer_column :: "string \<Rightarrow> bool \<Rightarrow> ColumnDef" where
  "integer_column n nn = \<lparr>cd_name = n, cd_type = IntegerColumn, cd_not_null = nn\<rparr>"

definition v1_tables :: "SchemaStatement list" where
  "v1_tables =
     [CreateTable ''workflow_index''
        [required_text ''workflow_id'', text_column ''run_id'', required_text ''workspace_runtime_id'',
         required_text ''repo_id'', required_text ''issue_ref'', required_text ''from_state'',
         required_text ''target_kind'', required_text ''current_state'', required_text ''active_step'',
         text_column ''waiting_kind'', required_text ''source_ref'',
         required_text ''source_tracker_revision'', required_text ''started_at'',
         text_column ''last_progress_at'', required_text ''status'', text_column ''terminal_outcome'',
         text_column ''operator_action_ref'', required_text ''freshness'', required_text ''updated_at'']
        [''workflow_id''],
      CreateTable ''artifact_index''
        [required_text ''artifact_id'', text_column ''workflow_id'', required_text ''workspace_runtime_id'',
         required_text ''repo_id'', required_text ''issue_ref'', required_text ''kind'',
         required_text ''path'', text_column ''summary'', text_column ''created_by_step'',
         required_text ''created_at'']
        [''artifact_id''],
      CreateTable ''tracker_cache''
        [required_text ''workspace_runtime_id'', required_text ''repo_id'', required_text ''issue_ref'',
         required_text ''tracker_backend'', required_text ''tracker_state'', required_text ''title'',
         integer_column ''pr_number'' False, text_column ''pr_state'',
         text_column ''pr_relation_confirmed_at'', required_text ''updated_at'', required_text ''freshness'']
        [''workspace_runtime_id'', ''repo_id'', ''issue_ref''],
      CreateTable ''activity_progress''
        [required_text ''workspace_runtime_id'', required_text ''workflow_id'', required_text ''activity_id'',
         required_text ''activity_kind'', required_text ''target_ref'', text_column ''mutation_id'',
         text_column ''outcome'', required_text ''status'', integer_column ''attempt_count'' True,
         text_column ''last_heartbeat_at'', text_column ''next_retry_at'', text_column ''summary'']
        [''workflow_id'', ''activity_id''],
      CreateTable ''meta'' [required_text ''key'', required_text ''value''] [''key'']]"

definition v1_indexes :: "SchemaStatement list" where
  "v1_indexes =
     [CreateIndex ''idx_workflow_index_scope_issue_status'' ''workflow_index''
        [''workspace_runtime_id'', ''repo_id'', ''issue_ref'', ''status''],
      CreateIndex ''idx_workflow_index_scope_lane'' ''workflow_index''
        [''workspace_runtime_id'', ''current_state'', ''waiting_kind''],
      CreateIndex ''idx_artifact_index_scope_workflow'' ''artifact_index''
        [''workspace_runtime_id'', ''workflow_id''],
      CreateIndex ''idx_artifact_index_scope_issue'' ''artifact_index''
        [''workspace_runtime_id'', ''repo_id'', ''issue_ref''],
      CreateIndex ''idx_tracker_cache_scope_freshness'' ''tracker_cache''
        [''workspace_runtime_id'', ''freshness''],
      CreateIndex ''idx_activity_progress_scope_workflow_mutation'' ''activity_progress''
        [''workspace_runtime_id'', ''workflow_id'', ''mutation_id''],
      CreateUniqueIndexWhereStatusIn ''uq_workflow_index_active_issue'' ''workflow_index''
        [''repo_id'', ''issue_ref''] [''starting'', ''running'']]"

definition insert_meta :: "string \<Rightarrow> DatabaseFile \<Rightarrow> (SqliteError, DatabaseFile) result" where
  "insert_meta created_at d =
     (let rows = df_meta d @ [(''created_at'', created_at), (''updated_at'', created_at)] in
      if \<not> table_exists d ''meta'' then Inl (SqliteFailure OtherCode)
      else if \<not> distinct (map fst rows) then Inl (SqliteFailure ConstraintViolation)
      else Inr (d\<lparr>df_meta := rows\<rparr>))"

text \<open>Statements in order, up to the first one that fails; \<open>fault k\<close> is an error the environment
  causes at statement \<open>k\<close>.\<close>

fun execute_all ::
    "(nat \<Rightarrow> SqliteError option) \<Rightarrow> nat \<Rightarrow> (DatabaseFile \<Rightarrow> (SqliteError, DatabaseFile) result) list \<Rightarrow>
     DatabaseFile \<Rightarrow> (SqliteError, DatabaseFile) result" where
  "execute_all fault k [] d = Inr d"
| "execute_all fault k (st # sts) d =
     (case fault k of
        Some e \<Rightarrow> Inl e
      | None \<Rightarrow> and_then (st d) (execute_all fault (Suc k) sts))"

definition apply_v1 ::
    "(nat \<Rightarrow> SqliteError option) \<Rightarrow> string \<Rightarrow> DatabaseFile \<Rightarrow> (SqliteError, DatabaseFile) result" where
  "apply_v1 fault created_at d =
     execute_all fault 0 (map execute_schema (v1_tables @ v1_indexes) @ [insert_meta created_at]) d"

record Migration =
  mg_version :: nat
  mg_apply :: "(nat \<Rightarrow> SqliteError option) \<Rightarrow> string \<Rightarrow> DatabaseFile \<Rightarrow> (SqliteError, DatabaseFile) result"

definition MIGRATIONS :: "Migration list" where
  "MIGRATIONS = [\<lparr>mg_version = 1, mg_apply = apply_v1\<rparr>]"

subsection \<open>Initialization\<close>

datatype JournalMode = Wal

record LocalStateInitialization =
  li_observed_schema_version :: nat
  li_schema_version :: nat
  li_migration_ran :: bool
  li_journal_mode :: JournalMode

record InitEnv =
  ie_parent_error :: "string option"
  ie_open_error :: "SqliteError option"
  ie_policy_reply :: "(SqliteError, nat \<times> nat \<times> nat) result"
  ie_inspect_error :: "SqliteError option"
  ie_journal_reply :: "nat \<Rightarrow> (SqliteError, string) result"
  ie_clock :: "nat \<Rightarrow> nat"
  ie_created_at :: "(string, string) result"
  ie_others :: "DatabaseFile \<Rightarrow> DatabaseFile"
  ie_begin_error :: "nat \<Rightarrow> SqliteError option"
  ie_statement_error :: "nat \<Rightarrow> SqliteError option"
  ie_version_error :: "nat \<Rightarrow> SqliteError option"
  ie_commit_error :: "nat \<Rightarrow> SqliteError option"
  ie_readback_error :: "SqliteError option"

definition configure_connection_policy ::
    "(SqliteError, nat \<times> nat \<times> nat) result \<Rightarrow> (SqliteError, unit) result" where
  "configure_connection_policy reply =
     and_then reply (\<lambda>(busy_timeout, foreign_keys, synchronous).
       if busy_timeout \<noteq> 5000 \<or> foreign_keys \<noteq> 1 \<or> synchronous \<noteq> 1 then Inl InvalidQuery else Inr ())"

definition configure_journal_mode :: "(SqliteError, string) result \<Rightarrow> (SqliteError, JournalMode) result" where
  "configure_journal_mode reply =
     and_then reply (\<lambda>mode. if \<not> eq_ignore_ascii_case mode ''wal'' then Inl InvalidQuery else Inr Wal)"

definition BUSY_TIMEOUT :: nat where
  "BUSY_TIMEOUT = 5000"

text \<open>The retry loop: \<open>reply n\<close> answers attempt \<open>n\<close>, \<open>now n\<close> is the clock read after it, in
  milliseconds since the loop was entered.\<close>

partial_function (option) journal_mode_loop ::
    "(nat \<Rightarrow> (SqliteError, string) result) \<Rightarrow> (nat \<Rightarrow> nat) \<Rightarrow> nat \<Rightarrow>
     (SqliteError, JournalMode) result option" where
  "journal_mode_loop reply now n =
     (case configure_journal_mode (reply n) of
        Inr mode \<Rightarrow> Some (Inr mode)
      | Inl error \<Rightarrow>
          if is_busy error \<and> now n < BUSY_TIMEOUT then journal_mode_loop reply now (Suc n)
          else Some (Inl error))"

definition configure_journal_mode_bounded ::
    "InitEnv \<Rightarrow> (SqliteError, JournalMode) result option" where
  "configure_journal_mode_bounded env = journal_mode_loop (ie_journal_reply env) (ie_clock env) 0"

definition inspect_initial_schema :: "InitEnv \<Rightarrow> DatabaseFile \<Rightarrow> (SqliteError, nat \<times> bool) result" where
  "inspect_initial_schema env d =
     (case ie_inspect_error env of
        Some e \<Rightarrow> Inl e
      | None \<Rightarrow>
          and_then (read_user_version d) (\<lambda>version.
            Inr (version, version = 0 \<and> has_application_schema d)))"

definition migrate_locked ::
    "InitEnv \<Rightarrow> string \<Rightarrow> Migration \<Rightarrow> DatabaseFile \<Rightarrow> (LocalStateError, bool \<times> DatabaseFile) result" where
  "migrate_locked env created_at m d =
     (let v = mg_version m; phase = MigrationPhase v;
          commit = (\<lambda>r. case ie_commit_error env v of Some e \<Rightarrow> Inl (classify e phase) | None \<Rightarrow> Inr r)
      in case read_user_version d of
           Inl e \<Rightarrow> Inl (classify e phase)
         | Inr version \<Rightarrow>
        (if v \<le> version then commit (False, d)
         else if version = 0 \<and> has_application_schema d then Inl UnversionedSchemaConflict
         else if version + 1 \<noteq> v then Inl (MigrationFailed v InvalidQuery)
         else
        (case mg_apply m (ie_statement_error env) created_at d of
           Inl e \<Rightarrow> Inl (classify e phase)
         | Inr d1 \<Rightarrow>
        (case ie_version_error env v of
           Some e \<Rightarrow> Inl (classify e phase)
         | None \<Rightarrow>
        (let d2 = d1\<lparr>df_user_version := int v\<rparr> in
         case read_user_version d2 of
           Inl e \<Rightarrow> Inl (classify e ReadbackPhase)
         | Inr readback \<Rightarrow>
             (if readback \<noteq> v then Inl (PostMigrationReadback InvalidQuery) else commit (True, d2)))))))"

text \<open>Each migration is one immediate transaction: its error leaves the file as it was.\<close>

fun apply_migrations ::
    "InitEnv \<Rightarrow> string \<Rightarrow> Migration list \<Rightarrow> DatabaseFile \<Rightarrow> (LocalStateError, bool) result \<times> DatabaseFile" where
  "apply_migrations env created_at [] d = (Inr False, d)"
| "apply_migrations env created_at (m # ms) d =
     (case ie_begin_error env (mg_version m) of
        Some e \<Rightarrow> (Inl (classify e (MigrationPhase (mg_version m))), d)
      | None \<Rightarrow>
     (case migrate_locked env created_at m d of
        Inl e \<Rightarrow> (Inl e, d)
      | Inr (applied, d') \<Rightarrow>
     (case apply_migrations env created_at ms d' of
        (Inl e, d'') \<Rightarrow> (Inl e, d'')
      | (Inr applied', d'') \<Rightarrow> (Inr (applied \<or> applied'), d''))))"

definition finish_initialization ::
    "InitEnv \<Rightarrow> nat \<Rightarrow> JournalMode \<Rightarrow> DatabaseFile \<Rightarrow>
     (LocalStateError, LocalStateInitialization) result \<times> DatabaseFile" where
  "finish_initialization env observed mode d =
     (case ie_created_at env of
        Inl e \<Rightarrow> (Inl (TimestampFormat e), d)
      | Inr created_at \<Rightarrow>
     (case apply_migrations env created_at MIGRATIONS (ie_others env d) of
        (Inl e, d') \<Rightarrow> (Inl e, d')
      | (Inr migration_ran, d') \<Rightarrow>
     (case (case ie_readback_error env of Some e \<Rightarrow> Inl e | None \<Rightarrow> read_user_version d') of
        Inl e \<Rightarrow> (Inl (classify e ReadbackPhase), d')
      | Inr version \<Rightarrow>
          (if version \<noteq> CURRENT_SCHEMA_VERSION then (Inl (PostMigrationReadback InvalidQuery), d')
           else (Inr \<lparr>li_observed_schema_version = observed, li_schema_version = version,
                      li_migration_ran = migration_ran, li_journal_mode = mode\<rparr>, d')))))"

text \<open>The steps of \<^verbatim>\<open>initialize\<close> before the journal mode is switched write nothing to the file.\<close>

definition inspect_for_initialization ::
    "InitEnv \<Rightarrow> string \<Rightarrow> DatabaseFile \<Rightarrow> (LocalStateError, nat) result" where
  "inspect_for_initialization env path d =
     (if \<not> has_parent path then Inl (UnresolvedPath path)
      else case ie_parent_error env of
        Some e \<Rightarrow> Inl (ParentDirectoryCreation e)
      | None \<Rightarrow>
     (case ie_open_error env of
        Some e \<Rightarrow> Inl (classify e OpenPhase)
      | None \<Rightarrow>
     (case configure_connection_policy (ie_policy_reply env) of
        Inl e \<Rightarrow> Inl (classify e ConfigurationPhase)
      | Inr _ \<Rightarrow>
     (case inspect_initial_schema env d of
        Inl e \<Rightarrow> Inl (classify e ConfigurationPhase)
      | Inr (observed, conflict) \<Rightarrow>
          (if observed > CURRENT_SCHEMA_VERSION
           then Inl (UnsupportedSchemaVersion observed CURRENT_SCHEMA_VERSION)
           else if conflict then Inl UnversionedSchemaConflict
           else Inr observed)))))"

definition initialize ::
    "InitEnv \<Rightarrow> string \<Rightarrow> DatabaseFile \<Rightarrow>
     ((LocalStateError, LocalStateInitialization) result \<times> DatabaseFile) option" where
  "initialize env path d =
     (case inspect_for_initialization env path d of
        Inl e \<Rightarrow> Some (Inl e, d)
      | Inr observed \<Rightarrow>
     (case configure_journal_mode_bounded env of
        None \<Rightarrow> None
      | Some (Inl e) \<Rightarrow> Some (Inl (classify e ConfigurationPhase), d)
      | Some (Inr mode) \<Rightarrow>
     (let d1 = d\<lparr>df_journal_mode := ''wal''\<rparr> in
      if observed = CURRENT_SCHEMA_VERSION
      then Some (Inr \<lparr>li_observed_schema_version = observed, li_schema_version = observed,
                      li_migration_ran = False, li_journal_mode = mode\<rparr>, d1)
      else Some (finish_initialization env observed mode d1))))"

subsection \<open>The read-only health check\<close>

definition REQUIRED_V1_TABLES :: "string list" where
  "REQUIRED_V1_TABLES =
     [''workflow_index'', ''artifact_index'', ''tracker_cache'', ''activity_progress'', ''meta'']"

definition REQUIRED_V1_METADATA_KEYS :: "string list" where
  "REQUIRED_V1_METADATA_KEYS = [''created_at'', ''updated_at'']"

datatype LocalStatePathIssue = NotARegularFile | PermissionDenied | Unavailable

datatype LocalStateInspectionPhase = InspectionOpen | ReadOnlyInspection

datatype LocalStateInspectionFailure = InspectionBusy | InspectionCannotOpen | InspectionReadOnly | InspectionOther

datatype LocalStateHealthDiagnostic =
    MissingPath
  | UnavailablePath LocalStatePathIssue
  | MigrationRequired nat nat
  | HealthUnsupportedSchemaVersion nat nat
  | HealthUnversionedSchemaConflict
  | IncompleteCurrentSchema nat "string list" "string list"
  | HealthCorruptDatabase
  | InspectionFailure LocalStateInspectionPhase LocalStateInspectionFailure

datatype LocalStateHealth = Current nat | HealthNotReady LocalStateHealthDiagnostic

text \<open>What the file system says of the path.\<close>

datatype PathMetadata = IsFile | IsOther | MetadataNotFound | MetadataPermissionDenied | MetadataError

fun inspect_path :: "PathMetadata \<Rightarrow> LocalStateHealthDiagnostic option" where
  "inspect_path IsFile = None"
| "inspect_path IsOther = Some (UnavailablePath NotARegularFile)"
| "inspect_path MetadataNotFound = Some MissingPath"
| "inspect_path MetadataPermissionDenied = Some (UnavailablePath PermissionDenied)"
| "inspect_path MetadataError = Some (UnavailablePath Unavailable)"

definition classify_inspection_error ::
    "LocalStateInspectionPhase \<Rightarrow> SqliteError \<Rightarrow> LocalStateHealthDiagnostic" where
  "classify_inspection_error phase e =
     (if is_corrupt e then HealthCorruptDatabase
      else InspectionFailure phase
        (if is_busy e then InspectionBusy
         else if e = SqliteFailure CannotOpen then InspectionCannotOpen
         else if e = SqliteFailure ReadOnlyCode then InspectionReadOnly
         else InspectionOther))"

definition missing_entries :: "string list \<Rightarrow> string list \<Rightarrow> string list" where
  "missing_entries required present = filter (\<lambda>n. n \<notin> set present) required"

definition missing_v1_evidence :: "DatabaseFile \<Rightarrow> string list \<times> string list" where
  "missing_v1_evidence d =
     (let tables = filter (\<lambda>n. n \<in> set REQUIRED_V1_TABLES) (map object_name (filter is_table (df_schema d)));
          missing = missing_entries REQUIRED_V1_TABLES tables
      in if ''meta'' \<in> set missing then (missing, REQUIRED_V1_METADATA_KEYS)
         else (missing, missing_entries REQUIRED_V1_METADATA_KEYS
                 (filter (\<lambda>k. k \<in> set REQUIRED_V1_METADATA_KEYS) (map fst (df_meta d)))))"

record HealthEnv =
  he_metadata :: PathMetadata
  he_open_error :: "SqliteError option"
  he_begin_error :: "SqliteError option"
  he_version_error :: "SqliteError option"
  he_schema_error :: "SqliteError option"
  he_commit_error :: "SqliteError option"

definition inspect_schema :: "HealthEnv \<Rightarrow> DatabaseFile \<Rightarrow> LocalStateHealth" where
  "inspect_schema he d =
     (case (case he_version_error he of Some e \<Rightarrow> Inl e | None \<Rightarrow> read_user_version d) of
        Inl e \<Rightarrow> HealthNotReady (classify_inspection_error ReadOnlyInspection e)
      | Inr v \<Rightarrow>
     (if v > CURRENT_SCHEMA_VERSION
      then HealthNotReady (HealthUnsupportedSchemaVersion v CURRENT_SCHEMA_VERSION)
      else case he_schema_error he of
        Some e \<Rightarrow>
          (if v \<noteq> 0 \<and> v < CURRENT_SCHEMA_VERSION
           then HealthNotReady (MigrationRequired v CURRENT_SCHEMA_VERSION)
           else HealthNotReady (classify_inspection_error ReadOnlyInspection e))
      | None \<Rightarrow>
     (if v = 0
      then (if has_application_schema d then HealthNotReady HealthUnversionedSchemaConflict
            else HealthNotReady (MigrationRequired v CURRENT_SCHEMA_VERSION))
      else if v < CURRENT_SCHEMA_VERSION then HealthNotReady (MigrationRequired v CURRENT_SCHEMA_VERSION)
      else case missing_v1_evidence d of
        (tables, metadata) \<Rightarrow>
          (if tables = [] \<and> metadata = [] then Current v
           else HealthNotReady (IncompleteCurrentSchema v tables metadata)))))"

definition check_health :: "HealthEnv \<Rightarrow> DatabaseFile \<Rightarrow> LocalStateHealth" where
  "check_health he d =
     (case inspect_path (he_metadata he) of
        Some diagnostic \<Rightarrow> HealthNotReady diagnostic
      | None \<Rightarrow>
     (case he_open_error he of
        Some e \<Rightarrow> HealthNotReady (classify_inspection_error InspectionOpen e)
      | None \<Rightarrow>
     (case he_begin_error he of
        Some e \<Rightarrow> HealthNotReady (classify_inspection_error ReadOnlyInspection e)
      | None \<Rightarrow>
     (let health = inspect_schema he d in
      case he_commit_error he of
        Some e \<Rightarrow> HealthNotReady (classify_inspection_error ReadOnlyInspection e)
      | None \<Rightarrow> health))))"

definition migrate ::
    "InitEnv \<Rightarrow> string \<Rightarrow> DatabaseFile \<Rightarrow>
     ((LocalStateError, LocalStateInitialization) result \<times> DatabaseFile) option" where
  "migrate env path d = initialize env path d"

subsection \<open>Facts: the v1 migration\<close>

lemma internal_names:
  "like_sqlite_internal m \<Longrightarrow> eq_ignore_ascii_case m n \<Longrightarrow> like_sqlite_internal n"
  by (auto simp: like_sqlite_internal_def eq_ignore_ascii_case_def to_ascii_lowercase_def take_map
      dest: arg_cong [where f = length] arg_cong [where f = "take 6"])

lemma v1_names:
  "list_all (\<lambda>s. \<not> like_sqlite_internal (object_name s)) (v1_tables @ v1_indexes)"
  "distinct (map (to_ascii_lowercase \<circ> object_name) (v1_tables @ v1_indexes))"
  by code_simp+

lemma fresh_name: "\<not> has_application_schema d \<Longrightarrow> \<not> like_sqlite_internal n \<Longrightarrow> \<not> name_taken d n"
  using internal_names by (auto simp: has_application_schema_def name_taken_def list_ex_iff)

fun on_table :: "SchemaStatement \<Rightarrow> string option" where
  "on_table (CreateTable n cols key) = None"
| "on_table (CreateIndex n t cols) = Some t"
| "on_table (CreateUniqueIndexWhereStatusIn n t cols sts) = Some t"

definition extended :: "SchemaStatement list \<Rightarrow> DatabaseFile \<Rightarrow> DatabaseFile" where
  "extended sts d =
     (let tables = map object_name (filter is_table sts) in
      d\<lparr>df_schema := df_schema d @ sts,
        df_meta := (if ''meta'' \<in> set tables then [] else df_meta d),
        df_workflow_index := (if ''workflow_index'' \<in> set tables then [] else df_workflow_index d)\<rparr>)"

lemma extended_simps [simp]:
  "extended [] d = d"
  "extended xs (extended ys d) = extended (ys @ xs) d"
  "df_schema (extended xs d) = df_schema d @ xs"
  by (simp_all add: extended_def Let_def)

lemma execute_one:
  assumes "\<not> name_taken d (object_name s)"
    and "\<And>t. on_table s = Some t \<Longrightarrow> table_exists d t"
  shows "execute_schema s d = Inr (extended [s] d)"
  using assms by (cases s) (auto simp: extended_def)

lemma table_exists_extended: "table_exists d t \<Longrightarrow> table_exists (extended xs d) t"
  by (simp add: table_exists_def)

lemma execute_statements:
  assumes "distinct (map (to_ascii_lowercase \<circ> object_name) sts)"
    and "\<And>s. s \<in> set sts \<Longrightarrow> \<not> name_taken d (object_name s)"
    and "\<And>s t. s \<in> set sts \<Longrightarrow> on_table s = Some t \<Longrightarrow> table_exists d t"
  shows "execute_all (\<lambda>_. None) k (map execute_schema sts @ rest) d =
    execute_all (\<lambda>_. None) (k + length sts) rest (extended sts d)"
  using assms
proof (induction sts arbitrary: d k)
  case (Cons s sts)
  have one: "execute_schema s d = Inr (extended [s] d)"
    by (rule execute_one) (use Cons.prems in auto)
  have "execute_all (\<lambda>_. None) (Suc k) (map execute_schema sts @ rest) (extended [s] d) =
      execute_all (\<lambda>_. None) (Suc k + length sts) rest (extended sts (extended [s] d))"
  proof (rule Cons.IH)
    fix s' assume s': "s' \<in> set sts"
    then have "to_ascii_lowercase (object_name s') \<noteq> to_ascii_lowercase (object_name s)"
      using Cons.prems(1) by (simp add: image_iff) metis
    then show "\<not> name_taken (extended [s] d) (object_name s')"
      using Cons.prems(2) [of s'] s' by (auto simp: name_taken_def eq_ignore_ascii_case_def)
    show "table_exists (extended [s] d) t" if "on_table s' = Some t" for t
      using Cons.prems(3) [OF _ that] s' table_exists_extended by simp
  qed (use Cons.prems in simp)
  with one show ?case by simp
qed simp

definition v1_file :: "string \<Rightarrow> DatabaseFile \<Rightarrow> DatabaseFile" where
  "v1_file created_at d =
     d\<lparr>df_schema := df_schema d @ v1_tables @ v1_indexes,
       df_meta := [(''created_at'', created_at), (''updated_at'', created_at)],
       df_workflow_index := []\<rparr>"

lemma v1_tables_shape:
  "list_all (\<lambda>s. on_table s = None) v1_tables" "filter is_table v1_indexes = []"
  "map object_name (filter is_table v1_tables) =
     [''workflow_index'', ''artifact_index'', ''tracker_cache'', ''activity_progress'', ''meta'']"
  "list_all (\<lambda>s. \<exists>t \<in> set v1_tables. is_table t \<and> on_table s = Some (object_name t)) v1_indexes"
  by code_simp+

lemma apply_v1_fresh:
  assumes "\<not> has_application_schema d"
  shows "apply_v1 (\<lambda>_. None) created_at d = Inr (v1_file created_at d)"
proof -
  have free: "\<not> name_taken d (object_name s)" if "s \<in> set (v1_tables @ v1_indexes)" for s
    using fresh_name [OF assms] v1_names(1) that by (auto simp: list_all_iff)
  have tables: "execute_all (\<lambda>_. None) 0 (map execute_schema v1_tables @ rest) d =
      execute_all (\<lambda>_. None) (0 + length v1_tables) rest (extended v1_tables d)" for rest
    by (rule execute_statements) (use free v1_names(2) v1_tables_shape(1) in \<open>auto simp: list_all_iff\<close>)
  have exists: "table_exists (extended v1_tables d) t" if s: "s \<in> set v1_indexes" and t: "on_table s = Some t" for s t
  proof -
    obtain u where "u \<in> set v1_tables" "is_table u" "object_name u = t"
      using v1_tables_shape(4) s t by (auto simp: list_all_iff dest!: bspec [OF _ s])
    then show ?thesis by (auto simp: table_exists_def list_ex_iff eq_ignore_ascii_case_def)
  qed
  have indexes: "execute_all (\<lambda>_. None) k (map execute_schema v1_indexes @ rest) (extended v1_tables d) =
      execute_all (\<lambda>_. None) (k + length v1_indexes) rest (extended v1_indexes (extended v1_tables d))" for k rest
  proof (rule execute_statements)
    fix s assume s: "s \<in> set v1_indexes"
    have "to_ascii_lowercase (object_name s) \<notin> set (map (to_ascii_lowercase \<circ> object_name) v1_tables)"
      using v1_names(2) s by auto
    with free [of s] s show "\<not> name_taken (extended v1_tables d) (object_name s)"
      by (auto simp: name_taken_def list_ex_iff eq_ignore_ascii_case_def) (metis image_eqI)
  qed (use v1_names(2) exists in auto)
  have v1: "extended (v1_tables @ v1_indexes) d =
      d\<lparr>df_schema := df_schema d @ v1_tables @ v1_indexes, df_meta := [], df_workflow_index := []\<rparr>"
    by (simp add: extended_def v1_tables_shape(2,3))
  have meta: "insert_meta created_at (extended (v1_tables @ v1_indexes) d) = Inr (v1_file created_at d)"
  proof -
    have "table_exists (extended (v1_tables @ v1_indexes) d) ''meta''"
    proof -
      have "''meta'' \<in> set (map object_name (filter is_table v1_tables))" by (simp add: v1_tables_shape(3))
      then show ?thesis by (auto simp: table_exists_def list_ex_iff eq_ignore_ascii_case_def)
    qed
    then show ?thesis by (simp add: insert_meta_def v1 v1_file_def)
  qed
  show ?thesis
    by (simp add: apply_v1_def tables indexes meta)
qed

lemma execute_all_faults:
  "execute_all fault k sts d = Inr d' \<Longrightarrow> execute_all (\<lambda>_. None) j sts d = Inr d'"
  by (induction sts arbitrary: k j d) (auto simp: and_then_Inr_iff split: option.splits)

lemma apply_v1_Inr:
  "\<not> has_application_schema d \<Longrightarrow> apply_v1 fault created_at d = Inr d' \<Longrightarrow> d' = v1_file created_at d"
  using apply_v1_fresh [of d created_at] execute_all_faults [of fault 0 _ d d' 0] by (force simp: apply_v1_def)

subsection \<open>Facts: initialization\<close>

definition wal :: "DatabaseFile \<Rightarrow> DatabaseFile" where
  "wal d = d\<lparr>df_journal_mode := ''wal''\<rparr>"

definition migrated :: "string \<Rightarrow> DatabaseFile \<Rightarrow> DatabaseFile" where
  "migrated created_at d = (v1_file created_at d)\<lparr>df_user_version := 1\<rparr>"

text \<open>A file that this program may turn into a version 1 database.\<close>

definition adoptable :: "DatabaseFile \<Rightarrow> bool" where
  "adoptable d \<longleftrightarrow> df_user_version d = 0 \<and> \<not> has_application_schema d"

lemma read_version_simps:
  "read_user_version d = Inr v \<longleftrightarrow> df_user_version d = int v"
  "read_user_version d = Inl e \<longleftrightarrow> df_user_version d < 0 \<and> e = IntegralValueOutOfRange 0"
  by (auto simp: read_user_version_def)

lemma migrated_version [simp]: "df_user_version (migrated c d) = 1" "read_user_version (migrated c d) = Inr 1"
  by (simp_all add: migrated_def read_user_version_def)

lemma wal_simps [simp]:
  "df_user_version (wal d) = df_user_version d" "has_application_schema (wal d) = has_application_schema d"
  "read_user_version (wal d) = read_user_version d" "adoptable (wal d) = adoptable d"
  by (simp_all add: wal_def has_application_schema_def read_user_version_def adoptable_def)

lemma migrate_v1_cases:
  "migrate_locked env created_at \<lparr>mg_version = 1, mg_apply = apply_v1\<rparr> d = Inr (b, d') \<Longrightarrow>
   (if b then adoptable d \<and> d' = migrated created_at d else d' = d \<and> 1 \<le> df_user_version d)"
  by (auto simp: migrate_locked_def Let_def adoptable_def migrated_def read_version_simps
      split: sum.splits if_splits option.splits dest!: apply_v1_Inr)

lemma apply_migrations_cases:
  obtains e where "apply_migrations env created_at MIGRATIONS d = (Inl e, d)"
  | "apply_migrations env created_at MIGRATIONS d = (Inr False, d)" "1 \<le> df_user_version d"
  | "apply_migrations env created_at MIGRATIONS d = (Inr True, migrated created_at d)" "adoptable d"
proof (cases "ie_begin_error env 1")
  case None
  show ?thesis
  proof (cases "migrate_locked env created_at \<lparr>mg_version = 1, mg_apply = apply_v1\<rparr> d")
    case (Inl e)
    with None that(1) show ?thesis by (simp add: MIGRATIONS_def)
  next
    case (Inr p)
    obtain b d' where p: "p = (b, d')" by (cases p)
    from migrate_v1_cases [OF Inr [unfolded p]] None Inr p that(2,3) show ?thesis
      by (cases b) (simp_all add: MIGRATIONS_def)
  qed
qed (use that(1) in \<open>simp add: MIGRATIONS_def\<close>)

text \<open>The ways an initialization can end.\<close>

inductive initialized ::
    "InitEnv \<Rightarrow> DatabaseFile \<Rightarrow> (LocalStateError, LocalStateInitialization) result \<Rightarrow> DatabaseFile \<Rightarrow> bool"
  for env d where
  untouched: "initialized env d (Inl e) d"
| current: "df_user_version d = 1 \<Longrightarrow>
    initialized env d (Inr \<lparr>li_observed_schema_version = 1, li_schema_version = 1, li_migration_ran = False,
      li_journal_mode = mode\<rparr>) (wal d)"
| failed: "adoptable d \<Longrightarrow> d' \<in> {wal d, ie_others env (wal d)} \<Longrightarrow> initialized env d (Inl e) d'"
| by_others: "adoptable d \<Longrightarrow> df_user_version (ie_others env (wal d)) = 1 \<Longrightarrow>
    initialized env d (Inr \<lparr>li_observed_schema_version = 0, li_schema_version = 1, li_migration_ran = False,
      li_journal_mode = mode\<rparr>) (ie_others env (wal d))"
| migrates: "adoptable d \<Longrightarrow> adoptable (ie_others env (wal d)) \<Longrightarrow> ie_created_at env = Inr c \<Longrightarrow>
    r \<in> {Inr \<lparr>li_observed_schema_version = 0, li_schema_version = 1, li_migration_ran = True,
      li_journal_mode = mode\<rparr>} \<union> range Inl \<Longrightarrow> initialized env d r (migrated c (ie_others env (wal d)))"

inductive_cases initializedE: "initialized env d r d'"

lemma finish_initialized:
  assumes "adoptable d" and "finish_initialization env 0 mode (wal d) = (r, d')"
  shows "initialized env d r d'"
proof (cases "ie_created_at env")
  case (Inl e)
  with assms show ?thesis by (auto simp: finish_initialization_def intro: failed)
next
  case (Inr c)
  let ?o = "ie_others env (wal d)"
  show ?thesis
  proof (cases rule: apply_migrations_cases [of env c ?o])
    case (1 e)
    with Inr assms show ?thesis by (auto simp: finish_initialization_def intro: failed)
  next
    case 2
    with Inr assms show ?thesis
      by (auto simp: finish_initialization_def CURRENT_SCHEMA_VERSION_def read_version_simps
          split: option.splits sum.splits if_splits intro: failed by_others simp del: One_nat_def)
  next
    case 3
    with Inr assms show ?thesis
      by (auto simp: finish_initialization_def CURRENT_SCHEMA_VERSION_def
          split: option.splits sum.splits if_splits intro: migrates simp del: One_nat_def)
  qed
qed

lemma inspect_for_Inr:
  assumes "inspect_for_initialization env path d = Inr v"
  shows "df_user_version d = int v \<and> v \<le> 1 \<and> \<not> (v = 0 \<and> has_application_schema d)"
  using assms
  by (auto simp: inspect_for_initialization_def inspect_initial_schema_def CURRENT_SCHEMA_VERSION_def
      and_then_Inr_iff read_version_simps split: if_splits option.splits sum.splits)

lemma initialize_initialized:
  assumes "initialize env path d = Some (r, d')"
  shows "initialized env d r d'"
proof -
  show ?thesis
  proof (cases "inspect_for_initialization env path d")
    case (Inl e)
    with assms untouched show ?thesis by (auto simp: initialize_def)
  next
    case (Inr v)
    note v = inspect_for_Inr [OF Inr]
    have w: "d\<lparr>df_journal_mode := ''wal''\<rparr> = wal d" by (simp add: wal_def)
    show ?thesis
    proof (cases "configure_journal_mode_bounded env")
      case None
      with assms Inr show ?thesis by (simp add: initialize_def)
    next
      case (Some m)
      show ?thesis
      proof (cases m)
        case (Inl e)
        with assms Inr Some untouched show ?thesis by (auto simp: initialize_def)
      next
        case mode: (Inr mode)
        consider "v = 1" | "v = 0" using v by linarith
        then show ?thesis
        proof cases
          case 1
          with assms Inr Some mode v current show ?thesis
            by (auto simp: initialize_def CURRENT_SCHEMA_VERSION_def w simp del: One_nat_def)
        next
          case 2
          with assms Inr Some mode v finish_initialized show ?thesis
            by (auto simp: initialize_def CURRENT_SCHEMA_VERSION_def w adoptable_def)
        qed
      qed
    qed
  qed
qed

subsection \<open>Facts: the journal mode loop and health\<close>

declare journal_mode_loop.simps [code]

lemma journal_loop_result:
  assumes tick: "\<And>n. now n + 10 \<le> now (Suc n)" and "n \<le> 500" and "10 * n \<le> now n"
  shows "\<exists>k \<le> 500. journal_mode_loop reply now n = Some (configure_journal_mode (reply k))"
  using assms(2,3)
proof (induction "500 - n" arbitrary: n rule: less_induct)
  case less
  show ?case
  proof (cases "configure_journal_mode (reply n)")
    case (Inr mode)
    then have "journal_mode_loop reply now n = Some (configure_journal_mode (reply n))"
      by (simp add: journal_mode_loop.simps [of reply now n])
    with less.prems(1) show ?thesis by blast
  next
    case (Inl e)
    show ?thesis
    proof (cases "is_busy e \<and> now n < BUSY_TIMEOUT")
      case True
      then have "n < 500" using less.prems(2) by (simp add: BUSY_TIMEOUT_def)
      moreover have "10 * Suc n \<le> now (Suc n)" using less.prems(2) tick [of n] by simp
      moreover have "500 - Suc n < 500 - n" using \<open>n < 500\<close> by arith
      ultimately obtain k where "k \<le> 500" "journal_mode_loop reply now (Suc n) = Some (configure_journal_mode (reply k))"
        using less.hyps [of "Suc n"] Suc_leI [of n 500] by blast
      with Inl True show ?thesis by (auto simp: journal_mode_loop.simps [of reply now n])
    next
      case False
      with Inl have "journal_mode_loop reply now n = Some (configure_journal_mode (reply n))"
        by (auto simp: journal_mode_loop.simps [of reply now n])
      with less.prems(1) show ?thesis by blast
    qed
  qed
qed

lemma missing_none_iff:
  "missing_v1_evidence d = ([], []) \<longleftrightarrow>
     (\<forall>n \<in> set REQUIRED_V1_TABLES. n \<in> object_name ` {s \<in> set (df_schema d). is_table s}) \<and>
     (\<forall>k \<in> set REQUIRED_V1_METADATA_KEYS. k \<in> fst ` set (df_meta d))"
proof -
  have "''meta'' \<in> set REQUIRED_V1_TABLES" by (simp add: REQUIRED_V1_TABLES_def)
  then show ?thesis
    by (auto simp: missing_v1_evidence_def missing_entries_def Let_def filter_empty_conv)
qed

lemma migrated_evidence: "missing_v1_evidence (migrated c d) = ([], [])"
proof -
  have "set REQUIRED_V1_TABLES = object_name ` {s \<in> set v1_tables. is_table s}"
    using arg_cong [OF v1_tables_shape(3), of set] by (auto simp: REQUIRED_V1_TABLES_def)
  then have "n \<in> object_name ` {s \<in> set (df_schema (migrated c d)). is_table s}"
    if "n \<in> set REQUIRED_V1_TABLES" for n
    using that by (auto simp: migrated_def v1_file_def)
  then show ?thesis
    by (simp add: missing_none_iff) (simp add: migrated_def v1_file_def REQUIRED_V1_METADATA_KEYS_def)
qed

definition quiet_health :: HealthEnv where
  "quiet_health =
     \<lparr>he_metadata = IsFile, he_open_error = None, he_begin_error = None, he_version_error = None,
      he_schema_error = None, he_commit_error = None\<rparr>"

lemma quiet_check:
  "check_health quiet_health d =
     (if df_user_version d < 0
      then HealthNotReady (InspectionFailure ReadOnlyInspection InspectionOther)
      else if df_user_version d > 1 then HealthNotReady (HealthUnsupportedSchemaVersion (nat (df_user_version d)) 1)
      else if df_user_version d = 0
      then HealthNotReady (if has_application_schema d then HealthUnversionedSchemaConflict else MigrationRequired 0 1)
      else if missing_v1_evidence d = ([], []) then Current 1
      else HealthNotReady (case missing_v1_evidence d of (ts, ks) \<Rightarrow> IncompleteCurrentSchema 1 ts ks))"
  by (auto simp: check_health_def quiet_health_def inspect_schema_def read_user_version_def
      CURRENT_SCHEMA_VERSION_def classify_inspection_error_def is_corrupt_def is_busy_def
      split: prod.splits)

lemma migrated_healthy: "check_health quiet_health (migrated c d) = Current 1"
  by (simp add: quiet_check migrated_evidence)

text \<open>An environment without faults, in which no other process writes.\<close>

definition quiet_init :: "string \<Rightarrow> InitEnv" where
  "quiet_init created_at =
     \<lparr>ie_parent_error = None, ie_open_error = None, ie_policy_reply = Inr (5000, 1, 1), ie_inspect_error = None,
      ie_journal_reply = (\<lambda>n. Inr ''wal''), ie_clock = (\<lambda>n. 10 * n), ie_created_at = Inr created_at,
      ie_others = (\<lambda>d. d), ie_begin_error = (\<lambda>v. None), ie_statement_error = (\<lambda>k. None),
      ie_version_error = (\<lambda>v. None), ie_commit_error = (\<lambda>v. None), ie_readback_error = None\<rparr>"

lemma quiet_journal: "configure_journal_mode_bounded (quiet_init c) = Some (Inr Wal)"
  unfolding configure_journal_mode_bounded_def
  by (subst journal_mode_loop.simps)
    (simp add: quiet_init_def configure_journal_mode_def eq_ignore_ascii_case_def)

lemma quiet_inspect:
  assumes "has_parent path"
  shows "inspect_for_initialization (quiet_init c) path d =
    (if df_user_version d < 0 then Inl (ConfigurationFailed (IntegralValueOutOfRange 0))
     else if df_user_version d > 1 then Inl (UnsupportedSchemaVersion (nat (df_user_version d)) 1)
     else if df_user_version d = 0 \<and> has_application_schema d then Inl UnversionedSchemaConflict
     else Inr (nat (df_user_version d)))"
  using assms
  by (auto simp: inspect_for_initialization_def quiet_init_def configure_connection_policy_def
      inspect_initial_schema_def read_user_version_def CURRENT_SCHEMA_VERSION_def classify_def is_busy_def is_corrupt_def)

lemma quiet_migrations:
  assumes "adoptable d"
  shows "apply_migrations (quiet_init c) c MIGRATIONS d = (Inr True, migrated c d)"
proof -
  have ap: "apply_v1 (\<lambda>k. None) c d = Inr (v1_file c d)" and v: "read_user_version d = Inr 0"
    using assms by (simp_all add: adoptable_def apply_v1_fresh read_user_version_def)
  have "read_user_version ((v1_file c d)\<lparr>df_user_version := 1\<rparr>) = Inr 1" by (simp add: read_user_version_def)
  with ap v assms show ?thesis
    by (simp add: MIGRATIONS_def migrate_locked_def quiet_init_def adoptable_def migrated_def)
qed

subsection \<open>Facts: the constraints of the schema\<close>

definition workflow_index_columns :: "string list" where
  "workflow_index_columns =
     [''workflow_id'', ''run_id'', ''workspace_runtime_id'', ''repo_id'', ''issue_ref'', ''from_state'',
      ''target_kind'', ''current_state'', ''active_step'', ''waiting_kind'', ''source_ref'',
      ''source_tracker_revision'', ''started_at'', ''last_progress_at'', ''status'', ''terminal_outcome'',
      ''operator_action_ref'', ''freshness'', ''updated_at'']"

text \<open>The values of a stored row in that order, \<^const>\<open>None\<close> for a null.\<close>

definition row_values :: "StoredRow \<Rightarrow> string option list" where
  "row_values r =
     [Some (wr_workflow_id r), wr_run_id r, Some (wr_workspace_runtime_id r), Some (wr_repo_id r),
      Some (wr_issue_ref r), Some (wr_from_state r), Some (wr_target_kind r), Some (wr_current_state r),
      Some (wr_active_step r), wr_waiting_kind r, Some (wr_source_ref r),
      Some (wr_source_tracker_revision r), Some (wr_started_at r), wr_last_progress_at r,
      Some (wr_status r), wr_terminal_outcome r, wr_operator_action_ref r, Some (wr_freshness r),
      Some (wr_updated_at r)]"

definition column_value :: "StoredRow \<Rightarrow> string \<Rightarrow> string option" where
  "column_value r c = (case map_of (zip workflow_index_columns (row_values r)) c of Some v \<Rightarrow> v | None \<Rightarrow> None)"

text \<open>What SQLite enforces of a set of rows for one object of the schema of \<^verbatim>\<open>workflow_index\<close>:
  the primary key and required columns of the table, and the unique index among the rows whose
  status it selects.\<close>

fun enforced :: "workflow_table \<Rightarrow> SchemaStatement \<Rightarrow> bool" where
  "enforced rows (CreateTable n cols key) \<longleftrightarrow>
     (n = ''workflow_index'' \<longrightarrow>
        distinct (map (\<lambda>r. map (column_value r) key) rows) \<and>
        list_all (\<lambda>r. list_all (\<lambda>c. cd_not_null c \<longrightarrow> column_value r (cd_name c) \<noteq> None) cols) rows)"
| "enforced rows (CreateIndex n t cols) \<longleftrightarrow> True"
| "enforced rows (CreateUniqueIndexWhereStatusIn n t cols sts) \<longleftrightarrow>
     (t = ''workflow_index'' \<longrightarrow>
        distinct (map (\<lambda>r. map (column_value r) cols) (filter (\<lambda>r. wr_status r \<in> set sts) rows)))"

lemma map_of_zip_all:
  assumes "distinct ks" and "length ks = length vs"
  shows "map (map_of (zip ks vs)) ks = map Some vs"
  by (rule nth_equalityI) (use assms in \<open>simp_all add: map_of_zip_nth\<close>)

lemma column_value_row: "map (column_value r) workflow_index_columns = row_values r"
proof -
  have "distinct workflow_index_columns" by code_simp
  moreover have "length workflow_index_columns = length (row_values r)"
    by (simp add: workflow_index_columns_def row_values_def)
  ultimately have "map (map_of (zip workflow_index_columns (row_values r))) workflow_index_columns = map Some (row_values r)"
    by (rule map_of_zip_all)
  from arg_cong [OF this, of "map (\<lambda>x. case x of Some v \<Rightarrow> v | None \<Rightarrow> None)"] show ?thesis
    by (simp add: column_value_def [abs_def] comp_def)
qed

lemma column_values:
  "column_value r ''workflow_id'' = Some (wr_workflow_id r)" "column_value r ''repo_id'' = Some (wr_repo_id r)"
  "column_value r ''issue_ref'' = Some (wr_issue_ref r)"
  "column_value r ''workspace_runtime_id'' = Some (wr_workspace_runtime_id r)"
  "column_value r ''from_state'' = Some (wr_from_state r)" "column_value r ''target_kind'' = Some (wr_target_kind r)"
  "column_value r ''current_state'' = Some (wr_current_state r)"
  "column_value r ''active_step'' = Some (wr_active_step r)" "column_value r ''source_ref'' = Some (wr_source_ref r)"
  "column_value r ''source_tracker_revision'' = Some (wr_source_tracker_revision r)"
  "column_value r ''started_at'' = Some (wr_started_at r)" "column_value r ''status'' = Some (wr_status r)"
  "column_value r ''freshness'' = Some (wr_freshness r)" "column_value r ''updated_at'' = Some (wr_updated_at r)"
  using column_value_row [of r, unfolded workflow_index_columns_def row_values_def list.map list.inject]
  by (simp_all only: simp_thms)

lemma distinct_map_inj: "inj g \<Longrightarrow> distinct (map (\<lambda>x. g (f x)) xs) \<longleftrightarrow> distinct (map f xs)"
  by (induction xs) (auto dest: injD)

lemma enforced_tables:
  "list_all (enforced rows) v1_tables \<longleftrightarrow> distinct (map wr_workflow_id rows)"
proof -
  have "distinct (map (\<lambda>r. [Some (wr_workflow_id r)]) rows) \<longleftrightarrow> distinct (map wr_workflow_id rows)"
    by (rule distinct_map_inj) (simp add: inj_def)
  then show ?thesis
    by (simp add: v1_tables_def column_values required_text_def text_column_def integer_column_def list.pred_True)
qed

lemma enforced_indexes:
  "list_all (enforced rows) v1_indexes \<longleftrightarrow> distinct (map issue_key (filter stored_active rows))"
proof -
  have "distinct (map (\<lambda>r. [Some (wr_repo_id r), Some (wr_issue_ref r)]) rs) \<longleftrightarrow>
      distinct (map issue_key rs)" for rs :: workflow_table
    using distinct_map_inj [of "\<lambda>(a, b). [Some a, Some b]" issue_key rs]
    by (simp add: inj_def issue_key_def)
  then show ?thesis
    by (simp add: v1_indexes_def column_values stored_active_def [abs_def])
qed

subsection \<open>Properties\<close>



text \<open>C5: Of processes that initialize the same new database at the same time, exactly the first
  to take the lock migrates it: an initialization that succeeds leaves the complete healthy
  version 1 database, and it reports a migration exactly if no other process had migrated the
  file before.\<close>

theorem concurrent_initialization:
  assumes "adoptable d" and "initialize env path d = Some (Inr li, d')"
    and "ie_others env (wal d) \<in> {wal d, migrated c (wal d)}"
  shows "check_health quiet_health d' = Current 1 \<and>
    (li_migration_ran li \<longleftrightarrow> ie_others env (wal d) = wal d) \<and> (\<exists>c'. d' = migrated c' (wal d))"
proof -
  have "adoptable (wal d)" using assms(1) by simp
  moreover have "\<not> adoptable (migrated c (wal d))" by (simp add: adoptable_def)
  ultimately have "wal d \<noteq> migrated c (wal d)" by metis
  from initialize_initialized [OF assms(2)] show ?thesis
    by (cases rule: initialized.cases)
      (use assms(1,3) \<open>wal d \<noteq> migrated c (wal d)\<close> in \<open>auto simp: adoptable_def migrated_healthy\<close>)
qed

lemma quiet_initialize:
  assumes "has_parent path"
  shows "initialize (quiet_init c) path d =
    Some (case inspect_for_initialization (quiet_init c) path d of
       Inl e \<Rightarrow> (Inl e, d)
     | Inr v \<Rightarrow>
         (if v = 1
          then (Inr \<lparr>li_observed_schema_version = 1, li_schema_version = 1, li_migration_ran = False,
                     li_journal_mode = Wal\<rparr>, wal d)
          else (Inr \<lparr>li_observed_schema_version = 0, li_schema_version = 1, li_migration_ran = True,
                     li_journal_mode = Wal\<rparr>, migrated c (wal d))))"
proof (cases "inspect_for_initialization (quiet_init c) path d")
  case (Inl e)
  then show ?thesis by (simp add: initialize_def)
next
  case (Inr v)
  note v = inspect_for_Inr [OF Inr]
  have env: "ie_created_at (quiet_init c) = Inr c" "ie_others (quiet_init c) = (\<lambda>d. d)"
    "ie_readback_error (quiet_init c) = None" by (simp_all add: quiet_init_def)
  have fin: "finish_initialization (quiet_init c) 0 Wal (wal d) =
      (Inr \<lparr>li_observed_schema_version = 0, li_schema_version = 1, li_migration_ran = True,
            li_journal_mode = Wal\<rparr>, migrated c (wal d))" if "v = 0"
  proof -
    have "adoptable (wal d)" using v that by (simp add: adoptable_def)
    from quiet_migrations [OF this, of c] show ?thesis
      by (simp add: finish_initialization_def env CURRENT_SCHEMA_VERSION_def)
  qed
  have "d\<lparr>df_journal_mode := ''wal''\<rparr> = wal d" by (simp add: wal_def)
  note wal = this
  consider "v = 0" | "v = 1" using v by linarith
  then show ?thesis
    using Inr fin wal by cases (simp_all add: initialize_def quiet_journal CURRENT_SCHEMA_VERSION_def)
qed

theorem concurrent_initialization_witness:
  "\<exists>li d'. initialize (quiet_init ''now'') ''/x'' empty_file = Some (Inr li, d') \<and>
     check_health quiet_health d' = Current 1 \<and> li_migration_ran li"
proof -
  have "has_parent ''/x''" and ad: "adoptable empty_file"
    by (simp_all add: has_parent_def adoptable_def empty_file_def has_application_schema_def)
  then have init: "initialize (quiet_init ''now'') ''/x'' empty_file =
      Some (Inr \<lparr>li_observed_schema_version = 0, li_schema_version = 1, li_migration_ran = True,
        li_journal_mode = Wal\<rparr>, migrated ''now'' (wal empty_file))"
    by (simp add: quiet_initialize quiet_inspect adoptable_def)
  have "ie_others (quiet_init ''now'') (wal empty_file) \<in> {wal empty_file, migrated ''b'' (wal empty_file)}"
    by (simp add: quiet_init_def)
  from concurrent_initialization [OF ad init this] init show ?thesis by simp
qed

text \<open>C38: The read-only health check predicts what an undisturbed initialization does: it
  migrates exactly the files reported to require migration, refuses with the matching error what
  is reported as newer, conflicting or unreadable, and otherwise only confirms the version,
  also of a current file whose tables are reported as incomplete.\<close>

theorem health_predicts_initialization:
  assumes "has_parent path"
  shows "initialize (quiet_init created_at) path d =
    Some (case check_health quiet_health d of
       HealthNotReady (MigrationRequired v s) \<Rightarrow>
         (Inr \<lparr>li_observed_schema_version = v, li_schema_version = s, li_migration_ran = True,
               li_journal_mode = Wal\<rparr>, migrated created_at (wal d))
     | HealthNotReady (HealthUnsupportedSchemaVersion v s) \<Rightarrow> (Inl (UnsupportedSchemaVersion v s), d)
     | HealthNotReady HealthUnversionedSchemaConflict \<Rightarrow> (Inl UnversionedSchemaConflict, d)
     | HealthNotReady (InspectionFailure p f) \<Rightarrow> (Inl (ConfigurationFailed (IntegralValueOutOfRange 0)), d)
     | _ \<Rightarrow> (Inr \<lparr>li_observed_schema_version = 1, li_schema_version = 1, li_migration_ran = False,
                  li_journal_mode = Wal\<rparr>, wal d))"
proof -
  consider "df_user_version d < 0" | "df_user_version d = 0" | "df_user_version d = 1" | "df_user_version d > 1"
    by linarith
  then show ?thesis
    by cases (simp_all add: quiet_initialize [OF assms] quiet_inspect [OF assms] quiet_check split: prod.splits)
qed

theorem health_predicts_initialization_witness:
  "initialize (quiet_init ''now'') ''/x'' empty_file =
     Some (Inr \<lparr>li_observed_schema_version = 0, li_schema_version = 1, li_migration_ran = True,
       li_journal_mode = Wal\<rparr>, migrated ''now'' (wal empty_file))"
proof -
  have "has_parent ''/x''" by (simp add: has_parent_def)
  moreover have "check_health quiet_health empty_file = HealthNotReady (MigrationRequired 0 1)"
    by (simp add: quiet_check empty_file_def has_application_schema_def)
  ultimately show ?thesis using health_predicts_initialization [of "''/x''" "''now''" empty_file] by simp
qed

text \<open>Initialization returns: as each retry of the journal-mode switch sleeps at least ten
  milliseconds, one of the first 501 answers ends the five-second loop.\<close>

theorem initialize_returns:
  assumes "\<forall>n. ie_clock env n + 10 \<le> ie_clock env (Suc n)"
  shows "(\<exists>k \<le> 500. configure_journal_mode_bounded env = Some (configure_journal_mode (ie_journal_reply env k))) \<and>
    (\<exists>r. initialize env path d = Some r)"
proof -
  have "\<exists>k \<le> 500. configure_journal_mode_bounded env = Some (configure_journal_mode (ie_journal_reply env k))"
    unfolding configure_journal_mode_bounded_def by (rule journal_loop_result) (use assms in simp_all)
  then show ?thesis
    by (auto simp: initialize_def Let_def split: sum.splits option.splits)
qed

theorem initialize_returns_witness:
  "\<exists>r. initialize (quiet_init ''now'') ''/x'' empty_file = Some r"
  using initialize_returns [of "quiet_init ''now''" "''/x''" empty_file] by (simp add: quiet_init_def)

text \<open>The constraints that the table model checks on every write are exactly those of the
  version 1 schema: the primary key and the required columns of the table and the unique index
  on the issue of starting and running rows.\<close>

theorem v1_schema_enforces_constraints:
  "list_all (enforced rows) (v1_tables @ v1_indexes) \<longleftrightarrow> constraints_hold rows"
  by (simp add: enforced_tables enforced_indexes constraints_hold_def)

text \<open>A table named \<^verbatim>\<open>sqlitedata\<close> belongs to an application, but the pattern takes it for one of
  SQLite's own: a file with version zero that holds it is adopted instead of refused.\<close>

lemma sqlite_prefix_hides_application_schema:
  "adoptable (empty_file\<lparr>df_schema := [CreateTable ''sqlitedata'' [text_column ''v''] []]\<rparr>)"
  by (simp add: adoptable_def empty_file_def has_application_schema_def like_sqlite_internal_def
      eq_ignore_ascii_case_def)

end
