(* ===== verification/Reader.thy ===== *)
theory Reader
  imports Projector Local_State "HOL-Library.Sublist" "HOL-Library.Multiset"
begin

section \<open>Active reads (\<^verbatim>\<open>src/symphony/local_state/reader.rs\<close>)\<close>

text \<open>
  The reader answers which workflow is active for an issue or a scope, from a database that
  passed the read-only health check. The outcome of the check and of opening the file is the
  argument \<open>ReadAccess\<close>. SQLite orders text by bytes, which is the order on \<^typ>\<open>string\<close>.
\<close>

definition ACTIVE_WORKFLOW_LIST_LIMIT :: nat where
  "ACTIVE_WORKFLOW_LIST_LIMIT = 100"

datatype LocalStateReadFailure = Busy | CannotOpenFile | CorruptStorage | MalformedWorkflowIndex | Other

datatype LocalStateReaderError =
    NotReady LocalStateHealthDiagnostic
  | IssueRepositoryMismatch
  | ReadUnavailable LocalStateReadFailure

record ReadAccess =
  ra_health :: LocalStateHealth
  ra_open_error :: "SqliteError option"

fun conversion_failure :: "SqliteError \<Rightarrow> bool" where
  "conversion_failure (FromSqlConversionFailure i c v) = True"
| "conversion_failure (InvalidColumnType i c) = True"
| "conversion_failure (InvalidColumnName c) = True"
| "conversion_failure (Utf8Error i) = True"
| "conversion_failure (IntegralValueOutOfRange i) = True"
| "conversion_failure _ = False"

definition classify_read_error :: "SqliteError \<Rightarrow> LocalStateReaderError" where
  "classify_read_error e =
     ReadUnavailable
       (if is_busy e then Busy
        else if is_corrupt e then CorruptStorage
        else if e = SqliteFailure CannotOpen then CannotOpenFile
        else if conversion_failure e then MalformedWorkflowIndex
        else Other)"

definition open_ready_read_only :: "ReadAccess \<Rightarrow> (LocalStateReaderError, unit) result" where
  "open_ready_read_only ra =
     (case ra_health ra of
        HealthNotReady diagnostic \<Rightarrow> Inl (NotReady diagnostic)
      | Current version \<Rightarrow>
          (case ra_open_error ra of Some e \<Rightarrow> Inl (classify_read_error e) | None \<Rightarrow> Inr ()))"

definition active_status_spellings :: "string list" where
  "active_status_spellings = map status_as_str ACTIVE_WORKFLOW_STATUSES"

definition map_read_error :: "(SqliteError, 'a) result \<Rightarrow> (LocalStateReaderError, 'a) result" where
  "map_read_error r = (case r of Inl e \<Rightarrow> Inl (classify_read_error e) | Inr a \<Rightarrow> Inr a)"

definition find_active_workflow_for_issue ::
    "ReadAccess \<Rightarrow> workflow_table \<Rightarrow> RepoId \<Rightarrow> IssueRef \<Rightarrow>
     (LocalStateReaderError, WorkflowIndexRow option) result" where
  "find_active_workflow_for_issue ra db repo i =
     (if ir_repo_id i \<noteq> repo then Inl IssueRepositoryMismatch
      else and_then (open_ready_read_only ra) (\<lambda>_.
        map_read_error
          (query_row (\<lambda>s. wr_repo_id s = repo_database_key repo \<and> wr_issue_ref s = issue_database_key i \<and>
             wr_status s \<in> set active_status_spellings) db)))"

fun decode_rows :: "StoredRow list \<Rightarrow> (SqliteError, WorkflowIndexRow list) result" where
  "decode_rows [] = Inr []"
| "decode_rows (s # ss) =
     and_then (workflow_index_row s) (\<lambda>r. and_then (decode_rows ss) (\<lambda>rs. Inr (r # rs)))"

definition in_scope :: "WorkspaceRuntimeId \<Rightarrow> RepoId \<Rightarrow> StoredRow \<Rightarrow> bool" where
  "in_scope w repo s \<longleftrightarrow>
     wr_workspace_runtime_id s = w \<and> wr_repo_id s = repo_database_key repo \<and>
     wr_status s \<in> set active_status_spellings"

definition presentation_key :: "('s, 't, 'f) workflow_row \<Rightarrow> string \<times> string" where
  "presentation_key r = (wr_issue_ref r, wr_workflow_id r)"

definition list_active_workflows_for_scope ::
    "ReadAccess \<Rightarrow> workflow_table \<Rightarrow> WorkspaceRuntimeId \<Rightarrow> RepoId \<Rightarrow>
     (LocalStateReaderError, WorkflowIndexRow list) result" where
  "list_active_workflows_for_scope ra db w repo =
     and_then (open_ready_read_only ra) (\<lambda>_.
       map_read_error (decode_rows
         (take ACTIVE_WORKFLOW_LIST_LIMIT (sort_key presentation_key (filter (in_scope w repo) db)))))"

subsection \<open>Facts\<close>

lemma active_spellings: "v \<in> set active_status_spellings \<longleftrightarrow> v \<in> {''starting'', ''running''}"
  by (simp add: active_status_spellings_def ACTIVE_WORKFLOW_STATUSES_def)

lemma map_read_error_Inr [simp]: "map_read_error r = Inr a \<longleftrightarrow> r = Inr a"
  by (cases r) (simp_all add: map_read_error_def classify_read_error_def)

lemma decode_rows_encoded: "decode_rows (map encode_row rs) = Inr rs"
  by (induction rs) simp_all

lemma table_ok_rows:
  assumes "table_ok db"
  obtains rs where "db = map encode_row rs"
proof -
  have "\<exists>rs. ss = map encode_row rs" if "set ss \<subseteq> set db" for ss
    using that
  proof (induction ss)
    case (Cons s ss)
    then obtain r rs where "s = encode_row r" "ss = map encode_row rs"
      using table_ok_encoded [OF assms, of s] by auto
    then have "s # ss = map encode_row (r # rs)" by simp
    then show ?case by (rule exI)
  qed simp
  then show ?thesis using that by blast
qed

lemma sort_key_map: "sort_key f (map g xs) = map g (sort_key (f \<circ> g) xs)"
proof -
  have "insort_key f (g x) (map g xs) = map g (insort_key (f \<circ> g) x xs)" for x xs
    by (induction xs) auto
  then show ?thesis by (induction xs) auto
qed

lemma presentation_key_encode [simp]: "presentation_key (encode_row r) = presentation_key r"
  by (simp add: presentation_key_def)

lemma active_unique:
  assumes ok: "table_ok db" and "s \<in> set db" "t \<in> set db" and "stored_active s" "stored_active t"
    and "issue_key s = issue_key t"
  shows "s = t"
proof -
  have "distinct (map issue_key (filter stored_active db))"
    using ok by (simp add: table_ok_def constraints_hold_def)
  then have "inj_on issue_key (set (filter stored_active db))"
    by (simp add: distinct_map)
  then show ?thesis using assms(2-6) by (auto dest: inj_onD)
qed

lemma find_unique:
  assumes "x \<in> set xs" and "p x" and "\<And>y. y \<in> set xs \<Longrightarrow> p y \<Longrightarrow> y = x"
  shows "find p xs = Some x"
proof -
  obtain y where y: "find p xs = Some y" using find_Some_ex [of x xs p] assms(1,2) by blast
  then have "y = x" using find_Some_mem [OF y] assms(3) by blast
  with y show ?thesis by simp
qed

definition active_for_issue :: "workflow_table \<Rightarrow> RepoId \<Rightarrow> IssueRef \<Rightarrow> WorkflowIndexRow \<Rightarrow> bool" where
  "active_for_issue db repo i r \<longleftrightarrow>
     encode_row r \<in> set db \<and> status_is_active (wr_status r) \<and>
     issue_key r = (repo_database_key repo, issue_database_key i)"

lemma query_active:
  assumes ok: "table_ok db"
  shows "query_row (\<lambda>s. wr_repo_id s = a \<and> wr_issue_ref s = b \<and> wr_status s \<in> set active_status_spellings) db =
      Inr found \<longleftrightarrow>
    (case found of
       Some r \<Rightarrow> encode_row r \<in> set db \<and> status_is_active (wr_status r) \<and> issue_key r = (a, b)
     | None \<Rightarrow> \<not> (\<exists>r. encode_row r \<in> set db \<and> status_is_active (wr_status r) \<and> issue_key r = (a, b)))"
proof -
  let ?p = "\<lambda>s. wr_repo_id s = a \<and> wr_issue_ref s = b \<and> wr_status s \<in> set active_status_spellings"
  have p: "?p s \<longleftrightarrow> stored_active s \<and> issue_key s = (a, b)" for s
    by (auto simp: active_spellings stored_active_def issue_key_def)
  show ?thesis
  proof (cases found)
    case None
    have "query_row ?p db = Inr None \<longleftrightarrow> find ?p db = None"
    proof (cases "find ?p db")
      case (Some s)
      obtain r where "s = encode_row r" using table_ok_encoded [OF ok] find_Some_mem [OF Some] by blast
      then have "query_row ?p db = Inr (Some r)" unfolding query_row_def Some by simp
      with Some show ?thesis by simp
    qed (simp add: query_row_def)
    also have "\<dots> \<longleftrightarrow> \<not> (\<exists>s. s \<in> set db \<and> stored_active s \<and> issue_key s = (a, b))"
      by (auto simp: find_None_iff p)
    also have "\<dots> \<longleftrightarrow> \<not> (\<exists>r. encode_row r \<in> set db \<and> status_is_active (wr_status r) \<and> issue_key r = (a, b))"
      using table_ok_encoded [OF ok] by (metis encode_columns(2) stored_active_encode)
    finally show ?thesis by (simp add: None)
  next
    case (Some r)
    have "find ?p db = Some (encode_row r) \<longleftrightarrow> encode_row r \<in> set db \<and> ?p (encode_row r)"
    proof
      assume "find ?p db = Some (encode_row r)"
      from find_Some_mem [OF this] show "encode_row r \<in> set db \<and> ?p (encode_row r)" .
    next
      assume r: "encode_row r \<in> set db \<and> ?p (encode_row r)"
      show "find ?p db = Some (encode_row r)"
      proof (rule find_unique)
        fix y assume "y \<in> set db" "?p y"
        then show "y = encode_row r"
          using r p active_unique [OF ok, of y "encode_row r"] by metis
      qed (use r in simp_all)
    qed
    then show ?thesis
      unfolding Some query_row_Some [OF ok] p by simp
  qed
qed

definition active_in_scope ::
    "workflow_table \<Rightarrow> WorkspaceRuntimeId \<Rightarrow> RepoId \<Rightarrow> WorkflowIndexRow set" where
  "active_in_scope db w repo =
     {r. encode_row r \<in> set db \<and> status_is_active (wr_status r) \<and> wr_workspace_runtime_id r = w \<and>
         wr_repo_id r = repo_database_key repo}"

lemma in_scope_encode:
  "in_scope w repo (encode_row r) \<longleftrightarrow>
     status_is_active (wr_status r) \<and> wr_workspace_runtime_id r = w \<and> wr_repo_id r = repo_database_key repo"
proof -
  have "wr_workspace_runtime_id (encode_row r) = wr_workspace_runtime_id r"
    by (simp add: encode_row_def convert_row_def)
  moreover have "wr_status s \<in> set active_status_spellings \<longleftrightarrow> stored_active s" for s
    by (simp add: active_spellings stored_active_def)
  ultimately show ?thesis by (auto simp: in_scope_def)
qed

lemma encode_row_inject [simp]: "encode_row r = encode_row r' \<longleftrightarrow> r = r'"
  by (metis decode_encode sum.inject(2))

text \<open>The rows in scope, in presentation order, of a table in which every row can be read.\<close>

lemma listed_rows:
  assumes ok: "table_ok db" and ready: "open_ready_read_only ra = Inr ()"
  obtains rs where "list_active_workflows_for_scope ra db w repo = Inr (take 100 rs)"
    and "set rs = active_in_scope db w repo" and "distinct (map wr_workflow_id rs)"
    and "sorted (map presentation_key rs)"
proof -
  obtain rows where db: "db = map encode_row rows" using table_ok_rows [OF ok] .
  let ?rs = "sort_key presentation_key (filter (in_scope w repo \<circ> encode_row) rows)"
  have d: "distinct (map wr_workflow_id rows)"
    using ok by (simp add: table_ok_def constraints_hold_def db comp_def)
  have key: "presentation_key \<circ> encode_row = presentation_key" by (simp add: fun_eq_iff)
  have "list_active_workflows_for_scope ra db w repo = Inr (take 100 ?rs)"
    by (simp add: list_active_workflows_for_scope_def ready ACTIVE_WORKFLOW_LIST_LIMIT_def db filter_map
        sort_key_map key take_map decode_rows_encoded)
  moreover have "set ?rs = active_in_scope db w repo"
    by (auto simp: active_in_scope_def db in_scope_encode)
  moreover have "distinct (map wr_workflow_id ?rs)"
    using d by (simp add: distinct_map inj_on_def)
  ultimately show ?thesis by (rule that) simp
qed

definition ready_access :: ReadAccess where
  "ready_access = \<lparr>ra_health = Current 1, ra_open_error = None\<rparr>"

lemma ready_access_opens: "open_ready_read_only ready_access = Inr ()"
  by (simp add: open_ready_read_only_def ready_access_def)

subsection \<open>Properties\<close>

text \<open>The active read of an issue is exact: over a ready database it returns a row exactly
  if that row is the stored starting or running row of the issue, and it returns nothing exactly
  if no such row exists; an unready database or a foreign repository is an error and never
  reads as absence.\<close>

theorem find_active_exact:
  assumes "table_ok db"
  shows "(find_active_workflow_for_issue ra db repo i = Inr (Some r) \<longleftrightarrow>
      ir_repo_id i = repo \<and> open_ready_read_only ra = Inr () \<and> active_for_issue db repo i r) \<and>
    (find_active_workflow_for_issue ra db repo i = Inr None \<longleftrightarrow>
      ir_repo_id i = repo \<and> open_ready_read_only ra = Inr () \<and> \<not> (\<exists>r. active_for_issue db repo i r))"
proof (cases "ir_repo_id i = repo \<and> open_ready_read_only ra = Inr ()")
  case True
  then show ?thesis
    by (simp add: find_active_workflow_for_issue_def query_active [OF assms] active_for_issue_def)
next
  case False
  then show ?thesis
    by (cases "open_ready_read_only ra") (auto simp: find_active_workflow_for_issue_def)
qed

theorem find_active_exact_witness:
  "find_active_workflow_for_issue ready_access [encode_row first_row] (fa_repo_id (episode ''w1''))
     (fa_issue_ref (episode ''w1'')) = Inr (Some first_row)"
proof -
  have "active_for_issue [encode_row first_row] (fa_repo_id (episode ''w1'')) (fa_issue_ref (episode ''w1'')) first_row"
    by (simp add: active_for_issue_def first_row_def described_row_def issue_key_def status_is_active_def)
  with find_active_exact [OF first_table(1), of ready_access "fa_repo_id (episode ''w1'')"
      "fa_issue_ref (episode ''w1'')" first_row]
  show ?thesis by (simp add: ready_access_opens)
qed

text \<open>The active list of a scope over a ready database always succeeds and holds, each once
  and ordered by issue and then Workflow ID, the first hundred starting and running rows of the
  runtime and repository: no row outside the scope, and none left out that precedes one listed.\<close>

theorem list_active_first_hundred:
  assumes "table_ok db" and "open_ready_read_only ra = Inr ()"
  shows "\<exists>rs. list_active_workflows_for_scope ra db w repo = Inr rs \<and>
    set rs \<subseteq> active_in_scope db w repo \<and> distinct (map wr_workflow_id rs) \<and>
    sorted (map presentation_key rs) \<and> length rs = min 100 (card (active_in_scope db w repo)) \<and>
    \<not> (\<exists>r \<in> set rs. \<exists>r' \<in> active_in_scope db w repo - set rs. presentation_key r' < presentation_key r)"
proof -
  from listed_rows [OF assms, of w repo] obtain rs where rs:
    "list_active_workflows_for_scope ra db w repo = Inr (take 100 rs)"
    "set rs = active_in_scope db w repo" "distinct (map wr_workflow_id rs)" "sorted (map presentation_key rs)" .
  have "distinct rs" using rs(3) by (simp add: distinct_map)
  then have card: "card (active_in_scope db w repo) = length rs" by (simp add: distinct_card flip: rs(2))
  have le: "presentation_key r \<le> presentation_key r'" if "r \<in> set (take 100 rs)" "r' \<in> set rs - set (take 100 rs)" for r r'
  proof -
    have "r' \<in> set (drop 100 rs)"
      using that(2) by (metis DiffE UnE append_take_drop_id set_append)
    moreover have "sorted (map presentation_key (take 100 rs) @ map presentation_key (drop 100 rs))"
      using rs(4) by (simp flip: map_append)
    ultimately show ?thesis using that(1) by (simp add: sorted_append)
  qed
  have "distinct (map wr_workflow_id (take 100 rs))" "sorted (map presentation_key (take 100 rs))"
    using rs(3,4) by (simp_all add: take_map sorted_wrt_take flip: take_map)
  moreover have "set (take 100 rs) \<subseteq> active_in_scope db w repo"
    using set_take_subset [of 100 rs] by (simp add: rs(2))
  moreover have "\<not> (\<exists>r \<in> set (take 100 rs). \<exists>r' \<in> active_in_scope db w repo - set (take 100 rs).
      presentation_key r' < presentation_key r)"
    using le unfolding rs(2) by (meson leD)
  ultimately show ?thesis using rs(1) card by (auto intro!: exI [of _ "take 100 rs"])
qed

theorem list_active_first_hundred_witness:
  "\<exists>rs. list_active_workflows_for_scope ready_access [encode_row first_row] ''rt'' (fa_repo_id (episode ''w1'')) =
     Inr rs \<and> length rs = min 100 (card (active_in_scope [encode_row first_row] ''rt'' (fa_repo_id (episode ''w1''))))"
  using list_active_first_hundred [OF first_table(1) ready_access_opens, of "''rt''" "fa_repo_id (episode ''w1'')"]
  by blast

end
