(* ===== verification/Transition_Contract.thy ===== *)
theory Transition_Contract
  imports Tracker_State Coordinator
begin

section \<open>Temporal contracts (\<^verbatim>\<open>src/symphony/dto.rs\<close>, \<^verbatim>\<open>src/symphony/activities.rs\<close>)\<close>

text \<open>
  The payloads that Temporal keeps in its history: the input and state of an issue workflow,
  the compact tracker transition with its idempotency key, and the placeholder activities
  that answer without side effects. The transparent newtypes around a compact string
  (\<^verbatim>\<open>CompactTransitionValue\<close> and the ones built from it) are strings that passed
  \<open>compact_transition_value_new\<close>. Serialisation to JSON is not modelled; what
  \<^verbatim>\<open>Deserialize\<close> checks of a value is.
\<close>

subsection \<open>Workflow payloads\<close>

record IssueWorkflowInput =
  wi_workflow_id :: string
  wi_repo_id :: string
  wi_tracker_backend :: string
  wi_issue_ref :: string
  wi_from_tracker_state :: string
  wi_target_kind :: string
  wi_source_kind :: string
  wi_source_ref :: string
  wi_source_tracker_revision :: string
  wi_started_at :: string
  wi_audit_reason :: string
  wi_operator_action_ref :: "string option"
  wi_capacity_policy_ref :: "string option"

record IssueWorkflowState =
  ws_workflow_id :: string
  ws_run_id :: "string option"
  ws_repo_id :: string
  ws_issue_ref :: string
  ws_current_tracker_state :: string
  ws_active_step :: string
  ws_terminal_outcome :: "string option"
  ws_artifact_refs :: "string list"
  ws_runtime_health_summary :: string

record IssueWorkflowQueryResult =
  wq_workflow_id :: string
  wq_run_id :: "string option"
  wq_issue_ref :: string
  wq_current_tracker_state :: string
  wq_active_step :: string
  wq_terminal_outcome :: "string option"
  wq_runtime_health_summary :: string
  wq_artifact_refs :: "string list"

definition issue_workflow_state_from_input ::
    "IssueWorkflowInput \<Rightarrow> string option \<Rightarrow> IssueWorkflowState" where
  "issue_workflow_state_from_input i run =
     \<lparr>ws_workflow_id = wi_workflow_id i, ws_run_id = run, ws_repo_id = wi_repo_id i,
      ws_issue_ref = wi_issue_ref i, ws_current_tracker_state = wi_from_tracker_state i,
      ws_active_step = ''noop:'' @ wi_target_kind i, ws_terminal_outcome = None,
      ws_artifact_refs = [], ws_runtime_health_summary = ''initialized''\<rparr>"

definition issue_workflow_query_result :: "IssueWorkflowState \<Rightarrow> IssueWorkflowQueryResult" where
  "issue_workflow_query_result s =
     \<lparr>wq_workflow_id = ws_workflow_id s, wq_run_id = ws_run_id s, wq_issue_ref = ws_issue_ref s,
      wq_current_tracker_state = ws_current_tracker_state s, wq_active_step = ws_active_step s,
      wq_terminal_outcome = ws_terminal_outcome s,
      wq_runtime_health_summary = ws_runtime_health_summary s,
      wq_artifact_refs = ws_artifact_refs s\<rparr>"

record NoopActivityRequest =
  nr_workflow_id :: string
  nr_activity_kind :: string
  nr_issue_ref :: string

record NoopActivityResult =
  no_outcome :: string
  no_summary :: string
  no_artifact_refs :: "string list"

definition noop_success :: "NoopActivityRequest \<Rightarrow> NoopActivityResult" where
  "noop_success r =
     \<lparr>no_outcome = ''noop_success'',
      no_summary = nr_activity_kind r @ '' completed without side effects for '' @ nr_issue_ref r,
      no_artifact_refs = []\<rparr>"

definition noop_not_implemented :: "NoopActivityRequest \<Rightarrow> NoopActivityResult" where
  "noop_not_implemented r =
     \<lparr>no_outcome = ''not_implemented'',
      no_summary = nr_activity_kind r @ '' is registered but intentionally inert for '' @ nr_issue_ref r,
      no_artifact_refs = []\<rparr>"

subsection \<open>Compact transition values\<close>

definition MAX_COMPACT_TRANSITION_VALUE_BYTES :: nat where
  "MAX_COMPACT_TRANSITION_VALUE_BYTES = 256"

definition MAX_TRANSITION_EVIDENCE_REFS :: nat where
  "MAX_TRANSITION_EVIDENCE_REFS = 8"

definition MAX_TRANSITION_IDEMPOTENCY_KEY_BYTES :: nat where
  "MAX_TRANSITION_IDEMPOTENCY_KEY_BYTES = 4096"

definition TRANSITION_IDEMPOTENCY_KEY_VERSION :: string where
  "TRANSITION_IDEMPOTENCY_KEY_VERSION = ''symphony.transition.v1''"

datatype TrackerTransitionContractError =
    EmptyValue string
  | ValueTooLong string nat
  | ControlCharacter string
  | TooManyEvidenceRefs nat
  | UnsupportedIdempotencyKeyVersion

datatype TrackerTransitionRequestError =
    StateResolution TrackerStateResolutionError
  | Contract TrackerTransitionContractError

type_synonym CompactTransitionValue = string

definition compact_transition_value_new ::
    "string \<Rightarrow> string \<Rightarrow> (TrackerTransitionContractError, CompactTransitionValue) result" where
  "compact_transition_value_new field v =
     (if trim v = [] then Inl (EmptyValue field)
      else if utf8_len v > MAX_COMPACT_TRANSITION_VALUE_BYTES
      then Inl (ValueTooLong field MAX_COMPACT_TRANSITION_VALUE_BYTES)
      else if list_ex is_control v then Inl (ControlCharacter field)
      else Inr v)"

record TrackerTransitionIssueRef =
  tr_tracker_kind :: CompactTransitionValue
  tr_repository :: CompactTransitionValue
  tr_issue :: CompactTransitionValue

definition tracker_transition_issue_ref_new ::
    "string \<Rightarrow> string \<Rightarrow> string \<Rightarrow> (TrackerTransitionContractError, TrackerTransitionIssueRef) result" where
  "tracker_transition_issue_ref_new kind repository issue =
     and_then (compact_transition_value_new ''issue_ref.tracker_kind'' kind) (\<lambda>k.
     and_then (compact_transition_value_new ''issue_ref.repository'' repository) (\<lambda>r.
     and_then (compact_transition_value_new ''issue_ref.issue'' issue) (\<lambda>i.
     Inr \<lparr>tr_tracker_kind = k, tr_repository = r, tr_issue = i\<rparr>)))"

definition tracker_state_new :: "string \<Rightarrow> (TrackerTransitionContractError, CompactTransitionValue) result" where
  "tracker_state_new v = compact_transition_value_new ''tracker state'' v"

definition tracker_transition_workflow_id_new ::
    "string \<Rightarrow> (TrackerTransitionContractError, CompactTransitionValue) result" where
  "tracker_transition_workflow_id_new v = compact_transition_value_new ''workflow_id'' v"

definition tracker_transition_kind_new ::
    "string \<Rightarrow> (TrackerTransitionContractError, CompactTransitionValue) result" where
  "tracker_transition_kind_new v = compact_transition_value_new ''transition_kind'' v"

definition tracker_transition_requester_new ::
    "string \<Rightarrow> (TrackerTransitionContractError, CompactTransitionValue) result" where
  "tracker_transition_requester_new v = compact_transition_value_new ''requester'' v"

record TrackerTransitionReason =
  re_code :: CompactTransitionValue
  re_detail :: "CompactTransitionValue option"

definition optional_compact ::
    "string \<Rightarrow> string option \<Rightarrow> (TrackerTransitionContractError, CompactTransitionValue option) result" where
  "optional_compact field v =
     (case v of
        None \<Rightarrow> Inr None
      | Some s \<Rightarrow> and_then (compact_transition_value_new field s) (\<lambda>c. Inr (Some c)))"

definition tracker_transition_reason_new ::
    "string \<Rightarrow> string option \<Rightarrow> (TrackerTransitionContractError, TrackerTransitionReason) result" where
  "tracker_transition_reason_new c detail =
     and_then (compact_transition_value_new ''reason.code'' c) (\<lambda>rc.
     and_then (optional_compact ''reason.detail'' detail) (\<lambda>d.
     Inr \<lparr>re_code = rc, re_detail = d\<rparr>))"

fun compact_all :: "string \<Rightarrow> string list \<Rightarrow> (TrackerTransitionContractError, CompactTransitionValue list) result" where
  "compact_all field [] = Inr []"
| "compact_all field (v # vs) =
     and_then (compact_transition_value_new field v) (\<lambda>c.
     and_then (compact_all field vs) (\<lambda>cs. Inr (c # cs)))"

definition evidence_refs_from_values ::
    "CompactTransitionValue list \<Rightarrow> (TrackerTransitionContractError, CompactTransitionValue list) result" where
  "evidence_refs_from_values refs =
     (if length refs > MAX_TRANSITION_EVIDENCE_REFS
      then Inl (TooManyEvidenceRefs MAX_TRANSITION_EVIDENCE_REFS) else Inr refs)"

definition evidence_refs_new ::
    "string list \<Rightarrow> (TrackerTransitionContractError, CompactTransitionValue list) result" where
  "evidence_refs_new refs = and_then (compact_all ''evidence reference'' refs) evidence_refs_from_values"

subsection \<open>The idempotency key\<close>

definition append_length_prefixed_key_component :: "string \<Rightarrow> string \<Rightarrow> string" where
  "append_length_prefixed_key_component output component =
     output @ '':'' @ show_nat (utf8_len component) @ '':'' @ component"

definition transition_ingredients ::
    "CompactTransitionValue \<Rightarrow> TrackerTransitionIssueRef \<Rightarrow> CompactTransitionValue \<Rightarrow>
     CompactTransitionValue \<Rightarrow> CompactTransitionValue \<Rightarrow> u32 \<Rightarrow> string list" where
  "transition_ingredients w i from_st to_st kind slot =
     [w, tr_tracker_kind i, tr_repository i, tr_issue i, from_st, to_st, kind, show_nat (unat slot)]"

definition for_transition ::
    "CompactTransitionValue \<Rightarrow> TrackerTransitionIssueRef \<Rightarrow> CompactTransitionValue \<Rightarrow>
     CompactTransitionValue \<Rightarrow> CompactTransitionValue \<Rightarrow> u32 \<Rightarrow> string" where
  "for_transition w i from_st to_st kind slot =
     foldl append_length_prefixed_key_component TRANSITION_IDEMPOTENCY_KEY_VERSION
       (transition_ingredients w i from_st to_st kind slot)"

text \<open>What \<^verbatim>\<open>Deserialize\<close> requires of a key.\<close>

definition idempotency_key_deserialize :: "string \<Rightarrow> (TrackerTransitionContractError, string) result" where
  "idempotency_key_deserialize v =
     (if \<not> starts_with v (TRANSITION_IDEMPOTENCY_KEY_VERSION @ '':'') then Inl UnsupportedIdempotencyKeyVersion
      else if utf8_len v > MAX_TRANSITION_IDEMPOTENCY_KEY_BYTES
      then Inl (ValueTooLong ''idempotency_key'' MAX_TRANSITION_IDEMPOTENCY_KEY_BYTES)
      else if list_ex is_control v then Inl (ControlCharacter ''idempotency_key'')
      else Inr v)"

subsection \<open>Transition requests and results\<close>

datatype TrackerTransitionOutcome =
    Committed | AlreadyApplied | Conflict | Rejected | RetryLater | NeedHumanInput | UnhandledError

datatype TrackerTransitionConflictReason =
    ExternalStateChanged | ExternalTerminalState | ExpectedStateMissing | ProjectSchemaChanged
  | PermissionOrScopeMissing | MalformedRequest | ReadbackInconsistent

record TrackerTransitionRequest =
  tq_workflow_id :: CompactTransitionValue
  tq_run_id :: "CompactTransitionValue option"
  tq_issue_ref :: TrackerTransitionIssueRef
  tq_expected_from_state :: CompactTransitionValue
  tq_requested_to_state :: CompactTransitionValue
  tq_transition_kind :: CompactTransitionValue
  tq_requester :: CompactTransitionValue
  tq_reason :: TrackerTransitionReason
  tq_evidence_refs :: "CompactTransitionValue list"
  tq_attempt_slot :: u32
  tq_idempotency_key :: string

definition lift_contract ::
    "(TrackerTransitionContractError, 'a) result \<Rightarrow> (TrackerTransitionRequestError, 'a) result" where
  "lift_contract r = (case r of Inl e \<Rightarrow> Inl (Contract e) | Inr a \<Rightarrow> Inr a)"

definition resolve_transition_state ::
    "StateMap \<Rightarrow> string \<Rightarrow> (TrackerTransitionRequestError, CompactTransitionValue) result" where
  "resolve_transition_state m input =
     (case resolve_configured_tracker_state m input of
        Inl e \<Rightarrow> Inl (StateResolution e)
      | Inr r \<Rightarrow> lift_contract (tracker_state_new (rt_canonical_key r)))"

definition tracker_transition_request_new ::
    "StateMap \<Rightarrow> string \<Rightarrow> string option \<Rightarrow> TrackerTransitionIssueRef \<Rightarrow> string \<Rightarrow> string \<Rightarrow>
     CompactTransitionValue \<Rightarrow> CompactTransitionValue \<Rightarrow> TrackerTransitionReason \<Rightarrow>
     CompactTransitionValue list \<Rightarrow> u32 \<Rightarrow>
     (TrackerTransitionRequestError, TrackerTransitionRequest) result" where
  "tracker_transition_request_new m w run i from_st to_st kind requester reason refs slot =
     and_then (lift_contract (tracker_transition_workflow_id_new w)) (\<lambda>w'.
     and_then (lift_contract (optional_compact ''run_id'' run)) (\<lambda>run'.
     and_then (resolve_transition_state m from_st) (\<lambda>from'.
     and_then (resolve_transition_state m to_st) (\<lambda>to'.
     Inr \<lparr>tq_workflow_id = w', tq_run_id = run', tq_issue_ref = i, tq_expected_from_state = from',
          tq_requested_to_state = to', tq_transition_kind = kind, tq_requester = requester,
          tq_reason = reason, tq_evidence_refs = refs, tq_attempt_slot = slot,
          tq_idempotency_key = for_transition w' i from' to' kind slot\<rparr>))))"

record TrackerTransitionResult =
  ts_outcome :: TrackerTransitionOutcome
  ts_issue_ref :: TrackerTransitionIssueRef
  ts_observed_from_state :: "CompactTransitionValue option"
  ts_committed_to_state :: "CompactTransitionValue option"
  ts_conflict_reason :: "TrackerTransitionConflictReason option"
  ts_evidence_refs :: "CompactTransitionValue list"
  ts_audit_ref :: "CompactTransitionValue option"
  ts_retry_after_ms :: "u64 option"
  ts_summary :: CompactTransitionValue

definition inert_summary :: string where
  "inert_summary = ''TrackerTransitionActivity is registered but intentionally inert (not implemented); no tracker mutation was attempted''"

definition transition_not_implemented :: "TrackerTransitionRequest \<Rightarrow> TrackerTransitionResult" where
  "transition_not_implemented r =
     \<lparr>ts_outcome = Rejected, ts_issue_ref = tq_issue_ref r, ts_observed_from_state = None,
      ts_committed_to_state = None, ts_conflict_reason = None, ts_evidence_refs = [],
      ts_audit_ref = None, ts_retry_after_ms = None, ts_summary = inert_summary\<rparr>"

subsection \<open>Activities\<close>

definition TEMPORAL_SMOKE_ISSUE_PREFIX :: string where
  "TEMPORAL_SMOKE_ISSUE_PREFIX = ''synthetic:temporal-smoke:''"

definition MAX_TEMPORAL_SMOKE_QUERY_HOLD_MS :: nat where
  "MAX_TEMPORAL_SMOKE_QUERY_HOLD_MS = 5000"

definition smoke_query_hold_from_values ::
    "string \<Rightarrow> string option \<Rightarrow> string option \<Rightarrow> nat option" where
  "smoke_query_hold_from_values issue smoke_enabled v =
     (if smoke_enabled \<notin> {Some ''1'', Some ''true'', Some ''yes''} \<or>
         \<not> starts_with issue TEMPORAL_SMOKE_ISSUE_PREFIX
      then None
      else Option.bind v (\<lambda>s. Option.bind (parse_u64 s) (\<lambda>ms.
             if 0 < ms \<and> ms \<le> MAX_TEMPORAL_SMOKE_QUERY_HOLD_MS then Some ms else None)))"

text \<open>The environment's two variables are arguments; the hold is the delay before the answer.\<close>

definition noop_core_activity ::
    "string option \<Rightarrow> string option \<Rightarrow> NoopActivityRequest \<Rightarrow> nat option \<times> NoopActivityResult" where
  "noop_core_activity smoke_enabled hold r =
     (smoke_query_hold_from_values (nr_issue_ref r) smoke_enabled hold, noop_success r)"

definition tracker_transition_activity :: "TrackerTransitionRequest \<Rightarrow> TrackerTransitionResult" where
  "tracker_transition_activity r = transition_not_implemented r"

subsection \<open>Facts: the key\<close>

lemma compact_Inr:
  "compact_transition_value_new field v = Inr c \<longleftrightarrow>
     c = v \<and> \<not> blank v \<and> utf8_len v \<le> 256 \<and> \<not> list_ex is_control v"
  by (auto simp: compact_transition_value_new_def MAX_COMPACT_TRANSITION_VALUE_BYTES_def)

definition key_component :: "string \<Rightarrow> string" where
  "key_component c = CHR '':'' # show_nat (utf8_len c) @ CHR '':'' # c"

lemma for_transition_components:
  "for_transition w i f t k slot =
     TRANSITION_IDEMPOTENCY_KEY_VERSION @ concat (map key_component (transition_ingredients w i f t k slot))"
proof -
  have "foldl append_length_prefixed_key_component out cs = out @ concat (map key_component cs)" for out cs
    by (induction cs arbitrary: out) (simp_all add: append_length_prefixed_key_component_def key_component_def)
  then show ?thesis by (simp add: for_transition_def)
qed

lemma utf8_len_0_iff: "utf8_len s = 0 \<longleftrightarrow> s = []"
  using length_le_utf8_len [of s] by auto

lemma same_bytes_prefix:
  assumes "a @ r = b @ s" and "utf8_len a = utf8_len b"
  shows "a = b \<and> r = s"
proof -
  from assms(1) obtain us where "a = b @ us \<and> us @ r = s \<or> a @ us = b \<and> r = us @ s"
    by (auto simp: append_eq_append_conv2)
  with assms(2) have "utf8_len us = 0" by auto
  with \<open>a = b @ us \<and> us @ r = s \<or> a @ us = b \<and> r = us @ s\<close> show ?thesis
    by (auto simp: utf8_len_0_iff)
qed

lemma key_component_inject:
  assumes "key_component a @ r = key_component b @ s"
  shows "a = b \<and> r = s"
proof -
  have "show_nat (utf8_len a) @ CHR '':'' # (a @ r) = show_nat (utf8_len b) @ CHR '':'' # (b @ s)"
    using assms by (simp add: key_component_def)
  from delimited_inject [OF this] have "utf8_len a = utf8_len b" "a @ r = b @ s"
    by simp_all
  then show ?thesis by (intro same_bytes_prefix)
qed

lemma key_components_inject:
  "length as = length bs \<Longrightarrow> concat (map key_component as) = concat (map key_component bs) \<Longrightarrow> as = bs"
proof (induction as bs rule: list_induct2)
  case (Cons a as b bs)
  then show ?case using key_component_inject [of a _ b] by auto
qed simp

lemma for_transition_inject:
  "for_transition w i f t k slot = for_transition w' i' f' t' k' slot' \<longleftrightarrow>
     w = w' \<and> i = i' \<and> f = f' \<and> t = t' \<and> k = k' \<and> slot = slot'"
proof -
  have "for_transition w i f t k slot = for_transition w' i' f' t' k' slot' \<longleftrightarrow>
      transition_ingredients w i f t k slot = transition_ingredients w' i' f' t' k' slot'"
    using key_components_inject [of "transition_ingredients w i f t k slot"
        "transition_ingredients w' i' f' t' k' slot'"]
    by (auto simp: for_transition_components) (simp add: transition_ingredients_def)
  then show ?thesis
    by (auto simp: transition_ingredients_def word_unat_eq_iff)
qed

definition compact :: "string \<Rightarrow> bool" where
  "compact v \<longleftrightarrow> \<not> blank v \<and> utf8_len v \<le> 256 \<and> \<not> list_ex is_control v"

lemma digits_ascii: "\<forall>c \<in> set (show_nat n). code c < 128"
  using show_nat_digits by (fastforce simp: is_ascii_digit_def)

lemma digits_no_control: "\<not> list_ex is_control (show_nat n)"
  using show_nat_digits by (fastforce simp: list_ex_iff is_ascii_digit_def is_control_def)

lemma show_nat_bytes: "n < 10 ^ Suc k \<Longrightarrow> utf8_len (show_nat n) \<le> Suc k"
  using length_show_nat by (simp add: utf8_len_ascii digits_ascii)

lemma key_component_bytes: "utf8_len c \<le> 256 \<Longrightarrow> utf8_len (key_component c) \<le> 261"
  using show_nat_bytes [of "utf8_len c" 2] by (simp add: key_component_def utf8_len_char_def)

lemma key_component_control: "list_ex is_control (key_component c) \<longleftrightarrow> list_ex is_control c"
  using digits_no_control [of "utf8_len c"] by (simp add: key_component_def is_control_def)

lemma slot_bytes: "utf8_len (show_nat (unat (slot :: u32))) \<le> 10"
proof -
  have "unat slot < 2 ^ LENGTH(32)" by (rule unsigned_less)
  then show ?thesis using show_nat_bytes [of "unat slot" 9] by simp
qed

lemma key_accepted:
  assumes "compact w" and "compact (tr_tracker_kind i)" and "compact (tr_repository i)"
    and "compact (tr_issue i)" and "compact f" and "compact t" and "compact k"
  shows "idempotency_key_deserialize (for_transition w i f t k slot) = Inr (for_transition w i f t k slot)"
proof -
  let ?key = "for_transition w i f t k slot"
  let ?rest = "show_nat (utf8_len w) @ CHR '':'' # w @ concat (map key_component
      [tr_tracker_kind i, tr_repository i, tr_issue i, f, t, k, show_nat (unat slot)])"
  have "?key = (TRANSITION_IDEMPOTENCY_KEY_VERSION @ '':'') @ ?rest"
    by (simp add: for_transition_components transition_ingredients_def key_component_def)
  then have start: "starts_with ?key (TRANSITION_IDEMPOTENCY_KEY_VERSION @ '':'')"
    unfolding starts_with_def by (metis option.distinct(1) strip_prefix_append)
  have version: "utf8_len TRANSITION_IDEMPOTENCY_KEY_VERSION = 22"
    "\<not> list_ex is_control TRANSITION_IDEMPOTENCY_KEY_VERSION"
    by (simp_all add: TRANSITION_IDEMPOTENCY_KEY_VERSION_def utf8_len_char_def is_control_def)
  have bytes: "utf8_len (key_component c) \<le> 261" if "compact c" for c
    using that key_component_bytes by (simp add: compact_def)
  have "utf8_len (key_component (show_nat (unat slot))) \<le> 261"
    using key_component_bytes slot_bytes [of slot] by simp
  then have len: "utf8_len ?key \<le> 4096"
    using bytes [OF assms(1)] bytes [OF assms(2)] bytes [OF assms(3)] bytes [OF assms(4)]
      bytes [OF assms(5)] bytes [OF assms(6)] bytes [OF assms(7)]
    by (simp add: for_transition_components transition_ingredients_def version)
  have "\<not> list_ex is_control ?key"
    using assms version(2) digits_no_control [of "unat slot"]
    by (simp add: for_transition_components transition_ingredients_def key_component_control compact_def)
  with start len show ?thesis
    by (simp add: idempotency_key_deserialize_def MAX_TRANSITION_IDEMPOTENCY_KEY_BYTES_def)
qed

lemma canonical_key_determines:
  assumes "resolve_configured_tracker_state m a = Inr x" and "resolve_configured_tracker_state m b = Inr y"
    and "rt_canonical_key x = rt_canonical_key y"
  shows "x = y"
proof -
  have "(rt_canonical_key x, rt_display_value x) \<in> set (configured_states m)"
    "(rt_canonical_key y, rt_display_value y) \<in> set (configured_states m)"
    using assms(1,2) by (auto simp: resolve_Inr_iff named_states_def)
  with assms(3) have "rt_display_value x = rt_display_value y"
    using configured_key_functional by metis
  with assms(3) show ?thesis by simp
qed

lemma lift_contract_Inr: "lift_contract r = Inr a \<longleftrightarrow> r = Inr a"
  by (cases r) (simp_all add: lift_contract_def)

lemma resolve_transition_state_Inr:
  "resolve_transition_state m input = Inr c \<longleftrightarrow>
     (\<exists>r. resolve_configured_tracker_state m input = Inr r \<and> c = rt_canonical_key r \<and> compact c)"
  by (auto simp: resolve_transition_state_def lift_contract_Inr tracker_state_new_def compact_Inr
      compact_def split: sum.splits)

lemma request_new_fields:
  assumes "tracker_transition_request_new m w run i f t k rq reason refs slot = Inr r"
  shows "\<exists>x y. resolve_configured_tracker_state m f = Inr x \<and> resolve_configured_tracker_state m t = Inr y \<and>
    tq_idempotency_key r = for_transition w i (rt_canonical_key x) (rt_canonical_key y) k slot \<and>
    compact w \<and> compact (rt_canonical_key x) \<and> compact (rt_canonical_key y)"
  using assms
  by (auto simp: tracker_transition_request_new_def and_then_Inr_iff lift_contract_Inr
      resolve_transition_state_Inr tracker_transition_workflow_id_new_def compact_Inr compact_def)

subsection \<open>Properties\<close>

text \<open>C36: Two transition requests carry the same idempotency key exactly when they intend the
  same side effect: same workflow, same issue, states that resolve to the same configured
  states, same transition kind and same attempt slot. How the states are spelled, the run, the
  requester, the reason and the evidence do not matter, and no delimiter inside an opaque
  tracker string makes two different intents collide.\<close>

theorem idempotency_key_identifies_intent:
  assumes "tracker_transition_request_new m w run i f t k rq reason refs slot = Inr r"
    and "tracker_transition_request_new m w' run' i' f' t' k' rq' reason' refs' slot' = Inr r'"
  shows "tq_idempotency_key r = tq_idempotency_key r' \<longleftrightarrow>
    w = w' \<and> i = i' \<and> resolve_configured_tracker_state m f = resolve_configured_tracker_state m f' \<and>
    resolve_configured_tracker_state m t = resolve_configured_tracker_state m t' \<and> k = k' \<and> slot = slot'"
proof -
  obtain x y where 1: "resolve_configured_tracker_state m f = Inr x" "resolve_configured_tracker_state m t = Inr y"
    "tq_idempotency_key r = for_transition w i (rt_canonical_key x) (rt_canonical_key y) k slot"
    using request_new_fields [OF assms(1)] by blast
  obtain x' y' where 2: "resolve_configured_tracker_state m f' = Inr x'" "resolve_configured_tracker_state m t' = Inr y'"
    "tq_idempotency_key r' = for_transition w' i' (rt_canonical_key x') (rt_canonical_key y') k' slot'"
    using request_new_fields [OF assms(2)] by blast
  have "rt_canonical_key x = rt_canonical_key x' \<longleftrightarrow> x = x'"
    using canonical_key_determines [OF 1(1) 2(1)] by blast
  moreover have "rt_canonical_key y = rt_canonical_key y' \<longleftrightarrow> y = y'"
    using canonical_key_determines [OF 1(2) 2(2)] by blast
  ultimately show ?thesis
    by (simp add: 1 2 for_transition_inject)
qed

definition example_transition_issue :: TrackerTransitionIssueRef where
  "example_transition_issue = \<lparr>tr_tracker_kind = ''github'', tr_repository = ''a:1/b'', tr_issue = ''#7''\<rparr>"

definition example_transition :: "string \<Rightarrow> string \<Rightarrow> (TrackerTransitionRequestError, TrackerTransitionRequest) result" where
  "example_transition f t =
     tracker_transition_request_new default_state_map ''wf'' None example_transition_issue f t ''advance''
       ''agent'' \<lparr>re_code = ''ready'', re_detail = None\<rparr> [] 1"

lemma example_resolves:
  "resolve_configured_tracker_state default_state_map ''Todo'' = Inr \<lparr>rt_canonical_key = ''todo'', rt_display_value = ''Todo''\<rparr>"
  "resolve_configured_tracker_state default_state_map ''todo'' = Inr \<lparr>rt_canonical_key = ''todo'', rt_display_value = ''Todo''\<rparr>"
  "resolve_configured_tracker_state default_state_map ''in_progress'' =
     Inr \<lparr>rt_canonical_key = ''in_progress'', rt_display_value = ''In Progress''\<rparr>"
  by (simp_all add: resolve_configured_tracker_state_def configured_states_def default_state_map_def
      accepts_def normalized_spellings)

lemma example_compact: "compact ''wf''" "compact ''todo''" "compact ''in_progress''"
  by (simp_all add: compact_def text_eval)

lemma example_transition_built:
  "f \<in> {''Todo'', ''todo''} \<Longrightarrow> \<exists>r. example_transition f ''in_progress'' = Inr r"
  using example_compact
  by (auto simp: example_transition_def tracker_transition_request_new_def optional_compact_def lift_contract_def
      tracker_transition_workflow_id_new_def resolve_transition_state_def example_resolves tracker_state_new_def
      compact_transition_value_new_def compact_def MAX_COMPACT_TRANSITION_VALUE_BYTES_def)

theorem idempotency_key_identifies_intent_witness:
  "\<exists>r r'. example_transition ''Todo'' ''in_progress'' = Inr r \<and> example_transition ''todo'' ''in_progress'' = Inr r' \<and>
     tq_idempotency_key r = tq_idempotency_key r'"
proof -
  obtain r r' where rr: "example_transition ''Todo'' ''in_progress'' = Inr r"
    "example_transition ''todo'' ''in_progress'' = Inr r'"
    using example_transition_built [of "''Todo''"] example_transition_built [of "''todo''"] by auto
  have "tq_idempotency_key r = tq_idempotency_key r'"
    by (rule iffD2 [OF idempotency_key_identifies_intent [OF rr [unfolded example_transition_def]]])
      (simp add: example_resolves)
  with rr show ?thesis by blast
qed

text \<open>The key of every request over validated parts is accepted when the payload is read
  back from history: it has the version prefix, is at most 4096 bytes and has no control
  character, so no replay can fail on a key that was written.\<close>

theorem idempotency_key_survives_history:
  assumes "tracker_transition_issue_ref_new a b c = Inr i" and "tracker_transition_kind_new d = Inr k"
    and "tracker_transition_request_new m w run i f t k rq reason refs slot = Inr r"
  shows "idempotency_key_deserialize (tq_idempotency_key r) = Inr (tq_idempotency_key r)"
proof -
  obtain x y :: ResolvedTrackerState where "tq_idempotency_key r = for_transition w i (rt_canonical_key x) (rt_canonical_key y) k slot"
    "compact w" "compact (rt_canonical_key x)" "compact (rt_canonical_key y)"
    using request_new_fields [OF assms(3)] by blast
  moreover have "compact (tr_tracker_kind i)" "compact (tr_repository i)" "compact (tr_issue i)" "compact k"
    using assms(1,2)
    by (auto simp: tracker_transition_issue_ref_new_def and_then_Inr_iff tracker_transition_kind_new_def
        compact_Inr compact_def)
  ultimately show ?thesis using key_accepted by simp
qed

theorem idempotency_key_survives_history_witness:
  "\<exists>r. example_transition ''Todo'' ''in_progress'' = Inr r \<and>
     idempotency_key_deserialize (tq_idempotency_key r) = Inr (tq_idempotency_key r)"
proof -
  have parts: "tracker_transition_issue_ref_new ''github'' ''a:1/b'' ''#7'' = Inr example_transition_issue"
    "tracker_transition_kind_new ''advance'' = Inr ''advance''"
    by (simp_all add: tracker_transition_issue_ref_new_def tracker_transition_kind_new_def and_then_Inr_iff
        compact_transition_value_new_def MAX_COMPACT_TRANSITION_VALUE_BYTES_def example_transition_issue_def text_eval)
  obtain r where r: "example_transition ''Todo'' ''in_progress'' = Inr r"
    using example_transition_built [of "''Todo''"] by auto
  from idempotency_key_survives_history [OF parts r [unfolded example_transition_def]] r show ?thesis by blast
qed

text \<open>Every Workflow ID the Coordinator issues satisfies the transition contract's
  requirements on a workflow identity, so a started workflow can always name itself in a
  transition request.\<close>

theorem coordinator_id_is_transition_workflow_id:
  assumes "evaluate r ob = Inr (Executable a)"
  shows "tracker_transition_workflow_id_new (ea_workflow_id a) = Inr (ea_workflow_id a)"
proof -
  from assms obtain k where id: "ea_workflow_id a = workflow_id_text r (os_state ob) k"
    and len: "utf8_len (ea_workflow_id a) \<le> 256"
    by (auto simp: evaluate_Executable_iff)
  have printable: "33 \<le> code c \<and> code c \<le> 126" if "c \<in> set (ea_workflow_id a)" for c
    using that by (simp add: id id_text_printable)
  have "ea_workflow_id a \<noteq> []" by (simp add: id workflow_id_fields)
  then obtain c where c: "c \<in> set (ea_workflow_id a)" by (cases "ea_workflow_id a") auto
  have "\<not> is_whitespace c" using printable [OF c] by (auto simp: is_whitespace_def)
  then have "\<not> blank (ea_workflow_id a)" using c by (auto simp: trim_Nil_iff)
  moreover have "\<not> list_ex is_control (ea_workflow_id a)"
    using printable by (fastforce simp: list_ex_iff is_control_def)
  ultimately show ?thesis
    using len by (simp add: tracker_transition_workflow_id_new_def compact_Inr)
qed

theorem coordinator_id_is_transition_workflow_id_witness:
  "\<exists>a. evaluate (example_request ''why'') \<lparr>os_state = Todo, os_revision = ''r1''\<rparr> = Inr (Executable a) \<and>
     tracker_transition_workflow_id_new (ea_workflow_id a) = Inr (ea_workflow_id a)"
proof -
  obtain a where a: "evaluate (example_request ''why'') \<lparr>os_state = Todo, os_revision = ''r1''\<rparr> =
      Inr (Executable a)"
    by (simp add: evaluate_Executable_iff example_id expectation_stale_def text_eval)
      (simp add: example_request_def)
  from coordinator_id_is_transition_workflow_id [OF a] a show ?thesis by blast
qed

end
