(* ===== verification/Coordinator_Start.thy ===== *)
theory Coordinator_Start
  imports Coordinator Transition_Contract
begin

section \<open>Starting an activation (\<^verbatim>\<open>src/symphony/coordinator/start.rs\<close>)\<close>

text \<open>
  One invocation starts the workflow of an executable activation and describes it once. The
  trait \<^verbatim>\<open>CoordinatorTemporalAdapter\<close> is the record of its two operations, which pass the
  adapter's own state along; the Temporal service and SDK behind them are arguments of the
  model. A gRPC status code is its number in the gRPC protocol.
\<close>

datatype CoordinatorTemporalPhase = ConnectPhase | StartPhase | DescribePhase

datatype CoordinatorFailureKind =
    InputConfigurationPayload
  | DefinitiveServerRejection
  | UnavailableOrIndeterminate
  | MalformedProtocolEvidence

datatype CoordinatorSdkErrorVariant =
    InvalidConfiguration
  | ClientConnect
  | ClientConstruction
  | PayloadConversion
  | SdkAlreadyStarted
  | Rpc
  | NotFound
  | SdkOther
  | EvidenceValidation

type_synonym Code = nat

definition Code_AlreadyExists :: Code where
  "Code_AlreadyExists = 6"

record CoordinatorStartFailure =
  sf_phase :: CoordinatorTemporalPhase
  sf_kind :: CoordinatorFailureKind
  sf_workflow_id :: WorkflowId
  sf_known_run_id :: "string option"
  sf_sdk_error_variant :: CoordinatorSdkErrorVariant
  sf_grpc_code :: "Code option"

datatype CoordinatorStartEvidence =
    Accepted string
  | AlreadyStarted "string option"
  | Indeterminate

fun known_run_id :: "CoordinatorStartEvidence \<Rightarrow> string option" where
  "known_run_id (Accepted run_id) = Some run_id"
| "known_run_id (AlreadyStarted run_id) = run_id"
| "known_run_id Indeterminate = None"

datatype CoordinatorTemporalStatus =
    TemporalRunning
  | TemporalCompleted
  | TemporalFailed
  | TemporalCanceled
  | TemporalTerminated
  | TemporalContinuedAsNew
  | TemporalTimedOut
  | TemporalPaused

fun temporal_status_as_str :: "CoordinatorTemporalStatus \<Rightarrow> string" where
  "temporal_status_as_str TemporalRunning = ''running''"
| "temporal_status_as_str TemporalCompleted = ''completed''"
| "temporal_status_as_str TemporalFailed = ''failed''"
| "temporal_status_as_str TemporalCanceled = ''canceled''"
| "temporal_status_as_str TemporalTerminated = ''terminated''"
| "temporal_status_as_str TemporalContinuedAsNew = ''continued_as_new''"
| "temporal_status_as_str TemporalTimedOut = ''timed_out''"
| "temporal_status_as_str TemporalPaused = ''paused''"

definition temporal_status_is_open :: "CoordinatorTemporalStatus \<Rightarrow> bool" where
  "temporal_status_is_open st \<longleftrightarrow> st \<in> {TemporalRunning, TemporalPaused}"

datatype CoordinatorExecutionObservation =
    ExecutionOpen WorkflowId string OffsetDateTime CoordinatorTemporalStatus
  | ExecutionClosed WorkflowId string OffsetDateTime CoordinatorTemporalStatus
  | ExecutionDescribeRequired

record CoordinatorStartResult =
  sr_workflow_id :: WorkflowId
  sr_start_evidence :: CoordinatorStartEvidence
  sr_execution_observation :: CoordinatorExecutionObservation
  sr_start_failure :: "CoordinatorStartFailure option"
  sr_already_started_grpc_code :: "Code option"
  sr_already_started_sdk_error_variant :: "CoordinatorSdkErrorVariant option"
  sr_describe_failure :: "CoordinatorStartFailure option"

record CoordinatorDescribeEvidence =
  de_workflow_id :: string
  de_run_id :: string
  de_temporal_started_at :: "OffsetDateTime option"
  de_status :: "CoordinatorTemporalStatus option"

datatype CoordinatorAdapterStart =
    AdapterAccepted string
  | AdapterAlreadyStarted "string option" Code
  | AdapterIndeterminate CoordinatorStartFailure

record 's CoordinatorTemporalAdapter =
  start_issue_workflow ::
    "IssueWorkflowInput \<Rightarrow> 's \<Rightarrow> (CoordinatorStartFailure, CoordinatorAdapterStart) result \<times> 's"
  describe_issue_workflow ::
    "WorkflowId \<Rightarrow> string option \<Rightarrow> 's \<Rightarrow>
     (CoordinatorStartFailure, CoordinatorDescribeEvidence) result \<times> 's"

subsection \<open>Evidence\<close>

definition nonempty_run_id :: "string \<Rightarrow> string option" where
  "nonempty_run_id run_id = (if run_id \<noteq> [] then Some run_id else None)"

definition malformed_failure ::
    "CoordinatorTemporalPhase \<Rightarrow> WorkflowId \<Rightarrow> string option \<Rightarrow> CoordinatorStartFailure" where
  "malformed_failure phase w run =
     \<lparr>sf_phase = phase, sf_kind = MalformedProtocolEvidence, sf_workflow_id = w, sf_known_run_id = run,
      sf_sdk_error_variant = EvidenceValidation, sf_grpc_code = None\<rparr>"

record NormalizedStart =
  ns_evidence :: CoordinatorStartEvidence
  ns_failure :: "CoordinatorStartFailure option"
  ns_already_started_grpc_code :: "Code option"
  ns_already_started_sdk_error_variant :: "CoordinatorSdkErrorVariant option"

fun normalize_start ::
    "WorkflowId \<Rightarrow> CoordinatorAdapterStart \<Rightarrow> (CoordinatorStartFailure, NormalizedStart) result" where
  "normalize_start w (AdapterAccepted run_id) =
     (if run_id \<noteq> []
      then Inr \<lparr>ns_evidence = Accepted run_id, ns_failure = None, ns_already_started_grpc_code = None,
                ns_already_started_sdk_error_variant = None\<rparr>
      else Inl (malformed_failure StartPhase w (nonempty_run_id run_id)))"
| "normalize_start w (AdapterAlreadyStarted run_id grpc_code) =
     (if run_id \<noteq> Some [] \<and> grpc_code = Code_AlreadyExists
      then Inr \<lparr>ns_evidence = AlreadyStarted run_id, ns_failure = None,
                ns_already_started_grpc_code = Some grpc_code,
                ns_already_started_sdk_error_variant = Some SdkAlreadyStarted\<rparr>
      else Inl \<lparr>sf_phase = StartPhase, sf_kind = MalformedProtocolEvidence, sf_workflow_id = w,
                sf_known_run_id = filter_option (\<lambda>v. v \<noteq> []) run_id,
                sf_sdk_error_variant = EvidenceValidation, sf_grpc_code = Some grpc_code\<rparr>)"
| "normalize_start w (AdapterIndeterminate failure) =
     Inr \<lparr>ns_evidence = Indeterminate, ns_failure = Some failure, ns_already_started_grpc_code = None,
          ns_already_started_sdk_error_variant = None\<rparr>"

definition normalize_current_describe ::
    "WorkflowId \<Rightarrow> string option \<Rightarrow> CoordinatorDescribeEvidence \<Rightarrow>
     (CoordinatorStartFailure, CoordinatorExecutionObservation) result" where
  "normalize_current_describe w expected d =
     (let valid_identity =
            de_workflow_id d = w \<and> de_run_id d \<noteq> [] \<and>
            (case expected of None \<Rightarrow> True | Some run_id \<Rightarrow> run_id = de_run_id d);
          known = or_else expected (nonempty_run_id (de_run_id d))
      in case de_temporal_started_at d of
           None \<Rightarrow> Inl (malformed_failure DescribePhase w known)
         | Some started \<Rightarrow>
        (case de_status d of
           None \<Rightarrow> Inl (malformed_failure DescribePhase w known)
         | Some st \<Rightarrow>
        (if \<not> valid_identity then Inl (malformed_failure DescribePhase w known)
         else if temporal_status_is_open st then Inr (ExecutionOpen w (de_run_id d) started st)
         else Inr (ExecutionClosed w (de_run_id d) started st))))"

subsection \<open>Start, then describe\<close>

definition format_rfc3339_utc_seconds :: "OffsetDateTime \<Rightarrow> string" where
  "format_rfc3339_utc_seconds t =
     show_year (dt_year t) @ ''-'' @ pad0 2 (dt_month t) @ ''-'' @ pad0 2 (dt_day t) @ ''T'' @
     pad0 2 (dt_hour t) @ '':'' @ pad0 2 (dt_minute t) @ '':'' @ pad0 2 (dt_second t) @ ''Z''"

definition issue_workflow_input :: "CoordinatorExecutableActivation \<Rightarrow> IssueWorkflowInput" where
  "issue_workflow_input a =
     \<lparr>wi_workflow_id = ea_workflow_id a,
      wi_repo_id = repo_database_key (ir_repo_id (ea_issue_ref a)),
      wi_tracker_backend = backend_as_str (ir_tracker_backend (ea_issue_ref a)),
      wi_issue_ref = display_ref (ea_issue_ref a),
      wi_from_tracker_state = tracker_state_as_str (os_state (ea_observed a)),
      wi_target_kind = target_kind_as_str (ea_target_kind a),
      wi_source_kind = source_kind_as_str (ea_source_kind a),
      wi_source_ref = ea_source_ref a,
      wi_source_tracker_revision = os_revision (ea_observed a),
      wi_started_at = format_rfc3339_utc_seconds (ea_episode_time a),
      wi_audit_reason = ea_audit_reason a,
      wi_operator_action_ref =
        (if ea_source_kind a = OperatorAction then Some (ea_source_ref a) else None),
      wi_capacity_policy_ref = None\<rparr>"

definition observe_described ::
    "WorkflowId \<Rightarrow> string option \<Rightarrow> (CoordinatorStartFailure, CoordinatorDescribeEvidence) result \<Rightarrow>
     CoordinatorExecutionObservation \<times> CoordinatorStartFailure option" where
  "observe_described w known described =
     (case described of
        Inl failure \<Rightarrow> (ExecutionDescribeRequired, Some failure)
      | Inr evidence \<Rightarrow>
          (case normalize_current_describe w known evidence of
             Inl failure \<Rightarrow> (ExecutionDescribeRequired, Some failure)
           | Inr observation \<Rightarrow> (observation, None)))"

definition start_executable_activation ::
    "'s CoordinatorTemporalAdapter \<Rightarrow> CoordinatorExecutableActivation \<Rightarrow> 's \<Rightarrow>
     (CoordinatorStartFailure, CoordinatorStartResult) result \<times> 's" where
  "start_executable_activation adapter a s =
     (case start_issue_workflow adapter (issue_workflow_input a) s of
        (Inl e, s1) \<Rightarrow> (Inl e, s1)
      | (Inr adapter_start, s1) \<Rightarrow>
     (case normalize_start (ea_workflow_id a) adapter_start of
        Inl e \<Rightarrow> (Inl e, s1)
      | Inr ns \<Rightarrow>
     (let known = known_run_id (ns_evidence ns);
          (described, s2) = describe_issue_workflow adapter (ea_workflow_id a) known s1;
          (observation, describe_failure) = observe_described (ea_workflow_id a) known described
      in (Inr \<lparr>sr_workflow_id = ea_workflow_id a, sr_start_evidence = ns_evidence ns,
               sr_execution_observation = observation, sr_start_failure = ns_failure ns,
               sr_already_started_grpc_code = ns_already_started_grpc_code ns,
               sr_already_started_sdk_error_variant = ns_already_started_sdk_error_variant ns,
               sr_describe_failure = describe_failure\<rparr>, s2))))"

subsection \<open>The requests of an invocation\<close>

text \<open>An adapter that behaves like another one and also writes down every request it issues.\<close>

datatype TemporalRequest =
    StartRequest IssueWorkflowInput
  | DescribeRequest WorkflowId "string option"

definition recording :: "'s CoordinatorTemporalAdapter \<Rightarrow> ('s \<times> TemporalRequest list) CoordinatorTemporalAdapter" where
  "recording ad =
     \<lparr>start_issue_workflow = (\<lambda>i (s, reqs).
        case start_issue_workflow ad i s of (r, s') \<Rightarrow> (r, s', reqs @ [StartRequest i])),
      describe_issue_workflow = (\<lambda>w run (s, reqs).
        case describe_issue_workflow ad w run s of (r, s') \<Rightarrow> (r, s', reqs @ [DescribeRequest w run]))\<rparr>"

lemma recording_calls [simp]:
  "start_issue_workflow ad i s = (r, s') \<Longrightarrow>
   start_issue_workflow (recording ad) i (s, reqs) = (r, s', reqs @ [StartRequest i])"
  "describe_issue_workflow ad w run s = (d, s') \<Longrightarrow>
   describe_issue_workflow (recording ad) w run (s, reqs) = (d, s', reqs @ [DescribeRequest w run])"
  by (simp_all add: recording_def)

text \<open>The three ways an invocation can go.\<close>

lemma start_cases:
  obtains (refused) e s1 where "start_issue_workflow ad (issue_workflow_input a) s = (Inl e, s1)"
      "start_executable_activation ad a s = (Inl e, s1)"
  | (malformed) start e s1 where "start_issue_workflow ad (issue_workflow_input a) s = (Inr start, s1)"
      "normalize_start (ea_workflow_id a) start = Inl e" "start_executable_activation ad a s = (Inl e, s1)"
  | (observed) start s1 ns described s2 ob failure where
      "start_issue_workflow ad (issue_workflow_input a) s = (Inr start, s1)"
      "normalize_start (ea_workflow_id a) start = Inr ns"
      "describe_issue_workflow ad (ea_workflow_id a) (known_run_id (ns_evidence ns)) s1 = (described, s2)"
      "observe_described (ea_workflow_id a) (known_run_id (ns_evidence ns)) described = (ob, failure)"
      "start_executable_activation ad a s =
         (Inr \<lparr>sr_workflow_id = ea_workflow_id a, sr_start_evidence = ns_evidence ns,
               sr_execution_observation = ob, sr_start_failure = ns_failure ns,
               sr_already_started_grpc_code = ns_already_started_grpc_code ns,
               sr_already_started_sdk_error_variant = ns_already_started_sdk_error_variant ns,
               sr_describe_failure = failure\<rparr>, s2)"
proof (cases "start_issue_workflow ad (issue_workflow_input a) s")
  case st: (Pair r s1)
  show ?thesis
  proof (cases r)
    case (Inl e)
    with st refused show ?thesis by (simp add: start_executable_activation_def)
  next
    case r: (Inr start)
    show ?thesis
    proof (cases "normalize_start (ea_workflow_id a) start")
      case (Inl e)
      with st r malformed show ?thesis by (simp add: start_executable_activation_def)
    next
      case (Inr ns)
      obtain described s2 where d:
        "describe_issue_workflow ad (ea_workflow_id a) (known_run_id (ns_evidence ns)) s1 = (described, s2)"
        by fastforce
      obtain ob failure where o:
        "observe_described (ea_workflow_id a) (known_run_id (ns_evidence ns)) described = (ob, failure)"
        by fastforce
      show ?thesis
        by (rule observed) (use st r Inr d o in \<open>simp_all add: start_executable_activation_def\<close>)
    qed
  qed
qed

lemma normalize_start_evidence:
  assumes "normalize_start w start = Inr ns"
  shows "known_run_id (ns_evidence ns) \<noteq> Some []"
    and "ns_failure ns = None \<longleftrightarrow> ns_evidence ns \<noteq> Indeterminate"
    and "ns_already_started_grpc_code ns = Some Code_AlreadyExists \<longleftrightarrow>
      ns_evidence ns \<in> range AlreadyStarted"
  using assms by (cases start; auto split: if_splits)+

lemma describe_Inr_iff:
  "normalize_current_describe w expected d = Inr ob \<longleftrightarrow>
     de_workflow_id d = w \<and> de_run_id d \<noteq> [] \<and> expected \<in> {None, Some (de_run_id d)} \<and>
     (\<exists>t st. de_temporal_started_at d = Some t \<and> de_status d = Some st \<and>
        ob = (if temporal_status_is_open st then ExecutionOpen w (de_run_id d) t st
              else ExecutionClosed w (de_run_id d) t st))"
  by (auto simp: normalize_current_describe_def Let_def split: option.splits if_splits)

text \<open>What an observation of a workflow may say: its own identity, a real run that is the known
  one if a run is known, and a status of the right side of the open/closed divide.\<close>

fun valid_observation :: "WorkflowId \<Rightarrow> string option \<Rightarrow> CoordinatorExecutionObservation \<Rightarrow> bool" where
  "valid_observation w known (ExecutionOpen w' run t st) \<longleftrightarrow>
     w' = w \<and> run \<noteq> [] \<and> known \<in> {None, Some run} \<and> temporal_status_is_open st"
| "valid_observation w known (ExecutionClosed w' run t st) \<longleftrightarrow>
     w' = w \<and> run \<noteq> [] \<and> known \<in> {None, Some run} \<and> \<not> temporal_status_is_open st"
| "valid_observation w known ExecutionDescribeRequired \<longleftrightarrow> False"

lemma normalize_valid: "normalize_current_describe w known d = Inr ob \<Longrightarrow> valid_observation w known ob"
  by (auto simp: describe_Inr_iff)

lemma observe_described_valid:
  "observe_described w known described = (ob, failure) \<Longrightarrow>
   (if failure = None then valid_observation w known ob else ob = ExecutionDescribeRequired)"
  by (auto simp: observe_described_def normalize_valid split: sum.splits)

subsection \<open>Properties\<close>

text \<open>C29: One invocation issues exactly one start request, for the activation's own input, and
  afterwards at most one Describe: none if the start failed, and otherwise one of the exact
  Workflow ID, pinned to the run the start made known. Recording the requests changes nothing
  else.\<close>

theorem start_requests_exact:
  "(case start_executable_activation (recording ad) a (s, reqs) of
      (r, s', reqs') \<Rightarrow>
        start_executable_activation ad a s = (r, s') \<and>
        reqs' = reqs @ StartRequest (issue_workflow_input a) #
          (case r of
             Inl _ \<Rightarrow> []
           | Inr result \<Rightarrow> [DescribeRequest (ea_workflow_id a) (known_run_id (sr_start_evidence result))]))"
proof (cases rule: start_cases [of ad a s])
  case (observed start s1 ns described s2 ob failure)
  then show ?thesis by (simp add: start_executable_activation_def [of "recording ad"])
qed (simp_all add: start_executable_activation_def [of "recording ad"])

text \<open>A result never claims more than its evidence: it names the activation's Workflow ID,
  a known run is never empty, an uncertain start keeps its diagnostic, and the execution is
  either reported by valid Describe evidence for that identity and run or marked as still to be
  described together with the failure. A start without a result is a refusal by the adapter or
  malformed start evidence.\<close>

theorem start_result_sound:
  "case fst (start_executable_activation ad a s) of
     Inr result \<Rightarrow>
       sr_workflow_id result = ea_workflow_id a \<and>
       known_run_id (sr_start_evidence result) \<noteq> Some [] \<and>
       (sr_start_failure result = None \<longleftrightarrow> sr_start_evidence result \<noteq> Indeterminate) \<and>
       (if sr_describe_failure result = None
        then valid_observation (ea_workflow_id a) (known_run_id (sr_start_evidence result))
               (sr_execution_observation result)
        else sr_execution_observation result = ExecutionDescribeRequired)
   | Inl e \<Rightarrow>
       fst (start_issue_workflow ad (issue_workflow_input a) s) = Inl e \<or>
       sf_phase e = StartPhase \<and> sf_kind e = MalformedProtocolEvidence \<and> sf_workflow_id e = ea_workflow_id a"
proof (cases rule: start_cases [of ad a s])
  case (malformed start e s1)
  then show ?thesis
    by (cases start) (auto simp: malformed_failure_def split: if_splits)
next
  case (observed start s1 ns described s2 ob failure)
  with normalize_start_evidence [OF observed(2)] observe_described_valid [OF observed(4)]
  show ?thesis by simp
qed simp

text \<open>Describe evidence is accepted exactly if it names the expected workflow, a non-empty
  run that equals the expected run if there is one, a start time and a status; what is accepted
  is reported unchanged, as open exactly for a running or paused execution. Everything else is
  one malformed-evidence failure that names the expected workflow and the run that is known.\<close>

theorem normalize_current_describe_exact:
  "normalize_current_describe w expected d =
     (case (de_temporal_started_at d, de_status d) of
        (Some t, Some st) \<Rightarrow>
          (if de_workflow_id d = w \<and> de_run_id d \<noteq> [] \<and> expected \<in> {None, Some (de_run_id d)}
           then Inr (if st \<in> {TemporalRunning, TemporalPaused} then ExecutionOpen w (de_run_id d) t st
                     else ExecutionClosed w (de_run_id d) t st)
           else Inl (malformed_failure DescribePhase w (if expected \<noteq> None then expected
             else if de_run_id d = [] then None else Some (de_run_id d))))
      | _ \<Rightarrow> Inl (malformed_failure DescribePhase w (if expected \<noteq> None then expected
             else if de_run_id d = [] then None else Some (de_run_id d))))"
  by (cases expected)
    (auto simp: normalize_current_describe_def Let_def nonempty_run_id_def temporal_status_is_open_def
      split: option.splits)

end
