(* ===== verification/Reconcile.thy ===== *)
theory Reconcile
  imports Reader Coordinator_Start
begin

section \<open>Targeted reconciliation (\<^verbatim>\<open>src/symphony/coordinator/reconcile.rs\<close>)\<close>

text \<open>
  A repair describes one activation's workflow, reads the issue's active binding and projects the
  described execution. Other processes may write between the read and the projection, so the
  model takes the table the reader sees and the table the projection starts from as two
  arguments. \<^verbatim>\<open>unreachable!\<close> and the failing \<^verbatim>\<open>debug_assert!\<close> are the value \<^const>\<open>None\<close>.
\<close>

record CoordinatorReconciliationRequest =
  rq_activation :: CoordinatorExecutableActivation
  rq_workspace_runtime_id :: WorkspaceRuntimeId
  rq_observed_at :: OffsetDateTime

datatype CoordinatorReconciliationRequestError = EmptyWorkspaceRuntimeId

definition reconciliation_request_new ::
    "CoordinatorExecutableActivation \<Rightarrow> WorkspaceRuntimeId \<Rightarrow> OffsetDateTime \<Rightarrow>
     (CoordinatorReconciliationRequestError, CoordinatorReconciliationRequest) result" where
  "reconciliation_request_new a w t =
     (if trim w = [] then Inl EmptyWorkspaceRuntimeId
      else Inr \<lparr>rq_activation = a, rq_workspace_runtime_id = w, rq_observed_at = t\<rparr>)"

record CoordinatorProjectionConflict =
  pc_local_active_binding :: "WorkflowIndexRow option"
  pc_outcome :: WorkflowLifecycleProjectionOutcome

datatype CoordinatorReconciliationNoWriteOutcome =
    TemporalNotFound CoordinatorStartFailure
  | TemporalUnavailable CoordinatorStartFailure
  | MalformedDescribe CoordinatorStartFailure
  | TemporalRejected CoordinatorStartFailure
  | LocalBindingUnavailable LocalStateReaderError
  | ProjectionUnavailable LocalStateError
  | ProjectionConflict CoordinatorProjectionConflict

datatype CoordinatorReconciliationOutcome =
    ReconcileApplied "WorkflowIndexRow option" WorkflowIndexRow
  | ReconcileAlreadyApplied "WorkflowIndexRow option" WorkflowIndexRow
  | NoWrite CoordinatorReconciliationNoWriteOutcome

record CoordinatorReconciliationResult =
  rr_workflow_id :: WorkflowId
  rr_outcome :: CoordinatorReconciliationOutcome

definition classify_describe_failure ::
    "CoordinatorStartFailure \<Rightarrow> CoordinatorReconciliationNoWriteOutcome" where
  "classify_describe_failure failure =
     (case sf_sdk_error_variant failure of
        NotFound \<Rightarrow> TemporalNotFound failure
      | EvidenceValidation \<Rightarrow> MalformedDescribe failure
      | PayloadConversion \<Rightarrow> MalformedDescribe failure
      | _ \<Rightarrow>
          (if sf_kind failure = DefinitiveServerRejection then TemporalRejected failure
           else TemporalUnavailable failure))"

fun close_status :: "CoordinatorTemporalStatus \<Rightarrow> WorkflowCloseStatus option option" where
  "close_status TemporalCompleted = Some (Some CloseCompleted)"
| "close_status TemporalFailed = Some (Some CloseFailed)"
| "close_status TemporalCanceled = Some (Some CloseCancelled)"
| "close_status TemporalTerminated = Some (Some CloseTerminated)"
| "close_status TemporalTimedOut = Some (Some CloseTimedOut)"
| "close_status TemporalContinuedAsNew = Some None"
| "close_status TemporalRunning = None"
| "close_status TemporalPaused = None"

definition activation_facts :: "CoordinatorReconciliationRequest \<Rightarrow> ActivationFacts" where
  "activation_facts q =
     (let a = rq_activation q in
      \<lparr>fa_workflow_id = ea_workflow_id a, fa_workspace_runtime_id = rq_workspace_runtime_id q,
       fa_repo_id = ir_repo_id (ea_issue_ref a), fa_issue_ref = ea_issue_ref a,
       fa_from_state = tracker_state_as_str (os_state (ea_observed a)),
       fa_current_state = tracker_state_as_str (os_state (ea_observed a)),
       fa_target_kind = target_kind_as_str (ea_target_kind a), fa_source_ref = ea_source_ref a,
       fa_source_tracker_revision = os_revision (ea_observed a),
       fa_operator_action_ref =
         (if ea_source_kind a = OperatorAction then Some (ea_source_ref a) else None)\<rparr>)"

fun lifecycle_observation ::
    "CoordinatorReconciliationRequest \<Rightarrow> CoordinatorExecutionObservation \<Rightarrow>
     WorkflowLifecycleObservation option" where
  "lifecycle_observation q (ExecutionOpen w run_id started st) =
     (if st \<in> {TemporalRunning, TemporalPaused}
      then Some (DescribeOpen (activation_facts q) run_id started (rq_observed_at q))
      else None)"
| "lifecycle_observation q (ExecutionClosed w run_id started st) =
     map_option (\<lambda>cs. DescribeClosed (activation_facts q) run_id started cs None (rq_observed_at q))
       (close_status st)"
| "lifecycle_observation q ExecutionDescribeRequired = None"

fun reconciliation_outcome ::
    "WorkflowIndexRow option \<Rightarrow> (LocalStateError, WorkflowLifecycleProjectionOutcome) result \<Rightarrow>
     CoordinatorReconciliationOutcome" where
  "reconciliation_outcome binding (Inr (WorkflowLifecycleProjectionOutcome.Applied row)) = ReconcileApplied binding row"
| "reconciliation_outcome binding (Inr (WorkflowLifecycleProjectionOutcome.AlreadyApplied row)) = ReconcileAlreadyApplied binding row"
| "reconciliation_outcome binding (Inr outcome) =
     NoWrite (ProjectionConflict \<lparr>pc_local_active_binding = binding, pc_outcome = outcome\<rparr>)"
| "reconciliation_outcome binding (Inl failure) = NoWrite (ProjectionUnavailable failure)"

definition reconcile_described ::
    "ReadAccess \<Rightarrow> TimeLib \<Rightarrow> Connection \<Rightarrow> CoordinatorReconciliationRequest \<Rightarrow> workflow_table \<Rightarrow>
     (CoordinatorStartFailure, CoordinatorDescribeEvidence) result \<Rightarrow> workflow_table \<Rightarrow>
     CoordinatorReconciliationResult option \<times> workflow_table" where
  "reconcile_described ra clock cn q db_read described db =
     (let w = ea_workflow_id (rq_activation q); i = ea_issue_ref (rq_activation q);
          result = (\<lambda>out. Some \<lparr>rr_workflow_id = w, rr_outcome = out\<rparr>)
      in case described of
           Inl failure \<Rightarrow> (result (NoWrite (classify_describe_failure failure)), db)
         | Inr evidence \<Rightarrow>
        (case normalize_current_describe w None evidence of
           Inl failure \<Rightarrow> (result (NoWrite (MalformedDescribe failure)), db)
         | Inr execution \<Rightarrow>
        (case find_active_workflow_for_issue ra db_read (ir_repo_id i) i of
           Inl failure \<Rightarrow> (result (NoWrite (LocalBindingUnavailable failure)), db)
         | Inr binding \<Rightarrow>
        (case lifecycle_observation q execution of
           None \<Rightarrow> (None, db)
         | Some ob \<Rightarrow>
        (case project clock cn ob db of
           (res, db') \<Rightarrow> (result (reconciliation_outcome binding res), db'))))))"

definition reconcile_current_execution ::
    "'s CoordinatorTemporalAdapter \<Rightarrow> ReadAccess \<Rightarrow> TimeLib \<Rightarrow> Connection \<Rightarrow>
     CoordinatorReconciliationRequest \<Rightarrow> 's \<Rightarrow> workflow_table \<Rightarrow> workflow_table \<Rightarrow>
     CoordinatorReconciliationResult option \<times> workflow_table \<times> 's" where
  "reconcile_current_execution adapter ra clock cn q s db_read db =
     (case describe_issue_workflow adapter (ea_workflow_id (rq_activation q)) None s of
        (described, s') \<Rightarrow>
          (case reconcile_described ra clock cn q db_read described db of
             (result, db') \<Rightarrow> (result, db', s')))"

subsection \<open>Facts\<close>

lemma close_status_closed: "\<not> temporal_status_is_open st \<Longrightarrow> \<exists>cs. close_status st = Some cs"
  by (cases st) (simp_all add: temporal_status_is_open_def)

lemma lifecycle_observation_valid:
  assumes "valid_observation w known execution"
  obtains ob where "lifecycle_observation q execution = Some ob" and "facts_of ob = activation_facts q"
    and "\<exists>run t. describe_evidence ob = Some (run, t) \<and> run \<noteq> []"
proof (cases execution)
  case (ExecutionOpen w' run t st)
  with assms that show ?thesis by (simp add: temporal_status_is_open_def)
next
  case (ExecutionClosed w' run t st)
  with assms obtain cs where "close_status st = Some cs" using close_status_closed by auto
  with ExecutionClosed assms that show ?thesis by simp
qed (use assms in simp)

lemma activation_facts_id [simp]: "fa_workflow_id (activation_facts q) = ea_workflow_id (rq_activation q)"
  by (simp add: activation_facts_def Let_def)

lemma reconcile_described_cases:
  obtains (unread) out where
      "reconcile_described ra clock cn q db_read described db =
         (Some \<lparr>rr_workflow_id = ea_workflow_id (rq_activation q), rr_outcome = NoWrite out\<rparr>, db)"
  | (projected) evidence execution binding ob where
      "described = Inr evidence"
      "normalize_current_describe (ea_workflow_id (rq_activation q)) None evidence = Inr execution"
      "find_active_workflow_for_issue ra db_read (ir_repo_id (ea_issue_ref (rq_activation q)))
         (ea_issue_ref (rq_activation q)) = Inr binding"
      "lifecycle_observation q execution = Some ob" "facts_of ob = activation_facts q"
      "\<exists>run t. describe_evidence ob = Some (run, t) \<and> run \<noteq> []"
      "reconcile_described ra clock cn q db_read described db =
         (Some \<lparr>rr_workflow_id = ea_workflow_id (rq_activation q),
                rr_outcome = reconciliation_outcome binding (fst (project clock cn ob db))\<rparr>,
          snd (project clock cn ob db))"
proof (cases described)
  case (Inl failure)
  with unread show ?thesis by (simp add: reconcile_described_def Let_def)
next
  case d: (Inr evidence)
  show ?thesis
  proof (cases "normalize_current_describe (ea_workflow_id (rq_activation q)) None evidence")
    case (Inl failure)
    with d unread show ?thesis by (simp add: reconcile_described_def Let_def)
  next
    case n: (Inr execution)
    obtain ob where ob: "lifecycle_observation q execution = Some ob" "facts_of ob = activation_facts q"
      "\<exists>run t. describe_evidence ob = Some (run, t) \<and> run \<noteq> []"
      using lifecycle_observation_valid [OF normalize_valid [OF n]] .
    show ?thesis
    proof (cases "find_active_workflow_for_issue ra db_read (ir_repo_id (ea_issue_ref (rq_activation q)))
        (ea_issue_ref (rq_activation q))")
      case (Inl failure)
      with d n unread show ?thesis by (simp add: reconcile_described_def Let_def)
    next
      case (Inr binding)
      show ?thesis
        by (rule projected [OF d n Inr ob])
          (simp add: reconcile_described_def Let_def d n Inr ob split: prod.splits)
    qed
  qed
qed

lemma project_AlreadyApplied:
  assumes "table_ok db" and "project clock cn ob db = (Inr (WorkflowLifecycleProjectionOutcome.AlreadyApplied r), db')"
  shows "load_workflow db (fa_workflow_id (facts_of ob)) = Inr (Some r) \<and> same_immutable_start_facts r (facts_of ob)"
proof -
  from assms(2) obtain op where op: "project_transaction clock ob = Inr op"
    and "op db = (Inr (WorkflowLifecycleProjectionOutcome.AlreadyApplied r), db')"
    by (auto simp: project_Inr dest: transaction_Inr)
  with project_transaction_sound [OF assms(1) op] show ?thesis by simp
qed

text \<open>The contract of a repair: what its outcome says about the tables before and after it.\<close>

fun repair_sound ::
    "CoordinatorReconciliationRequest \<Rightarrow> workflow_table \<Rightarrow> workflow_table \<Rightarrow>
     CoordinatorReconciliationOutcome \<Rightarrow> bool" where
  "repair_sound q db db' (ReconcileApplied b row) \<longleftrightarrow>
     table_ok db' \<and> load_workflow db' (ea_workflow_id (rq_activation q)) = Inr (Some row) \<and>
     same_immutable_start_facts row (activation_facts q)"
| "repair_sound q db db' (ReconcileAlreadyApplied b row) \<longleftrightarrow>
     db' = db \<and> load_workflow db (ea_workflow_id (rq_activation q)) = Inr (Some row) \<and>
     same_immutable_start_facts row (activation_facts q)"
| "repair_sound q db db' (NoWrite out) \<longleftrightarrow> db' = db"

lemma projected_sound:
  assumes ok: "table_ok db" and f: "facts_of ob = activation_facts q"
  shows "repair_sound q db (snd (project clock cn ob db))
    (reconciliation_outcome binding (fst (project clock cn ob db)))"
proof (cases rule: project_cases [OF ok, of clock cn ob])
  case (1 e)
  then show ?thesis by simp
next
  case (2 r db')
  then have "wr_workflow_id r = ea_workflow_id (rq_activation q)"
    using same_facts_id [OF 2(3)] by (simp add: f)
  with 2 show ?thesis
    using applied_step_load [OF 2(2) ok] applied_step_table_ok [OF 2(2) ok] by (simp add: f)
next
  case (3 out)
  with project_AlreadyApplied [OF ok, of clock cn ob] show ?thesis
    by (cases out) (auto simp: f)
qed

subsection \<open>Properties\<close>

text \<open>C4: A repair always returns, under the activation's Workflow ID, without reaching an
  unreachable branch, whatever the adapter answers and whatever others wrote since the binding
  was read. The table changes only if the outcome is an applied row: then it is consistent and
  holds that row, whose activation facts are the request's; an already applied outcome names
  the unchanged stored row, and every other outcome leaves the table as it was.\<close>

theorem reconcile_sound:
  assumes "table_ok db"
  shows "\<exists>out. fst (reconcile_current_execution ad ra clock cn q s db_read db) =
      Some \<lparr>rr_workflow_id = ea_workflow_id (rq_activation q), rr_outcome = out\<rparr> \<and>
    repair_sound q db (fst (snd (reconcile_current_execution ad ra clock cn q s db_read db))) out"
proof (cases "describe_issue_workflow ad (ea_workflow_id (rq_activation q)) None s")
  case (Pair described s')
  show ?thesis
  proof (cases rule: reconcile_described_cases [of ra clock cn q db_read described db])
    case (unread out)
    with Pair show ?thesis by (simp add: reconcile_current_execution_def)
  next
    case (projected evidence execution binding ob)
    with Pair projected_sound [OF assms projected(5), of clock cn binding] show ?thesis
      by (simp add: reconcile_current_execution_def)
  qed
qed

text \<open>A repair issues exactly one request, the Describe of the activation's Workflow ID
  without a run, so that no stale local run can pin it; it never starts a workflow.\<close>

theorem reconcile_requests_exact:
  "case reconcile_current_execution (recording ad) ra clock cn q (s, reqs) db_read db of
     (r, db', s', reqs') \<Rightarrow>
       reconcile_current_execution ad ra clock cn q s db_read db = (r, db', s') \<and>
       reqs' = reqs @ [DescribeRequest (ea_workflow_id (rq_activation q)) None]"
  by (cases "describe_issue_workflow ad (ea_workflow_id (rq_activation q)) None s")
    (simp add: reconcile_current_execution_def split: prod.splits)

lemma lifecycle_reobserved:
  "lifecycle_observation q execution = Some ob \<Longrightarrow>
   lifecycle_observation (q\<lparr>rq_observed_at := t\<rparr>) execution = Some (reobserved t ob)"
  by (cases execution) (auto simp: activation_facts_def Let_def split: if_splits)

text \<open>Repairing again with the same Describe evidence, at any time and whatever binding the
  reader sees then, reports the row of the first repair as already applied and writes nothing.\<close>

theorem reconcile_converges:
  assumes "table_ok db"
    and first: "reconcile_described ra clock cn q db_read described db =
      (Some \<lparr>rr_workflow_id = w, rr_outcome = ReconcileApplied b row\<rparr>, db')"
    and "format_timestamp clock t = Inr v"
    and binding: "find_active_workflow_for_issue ra' db_read' (ir_repo_id (ea_issue_ref (rq_activation q)))
      (ea_issue_ref (rq_activation q)) = Inr b'"
  shows "reconcile_described ra' clock cn (q\<lparr>rq_observed_at := t\<rparr>) db_read' described db' =
    (Some \<lparr>rr_workflow_id = w, rr_outcome = ReconcileAlreadyApplied b' row\<rparr>, db')"
proof (cases rule: reconcile_described_cases [of ra clock cn q db_read described db])
  case (unread out)
  with first show ?thesis by simp
next
  case (projected evidence execution b2 ob)
  obtain res where res: "project clock cn ob db = (res, db')" and out: "reconciliation_outcome b2 res = ReconcileApplied b row"
    and w: "w = ea_workflow_id (rq_activation q)"
    using first projected(7) by (cases "project clock cn ob db") auto
  from out have "res = Inr (Applied row)"
    by (cases "(b2, res)" rule: reconciliation_outcome.cases) auto
  with res have "project clock cn (reobserved t ob) db' =
      (Inr (WorkflowLifecycleProjectionOutcome.AlreadyApplied row), db')"
    using project_again [OF assms(1) _ assms(3)] by simp
  with projected(1,2) binding lifecycle_reobserved [OF projected(4)] show ?thesis
    by (simp add: reconcile_described_def w)
qed

definition example_repair :: CoordinatorReconciliationRequest where
  "example_repair =
     \<lparr>rq_activation =
        \<lparr>ea_issue_ref = fa_issue_ref (episode ''w1''),
         ea_observed = \<lparr>os_state = Todo, os_revision = ''v''\<rparr>, ea_target_kind = WorkTarget,
         ea_episode_time = at_second 1, ea_source_kind = Doctor, ea_source_ref = ''s'',
         ea_audit_reason = ''repair'', ea_workflow_id = ''w1''\<rparr>,
      rq_workspace_runtime_id = ''rt'', rq_observed_at = at_second 6\<rparr>"

definition example_evidence :: CoordinatorDescribeEvidence where
  "example_evidence =
     \<lparr>de_workflow_id = ''w1'', de_run_id = ''a'', de_temporal_started_at = Some (at_second 5),
      de_status = Some TemporalRunning\<rparr>"

definition example_adapter :: "unit CoordinatorTemporalAdapter" where
  "example_adapter =
     \<lparr>start_issue_workflow = (\<lambda>i s. (Inr (AdapterAccepted ''a''), s)),
      describe_issue_workflow = (\<lambda>w run s. (Inr example_evidence, s))\<rparr>"

lemma example_facts: "activation_facts example_repair = episode ''w1''"
  by (simp add: example_repair_def activation_facts_def episode_def)

lemma example_observation:
  "normalize_current_describe ''w1'' None example_evidence = Inr (ExecutionOpen ''w1'' ''a'' (at_second 5) TemporalRunning)"
  "lifecycle_observation example_repair (ExecutionOpen ''w1'' ''a'' (at_second 5) TemporalRunning) =
     Some (open_run ''w1'' ''a'' 5)"
proof -
  show "normalize_current_describe ''w1'' None example_evidence = Inr (ExecutionOpen ''w1'' ''a'' (at_second 5) TemporalRunning)"
    by (simp add: describe_Inr_iff example_evidence_def temporal_status_is_open_def)
  have "rq_observed_at example_repair = at_second 6" by (simp add: example_repair_def)
  then show "lifecycle_observation example_repair (ExecutionOpen ''w1'' ''a'' (at_second 5) TemporalRunning) =
     Some (open_run ''w1'' ''a'' 5)"
    by (simp add: example_facts open_run_def)
qed

lemma example_issue_ref:
  "ea_workflow_id (rq_activation example_repair) = ''w1''"
  "ea_issue_ref (rq_activation example_repair) = fa_issue_ref (episode ''w1'')"
  by (simp_all add: example_repair_def)

lemma empty_binding: "find_active_workflow_for_issue ready_access [] (ir_repo_id i) i = Inr None"
  by (simp add: find_active_workflow_for_issue_def ready_access_opens query_row_def)

lemma example_repaired:
  "reconcile_described ready_access second_clock healthy example_repair [] (Inr example_evidence) [] =
     (Some \<lparr>rr_workflow_id = ''w1'', rr_outcome = ReconcileApplied None first_row\<rparr>, [encode_row first_row])"
  unfolding reconcile_described_def Let_def example_issue_ref
  by (simp add: empty_binding example_observation first_open del: lifecycle_observation.simps episode_scope)

theorem reconcile_sound_witness:
  "\<exists>out. fst (reconcile_current_execution example_adapter ready_access second_clock healthy example_repair () [] []) =
      Some \<lparr>rr_workflow_id = ''w1'', rr_outcome = out\<rparr> \<and>
    repair_sound example_repair [] (fst (snd (reconcile_current_execution example_adapter ready_access
      second_clock healthy example_repair () [] []))) out"
  using reconcile_sound [OF table_ok_empty, of example_adapter ready_access second_clock healthy
      example_repair "()" "[]"] by (simp only: example_issue_ref)

theorem reconcile_converges_witness:
  "reconcile_described ready_access second_clock healthy (example_repair\<lparr>rq_observed_at := at_second 9\<rparr>) []
     (Inr example_evidence) [encode_row first_row] =
   (Some \<lparr>rr_workflow_id = ''w1'', rr_outcome = ReconcileAlreadyApplied None first_row\<rparr>, [encode_row first_row])"
proof (rule reconcile_converges [OF table_ok_empty example_repaired _ empty_binding])
  show "format_timestamp second_clock (at_second 9) = Inr (show_nat 9)"
    by (simp add: format_timestamp_def second_clock_def at_second_def)
qed

end
