(* ===== verification/Event_Log.thy ===== *)
theory Event_Log
  imports Config Text_Tools
begin

section \<open>The event log (\<^verbatim>\<open>src/event_log.rs\<close>)\<close>

text \<open>
  The JSON-lines log that every lane appends to. A log file is its text, absent before the
  first append. The file system calls that can fail and serde's conversion between records
  and JSON text are arguments (\<open>LogIo\<close>, \<open>encode\<close>, \<open>decode\<close>). Records of tracker mutations
  pass through a redaction of secret-looking words.
\<close>

record TrackerMutationAuditRecord =
  ar_command :: string
  ar_mutation_type :: string
  ar_issue_ref :: "string option"
  ar_target :: "string option"
  ar_from_state :: "string option"
  ar_to_state :: "string option"
  ar_reason :: string
  ar_timestamp_ms :: u64

record TrackerMutationAuditInput =
  ai_command :: string
  ai_mutation_type :: string
  ai_issue_ref :: "string option"
  ai_target :: "string option"
  ai_from_state :: "string option"
  ai_to_state :: "string option"
  ai_reason :: string
  ai_timestamp_ms :: u64

record EventRecord =
  ev_event :: string
  ev_issue_id :: "string option"
  ev_issue_identifier :: "string option"
  ev_session_id :: "string option"
  ev_profile_id :: "string option"
  ev_instance_name :: "string option"
  ev_actor_role :: "string option"
  ev_actor_label :: "string option"
  ev_git_author :: "string option"
  ev_tracker_mutation :: "TrackerMutationAuditRecord option"
  ev_message :: string

definition redact_word :: "string \<Rightarrow> string" where
  "redact_word part =
     (let lower = to_ascii_lowercase part in
      if contains lower ''token='' \<or> contains lower ''gh_token='' \<or>
         contains lower ''github_token='' \<or> contains lower ''authorization:''
      then ''[redacted]'' else part)"

definition redact_audit_text :: "string \<Rightarrow> string" where
  "redact_audit_text s = join '' '' (map redact_word (split_whitespace s))"

definition from_input :: "TrackerMutationAuditInput \<Rightarrow> TrackerMutationAuditRecord" where
  "from_input i =
     \<lparr>ar_command = ai_command i, ar_mutation_type = ai_mutation_type i,
      ar_issue_ref = ai_issue_ref i, ar_target = map_option redact_audit_text (ai_target i),
      ar_from_state = ai_from_state i, ar_to_state = ai_to_state i,
      ar_reason = redact_audit_text (ai_reason i), ar_timestamp_ms = ai_timestamp_ms i\<rparr>"

subsection \<open>Appending and reading\<close>

datatype EventLogError =
    Io string
  | Serialize string
  | ParseLine nat string

text \<open>What the operating system answers: the errors of creating the directory and of opening
  the file, if any, and for a write the text that reached the file and the error, if any.\<close>

record LogIo =
  li_create_dir :: "string option"
  li_open :: "string option"
  li_write :: "string \<Rightarrow> string \<times> string option"

definition log_append ::
    "('r \<Rightarrow> (string, string) result) \<Rightarrow> LogIo \<Rightarrow> 'r \<Rightarrow> string option \<Rightarrow>
     (EventLogError, unit) result \<times> string option" where
  "log_append encode io r content =
     (case li_create_dir io of
        Some e \<Rightarrow> (Inl (Io e), content)
      | None \<Rightarrow>
        (case li_open io of
           Some e \<Rightarrow> (Inl (Io e), content)
         | None \<Rightarrow>
           (let opened = unwrap_or content [] in
            case encode r of
              Inl e \<Rightarrow> (Inl (Serialize e), Some opened)
            | Inr line \<Rightarrow>
                (case li_write io (line @ [char_of (10::nat)]) of
                   (written, Some e) \<Rightarrow> (Inl (Io e), Some (opened @ written))
                 | (written, None) \<Rightarrow> (Inr (), Some (opened @ written))))))"

fun parse_records ::
    "(string \<Rightarrow> (string, 'r) result) \<Rightarrow> nat \<Rightarrow> string list \<Rightarrow> (EventLogError, 'r list) result" where
  "parse_records decode index [] = Inr []"
| "parse_records decode index (l # ls) =
     (if blank l then parse_records decode (index + 1) ls
      else case decode l of
             Inl e \<Rightarrow> Inl (ParseLine (index + 1) e)
           | Inr r \<Rightarrow>
               (case parse_records decode (index + 1) ls of
                  Inl e \<Rightarrow> Inl e | Inr rs \<Rightarrow> Inr (r # rs)))"

text \<open>The text of the file, or the error of opening it.\<close>

definition read_records ::
    "(string \<Rightarrow> (string, 'r) result) \<Rightarrow> (string, string) result \<Rightarrow> (EventLogError, 'r list) result" where
  "read_records decode content =
     (case content of
        Inl e \<Rightarrow> Inl (Io e)
      | Inr text \<Rightarrow> parse_records decode 0 (lines text))"

subsection \<open>Summaries\<close>

record EventLogSummary =
  es_total_records :: nat
  es_events_by_name :: "string \<rightharpoonup> nat"
  es_issue_identifiers :: "string list"
  es_session_ids :: "string list"

definition summary_step ::
    "(string \<rightharpoonup> nat) \<times> string set \<times> string set \<Rightarrow> EventRecord \<Rightarrow>
     (string \<rightharpoonup> nat) \<times> string set \<times> string set" where
  "summary_step = (\<lambda>(names, issues, sessions) r.
     (names(ev_event r \<mapsto> unwrap_or (names (ev_event r)) 0 + 1),
      (case ev_issue_identifier r of Some i \<Rightarrow> insert i issues | None \<Rightarrow> issues),
      (case ev_session_id r of Some s \<Rightarrow> insert s sessions | None \<Rightarrow> sessions)))"

definition summary_from_records :: "EventRecord list \<Rightarrow> EventLogSummary" where
  "summary_from_records rs =
     (let (names, issues, sessions) = foldl summary_step (Map.empty, {}, {}) rs in
      \<lparr>es_total_records = length rs, es_events_by_name = names,
       es_issue_identifiers = sorted_list_of_set issues,
       es_session_ids = sorted_list_of_set sessions\<rparr>)"

definition summarize ::
    "(string \<Rightarrow> (string, EventRecord) result) \<Rightarrow> (string, string) result \<Rightarrow>
     (EventLogError, EventLogSummary) result" where
  "summarize decode content =
     and_then (read_records decode content) (\<lambda>rs. Inr (summary_from_records rs))"

subsection \<open>Facts: redaction\<close>

definition secret_word :: "string \<Rightarrow> bool" where
  "secret_word w \<longleftrightarrow>
     contains (to_ascii_lowercase w) ''token='' \<or> contains (to_ascii_lowercase w) ''authorization:''"

lemma contains_trans: "contains s p \<Longrightarrow> contains p q \<Longrightarrow> contains s q"
proof -
  assume "contains s p" and pq: "contains p q"
  then obtain a b where "s = a @ p @ b" by (auto simp: contains_iff)
  with pq show ?thesis by (simp add: contains_append_left contains_append_right)
qed

lemma token_spellings:
  "contains ''gh_token='' ''token=''" "contains ''github_token='' ''token=''"
  by code_simp+

lemma redact_word_eq: "redact_word w = (if secret_word w then ''[redacted]'' else w)"
proof -
  let ?l = "to_ascii_lowercase w"
  have "contains ?l ''gh_token='' \<Longrightarrow> contains ?l ''token=''"
    "contains ?l ''github_token='' \<Longrightarrow> contains ?l ''token=''"
    by (rule contains_trans [OF _ token_spellings(1)], assumption)
      (rule contains_trans [OF _ token_spellings(2)], assumption)
  then have "contains ?l ''token='' \<or> contains ?l ''gh_token='' \<or> contains ?l ''github_token='' \<or>
      contains ?l ''authorization:'' \<longleftrightarrow> secret_word w"
    unfolding secret_word_def by argo
  then show ?thesis
    by (simp only: redact_word_def Let_def)
qed

lemma redacted_word: "word ''[redacted]''" "\<not> secret_word ''[redacted]''"
  by code_simp+

lemma redact_audit_words:
  "split_whitespace (redact_audit_text s) = map redact_word (split_whitespace s)"
  unfolding redact_audit_text_def
proof (rule split_whitespace_join)
  have "word (redact_word w)" if "w \<in> set (split_whitespace s)" for w
    using split_whitespace_word [OF that] redacted_word(1)
    by (cases "secret_word w") (simp_all only: redact_word_eq if_True if_False)
  then show "list_all word (map redact_word (split_whitespace s))"
    by (simp add: list_all_iff)
qed

subsection \<open>Facts: the log file\<close>

text \<open>What the log relies on of the JSON library: a record is encoded as one nonblank line and
  decoded to itself.\<close>

definition line_codec ::
    "('r \<Rightarrow> (string, string) result) \<Rightarrow> (string \<Rightarrow> (string, 'r) result) \<Rightarrow> bool" where
  "line_codec encode decode \<longleftrightarrow>
     (\<forall>r. \<exists>l. encode r = Inr l \<and> log_line l \<and> decode l = Inr r)"

lemma parse_records_encoded:
  assumes "line_codec encode decode"
  shows "\<exists>ls. list_all log_line ls \<and> map encode rs = map Inr ls \<and>
    (\<forall>n. parse_records decode n ls = Inr rs)"
proof (induction rs)
  case Nil
  show ?case by (rule exI [of _ "[]"]) simp
next
  case (Cons r rs)
  then obtain ls where ls: "list_all log_line ls" "map encode rs = map Inr ls"
    "\<forall>n. parse_records decode n ls = Inr rs" by blast
  obtain l where l: "encode r = Inr l" "log_line l" "decode l = Inr r"
    using assms by (auto simp: line_codec_def)
  show ?case
    by (rule exI [of _ "l # ls"]) (use ls l in \<open>simp add: log_line_def [of l]\<close>)
qed

definition healthy_io :: LogIo where
  "healthy_io = \<lparr>li_create_dir = None, li_open = None, li_write = (\<lambda>t. (t, None))\<rparr>"

definition append_all ::
    "('r \<Rightarrow> (string, string) result) \<Rightarrow> 'r list \<Rightarrow> string option \<Rightarrow> string option" where
  "append_all encode rs content = foldl (\<lambda>t r. snd (log_append encode healthy_io r t)) content rs"

lemma append_all_text:
  "map encode rs = map Inr ls \<Longrightarrow>
   append_all encode rs (Some t) = Some (t @ log_text ls)"
proof (induction rs arbitrary: ls t)
  case (Cons r rs)
  then obtain l ls' where ls: "ls = l # ls'" "encode r = Inr l" "map encode rs = map Inr ls'"
    by (cases ls) auto
  have "append_all encode (r # rs) (Some t) = append_all encode rs (Some (t @ l @ [char_of (10::nat)]))"
    by (simp add: append_all_def log_append_def healthy_io_def ls(2))
  also have "\<dots> = Some ((t @ l @ [char_of (10::nat)]) @ log_text ls')"
    by (rule Cons.IH) (rule ls(3))
  finally show ?case by (simp add: ls(1) log_text_def)
qed (simp add: append_all_def log_text_def)

lemma append_all_new:
  "rs \<noteq> [] \<Longrightarrow> append_all encode rs None = append_all encode rs (Some [])"
  by (cases rs) (simp_all add: append_all_def log_append_def [of _ _ _ None]
      log_append_def [of _ _ _ "Some []"] healthy_io_def split: sum.splits)

lemma summary_fold:
  "foldl summary_step (m, is, ss) rs =
     ((\<lambda>n. if n \<in> ev_event ` set rs
           then Some (unwrap_or (m n) 0 + length (filter (\<lambda>r. ev_event r = n) rs)) else m n),
      is \<union> {i. \<exists>r \<in> set rs. ev_issue_identifier r = Some i},
      ss \<union> {s. \<exists>r \<in> set rs. ev_session_id r = Some s})"
proof (induction rs arbitrary: m "is" ss)
  case (Cons r rs)
  let ?m = "m(ev_event r \<mapsto> unwrap_or (m (ev_event r)) 0 + 1)"
  let ?is = "case ev_issue_identifier r of Some i \<Rightarrow> insert i is | None \<Rightarrow> is"
  let ?ss = "case ev_session_id r of Some s \<Rightarrow> insert s ss | None \<Rightarrow> ss"
  have "foldl summary_step (m, is, ss) (r # rs) = foldl summary_step (?m, ?is, ?ss) rs"
    by (simp only: foldl.simps) (simp add: summary_step_def)
  then show ?case
    unfolding Cons by (auto simp: fun_eq_iff filter_empty_conv image_iff split: option.splits)
qed simp

subsection \<open>Properties\<close>

text \<open>Reading the log after any sequence of successful appends to a new file returns exactly
  the appended records, in order, given that the JSON library encodes a record as one
  nonblank line and decodes that line to the record.\<close>

theorem event_log_round_trip:
  assumes "line_codec encode decode" and "rs \<noteq> []"
  shows "\<exists>text. append_all encode rs None = Some text \<and> read_records decode (Inr text) = Inr rs"
proof -
  from parse_records_encoded [OF assms(1)] obtain ls where ls:
    "list_all log_line ls" "map encode rs = map Inr ls" "\<forall>n. parse_records decode n ls = Inr rs"
    by blast
  have "append_all encode rs None = Some (log_text ls)"
    by (simp add: append_all_new [OF assms(2)] append_all_text [OF ls(2)])
  moreover have "read_records decode (Inr (log_text ls)) = Inr rs"
    by (simp add: read_records_def lines_log_text [OF ls(1)] ls(3))
  ultimately show ?thesis by blast
qed

text \<open>A codec that satisfies the hypothesis: the log of truth values.\<close>

definition bool_encode :: "bool \<Rightarrow> (string, string) result" where
  "bool_encode b = Inr (if b then ''true'' else ''false'')"

definition bool_decode :: "string \<Rightarrow> (string, bool) result" where
  "bool_decode s = (if s = ''true'' then Inr True else if s = ''false'' then Inr False else Inl ''expected value'')"

lemma bool_codec: "line_codec bool_encode bool_decode"
proof -
  have "log_line ''true''" "log_line ''false''" by code_simp+
  then show ?thesis by (simp add: line_codec_def bool_encode_def bool_decode_def)
qed

theorem event_log_round_trip_witness:
  "\<exists>text. append_all bool_encode [True, False] None = Some text \<and>
     read_records bool_decode (Inr text) = Inr [True, False]"
  by (rule event_log_round_trip [OF bool_codec]) simp

text \<open>The redaction leaves no word of the text that mentions \<^verbatim>\<open>token=\<close> or
  \<^verbatim>\<open>authorization:\<close>, keeps every other word in its place, and does not change a text
  that it has redacted.\<close>

theorem redaction_exact:
  "split_whitespace (redact_audit_text s) =
     map (\<lambda>w. if secret_word w then ''[redacted]'' else w) (split_whitespace s) \<and>
   \<not> list_ex secret_word (split_whitespace (redact_audit_text s)) \<and>
   redact_audit_text (redact_audit_text s) = redact_audit_text s"
proof -
  have words: "split_whitespace (redact_audit_text s) =
      map (\<lambda>w. if secret_word w then ''[redacted]'' else w) (split_whitespace s)"
    unfolding redact_audit_words redact_word_eq ..
  have clean: "\<not> secret_word (redact_word w)" for w
    using redacted_word(2) by (simp only: redact_word_eq split: if_splits) blast
  then have again: "redact_word (redact_word w) = redact_word w" for w
    by (simp only: redact_word_eq [of "redact_word w"] if_False)
  have "redact_audit_text (redact_audit_text s) = redact_audit_text s"
    unfolding redact_audit_text_def [of "redact_audit_text s"] redact_audit_words
    by (simp add: again redact_audit_text_def cong: map_cong)
  moreover have "\<not> list_ex secret_word (split_whitespace (redact_audit_text s))"
    unfolding redact_audit_words using clean by (auto simp: list_ex_iff)
  ultimately show ?thesis using words by argo
qed

text \<open>The value of an authorization header is a word of its own and stays in the record.\<close>

lemma redaction_keeps_bearer:
  "redact_audit_text ''Authorization: bearer secret'' = ''[redacted] bearer secret''"
  by code_simp

text \<open>The summary counts every record once, under its event name, and lists the issues and
  sessions that occur, sorted and without repetition.\<close>

theorem summary_exact:
  "es_total_records (summary_from_records rs) = length rs \<and>
   (\<forall>n. es_events_by_name (summary_from_records rs) n =
      (if n \<in> ev_event ` set rs then Some (length (filter (\<lambda>r. ev_event r = n) rs)) else None)) \<and>
   sorted (es_issue_identifiers (summary_from_records rs)) \<and>
   distinct (es_issue_identifiers (summary_from_records rs)) \<and>
   set (es_issue_identifiers (summary_from_records rs)) = {i. \<exists>r \<in> set rs. ev_issue_identifier r = Some i}"
proof -
  have "{i. \<exists>r \<in> set rs. ev_issue_identifier r = Some i} \<subseteq> (the \<circ> ev_issue_identifier) ` set rs"
    by force
  then have "finite {i. \<exists>r \<in> set rs. ev_issue_identifier r = Some i}"
    by (rule finite_subset) simp
  then show ?thesis
    by (simp add: summary_from_records_def summary_fold)
qed

end
