(* ===== verification/Tracker_Recovery.thy ===== *)
theory Tracker_Recovery
  imports Tracker_State Lane_Claim Event_Log
begin

section \<open>Tracker mutations with recovery (\<^verbatim>\<open>src/orchestration/tracker_recovery.rs\<close>)\<close>

text \<open>
  The lanes change the tracker through operations that send one request and, when the request
  fails in a way that leaves its effect open, read the issue back to see whether the change
  arrived. The tracker behind the trait \<^verbatim>\<open>TrackerAdapter\<close> is a service: here it is a record
  of operations on a state \<^typ>\<open>'t\<close>, an argument of every definition that calls it. The error
  type and its classification are those of \<^verbatim>\<open>src/tracker/error.rs\<close>; the audit record is
  that of \<^verbatim>\<open>src/event_log.rs\<close>. Lines printed to the terminal are not modelled.
\<close>

subsection \<open>Tracker errors (\<^verbatim>\<open>src/tracker/error.rs\<close>)\<close>

datatype TrackerError =
    StateResolution TrackerStateResolutionError
  | Fixture string
  | Payload string
  | IntegrationUnavailable string
  | NotImplemented string

datatype ProjectStateFailureKind =
    Auth | Network | TransientBackend | RateLimit | ResourceLimit | Schema | PartialResponse
  | Payload | MissingCapability | Unknown

fun failure_kind_as_str :: "ProjectStateFailureKind \<Rightarrow> string" where
  "failure_kind_as_str Auth = ''auth''"
| "failure_kind_as_str Network = ''network''"
| "failure_kind_as_str TransientBackend = ''transient_backend''"
| "failure_kind_as_str RateLimit = ''rate_limit''"
| "failure_kind_as_str ResourceLimit = ''resource_limit''"
| "failure_kind_as_str Schema = ''schema''"
| "failure_kind_as_str PartialResponse = ''partial_response''"
| "failure_kind_as_str ProjectStateFailureKind.Payload = ''payload''"
| "failure_kind_as_str MissingCapability = ''missing_capability''"
| "failure_kind_as_str ProjectStateFailureKind.Unknown = ''unknown''"

definition is_transport_eof_message :: "string \<Rightarrow> bool" where
  "is_transport_eof_message normalized \<longleftrightarrow>
     (let trimmed = trim normalized in
      if \<not> (trimmed = ''eof'' \<or> ends_with trimmed '': eof'' \<or> ends_with trimmed '' eof'') then False
      else if contains_any normalized [''invalid gh'', ''invalid github'', ''while parsing''] then False
      else contains_any normalized [''api.github.com'', ''graphql'', ''rest'', ''http://'', ''https://''])"

definition classify_project_state_failure_message :: "string \<Rightarrow> ProjectStateFailureKind" where
  "classify_project_state_failure_message message =
     (let normalized = to_ascii_lowercase message in
      if contains_any normalized [''rate limit'', ''secondary rate'', ''too many requests'', ''http 429'']
      then RateLimit
      else if contains_any normalized
        [''resource limit'', ''resource limitation'', ''maximum node limit'', ''max node limit'',
         ''exceeds maximum'', ''query has complexity'', ''query is too complex'']
      then ResourceLimit
      else if contains_any normalized
        [''authentication'', ''authenticate'', ''auth login'', ''bad credentials'', ''unauthorized'',
         ''http 401'', ''http 403'']
      then Auth
      else if contains_any normalized
        [''http 500'', ''http 502'', ''http 503'', ''http 504'', ''bad gateway'',
         ''service unavailable'', ''gateway timeout'', ''internal server error'']
      then TransientBackend
      else if contains_any normalized
        [''could not resolve host'', ''error connecting to'', ''failed to connect'',
         ''could not connect'', ''connection timed out'', ''timed out after'', ''connection reset'',
         ''connection refused'', ''connection closed'', ''temporary failure in name resolution'',
         ''no route to host'', ''i/o timeout'', ''context deadline exceeded''] \<or>
        is_transport_eof_message normalized \<or> contains_any normalized [''network'', ''tls'']
      then Network
      else if contains_any normalized
        [''missing projectv2'', ''partial projectv2'', ''missing status field'',
         ''missing fieldvalues'', ''missing pageinfo'']
      then PartialResponse
      else if contains_any normalized
        [''could not resolve to a projectv2'', ''field '', ''doesn'' @ [CHR 0x27] @ ''t exist'', ''schema'']
      then Schema
      else if contains_any normalized
        [''invalid gh graphql json'', ''invalid github graphql json'', ''invalid gh api json'',
         ''invalid github api json'']
      then ProjectStateFailureKind.Payload
      else if contains_any normalized
        [''does not support'', ''not implemented'', ''missing cli capability'', ''cli gap'']
      then MissingCapability
      else ProjectStateFailureKind.Unknown)"

fun classify_project_state_error :: "TrackerError \<Rightarrow> ProjectStateFailureKind" where
  "classify_project_state_error (StateResolution _) = Schema"
| "classify_project_state_error (Fixture _) = ProjectStateFailureKind.Payload"
| "classify_project_state_error (TrackerError.Payload m) = classify_project_state_failure_message m"
| "classify_project_state_error (IntegrationUnavailable m) = classify_project_state_failure_message m"
| "classify_project_state_error (NotImplemented _) = MissingCapability"

fun state_resolution_display :: "TrackerStateResolutionError \<Rightarrow> string" where
  "state_resolution_display (UnknownInput i) =
     ''unknown configured tracker state input '' @ debug_str i"
| "state_resolution_display (AmbiguousConfiguration i keys) =
     ''ambiguous configured tracker state input '' @ debug_str i @ ''; it resolves to '' @
     join '', '' keys"

fun tracker_error_display :: "TrackerError \<Rightarrow> string" where
  "tracker_error_display (StateResolution e) = state_resolution_display e"
| "tracker_error_display (Fixture m) = ''tracker fixture failed: '' @ m"
| "tracker_error_display (TrackerError.Payload m) = ''tracker payload failed: '' @ m"
| "tracker_error_display (IntegrationUnavailable m) = ''tracker integration is unavailable: '' @ m"
| "tracker_error_display (NotImplemented m) = ''tracker operation is not implemented yet: '' @ m"

subsection \<open>The adapter\<close>

record ProjectFieldAssignment =
  pa_name :: string
  pa_value :: string

definition project_field_assignment_parse ::
    "string \<Rightarrow> (TrackerError, ProjectFieldAssignment) result" where
  "project_field_assignment_parse raw =
     (case split_once (CHR ''='') raw of
        None \<Rightarrow> Inl (TrackerError.Payload (''Project field assignment '' @ debug_str raw @
                     '' must use NAME=VALUE''))
      | Some (n, v) \<Rightarrow>
          (if trim n = [] \<or> trim v = []
           then Inl (TrackerError.Payload (''Project field assignment '' @ debug_str raw @
                     '' must include non-empty name and value''))
           else Inr \<lparr>pa_name = trim n, pa_value = trim v\<rparr>))"

text \<open>The operations of the trait that the lanes mutate the tracker with, and the read-back.\<close>

record 't TrackerAdapter =
  ta_get_issue :: "'t \<Rightarrow> string \<Rightarrow> (TrackerError, TrackerIssue option) result"
  ta_set_state :: "'t \<Rightarrow> string \<Rightarrow> string \<Rightarrow> (TrackerError, unit) result \<times> 't"
  ta_set_project_field :: "'t \<Rightarrow> string \<Rightarrow> ProjectFieldAssignment \<Rightarrow> (TrackerError, unit) result \<times> 't"
  ta_upsert_workpad :: "'t \<Rightarrow> string \<Rightarrow> string \<Rightarrow> (TrackerError, unit) result \<times> 't"
  ta_add_issue_comment :: "'t \<Rightarrow> string \<Rightarrow> string \<Rightarrow> (TrackerError, unit) result \<times> 't"
  ta_close_issue :: "'t \<Rightarrow> string \<Rightarrow> (TrackerError, unit) result \<times> 't"

definition project_text_field :: "TrackerIssue \<Rightarrow> string \<Rightarrow> string option" where
  "project_text_field i name =
     filter_option (\<lambda>v. v \<noteq> [])
       (map_option trim (Option.bind (ti_project_fields i name) as_str))"

subsection \<open>The audit of a mutation\<close>

record TrackerMutationAudit =
  ta_command :: string
  ta_mutation_type :: string
  ta_issue_ref :: "string option"
  ta_target :: "string option"
  ta_from_state :: "string option"
  ta_to_state :: "string option"
  ta_reason :: string

fun git_identity_author :: "GitIdentityConfig \<Rightarrow> string option" where
  "git_identity_author g =
     (case (gi_name g, gi_email g) of
        (Some n, Some e) \<Rightarrow> Some (n @ '' <'' @ e @ ''>'')
      | (Some n, None) \<Rightarrow> Some n
      | (None, Some e) \<Rightarrow> Some (''<'' @ e @ ''>'')
      | (None, None) \<Rightarrow> None)"

definition tracker_mutation_event ::
    "RuntimeConfig \<Rightarrow> TrackerMutationAudit \<Rightarrow> u64 \<Rightarrow> EventRecord" where
  "tracker_mutation_event config a now_ms =
     \<lparr>ev_event = ''tracker_mutation'', ev_issue_id = None, ev_issue_identifier = ta_issue_ref a,
      ev_session_id = None, ev_profile_id = None, ev_instance_name = None,
      ev_actor_role = Some (ic_actor_role (rc_identity config)),
      ev_actor_label = Some (ic_actor_label (rc_identity config)),
      ev_git_author = git_identity_author (ic_git (rc_identity config)),
      ev_tracker_mutation = Some (from_input
        \<lparr>ai_command = ta_command a, ai_mutation_type = ta_mutation_type a,
         ai_issue_ref = ta_issue_ref a, ai_target = ta_target a, ai_from_state = ta_from_state a,
         ai_to_state = ta_to_state a, ai_reason = ta_reason a, ai_timestamp_ms = now_ms\<rparr>),
      ev_message = ta_reason a\<rparr>"

text \<open>A failed append only prints a warning.\<close>

definition append_tracker_mutation_audit ::
    "(EventRecord \<Rightarrow> (string, string) result) \<Rightarrow> LogIo \<Rightarrow> u64 \<Rightarrow> RuntimeConfig \<Rightarrow>
     TrackerMutationAudit \<Rightarrow> string option \<Rightarrow> string option" where
  "append_tracker_mutation_audit encode io now_ms config a content =
     snd (log_append encode io (tracker_mutation_event config a now_ms) content)"

datatype TrackerMutationOutcome = Applied | AlreadyApplied | Recovered

fun mutation_outcome_as_str :: "TrackerMutationOutcome \<Rightarrow> string" where
  "mutation_outcome_as_str Applied = ''applied''"
| "mutation_outcome_as_str AlreadyApplied = ''already_applied''"
| "mutation_outcome_as_str Recovered = ''recovered''"

definition should_record_audit :: "TrackerMutationOutcome \<Rightarrow> bool" where
  "should_record_audit r \<longleftrightarrow> r \<noteq> AlreadyApplied"

subsection \<open>Recovery keys and markers\<close>

definition key_char :: "char \<Rightarrow> char" where
  "key_char c =
     (if is_ascii_alphanumeric c then ascii_lower_char c
      else if c = CHR ''-'' \<or> c = CHR ''_'' \<or> c = CHR ''.'' then c else CHR ''-'')"

function collapse_dashes :: "string \<Rightarrow> string" where
  "collapse_dashes out =
     (if contains out ''--'' then collapse_dashes (replace_sub ''--'' ''-'' out) else out)"
  by pat_completeness auto
termination
  by (relation "measure length") (simp_all add: length_replace_sub_less)

declare collapse_dashes.simps [simp del]

definition recovery_key_component :: "string \<Rightarrow> string" where
  "recovery_key_component v = trim_matches (\<lambda>c. c = CHR ''-'') (collapse_dashes (map key_char v))"

definition fnv_step :: "u64 \<Rightarrow> nat \<Rightarrow> u64" where
  "fnv_step hash byte = xor hash (of_nat byte) * 0x100000001b3"

definition stable_recovery_hash :: "string \<Rightarrow> string" where
  "stable_recovery_hash v = show_hex16 (unat (foldl fnv_step 0xcbf29ce484222325 (utf8_bytes v)))"

definition recovery_key :: "string \<Rightarrow> string \<Rightarrow> string \<Rightarrow> string" where
  "recovery_key label issue_ref seed =
     recovery_key_component label @ ''-'' @ recovery_key_component issue_ref @ ''-'' @
     stable_recovery_hash seed"

definition tracker_recovery_marker :: "string \<Rightarrow> string" where
  "tracker_recovery_marker key =
     ''<!-- shea-symphony-tracker-recovery key='' @ recovery_key_component key @ '' -->''"

definition ensure_tracker_recovery_marker :: "string \<Rightarrow> string \<Rightarrow> string" where
  "ensure_tracker_recovery_marker markdown key =
     (let marker = tracker_recovery_marker key in
      if contains markdown marker then markdown
      else let body = trim_end markdown in
           (if body \<noteq> [] then body @ [char_of (10::nat), char_of (10::nat)] else body) @ marker)"

definition issue_has_recovery_marker :: "TrackerIssue \<Rightarrow> string \<Rightarrow> bool" where
  "issue_has_recovery_marker i key \<longleftrightarrow>
     (case ti_description i of Some d \<Rightarrow> contains d (tracker_recovery_marker key) | None \<Rightarrow> False)"

definition issue_project_field_matches :: "TrackerIssue \<Rightarrow> string \<Rightarrow> string \<Rightarrow> bool" where
  "issue_project_field_matches i name v \<longleftrightarrow> project_text_field i name = Some v"

definition tracker_state_match_key :: "string \<Rightarrow> string" where
  "tracker_state_match_key v = map (\<lambda>c. if c = CHR ''_'' then CHR '' '' else c) (normalize_state v)"

definition issue_state_matches :: "TrackerIssue \<Rightarrow> string \<Rightarrow> bool" where
  "issue_state_matches i s \<longleftrightarrow> tracker_state_match_key (ti_state i) = tracker_state_match_key s"

definition issue_is_closed :: "TrackerIssue \<Rightarrow> bool" where
  "issue_is_closed i \<longleftrightarrow>
     (case Option.bind (ti_project_fields i ''GitHub Issue State'') as_str of
        Some s \<Rightarrow> tracker_state_match_key s = ''closed'' | None \<Rightarrow> False)"

subsection \<open>Recovery\<close>

definition recoverable_project_state_failure :: "ProjectStateFailureKind \<Rightarrow> bool" where
  "recoverable_project_state_failure k \<longleftrightarrow> k \<in> {Network, TransientBackend, RateLimit}"

fun tracker_recovery_next_action :: "ProjectStateFailureKind \<Rightarrow> string" where
  "tracker_recovery_next_action RateLimit = ''wait_then_readback_or_rerun_same_lane''"
| "tracker_recovery_next_action TransientBackend = ''wait_then_readback_or_rerun_same_lane''"
| "tracker_recovery_next_action Network = ''readback_or_rerun_same_lane''"
| "tracker_recovery_next_action _ = ''human_input_required''"

definition recover_after_tracker_error ::
    "('t, 'm) TrackerAdapter_scheme \<Rightarrow> 't \<Rightarrow> string \<Rightarrow> string \<Rightarrow> TrackerError \<Rightarrow> (TrackerIssue \<Rightarrow> bool) \<Rightarrow>
     (string, TrackerMutationOutcome) result" where
  "recover_after_tracker_error A t issue_ref mutation_type err expected =
     (let kind = classify_project_state_error err in
      if \<not> recoverable_project_state_failure kind then Inl (tracker_error_display err)
      else
        case ta_get_issue A t issue_ref of
          Inr (Some issue) \<Rightarrow>
            (if expected issue then Inr Recovered
             else Inl (''recoverable_tracker_mutation_uncertain mutation_type='' @ mutation_type @
                       '' issue='' @ issue_ref @ '' failure_kind='' @ failure_kind_as_str kind @
                       '' current_state='' @ debug_str (ti_state issue) @
                       '' next='' @ tracker_recovery_next_action kind @
                       '' error='' @ tracker_error_display err))
        | Inr None \<Rightarrow>
            Inl (''recoverable_tracker_mutation_uncertain mutation_type='' @ mutation_type @
                 '' issue='' @ issue_ref @ '' failure_kind='' @ failure_kind_as_str kind @
                 '' current_state=missing next='' @ tracker_recovery_next_action kind @
                 '' error='' @ tracker_error_display err)
        | Inl readback_error \<Rightarrow>
            Inl (''recoverable_tracker_mutation_readback_failed mutation_type='' @ mutation_type @
                 '' issue='' @ issue_ref @ '' failure_kind='' @ failure_kind_as_str kind @
                 '' readback_kind='' @ failure_kind_as_str (classify_project_state_error readback_error) @
                 '' next='' @ tracker_recovery_next_action kind @
                 '' error='' @ tracker_error_display err @
                 '' readback_error='' @ tracker_error_display readback_error))"

definition set_project_field_with_recovery ::
    "('t, 'm) TrackerAdapter_scheme \<Rightarrow> 't \<Rightarrow> TrackerIssue \<Rightarrow> ProjectFieldAssignment \<Rightarrow> string \<Rightarrow>
     (string, TrackerMutationOutcome) result \<times> 't" where
  "set_project_field_with_recovery A t issue a mutation_type =
     (if issue_project_field_matches issue (pa_name a) (pa_value a) then (Inr AlreadyApplied, t)
      else case ta_set_project_field A t (ti_identifier issue) a of
        (Inr _, t') \<Rightarrow> (Inr Applied, t')
      | (Inl err, t') \<Rightarrow>
          (recover_after_tracker_error A t' (ti_identifier issue) mutation_type err
             (\<lambda>readback. issue_project_field_matches readback (pa_name a) (pa_value a)), t'))"

definition set_state_with_recovery ::
    "('t, 'm) TrackerAdapter_scheme \<Rightarrow> 't \<Rightarrow> string \<Rightarrow> TrackerIssue option \<Rightarrow> string \<Rightarrow> string \<Rightarrow>
     (string, TrackerMutationOutcome) result \<times> 't" where
  "set_state_with_recovery A t issue_ref initial_issue state mutation_type =
     (if (case initial_issue of Some i \<Rightarrow> issue_state_matches i state | None \<Rightarrow> False)
      then (Inr AlreadyApplied, t)
      else case ta_set_state A t issue_ref state of
        (Inr _, t') \<Rightarrow> (Inr Applied, t')
      | (Inl err, t') \<Rightarrow>
          (recover_after_tracker_error A t' issue_ref mutation_type err
             (\<lambda>readback. issue_state_matches readback state), t'))"

definition upsert_workpad_with_recovery ::
    "('t, 'm) TrackerAdapter_scheme \<Rightarrow> 't \<Rightarrow> string \<Rightarrow> TrackerIssue option \<Rightarrow> string \<Rightarrow> string \<Rightarrow>
     (string, TrackerMutationOutcome) result \<times> 't" where
  "upsert_workpad_with_recovery A t issue_ref initial_issue markdown key =
     (if (case initial_issue of Some i \<Rightarrow> issue_has_recovery_marker i key | None \<Rightarrow> False)
      then (Inr AlreadyApplied, t)
      else case ta_upsert_workpad A t issue_ref (ensure_tracker_recovery_marker markdown key) of
        (Inr _, t') \<Rightarrow> (Inr Applied, t')
      | (Inl err, t') \<Rightarrow>
          (recover_after_tracker_error A t' issue_ref ''workpad_write'' err
             (\<lambda>readback. issue_has_recovery_marker readback key), t'))"

definition add_timeline_comment_with_recovery ::
    "('t, 'm) TrackerAdapter_scheme \<Rightarrow> 't \<Rightarrow> string \<Rightarrow> TrackerIssue option \<Rightarrow> string \<Rightarrow> string \<Rightarrow> string \<Rightarrow>
     (string, TrackerMutationOutcome) result \<times> 't" where
  "add_timeline_comment_with_recovery A t issue_ref initial_issue markdown key mutation_type =
     (if (case initial_issue of Some i \<Rightarrow> issue_has_recovery_marker i key | None \<Rightarrow> False)
      then (Inr AlreadyApplied, t)
      else case ta_add_issue_comment A t issue_ref (ensure_tracker_recovery_marker markdown key) of
        (Inr _, t') \<Rightarrow> (Inr Applied, t')
      | (Inl err, t') \<Rightarrow>
          (recover_after_tracker_error A t' issue_ref mutation_type err
             (\<lambda>readback. issue_has_recovery_marker readback key), t'))"

definition close_issue_with_recovery ::
    "('t, 'm) TrackerAdapter_scheme \<Rightarrow> 't \<Rightarrow> string \<Rightarrow> TrackerIssue option \<Rightarrow>
     (string, TrackerMutationOutcome) result \<times> 't" where
  "close_issue_with_recovery A t issue_ref initial_issue =
     (if (case initial_issue of Some i \<Rightarrow> issue_is_closed i | None \<Rightarrow> False) then (Inr AlreadyApplied, t)
      else case ta_close_issue A t issue_ref of
        (Inr _, t') \<Rightarrow> (Inr Applied, t')
      | (Inl (NotImplemented m), t') \<Rightarrow> (Inr AlreadyApplied, t')
      | (Inl err, t') \<Rightarrow>
          (recover_after_tracker_error A t' issue_ref ''issue_close'' err issue_is_closed, t'))"

definition merge_completion_recovery_key :: "TrackerIssue \<Rightarrow> string \<Rightarrow> string" where
  "merge_completion_recovery_key issue pr_ref =
     (let run = (case Option.bind (project_text_field issue ''Merging Agent'')
                   (\<lambda>v. case claim_parse v of Inr c \<Rightarrow> Some c | Inl _ \<Rightarrow> None) of
                   Some c \<Rightarrow> cl_run c | None \<Rightarrow> ''run-not-recorded'')
      in recovery_key ''merge-completion'' (ti_identifier issue)
           (ti_identifier issue @ ''|'' @ run @ ''|'' @ pr_ref))"

subsection \<open>Facts: keys and markers\<close>

text \<open>The reference for the replacement loop: every run of dashes becomes one dash.\<close>

primrec squeeze :: "string \<Rightarrow> string" where
  "squeeze [] = []"
| "squeeze (c # s) =
     (let t = squeeze s in if c = CHR ''-'' \<and> t \<noteq> [] \<and> hd t = CHR ''-'' then t else c # t)"

lemma squeeze_append_cong: "squeeze u = squeeze v \<Longrightarrow> squeeze (a @ u) = squeeze (a @ v)"
  by (induction a) simp_all

lemma squeeze_two_dashes: "squeeze (''--'' @ s) = squeeze (''-'' @ s)"
  by (simp add: Let_def)

lemma squeeze_replace: "squeeze (replace_sub ''--'' ''-'' s) = squeeze s"
proof (induction s rule: measure_induct_rule [of length])
  case (less s)
  show ?case
  proof (cases "split_at_sub ''--'' s")
    case None
    then show ?thesis by (subst replace_sub.simps) simp
  next
    case (Some ab)
    then obtain a b where ab: "split_at_sub ''--'' s = Some (a, b)" by (cases ab) auto
    have s: "s = a @ ''--'' @ b" by (rule split_at_sub_Some [OF ab])
    have "squeeze (replace_sub ''--'' ''-'' b) = squeeze b" by (rule less) (simp add: s)
    then have "squeeze (''-'' @ replace_sub ''--'' ''-'' b) = squeeze (''--'' @ b)"
      unfolding squeeze_two_dashes by (rule squeeze_append_cong)
    then have "squeeze (a @ ''-'' @ replace_sub ''--'' ''-'' b) = squeeze s"
      unfolding s by (rule squeeze_append_cong)
    moreover have "replace_sub ''--'' ''-'' s = a @ ''-'' @ replace_sub ''--'' ''-'' b"
      by (subst replace_sub.simps) (simp add: ab)
    ultimately show ?thesis by simp
  qed
qed

lemma contains_Cons: "contains s p \<Longrightarrow> contains (c # s) p"
  using contains_append_right [of s p "[c]"] by simp

lemma squeeze_fixed: "\<not> contains s ''--'' \<Longrightarrow> squeeze s = s"
proof (induction s)
  case (Cons c s)
  have "squeeze s = s" using Cons contains_Cons by blast
  moreover have "\<not> (c = CHR ''-'' \<and> s \<noteq> [] \<and> hd s = CHR ''-'')"
  proof
    assume "c = CHR ''-'' \<and> s \<noteq> [] \<and> hd s = CHR ''-''"
    then have "c # s = [] @ ''--'' @ List.tl s" by (cases s) auto
    then have "contains (c # s) ''--''" unfolding contains_iff by blast
    with Cons.prems show False by simp
  qed
  ultimately show ?case by (auto simp: Let_def)
qed simp

lemma squeeze_no_pair: "\<not> contains (squeeze s) ''--''"
proof (induction s)
  case Nil
  show ?case by (simp add: contains_iff)
next
  case (Cons c s)
  have "\<not> contains (c # t) ''--''"
    if "\<not> contains t ''--''" and "\<not> (c = CHR ''-'' \<and> t \<noteq> [] \<and> hd t = CHR ''-'')" for t
  proof
    assume "contains (c # t) ''--''"
    then obtain a b where ab: "c # t = a @ ''--'' @ b" by (auto simp: contains_iff)
    show False
    proof (cases a)
      case Nil
      with ab that(2) show False by simp
    next
      case (Cons d a')
      with ab have "t = a' @ ''--'' @ b" by simp
      with that(1) show False unfolding contains_iff by blast
    qed
  qed
  with Cons show ?case by (simp add: Let_def)
qed

lemma collapse_dashes_squeeze: "collapse_dashes s = squeeze s"
proof (induction s rule: collapse_dashes.induct)
  case (1 s)
  show ?case
  proof (cases "contains s ''--''")
    case True
    then have "collapse_dashes s = squeeze (replace_sub ''--'' ''-'' s)"
      using 1 by (subst collapse_dashes.simps) simp
    then show ?thesis by (simp only: squeeze_replace)
  next
    case False
    then show ?thesis by (subst collapse_dashes.simps) (simp add: squeeze_fixed)
  qed
qed

lemma set_squeeze: "set (squeeze s) \<subseteq> set s"
  by (induction s) (auto simp: Let_def)

definition key_alphabet :: "char \<Rightarrow> bool" where
  "key_alphabet c \<longleftrightarrow>
     is_ascii_digit c \<or> 97 \<le> code c \<and> code c \<le> 122 \<or> c \<in> {CHR ''-'', CHR ''_'', CHR ''.''}"

lemma key_char_alphabet: "key_alphabet (key_char c)"
  by (auto simp: key_alphabet_def key_char_def is_ascii_alphanumeric_def ascii_lower_char_def
      is_ascii_digit_def)

lemma key_char_fixed: "key_alphabet c \<Longrightarrow> key_char c = c"
  by (auto simp: key_alphabet_def key_char_def is_ascii_alphanumeric_def ascii_lower_char_def
      is_ascii_digit_def)

lemma trim_matches_middle: "\<exists>a b. s = a @ trim_matches p s @ b"
proof -
  have "s = takeWhile p s @ trim_matches p s @ rev (takeWhile p (rev (dropWhile p s)))"
    unfolding trim_matches_def trim_end_matches_def trim_start_matches_def
    by (metis rev_append rev_rev_ident takeWhile_dropWhile_id)
  then show ?thesis by blast
qed

lemma component_shape:
  "\<not> contains (recovery_key_component v) ''--'' \<and> (\<forall>c \<in> set (recovery_key_component v). key_alphabet c)"
proof -
  let ?s = "squeeze (map key_char v)"
  obtain a b where ab: "?s = a @ recovery_key_component v @ b"
    using trim_matches_middle [of ?s "\<lambda>c. c = CHR ''-''"]
    by (auto simp: recovery_key_component_def collapse_dashes_squeeze)
  have "contains ?s (recovery_key_component v)" unfolding contains_iff using ab by blast
  then have "\<not> contains (recovery_key_component v) ''--''"
    using contains_trans squeeze_no_pair by blast
  moreover have "set (recovery_key_component v) \<subseteq> set ?s" unfolding ab by auto
  ultimately show ?thesis using set_squeeze [of "map key_char v"] key_char_alphabet by fastforce
qed

lemma component_idem: "recovery_key_component (recovery_key_component v) = recovery_key_component v"
proof -
  let ?k = "recovery_key_component v"
  have "map key_char ?k = ?k" using component_shape [of v] key_char_fixed by (simp add: map_idI)
  moreover have "squeeze ?k = ?k" using component_shape [of v] squeeze_fixed by blast
  ultimately have "recovery_key_component ?k = trim_matches (\<lambda>c. c = CHR ''-'') ?k"
    by (simp add: recovery_key_component_def [of ?k] collapse_dashes_squeeze)
  also have "\<dots> = ?k" by (simp add: recovery_key_component_def)
  finally show ?thesis .
qed

lemma length_show_hex: "n < 16 ^ Suc k \<Longrightarrow> length (show_hex n) \<le> Suc k"
proof (induction k arbitrary: n)
  case 0
  then show ?case by (simp add: show_hex.simps)
next
  case (Suc k)
  show ?case
  proof (cases "n < 16")
    case True
    then show ?thesis by (simp add: show_hex.simps)
  next
    case False
    from Suc.prems have "n div 16 < 16 ^ Suc k"
      by (simp add: less_mult_imp_div_less mult.commute)
    then have "length (show_hex (n div 16)) \<le> Suc k" by (rule Suc.IH)
    with False show ?thesis by (simp add: show_hex.simps [of n])
  qed
qed

lemma length_recovery_hash: "length (stable_recovery_hash s) = 16"
proof -
  have "length (show_hex (unat h)) \<le> 16" for h :: u64
    using length_show_hex [of "unat h" 15] unsigned_less [of h, where 'a = nat] by simp
  then show ?thesis by (simp add: stable_recovery_hash_def show_hex16_def Let_def)
qed

lemma ensured_marker: "contains (ensure_tracker_recovery_marker m k) (tracker_recovery_marker k)"
  by (simp add: ensure_tracker_recovery_marker_def Let_def)

subsection \<open>Facts: recovery\<close>

lemma recover_Inr_iff:
  "recover_after_tracker_error A t r mt err expected = Inr q \<longleftrightarrow>
     q = Recovered \<and> recoverable_project_state_failure (classify_project_state_error err) \<and>
     (\<exists>i. ta_get_issue A t r = Inr (Some i) \<and> expected i)"
  by (auto simp: recover_after_tracker_error_def Let_def split: sum.splits option.splits)

lemmas with_recovery_defs =
  set_project_field_with_recovery_def set_state_with_recovery_def upsert_workpad_with_recovery_def
  add_timeline_comment_with_recovery_def

text \<open>What the lanes rely on of the tracker: a field assignment that the tracker has
  acknowledged is what the issue shows when it is read next.\<close>

definition acknowledges_fields :: "('t, 'm) TrackerAdapter_scheme \<Rightarrow> bool" where
  "acknowledges_fields A \<longleftrightarrow>
     (\<forall>t r a t'. ta_set_project_field A t r a = (Inr (), t') \<longrightarrow> trim (pa_value a) = pa_value a \<longrightarrow>
        pa_value a \<noteq> [] \<longrightarrow>
        (\<exists>i. ta_get_issue A t' r = Inr (Some i) \<and> issue_project_field_matches i (pa_name a) (pa_value a)))"

lemma field_write_success:
  assumes "acknowledges_fields A" and "ta_get_issue A t (ti_identifier i) = Inr (Some i)"
    and "set_project_field_with_recovery A t i a mt = (Inr q, t')"
    and "trim (pa_value a) = pa_value a" and "pa_value a \<noteq> []"
  shows "\<exists>j. ta_get_issue A t' (ti_identifier i) = Inr (Some j) \<and>
    issue_project_field_matches j (pa_name a) (pa_value a)"
proof (cases "issue_project_field_matches i (pa_name a) (pa_value a)")
  case True
  with assms(2,3) show ?thesis by (auto simp: set_project_field_with_recovery_def)
next
  case False
  obtain r t'' where w: "ta_set_project_field A t (ti_identifier i) a = (r, t'')"
    by (cases "ta_set_project_field A t (ti_identifier i) a")
  show ?thesis
  proof (cases r)
    case (Inl err)
    with w False assms(3) show ?thesis
      by (auto simp: set_project_field_with_recovery_def recover_Inr_iff)
  next
    case (Inr u)
    with w have w: "ta_set_project_field A t (ti_identifier i) a = (Inr (), t'')" by simp
    have "set_project_field_with_recovery A t i a mt = (Inr Applied, t'')"
      by (simp add: set_project_field_with_recovery_def False w)
    with assms(3) have "t' = t''" by simp
    with assms(1,4,5) w show ?thesis unfolding acknowledges_fields_def by blast
  qed
qed

subsection \<open>Properties\<close>

text \<open>The component of a recovery key is computed by a replacement loop that always ends and
  equals the one-pass reference: each character mapped into the key alphabet, each run of
  dashes squeezed to one dash, and dashes trimmed at both ends. So it has no two adjacent
  dashes, only characters of the alphabet, and is not changed by a second pass.\<close>

theorem recovery_component_exact:
  "recovery_key_component v = trim_matches (\<lambda>c. c = CHR ''-'') (squeeze (map key_char v)) \<and>
   \<not> contains (recovery_key_component v) ''--'' \<and>
   list_all key_alphabet (recovery_key_component v) \<and>
   recovery_key_component (recovery_key_component v) = recovery_key_component v"
  using component_shape [of v]
  by (simp add: component_idem list_all_iff) (simp add: recovery_key_component_def collapse_dashes_squeeze)

text \<open>The body that a recovery-aware write sends carries the marker of its key and keeps a
  body that already has it; and the marker is one comment of HTML whatever the key is, because
  the character that closes a comment occurs only at its end.\<close>

theorem recovery_marker_sound:
  "contains (ensure_tracker_recovery_marker m k) (tracker_recovery_marker k) \<and>
   ensure_tracker_recovery_marker (ensure_tracker_recovery_marker m k) k = ensure_tracker_recovery_marker m k \<and>
   last (tracker_recovery_marker k) = CHR ''>'' \<and>
   CHR ''>'' \<notin> set (butlast (tracker_recovery_marker k))"
proof -
  have "CHR ''>'' \<notin> set (recovery_key_component k)"
    using component_shape [of k] by (auto simp: key_alphabet_def is_ascii_digit_def)
  then have "CHR ''>'' \<notin> set (butlast (tracker_recovery_marker k))"
    by (simp add: tracker_recovery_marker_def butlast_append)
  moreover have "last (tracker_recovery_marker k) = CHR ''>''"
    by (simp add: tracker_recovery_marker_def)
  moreover have "ensure_tracker_recovery_marker (ensure_tracker_recovery_marker m k) k =
      ensure_tracker_recovery_marker m k"
    using ensured_marker [of m k]
    by (simp only: ensure_tracker_recovery_marker_def [of "ensure_tracker_recovery_marker m k"] Let_def if_True)
  ultimately show ?thesis using ensured_marker by blast
qed

end
