(* ===== verification/Lane_Pool.thy ===== *)
theory Lane_Pool
  imports Tracker_Recovery "HOL-Library.Multiset"
begin

section \<open>Worker pools of the main and merge lanes (\<^verbatim>\<open>src/lanes/\<close>)\<close>

text \<open>
  Which issues a worker may take (\<^verbatim>\<open>lanes/claim.rs\<close>) and which ones the two lanes select
  (\<^verbatim>\<open>lanes/merge/selection.rs\<close>, \<^verbatim>\<open>lanes/main_loop/selection.rs\<close>). A claim lives in a text field
  of the issue: it is rendered and parsed with the definitions of \<open>Lane_Claim\<close> and written through
  the recovering operation of \<open>Tracker_Recovery\<close>. The writers return the audit records they
  append. The runtime state inside a recovery candidate is only printed, so its type is a
  parameter.
\<close>

datatype WorkerLane = Main | Merging

fun claim_field :: "WorkerLane \<Rightarrow> string" where
  "claim_field Main = ''Main Agent''"
| "claim_field Merging = ''Merging Agent''"

fun worker_lane_label :: "WorkerLane \<Rightarrow> string" where
  "worker_lane_label Main = ''main''"
| "worker_lane_label Merging = ''merging''"

fun claim_lane :: "WorkerLane \<Rightarrow> LaneClaimLane" where
  "claim_lane Main = LaneClaimLane.Main"
| "claim_lane Merging = LaneClaimLane.Merge"

datatype PoolClaimEligibility =
    Claimable
  | OwnedBySelf
  | ClaimedByOther string
  | WrongLaneState string
  | ParentNativeSubissuesIncomplete string

definition is_claimable :: "PoolClaimEligibility \<Rightarrow> bool" where
  "is_claimable e \<longleftrightarrow> e = PoolClaimEligibility.Claimable \<or> e = OwnedBySelf"

fun skip_reason :: "PoolClaimEligibility \<Rightarrow> string" where
  "skip_reason PoolClaimEligibility.Claimable = ''claimable''"
| "skip_reason OwnedBySelf = ''claimable''"
| "skip_reason (ClaimedByOther owner) = ''claimed_by_other:'' @ owner"
| "skip_reason (WrongLaneState state) = ''wrong_lane_state:'' @ state"
| "skip_reason (ParentNativeSubissuesIncomplete reason) = reason"

definition worker_identity :: "RuntimeConfig \<Rightarrow> WorkerLane \<Rightarrow> string" where
  "worker_identity config lane =
     (let label = trim (ic_actor_label (rc_identity config)) in
      if label = [] then ''shea-symphony-'' @ worker_lane_label lane else label)"

subsection \<open>Opening, writing and closing a claim\<close>

fun result_ok :: "('e, 'a) result \<Rightarrow> 'a option" where
  "result_ok (Inr a) = Some a"
| "result_ok (Inl e) = None"

definition lane_claim_for_issue ::
    "u64 \<Rightarrow> TrackerIssue \<Rightarrow> LaneClaimLane \<Rightarrow> LaneClaimActor \<Rightarrow> LaneClaimSource \<Rightarrow> string option \<Rightarrow> LaneClaim" where
  "lane_claim_for_issue now_ms issue lane actor source existing =
     unwrap_or
       (filter_option (\<lambda>c. cl_lane c = lane \<and> cl_issue c = ti_identifier issue \<and> cl_state c = Active)
          (Option.bind existing (\<lambda>v. result_ok (claim_parse v))))
       (claim_active (ti_identifier issue) lane actor source now_ms)"

datatype ClaimWriteError =
    RenderedNotParseable LaneClaimParseError string
  | RenderedNotRoundTrip string LaneClaim LaneClaim
  | ResultNotCompact
  | MutationFailed string

definition render_parseable_lane_claim :: "LaneClaim \<Rightarrow> (ClaimWriteError, string) result" where
  "render_parseable_lane_claim c =
     (let v = claim_render c in
      case claim_parse v of
        Inl e \<Rightarrow> Inl (RenderedNotParseable e v)
      | Inr parsed \<Rightarrow> (if parsed \<noteq> c then Inl (RenderedNotRoundTrip v parsed c) else Inr v))"

definition claim_field_audit ::
    "TrackerIssue \<Rightarrow> WorkerLane \<Rightarrow> string \<Rightarrow> string \<Rightarrow> TrackerMutationAudit" where
  "claim_field_audit issue lane v reason =
     \<lparr>ta_command = worker_lane_label lane, ta_mutation_type = ''claim_field'',
      ta_issue_ref = Some (ti_identifier issue), ta_target = Some (claim_field lane @ ''='' @ v),
      ta_from_state = Some (ti_state issue), ta_to_state = None, ta_reason = reason\<rparr>"

definition write_claim_value ::
    "('t, 'm) TrackerAdapter_scheme \<Rightarrow> 't \<Rightarrow> TrackerIssue \<Rightarrow> WorkerLane \<Rightarrow> string \<Rightarrow> string \<Rightarrow>
     (ClaimWriteError, unit) result \<times> 't \<times> TrackerMutationAudit list" where
  "write_claim_value A t issue lane v reason =
     (case set_project_field_with_recovery A t issue \<lparr>pa_name = claim_field lane, pa_value = v\<rparr>
             ''claim_field'' of
        (Inl e, t') \<Rightarrow> (Inl (MutationFailed e), t', [])
      | (Inr r, t') \<Rightarrow>
          (Inr (), t', if should_record_audit r then [claim_field_audit issue lane v reason] else []))"

definition write_lane_claim_field ::
    "('t, 'm) TrackerAdapter_scheme \<Rightarrow> 't \<Rightarrow> TrackerIssue \<Rightarrow> WorkerLane \<Rightarrow> LaneClaim \<Rightarrow> bool \<Rightarrow>
     (ClaimWriteError, unit) result \<times> 't \<times> TrackerMutationAudit list" where
  "write_lane_claim_field A t issue lane c write =
     (case render_parseable_lane_claim c of
        Inl e \<Rightarrow> (Inl e, t, [])
      | Inr v \<Rightarrow>
          (if \<not> write then (Inr (), t, [])
           else write_claim_value A t issue lane v ''lane worker claim''))"

definition terminal_lane_claim_value ::
    "LaneClaim \<Rightarrow> LaneClaimState \<Rightarrow> string \<Rightarrow> (ClaimWriteError, string) result" where
  "terminal_lane_claim_value c state res =
     (if blank res \<or> list_ex is_whitespace res then Inl ResultNotCompact
      else Inr (claim_render (with_state c state) @ '' result='' @ res))"

definition write_lane_claim_terminal_result ::
    "('t, 'm) TrackerAdapter_scheme \<Rightarrow> 't \<Rightarrow> TrackerIssue \<Rightarrow> WorkerLane \<Rightarrow> LaneClaim \<Rightarrow> LaneClaimState \<Rightarrow>
     string \<Rightarrow> (ClaimWriteError, unit) result \<times> 't \<times> TrackerMutationAudit list" where
  "write_lane_claim_terminal_result A t issue lane c state res =
     (case terminal_lane_claim_value c state res of
        Inl e \<Rightarrow> (Inl e, t, [])
      | Inr v \<Rightarrow> write_claim_value A t issue lane v ''lane worker terminal claim result'')"

subsection \<open>Eligibility and selection\<close>

definition lane_state_eligible :: "TrackerIssue \<Rightarrow> WorkerLane \<Rightarrow> RuntimeConfig \<Rightarrow> bool" where
  "lane_state_eligible issue lane config \<longleftrightarrow>
     (let state = normalized_state issue; m = tc_state_map (rc_tracker config) in
      case lane of
        Main \<Rightarrow> state = normalize_state (sm_todo m) \<or> state = normalize_state (sm_rework m) \<or>
                state = normalize_state (sm_in_progress m)
      | Merging \<Rightarrow> state = normalize_state (sm_merging m))"

definition claim_field_eligibility :: "TrackerIssue \<Rightarrow> WorkerLane \<Rightarrow> string \<Rightarrow> PoolClaimEligibility" where
  "claim_field_eligibility issue lane worker_id =
     (case project_text_field issue (claim_field lane) of
        None \<Rightarrow> PoolClaimEligibility.Claimable
      | Some owner \<Rightarrow>
          (if owner = worker_id then OwnedBySelf
           else case claim_parse owner of
             Inr c \<Rightarrow>
               (if cl_lane c = claim_lane lane \<and> is_terminal_audit_pointer (cl_state c)
                then PoolClaimEligibility.Claimable
                else if cl_lane c = claim_lane lane \<and> cl_issue c = ti_identifier issue \<and>
                        cl_state c = Active \<and> cl_worker c = Some worker_id
                then OwnedBySelf
                else if cl_lane c = claim_lane lane then ClaimedByOther (cl_run c)
                else ClaimedByOther owner)
           | Inl _ \<Rightarrow> ClaimedByOther owner))"

definition pool_claim_eligibility ::
    "TrackerIssue \<Rightarrow> WorkerLane \<Rightarrow> string \<Rightarrow> RuntimeConfig \<Rightarrow> PoolClaimEligibility" where
  "pool_claim_eligibility issue lane worker_id config =
     (if \<not> lane_state_eligible issue lane config then WrongLaneState (ti_state issue)
      else case (if lane = Main
                 then native_subissue_gate_blocker issue (set (terminal_state_set config)) else None) of
        Some reason \<Rightarrow> ParentNativeSubissuesIncomplete reason
      | None \<Rightarrow> claim_field_eligibility issue lane worker_id)"

definition I64_MAX :: int where "I64_MAX = 9223372036854775807"

definition pool_key :: "TrackerIssue \<Rightarrow> int" where
  "pool_key issue = unwrap_or (ti_priority issue) I64_MAX"

definition select_pool_worker_issues ::
    "TrackerIssue list \<Rightarrow> WorkerLane \<Rightarrow> string \<Rightarrow> nat \<Rightarrow> RuntimeConfig \<Rightarrow> TrackerIssue list" where
  "select_pool_worker_issues issues lane worker_id pool config =
     (if pool = 0 then []
      else take pool (sort_key pool_key
        (filter (\<lambda>i. is_claimable (pool_claim_eligibility i lane worker_id config)) issues)))"

subsection \<open>The merge lane\<close>

record MergeWorkerSelection =
  ms_issue :: TrackerIssue
  ms_recovery_reason :: "string option"

definition merge_recovery_reason :: "TrackerIssue \<Rightarrow> string \<Rightarrow> RuntimeConfig \<Rightarrow> string option" where
  "merge_recovery_reason issue worker_id config =
     (if normalized_state issue \<noteq> normalize_state (sm_merging (tc_state_map (rc_tracker config))) then None
      else case project_text_field issue (claim_field Merging) of
        None \<Rightarrow> None
      | Some owner \<Rightarrow>
          (case claim_parse owner of
             Inl _ \<Rightarrow> None
           | Inr c \<Rightarrow>
               (if cl_lane c \<noteq> LaneClaimLane.Merge \<or> cl_issue c \<noteq> ti_identifier issue \<or>
                   cl_state c \<noteq> Active \<or> cl_source c \<notin> {Loop, Goal} \<or> cl_worker c = Some worker_id
                then None
                else Some (''recover_active_merge_claim previous_worker='' @
                           unwrap_or (cl_worker c) ''unknown'' @ '' run='' @ cl_run c @
                           '' source='' @ source_as_str (cl_source c)))))"

definition recovery_candidates ::
    "TrackerIssue list \<Rightarrow> string \<Rightarrow> RuntimeConfig \<Rightarrow> MergeWorkerSelection list" where
  "recovery_candidates issues worker_id config =
     sort_key (\<lambda>s. pool_key (ms_issue s))
       (List.map_filter
          (\<lambda>i. map_option (\<lambda>r. \<lparr>ms_issue = i, ms_recovery_reason = Some r\<rparr>)
                 (merge_recovery_reason i worker_id config)) issues)"

text \<open>The loop over the ordinary selection leaves out issues that are already selected.\<close>

definition push_new_merge :: "MergeWorkerSelection list \<Rightarrow> TrackerIssue \<Rightarrow> MergeWorkerSelection list" where
  "push_new_merge selected issue =
     (if list_ex (\<lambda>s. ti_identifier (ms_issue s) = ti_identifier issue) selected then selected
      else selected @ [\<lparr>ms_issue = issue, ms_recovery_reason = None\<rparr>])"

definition select_merge_worker_issues ::
    "TrackerIssue list \<Rightarrow> string \<Rightarrow> nat \<Rightarrow> RuntimeConfig \<Rightarrow> bool \<Rightarrow> MergeWorkerSelection list" where
  "select_merge_worker_issues issues worker_id pool config recover =
     (let limit = max pool 1;
          selected = (if recover then take limit (recovery_candidates issues worker_id config) else []);
          remaining = limit - length selected
      in if remaining > 0
         then foldl push_new_merge selected
                (select_pool_worker_issues issues Merging worker_id remaining config)
         else selected)"

subsection \<open>The main lane\<close>

datatype NoDispatchAction =
    Stop string
  | SleepAndContinue u64

datatype RunLoopClaimAction =
    Claim
  | Resume
  | StopAndReplan string

datatype AssigneeOwnershipDecision =
    Allowed
  | Block string

record 's RuntimeRecoveryCandidate =
  rr_state :: 's
  rr_issue :: TrackerIssue
  rr_reason :: string

definition already_selected :: "TrackerIssue list \<Rightarrow> TrackerIssue \<Rightarrow> bool" where
  "already_selected selected issue \<longleftrightarrow> list_ex (\<lambda>s. ti_identifier s = ti_identifier issue) selected"

fun push_recoverable :: "nat \<Rightarrow> TrackerIssue list \<Rightarrow> TrackerIssue list \<Rightarrow> TrackerIssue list" where
  "push_recoverable slots selected [] = selected"
| "push_recoverable slots selected (i # is) =
     (if length selected \<ge> slots then selected
      else push_recoverable slots (if already_selected selected i then selected else selected @ [i]) is)"

definition push_new_issue :: "TrackerIssue list \<Rightarrow> TrackerIssue \<Rightarrow> TrackerIssue list" where
  "push_new_issue selected issue = (if already_selected selected issue then selected else selected @ [issue])"

definition select_main_run_loop_issues ::
    "('s, 'm) RuntimeRecoveryCandidate_scheme list \<Rightarrow> TrackerIssue list \<Rightarrow> nat \<Rightarrow> string \<Rightarrow> RuntimeConfig \<Rightarrow>
     TrackerIssue list" where
  "select_main_run_loop_issues recoverable plan_selected available_slots worker_id config =
     (if available_slots = 0 then []
      else let selected = push_recoverable available_slots [] (map rr_issue recoverable);
               remaining_slots = available_slots - length selected
           in foldl push_new_issue selected
                (select_pool_worker_issues plan_selected Main worker_id remaining_slots config))"

definition run_loop_claim_action :: "TrackerIssue \<Rightarrow> RuntimeConfig \<Rightarrow> RunLoopClaimAction" where
  "run_loop_claim_action issue config =
     (case claim_decision issue config of
        ClaimDecision.Claimable \<Rightarrow> Claim
      | AlreadyInProgress \<Rightarrow> Resume
      | ClaimDecision.StopAndReplan s \<Rightarrow> RunLoopClaimAction.StopAndReplan s)"

definition live_github_tracker :: "RuntimeConfig \<Rightarrow> bool" where
  "live_github_tracker config \<longleftrightarrow>
     tc_kind (rc_tracker config) = ''github_project_v2'' \<and> tc_fixture_path (rc_tracker config) = None"

definition normalized_login :: "string \<Rightarrow> string" where
  "normalized_login v = to_ascii_lowercase (trim_start_matches (\<lambda>c. c = CHR ''@'') (trim v))"

fun present :: "'a option \<Rightarrow> 'a list" where
  "present (Some a) = [a]"
| "present None = []"

definition run_loop_assignee_ownership_decision ::
    "TrackerIssue \<Rightarrow> RuntimeConfig \<Rightarrow> string option \<Rightarrow> string option \<Rightarrow> AssigneeOwnershipDecision" where
  "run_loop_assignee_ownership_decision issue config active_login profile_login =
     (if \<not> live_github_tracker config then Allowed
      else if ti_assignees issue = [] then Block ''live GitHub issue has no assignee''
      else
        let identities = filter (\<lambda>l. l \<noteq> [])
              (map normalized_login (present profile_login @ present active_login))
        in if identities = []
           then Block ''active GitHub identity unavailable for assignee ownership check''
           else if list_ex (\<lambda>assignee. list_ex (\<lambda>identity. identity = assignee) identities)
                     (map normalized_login (ti_assignees issue))
           then Allowed
           else Block (''active identity '' @ debug_str_list identities @
                       '' does not match issue assignees '' @ debug_str_list (ti_assignees issue)))"

fun unbounded_loop_sleep_ms :: "nat option \<Rightarrow> u64 \<Rightarrow> u64 option" where
  "unbounded_loop_sleep_ms None poll_interval_ms = Some poll_interval_ms"
| "unbounded_loop_sleep_ms (Some limit) poll_interval_ms = None"

definition no_dispatch_action :: "nat option \<Rightarrow> u64 \<Rightarrow> NoDispatchAction" where
  "no_dispatch_action limit poll_interval_ms =
     (if limit \<noteq> None then Stop ''no_dispatchable_issue''
      else SleepAndContinue (unwrap_or (unbounded_loop_sleep_ms limit poll_interval_ms) poll_interval_ms))"

subsection \<open>Facts: claim texts\<close>

lemma join_ends:
  assumes "\<forall>s \<in> set ss. s \<noteq> []" and "ss \<noteq> []"
  shows "join sep ss \<noteq> [] \<and> hd (join sep ss) = hd (hd ss) \<and> last (join sep ss) = last (last ss)"
  using assms by (induction sep ss rule: join.induct) auto

lemma last_render_claim_value: "v \<noteq> [] \<Longrightarrow> \<not> is_whitespace (last (render_claim_value v))"
proof -
  assume v: "v \<noteq> []"
  have "\<not> is_whitespace QUOTE" by (simp add: is_whitespace_def QUOTE_def)
  with v show ?thesis by (auto simp: render_claim_value_def needs_quotes_def list_ex_iff)
qed

lemma claim_token_not_Nil [simp]: "claim_token k v \<noteq> []"
  by (simp add: claim_token_def)

lemma trim_claim_render:
  assumes "claim_complete c"
  shows "trim (claim_render c) = claim_render c" and "claim_render c \<noteq> []"
    and "hd (claim_render c) = CHR ''v''"
proof -
  let ?ts = "map (\<lambda>(k, v). claim_token k v) (claim_fields c)"
  have "hd (claim_fields c) = (''v'', ''1'')" "claim_fields c \<noteq> []"
    "last (claim_fields c) = (''registry'', cl_registry c)"
    by (simp_all add: claim_fields_def)
  then have ends: "hd ?ts = claim_token ''v'' ''1''" "last ?ts = claim_token ''registry'' (cl_registry c)" "?ts \<noteq> []"
    by (simp_all add: hd_map last_map)
  have "\<forall>s \<in> set ?ts. s \<noteq> []" by auto
  from join_ends [OF this ends(3), of "'' ''"]
  have r: "claim_render c \<noteq> []" "hd (claim_render c) = CHR ''v''"
    "last (claim_render c) = last (claim_token ''registry'' (cl_registry c))"
    unfolding claim_render_fields ends by (simp_all add: claim_token_def [of "''v''"])
  have "last (claim_token ''registry'' (cl_registry c)) = last (render_claim_value (cl_registry c))"
    using assms by (simp add: claim_token_def claim_complete_def render_claim_value_def needs_quotes_def)
  moreover have "\<not> is_whitespace (last (render_claim_value (cl_registry c)))"
    using assms by (intro last_render_claim_value) (simp add: claim_complete_def)
  ultimately show "trim (claim_render c) = claim_render c"
    using r by (intro trim_fixed) (simp_all add: is_whitespace_def)
  show "claim_render c \<noteq> []" "hd (claim_render c) = CHR ''v''" by (rule r)+
qed

lemma parse_joined_then:
  assumes "list_all (\<lambda>(k, v). plain_key k \<and> v \<noteq> []) kvs" and "kvs \<noteq> []" and "separated rest"
  shows "parse_claim_tokens (join '' '' (map (\<lambda>(k, v). claim_token k v) kvs) @ rest) =
    and_then (parse_claim_tokens rest) (\<lambda>r. Inr (kvs @ r))"
  using assms
proof (induction kvs rule: induct_list012)
  case (2 kv)
  then show ?case
    using parse_claim_tokens_cons [of "fst kv" "snd kv" rest] by (auto split: prod.splits)
next
  case (3 kv kv' kvs)
  let ?rest = "join '' '' (map (\<lambda>(k, v). claim_token k v) (kv' # kvs)) @ rest"
  have "separated (CHR '' '' # ?rest)" by (simp add: separated_def)
  then have "parse_claim_tokens (claim_token (fst kv) (snd kv) @ CHR '' '' # ?rest) =
      and_then (parse_claim_tokens ?rest) (\<lambda>kvs. Inr (kv # kvs))"
    using 3(3) parse_claim_tokens_cons [of "fst kv" "snd kv" "CHR '' '' # ?rest"]
    by (auto split: prod.splits)
  moreover have "parse_claim_tokens ?rest = and_then (parse_claim_tokens rest) (\<lambda>r. Inr ((kv' # kvs) @ r))"
    using 3 by simp
  ultimately show ?case
    by (cases kv; cases "parse_claim_tokens rest") (simp_all split: prod.splits)
qed simp

lemma parse_result_token:
  assumes "word res" and "hd res \<noteq> QUOTE"
  shows "parse_claim_tokens ('' result='' @ res) = Inr [(''result'', res)]"
proof -
  obtain c w where res: "res = c # w" using assms(1) by (cases res) (auto simp: word_def)
  have "claim_key (''result'' @ CHR ''='' # res) = Inr (''result'', res)"
    by (rule claim_key_plain) (simp add: is_whitespace_def)
  then have key: "claim_key (''result='' @ res) = Inr (''result'', c # w)" by (simp add: res)
  have "parse_unquoted_claim_value (res @ []) = (res, [])"
    by (rule unquoted_value_plain) (use assms(1) in \<open>simp_all add: word_def separated_def\<close>)
  then have val: "parse_unquoted_claim_value (c # w) = (c # w, [])" by (simp add: res)
  have token: "parse_claim_token (''result='' @ res) = Inr (''result'', res, [])"
    unfolding parse_claim_token_def key using val assms(2) by (simp add: res)
  have "parse_claim_tokens (CHR '' '' # ''result='' @ res) = parse_claim_tokens (''result='' @ res)"
    by (simp add: is_whitespace_def)
  moreover have "parse_claim_tokens (CHR ''r'' # (''esult='' @ res)) = Inr [(''result'', res)]"
    using token by (simp add: is_whitespace_def)
  ultimately show ?thesis by simp
qed

lemma claim_values_extra:
  "k \<noteq> ''result'' \<Longrightarrow> claim_values (kvs @ [(''result'', r)]) k = claim_values kvs k"
  by (simp add: claim_values_map_of)

text \<open>A claim text with a result token parses to the claim without it.\<close>

lemma parse_with_result:
  assumes "claim_complete c" and "word res" and "hd res \<noteq> QUOTE"
  shows "claim_parse (claim_render c @ '' result='' @ res) = Inr c"
proof -
  have "separated ('' result='' @ res)" by (simp add: separated_def)
  from parse_joined_then [OF claim_fields_plain [OF assms(1)] _ this]
  have "parse_claim_tokens (claim_render c @ '' result='' @ res) =
      Inr (claim_fields c @ [(''result'', res)])"
    unfolding claim_render_fields parse_result_token [OF assms(2,3)]
    by (simp add: claim_fields_def)
  then show ?thesis
    unfolding claim_parse_def
    by (simp add: claim_values_extra claim_values_fields required_def)
qed

lemma render_parseable_iff: "render_parseable_lane_claim c = Inr v \<longleftrightarrow> claim_complete c \<and> v = claim_render c"
  using parse_render_complete [of c] parsed_claim_complete [of "claim_render c" c]
  by (auto simp: render_parseable_lane_claim_def Let_def split: sum.splits if_splits)

lemma with_state_complete [simp]: "claim_complete (with_state c s) = claim_complete c"
  by (simp add: claim_complete_def with_state_def)

lemma with_state_simps [simp]:
  "cl_lane (with_state c s) = cl_lane c" "cl_state (with_state c s) = s"
  "cl_issue (with_state c s) = cl_issue c" "cl_worker (with_state c s) = cl_worker c"
  "cl_run (with_state c s) = cl_run c"
  by (simp_all add: with_state_def)

subsection \<open>Facts: eligibility\<close>

text \<open>The part of the decision that does not depend on the worker.\<close>

definition lane_open :: "TrackerIssue \<Rightarrow> WorkerLane \<Rightarrow> RuntimeConfig \<Rightarrow> bool" where
  "lane_open i lane config \<longleftrightarrow>
     lane_state_eligible i lane config \<and>
     (lane = Main \<longrightarrow> native_subissue_gate_blocker i (set (terminal_state_set config)) = None)"

lemma claimable_iff:
  "is_claimable (pool_claim_eligibility i lane w config) \<longleftrightarrow>
     lane_open i lane config \<and> is_claimable (claim_field_eligibility i lane w)"
  by (auto simp: pool_claim_eligibility_def lane_open_def is_claimable_def split: option.splits)

lemma active_claim_eligibility:
  assumes "project_text_field i (claim_field lane) = Some v" and "claim_parse v = Inr c"
    and "cl_lane c = claim_lane lane" and "cl_state c = Active"
  shows "is_claimable (claim_field_eligibility i lane w) \<longleftrightarrow>
    w = v \<or> cl_issue c = ti_identifier i \<and> cl_worker c = Some w"
  using assms by (auto simp: claim_field_eligibility_def is_claimable_def is_terminal_audit_pointer_def)

lemma terminal_claim_eligibility:
  assumes "project_text_field i (claim_field lane) = Some v" and "claim_parse v = Inr c"
    and "cl_lane c = claim_lane lane" and "is_terminal_audit_pointer (cl_state c)"
  shows "is_claimable (claim_field_eligibility i lane w)"
  using assms by (simp add: claim_field_eligibility_def is_claimable_def)

lemma write_claim_value_visible:
  assumes "acknowledges_fields A" and "ta_get_issue A t (ti_identifier i) = Inr (Some i)"
    and "write_claim_value A t i lane v reason = (Inr u, t', audits)" and "trim v = v" and "v \<noteq> []"
  shows "\<exists>j. ta_get_issue A t' (ti_identifier i) = Inr (Some j) \<and>
    project_text_field j (claim_field lane) = Some v"
proof -
  obtain q where "set_project_field_with_recovery A t i \<lparr>pa_name = claim_field lane, pa_value = v\<rparr>
      ''claim_field'' = (Inr q, t')"
    using assms(3) by (auto simp: write_claim_value_def split: prod.splits sum.splits)
  from field_write_success [OF assms(1,2) this] assms(4,5) show ?thesis
    by (simp add: issue_project_field_matches_def)
qed

lemma terminal_value_iff:
  "terminal_lane_claim_value c state res = Inr v \<longleftrightarrow>
     word res \<and> v = claim_render (with_state c state) @ '' result='' @ res"
proof -
  have "\<not> (blank res \<or> list_ex is_whitespace res) \<longleftrightarrow> word res"
    by (cases res) (auto simp: word_def list_ex_iff list_all_iff trim_Nil_iff)
  then show ?thesis by (auto simp: terminal_lane_claim_value_def)
qed

lemma trim_terminal_value:
  assumes "claim_complete c" and "word res"
  shows "trim (claim_render c @ '' result='' @ res) = claim_render c @ '' result='' @ res"
proof (rule trim_fixed)
  show "\<not> is_whitespace (hd (claim_render c @ '' result='' @ res))"
    using trim_claim_render(2,3) [OF assms(1)] by (simp add: is_whitespace_def)
  show "\<not> is_whitespace (last (claim_render c @ '' result='' @ res))"
    using assms(2) by (auto simp: word_def list_all_iff)
qed simp

subsection \<open>Facts: selection\<close>

lemma take_sort_key:
  assumes "x \<in> set xs" and "x \<notin> set (take n (sort_key f xs))"
  shows "length (take n (sort_key f xs)) = n \<and> (\<forall>y \<in> set (take n (sort_key f xs)). f y \<le> f x)"
proof -
  let ?ys = "sort_key f xs"
  have "x \<in> set (drop n ?ys)"
    using assms by (metis Un_iff append_take_drop_id set_append set_sort)
  moreover have "sorted (map f (take n ?ys @ drop n ?ys))" by simp
  then have "\<forall>y \<in> set (take n ?ys). \<forall>z \<in> set (drop n ?ys). f y \<le> f z"
    unfolding map_append sorted_append by auto
  moreover have "n \<le> length ?ys" using calculation(1) by (cases "n \<le> length ?ys") auto
  ultimately show ?thesis by auto
qed

lemma select_pool_eq:
  "select_pool_worker_issues issues lane w pool config =
     take pool (sort_key pool_key
       (filter (\<lambda>i. is_claimable (pool_claim_eligibility i lane w config)) issues))"
  by (simp add: select_pool_worker_issues_def)

lemma push_new_issue_fold:
  assumes "distinct (map ti_identifier sel)"
  shows "distinct (map ti_identifier (foldl push_new_issue sel is)) \<and>
    length (foldl push_new_issue sel is) \<le> length sel + length is \<and>
    set (foldl push_new_issue sel is) \<subseteq> set sel \<union> set is"
  using assms
proof (induction "is" arbitrary: sel)
  case (Cons i "is")
  have "distinct (map ti_identifier (push_new_issue sel i))"
    using Cons.prems by (auto simp: push_new_issue_def already_selected_def list_ex_iff)
  from Cons.IH [OF this] show ?case by (auto simp: push_new_issue_def split: if_splits)
qed simp

lemma push_recoverable_inv:
  assumes "distinct (map ti_identifier sel)" and "length sel \<le> slots"
  shows "distinct (map ti_identifier (push_recoverable slots sel is)) \<and>
    length (push_recoverable slots sel is) \<le> slots \<and>
    set (push_recoverable slots sel is) \<subseteq> set sel \<union> set is"
  using assms
proof (induction "is" arbitrary: sel)
  case (Cons i "is")
  show ?case
  proof (cases "slots \<le> length sel")
    case True
    with Cons.prems show ?thesis by auto
  next
    case False
    let ?sel = "if already_selected sel i then sel else sel @ [i]"
    have "distinct (map ti_identifier ?sel)" "length ?sel \<le> slots" "set ?sel \<subseteq> insert i (set sel)"
      using Cons.prems False by (auto simp: already_selected_def list_ex_iff)
    with Cons.IH [of ?sel] False show ?thesis by auto
  qed
qed simp

lemma push_new_merge_fold:
  assumes "distinct (map ti_identifier is)"
    and "\<forall>i \<in> set is. \<forall>s \<in> set sel. ti_identifier (ms_issue s) \<noteq> ti_identifier i"
  shows "foldl push_new_merge sel is = sel @ map (\<lambda>i. \<lparr>ms_issue = i, ms_recovery_reason = None\<rparr>) is"
  using assms
proof (induction "is" arbitrary: sel)
  case (Cons i "is")
  have "push_new_merge sel i = sel @ [\<lparr>ms_issue = i, ms_recovery_reason = None\<rparr>]"
    using Cons.prems(2) by (auto simp: push_new_merge_def list_ex_iff)
  moreover have "\<forall>j \<in> set is. \<forall>s \<in> set (sel @ [\<lparr>ms_issue = i, ms_recovery_reason = None\<rparr>]).
      ti_identifier (ms_issue s) \<noteq> ti_identifier j"
    using Cons.prems by (auto simp: image_iff)
  ultimately show ?case using Cons by simp
qed simp

lemma recovery_candidates_issues:
  "mset (map ms_issue (recovery_candidates issues w config)) =
     mset (filter (\<lambda>i. merge_recovery_reason i w config \<noteq> None) issues)"
  by (induction issues) (auto simp: recovery_candidates_def map_filter_simps split: option.splits)

lemma recovery_not_claimable:
  assumes "merge_recovery_reason i w config \<noteq> None" and "\<nexists>c. claim_parse w = Inr c"
  shows "\<not> is_claimable (pool_claim_eligibility i Merging w config)"
proof -
  obtain v c where "project_text_field i (claim_field Merging) = Some v" "claim_parse v = Inr c"
    "cl_lane c = claim_lane Merging" "cl_state c = Active" "cl_worker c \<noteq> Some w"
    using assms(1) by (auto simp: merge_recovery_reason_def split: if_splits option.splits sum.splits)
  with active_claim_eligibility [of i Merging v c w] assms(2) show ?thesis
    by (auto simp: claimable_iff)
qed

lemma distinct_select_pool:
  "distinct (map ti_identifier issues) \<Longrightarrow>
   distinct (map ti_identifier (select_pool_worker_issues issues lane w pool config))"
proof -
  assume d: "distinct (map ti_identifier issues)"
  let ?p = "\<lambda>i. is_claimable (pool_claim_eligibility i lane w config)"
  have "mset (map ti_identifier (sort_key pool_key (filter ?p issues))) =
      mset (map ti_identifier (filter ?p issues))" by simp
  with d have "distinct (map ti_identifier (sort_key pool_key (filter ?p issues)))"
    by (metis distinct_map_filter mset_eq_imp_distinct_iff)
  then show ?thesis by (simp add: select_pool_eq distinct_take flip: take_map)
qed

lemma merge_selection_eq:
  assumes "distinct (map ti_identifier issues)" and "\<nexists>c. claim_parse w = Inr c"
  shows "select_merge_worker_issues issues w pool config recover =
    (let rec = (if recover then take (max pool 1) (recovery_candidates issues w config) else [])
     in rec @ map (\<lambda>i. \<lparr>ms_issue = i, ms_recovery_reason = None\<rparr>)
          (select_pool_worker_issues issues Merging w (max pool 1 - length rec) config))"
proof -
  let ?rec = "if recover then take (max pool 1) (recovery_candidates issues w config) else []"
  let ?n = "max pool 1 - length ?rec"
  let ?sel = "select_pool_worker_issues issues Merging w ?n config"
  have "ti_identifier (ms_issue s) \<noteq> ti_identifier i" if i: "i \<in> set ?sel" and s: "s \<in> set ?rec" for i s
  proof
    assume "ti_identifier (ms_issue s) = ti_identifier i"
    moreover have "ms_issue s \<in> set issues \<and> merge_recovery_reason (ms_issue s) w config \<noteq> None"
      using s mset_eq_setD [OF recovery_candidates_issues, of issues w config]
      by (force split: if_splits dest: in_set_takeD)
    moreover have "i \<in> set issues \<and> is_claimable (pool_claim_eligibility i Merging w config)"
      using i by (auto simp: select_pool_eq dest: in_set_takeD)
    ultimately show False
      using assms(1) recovery_not_claimable [OF _ assms(2)] by (metis inj_on_eq_iff distinct_map)
  qed
  then have "foldl push_new_merge ?rec ?sel = ?rec @ map (\<lambda>i. \<lparr>ms_issue = i, ms_recovery_reason = None\<rparr>) ?sel"
    by (intro push_new_merge_fold distinct_select_pool assms) blast
  moreover have "select_merge_worker_issues issues w pool config recover = foldl push_new_merge ?rec ?sel"
  proof (cases "?n > 0")
    case True
    then show ?thesis by (simp only: select_merge_worker_issues_def Let_def if_True)
  next
    case False
    then have "?n = 0" by (simp only: not_gr_zero)
    then have "?sel = []" by (simp only: select_pool_worker_issues_def simp_thms if_True)
    with False show ?thesis by (simp only: select_merge_worker_issues_def Let_def if_False foldl.simps)
  qed
  ultimately show ?thesis by (simp only: Let_def)
qed

lemma recovery_candidates_set:
  "set (recovery_candidates issues w config) =
     (\<lambda>i. \<lparr>ms_issue = i, ms_recovery_reason = merge_recovery_reason i w config\<rparr>) `
       {i \<in> set issues. merge_recovery_reason i w config \<noteq> None}"
  by (induction issues) (auto simp: recovery_candidates_def map_filter_simps split: option.splits)

lemma merge_selection_distinct:
  assumes "distinct (map ti_identifier issues)" and "\<nexists>c. claim_parse w = Inr c"
  shows "distinct (map (ti_identifier \<circ> ms_issue) (select_merge_worker_issues issues w pool config recover))"
proof -
  let ?id = "ti_identifier \<circ> ms_issue"
  let ?cand = "recovery_candidates issues w config"
  let ?rec = "if recover then take (max pool 1) ?cand else []"
  let ?pool = "select_pool_worker_issues issues Merging w (max pool 1 - length ?rec) config"
  have "mset (map ?id ?cand) = image_mset ti_identifier (mset (map ms_issue ?cand))"
    by (simp add: multiset.map_comp)
  also have "\<dots> = mset (map ti_identifier (filter (\<lambda>i. merge_recovery_reason i w config \<noteq> None) issues))"
    unfolding recovery_candidates_issues by simp
  finally have "distinct (map ?id ?cand)"
    using assms(1) by (metis distinct_map_filter mset_eq_imp_distinct_iff)
  then have rec: "distinct (map ?id ?rec)" by (simp add: distinct_take flip: take_map)
  have "i \<notin> ms_issue ` set ?rec" if "i \<in> set ?pool" for i
    using that recovery_not_claimable [OF _ assms(2)] recovery_candidates_set [of issues w config]
    by (auto simp: select_pool_eq split: if_splits dest!: in_set_takeD)
  moreover have "ms_issue ` set ?rec \<subseteq> set issues" "set ?pool \<subseteq> set issues"
    using recovery_candidates_set [of issues w config]
    by (auto simp: select_pool_eq dest!: in_set_takeD)
  moreover have "inj_on ti_identifier (set issues)" using assms(1) by (simp add: distinct_map)
  ultimately have "?id ` set ?rec \<inter> ti_identifier ` set ?pool = {}"
    by (auto simp: inj_on_def) (metis image_eqI subsetD)
  with rec distinct_select_pool [OF assms(1)] show ?thesis
    using merge_selection_eq [OF assms] by (simp add: Let_def comp_def image_image)
qed

subsection \<open>A tracker for the concrete instances\<close>

text \<open>A tracker that holds one issue and stores its project fields.\<close>

definition field_tracker :: "TrackerIssue TrackerAdapter" where
  "field_tracker =
     \<lparr>ta_get_issue = (\<lambda>t r. Inr (if r = ti_identifier t then Some t else None)),
      ta_set_state = (\<lambda>t r s. (Inr (), t)),
      ta_set_project_field =
        (\<lambda>t r a. if r = ti_identifier t
                 then (Inr (), t\<lparr>ti_project_fields := (ti_project_fields t)(pa_name a \<mapsto> String (pa_value a))\<rparr>)
                 else (Inl (TrackerError.Payload ''issue not found''), t)),
      ta_upsert_workpad = (\<lambda>t r m. (Inr (), t)),
      ta_add_issue_comment = (\<lambda>t r m. (Inr (), t)),
      ta_close_issue = (\<lambda>t r. (Inr (), t))\<rparr>"

lemma field_tracker_acknowledges: "acknowledges_fields field_tracker"
  by (auto simp: acknowledges_fields_def field_tracker_def issue_project_field_matches_def
      project_text_field_def split: if_splits)

definition merging_issue :: TrackerIssue where
  "merging_issue = sample_issue ''7'' ''Merging''"

definition ann_claim :: LaneClaim where
  "ann_claim = (claim_active ''#7'' LaneClaimLane.Merge Codex Loop 0)\<lparr>cl_worker := Some ''ann''\<rparr>"

lemma ann_claim_facts:
  "claim_complete ann_claim" "cl_lane ann_claim = claim_lane Merging" "cl_state ann_claim = Active"
  "cl_issue ann_claim = ''#7''" "cl_worker ann_claim = Some ''ann''"
  by (simp_all add: ann_claim_def claim_complete_def claim_active_def generate_run_id_def Let_def)

lemma merging_issue_facts:
  "ti_identifier merging_issue = ''#7''" "ti_project_fields merging_issue = Map.empty"
  "ta_get_issue field_tracker merging_issue (ti_identifier merging_issue) = Inr (Some merging_issue)"
  by (simp_all add: merging_issue_def sample_issue_def field_tracker_def)

lemma field_tracker_write:
  assumes "project_text_field t (claim_field lane) \<noteq> Some v"
  shows "\<exists>t' audits. write_claim_value field_tracker t t lane v reason = (Inr (), t', audits)"
  using assms
  by (simp add: write_claim_value_def set_project_field_with_recovery_def issue_project_field_matches_def
      field_tracker_def)

subsection \<open>Properties\<close>



text \<open>When a worker closes its claim with a terminal state and a result, and the write
  reports success, the lane is open again for every worker: the text still parses to the
  closed claim, whatever compact result is recorded that does not begin with a quote.\<close>

theorem closed_claim_releases:
  assumes "acknowledges_fields A" and "ta_get_issue A t (ti_identifier i) = Inr (Some i)"
    and "write_lane_claim_terminal_result A t i lane c state res = (Inr u, t', audits)"
    and "claim_complete c" and "cl_lane c = claim_lane lane" and "is_terminal_audit_pointer state"
    and "hd res \<noteq> QUOTE"
  shows "\<exists>j. ta_get_issue A t' (ti_identifier i) = Inr (Some j) \<and>
    Option.bind (project_text_field j (claim_field lane)) (\<lambda>v. result_ok (claim_parse v)) =
      Some (with_state c state) \<and>
    (\<forall>w config. is_claimable (pool_claim_eligibility j lane w config) \<longleftrightarrow> lane_open j lane config)"
proof -
  let ?v = "claim_render (with_state c state) @ '' result='' @ res"
  from assms(3) have res: "word res"
    and w: "write_claim_value A t i lane ?v ''lane worker terminal claim result'' = (Inr u, t', audits)"
    by (auto simp: write_lane_claim_terminal_result_def terminal_value_iff split: sum.splits)
  have complete: "claim_complete (with_state c state)" using assms(4) by simp
  have parse: "claim_parse ?v = Inr (with_state c state)"
    by (rule parse_with_result [OF complete res assms(7)])
  have "?v \<noteq> []" by simp
  from write_claim_value_visible [OF assms(1,2) w trim_terminal_value [OF complete res] this]
  obtain j where "ta_get_issue A t' (ti_identifier i) = Inr (Some j)"
    and "project_text_field j (claim_field lane) = Some ?v" by blast
  with terminal_claim_eligibility [OF _ parse] assms(5,6) parse show ?thesis
    by (auto simp: claimable_iff)
qed

theorem closed_claim_releases_witness:
  "\<exists>t' j. ta_get_issue field_tracker t' ''#7'' = Inr (Some j) \<and>
     (\<forall>w config. is_claimable (pool_claim_eligibility j Merging w config) \<longleftrightarrow> lane_open j Merging config)"
proof -
  have "project_text_field merging_issue (claim_field Merging) \<noteq> Some v" for v
    by (simp add: project_text_field_def merging_issue_facts)
  from field_tracker_write [OF this] obtain t' audits where
    "write_claim_value field_tracker merging_issue merging_issue Merging
       (claim_render (with_state ann_claim Done) @ '' result='' @ ''merged'')
       ''lane worker terminal claim result'' = (Inr (), t', audits)" by blast
  moreover have "word ''merged''" "hd ''merged'' \<noteq> QUOTE" by code_simp+
  moreover from this(1) have "terminal_lane_claim_value ann_claim Done ''merged'' =
      Inr (claim_render (with_state ann_claim Done) @ '' result='' @ ''merged'')"
    unfolding terminal_value_iff by blast
  ultimately have "write_lane_claim_terminal_result field_tracker merging_issue merging_issue Merging
      ann_claim Done ''merged'' = (Inr (), t', audits)" and q: "hd ''merged'' \<noteq> QUOTE"
    by (simp_all add: write_lane_claim_terminal_result_def)
  have "is_terminal_audit_pointer Done" by (simp add: is_terminal_audit_pointer_def)
  from closed_claim_releases [OF field_tracker_acknowledges merging_issue_facts(3)
      \<open>write_lane_claim_terminal_result _ _ _ _ _ _ _ = _\<close> ann_claim_facts(1,2) this q]
  show ?thesis unfolding merging_issue_facts(1) by auto
qed

text \<open>The merge lane's selection never exceeds the pool (at least one), never holds an issue
  twice, takes only recoverable or claimable issues, and leaves such an issue out only when
  every slot is taken: an issue whose claim is recovered from another worker is never
  claimable at the same time, so no slot is lost to a duplicate. The issues of a scan have
  different identifiers, and the worker's name is not itself a claim.\<close>

theorem merge_selection_fills_pool:
  assumes "distinct (map ti_identifier issues)" and "\<nexists>c. claim_parse w = Inr c"
  shows "length (select_merge_worker_issues issues w pool config recover) \<le> max pool 1 \<and>
    distinct (map (ti_identifier \<circ> ms_issue) (select_merge_worker_issues issues w pool config recover)) \<and>
    (\<forall>s \<in> set (select_merge_worker_issues issues w pool config recover).
       ms_issue s \<in> set issues \<and>
       (case ms_recovery_reason s of
          None \<Rightarrow> is_claimable (pool_claim_eligibility (ms_issue s) Merging w config)
        | Some r \<Rightarrow> recover \<and> merge_recovery_reason (ms_issue s) w config = Some r)) \<and>
    (\<forall>i \<in> set issues.
       is_claimable (pool_claim_eligibility i Merging w config) \<or>
       recover \<and> merge_recovery_reason i w config \<noteq> None \<longrightarrow>
       i \<in> ms_issue ` set (select_merge_worker_issues issues w pool config recover) \<or>
       length (select_merge_worker_issues issues w pool config recover) = max pool 1)"
    (is "length ?sel \<le> ?n \<and> _")
proof -
  let ?cand = "recovery_candidates issues w config"
  let ?rec = "if recover then take ?n ?cand else []"
  let ?pool = "select_pool_worker_issues issues Merging w (?n - length ?rec) config"
  have sel: "?sel = ?rec @ map (\<lambda>i. \<lparr>ms_issue = i, ms_recovery_reason = None\<rparr>) ?pool"
    using merge_selection_eq [OF assms] by (simp only: Let_def)
  have len: "length ?rec \<le> ?n" "length ?pool \<le> ?n - length ?rec"
    by (simp_all add: select_pool_eq)
  have cand: "set ?cand = (\<lambda>i. \<lparr>ms_issue = i, ms_recovery_reason = merge_recovery_reason i w config\<rparr>) `
      {i \<in> set issues. merge_recovery_reason i w config \<noteq> None}"
    by (rule recovery_candidates_set)
  have rec: "ms_issue s \<in> set issues \<and> recover \<and> ms_recovery_reason s \<noteq> None \<and>
      merge_recovery_reason (ms_issue s) w config = ms_recovery_reason s" if "s \<in> set ?rec" for s
  proof -
    from that have "recover" "s \<in> set ?cand" by (auto split: if_splits dest: in_set_takeD)
    then show ?thesis unfolding cand by auto
  qed
  have pool: "i \<in> set issues \<and> is_claimable (pool_claim_eligibility i Merging w config)" if "i \<in> set ?pool" for i
    using that by (auto simp: select_pool_eq dest: in_set_takeD)
  have lsel: "length ?sel = length ?rec + length ?pool"
    unfolding sel by (simp only: length_append length_map)
  have isel: "ms_issue ` set ?sel = ms_issue ` set ?rec \<union> set ?pool"
    unfolding sel set_append image_Un set_map image_image MergeWorkerSelection.simps image_ident ..
  have "length ?sel \<le> ?n" using len lsel by linarith
  moreover have "distinct (map (ti_identifier \<circ> ms_issue) ?sel)"
    by (rule merge_selection_distinct [OF assms])
  moreover have "\<forall>s \<in> set ?sel. ms_issue s \<in> set issues \<and>
       (case ms_recovery_reason s of
          None \<Rightarrow> is_claimable (pool_claim_eligibility (ms_issue s) Merging w config)
        | Some r \<Rightarrow> recover \<and> merge_recovery_reason (ms_issue s) w config = Some r)"
    unfolding sel using rec pool by (fastforce split: option.splits)
  moreover have "i \<in> ms_issue ` set ?sel \<or> length ?sel = ?n"
    if i: "i \<in> set issues" and ok: "is_claimable (pool_claim_eligibility i Merging w config) \<or>
       recover \<and> merge_recovery_reason i w config \<noteq> None" for i
  proof (cases "is_claimable (pool_claim_eligibility i Merging w config)")
    case True
    then have "i \<in> set ?pool \<or> length ?pool = ?n - length ?rec"
      using i take_sort_key [of i "filter (\<lambda>i. is_claimable (pool_claim_eligibility i Merging w config)) issues"]
      by (auto simp: select_pool_eq)
    then show ?thesis
    proof
      assume "length ?pool = ?n - length ?rec"
      with lsel len(1) show ?thesis by linarith
    qed (unfold isel, blast)
  next
    case False
    with ok i have "recover" "i \<in> ms_issue ` set ?cand" unfolding cand by force+
    then have "i \<in> ms_issue ` set ?rec \<or> length ?rec = ?n"
      by (cases "length ?cand \<le> ?n") auto
    then show ?thesis
    proof
      assume "length ?rec = ?n"
      with lsel len show ?thesis by linarith
    qed (unfold isel, blast)
  qed
  ultimately show ?thesis by blast
qed

theorem merge_selection_fills_pool_witness:
  "distinct (map ti_identifier [merging_issue]) \<and> (\<nexists>c. claim_parse ''ann'' = Inr c) \<and>
   is_claimable (pool_claim_eligibility merging_issue Merging ''ann'' (example_config 1)) \<and>
   (merging_issue \<in> ms_issue ` set (select_merge_worker_issues [merging_issue] ''ann'' 1 (example_config 1) True) \<or>
    length (select_merge_worker_issues [merging_issue] ''ann'' 1 (example_config 1) True) = 1)"
proof -
  have "claim_parse ''ann'' = Inl (InvalidToken ''ann'')" by code_simp
  then have p: "\<nexists>c. claim_parse ''ann'' = Inr c" by simp
  have d: "distinct (map ti_identifier [merging_issue])" by simp
  have m: "max 1 1 = (1::nat)" by simp
  have "lane_state_eligible merging_issue Merging (example_config 1)" by code_simp
  then have ok: "is_claimable (pool_claim_eligibility merging_issue Merging ''ann'' (example_config 1))"
    unfolding claimable_iff lane_open_def
    by (simp add: claim_field_eligibility_def project_text_field_def merging_issue_facts is_claimable_def)
  from merge_selection_fills_pool [OF d p, of 1 "example_config 1" True, unfolded m] d p ok show ?thesis
    by (metis list.set_intros(1))
qed

text \<open>The main lane's selection never exceeds the free slots, never holds an issue twice and
  takes only recoverable issues and claimable planned ones.\<close>

theorem main_selection_bounded:
  "length (select_main_run_loop_issues recoverable planned slots w config) \<le> slots \<and>
   distinct (map ti_identifier (select_main_run_loop_issues recoverable planned slots w config)) \<and>
   set (select_main_run_loop_issues recoverable planned slots w config) \<subseteq>
     set (map rr_issue recoverable) \<union>
     {i \<in> set planned. is_claimable (pool_claim_eligibility i Main w config)}"
proof (cases "slots = 0")
  case False
  let ?rec = "push_recoverable slots [] (map rr_issue recoverable)"
  let ?pool = "select_pool_worker_issues planned Main w (slots - length ?rec) config"
  have rec: "distinct (map ti_identifier ?rec)" "length ?rec \<le> slots" "set ?rec \<subseteq> set (map rr_issue recoverable)"
    using push_recoverable_inv [of "[]" slots "map rr_issue recoverable"] by auto
  have pool: "length ?pool \<le> slots - length ?rec"
    "set ?pool \<subseteq> {i \<in> set planned. is_claimable (pool_claim_eligibility i Main w config)}"
    by (auto simp: select_pool_eq dest: in_set_takeD)
  show ?thesis
    using push_new_issue_fold [OF rec(1), of ?pool] rec(2,3) pool False
    by (auto simp: select_main_run_loop_issues_def Let_def)
qed (simp add: select_main_run_loop_issues_def)

text \<open>A recovered issue that the plan also holds takes the place of another planned issue: with
  two free slots, one recoverable issue that is planned too and a second claimable issue, only
  the first is selected and a slot stays idle.\<close>

definition interrupted_issue :: TrackerIssue where
  "interrupted_issue = (sample_issue ''1'' ''In Progress'')\<lparr>ti_priority := Some 1\<rparr>"

definition waiting_issue :: TrackerIssue where
  "waiting_issue = (sample_issue ''2'' ''Todo'')\<lparr>ti_priority := Some 2\<rparr>"

theorem main_selection_leaves_slot_idle:
  "is_claimable (pool_claim_eligibility waiting_issue Main w (example_config 2)) \<and>
   select_main_run_loop_issues [\<lparr>rr_state = (), rr_issue = interrupted_issue, rr_reason = ''retry_due''\<rparr>]
     [interrupted_issue, waiting_issue] 2 w (example_config 2) = [interrupted_issue]"
proof -
  have "project_text_field interrupted_issue (claim_field Main) = None"
    "project_text_field waiting_issue (claim_field Main) = None"
    by (simp_all add: project_text_field_def interrupted_issue_def waiting_issue_def sample_issue_def)
  moreover have "lane_state_eligible interrupted_issue Main (example_config 2)"
    "lane_state_eligible waiting_issue Main (example_config 2)"
    by code_simp+
  moreover have "native_subissue_gate_blocker interrupted_issue T = None"
    "native_subissue_gate_blocker waiting_issue T = None" for T
    by (simp_all add: gate_blocker_None_iff native_subissue_statuses_def subissues_from_array_def
        subissues_from_state_pairs_def subissues_from_list_def interrupted_issue_def waiting_issue_def
        sample_issue_def)
  ultimately have ok: "is_claimable (pool_claim_eligibility interrupted_issue Main w (example_config 2))"
    "is_claimable (pool_claim_eligibility waiting_issue Main w (example_config 2))"
    unfolding claimable_iff lane_open_def
    by (simp_all add: claim_field_eligibility_def is_claimable_def)
  have "pool_key interrupted_issue = 1" "pool_key waiting_issue = 2"
    by (simp_all add: pool_key_def interrupted_issue_def waiting_issue_def)
  then have "select_pool_worker_issues [interrupted_issue, waiting_issue] Main w 1 (example_config 2) =
      [interrupted_issue]"
    using ok by (simp add: select_pool_eq)
  with ok show ?thesis
    by (simp add: select_main_run_loop_issues_def Let_def push_new_issue_def already_selected_def)
qed

end
