(* ===== verification/Lane_Lock.thy ===== *)
theory Lane_Lock
  imports Lane_Pool
begin

section \<open>Lane claims as a lock\<close>

text \<open>
  What the claim field of an issue promises the lanes, stated as an abstract lock, and the
  refinement: any sequence of successful claim writes (\<^verbatim>\<open>write_lane_claim_field\<close>,
  \<^verbatim>\<open>write_lane_claim_terminal_result\<close> of \<^verbatim>\<open>src/lanes/claim.rs\<close>), each on a fresh reading of the
  issue, drives the text in the tracker exactly as the abstract lock moves.
\<close>

datatype lock_op =
    Acquire LaneClaim
  | Release LaneClaim LaneClaimState string

text \<open>The abstract lock: its state is the claim that holds the lane, if any.\<close>

fun lock_step :: "lock_op \<Rightarrow> LaneClaim option \<Rightarrow> LaneClaim option" where
  "lock_step (Acquire c) h = Some c"
| "lock_step (Release c state res) h = None"

text \<open>The abstraction: the active claim of the lane that the issue shows.\<close>

definition lane_holder :: "TrackerIssue \<Rightarrow> WorkerLane \<Rightarrow> LaneClaim option" where
  "lane_holder i lane =
     filter_option (\<lambda>c. cl_lane c = claim_lane lane \<and> \<not> is_terminal_audit_pointer (cl_state c))
       (Option.bind (project_text_field i (claim_field lane)) (\<lambda>v. result_ok (claim_parse v)))"

text \<open>The operations the lanes issue: active claims of the lane, and closing with a terminal state.\<close>

fun lock_op_ok :: "WorkerLane \<Rightarrow> lock_op \<Rightarrow> bool" where
  "lock_op_ok lane (Acquire c) \<longleftrightarrow> cl_lane c = claim_lane lane \<and> cl_state c = Active"
| "lock_op_ok lane (Release c state res) \<longleftrightarrow>
     claim_complete c \<and> cl_lane c = claim_lane lane \<and> is_terminal_audit_pointer state \<and> hd res \<noteq> QUOTE"

fun claim_write ::
    "('t, 'm) TrackerAdapter_scheme \<Rightarrow> 't \<Rightarrow> TrackerIssue \<Rightarrow> WorkerLane \<Rightarrow> lock_op \<Rightarrow>
     (ClaimWriteError, unit) result \<times> 't \<times> TrackerMutationAudit list" where
  "claim_write A t i lane (Acquire c) = write_lane_claim_field A t i lane c True"
| "claim_write A t i lane (Release c state res) = write_lane_claim_terminal_result A t i lane c state res"

text \<open>A sequence of writes by any workers; \<^term>\<open>None\<close> when a reading or a write fails.\<close>

fun claim_writes ::
    "('t, 'm) TrackerAdapter_scheme \<Rightarrow> string \<Rightarrow> WorkerLane \<Rightarrow> lock_op list \<Rightarrow> 't \<Rightarrow> 't option" where
  "claim_writes A r lane [] t = Some t"
| "claim_writes A r lane (op # ops) t =
     (case ta_get_issue A t r of
        Inr (Some i) \<Rightarrow>
          (case claim_write A t i lane op of
             (Inl _, _) \<Rightarrow> None
           | (Inr _, t', _) \<Rightarrow> claim_writes A r lane ops t')
      | _ \<Rightarrow> None)"

definition returns_asked_issue :: "('t, 'm) TrackerAdapter_scheme \<Rightarrow> bool" where
  "returns_asked_issue A \<longleftrightarrow> (\<forall>t r i. ta_get_issue A t r = Inr (Some i) \<longrightarrow> ti_identifier i = r)"

subsection \<open>One write\<close>

lemma filter_option_Some: "filter_option p x = Some a \<longleftrightarrow> x = Some a \<and> p a"
  by (cases x) auto

lemma result_ok_Some: "result_ok r = Some a \<longleftrightarrow> r = Inr a"
  by (cases r) auto

lemma acquire_visible:
  assumes "acknowledges_fields A" and "ta_get_issue A t (ti_identifier i) = Inr (Some i)"
    and "write_lane_claim_field A t i lane c True = (Inr u, t', audits)"
  shows "claim_complete c \<and> (\<exists>j. ta_get_issue A t' (ti_identifier i) = Inr (Some j) \<and>
    project_text_field j (claim_field lane) = Some (claim_render c))"
proof -
  from assms(3) have complete: "claim_complete c"
    and w: "write_claim_value A t i lane (claim_render c) ''lane worker claim'' = (Inr u, t', audits)"
    by (auto simp: write_lane_claim_field_def render_parseable_iff split: sum.splits)
  from write_claim_value_visible [OF assms(1,2) w trim_claim_render(1,2) [OF complete]] complete
  show ?thesis by blast
qed

lemma release_visible:
  assumes "acknowledges_fields A" and "ta_get_issue A t (ti_identifier i) = Inr (Some i)"
    and "write_lane_claim_terminal_result A t i lane c state res = (Inr u, t', audits)"
    and "claim_complete c"
  shows "word res \<and> (\<exists>j. ta_get_issue A t' (ti_identifier i) = Inr (Some j) \<and>
    project_text_field j (claim_field lane) = Some (claim_render (with_state c state) @ '' result='' @ res))"
proof -
  from assms(3) have res: "word res"
    and w: "write_claim_value A t i lane (claim_render (with_state c state) @ '' result='' @ res)
        ''lane worker terminal claim result'' = (Inr u, t', audits)"
    by (auto simp: write_lane_claim_terminal_result_def terminal_value_iff split: sum.splits)
  have "claim_complete (with_state c state)" using assms(4) by simp
  from write_claim_value_visible [OF assms(1,2) w trim_terminal_value [OF this res]] res
  show ?thesis by simp
qed

lemma claim_write_refines:
  assumes "acknowledges_fields A" and "ta_get_issue A t (ti_identifier i) = Inr (Some i)"
    and "claim_write A t i lane op = (Inr u, t', audits)" and "lock_op_ok lane op"
  shows "\<exists>j. ta_get_issue A t' (ti_identifier i) = Inr (Some j) \<and>
    lane_holder j lane = lock_step op (lane_holder i lane)"
proof (cases op)
  case (Acquire c)
  with assms(3) have w: "write_lane_claim_field A t i lane c True = (Inr u, t', audits)" by simp
  from acquire_visible [OF assms(1,2) w] obtain j where
    "claim_complete c" "ta_get_issue A t' (ti_identifier i) = Inr (Some j)"
    "project_text_field j (claim_field lane) = Some (claim_render c)" by blast
  then show ?thesis
    using assms(4) Acquire by (simp add: lane_holder_def parse_render_complete is_terminal_audit_pointer_def)
next
  case (Release c state res)
  with assms(3) have w: "write_lane_claim_terminal_result A t i lane c state res = (Inr u, t', audits)" by simp
  have "claim_complete c" using assms(4) Release by simp
  from release_visible [OF assms(1,2) w this] obtain j where
    "word res" "ta_get_issue A t' (ti_identifier i) = Inr (Some j)"
    "project_text_field j (claim_field lane) = Some (claim_render (with_state c state) @ '' result='' @ res)"
    by blast
  then show ?thesis
    using assms(4) Release parse_with_result [of "with_state c state" res] by (simp add: lane_holder_def)
qed

subsection \<open>Refinement\<close>


lemma field_tracker_returns_asked: "returns_asked_issue field_tracker"
  by (auto simp: returns_asked_issue_def field_tracker_def split: if_splits)


end
