(* ===== verification/Review_Report.thy ===== *)
theory Review_Report
  imports Text_Tools
begin

section \<open>Review reports (\<^verbatim>\<open>src/review/report.rs\<close>)\<close>

text \<open>
  The backend-neutral report of a review and the text protocol of the command-line reviewers:
  a first line with the verdict and one bracketed line per finding. The report of a finished
  command-line reviewer is built as \<^verbatim>\<open>src/review.rs\<close> does it.
\<close>

datatype ReviewFindingClass = Confirmed | Plausible | Rejected | NeedsContext

record ReviewFinding =
  rf_class :: ReviewFindingClass
  rf_title :: string
  rf_body :: string
  rf_severity :: "string option"
  rf_file :: "string option"
  rf_line :: "u64 option"
  rf_evidence :: "string option"

record AgentReviewReport =
  rp_reviewer_backend :: string
  rp_findings :: "ReviewFinding list"
  rp_summary :: "string option"
  rp_stdout :: "string option"
  rp_stderr :: "string option"
  rp_exit_status :: "string option"
  rp_session_id :: "string option"

datatype ParsedReviewResult = Pass | Rework | NeedsContext

abbreviation newline :: char where "newline \<equiv> char_of (10::nat)"

subsection \<open>The text protocol\<close>

definition markup_char :: "char \<Rightarrow> bool" where
  "markup_char c \<longleftrightarrow> c = CHR ''*'' \<or> c = CHR ''_'' \<or> c = CHR 0x60"

definition parse_review_result :: "string \<Rightarrow> ParsedReviewResult option" where
  "parse_review_result output =
     (case find (\<lambda>l. l \<noteq> []) (map trim (lines output)) of
        None \<Rightarrow> None
      | Some l \<Rightarrow>
          (let normalized = to_ascii_lowercase (trim_matches markup_char l) in
           if normalized = ''review result: pass'' then Some Pass
           else if normalized = ''review result: rework'' then Some Rework
           else if normalized = ''review result: needs_context'' \<or>
                   normalized = ''review result: needs context'' \<or>
                   normalized = ''review result: need context''
           then Some ParsedReviewResult.NeedsContext
           else None))"

definition trim_finding_list_marker :: "string \<Rightarrow> string" where
  "trim_finding_list_marker line =
     (let trimmed = trim line in
      trim_start (unwrap_or (or_else (strip_prefix ''- '' trimmed) (strip_prefix ''* '' trimmed)) trimmed))"

definition finding_class_of_label :: "string \<Rightarrow> ReviewFindingClass option" where
  "finding_class_of_label label =
     (if label = ''confirmed'' then Some Confirmed
      else if label = ''plausible'' then Some Plausible
      else if label = ''rejected'' then Some Rejected
      else if label = ''needs context'' then Some ReviewFindingClass.NeedsContext
      else None)"

text \<open>The class in the leading brackets and the trimmed text behind them.\<close>

definition bracketed_class :: "string \<Rightarrow> (ReviewFindingClass \<times> string) option" where
  "bracketed_class line =
     (case trim_finding_list_marker line of
        [] \<Rightarrow> None
      | c # s \<Rightarrow>
          (if c \<noteq> CHR ''['' then None
           else case split_once (CHR '']'') s of
                  None \<Rightarrow> None
                | Some (inside, rest) \<Rightarrow>
                    map_option (\<lambda>k. (k, trim rest))
                      (finding_class_of_label (to_lowercase (single_line inside)))))"

definition plain_finding :: "ReviewFindingClass \<Rightarrow> string \<Rightarrow> string \<Rightarrow> ReviewFinding" where
  "plain_finding k title body =
     \<lparr>rf_class = k, rf_title = title, rf_body = body, rf_severity = None, rf_file = None,
      rf_line = None, rf_evidence = None\<rparr>"

definition parse_finding_line :: "string \<Rightarrow> ReviewFinding option" where
  "parse_finding_line line =
     (case bracketed_class line of
        None \<Rightarrow> None
      | Some (k, rest) \<Rightarrow>
          (case split_once (CHR '':'') rest of
             None \<Rightarrow> None
           | Some (title, body) \<Rightarrow>
               (if trim title = [] \<or> trim body = [] then None
                else Some (plain_finding k (trim title) (trim body)))))"

definition summarize_finding_title :: "string \<Rightarrow> string" where
  "summarize_finding_title text =
     (let title = trim (takeWhile (\<lambda>c. c \<noteq> CHR ''.'' \<and> c \<noteq> CHR '';'' \<and> c \<noteq> newline) text) in
      if length title > 96 then take 96 title @ ''...'' else title)"

definition parse_loose_finding_line :: "string \<Rightarrow> ReviewFinding option" where
  "parse_loose_finding_line line =
     (case bracketed_class line of
        None \<Rightarrow> None
      | Some (k, rest) \<Rightarrow>
          (if rest = [] then None else Some (plain_finding k (summarize_finding_title rest) rest)))"

definition first_review_result_body_line :: "string \<Rightarrow> string option" where
  "first_review_result_body_line output =
     find (\<lambda>l. \<not> contains (to_ascii_lowercase l) ''review result:'')
       (filter (\<lambda>l. l \<noteq> []) (map trim (lines output)))"

definition synthetic_review_result_finding :: "ReviewFindingClass \<Rightarrow> string \<Rightarrow> string \<Rightarrow> ReviewFinding" where
  "synthetic_review_result_finding k title output =
     plain_finding k title
       (unwrap_or (first_review_result_body_line output)
          ''Review backend returned this routing result without a parseable finding.'')"

definition has_class :: "ReviewFindingClass \<Rightarrow> ReviewFinding list \<Rightarrow> bool" where
  "has_class k fs \<longleftrightarrow> list_ex (\<lambda>f. rf_class f = k) fs"

definition classify_findings :: "string \<Rightarrow> ReviewFinding list" where
  "classify_findings output =
     (let res = parse_review_result output;
          findings = List.map_filter
            (\<lambda>line. or_else (parse_finding_line line)
               (if res = Some Rework \<or> res = Some ParsedReviewResult.NeedsContext
                then parse_loose_finding_line line else None))
            (lines output)
      in case res of
           Some Rework \<Rightarrow>
             (if \<not> has_class Confirmed findings
              then findings @ [synthetic_review_result_finding Confirmed
                                 ''Review result requires rework'' output]
              else findings)
         | Some ParsedReviewResult.NeedsContext \<Rightarrow>
             (if \<not> has_class ReviewFindingClass.NeedsContext findings
              then findings @ [synthetic_review_result_finding ReviewFindingClass.NeedsContext
                                 ''Review result needs context'' output]
              else findings)
         | _ \<Rightarrow> findings)"

subsection \<open>Report predicates\<close>

fun somes :: "'a option list \<Rightarrow> 'a list" where
  "somes [] = []"
| "somes (Some a # as) = a # somes as"
| "somes (None # as) = somes as"

definition has_parsed_review_result :: "AgentReviewReport \<Rightarrow> bool" where
  "has_parsed_review_result r \<longleftrightarrow>
     list_ex (\<lambda>t. parse_review_result t \<noteq> None) (somes [rp_summary r, rp_stdout r])"

definition legacy_backend_missing_review_result :: "AgentReviewReport \<Rightarrow> bool" where
  "legacy_backend_missing_review_result r \<longleftrightarrow>
     rp_reviewer_backend r = ''gemini-cli'' \<and> \<not> has_parsed_review_result r"

definition report_text :: "AgentReviewReport \<Rightarrow> string" where
  "report_text r = join [newline] (somes [rp_summary r, rp_stdout r, rp_stderr r])"

definition legacy_backend_access_failure_reason :: "AgentReviewReport \<Rightarrow> string option" where
  "legacy_backend_access_failure_reason r =
     (if \<not> legacy_backend_missing_review_result r then None
      else if contains_any (to_ascii_lowercase (report_text r))
        [''workspace is outside the sandbox'', ''workspace was outside the sandbox'',
         ''workspace is outside sandbox'', ''workspace was outside sandbox'',
         ''sandbox denied access to the workspace'', ''sandbox prevented access to the workspace'']
      then Some ''review backend sandbox could not access the issue workspace''
      else None)"

definition human_owned_uat_finding :: "ReviewFinding \<Rightarrow> bool" where
  "human_owned_uat_finding f \<longleftrightarrow>
     (let text = to_ascii_lowercase (rf_title f @ '' '' @ rf_body f) in
      if \<not> contains text ''uat'' then False
      else if \<not> contains_any text
        [''missing uat'', ''uat was not run'', ''uat has not been run'', ''uat was skipped'',
         ''uat not run'', ''live uat'']
      then False
      else \<not> contains_any text
        [''uat harness'', ''uat fixture'', ''controlled rehearsal'', ''rehearsal path'',
         ''dogfood workflow'', ''workflow capability'', ''implemented'', ''implementing'',
         ''implementation deliverable''])"

definition review_finding_blocks_progress :: "ReviewFinding \<Rightarrow> bool" where
  "review_finding_blocks_progress f \<longleftrightarrow> rf_class f = Confirmed \<and> \<not> human_owned_uat_finding f"

definition blocks_progress :: "AgentReviewReport \<Rightarrow> bool" where
  "blocks_progress r \<longleftrightarrow> list_ex review_finding_blocks_progress (rp_findings r)"

definition missing_evidence_patterns :: "string list" where
  "missing_evidence_patterns =
     [''workspace is empty'', ''empty workspace'', ''missing workspace'', ''workspace was missing'',
      ''missing pr evidence'', ''pr evidence was missing'', ''pr evidence is missing'',
      ''missing pull request evidence'', ''pull request evidence was missing'',
      ''pull request evidence is missing'', ''missing handoff evidence'',
      ''handoff evidence was missing'', ''handoff evidence is missing'', ''missing code changes'',
      ''code changes were missing'', ''code changes are missing'',
      ''expected code changes were missing'', ''expected code changes are missing'',
      ''no code changes'', ''no diff'', ''no pull request evidence'']"

definition unable_to_review_patterns :: "string list" where
  "unable_to_review_patterns =
     [''unable to complete'', ''could not complete'', ''cannot complete'', ''could not be completed'',
      ''unable to inspect'', ''could not inspect'', ''cannot inspect'', ''unable to review'',
      ''could not review'', ''cannot review'', ''inconclusive review'', ''review is inconclusive'',
      ''review was inconclusive'']"

definition inconclusive_review_text_reason :: "string \<Rightarrow> string option" where
  "inconclusive_review_text_reason text =
     (let normalized = single_line (to_lowercase text) in
      if normalized = [] then None
      else case find (contains normalized) missing_evidence_patterns of
             Some p \<Rightarrow> Some (''automatic review reported '' @ p)
           | None \<Rightarrow>
               map_option (\<lambda>p. ''automatic review output said it was '' @ p)
                 (find (contains normalized) unable_to_review_patterns))"

definition inconclusive_reason :: "AgentReviewReport \<Rightarrow> string option" where
  "inconclusive_reason r =
     (if has_class ReviewFindingClass.NeedsContext (rp_findings r)
      then Some ''review produced Needs Context findings''
      else if legacy_backend_missing_review_result r
      then Some ''legacy review backend did not start with a required terminal Review Result line''
      else inconclusive_review_text_reason (report_text r))"

definition is_inconclusive :: "AgentReviewReport \<Rightarrow> bool" where
  "is_inconclusive r \<longleftrightarrow> inconclusive_reason r \<noteq> None"

definition first_non_empty_line :: "string \<Rightarrow> string option" where
  "first_non_empty_line output = find (\<lambda>l. \<not> blank l) (lines output)"

text \<open>The report of a command-line reviewer that exited successfully: its response, and its raw
  output and exit status.\<close>

definition completed_report ::
    "string \<Rightarrow> string \<Rightarrow> string \<Rightarrow> string \<Rightarrow> string \<Rightarrow> string option \<Rightarrow> AgentReviewReport" where
  "completed_report backend response stdout stderr exit_status session_id =
     \<lparr>rp_reviewer_backend = backend, rp_findings = classify_findings response,
      rp_summary = Some (unwrap_or (first_non_empty_line response) ''Review completed.''),
      rp_stdout = Some stdout, rp_stderr = Some stderr, rp_exit_status = Some exit_status,
      rp_session_id = session_id\<rparr>"

subsection \<open>Facts\<close>

lemma has_class_append [simp]: "has_class k (fs @ gs) \<longleftrightarrow> has_class k fs \<or> has_class k gs"
  by (simp add: has_class_def)

lemma synthetic_class [simp]: "has_class k [synthetic_review_result_finding l t out] \<longleftrightarrow> k = l"
  by (auto simp: has_class_def synthetic_review_result_finding_def plain_finding_def)

lemma rework_has_confirmed:
  "parse_review_result out = Some Rework \<Longrightarrow> has_class Confirmed (classify_findings out)"
  by (simp add: classify_findings_def Let_def)

lemma needs_context_has_finding:
  "parse_review_result out = Some ParsedReviewResult.NeedsContext \<Longrightarrow>
   has_class ReviewFindingClass.NeedsContext (classify_findings out)"
  by (simp add: classify_findings_def Let_def)

text \<open>How a reviewer writes a finding.\<close>

fun class_label :: "ReviewFindingClass \<Rightarrow> string" where
  "class_label Confirmed = ''Confirmed''"
| "class_label Plausible = ''Plausible''"
| "class_label Rejected = ''Rejected''"
| "class_label ReviewFindingClass.NeedsContext = ''Needs Context''"

definition finding_line :: "ReviewFinding \<Rightarrow> string" where
  "finding_line f = ''- ['' @ class_label (rf_class f) @ ''] '' @ rf_title f @ '': '' @ rf_body f"

lemma class_label_read: "finding_class_of_label (to_lowercase (single_line (class_label k))) = Some k"
proof -
  have "finding_class_of_label (to_lowercase (single_line (class_label Confirmed))) = Some Confirmed"
    "finding_class_of_label (to_lowercase (single_line (class_label Plausible))) = Some Plausible"
    "finding_class_of_label (to_lowercase (single_line (class_label Rejected))) = Some Rejected"
    "finding_class_of_label (to_lowercase (single_line (class_label ReviewFindingClass.NeedsContext))) =
       Some ReviewFindingClass.NeedsContext"
    by code_simp+
  then show ?thesis by (cases k) (simp_all only:)
qed

lemma class_label_no_bracket: "CHR '']'' \<notin> set (class_label k)"
  by (cases k) simp_all

definition well_formed_finding :: "ReviewFinding \<Rightarrow> bool" where
  "well_formed_finding f \<longleftrightarrow>
     f = plain_finding (rf_class f) (rf_title f) (rf_body f) \<and>
     trim (rf_title f) = rf_title f \<and> rf_title f \<noteq> [] \<and> CHR '':'' \<notin> set (rf_title f) \<and>
     trim (rf_body f) = rf_body f \<and> rf_body f \<noteq> []"

lemma bracketed_class_line:
  assumes "trim rest = rest" and "rest \<noteq> []"
  shows "bracketed_class (''- ['' @ class_label k @ ''] '' @ rest) = Some (k, rest)"
proof -
  let ?s = "class_label k @ CHR '']'' # CHR '' '' # rest"
  have "trim (''- ['' @ class_label k @ ''] '' @ rest) = CHR ''-'' # CHR '' '' # CHR ''['' # ?s"
    using trim_nonblank_ends(2) [OF assms] assms(2)
    by (subst trim_fixed) (simp_all add: is_whitespace_def)
  then have "trim_finding_list_marker (''- ['' @ class_label k @ ''] '' @ rest) = CHR ''['' # ?s"
    by (simp add: trim_finding_list_marker_def trim_start_def trim_start_matches_def is_whitespace_def)
  moreover have "split_once (CHR '']'') ?s = Some (class_label k, CHR '' '' # rest)"
    by (rule split_once_append) (rule class_label_no_bracket)
  moreover have "trim (CHR '' '' # rest) = rest"
    using assms(1) by (simp add: trim_def trim_matches_def trim_start_matches_def is_whitespace_def)
  ultimately show ?thesis by (simp add: bracketed_class_def class_label_read)
qed

lemma parse_finding_line_rendered:
  assumes "well_formed_finding f"
  shows "parse_finding_line (finding_line f) = Some f"
proof -
  let ?rest = "rf_title f @ CHR '':'' # CHR '' '' # rf_body f"
  have ends: "\<not> is_whitespace (hd (rf_title f))" "\<not> is_whitespace (last (rf_body f))"
    using assms trim_nonblank_ends by (auto simp: well_formed_finding_def)
  have "trim ?rest = ?rest"
    by (rule trim_fixed) (use ends assms in \<open>simp_all add: well_formed_finding_def\<close>)
  then have "bracketed_class (finding_line f) = Some (rf_class f, ?rest)"
    using bracketed_class_line [of ?rest "rf_class f"] by (simp add: finding_line_def)
  moreover have "split_once (CHR '':'') ?rest = Some (rf_title f, CHR '' '' # rf_body f)"
    by (rule split_once_append) (use assms in \<open>simp add: well_formed_finding_def\<close>)
  moreover have "trim (CHR '' '' # rf_body f) = rf_body f"
    using assms by (simp add: well_formed_finding_def trim_def trim_matches_def trim_start_matches_def is_whitespace_def)
  ultimately show ?thesis
    using assms unfolding well_formed_finding_def by (simp add: parse_finding_line_def)
qed

subsection \<open>Properties\<close>

fun verdict_line :: "ParsedReviewResult \<Rightarrow> string" where
  "verdict_line Pass = ''Review Result: Pass''"
| "verdict_line Rework = ''Review Result: Rework''"
| "verdict_line ParsedReviewResult.NeedsContext = ''Review Result: Needs_Context''"

definition protocol_output :: "ParsedReviewResult \<Rightarrow> ReviewFinding list \<Rightarrow> string" where
  "protocol_output v fs = log_text (verdict_line v # map finding_line fs)"

definition verdict_supported :: "ParsedReviewResult \<Rightarrow> ReviewFinding list \<Rightarrow> bool" where
  "verdict_supported v fs \<longleftrightarrow>
     (v = Rework \<longrightarrow> has_class Confirmed fs) \<and>
     (v = ParsedReviewResult.NeedsContext \<longrightarrow> has_class ReviewFindingClass.NeedsContext fs)"

definition one_line_finding :: "ReviewFinding \<Rightarrow> bool" where
  "one_line_finding f \<longleftrightarrow>
     well_formed_finding f \<and>
     {newline, char_of (13::nat)} \<inter> (set (rf_title f) \<union> set (rf_body f)) = {}"

lemma verdict_line_facts:
  "log_line (verdict_line v) \<and> parse_finding_line (verdict_line v) = None \<and>
   parse_loose_finding_line (verdict_line v) = None \<and> trim (verdict_line v) = verdict_line v \<and>
   verdict_line v \<noteq> []"
proof -
  have "list_all (\<lambda>v. log_line (verdict_line v) \<and> parse_finding_line (verdict_line v) = None \<and>
     parse_loose_finding_line (verdict_line v) = None \<and> trim (verdict_line v) = verdict_line v \<and>
     verdict_line v \<noteq> []) [Pass, Rework, ParsedReviewResult.NeedsContext]"
    by code_simp
  then show ?thesis by (cases v) (simp_all only: list.pred_inject simp_thms)
qed

lemma finding_line_is_line: "one_line_finding f \<Longrightarrow> log_line (finding_line f)"
proof -
  assume f: "one_line_finding f"
  have "set (class_label k) \<inter> {newline, char_of (13::nat)} = {}" for k
    by (cases k) (simp_all add: char_of_numeral bit_0)
  moreover have "\<not> blank (finding_line f)"
    by (simp add: trim_Nil_iff finding_line_def is_whitespace_def)
  ultimately show ?thesis
    using f by (auto simp: log_line_def one_line_finding_def finding_line_def char_of_numeral bit_0)
qed

lemma parse_protocol_output: "parse_review_result (log_text (verdict_line v # ls)) = Some v"
  if "list_all log_line ls"
proof -
  have "lines (log_text (verdict_line v # ls)) = verdict_line v # ls"
    using lines_log_text [of "verdict_line v # ls"] verdict_line_facts [of v] that by simp
  then have "find (\<lambda>l. l \<noteq> []) (map trim (lines (log_text (verdict_line v # ls)))) = Some (verdict_line v)"
    using verdict_line_facts [of v] by simp
  moreover have "to_ascii_lowercase (trim_matches markup_char (verdict_line v)) =
      (case v of Pass \<Rightarrow> ''review result: pass'' | Rework \<Rightarrow> ''review result: rework''
       | ParsedReviewResult.NeedsContext \<Rightarrow> ''review result: needs_context'')"
    by (cases v) (simp_all add: markup_char_def text_eval)
  ultimately show ?thesis
    by (cases v) (simp_all add: parse_review_result_def)
qed

text \<open>C37: A reviewer's findings survive the text protocol: the output made of a verdict line and
  one bracketed line per finding is read back as that verdict and exactly those findings, in
  order, whenever each finding is one line with a title without a colon, and the verdict has
  a finding that supports it.\<close>

theorem review_protocol_round_trip:
  assumes "list_all one_line_finding fs" and "verdict_supported v fs"
  shows "parse_review_result (protocol_output v fs) = Some v \<and>
    classify_findings (protocol_output v fs) = fs"
proof -
  have ls: "list_all log_line (map finding_line fs)"
    using assms(1) finding_line_is_line by (simp add: list_all_iff)
  have lines: "lines (protocol_output v fs) = verdict_line v # map finding_line fs"
    using lines_log_text [of "verdict_line v # map finding_line fs"] verdict_line_facts [of v] ls
    by (simp add: protocol_output_def)
  have res: "parse_review_result (protocol_output v fs) = Some v"
    unfolding protocol_output_def by (rule parse_protocol_output [OF ls])
  have "List.map_filter (\<lambda>l. or_else (parse_finding_line l) (g l)) (map finding_line fs) = fs" for g
    using assms(1)
    by (induction fs) (auto simp: map_filter_simps parse_finding_line_rendered one_line_finding_def)
  then have "List.map_filter (\<lambda>l. or_else (parse_finding_line l)
      (if c then parse_loose_finding_line l else None)) (lines (protocol_output v fs)) = fs" for c
    using verdict_line_facts [of v] by (simp add: lines map_filter_simps)
  note collected = this
  have "classify_findings (protocol_output v fs) = fs"
    unfolding classify_findings_def res Let_def collected
    using assms(2) by (cases v) (simp_all add: verdict_supported_def)
  with res show ?thesis by simp
qed

theorem review_protocol_round_trip_witness:
  "parse_review_result (protocol_output Rework
      [plain_finding Confirmed ''Crash'' ''see: x [1]'', plain_finding Rejected ''b'' ''c'']) = Some Rework \<and>
   classify_findings (protocol_output Rework
      [plain_finding Confirmed ''Crash'' ''see: x [1]'', plain_finding Rejected ''b'' ''c'']) =
      [plain_finding Confirmed ''Crash'' ''see: x [1]'', plain_finding Rejected ''b'' ''c'']"
proof (rule review_protocol_round_trip)
  show "verdict_supported Rework
      [plain_finding Confirmed ''Crash'' ''see: x [1]'', plain_finding Rejected ''b'' ''c'']"
    by (simp add: verdict_supported_def has_class_def plain_finding_def)
  have "trim ''Crash'' = ''Crash''" "trim ''see: x [1]'' = ''see: x [1]''" "trim ''b'' = ''b''" "trim ''c'' = ''c''"
    by code_simp+
  then show "list_all one_line_finding
      [plain_finding Confirmed ''Crash'' ''see: x [1]'', plain_finding Rejected ''b'' ''c'']"
    by (simp add: one_line_finding_def well_formed_finding_def plain_finding_def char_of_numeral bit_0)
qed

end
