(* ===== verification/Review_Health.thy ===== *)
theory Review_Health
  imports Review_Report
begin

section \<open>Review jobs and backend health (\<^verbatim>\<open>src/review/gemini_health.rs\<close>)\<close>

text \<open>
  The job record of \<^verbatim>\<open>src/review/job.rs\<close>, the usage-limit classifier of \<^verbatim>\<open>src/agent.rs\<close> and
  the health classification of the command-line reviewers. Slicing a Rust string at a byte
  position inside a character panics: \<open>compact_evidence\<close> and everything that calls it return
  the panic as an error value. The file system and the search path are arguments of the
  prelaunch check.
\<close>

datatype ReviewJobState = Queued | Running | Completed | Failed | TimedOut | Cancelled

record ReviewJob =
  rj_id :: string
  rj_issue_ref :: string
  rj_backend :: string
  rj_state :: ReviewJobState
  rj_artifact_path :: "string option"
  rj_ledger_path :: "string option"
  rj_backend_session_id :: "string option"
  rj_report :: "AgentReviewReport option"
  rj_error :: "string option"

datatype panic = ByteIndexNotCharBoundary nat

subsection \<open>Usage limits (\<^verbatim>\<open>src/agent.rs\<close>)\<close>

record UsageLimitPause =
  up_classifier :: string
  up_evidence :: string

text \<open>\<^verbatim>\<open>&s[..n]\<close>: the characters in the first \<open>n\<close> bytes, or \<^term>\<open>None\<close> where Rust panics.\<close>

fun byte_prefix :: "nat \<Rightarrow> string \<Rightarrow> string option" where
  "byte_prefix 0 s = Some []"
| "byte_prefix (Suc n) [] = None"
| "byte_prefix (Suc n) (c # s) =
     (if utf8_len_char c = 1 then map_option ((#) c) (byte_prefix n s)
      else case n of 0 \<Rightarrow> None | Suc m \<Rightarrow> map_option ((#) c) (byte_prefix m s))"

definition compact_evidence :: "string \<Rightarrow> (panic, string) result" where
  "compact_evidence text =
     (let compact = single_line text in
      if utf8_len compact > 240
      then (case byte_prefix 240 compact of
              Some p \<Rightarrow> Inr (p @ ''...'')
            | None \<Rightarrow> Inl (ByteIndexNotCharBoundary 240))
      else Inr compact)"

definition usage_limit_patterns :: "(string \<times> string) list" where
  "usage_limit_patterns =
     [(''usage_limit'', ''usage limit''), (''rate_limit'', ''rate limit''),
      (''rate_limit'', ''rate limited''), (''resource_exhausted'', ''resource exhausted''),
      (''quota_exceeded'', ''quota exceeded''), (''quota_exceeded'', ''insufficient quota'')]"

definition classify_usage_limit_text :: "string \<Rightarrow> (panic, UsageLimitPause option) result" where
  "classify_usage_limit_text text =
     (case find (\<lambda>(k, p). contains (to_ascii_lowercase text) p) usage_limit_patterns of
        None \<Rightarrow> Inr None
      | Some (k, p) \<Rightarrow>
          and_then (compact_evidence text) (\<lambda>e. Inr (Some \<lparr>up_classifier = k, up_evidence = e\<rparr>)))"

subsection \<open>Health diagnostics\<close>

datatype GeminiReviewHealthCategory =
    QuotaRateLimit | TransientBackend | NonRecoveringConfig | NonRecoveringPolicy

fun health_category_as_str :: "GeminiReviewHealthCategory \<Rightarrow> string" where
  "health_category_as_str QuotaRateLimit = ''quota_rate_limit''"
| "health_category_as_str TransientBackend = ''transient_backend''"
| "health_category_as_str NonRecoveringConfig = ''non_recovering_config''"
| "health_category_as_str NonRecoveringPolicy = ''non_recovering_policy''"

datatype GeminiReviewRecoveryPolicy = WaitAndRetry | RetryWithBackoff | RequiresHumanInput

fun recovery_policy_as_str :: "GeminiReviewRecoveryPolicy \<Rightarrow> string" where
  "recovery_policy_as_str WaitAndRetry = ''wait_and_retry''"
| "recovery_policy_as_str RetryWithBackoff = ''retry_with_backoff''"
| "recovery_policy_as_str RequiresHumanInput = ''requires_human_input''"

definition recovery_policy_is_recoverable :: "GeminiReviewRecoveryPolicy \<Rightarrow> bool" where
  "recovery_policy_is_recoverable p \<longleftrightarrow> p \<in> {WaitAndRetry, RetryWithBackoff}"

record GeminiReviewHealthDiagnostic =
  gd_category :: GeminiReviewHealthCategory
  gd_recovery_policy :: GeminiReviewRecoveryPolicy
  gd_reason_code :: string
  gd_message :: string
  gd_operator_status :: string
  gd_retry_after_ms :: "u64 option"

definition diagnostic_signature :: "GeminiReviewHealthDiagnostic \<Rightarrow> string" where
  "diagnostic_signature d = health_category_as_str (gd_category d) @ '':'' @ gd_reason_code d"

definition diagnostic_is_recoverable :: "GeminiReviewHealthDiagnostic \<Rightarrow> bool" where
  "diagnostic_is_recoverable d \<longleftrightarrow> recovery_policy_is_recoverable (gd_recovery_policy d)"

definition to_error_message :: "GeminiReviewHealthDiagnostic \<Rightarrow> string" where
  "to_error_message d =
     ''Review backend health check classified category='' @ health_category_as_str (gd_category d) @
     '' reason='' @ gd_reason_code d @
     '' recovery_policy='' @ recovery_policy_as_str (gd_recovery_policy d) @
     '' retry_after_ms='' @ unwrap_or (map_option (\<lambda>v. show_nat (unat v)) (gd_retry_after_ms d)) ''unknown'' @
     '': '' @ gd_message d"

subsection \<open>Before the launch\<close>

datatype IoErrorKind = NotFound | PermissionDenied | OtherKind

record IoError =
  ie_kind :: IoErrorKind
  ie_display :: string

record FileMeta =
  fm_is_file :: bool
  fm_mode :: nat

definition is_executable :: "FileMeta \<Rightarrow> bool" where
  "is_executable m \<longleftrightarrow> and (fm_mode m) 73 \<noteq> 0"

definition command_uses_path_lookup :: "string \<Rightarrow> bool" where
  "command_uses_path_lookup command \<longleftrightarrow>
     \<not> starts_with command ''/'' \<and> \<not> contains command ''/''"

definition dir_join :: "string \<Rightarrow> string \<Rightarrow> string" where
  "dir_join dir name =
     (if starts_with name ''/'' then name
      else if dir = [] \<or> last dir = CHR ''/'' then dir @ name else dir @ ''/'' @ name)"

record LaunchEnv =
  le_path :: "string option"
  le_metadata :: "string \<Rightarrow> (IoError, FileMeta) result"

definition find_executable_in_path :: "LaunchEnv \<Rightarrow> string \<Rightarrow> string option" where
  "find_executable_in_path env command =
     Option.bind (le_path env) (\<lambda>path.
       find (\<lambda>candidate. case le_metadata env candidate of
               Inr m \<Rightarrow> fm_is_file m \<and> is_executable m | Inl _ \<Rightarrow> False)
         (map (\<lambda>dir. dir_join dir command) (split_on (CHR '':'') path)))"

definition blocked_diagnostic ::
    "GeminiReviewHealthCategory \<Rightarrow> string \<Rightarrow> string \<Rightarrow> string \<Rightarrow> GeminiReviewHealthDiagnostic" where
  "blocked_diagnostic category reason message status =
     \<lparr>gd_category = category, gd_recovery_policy = RequiresHumanInput, gd_reason_code = reason,
      gd_message = message, gd_operator_status = status, gd_retry_after_ms = None\<rparr>"

definition inspect_launch_command ::
    "LaunchEnv \<Rightarrow> string \<Rightarrow> string \<Rightarrow> string \<Rightarrow> string \<Rightarrow> GeminiReviewHealthDiagnostic option" where
  "inspect_launch_command env backend_label command_field command path =
     (let resolves = backend_label @ '' review command `'' @ command @ ''` resolves to `'' @ path @ ''`'' in
      case le_metadata env path of
        Inr m \<Rightarrow>
          (if fm_is_file m \<and> is_executable m then None
           else if \<not> fm_is_file m
           then Some (blocked_diagnostic NonRecoveringConfig ''command_not_file''
                  (resolves @ '', which is not a file.'')
                  (''Blocked until `'' @ command_field @ ''` points at an executable file.''))
           else Some (blocked_diagnostic NonRecoveringConfig ''command_not_executable''
                  (resolves @ '' but is not executable.'')
                  (''Blocked until `'' @ command_field @ ''` is made executable or reconfigured.'')))
      | Inl e \<Rightarrow>
          (if ie_kind e = NotFound
           then Some (blocked_diagnostic NonRecoveringConfig ''command_not_found''
                  (resolves @ '' but the path does not exist.'')
                  (''Blocked until `'' @ command_field @ ''` or worker PATH is fixed.''))
           else Some (blocked_diagnostic NonRecoveringConfig ''command_metadata_error''
                  (resolves @ '' but could not be inspected: '' @ ie_display e @ ''.'')
                  (''Blocked until `'' @ command_field @ ''` can be inspected.''))))"

definition review_prelaunch_health_diagnostic ::
    "LaunchEnv \<Rightarrow> string \<Rightarrow> string \<Rightarrow> string \<Rightarrow> string option \<Rightarrow> string list \<Rightarrow>
     GeminiReviewHealthDiagnostic option" where
  "review_prelaunch_health_diagnostic env backend_label command_field raw_command model allowed_tools =
     (let command = trim raw_command in
      if command = []
      then Some (blocked_diagnostic NonRecoveringConfig ''missing_command''
             (backend_label @ '' review command is empty before launch.'')
             ''Blocked on review backend configuration.'')
      else if (case model of Some m \<Rightarrow> trim m = [] | None \<Rightarrow> False)
      then Some (blocked_diagnostic NonRecoveringConfig ''empty_model''
             (backend_label @ '' review model is configured as an empty string.'')
             ''Blocked on review backend model configuration.'')
      else if list_ex (\<lambda>tool. trim tool = []) allowed_tools
      then Some (blocked_diagnostic NonRecoveringPolicy ''empty_allowed_tool''
             (backend_label @ '' review allowed-tools configuration contains an empty tool name.'')
             ''Blocked on review allowed-tools configuration.'')
      else case (if command_uses_path_lookup command then find_executable_in_path env command
                 else Some command) of
        None \<Rightarrow> Some (blocked_diagnostic NonRecoveringConfig ''command_not_found''
             (backend_label @ '' review command `'' @ command @ ''` was not found before launch.'')
             (''Blocked until `'' @ command_field @ ''` or worker PATH is fixed.''))
      | Some path \<Rightarrow> inspect_launch_command env backend_label command_field command path)"

definition gemini_prelaunch_health_diagnostic ::
    "LaunchEnv \<Rightarrow> string \<Rightarrow> string option \<Rightarrow> string list \<Rightarrow> GeminiReviewHealthDiagnostic option" where
  "gemini_prelaunch_health_diagnostic env command model allowed_tools =
     review_prelaunch_health_diagnostic env ''Gemini'' ''review_lane.gemini_command'' command model allowed_tools"

definition agy_prelaunch_health_diagnostic ::
    "LaunchEnv \<Rightarrow> string \<Rightarrow> string option \<Rightarrow> GeminiReviewHealthDiagnostic option" where
  "agy_prelaunch_health_diagnostic env command model =
     review_prelaunch_health_diagnostic env ''agy'' ''review_lane.agy_command'' command model []"

definition diagnose_backend_spawn_failure :: "string \<Rightarrow> string \<Rightarrow> string \<Rightarrow> IoError \<Rightarrow> string" where
  "diagnose_backend_spawn_failure backend_label command_field command e =
     ''review backend startup failed: configured command: `'' @ command @ ''`; '' @
     (if ie_kind e = NotFound \<and> command_uses_path_lookup command
      then ''resolved executable: not found in worker PATH; suggested fix: configure `'' @ command_field @
        ''` with an absolute '' @ backend_label @
        '' command path, or export a worker PATH that can resolve `'' @ command @
        ''`; retry: rerun `review loop` after updating the workflow or environment.''
      else if ie_kind e = NotFound
      then ''resolved executable: path was not found or could not be executed; suggested fix: verify the configured '' @
        backend_label @
        '' path exists and is executable; retry: rerun `review loop` after updating the workflow or environment.''
      else if ie_kind e = PermissionDenied
      then ''resolved executable: permission denied; suggested fix: make the '' @ backend_label @
        '' command executable or configure `'' @ command_field @
        ''` to an executable path; retry: rerun `review loop` after fixing permissions.''
      else ''spawn error: '' @ ie_display e @ ''; suggested fix: inspect the '' @ backend_label @
        '' CLI installation, auth/configuration, and worker environment; retry: rerun `review loop` after fixing the backend.'')"

subsection \<open>Retry delays\<close>

definition duration_with_unit_ms :: "u64 \<Rightarrow> string \<Rightarrow> u64" where
  "duration_with_unit_ms number unit =
     (let u = trim_matches (\<lambda>c. c = CHR ''.'') unit in
      if u \<in> {''ms'', ''millisecond'', ''milliseconds''} then number
      else if u \<in> {''m'', ''min'', ''mins'', ''minute'', ''minutes''} then saturating_mul number 60000
      else if u \<in> {''h'', ''hr'', ''hrs'', ''hour'', ''hours''} then saturating_mul number 3600000
      else saturating_mul number 1000)"

definition parse_duration_token_ms :: "string option \<Rightarrow> u64 option" where
  "parse_duration_token_ms token =
     Option.bind token (\<lambda>t.
       case parse_u64 t of
         Some seconds \<Rightarrow> Some (saturating_mul (of_nat seconds) 1000)
       | None \<Rightarrow>
           (let digits = takeWhile is_ascii_digit t in
            if digits = [] then None
            else map_option (\<lambda>n. duration_with_unit_ms (of_nat n) (dropWhile is_ascii_digit t))
                   (parse_u64 digits)))"

definition token_at :: "string list \<Rightarrow> nat \<Rightarrow> string option" where
  "token_at tokens i = (if i < length tokens then Some (tokens ! i) else None)"

definition retry_value_at :: "string list \<Rightarrow> nat \<Rightarrow> u64 option" where
  "retry_value_at tokens i =
     (case (Option.bind (token_at tokens i) parse_u64, token_at tokens (i + 1)) of
        (Some number, Some unit) \<Rightarrow> Some (duration_with_unit_ms (of_nat number) unit)
      | _ \<Rightarrow> parse_duration_token_ms (token_at tokens i))"

definition retry_at_index :: "string list \<Rightarrow> nat \<Rightarrow> u64 option" where
  "retry_at_index tokens i =
     (let token = tokens ! i;
          after = (if token = ''retry-after'' then retry_value_at tokens (i + 1)
                   else if token = ''retry'' \<and> token_at tokens (i + 1) = Some ''after''
                   then retry_value_at tokens (i + 2) else None)
      in or_else after
           (if token = ''retry'' \<and> token_at tokens (i + 1) = Some ''in''
            then retry_value_at tokens (i + 2) else None))"

definition retry_separator :: "char \<Rightarrow> char" where
  "retry_separator c = (if c \<in> set ''=:,;()'' then CHR '' '' else c)"

definition parse_retry_after_ms :: "string \<Rightarrow> u64 option" where
  "parse_retry_after_ms text =
     (let tokens = split_whitespace (to_ascii_lowercase (map retry_separator text)) in
      find_map (retry_at_index tokens) [0..<length tokens])"

subsection \<open>Classification\<close>

definition review_failure_text :: "ReviewJob \<Rightarrow> string" where
  "review_failure_text job =
     join [newline] (somes (rj_error job #
       (case rj_report job of None \<Rightarrow> [] | Some r \<Rightarrow> [rp_stderr r, rp_stdout r, rp_summary r])))"

definition normalize_diagnostic_text :: "string \<Rightarrow> string" where
  "normalize_diagnostic_text text = single_line (to_ascii_lowercase text)"

definition policy_patterns :: "string list" where
  "policy_patterns =
     [''allowed-tools'', ''allowed tools'', ''tool is not allowed'', ''not allowed to use'',
      ''policy refusal'', ''policy refused'', ''blocked by policy'', ''permission denied by policy'',
      ''approval mode'']"

definition config_patterns :: "string list" where
  "config_patterns =
     [''review backend startup failed'', ''not found in worker path'', ''configured command'',
      ''permission denied'', ''auth required'', ''authentication required'', ''not authenticated'',
      ''login required'', ''unknown model'', ''invalid model'', ''unsupported model'', ''model not found'',
      ''model is not supported'', ''model unavailable for'', ''could not inspect'', ''command `'']"

definition transient_patterns :: "string list" where
  "transient_patterns =
     [''temporarily unavailable'', ''service unavailable'', ''backend unavailable'', ''server unavailable'',
      ''overloaded'', ''capacity'', ''try again later'', ''please retry'', ''internal error'',
      ''deadline exceeded'', ''connection reset'', ''connection refused'', ''network error'',
      ''http 500'', ''http 502'', ''http 503'', ''http 504'', '' 500 '', '' 502 '', '' 503 '', '' 504 '']"

definition classify_gemini_review_health_text ::
    "string \<Rightarrow> bool \<Rightarrow> (panic, GeminiReviewHealthDiagnostic option) result" where
  "classify_gemini_review_health_text text timed_out =
     (let normalized = normalize_diagnostic_text text in
      if normalized = [] \<and> \<not> timed_out then Inr None
      else and_then (classify_usage_limit_text text) (\<lambda>pause.
        case pause of
          Some p \<Rightarrow> Inr (Some
            \<lparr>gd_category = QuotaRateLimit, gd_recovery_policy = WaitAndRetry,
             gd_reason_code = up_classifier p,
             gd_message = ''Review backend reported quota or rate limiting.'',
             gd_operator_status = ''Waiting for quota/rate-limit recovery, then retrying review automatically.'',
             gd_retry_after_ms = parse_retry_after_ms text\<rparr>)
        | None \<Rightarrow>
            if contains_any normalized policy_patterns
            then Inr (Some (blocked_diagnostic NonRecoveringPolicy ''policy_or_allowed_tools''
                   ''Review backend reported a policy or allowed-tools refusal.''
                   ''Blocked until review policy or allowed-tools configuration is changed.''))
            else if contains_any normalized config_patterns
            then Inr (Some (blocked_diagnostic NonRecoveringConfig ''command_config_or_auth''
                   ''Review backend reported command, authentication, or model configuration failure.''
                   ''Blocked until review command, auth, or model configuration is repaired.''))
            else if timed_out \<or> contains_any normalized transient_patterns
            then Inr (Some
              \<lparr>gd_category = TransientBackend, gd_recovery_policy = RetryWithBackoff,
               gd_reason_code = (if timed_out then ''timeout'' else ''transient_backend''),
               gd_message = ''Review backend appears temporarily unavailable or capacity-limited.'',
               gd_operator_status = ''Retrying with backoff while keeping review loop ownership visible.'',
               gd_retry_after_ms = parse_retry_after_ms text\<rparr>)
            else Inr None))"

definition gemini_review_health_diagnostic ::
    "ReviewJob \<Rightarrow> (panic, GeminiReviewHealthDiagnostic option) result" where
  "gemini_review_health_diagnostic job =
     (let backend = to_ascii_lowercase (rj_backend job) in
      if \<not> contains backend ''gemini'' \<and> \<not> contains backend ''agy'' then Inr None
      else if rj_state job \<notin> {Failed, TimedOut} then Inr None
      else classify_gemini_review_health_text (review_failure_text job) (rj_state job = TimedOut))"

definition review_failure_signature :: "ReviewJob \<Rightarrow> (panic, string option) result" where
  "review_failure_signature job =
     and_then (gemini_review_health_diagnostic job) (\<lambda>d.
       Inr (or_else (map_option diagnostic_signature d)
         (Option.bind (rj_error job) (\<lambda>e.
            map_option (\<lambda>l. ''generic:'' @ single_line l)
              (find (\<lambda>l. l \<noteq> []) (map trim (lines e)))))))"

definition review_usage_limit_pause :: "ReviewJob \<Rightarrow> (panic, UsageLimitPause option) result" where
  "review_usage_limit_pause job =
     foldr (\<lambda>text rest. and_then (classify_usage_limit_text text) (\<lambda>p.
              case p of Some pause \<Rightarrow> Inr (Some pause) | None \<Rightarrow> rest))
       (somes (rj_error job #
          (case rj_report job of None \<Rightarrow> [] | Some r \<Rightarrow> [rp_stderr r, rp_stdout r, rp_summary r])))
       (Inr None)"

subsection \<open>Facts\<close>

lemma byte_prefix_Some_iff:
  "byte_prefix n s = Some p \<longleftrightarrow> (\<exists>q. s = p @ q \<and> utf8_len p = n)"
proof (induction n s arbitrary: p rule: byte_prefix.induct)
  case (1 s)
  have "utf8_len p = 0 \<longleftrightarrow> p = []" by (cases p) (simp_all add: utf8_len_char_def)
  then show ?case by auto
next
  case (2 n)
  then show ?case by auto
next
  case (3 n c s)
  show ?case
  proof (cases p)
    case Nil
    then show ?thesis by (simp split: nat.split)
  next
    case (Cons d p')
    show ?thesis
    proof (cases "utf8_len_char c = 1")
      case True
      then show ?thesis using 3(1) [OF True, of p'] by (auto simp: Cons)
    next
      case False
      then have two: "utf8_len_char c = 2" by (simp add: utf8_len_char_def split: if_splits)
      show ?thesis
      proof (cases n)
        case 0
        then show ?thesis using two by (auto simp: Cons)
      next
        case (Suc m)
        then show ?thesis using two 3(2) [OF False Suc, of p'] by (auto simp: Cons)
      qed
    qed
  qed
qed

lemma byte_prefix_ascii:
  assumes "\<forall>c \<in> set s. code c < 128" and "n \<le> length s"
  shows "byte_prefix n s = Some (take n s)"
  unfolding byte_prefix_Some_iff
  using assms utf8_len_ascii [of "take n s"]
  by (intro exI [of _ "drop n s"]) (auto dest: in_set_takeD)

lemma set_join: "set (join sep ss) \<subseteq> set sep \<union> \<Union> (set ` set ss)"
  by (induction sep ss rule: join.induct) auto

lemma split_pred_subset: "w \<in> set (split_pred p s) \<Longrightarrow> set w \<subseteq> set s"
proof (induction s arbitrary: w)
  case (Cons c s)
  obtain v vs where v: "split_pred p s = v # vs" by (cases "split_pred p s") auto
  with Cons show ?case by (fastforce split: if_splits)
qed simp

lemma single_line_subset: "set (single_line s) \<subseteq> insert (CHR '' '') (set s)"
  using set_join [of "'' ''" "split_whitespace s"] split_pred_subset [of _ is_whitespace s]
  by (fastforce simp: single_line_def split_whitespace_def)

lemma compact_evidence_cases:
  "compact_evidence text = Inl e \<longleftrightarrow>
     e = ByteIndexNotCharBoundary 240 \<and> utf8_len (single_line text) > 240 \<and>
     (\<nexists>a b. single_line text = a @ b \<and> utf8_len a = 240)"
proof -
  have "byte_prefix 240 (single_line text) = None \<longleftrightarrow> (\<nexists>a b. single_line text = a @ b \<and> utf8_len a = 240)"
    by (metis byte_prefix_Some_iff not_Some_eq)
  then show ?thesis by (auto simp: compact_evidence_def Let_def split: option.splits)
qed

lemma compact_evidence_ascii:
  assumes "\<forall>c \<in> set text. code c < 128"
  shows "\<exists>e. compact_evidence text = Inr e"
proof -
  let ?s = "single_line text"
  have ascii: "\<forall>c \<in> set ?s. code c < 128" using assms single_line_subset [of "text"] by fastforce
  show ?thesis
  proof (cases "utf8_len ?s > 240")
    case True
    then have "240 \<le> length ?s" using utf8_len_ascii [OF ascii] by simp
    from byte_prefix_ascii [OF ascii this] show ?thesis
      by (simp add: compact_evidence_def Let_def)
  next
    case False
    then show ?thesis by (simp add: compact_evidence_def Let_def)
  qed
qed

lemma parse_u64_show_nat: "n < 2 ^ 64 \<Longrightarrow> parse_u64 (show_nat n) = Some n"
proof -
  assume n: "n < 2 ^ 64"
  have "hd (show_nat n) \<noteq> CHR ''+''"
    using show_nat_digits [of "hd (show_nat n)" n] by (auto simp: is_ascii_digit_def)
  moreover have "list_all is_ascii_digit (show_nat n)"
    by (auto simp: list_all_iff dest: show_nat_digits)
  ultimately show ?thesis using n by (simp add: parse_u64_def Let_def)
qed

lemma digit_word: "word (show_nat n)"
  by (auto simp: word_def list_all_iff is_ascii_digit_def is_whitespace_def dest!: show_nat_digits)

subsection \<open>Properties\<close>

text \<open>The usage-limit classifier panics exactly when the text names a usage limit, the
  evidence on one line is longer than 240 bytes, and its byte 240 lies inside a character.
  On ASCII text it never does; in particular every review failure that is reported in ASCII is
  classified.\<close>

theorem usage_limit_classifier_panics_iff:
  "(classify_usage_limit_text text = Inl e \<longleftrightarrow>
     e = ByteIndexNotCharBoundary 240 \<and>
     list_ex (\<lambda>(k, p). contains (to_ascii_lowercase text) p) usage_limit_patterns \<and>
     utf8_len (single_line text) > 240 \<and>
     (\<nexists>a b. single_line text = a @ b \<and> utf8_len a = 240))"
proof (cases "find (\<lambda>(k, p). contains (to_ascii_lowercase text) p) usage_limit_patterns")
  case None
  then have "\<not> list_ex (\<lambda>(k, p). contains (to_ascii_lowercase text) p) usage_limit_patterns"
    by (auto simp: find_None_iff list_ex_iff)
  with None show ?thesis by (simp add: classify_usage_limit_text_def)
next
  case (Some kp)
  then have "list_ex (\<lambda>(k, p). contains (to_ascii_lowercase text) p) usage_limit_patterns"
    by (metis (mono_tags, lifting) find_None_iff list_ex_iff option.distinct(1))
  moreover have "classify_usage_limit_text text = Inl e \<longleftrightarrow> compact_evidence text = Inl e"
    using Some by (cases "compact_evidence text") (auto simp: classify_usage_limit_text_def split: prod.splits)
  ultimately show ?thesis
    by (simp only: compact_evidence_cases simp_thms)
qed

text \<open>A rate-limit message of 241 bytes whose last character takes two bytes.\<close>

definition accented_rate_limit :: string where
  "accented_rate_limit = ''rate limit '' @ replicate 228 (CHR ''a'') @ [CHR 0xE9]"

theorem usage_limit_classifier_can_panic:
  "classify_usage_limit_text accented_rate_limit = Inl (ByteIndexNotCharBoundary 240)"
  by code_simp

text \<open>A delay that a backend states as \<^verbatim>\<open>Retry-After: n\<close> is read as \<open>n\<close> seconds, in
  milliseconds, and saturates instead of overflowing.\<close>

theorem retry_after_saturates:
  assumes "n < 2 ^ 64"
  shows "map_option unat (parse_retry_after_ms (''Retry-After: '' @ show_nat n)) =
    Some (min (2 ^ 64 - 1) (n * 1000))"
proof -
  have digits: "map ascii_lower_char (map retry_separator (show_nat n)) = show_nat n"
    unfolding map_map
    by (rule map_idI) (auto simp: retry_separator_def ascii_lower_char_def is_ascii_digit_def dest!: show_nat_digits)
  have head: "map ascii_lower_char (map retry_separator ''Retry-After: '') = ''retry-after  ''"
    by code_simp
  have "to_ascii_lowercase (map retry_separator (''Retry-After: '' @ show_nat n)) =
      ''retry-after'' @ CHR '' '' # CHR '' '' # show_nat n"
    unfolding to_ascii_lowercase_def map_append digits head by simp
  moreover have "\<forall>c \<in> set (show_nat n). \<not> is_whitespace c" "show_nat n \<noteq> []"
    using digit_word [of n] by (auto simp: word_def list_all_iff)
  ultimately have tokens: "split_whitespace (to_ascii_lowercase (map retry_separator (''Retry-After: '' @ show_nat n))) =
      [''retry-after'', show_nat n]"
    by (simp add: split_whitespace_def split_pred_whole is_whitespace_def)
  have "retry_at_index [''retry-after'', show_nat n] 0 = Some (saturating_mul (of_nat n) 1000)"
    by (simp add: retry_at_index_def retry_value_at_def token_at_def parse_u64_show_nat [OF assms]
        parse_duration_token_ms_def)
  then have "parse_retry_after_ms (''Retry-After: '' @ show_nat n) = Some (saturating_mul (of_nat n) 1000)"
    unfolding parse_retry_after_ms_def tokens Let_def by (simp add: upt_rec)
  moreover have "unat (saturating_mul (of_nat n :: u64) 1000) = min (2 ^ 64 - 1) (n * 1000)"
  proof -
    have "unat (of_nat n :: u64) = n" using assms by (simp add: unat_of_nat take_bit_nat_eq_self)
    then show ?thesis by (simp add: unat_saturating_mul)
  qed
  ultimately show ?thesis by simp
qed

theorem retry_after_saturates_witness:
  "map_option unat (parse_retry_after_ms (''Retry-After: '' @ show_nat (2 ^ 60))) = Some (2 ^ 64 - 1) \<and>
   map_option unat (parse_retry_after_ms (''Retry-After: '' @ show_nat 30)) = Some 30000"
  using retry_after_saturates [of "2 ^ 60"] retry_after_saturates [of 30] by simp

end
