(* ===== verification/Review_Gate.thy ===== *)
theory Review_Gate
  imports Review_Health Lane_Claim Issue_Model
begin

section \<open>The review gate (\<^verbatim>\<open>src/review/decision.rs\<close>, \<^verbatim>\<open>src/review/job.rs\<close>)\<close>

text \<open>
  How a review job routes its issue, who may make which transition, when a review may start,
  the loop that polls a backend, and the ledger record. A backend is a record of operations
  on its own state; the clock is the sequence of readings of the watchdog; file operations of
  the ledger are arguments. The panic of the usage-limit classifier is passed on.
\<close>

subsection \<open>Decisions\<close>

datatype ReviewOutcome =
    PassedToHumanReview | PassedToMerging | NeedsRework | InconclusiveNeedsRework | NeedsHumanInput
  | BackendUnavailable | StillRunning | Cancelled

definition is_passed :: "ReviewOutcome \<Rightarrow> bool" where
  "is_passed r \<longleftrightarrow> r \<in> {PassedToHumanReview, PassedToMerging}"

record ReviewGateDecision =
  rd_outcome :: ReviewOutcome
  rd_target_state :: "string option"
  rd_message :: string

datatype ReviewActor = MainImplementationAgent | IndependentReviewAgent

abbreviation decision :: "ReviewOutcome \<Rightarrow> string \<Rightarrow> string \<Rightarrow> ReviewGateDecision" where
  "decision r target message \<equiv> \<lparr>rd_outcome = r, rd_target_state = Some target, rd_message = message\<rparr>"

definition main_agent_completion_decision :: ReviewGateDecision where
  "main_agent_completion_decision = decision StillRunning ''agent_review''
     ''Main implementation agent completed local work; independent Agent Review is required.''"

text \<open>The operator actions are only tested for presence by the gate.\<close>

definition review_required_operator_actions :: "ReviewJob \<Rightarrow> (panic, string list option) result" where
  "review_required_operator_actions job =
     (let err = unwrap_or (rj_error job) [] in
      and_then (gemini_review_health_diagnostic job) (\<lambda>health.
        case health of
          Some d \<Rightarrow>
            if diagnostic_is_recoverable d then Inr None
            else Inr (Some
              [''- Review backend health: `'' @ health_category_as_str (gd_category d) @ ''`.'',
               ''- Reason: `'' @ gd_reason_code d @ ''`.'',
               ''- Status: '' @ gd_operator_status d,
               ''- This issue must not move to `Human Review` until an independent Review Agent records passing review evidence.'',
               ''- Human intervention is required before automatic review can continue.''])
        | None \<Rightarrow>
            if rj_state job = TimedOut
            then Inr (Some
              [''- Review backend timed out before producing evidence.'',
               ''- Check review backend auth/configuration and increase `review.timeout_ms` only if the backend is healthy but slow.'',
               ''- Retry: rerun `review loop` for this issue after fixing the backend.''])
            else if rj_state job \<noteq> ReviewJobState.Failed then Inr None
            else if contains err ''review backend startup failed'' \<or>
                    contains err ''not found in worker PATH'' \<or> contains err ''permission denied''
            then Inr (Some
              [''- Fix the Review Agent backend command or worker PATH shown in the error above.'',
               ''- Prefer an absolute backend command (`review_lane.agy_command`, `review_lane.gemini_command`, or `review_lane.codex_command`), or export a worker PATH that resolves it.'',
               ''- This issue must not move to `Human Review` until an independent Review Agent records passing review evidence.'',
               ''- Retry: rerun `review loop` for this issue after updating the workflow or environment.''])
            else if contains err ''exited with status''
            then Inr (Some
              [''- The Review Agent backend started but exited unsuccessfully.'',
               ''- Inspect stderr/auth/configuration from the error above; do not move to Human Review until a review pass is recorded.'',
               ''- This issue must not move to `Human Review` until an independent Review Agent records passing review evidence.'',
               ''- Retry: rerun `review loop` for this issue after fixing the backend.''])
            else Inr None))"

definition completed_decision :: "AgentReviewReport option \<Rightarrow> ReviewGateDecision" where
  "completed_decision rep =
     (case rep of
        None \<Rightarrow> decision NeedsHumanInput ''need_human_input'' ''Agent review completed without a report.''
      | Some r \<Rightarrow>
          if legacy_backend_missing_review_result r
          then decision BackendUnavailable ''agent_review''
            (''Review backend is unavailable: '' @
             unwrap_or (legacy_backend_access_failure_reason r)
               ''legacy review backend did not start with a required Review Result line'' @
             ''; issue remains in Agent Review because no terminal review verdict was produced.'')
          else if blocks_progress r
          then decision NeedsRework ''rework'' ''Confirmed Agent Review findings require Rework.''
          else if is_inconclusive r
          then decision NeedsHumanInput ''need_human_input''
            (''Agent Review lacks required context; no implementation Rework is established: '' @
             unwrap_or (inconclusive_reason r) ''review could not complete with durable evidence'' @ ''.'')
          else decision PassedToHumanReview ''human_review''
            ''Independent Agent Review passed with recorded evidence; issue is ready for Human Review.'')"

definition failed_decision :: "ReviewJob \<Rightarrow> (panic, ReviewGateDecision) result" where
  "failed_decision job =
     and_then (gemini_review_health_diagnostic job) (\<lambda>health.
       case health of
         Some d \<Rightarrow>
           if diagnostic_is_recoverable d
           then Inr (decision BackendUnavailable ''agent_review''
             (''Review backend is '' @ health_category_as_str (gd_category d) @
              ''; issue remains in Agent Review for '' @
              recovery_policy_as_str (gd_recovery_policy d) @ ''.''))
           else Inr (decision NeedsHumanInput ''need_human_input''
             (''Review backend is blocked by '' @ health_category_as_str (gd_category d) @
              ''; human input is required.''))
       | None \<Rightarrow>
           and_then (review_required_operator_actions job) (\<lambda>actions.
             if actions \<noteq> None
             then Inr (decision BackendUnavailable ''agent_review''
               ''Agent Review backend is blocked by required operator action; issue remains in Agent Review.'')
             else Inr (decision NeedsHumanInput ''need_human_input''
               ''Agent review failed or timed out; human input is required.'')))"

definition review_gate_decision_for_actor ::
    "ReviewJob \<Rightarrow> ReviewActor \<Rightarrow> (panic, ReviewGateDecision) result" where
  "review_gate_decision_for_actor job actor =
     (if actor = MainImplementationAgent then Inr main_agent_completion_decision
      else case rj_state job of
        Queued \<Rightarrow> Inr (decision StillRunning ''agent_review''
          ''Agent review is still running; issue remains in Agent Review.'')
      | Running \<Rightarrow> Inr (decision StillRunning ''agent_review''
          ''Agent review is still running; issue remains in Agent Review.'')
      | ReviewJobState.Completed \<Rightarrow> Inr (completed_decision (rj_report job))
      | ReviewJobState.Failed \<Rightarrow> failed_decision job
      | TimedOut \<Rightarrow> failed_decision job
      | ReviewJobState.Cancelled \<Rightarrow> Inr (decision ReviewOutcome.Cancelled ''agent_review''
          ''Agent review was cancelled; issue remains in Agent Review.''))"

definition review_gate_decision :: "ReviewJob \<Rightarrow> (panic, ReviewGateDecision) result" where
  "review_gate_decision job = review_gate_decision_for_actor job IndependentReviewAgent"

definition review_pass_target_state :: "TrackerIssue \<Rightarrow> string" where
  "review_pass_target_state issue =
     (if is_native_subissue issue \<and> \<not> native_subissue_human_review_exception issue
      then ''merging'' else ''human_review'')"

definition review_gate_decision_for_issue ::
    "ReviewJob \<Rightarrow> TrackerIssue \<Rightarrow> (panic, ReviewGateDecision) result" where
  "review_gate_decision_for_issue job issue =
     and_then (review_gate_decision job) (\<lambda>d.
       if rd_outcome d = PassedToHumanReview \<and> review_pass_target_state issue = ''merging''
       then Inr (decision PassedToMerging ''merging''
         ''Independent Agent Review passed with recorded evidence; native subissue routes directly to Merging because the parent issue owns final Human Review and UAT.'')
       else Inr d)"

definition transition_allowed_for_main_agent :: "string \<Rightarrow> bool" where
  "transition_allowed_for_main_agent state \<longleftrightarrow> state \<noteq> ''human_review'' \<and> state \<noteq> ''human review''"

definition transition_allowed_for_review_agent :: "string \<Rightarrow> ReviewGateDecision \<Rightarrow> bool" where
  "transition_allowed_for_review_agent state d \<longleftrightarrow>
     (if state = ''human_review'' \<or> state = ''human review'' then rd_outcome d = PassedToHumanReview
      else if state = ''merging'' then rd_outcome d = PassedToMerging
      else if state = ''rework'' then rd_outcome d \<in> {NeedsRework, InconclusiveNeedsRework}
      else if state = ''need_human_input'' \<or> state = ''need human input''
      then rd_outcome d = NeedsHumanInput
      else if state = ''agent_review'' \<or> state = ''agent review''
      then rd_outcome d \<in> {BackendUnavailable, StillRunning, ReviewOutcome.Cancelled}
      else True)"

subsection \<open>Freshness after rework (\<^verbatim>\<open>src/review/freshness.rs\<close>)\<close>

datatype ReviewStaleReason = MergeConflict | BaseBranchUpdated | ReviewOutdated | Unknown

datatype ReviewReworkClass = MechanicalConflictResolution | BaseRefresh | SemanticChange | Unknown

datatype ReviewFreshnessDecisionKind = PriorReviewStillValid | PriorReviewInvalidated | NeedsHumanInput

record ReviewFreshnessInput =
  fi_issue_ref :: string
  fi_prior_head_sha :: string
  fi_current_head_sha :: string
  fi_prior_base_sha :: string
  fi_current_base_sha :: string
  fi_changed_files :: "string list"
  fi_stale_reason :: ReviewStaleReason
  fi_rework_class :: ReviewReworkClass
  fi_patch_summary :: "string option"

record ReviewFreshnessDecision =
  fd_kind :: ReviewFreshnessDecisionKind
  fd_prior_human_review_valid :: bool
  fd_human_rereview_required :: bool
  fd_main_agent_target_state :: string
  fd_authorized_next_state :: "string option"
  fd_rationale :: string

record ReviewFreshnessReport =
  fr_input :: ReviewFreshnessInput
  fr_decision :: ReviewFreshnessDecision

definition mechanical_rework :: "ReviewReworkClass \<Rightarrow> bool" where
  "mechanical_rework k \<longleftrightarrow> k \<in> {MechanicalConflictResolution, BaseRefresh}"

definition classify_review_freshness :: "ReviewFreshnessInput \<Rightarrow> ReviewFreshnessReport" where
  "classify_review_freshness input =
     \<lparr>fr_input = input,
      fr_decision =
        (if mechanical_rework (fi_rework_class input)
         then \<lparr>fd_kind = PriorReviewStillValid, fd_prior_human_review_valid = True,
               fd_human_rereview_required = False, fd_main_agent_target_state = ''agent_review'',
               fd_authorized_next_state = Some ''merging'',
               fd_rationale = ''Rework is classified as mechanical; prior Human Review can be preserved when evidence is recorded.''\<rparr>
         else if fi_rework_class input = SemanticChange
         then \<lparr>fd_kind = PriorReviewInvalidated, fd_prior_human_review_valid = False,
               fd_human_rereview_required = True, fd_main_agent_target_state = ''agent_review'',
               fd_authorized_next_state = Some ''agent_review'',
               fd_rationale = ''Semantic implementation changes invalidate prior Human Review and require the normal Agent Review then Human Review path.''\<rparr>
         else \<lparr>fd_kind = ReviewFreshnessDecisionKind.NeedsHumanInput, fd_prior_human_review_valid = False,
               fd_human_rereview_required = True, fd_main_agent_target_state = ''agent_review'',
               fd_authorized_next_state = Some ''need_human_input'',
               fd_rationale = ''Rework class is unknown, so prior review freshness cannot be safely preserved.''\<rparr>)\<rparr>"

subsection \<open>Polling a backend (\<^verbatim>\<open>src/review/job.rs\<close>)\<close>

datatype ReviewError =
    Backend string
  | Artifact string

record 'b ReviewBackend =
  rb_poll :: "'b \<Rightarrow> ReviewJob \<Rightarrow> (ReviewError, ReviewJob) result \<times> 'b"
  rb_cancel :: "'b \<Rightarrow> ReviewJob \<Rightarrow> (ReviewError, ReviewJob) result \<times> 'b"

definition review_job_is_terminal :: "ReviewJob \<Rightarrow> bool" where
  "review_job_is_terminal job \<longleftrightarrow>
     rj_state job \<in> {ReviewJobState.Completed, ReviewJobState.Failed, TimedOut, ReviewJobState.Cancelled}"

definition timed_out_job :: "nat \<Rightarrow> ReviewJob \<Rightarrow> ReviewJob" where
  "timed_out_job timeout_ns job =
     job\<lparr>rj_state := TimedOut,
         rj_error := Some (''Review backend timed out after '' @ show_nat (timeout_ns div 1000000) @ ''ms.'')\<rparr>"

text \<open>\<open>elapsed i\<close> is what the watchdog reads in turn \<open>i\<close>, in nanoseconds. The loop has no
  bound of its own: not returning is \<^term>\<open>None\<close>.\<close>

partial_function (option) poll_loop ::
    "('b, 'm) ReviewBackend_scheme \<Rightarrow> nat \<Rightarrow> (nat \<Rightarrow> nat) \<Rightarrow> nat \<Rightarrow> 'b \<Rightarrow> ReviewJob \<Rightarrow>
     ((ReviewError, ReviewJob) result \<times> 'b) option" where
  "poll_loop B timeout_ns elapsed i b job =
     (case rb_poll B b job of
        (r, b') \<Rightarrow>
          (case r of
             Inl e \<Rightarrow> Some (Inl e, b')
           | Inr j \<Rightarrow>
               (if review_job_is_terminal j then Some (Inr j, b')
                else if elapsed i \<ge> timeout_ns
                then (case rb_cancel B b' j of
                        (c, b'') \<Rightarrow>
                          (case c of
                             Inl e \<Rightarrow> Some (Inl e, b'')
                           | Inr j' \<Rightarrow> Some (Inr (timed_out_job timeout_ns j'), b'')))
                else poll_loop B timeout_ns elapsed (Suc i) b' j)))"

definition poll_review_job_until_terminal ::
    "('b, 'm) ReviewBackend_scheme \<Rightarrow> nat \<Rightarrow> (nat \<Rightarrow> nat) \<Rightarrow> 'b \<Rightarrow> ReviewJob \<Rightarrow>
     ((ReviewError, ReviewJob) result \<times> 'b) option" where
  "poll_review_job_until_terminal B timeout_ns elapsed b job = poll_loop B timeout_ns elapsed 0 b job"

definition failed_unavailable :: "string \<Rightarrow> string \<Rightarrow> string \<Rightarrow> string \<Rightarrow> ReviewJob" where
  "failed_unavailable job_id issue_ref backend err =
     \<lparr>rj_id = job_id, rj_issue_ref = issue_ref, rj_backend = backend, rj_state = ReviewJobState.Failed,
      rj_artifact_path = None, rj_ledger_path = None, rj_backend_session_id = None,
      rj_report = None, rj_error = Some err\<rparr>"

definition review_job_id :: "string \<Rightarrow> nat \<Rightarrow> u64 \<Rightarrow> string" where
  "review_job_id prefix millis sequence =
     prefix @ ''-'' @ show_nat millis @ ''-'' @ show_nat (unat sequence)"

subsection \<open>When a review may start (\<^verbatim>\<open>src/review.rs\<close>)\<close>

datatype ReviewRunEligibility =
    Eligible string
  | AlreadyQueued string
  | NotInAgentReview string
  | InvalidHandoff string

definition review_worker_key :: "TrackerIssue \<Rightarrow> string \<Rightarrow> string" where
  "review_worker_key issue backend =
     ''review:'' @ trim (ti_identifier issue) @ '':'' @ to_lowercase (trim backend)"

text \<open>\<^verbatim>\<open>trim_start_matches("- ")\<close> and \<^verbatim>\<open>split(pattern)\<close>.\<close>

fun strip_dashes :: "string \<Rightarrow> string" where
  "strip_dashes (a # b # s) = (if a = CHR ''-'' \<and> b = CHR '' '' then strip_dashes s else a # b # s)"
| "strip_dashes s = s"

function split_str :: "string \<Rightarrow> string \<Rightarrow> string list" where
  "split_str p s =
     (if p = [] then [s]
      else case split_at_sub p s of None \<Rightarrow> [s] | Some (a, b) \<Rightarrow> a # split_str p b)"
  by pat_completeness auto
termination
  by (relation "measure (\<lambda>(p, s). length s)") (auto dest: split_at_sub_shorter)

declare split_str.simps [simp del]

definition BACKTICK :: char where "BACKTICK = CHR 0x60"

definition markdown_scalar :: "string \<Rightarrow> string" where
  "markdown_scalar v =
     filter (\<lambda>c. c \<noteq> BACKTICK)
       (trim (trim_end_matches (\<lambda>c. c = CHR ''.'')
         (trim_matches (\<lambda>c. c = BACKTICK) (trim (strip_dashes (trim v))))))"

definition markdown_list_field :: "string \<Rightarrow> string \<Rightarrow> string option" where
  "markdown_list_field line expected_name =
     (let l = unwrap_or (strip_prefix ''- '' (trim line)) (trim line) in
      case split_once (CHR '':'') l of
        None \<Rightarrow> None
      | Some (name, v) \<Rightarrow>
          if \<not> eq_ignore_ascii_case (trim name) expected_name then None else Some (markdown_scalar v))"

definition active_review_evidence_blocks :: "string \<Rightarrow> string list" where
  "active_review_evidence_blocks v =
     map (\<lambda>remainder. case split_at_sub (newline # ''## '') remainder of
                        Some (before, rest) \<Rightarrow> before | None \<Rightarrow> remainder)
       (drop 1 (split_str ''## Shea Symphony Agent Review Run'' v))"

definition block_step :: "string option \<times> string option \<Rightarrow> string \<Rightarrow> string option \<times> string option" where
  "block_step = (\<lambda>(worker_key, job_state) line.
     case markdown_list_field line ''worker key'' of
       Some v \<Rightarrow> (Some v, job_state)
     | None \<Rightarrow>
         (case markdown_list_field line ''job state'' of
            Some v \<Rightarrow> (worker_key, Some v) | None \<Rightarrow> (worker_key, job_state)))"

definition block_is_active :: "string \<Rightarrow> string \<Rightarrow> bool" where
  "block_is_active worker_key block \<longleftrightarrow>
     (case foldl block_step (None, None) (lines block) of
        (Some k, Some s) \<Rightarrow>
          eq_ignore_ascii_case k worker_key \<and>
          (eq_ignore_ascii_case s ''queued'' \<or> eq_ignore_ascii_case s ''running'')
      | _ \<Rightarrow> False)"

definition legacy_active_review_marker_matches :: "string \<Rightarrow> string \<Rightarrow> bool" where
  "legacy_active_review_marker_matches line worker_key \<longleftrightarrow>
     to_lowercase (markdown_scalar line) \<in>
       {''queued '' @ worker_key, ''review worker running with key '' @ worker_key,
        ''running review: '' @ worker_key}"

definition active_review_marker_matches :: "string \<Rightarrow> string \<Rightarrow> bool" where
  "active_review_marker_matches v key \<longleftrightarrow>
     (let worker_key = to_lowercase key in
      list_ex (block_is_active worker_key) (active_review_evidence_blocks v) \<or>
      list_ex (\<lambda>line. legacy_active_review_marker_matches line worker_key) (lines v))"

definition structured_active_review_claim :: "string \<Rightarrow> bool" where
  "structured_active_review_claim v \<longleftrightarrow>
     (case claim_parse v of Inr c \<Rightarrow> lane_as_str (cl_lane c) = ''review'' \<and> cl_state c = Active | Inl _ \<Rightarrow> False)"

definition fixed_review_agent_claim_matches :: "string \<Rightarrow> string \<Rightarrow> bool" where
  "fixed_review_agent_claim_matches v worker_key \<longleftrightarrow>
     (let value = to_ascii_lowercase (trim v) in
      if value = ''hold'' then True
      else contains (to_ascii_lowercase worker_key) '':gemini'' \<and> value \<in> {''gemini a'', ''gemini b''})"

definition terminal_review_failure_marker_matches :: "string \<Rightarrow> string \<Rightarrow> bool" where
  "terminal_review_failure_marker_matches v key \<longleftrightarrow>
     (let value = to_lowercase v; worker_key = to_lowercase key in
      contains value worker_key \<and>
      contains_any value
        [''job state: failed'', ''job state: `failed`'', ''job state: timedout'', ''job state: `timedout`'',
         ''job state: timed out'', ''job state: `timed out`'', ''job state: cancelled'', ''job state: `cancelled`''] \<and>
      contains_any value
        [''required operator action'', ''review backend'', ''repeated backend failure'', ''review backend health'',
         ''gemini backend health'', ''gemini review command'', ''agy review command'',
         ''retry: rerun `review loop`'', ''retry: rerun review loop''])"

text \<open>A field that is not a string is compared by its JSON text, an argument.\<close>

definition has_active_review_worker :: "(json \<Rightarrow> string) \<Rightarrow> TrackerIssue \<Rightarrow> string \<Rightarrow> bool" where
  "has_active_review_worker json_text issue worker_key \<longleftrightarrow>
     (let terminal_failure_marker =
            (case ti_description issue of
               Some d \<Rightarrow> terminal_review_failure_marker_matches d worker_key | None \<Rightarrow> False)
      in (\<exists>field \<in> dom (ti_project_fields issue).
            let key = to_lowercase field;
                json = the (ti_project_fields issue field);
                v = unwrap_or (as_str json) (json_text json)
            in contains key ''review'' \<and>
               (active_review_marker_matches v worker_key \<or>
                key = ''review agent'' \<and> structured_active_review_claim v \<or>
                key = ''review agent'' \<and> \<not> terminal_failure_marker \<and>
                  fixed_review_agent_claim_matches v worker_key)) \<or>
         (case ti_description issue of
            Some d \<Rightarrow> active_review_marker_matches d worker_key | None \<Rightarrow> False))"

definition review_run_eligibility ::
    "(json \<Rightarrow> string) \<Rightarrow> TrackerIssue \<Rightarrow> string \<Rightarrow> string \<Rightarrow> ReviewRunEligibility" where
  "review_run_eligibility json_text issue agent_review_state backend =
     (if normalized_state issue \<noteq> normalize_state agent_review_state
      then NotInAgentReview (ti_state issue)
      else if ti_linked_pull_requests issue = []
      then InvalidHandoff ''Agent Review handoff has no verified Project-visible linked PR; Main Agent or operator repair must establish the PR relationship before normal review.''
      else if list_ex (\<lambda>pr. pr_is_draft pr = Some True) (ti_linked_pull_requests issue)
      then InvalidHandoff ''Agent Review handoff has a linked draft PR; Main Agent must mark it ready before normal review.''
      else let worker_key = review_worker_key issue backend in
           if has_active_review_worker json_text issue worker_key then AlreadyQueued worker_key
           else Eligible worker_key)"

subsection \<open>The job ledger (\<^verbatim>\<open>src/review/job.rs\<close>)\<close>

record ReviewJobLedgerRecord =
  lr_issue_ref :: string
  lr_issue_title :: string
  lr_job_id :: string
  lr_worker_key :: string
  lr_backend :: string
  lr_state :: ReviewJobState
  lr_pid :: "u32 option"
  lr_started_at_ms :: "u64 option"
  lr_updated_at_ms :: "u64 option"
  lr_artifact_path :: "string option"
  lr_ledger_path :: string
  lr_backend_session_id :: "string option"
  lr_decision_outcome :: ReviewOutcome
  lr_decision_target_state :: "string option"
  lr_summary :: "string option"
  lr_error :: "string option"
  lr_finding_count :: nat
  lr_gemini_health :: "GeminiReviewHealthDiagnostic option"

definition review_job_ledger_record ::
    "TrackerIssue \<Rightarrow> ReviewJob \<Rightarrow> string \<Rightarrow> (panic, ReviewJobLedgerRecord) result" where
  "review_job_ledger_record issue job path =
     and_then (review_gate_decision_for_issue job issue) (\<lambda>d.
     and_then (gemini_review_health_diagnostic job) (\<lambda>health.
       Inr \<lparr>lr_issue_ref = ti_identifier issue, lr_issue_title = ti_title issue, lr_job_id = rj_id job,
            lr_worker_key = review_worker_key issue (rj_backend job), lr_backend = rj_backend job,
            lr_state = rj_state job, lr_pid = None, lr_started_at_ms = None, lr_updated_at_ms = None,
            lr_artifact_path = rj_artifact_path job, lr_ledger_path = path,
            lr_backend_session_id = or_else (rj_backend_session_id job) (Option.bind (rj_report job) rp_session_id),
            lr_decision_outcome = rd_outcome d, lr_decision_target_state = rd_target_state d,
            lr_summary = Option.bind (rj_report job) rp_summary, lr_error = rj_error job,
            lr_finding_count = unwrap_or (map_option (\<lambda>r. length (rp_findings r)) (rj_report job)) 0,
            lr_gemini_health = health\<rparr>))"

text \<open>The directory of ledgers: a file holds a record, or text that is not one (with the
  reader's message). The system calls that may fail are the argument.\<close>

type_synonym ledger_dir = "string \<rightharpoonup> (string, ReviewJobLedgerRecord) result"

record LedgerIo =
  lo_create_dir :: "string option"
  lo_stage :: "string option"
  lo_persist :: "string option"

datatype ledger_failure =
    LedgerError ReviewError
  | LedgerPanic panic

definition ledger_file :: "string \<Rightarrow> TrackerIssue \<Rightarrow> ReviewJob \<Rightarrow> string" where
  "ledger_file logs_root issue job =
     dir_join (dir_join (dir_join logs_root ''reviews'') ''jobs'')
       (safe_identifier (ti_identifier issue @ ''-'' @ rj_id job) @ ''.json'')"

definition write_review_job_ledger_record ::
    "LedgerIo \<Rightarrow> u64 \<Rightarrow> string \<Rightarrow> TrackerIssue \<Rightarrow> ReviewJob \<Rightarrow> ledger_dir \<Rightarrow>
     (ledger_failure, string) result \<times> ledger_dir" where
  "write_review_job_ledger_record io now logs_root issue job ledgers =
     (case lo_create_dir io of
        Some e \<Rightarrow> (Inl (LedgerError (Artifact e)), ledgers)
      | None \<Rightarrow>
        (let path = ledger_file logs_root issue job in
         case review_job_ledger_record issue job path of
           Inl p \<Rightarrow> (Inl (LedgerPanic p), ledgers)
         | Inr rec \<Rightarrow>
           (case (case ledgers path of
                    None \<Rightarrow> Inr None | Some (Inl e) \<Rightarrow> Inl e | Some (Inr prior) \<Rightarrow> Inr (Some prior)) of
              Inl e \<Rightarrow> (Inl (LedgerError (Artifact e)), ledgers)
            | Inr previous \<Rightarrow>
                (let rec' = rec\<lparr>lr_started_at_ms := or_else (Option.bind previous lr_started_at_ms) (Some now),
                                lr_updated_at_ms := Some now\<rparr>
                 in case or_else (lo_stage io) (lo_persist io) of
                      Some e \<Rightarrow> (Inl (LedgerError (Artifact e)), ledgers)
                    | None \<Rightarrow> (Inr path, ledgers(path \<mapsto> Inr rec'))))))"

definition persist_review_job_ledger_record ::
    "LedgerIo \<Rightarrow> u64 \<Rightarrow> string \<Rightarrow> TrackerIssue \<Rightarrow> ReviewJob \<Rightarrow> ledger_dir \<Rightarrow>
     (ledger_failure, string) result \<times> ReviewJob \<times> ledger_dir" where
  "persist_review_job_ledger_record io now logs_root issue job ledgers =
     (case write_review_job_ledger_record io now logs_root issue job ledgers of
        (Inl e, l) \<Rightarrow> (Inl e, job, l)
      | (Inr path, l) \<Rightarrow> (Inr path, job\<lparr>rj_ledger_path := Some path\<rparr>, l))"

subsection \<open>Facts: routing\<close>

text \<open>The routes of the gate: every outcome has one target.\<close>

fun route :: "ReviewOutcome \<Rightarrow> string" where
  "route PassedToHumanReview = ''human_review''"
| "route PassedToMerging = ''merging''"
| "route NeedsRework = ''rework''"
| "route InconclusiveNeedsRework = ''rework''"
| "route ReviewOutcome.NeedsHumanInput = ''need_human_input''"
| "route BackendUnavailable = ''agent_review''"
| "route StillRunning = ''agent_review''"
| "route ReviewOutcome.Cancelled = ''agent_review''"

definition routed :: "ReviewGateDecision \<Rightarrow> bool" where
  "routed d \<longleftrightarrow> rd_target_state d = Some (route (rd_outcome d))"

lemma completed_routed: "routed (completed_decision rep)"
  by (simp add: routed_def completed_decision_def split: option.split)

lemma failed_routed: "failed_decision job = Inr d \<Longrightarrow> routed d \<and> \<not> is_passed (rd_outcome d)"
  by (auto simp: routed_def is_passed_def failed_decision_def and_then_Inr_iff split: option.splits if_splits)

lemma gate_routed: "review_gate_decision_for_actor job actor = Inr d \<Longrightarrow> routed d"
  using completed_routed [of "rj_report job"] failed_routed [of job d]
  by (auto simp: review_gate_decision_for_actor_def main_agent_completion_decision_def routed_def
      split: if_splits ReviewJobState.splits)

lemma issue_gate_routed: "review_gate_decision_for_issue job issue = Inr d \<Longrightarrow> routed d"
  using gate_routed [of job IndependentReviewAgent]
  by (auto simp: review_gate_decision_for_issue_def review_gate_decision_def and_then_Inr_iff routed_def
      split: if_splits)

lemma route_allowed: "transition_allowed_for_review_agent (route (rd_outcome d)) d"
  by (cases "rd_outcome d") (simp_all add: transition_allowed_for_review_agent_def)

text \<open>What a report must be like to pass.\<close>

definition report_passes :: "AgentReviewReport \<Rightarrow> bool" where
  "report_passes r \<longleftrightarrow>
     \<not> legacy_backend_missing_review_result r \<and> \<not> blocks_progress r \<and> \<not> is_inconclusive r"

lemma completed_passes:
  "is_passed (rd_outcome (completed_decision rep)) \<longleftrightarrow> (\<exists>r. rep = Some r \<and> report_passes r)"
  "rd_outcome (completed_decision rep) \<noteq> PassedToMerging"
  by (auto simp: completed_decision_def is_passed_def report_passes_def split: option.splits)

lemma gate_passes:
  "review_gate_decision job = Inr d \<Longrightarrow>
   (is_passed (rd_outcome d) \<longleftrightarrow>
      rj_state job = ReviewJobState.Completed \<and> (\<exists>r. rj_report job = Some r \<and> report_passes r)) \<and>
   rd_outcome d \<noteq> PassedToMerging"
  using completed_passes [of "rj_report job"] failed_routed [of job d]
  by (auto simp: review_gate_decision_def review_gate_decision_for_actor_def is_passed_def
      split: ReviewJobState.splits)

lemma issue_gate_passes:
  "review_gate_decision_for_issue job issue = Inr d \<Longrightarrow>
   is_passed (rd_outcome d) \<longleftrightarrow>
     rj_state job = ReviewJobState.Completed \<and> (\<exists>r. rj_report job = Some r \<and> report_passes r)"
proof -
  assume "review_gate_decision_for_issue job issue = Inr d"
  then obtain g where g: "review_gate_decision job = Inr g" and
    "is_passed (rd_outcome d) \<longleftrightarrow> is_passed (rd_outcome g)"
    by (auto simp: review_gate_decision_for_issue_def and_then_Inr_iff is_passed_def split: if_splits)
  with gate_passes [OF g] show ?thesis by blast
qed

lemma completed_job_decided:
  "rj_state job = ReviewJobState.Completed \<Longrightarrow> \<exists>d. review_gate_decision_for_issue job issue = Inr d"
  by (simp add: review_gate_decision_for_issue_def review_gate_decision_def review_gate_decision_for_actor_def)

subsection \<open>Facts: polling\<close>

lemma timed_out_terminal: "review_job_is_terminal (timed_out_job t job)"
  by (simp add: timed_out_job_def review_job_is_terminal_def)

lemma poll_loop_returns:
  assumes "timeout \<le> elapsed k" and "i \<le> k"
  shows "\<exists>r b'. poll_loop B timeout elapsed i b job = Some (r, b') \<and>
    (case r of Inl e \<Rightarrow> True | Inr j \<Rightarrow> review_job_is_terminal j)"
  using assms(2)
proof (induction "k - i" arbitrary: i b job)
  case 0
  with assms(1) have "timeout \<le> elapsed i" by simp
  then show ?case
    by (subst poll_loop.simps) (simp add: timed_out_terminal split: prod.split sum.split)
next
  case (Suc n)
  have "\<exists>r b'. poll_loop B timeout elapsed (Suc i) c j = Some (r, b') \<and>
      (case r of Inl e \<Rightarrow> True | Inr j \<Rightarrow> review_job_is_terminal j)" for c j
    by (rule Suc.hyps(1)) (use Suc in auto)
  then show ?case
    by (subst poll_loop.simps) (simp add: timed_out_terminal split: prod.split sum.split)
qed

subsection \<open>Facts: text reviewers\<close>

lemma lines_single: "l \<noteq> [] \<Longrightarrow> newline \<notin> set l \<Longrightarrow> lines l = [l]"
proof -
  assume "l \<noteq> []" "newline \<notin> set l"
  moreover have "split_on d l = [l]" if "d \<notin> set l" for d
    using that by (induction l) auto
  ultimately show ?thesis by (simp add: lines_def Let_def)
qed

lemma split_on_not_Nil [simp]: "split_on d s \<noteq> []"
  by (induction s) (auto split: list.splits)

lemma split_on_free: "p \<in> set (split_on d s) \<Longrightarrow> d \<notin> set p"
proof (induction s arbitrary: p)
  case (Cons c s)
  obtain q qs where q: "split_on d s = q # qs"
    by (cases "split_on d s") auto
  with Cons show ?case by (fastforce split: if_splits)
qed simp

lemma lines_free: "l \<in> set (lines s) \<Longrightarrow> newline \<notin> set l"
proof -
  assume "l \<in> set (lines s)"
  then consider p where "p \<in> set (split_on newline s)" "l = strip_cr p" | "l \<in> set (split_on newline s)"
    by (auto simp: lines_def Let_def dest: in_set_butlastD split: if_splits)
  then show ?thesis
  proof cases
    case 1
    then show ?thesis using split_on_free by (fastforce simp: strip_cr_def dest: in_set_butlastD split: if_splits)
  next
    case 2
    then show ?thesis by (rule split_on_free)
  qed
qed

lemma find_map_trim: "find (\<lambda>l. l \<noteq> []) (map trim ls) = map_option trim (find (\<lambda>l. \<not> blank l) ls)"
  by (induction ls) auto

lemma summary_verdict:
  "parse_review_result (unwrap_or (first_non_empty_line out) ''Review completed.'') = parse_review_result out"
proof (cases "first_non_empty_line out")
  case None
  have "parse_review_result ''Review completed.'' = None" by code_simp
  moreover have "parse_review_result out = None"
    using None by (simp add: parse_review_result_def find_map_trim first_non_empty_line_def)
  ultimately show ?thesis by (simp add: None)
next
  case (Some l)
  then have l: "l \<in> set (lines out)" "\<not> blank l"
    by (auto simp: first_non_empty_line_def find_Some_iff)
  then have "lines l = [l]" using lines_free by (intro lines_single) (auto simp: trim_Nil_iff)
  then show ?thesis
    using Some l(2) by (simp add: parse_review_result_def find_map_trim first_non_empty_line_def)
qed

lemma completed_report_verdict:
  "has_parsed_review_result (completed_report b out stdout err st sid) \<longleftrightarrow>
     parse_review_result out \<noteq> None \<or> parse_review_result stdout \<noteq> None"
  by (simp add: has_parsed_review_result_def completed_report_def summary_verdict)

subsection \<open>Properties\<close>


definition passing_job :: ReviewJob where
  "passing_job =
     \<lparr>rj_id = ''r-1'', rj_issue_ref = ''#1'', rj_backend = ''gemini-cli'', rj_state = ReviewJobState.Completed,
      rj_artifact_path = None, rj_ledger_path = None, rj_backend_session_id = None,
      rj_report = Some (completed_report ''gemini-cli'' ''Review Result: Pass'' ''Review Result: Pass'' [] ''0'' None),
      rj_error = None\<rparr>"

lemma passing_job_facts:
  "rj_state passing_job = ReviewJobState.Completed"
  "rj_report passing_job =
     Some (completed_report ''gemini-cli'' ''Review Result: Pass'' ''Review Result: Pass'' [] ''0'' None)"
  "report_passes (completed_report ''gemini-cli'' ''Review Result: Pass'' ''Review Result: Pass'' [] ''0'' None)"
  by (simp add: passing_job_def, simp add: passing_job_def, code_simp)


text \<open>C15: No text of a command-line reviewer slips through the gate against its own verdict: when
  the review of its report passes, the verdict was not a request for context; if it was a
  request for rework, every confirmed finding only asks for user acceptance tests that a human
  owns; and a Gemini reviewer has stated a verdict in the required form.\<close>

theorem text_review_passes_only_with_verdict:
  assumes "rj_state job = ReviewJobState.Completed"
    and "rj_report job = Some (completed_report backend response stdout stderr st sid)"
    and "review_gate_decision_for_issue job issue = Inr d" and "is_passed (rd_outcome d)"
  shows "parse_review_result response \<noteq> Some ParsedReviewResult.NeedsContext \<and>
    (parse_review_result response = Some Rework \<longrightarrow>
      (\<exists>f \<in> set (classify_findings response). rf_class f = Confirmed) \<and>
      (\<forall>f \<in> set (classify_findings response). rf_class f = Confirmed \<longrightarrow> human_owned_uat_finding f)) \<and>
    (backend = ''gemini-cli'' \<longrightarrow> parse_review_result response \<noteq> None \<or> parse_review_result stdout \<noteq> None)"
proof -
  let ?r = "completed_report backend response stdout stderr st sid"
  have passes: "report_passes ?r" using issue_gate_passes [OF assms(3)] assms(2,4) by simp
  have f: "rp_findings ?r = classify_findings response" "rp_reviewer_backend ?r = backend"
    by (simp_all add: completed_report_def)
  have "\<not> has_class ReviewFindingClass.NeedsContext (classify_findings response)"
    using passes by (auto simp: report_passes_def is_inconclusive_def inconclusive_reason_def f split: if_splits)
  then have "parse_review_result response \<noteq> Some ParsedReviewResult.NeedsContext"
    using needs_context_has_finding by blast
  moreover have "\<forall>f \<in> set (classify_findings response). rf_class f = Confirmed \<longrightarrow> human_owned_uat_finding f"
    using passes by (auto simp: report_passes_def blocks_progress_def f list_ex_iff review_finding_blocks_progress_def)
  moreover have "\<exists>f \<in> set (classify_findings response). rf_class f = Confirmed"
    if "parse_review_result response = Some Rework"
    using rework_has_confirmed [OF that] by (auto simp: has_class_def list_ex_iff)
  moreover have "backend = ''gemini-cli'' \<longrightarrow> parse_review_result response \<noteq> None \<or> parse_review_result stdout \<noteq> None"
    using passes by (auto simp: report_passes_def legacy_backend_missing_review_result_def f completed_report_verdict)
  ultimately show ?thesis by blast
qed

theorem text_review_passes_only_with_verdict_witness:
  "rj_state passing_job = ReviewJobState.Completed \<and>
   parse_review_result ''Review Result: Pass'' \<noteq> Some ParsedReviewResult.NeedsContext"
proof -
  let ?issue = "sample_issue ''1'' ''Agent Review''"
  obtain d where d: "review_gate_decision_for_issue passing_job ?issue = Inr d"
    using completed_job_decided [OF passing_job_facts(1)] by blast
  then have "is_passed (rd_outcome d)" using issue_gate_passes [OF d] passing_job_facts by blast
  from text_review_passes_only_with_verdict [OF passing_job_facts(1,2) d this] passing_job_facts(1)
  show ?thesis by (simp only: simp_thms)
qed

text \<open>Once the watchdog's clock has reached the timeout at some turn, polling a review backend
  returns, whatever the backend answers, and a job that it returns is in a terminal state.\<close>

theorem polling_returns_terminal_job:
  assumes "timeout_ns \<le> elapsed k"
  shows "\<exists>r b'. poll_review_job_until_terminal B timeout_ns elapsed b job = Some (r, b') \<and>
    (case r of Inl e \<Rightarrow> True | Inr j \<Rightarrow> review_job_is_terminal j)"
  unfolding poll_review_job_until_terminal_def 
  by (rule poll_loop_returns [where k = k]) (simp_all add: assms)

text \<open>A backend that never finishes: the watchdog ends it in the turn in which the time is up.\<close>

definition stuck_backend :: "nat ReviewBackend" where
  "stuck_backend = \<lparr>rb_poll = (\<lambda>n j. (Inr (j\<lparr>rj_state := Running\<rparr>), Suc n)), rb_cancel = (\<lambda>n j. (Inr j, n))\<rparr>"

theorem polling_returns_terminal_job_witness:
  "\<exists>r b'. poll_review_job_until_terminal stuck_backend 3 (\<lambda>i. i) 0 passing_job = Some (r, b') \<and>
     (case r of Inl e \<Rightarrow> True | Inr j \<Rightarrow> review_job_is_terminal j)"
  by (rule polling_returns_terminal_job [where k = 3]) simp

text \<open>An issue that carries a well-formed active claim of the review lane in its
  \<^verbatim>\<open>Review Agent\<close> field is never eligible for another review run, whichever backend asks.\<close>

theorem active_review_claim_blocks_second_run:
  assumes "ti_project_fields issue ''Review Agent'' = Some (String (claim_render c))"
    and "claim_complete c" and "cl_lane c = Review" and "cl_state c = Active"
  shows "review_run_eligibility json_text issue state backend \<noteq> Eligible key"
proof -
  have "structured_active_review_claim (claim_render c)"
    using parse_render_complete [OF assms(2)] assms(3,4) by (simp add: structured_active_review_claim_def)
  moreover have "to_lowercase ''Review Agent'' = ''review agent''" "contains ''review agent'' ''review''"
    by code_simp+
  ultimately have "has_active_review_worker json_text issue w" for w
    unfolding has_active_review_worker_def Let_def
    by (intro disjI1 bexI [of _ "''Review Agent''"]) (simp_all add: assms(1) domI)
  then show ?thesis by (simp add: review_run_eligibility_def Let_def)
qed

theorem active_review_claim_blocks_second_run_witness:
  "\<forall>json_text. review_run_eligibility json_text
     ((sample_issue ''1'' ''Agent Review'')\<lparr>ti_project_fields :=
        [''Review Agent'' \<mapsto> String (claim_render (claim_active ''#1'' Review Claude Loop 0))]\<rparr>)
     ''Agent Review'' ''codex'' \<noteq> Eligible ''review:#1:codex''"
  by (rule allI, rule active_review_claim_blocks_second_run [where c = "claim_active ''#1'' Review Claude Loop 0"])
    (simp_all add: claim_complete_def claim_active_def generate_run_id_def Let_def)

text \<open>The ledger keeps the time of a job's first record: whatever happens to the job between two
  writes, a later record of the same file has the earlier start.\<close>

theorem ledger_start_time_kept:
  assumes "ledgers (ledger_file root issue job) = Some (Inr prior)" and "lr_started_at_ms prior = Some t0"
    and "write_review_job_ledger_record io now root issue job ledgers = (Inr path, ledgers')"
  shows "\<exists>rec. ledgers' path = Some (Inr rec) \<and> lr_started_at_ms rec = Some t0 \<and>
    lr_updated_at_ms rec = Some now \<and> lr_job_id rec = rj_id job"
  using assms
  by (auto simp: write_review_job_ledger_record_def Let_def review_job_ledger_record_def and_then_def
      split: option.splits sum.splits)

end
