(* ===== verification/Ownership.thy ===== *)
theory Ownership
  imports Text_Tools
begin

section \<open>Runtime ownership markers (\<^verbatim>\<open>src/ownership.rs\<close>)\<close>

text \<open>
  The Markdown block by which a runtime marks a workpad as its own, how it is read back from
  surrounding text, and the decision whether the workpad belongs to the reader.
\<close>

record RuntimeOwnershipMarker =
  om_issue_ref :: string
  om_actor_role :: string
  om_actor_label :: string
  om_profile_id :: "string option"
  om_instance_name :: "string option"
  om_workspace_key :: string
  om_branch_name :: string

datatype RuntimeOwnershipDecision =
    Missing
  | Matches
  | Mismatched string RuntimeOwnershipMarker

definition OWNERSHIP_MARKER_START :: string where
  "OWNERSHIP_MARKER_START = ''<!-- shea-symphony-runtime-ownership -->''"

definition OWNERSHIP_MARKER_END :: string where
  "OWNERSHIP_MARKER_END = ''<!-- /shea-symphony-runtime-ownership -->''"

definition TICK :: char where "TICK = CHR 0x60"

definition marker_line :: "string \<Rightarrow> string \<Rightarrow> string" where
  "marker_line label v = ''- '' @ label @ '': '' @ [TICK] @ v @ [TICK]"

definition render_runtime_ownership_marker :: "RuntimeOwnershipMarker \<Rightarrow> string" where
  "render_runtime_ownership_marker m =
     join [char_of (10::nat)]
       [OWNERSHIP_MARKER_START,
        ''### Runtime Ownership'',
        marker_line ''Issue'' (om_issue_ref m),
        marker_line ''Actor role'' (om_actor_role m),
        marker_line ''Actor label'' (om_actor_label m),
        marker_line ''Profile'' (unwrap_or (om_profile_id m) ''n/a''),
        marker_line ''Instance'' (unwrap_or (om_instance_name m) ''n/a''),
        marker_line ''Workspace key'' (om_workspace_key m),
        marker_line ''Branch'' (om_branch_name m),
        OWNERSHIP_MARKER_END]"

definition ownership_block :: "string \<Rightarrow> string option" where
  "ownership_block text =
     (case split_at_sub OWNERSHIP_MARKER_START text of
        None \<Rightarrow> None
      | Some (before, after_start) \<Rightarrow>
          map_option fst (split_at_sub OWNERSHIP_MARKER_END after_start))"

definition clean_value :: "string \<Rightarrow> string" where
  "clean_value v =
     trim_end_matches (\<lambda>c. c = CHR ''.'') (trim (trim_matches (\<lambda>c. c = TICK) (trim v)))"

definition line_value :: "string \<Rightarrow> string \<Rightarrow> string option" where
  "line_value key line =
     (case strip_prefix ''- '' (trim line) of
        None \<Rightarrow> None
      | Some raw \<Rightarrow>
          (case split_once (CHR '':'') raw of
             None \<Rightarrow> None
           | Some (label, v) \<Rightarrow> if trim label \<noteq> key then None else Some (clean_value v)))"

definition ownership_value :: "string \<Rightarrow> string \<Rightarrow> string option" where
  "ownership_value block key = find_map (line_value key) (lines block)"

definition optional_ownership_value :: "string \<Rightarrow> string \<Rightarrow> string option" where
  "optional_ownership_value block key = filter_option (\<lambda>v. v \<noteq> ''n/a'') (ownership_value block key)"

definition runtime_ownership_from_text :: "string \<Rightarrow> RuntimeOwnershipMarker option" where
  "runtime_ownership_from_text text =
     Option.bind (ownership_block text) (\<lambda>block.
     Option.bind (ownership_value block ''Issue'') (\<lambda>issue_ref.
     Option.bind (ownership_value block ''Actor role'') (\<lambda>actor_role.
     Option.bind (ownership_value block ''Actor label'') (\<lambda>actor_label.
     Option.bind (ownership_value block ''Workspace key'') (\<lambda>workspace_key.
     Option.bind (ownership_value block ''Branch'') (\<lambda>branch_name.
       Some \<lparr>om_issue_ref = issue_ref, om_actor_role = actor_role, om_actor_label = actor_label,
             om_profile_id = optional_ownership_value block ''Profile'',
             om_instance_name = optional_ownership_value block ''Instance'',
             om_workspace_key = workspace_key, om_branch_name = branch_name\<rparr>))))))"

definition differs :: "string \<Rightarrow> string option \<Rightarrow> string option \<Rightarrow> string option" where
  "differs label actual expected =
     (if actual \<noteq> expected
      then Some (label @ '' differs: existing `'' @ unwrap_or actual ''n/a'' @ ''` expected `'' @
                 unwrap_or expected ''n/a'' @ ''`'')
      else None)"

definition ownership_mismatch_reason ::
    "RuntimeOwnershipMarker \<Rightarrow> RuntimeOwnershipMarker \<Rightarrow> string option" where
  "ownership_mismatch_reason existing expected =
     find_map (\<lambda>(label, actual, wanted). differs label actual wanted)
       [(''profile'', om_profile_id existing, om_profile_id expected),
        (''instance'', om_instance_name existing, om_instance_name expected),
        (''workspace_key'', Some (om_workspace_key existing), Some (om_workspace_key expected)),
        (''branch'', Some (om_branch_name existing), Some (om_branch_name expected))]"

definition runtime_ownership_decision ::
    "string option \<Rightarrow> RuntimeOwnershipMarker \<Rightarrow> RuntimeOwnershipDecision" where
  "runtime_ownership_decision text expected =
     (case Option.bind text runtime_ownership_from_text of
        None \<Rightarrow> Missing
      | Some existing \<Rightarrow>
          (if om_issue_ref existing \<noteq> om_issue_ref expected
           then Mismatched (''ownership marker is for '' @ om_issue_ref existing @ '', expected '' @
                            om_issue_ref expected) existing
           else case ownership_mismatch_reason existing expected of
                  Some reason \<Rightarrow> Mismatched reason existing
                | None \<Rightarrow> Matches))"

subsection \<open>Facts\<close>

text \<open>A value that a rendered line shows without loss.\<close>

definition marker_value :: "string \<Rightarrow> bool" where
  "marker_value v \<longleftrightarrow>
     char_of (10::nat) \<notin> set v \<and> CHR ''<'' \<notin> set v \<and>
     (v = [] \<or> trim v = v \<and> hd v \<noteq> TICK \<and> last v \<noteq> TICK \<and> last v \<noteq> CHR ''.'')"

definition marker_option :: "string option \<Rightarrow> bool" where
  "marker_option p \<longleftrightarrow> (case p of Some v \<Rightarrow> marker_value v \<and> v \<noteq> ''n/a'' | None \<Rightarrow> True)"

definition marker_ok :: "RuntimeOwnershipMarker \<Rightarrow> bool" where
  "marker_ok m \<longleftrightarrow>
     marker_value (om_issue_ref m) \<and> marker_value (om_actor_role m) \<and> marker_value (om_actor_label m) \<and>
     marker_option (om_profile_id m) \<and> marker_option (om_instance_name m) \<and>
     marker_value (om_workspace_key m) \<and> marker_value (om_branch_name m)"

lemma trim_matches_ticks:
  assumes "v = [] \<or> hd v \<noteq> TICK \<and> last v \<noteq> TICK"
  shows "trim_matches (\<lambda>c. c = TICK) (TICK # v @ [TICK]) = v"
proof (cases "v = []")
  case False
  with assms have "dropWhile (\<lambda>c. c = TICK) (v @ [TICK]) = v @ [TICK]" by (cases v) auto
  moreover have "dropWhile (\<lambda>c. c = TICK) (rev v) = rev v"
    using False assms by (cases v rule: rev_cases) auto
  ultimately show ?thesis by (simp add: trim_matches_def trim_start_matches_def trim_end_matches_def)
qed (simp add: trim_matches_def trim_start_matches_def trim_end_matches_def)

lemma tick_not_space: "\<not> is_whitespace TICK" by (simp add: TICK_def is_whitespace_def)

lemma clean_marker_value:
  assumes "marker_value v"
  shows "clean_value (CHR '' '' # TICK # v @ [TICK]) = v"
proof -
  have "trim (CHR '' '' # TICK # v @ [TICK]) = trim (TICK # v @ [TICK])"
    by (simp add: trim_def trim_matches_def trim_start_matches_def is_whitespace_def)
  also have "\<dots> = TICK # v @ [TICK]" by (rule trim_fixed) (simp_all add: tick_not_space)
  finally have "trim (CHR '' '' # TICK # v @ [TICK]) = TICK # v @ [TICK]" .
  moreover have "trim_matches (\<lambda>c. c = TICK) (TICK # v @ [TICK]) = v"
    using assms by (intro trim_matches_ticks) (auto simp: marker_value_def)
  moreover have "trim_end_matches (\<lambda>c. c = CHR ''.'') (trim v) = v"
  proof (cases "v = []")
    case False
    then have "trim v = v" "last v \<noteq> CHR ''.''" using assms by (auto simp: marker_value_def)
    with False show ?thesis by (cases v rule: rev_cases) (auto simp: trim_end_matches_def)
  qed (simp add: trim_end_matches_def trim_Nil_iff [of "[]", simplified])
  ultimately show ?thesis by (simp add: clean_value_def)
qed

definition marker_label :: "string \<Rightarrow> bool" where
  "marker_label l \<longleftrightarrow> CHR '':'' \<notin> set l \<and> trim l = l"

lemma line_value_marker:
  assumes "marker_value v" and "marker_label label"
  shows "line_value key (marker_line label v) = (if label = key then Some v else None)"
proof -
  have "trim (marker_line label v) = marker_line label v"
    by (rule trim_fixed) (simp_all add: marker_line_def tick_not_space, simp add: is_whitespace_def)
  then have "strip_prefix ''- '' (trim (marker_line label v)) = Some (label @ CHR '':'' # CHR '' '' # TICK # v @ [TICK])"
    by (simp add: marker_line_def)
  then show ?thesis
    using assms by (simp add: line_value_def marker_label_def clean_marker_value)
qed

lemma marker_labels:
  "marker_label ''Issue''" "marker_label ''Actor role''" "marker_label ''Actor label''"
  "marker_label ''Profile''" "marker_label ''Instance''" "marker_label ''Workspace key''" "marker_label ''Branch''"
  by code_simp+

lemma header_lines: "line_value key [] = None" "line_value key ''### Runtime Ownership'' = None"
proof -
  have "strip_prefix ''- '' (trim []) = None" "strip_prefix ''- '' (trim ''### Runtime Ownership'') = None"
    by code_simp+
  then show "line_value key [] = None" "line_value key ''### Runtime Ownership'' = None"
    by (simp_all only: line_value_def option.case)
qed

definition marker_lines :: "RuntimeOwnershipMarker \<Rightarrow> string list" where
  "marker_lines m =
     [marker_line ''Issue'' (om_issue_ref m), marker_line ''Actor role'' (om_actor_role m),
      marker_line ''Actor label'' (om_actor_label m),
      marker_line ''Profile'' (unwrap_or (om_profile_id m) ''n/a''),
      marker_line ''Instance'' (unwrap_or (om_instance_name m) ''n/a''),
      marker_line ''Workspace key'' (om_workspace_key m), marker_line ''Branch'' (om_branch_name m)]"

definition marker_block :: "RuntimeOwnershipMarker \<Rightarrow> string" where
  "marker_block m = log_text ([] # ''### Runtime Ownership'' # marker_lines m)"

lemma render_as_block:
  "render_runtime_ownership_marker m = OWNERSHIP_MARKER_START @ marker_block m @ OWNERSHIP_MARKER_END"
  by (simp add: render_runtime_ownership_marker_def marker_block_def marker_lines_def log_text_def)

lemma option_value: "marker_option p \<Longrightarrow> marker_value (unwrap_or p ''n/a'')"
proof -
  have "marker_value ''n/a''" by code_simp
  then show "marker_option p \<Longrightarrow> marker_value (unwrap_or p ''n/a'')"
    by (cases p) (simp_all only: marker_option_def option.case unwrap_or.simps)
qed

lemma marker_line_free:
  assumes "marker_value v" and "list_all (\<lambda>c. is_ascii_alphanumeric c \<or> c = CHR '' '') label"
  shows "plain_line (marker_line label v)" and "CHR ''<'' \<notin> set (marker_line label v)"
proof -
  have "char_of (10::nat) \<notin> set label" "CHR ''<'' \<notin> set label"
    using assms(2) by (auto simp: list_all_iff is_ascii_alphanumeric_def is_ascii_digit_def char_of_numeral bit_0)
  with assms(1) show "plain_line (marker_line label v)" "CHR ''<'' \<notin> set (marker_line label v)"
    by (auto simp: marker_line_def plain_line_def marker_value_def TICK_def char_of_numeral bit_0)
qed

lemma label_alphabet:
  "list_all (list_all (\<lambda>c. is_ascii_alphanumeric c \<or> c = CHR '' ''))
     [''Issue'', ''Actor role'', ''Actor label'', ''Profile'', ''Instance'', ''Workspace key'', ''Branch'']"
  by code_simp

lemma marker_block_facts:
  assumes "marker_ok m"
  shows "lines (marker_block m) = [] # ''### Runtime Ownership'' # marker_lines m"
    and "CHR ''<'' \<notin> set (marker_block m)"
proof -
  have "list_all (\<lambda>l. plain_line l \<and> CHR ''<'' \<notin> set l) (marker_lines m)"
    using assms marker_line_free label_alphabet option_value
    unfolding marker_lines_def marker_ok_def by (simp only: list.pred_inject simp_thms)
  then have ls: "list_all plain_line (marker_lines m)" "\<forall>l \<in> set (marker_lines m). CHR ''<'' \<notin> set l"
    by (auto simp: list_all_iff)
  moreover have "plain_line ''### Runtime Ownership''" by code_simp
  ultimately show "lines (marker_block m) = [] # ''### Runtime Ownership'' # marker_lines m"
    unfolding marker_block_def by (intro lines_plain) (simp add: plain_line_def [of "[]"])
  show "CHR ''<'' \<notin> set (marker_block m)"
    using ls(2) by (auto simp: marker_block_def log_text_def char_of_numeral bit_0)
qed

lemma block_values:
  assumes "marker_ok m"
  shows "ownership_value (marker_block m) ''Issue'' = Some (om_issue_ref m)"
    "ownership_value (marker_block m) ''Actor role'' = Some (om_actor_role m)"
    "ownership_value (marker_block m) ''Actor label'' = Some (om_actor_label m)"
    "ownership_value (marker_block m) ''Profile'' = Some (unwrap_or (om_profile_id m) ''n/a'')"
    "ownership_value (marker_block m) ''Instance'' = Some (unwrap_or (om_instance_name m) ''n/a'')"
    "ownership_value (marker_block m) ''Workspace key'' = Some (om_workspace_key m)"
    "ownership_value (marker_block m) ''Branch'' = Some (om_branch_name m)"
  using assms marker_labels option_value
  by (simp_all add: ownership_value_def marker_block_facts [OF assms] header_lines marker_lines_def
      line_value_marker marker_ok_def)

lemma read_marker:
  assumes "marker_ok m" and "CHR ''<'' \<notin> set before"
  shows "runtime_ownership_from_text (before @ render_runtime_ownership_marker m @ after) = Some m"
proof -
  have start: "OWNERSHIP_MARKER_START = CHR ''<'' # List.tl OWNERSHIP_MARKER_START"
    and fin: "OWNERSHIP_MARKER_END = CHR ''<'' # List.tl OWNERSHIP_MARKER_END"
    by (simp_all add: OWNERSHIP_MARKER_START_def OWNERSHIP_MARKER_END_def)
  have "split_at_sub OWNERSHIP_MARKER_START
      (before @ OWNERSHIP_MARKER_START @ marker_block m @ OWNERSHIP_MARKER_END @ after) =
      Some (before, marker_block m @ OWNERSHIP_MARKER_END @ after)"
    by (subst start, subst start) (rule split_at_sub_first [OF assms(2)])
  moreover have "split_at_sub OWNERSHIP_MARKER_END (marker_block m @ OWNERSHIP_MARKER_END @ after) =
      Some (marker_block m, after)"
    by (subst fin, subst fin) (rule split_at_sub_first [OF marker_block_facts(2) [OF assms(1)]])
  ultimately have block: "ownership_block (before @ render_runtime_ownership_marker m @ after) = Some (marker_block m)"
    by (simp add: ownership_block_def render_as_block)
  have opt: "filter_option (\<lambda>v. v \<noteq> ''n/a'') (Some (unwrap_or p ''n/a'')) = p" if "marker_option p" for p
    using that by (cases p) (simp_all add: marker_option_def)
  have "optional_ownership_value (marker_block m) ''Profile'' = om_profile_id m"
    "optional_ownership_value (marker_block m) ''Instance'' = om_instance_name m"
    using assms(1) unfolding optional_ownership_value_def block_values [OF assms(1)]
    by (intro opt, simp add: marker_ok_def)+
  then show ?thesis
    by (simp add: runtime_ownership_from_text_def block block_values [OF assms(1)])
qed

subsection \<open>Properties\<close>

text \<open>A marker written into a workpad, after any text without an opening angle bracket and
  before any text, is read back as it was written, and the workpad is recognised as the
  reader's own exactly when issue, profile, instance, workspace and branch agree; the actor's
  role and label are not compared. The values contain no line break or angle bracket, and do
  not begin or end with white space, a backtick, or end with a full stop.\<close>

theorem ownership_marker_recognised:
  assumes "marker_ok m" and "CHR ''<'' \<notin> set before"
  shows "runtime_ownership_from_text (before @ render_runtime_ownership_marker m @ after) = Some m \<and>
    (runtime_ownership_decision (Some (before @ render_runtime_ownership_marker m @ after)) expected = Matches \<longleftrightarrow>
       om_issue_ref m = om_issue_ref expected \<and> om_profile_id m = om_profile_id expected \<and>
       om_instance_name m = om_instance_name expected \<and> om_workspace_key m = om_workspace_key expected \<and>
       om_branch_name m = om_branch_name expected)"
proof -
  have "ownership_mismatch_reason m expected = None \<longleftrightarrow>
      om_profile_id m = om_profile_id expected \<and> om_instance_name m = om_instance_name expected \<and>
      om_workspace_key m = om_workspace_key expected \<and> om_branch_name m = om_branch_name expected"
    by (simp add: ownership_mismatch_reason_def differs_def)
  then show ?thesis
    by (simp add: runtime_ownership_decision_def read_marker [OF assms] split: option.split) auto
qed

definition example_marker :: RuntimeOwnershipMarker where
  "example_marker =
     \<lparr>om_issue_ref = ''#1'', om_actor_role = ''agent'', om_actor_label = ''Shea Agent'',
      om_profile_id = Some ''alpha'', om_instance_name = None, om_workspace_key = ''w-1'',
      om_branch_name = ''feature/x''\<rparr>"

theorem ownership_marker_recognised_witness:
  "runtime_ownership_from_text (''Intro: '' @ render_runtime_ownership_marker example_marker @ ''<p>'') =
     Some example_marker \<and>
   runtime_ownership_decision (Some (''Intro: '' @ render_runtime_ownership_marker example_marker @ ''<p>''))
     (example_marker\<lparr>om_actor_label := ''Other''\<rparr>) = Matches"
proof -
  have ok: "marker_ok example_marker" by code_simp
  have free: "CHR ''<'' \<notin> set ''Intro: ''" by simp
  from ownership_marker_recognised [OF ok free, of "''<p>''" "example_marker\<lparr>om_actor_label := ''Other''\<rparr>"]
  show ?thesis by simp
qed

end
