(* ===== verification/Merge_Lane.thy ===== *)
theory Merge_Lane
  imports Tracker_Recovery
begin

section \<open>The merge lane (\<^verbatim>\<open>src/merge_lane.rs\<close>)\<close>

text \<open>
  The preflight decision on a pull request, reading its status from \<^verbatim>\<open>gh\<close>, the merge command
  with its recovery, and the repair of a conflicting branch in a local worktree. The command
  runner is an argument: a function of the program, its arguments and the working directory on
  a state that stands for the repository and the services behind the commands. The JSON parser
  is an argument. Exit statuses are integers. Rendering the workpad is not modelled.
\<close>

record PullRequestCheckStatus =
  ck_name :: string
  ck_status :: "string option"
  ck_conclusion :: "string option"

record PullRequestMergeStatus =
  ps_number :: "nat option"
  ps_url :: string
  ps_state :: string
  ps_is_draft :: bool
  ps_merge_state_status :: "string option"
  ps_review_decision :: "string option"
  ps_base_ref_name :: "string option"
  ps_head_ref_name :: "string option"
  ps_checks :: "PullRequestCheckStatus list"

datatype MergeLaneDecisionKind =
    ReadyToMerge | AlreadyMerged | WrongIssueState | MissingPullRequest | AmbiguousPullRequest
  | PullRequestClosed | DraftPullRequest | BaseMismatch | ReviewNotApproved | ChecksPending
  | ChecksFailing | StaleBranch | MergeDirty | MergeabilityUnknown

definition is_merge_ready :: "MergeLaneDecisionKind \<Rightarrow> bool" where
  "is_merge_ready k \<longleftrightarrow> k = ReadyToMerge"

record MergeLaneDecision =
  md_kind :: MergeLaneDecisionKind
  md_issue_ref :: string
  md_pr_url :: "string option"
  md_target_state :: "string option"
  md_reason :: string

subsection \<open>The decision\<close>

definition to_ascii_uppercase :: "string \<Rightarrow> string" where
  "to_ascii_uppercase s = map (\<lambda>c. if 97 \<le> code c \<and> code c \<le> 122 then char_of (code c - 32) else c) s"

definition check_failing :: "PullRequestCheckStatus \<Rightarrow> bool" where
  "check_failing c \<longleftrightarrow>
     (case ck_conclusion c of
        None \<Rightarrow> False
      | Some k \<Rightarrow> to_ascii_uppercase k \<in> {''FAILURE'', ''TIMED_OUT'', ''ACTION_REQUIRED'', ''CANCELLED''})"

definition first_failing_check :: "PullRequestCheckStatus list \<Rightarrow> string option" where
  "first_failing_check checks = find_map (\<lambda>c. if check_failing c then Some (ck_name c) else None) checks"

definition check_pending :: "PullRequestCheckStatus \<Rightarrow> bool" where
  "check_pending c \<longleftrightarrow>
     (let status = to_ascii_uppercase (unwrap_or (ck_status c) []);
          conclusion = to_ascii_uppercase (unwrap_or (ck_conclusion c) []);
          completed = (status = [] \<or> status = ''COMPLETED'');
          passed = conclusion \<in> {[], ''SUCCESS'', ''NEUTRAL'', ''SKIPPED''}
      in \<not> completed \<or> \<not> passed)"

definition first_pending_check :: "PullRequestCheckStatus list \<Rightarrow> string option" where
  "first_pending_check checks = find_map (\<lambda>c. if check_pending c then Some (ck_name c) else None) checks"

definition blocking_review_decision :: "string option \<Rightarrow> (string \<times> string) option" where
  "blocking_review_decision review_decision =
     (let d = trim (unwrap_or review_decision []) in
      if d = [] \<or> eq_ignore_ascii_case d ''APPROVED'' then None
      else Some (if eq_ignore_ascii_case d ''CHANGES_REQUESTED'' then ''rework'' else ''need_human_input'',
                 ''pull request review decision is `'' @ d @ ''`''))"

definition merge_decision ::
    "MergeLaneDecisionKind \<Rightarrow> TrackerIssue \<Rightarrow> string option \<Rightarrow> string option \<Rightarrow> string \<Rightarrow> MergeLaneDecision" where
  "merge_decision kind issue url target reason =
     \<lparr>md_kind = kind, md_issue_ref = ti_identifier issue, md_pr_url = url, md_target_state = target,
      md_reason = reason\<rparr>"

text \<open>The part of the decision that looks at the merge state and the review.\<close>

definition mergeability_decision :: "TrackerIssue \<Rightarrow> PullRequestMergeStatus \<Rightarrow> MergeLaneDecision" where
  "mergeability_decision issue s =
     (let decide = (\<lambda>kind target reason. merge_decision kind issue (Some (ps_url s)) target reason) in
      case ps_merge_state_status s of
        None \<Rightarrow> decide MergeabilityUnknown None
          ''pull request merge state is missing after recheck; retry merge preflight later''
      | Some m \<Rightarrow>
          if m = ''BEHIND'' then decide StaleBranch None
            ''pull request is behind the base branch; merge lane should safely update the PR branch and retry later''
          else if m = ''DIRTY'' then decide MergeDirty None
            (''pull request merge state is `'' @ m @ ''`; merge lane should attempt safe local conflict repair before operator escalation'')
          else if m = ''CLEAN'' \<or> m = ''HAS_HOOKS'' then
            (case blocking_review_decision (ps_review_decision s) of
               Some (target, reason) \<Rightarrow> decide ReviewNotApproved (Some target) reason
             | None \<Rightarrow> decide ReadyToMerge (Some ''done'')
                 ''pull request passed merge preflight with Project Merging approval'')
          else if m = ''UNKNOWN'' then decide MergeabilityUnknown None
            ''pull request merge state is `UNKNOWN` after recheck; retry merge preflight later''
          else decide MergeabilityUnknown (Some ''need_human_input'')
            (''pull request merge state is `'' @ m @ ''` and needs operator classification''))"

definition status_decision ::
    "TrackerIssue \<Rightarrow> string \<Rightarrow> PullRequestMergeStatus \<Rightarrow> MergeLaneDecision" where
  "status_decision issue expected_base_branch s =
     (let decide = (\<lambda>kind target reason. merge_decision kind issue (Some (ps_url s)) target reason) in
      if normalize_state (ps_state s) = ''merged''
      then decide AlreadyMerged (Some ''done'') ''pull request is already merged''
      else if normalize_state (ps_state s) \<noteq> ''open''
      then decide PullRequestClosed (Some ''need_human_input'') (''pull request state is `'' @ ps_state s @ ''`'')
      else if ps_is_draft s
      then decide DraftPullRequest (Some ''need_human_input'') ''pull request is still draft''
      else if (case ps_base_ref_name s of Some base \<Rightarrow> base \<noteq> expected_base_branch | None \<Rightarrow> False)
      then decide BaseMismatch (Some ''need_human_input'')
        (''pull request base is `'' @ unwrap_or (ps_base_ref_name s) [] @ ''`, expected `'' @
         expected_base_branch @ ''`'')
      else case first_failing_check (ps_checks s) of
        Some failing \<Rightarrow> decide ChecksFailing (Some ''need_human_input'')
          (''check `'' @ failing @ ''` is failing; merge lane needs operator classification before repair'')
      | None \<Rightarrow>
          (case first_pending_check (ps_checks s) of
             Some pending \<Rightarrow> decide ChecksPending None
               (''check `'' @ pending @ ''` is still pending; retry merge preflight later'')
           | None \<Rightarrow> mergeability_decision issue s))"

definition merge_lane_decision ::
    "TrackerIssue \<Rightarrow> string \<Rightarrow> string \<Rightarrow> LinkedPullRequest list \<Rightarrow> PullRequestMergeStatus option \<Rightarrow>
     MergeLaneDecision" where
  "merge_lane_decision issue expected_merging_state expected_base_branch linked status =
     (if normalize_state (ti_state issue) \<noteq> normalize_state expected_merging_state
      then merge_decision WrongIssueState issue None None
        (''issue is in `'' @ ti_state issue @ ''`, but merge lane only handles `'' @
         expected_merging_state @ ''`'')
      else case linked of
        [] \<Rightarrow> merge_decision MissingPullRequest issue None (Some ''need_human_input'')
                ''no linked pull request evidence was found''
      | [pr] \<Rightarrow>
          (case status of
             None \<Rightarrow> merge_decision MergeabilityUnknown issue (pr_url pr) (Some ''need_human_input'')
                ''live pull request preflight did not produce mergeability evidence''
           | Some s \<Rightarrow> status_decision issue expected_base_branch s)
      | _ \<Rightarrow> merge_decision AmbiguousPullRequest issue None (Some ''need_human_input'')
                ''multiple linked pull requests were found; operator must choose one'')"

subsection \<open>Linked pull requests\<close>

definition github_pull_request_repo :: "string \<Rightarrow> (string \<times> string) option" where
  "github_pull_request_repo url =
     Option.bind (or_else (strip_prefix ''https://github.com/'' url) (strip_prefix ''http://github.com/'' url))
       (\<lambda>suffix. case split_on (CHR ''/'') suffix of
          own # repo # kind # rest \<Rightarrow> (if kind = ''pull'' then Some (own, repo) else None)
        | _ \<Rightarrow> None)"

definition linked_pull_request_matches_native_repo ::
    "LinkedPullRequest \<Rightarrow> bool \<Rightarrow> string option \<Rightarrow> string option \<Rightarrow> bool" where
  "linked_pull_request_matches_native_repo pr require_native_id own repo \<longleftrightarrow>
     (if require_native_id \<and> \<not> is_github_native_linkage pr then False
      else case Option.bind (pr_url pr) github_pull_request_repo of
        None \<Rightarrow> True
      | Some (url_owner, url_repo) \<Rightarrow>
          (case (own, repo) of
             (Some ow, Some r) \<Rightarrow> eq_ignore_ascii_case url_owner ow \<and> eq_ignore_ascii_case url_repo r
           | _ \<Rightarrow> True))"

definition native_linked_pull_requests_for_merge ::
    "RuntimeConfig \<Rightarrow> LinkedPullRequest list \<Rightarrow> LinkedPullRequest list" where
  "native_linked_pull_requests_for_merge config linked =
     filter (\<lambda>pr. linked_pull_request_matches_native_repo pr
               (tc_kind (rc_tracker config) = ''github_project_v2'')
               (tc_owner (rc_tracker config)) (tc_repo (rc_tracker config))) linked"

definition pull_request_status_from_linked :: "LinkedPullRequest \<Rightarrow> PullRequestMergeStatus option" where
  "pull_request_status_from_linked pr =
     map_option (\<lambda>url.
       \<lparr>ps_number = map_option unat (pr_number pr), ps_url = url, ps_state = unwrap_or (pr_state pr) ''OPEN'',
        ps_is_draft = unwrap_or (pr_is_draft pr) False, ps_merge_state_status = pr_merge_state_status pr,
        ps_review_decision = pr_review_decision pr, ps_base_ref_name = pr_base_ref_name pr,
        ps_head_ref_name = pr_head_ref_name pr, ps_checks = []\<rparr>) (pr_url pr)"

subsection \<open>Commands\<close>

record CommandOutput =
  co_status :: int
  co_stdout :: string
  co_stderr :: string

datatype GitHandoffError =
    Io string
  | CommandFailed string int string string
  | WorktreeBranchMismatch string string string
  | MissingPullRequestUrl
  | InvalidPullRequestViewPayload string
  | InvalidPullRequestReadyPayload string
  | DirtyWorktree string string
  | NoCommitsAhead string string
  | InvalidAheadCount string

fun git_handoff_error_display :: "GitHandoffError \<Rightarrow> string" where
  "git_handoff_error_display (GitHandoffError.Io e) = ''git handoff io error: '' @ e"
| "git_handoff_error_display (CommandFailed program status stdout stderr) =
     program @ '' failed with status '' @ show_int status @ '': stdout='' @ stdout @ '' stderr='' @ stderr"
| "git_handoff_error_display (WorktreeBranchMismatch path expected current) =
     ''existing worktree '' @ path @ '' is on branch '' @ current @ '', expected '' @ expected"
| "git_handoff_error_display MissingPullRequestUrl = ''pull request command did not return a URL''"
| "git_handoff_error_display (InvalidPullRequestViewPayload e) =
     ''pull request view command returned invalid JSON: '' @ e"
| "git_handoff_error_display (InvalidPullRequestReadyPayload e) =
     ''pull request ready command returned invalid JSON: '' @ e"
| "git_handoff_error_display (DirtyWorktree path status) =
     ''worktree '' @ path @ '' has uncommitted changes before PR handoff: '' @ status"
| "git_handoff_error_display (NoCommitsAhead branch base) =
     ''branch '' @ branch @ '' has no commits ahead of base '' @ base @ '' before PR handoff''"
| "git_handoff_error_display (InvalidAheadCount v) = ''git rev-list returned an invalid ahead count: '' @ v"

datatype MergeLaneError =
    Git GitHandoffError
  | Payload string

fun merge_lane_error_display :: "MergeLaneError \<Rightarrow> string" where
  "merge_lane_error_display (Git e) = ''merge lane command failed: '' @ git_handoff_error_display e"
| "merge_lane_error_display (MergeLaneError.Payload m) = ''merge lane payload failed: '' @ m"

type_synonym 'g runner = "string \<Rightarrow> string list \<Rightarrow> string \<Rightarrow> 'g \<Rightarrow> (GitHandoffError, CommandOutput) result \<times> 'g"

text \<open>Sequencing: \<open>run\<close> is a command with its error converted, \<open>bind_run\<close> the \<^verbatim>\<open>?\<close> operator.\<close>

definition run :: "'g runner \<Rightarrow> string \<Rightarrow> string list \<Rightarrow> string \<Rightarrow> 'g \<Rightarrow> (MergeLaneError, CommandOutput) result \<times> 'g" where
  "run R program args cwd g =
     (case R program args cwd g of (Inl e, g') \<Rightarrow> (Inl (Git e), g') | (Inr out, g') \<Rightarrow> (Inr out, g'))"

definition bind_run ::
    "(MergeLaneError, 'a) result \<times> 'g \<Rightarrow> ('a \<Rightarrow> 'g \<Rightarrow> (MergeLaneError, 'b) result \<times> 'g) \<Rightarrow>
     (MergeLaneError, 'b) result \<times> 'g" where
  "bind_run r f = (case r of (Inl e, g) \<Rightarrow> (Inl e, g) | (Inr a, g) \<Rightarrow> f a g)"

definition require_success :: "string \<Rightarrow> CommandOutput \<Rightarrow> (MergeLaneError, unit) result" where
  "require_success program out =
     (if co_status out = 0 then Inr ()
      else Inl (Git (CommandFailed program (co_status out) (co_stdout out) (co_stderr out))))"

definition run_ok :: "'g runner \<Rightarrow> string \<Rightarrow> string list \<Rightarrow> string \<Rightarrow> 'g \<Rightarrow> (MergeLaneError, CommandOutput) result \<times> 'g" where
  "run_ok R program args cwd g =
     bind_run (run R program args cwd g) (\<lambda>out g'.
       case require_success program out of Inl e \<Rightarrow> (Inl e, g') | Inr _ \<Rightarrow> (Inr out, g'))"

definition optional_string :: "json option \<Rightarrow> string option" where
  "optional_string v = Option.bind v as_str"

definition check_from_json :: "json \<Rightarrow> PullRequestCheckStatus" where
  "check_from_json item =
     \<lparr>ck_name = unwrap_or (Option.bind (or_else (json_get item ''name'') (json_get item ''context'')) as_str) ''unnamed'',
      ck_status = optional_string (json_get item ''status''),
      ck_conclusion = optional_string (json_get item ''conclusion'')\<rparr>"

definition checks_from_json :: "json option \<Rightarrow> PullRequestCheckStatus list" where
  "checks_from_json v = map check_from_json (unwrap_or (Option.bind v as_array) [])"

definition pull_request_status_from_json :: "json \<Rightarrow> (MergeLaneError, PullRequestMergeStatus) result" where
  "pull_request_status_from_json v =
     (case Option.bind (json_get v ''url'') as_str of
        None \<Rightarrow> Inl (MergeLaneError.Payload ''PR payload missing url'')
      | Some url \<Rightarrow> Inr
          \<lparr>ps_number = Option.bind (json_get v ''number'') as_u64, ps_url = url,
           ps_state = unwrap_or (Option.bind (json_get v ''state'') as_str) ''UNKNOWN'',
           ps_is_draft = unwrap_or (Option.bind (json_get v ''isDraft'') as_bool) False,
           ps_merge_state_status = optional_string (json_get v ''mergeStateStatus''),
           ps_review_decision = optional_string (json_get v ''reviewDecision''),
           ps_base_ref_name = optional_string (json_get v ''baseRefName''),
           ps_head_ref_name = optional_string (json_get v ''headRefName''),
           ps_checks = checks_from_json (json_get v ''statusCheckRollup'')\<rparr>)"

definition fetch_pull_request_status ::
    "(string \<Rightarrow> (string, json) result) \<Rightarrow> 'g runner \<Rightarrow> string \<Rightarrow> string \<Rightarrow> 'g \<Rightarrow>
     (MergeLaneError, PullRequestMergeStatus) result \<times> 'g" where
  "fetch_pull_request_status parse_json R cwd pr_ref g =
     bind_run (run_ok R ''gh''
        [''pr'', ''view'', pr_ref, ''--json'',
         ''number,url,state,isDraft,mergeStateStatus,reviewDecision,baseRefName,headRefName,statusCheckRollup''] cwd g)
       (\<lambda>out g'. case parse_json (co_stdout out) of
          Inl e \<Rightarrow> (Inl (MergeLaneError.Payload (''invalid gh PR JSON: '' @ e)), g')
        | Inr v \<Rightarrow> (pull_request_status_from_json v, g'))"

definition mergeability_needs_recheck :: "PullRequestMergeStatus \<Rightarrow> bool" where
  "mergeability_needs_recheck s \<longleftrightarrow>
     (case ps_merge_state_status s of None \<Rightarrow> True | Some m \<Rightarrow> eq_ignore_ascii_case m ''UNKNOWN'')"

primrec recheck ::
    "(string \<Rightarrow> (string, json) result) \<Rightarrow> 'g runner \<Rightarrow> string \<Rightarrow> string \<Rightarrow> nat \<Rightarrow> PullRequestMergeStatus \<Rightarrow> 'g \<Rightarrow>
     (MergeLaneError, PullRequestMergeStatus) result \<times> 'g" where
  "recheck parse_json R cwd pr_ref 0 s g = (Inr s, g)"
| "recheck parse_json R cwd pr_ref (Suc n) s g =
     (if \<not> mergeability_needs_recheck s then (Inr s, g)
      else bind_run (fetch_pull_request_status parse_json R cwd pr_ref g) (recheck parse_json R cwd pr_ref n))"

definition fetch_pull_request_status_with_recheck ::
    "(string \<Rightarrow> (string, json) result) \<Rightarrow> 'g runner \<Rightarrow> string \<Rightarrow> string \<Rightarrow> nat \<Rightarrow> 'g \<Rightarrow>
     (MergeLaneError, PullRequestMergeStatus) result \<times> 'g" where
  "fetch_pull_request_status_with_recheck parse_json R cwd pr_ref attempts g =
     bind_run (fetch_pull_request_status parse_json R cwd pr_ref g)
       (recheck parse_json R cwd pr_ref (max attempts 1 - 1))"

definition merge_pull_request ::
    "'g runner \<Rightarrow> string \<Rightarrow> string \<Rightarrow> 'g \<Rightarrow> (MergeLaneError, CommandOutput) result \<times> 'g" where
  "merge_pull_request R cwd pr_ref g = run_ok R ''gh'' [''pr'', ''merge'', pr_ref, ''--merge''] cwd g"

definition update_pull_request_branch ::
    "'g runner \<Rightarrow> string \<Rightarrow> string \<Rightarrow> 'g \<Rightarrow> (MergeLaneError, CommandOutput) result \<times> 'g" where
  "update_pull_request_branch R cwd pr_ref g = run R ''gh'' [''pr'', ''update-branch'', pr_ref] cwd g"

definition merge_pull_request_with_recovery ::
    "(string \<Rightarrow> (string, json) result) \<Rightarrow> 'g runner \<Rightarrow> string \<Rightarrow> string \<Rightarrow> 'g \<Rightarrow>
     (string, CommandOutput \<times> TrackerMutationOutcome) result \<times> 'g" where
  "merge_pull_request_with_recovery parse_json R cwd pr_ref g =
     (case merge_pull_request R cwd pr_ref g of
        (Inr out, g') \<Rightarrow> (Inr (out, Applied), g')
      | (Inl err, g') \<Rightarrow>
          (let text = merge_lane_error_display err; kind = classify_project_state_failure_message text in
           if \<not> recoverable_project_state_failure kind then (Inl text, g')
           else case fetch_pull_request_status_with_recheck parse_json R cwd pr_ref 2 g' of
             (Inr s, g'') \<Rightarrow>
               (if normalize_state (ps_state s) = ''merged''
                then (Inr (\<lparr>co_status = 0,
                        co_stdout = ''merge command failed after possible server-side success; readback shows PR merged: '' @ pr_ref,
                        co_stderr = text\<rparr>, Recovered), g'')
                else (Inl (''recoverable_tracker_mutation_uncertain mutation_type=pr_merge pr='' @ pr_ref @
                        '' failure_kind='' @ failure_kind_as_str kind @ '' readback_state='' @ ps_state s @
                        '' next='' @ tracker_recovery_next_action kind @ '' error='' @ text), g''))
           | (Inl readback, g'') \<Rightarrow>
               (Inl (''recoverable_tracker_mutation_readback_failed mutation_type=pr_merge pr='' @ pr_ref @
                     '' failure_kind='' @ failure_kind_as_str kind @
                     '' next='' @ tracker_recovery_next_action kind @ '' error='' @ text @
                     '' readback_error='' @ merge_lane_error_display readback), g'')))"

subsection \<open>Repairing a conflicting branch\<close>

datatype MergeConflictRepairFailureKind =
    MissingHeadBranch | MissingWorktree | DirtyWorktree | ContentConflict | PostMergeDirty | PushFailed

record MergeConflictRepairOutcome =
  ro_repaired :: bool
  ro_worktree_path :: "string option"
  ro_output :: CommandOutput
  ro_reason :: string
  ro_failure_kind :: "MergeConflictRepairFailureKind option"

definition is_agent_repair_eligible :: "MergeConflictRepairOutcome \<Rightarrow> bool" where
  "is_agent_repair_eligible r \<longleftrightarrow>
     \<not> ro_repaired r \<and> ro_failure_kind r = Some ContentConflict \<and> ro_worktree_path r \<noteq> None"

fun worktree_scan :: "string \<Rightarrow> string option \<Rightarrow> string list \<Rightarrow> string option" where
  "worktree_scan expected current [] = None"
| "worktree_scan expected current (line # ls) =
     (case strip_prefix ''worktree '' line of
        Some path \<Rightarrow> worktree_scan expected (Some path) ls
      | None \<Rightarrow>
          (case strip_prefix ''branch '' line of
             Some branch \<Rightarrow> (if branch = expected then current else worktree_scan expected current ls)
           | None \<Rightarrow> worktree_scan expected (if blank line then None else current) ls))"

definition parse_worktree_for_branch :: "string \<Rightarrow> string \<Rightarrow> string option" where
  "parse_worktree_for_branch output branch_name =
     worktree_scan (''refs/heads/'' @ branch_name) None (lines output)"

definition find_worktree_for_branch ::
    "'g runner \<Rightarrow> string \<Rightarrow> string \<Rightarrow> 'g \<Rightarrow> (MergeLaneError, string option) result \<times> 'g" where
  "find_worktree_for_branch R cwd branch_name g =
     bind_run (run_ok R ''git'' [''worktree'', ''list'', ''--porcelain''] cwd g)
       (\<lambda>out g'. (Inr (parse_worktree_for_branch (co_stdout out) branch_name), g'))"

definition abort_interrupted_merge_repair ::
    "'g runner \<Rightarrow> string \<Rightarrow> 'g \<Rightarrow> (MergeLaneError, bool) result \<times> 'g" where
  "abort_interrupted_merge_repair R path g =
     bind_run (run R ''git'' [''rev-parse'', ''-q'', ''--verify'', ''MERGE_HEAD''] path g) (\<lambda>merge_head g1.
     bind_run (run R ''git'' [''diff'', ''--name-only'', ''--diff-filter=U''] path g1) (\<lambda>unmerged g2.
       if \<not> (co_status merge_head = 0 \<or> \<not> blank (co_stdout unmerged)) then (Inr False, g2)
       else bind_run (run_ok R ''git'' [''merge'', ''--abort''] path g2) (\<lambda>_ g3. (Inr True, g3))))"

definition repair_outcome ::
    "bool \<Rightarrow> string option \<Rightarrow> CommandOutput \<Rightarrow> string \<Rightarrow> MergeConflictRepairFailureKind option \<Rightarrow>
     MergeConflictRepairOutcome" where
  "repair_outcome repaired path out reason failure =
     \<lparr>ro_repaired = repaired, ro_worktree_path = path, ro_output = out, ro_reason = reason,
      ro_failure_kind = failure\<rparr>"

text \<open>Merging the base branch into a clean worktree and pushing the result.\<close>

definition merge_and_push ::
    "'g runner \<Rightarrow> string \<Rightarrow> string \<Rightarrow> string \<Rightarrow> 'g \<Rightarrow> (MergeLaneError, MergeConflictRepairOutcome) result \<times> 'g" where
  "merge_and_push R head base path g =
     (let fetch_ref = ''origin/'' @ base in
      bind_run (run_ok R ''git'' [''fetch'', ''origin'', base] path g) (\<lambda>_ g1.
      bind_run (run R ''git'' [''merge'', ''--no-edit'', fetch_ref] path g1) (\<lambda>merge g2.
        if co_status merge \<noteq> 0 then
          (Inr (repair_outcome False (Some path) merge
             (''safe merge-lane repair could not merge `'' @ fetch_ref @ ''` into `'' @ head @
              ''` without manual conflict resolution'') (Some ContentConflict)),
           snd (run R ''git'' [''merge'', ''--abort''] path g2))
        else
          bind_run (run_ok R ''git'' [''status'', ''--porcelain''] path g2) (\<lambda>post g3.
            if \<not> blank (co_stdout post) then
              (Inr (repair_outcome False (Some path) post
                 ''merge-lane repair left uncommitted changes in the PR worktree'' (Some PostMergeDirty)), g3)
            else
              bind_run (run R ''git'' [''push'', ''origin'', head] path g3) (\<lambda>push g4.
                if co_status push \<noteq> 0 then
                  (Inr (repair_outcome False (Some path) push
                     ''merge-lane repair succeeded locally, but pushing the repaired PR branch failed''
                     (Some PushFailed)), g4)
                else
                  (Inr (repair_outcome True (Some path) push
                     (''safe merge-lane repair merged `'' @ fetch_ref @ ''` into `'' @ head @
                      ''` and pushed the existing PR branch'') None), g4))))))"

text \<open>One attempt; \<^term>\<open>None\<close> is the recursive call after an interrupted merge was aborted.\<close>

definition repair_attempt ::
    "'g runner \<Rightarrow> string \<Rightarrow> string \<Rightarrow> string \<Rightarrow> 'g \<Rightarrow>
     (MergeLaneError, MergeConflictRepairOutcome option) result \<times> 'g" where
  "repair_attempt R cwd head base g =
     bind_run (find_worktree_for_branch R cwd head g) (\<lambda>found g1.
       case found of
         None \<Rightarrow>
           (Inr (Some (repair_outcome False None
              \<lparr>co_status = 1, co_stdout = [], co_stderr = ''no local worktree found for branch `'' @ head @ ''`''\<rparr>
              (''no local worktree is available for PR branch `'' @ head @
               ''`; operator must adopt or create the existing PR worktree before merge-lane repair'')
              (Some MissingWorktree))), g1)
       | Some path \<Rightarrow>
           bind_run (run_ok R ''git'' [''status'', ''--porcelain''] path g1) (\<lambda>status g2.
             if blank (co_stdout status) then
               bind_run (merge_and_push R head base path g2) (\<lambda>r g3. (Inr (Some r), g3))
             else
               let dirty = repair_outcome False (Some path) status
                     ''PR worktree is dirty before merge-lane repair'' (Some DirtyWorktree) in
               bind_run (abort_interrupted_merge_repair R path g2) (\<lambda>aborted g3.
                 if \<not> aborted then (Inr (Some dirty), g3)
                 else
                   bind_run (run_ok R ''git'' [''status'', ''--porcelain''] path g3) (\<lambda>recovered g4.
                     if blank (co_stdout recovered) then (Inr None, g4)
                     else (Inr (Some dirty), g4)))))"

partial_function (option) repair_loop ::
    "('g \<Rightarrow> (MergeLaneError, MergeConflictRepairOutcome option) result \<times> 'g) \<Rightarrow> 'g \<Rightarrow>
     ((MergeLaneError, MergeConflictRepairOutcome) result \<times> 'g) option" where
  "repair_loop attempt g =
     (case attempt g of
        (r, g') \<Rightarrow>
          (case r of
             Inl e \<Rightarrow> Some (Inl e, g')
           | Inr q \<Rightarrow> (case q of Some out \<Rightarrow> Some (Inr out, g') | None \<Rightarrow> repair_loop attempt g')))"

definition repair_dirty_pull_request ::
    "'g runner \<Rightarrow> string \<Rightarrow> string \<Rightarrow> string option \<Rightarrow> string \<Rightarrow> bool \<Rightarrow> 'g \<Rightarrow>
     ((MergeLaneError, MergeConflictRepairOutcome) result \<times> 'g) option" where
  "repair_dirty_pull_request R cwd pr_ref head_ref_name base fixture_mode g =
     (if fixture_mode then
        Some (Inr (repair_outcome True None
          \<lparr>co_status = 0,
           co_stdout = ''fixture conflict repair rehearsed for '' @ pr_ref @ ''; no live branch was changed'',
           co_stderr = []\<rparr>
          ''fixture-mode safe conflict repair rehearsal completed'' None), g)
      else case filter_option (\<lambda>h. \<not> blank h) head_ref_name of
        None \<Rightarrow>
          Some (Inr (repair_outcome False None
            \<lparr>co_status = 1, co_stdout = [],
             co_stderr = ''pull request head branch is missing from preflight metadata''\<rparr>
            ''cannot attempt safe conflict repair without a PR head branch'' (Some MissingHeadBranch)), g)
      | Some head \<Rightarrow> repair_loop (repair_attempt R cwd head base) g)"

definition fixture_merge_output :: "string \<Rightarrow> CommandOutput" where
  "fixture_merge_output pr_ref =
     \<lparr>co_status = 0,
      co_stdout = ''fixture merge rehearsed for '' @ pr_ref @ ''; no live GitHub merge was performed'',
      co_stderr = []\<rparr>"

subsection \<open>Evidence\<close>

definition merge_claim :: "TrackerIssue \<Rightarrow> LaneClaim option" where
  "merge_claim issue =
     Option.bind (Option.bind (or_else (ti_project_fields issue ''Merging Agent'')
                                 (ti_project_fields issue ''Merge Agent'')) as_str)
       (\<lambda>v. case claim_parse v of Inr c \<Rightarrow> Some c | Inl _ \<Rightarrow> None)"

definition merge_actor :: "TrackerIssue \<Rightarrow> string" where
  "merge_actor issue = unwrap_or (map_option (\<lambda>c. actor_as_str (cl_actor c)) (merge_claim issue)) ''not recorded''"

definition merge_run_id :: "TrackerIssue \<Rightarrow> string" where
  "merge_run_id issue = unwrap_or (map_option cl_run (merge_claim issue)) ''not recorded''"

definition merge_result :: "MergeLaneDecision \<Rightarrow> string" where
  "merge_result d =
     (case md_kind d of
        ReadyToMerge \<Rightarrow> ''merged_or_done'' | AlreadyMerged \<Rightarrow> ''merged_or_done''
      | StaleBranch \<Rightarrow> ''stale_branch_update'' | MergeDirty \<Rightarrow> ''repair_or_blocked''
      | ChecksPending \<Rightarrow> ''skipped'' | _ \<Rightarrow> ''blocked'')"

definition required_human_input_question :: "MergeLaneDecisionKind \<Rightarrow> string" where
  "required_human_input_question k =
     (case k of
        MissingPullRequest \<Rightarrow> ''Which pull request should this Merging issue land?''
      | AmbiguousPullRequest \<Rightarrow> ''Which of the linked pull requests is the canonical merge target?''
      | PullRequestClosed \<Rightarrow> ''Should the closed pull request be reopened, replaced, or should the issue leave Merging?''
      | DraftPullRequest \<Rightarrow> ''Should the draft pull request be marked ready, or should this issue leave Merging until the author finishes handoff?''
      | BaseMismatch \<Rightarrow> ''Should the pull request base branch be changed, or is this issue targeting a different release branch?''
      | ReviewNotApproved \<Rightarrow> ''Should the review decision block merge, or should the issue move back to Rework for follow-up?''
      | ChecksFailing \<Rightarrow> ''Are the failing checks caused by a merge-lane-only problem that may be repaired here, or does implementation need human-directed follow-up?''
      | MergeDirty \<Rightarrow> ''Is this conflict safe merge-lane repair, or does it require human input before changing the PR branch?''
      | MergeabilityUnknown \<Rightarrow> ''How should this non-standard mergeability state be classified for the merge lane?''
      | _ \<Rightarrow> ''What human decision is required before the merge lane can continue?'')"

definition required_human_input_section :: "MergeLaneDecision \<Rightarrow> string list" where
  "required_human_input_section d =
     [[], ''### Required Human Input'', ''- Question: '' @ required_human_input_question (md_kind d),
      ''- Options: update PR metadata, choose the canonical PR, move the issue out of Merging, or document the required repair.'',
      ''- After answer: rerun `shea-symphony merge once` so the merge lane can re-evaluate with concrete evidence.'']"

definition MERGE_WORKPAD_FIELD_LIMIT :: nat where
  "MERGE_WORKPAD_FIELD_LIMIT = 2000"

definition compact_merge_workpad_field :: "string \<Rightarrow> string" where
  "compact_merge_workpad_field v =
     (let compact = single_line v; truncated = take MERGE_WORKPAD_FIELD_LIMIT compact in
      if utf8_len truncated < utf8_len compact
      then truncated @ ''... [truncated; original_chars='' @ show_nat (length compact) @ '']''
      else compact)"

fun kind_debug :: "MergeLaneDecisionKind \<Rightarrow> string" where
  "kind_debug ReadyToMerge = ''ReadyToMerge''"
| "kind_debug AlreadyMerged = ''AlreadyMerged''"
| "kind_debug WrongIssueState = ''WrongIssueState''"
| "kind_debug MissingPullRequest = ''MissingPullRequest''"
| "kind_debug AmbiguousPullRequest = ''AmbiguousPullRequest''"
| "kind_debug PullRequestClosed = ''PullRequestClosed''"
| "kind_debug DraftPullRequest = ''DraftPullRequest''"
| "kind_debug BaseMismatch = ''BaseMismatch''"
| "kind_debug ReviewNotApproved = ''ReviewNotApproved''"
| "kind_debug ChecksPending = ''ChecksPending''"
| "kind_debug ChecksFailing = ''ChecksFailing''"
| "kind_debug StaleBranch = ''StaleBranch''"
| "kind_debug MergeDirty = ''MergeDirty''"
| "kind_debug MergeabilityUnknown = ''MergeabilityUnknown''"

definition merge_decision_recovery_key :: "TrackerIssue \<Rightarrow> MergeLaneDecision \<Rightarrow> string" where
  "merge_decision_recovery_key issue d =
     recovery_key ''merge-decision'' (ti_identifier issue)
       (ti_identifier issue @ ''|'' @ kind_debug (md_kind d) @ ''|'' @ unwrap_or (md_pr_url d) ''missing'' @
        ''|'' @ unwrap_or (md_target_state d) ''none'')"

subsection \<open>Facts: the decision\<close>

lemma find_map_check_None:
  "find_map (\<lambda>c. if p c then Some (f c) else None) cs = None \<longleftrightarrow> (\<forall>c \<in> set cs. \<not> p c)"
  by (induction cs) auto

lemma first_check_None:
  "first_failing_check cs = None \<longleftrightarrow> (\<forall>c \<in> set cs. \<not> check_failing c)"
  "first_pending_check cs = None \<longleftrightarrow> (\<forall>c \<in> set cs. \<not> check_pending c)"
  by (simp_all add: first_failing_check_def first_pending_check_def find_map_check_None)

text \<open>A check that the preflight counts as passed: finished and with a good conclusion, or
  without any status at all.\<close>

definition check_passed :: "PullRequestCheckStatus \<Rightarrow> bool" where
  "check_passed c \<longleftrightarrow>
     to_ascii_uppercase (unwrap_or (ck_status c) []) \<in> {[], ''COMPLETED''} \<and>
     to_ascii_uppercase (unwrap_or (ck_conclusion c) []) \<in> {[], ''SUCCESS'', ''NEUTRAL'', ''SKIPPED''}"

lemma not_pending_iff: "\<not> check_pending c \<longleftrightarrow> check_passed c"
  unfolding check_pending_def check_passed_def Let_def insert_iff empty_iff by argo

lemma passed_not_failing: "check_passed c \<Longrightarrow> \<not> check_failing c"
  by (cases "ck_conclusion c") (auto simp: check_passed_def check_failing_def)

definition review_permits :: "string option \<Rightarrow> bool" where
  "review_permits d \<longleftrightarrow> blank (unwrap_or d []) \<or> eq_ignore_ascii_case (trim (unwrap_or d [])) ''APPROVED''"

lemma blocking_review_None: "blocking_review_decision d = None \<longleftrightarrow> review_permits d"
  by (simp add: blocking_review_decision_def review_permits_def Let_def)

lemma md_simps [simp]:
  "md_kind (merge_decision k i u t r) = k" "md_target_state (merge_decision k i u t r) = t"
  by (simp_all add: merge_decision_def)

lemma mergeability_ready:
  "md_kind (mergeability_decision issue s) = ReadyToMerge \<longleftrightarrow>
     ps_merge_state_status s \<in> {Some ''CLEAN'', Some ''HAS_HOOKS''} \<and> review_permits (ps_review_decision s)"
  using blocking_review_None [of "ps_review_decision s"]
  by (auto simp: mergeability_decision_def Let_def split: option.splits)

lemma mergeability_not_merged: "md_kind (mergeability_decision issue s) \<noteq> AlreadyMerged"
  by (auto simp: mergeability_decision_def Let_def split: option.splits)

lemma blocking_targets: "blocking_review_decision d = Some (t, r) \<Longrightarrow> t = ''rework'' \<or> t = ''need_human_input''"
  by (auto simp: blocking_review_decision_def Let_def split: if_splits)

lemma mergeability_done:
  "md_target_state (mergeability_decision issue s) = Some ''done'' \<longleftrightarrow>
     md_kind (mergeability_decision issue s) = ReadyToMerge"
  by (auto simp: mergeability_decision_def Let_def dest: blocking_targets split: option.splits)

lemma status_ready:
  "md_kind (status_decision issue base s) = ReadyToMerge \<longleftrightarrow>
     normalize_state (ps_state s) = ''open'' \<and> \<not> ps_is_draft s \<and>
     (ps_base_ref_name s = None \<or> ps_base_ref_name s = Some base) \<and>
     (\<forall>c \<in> set (ps_checks s). check_passed c) \<and>
     ps_merge_state_status s \<in> {Some ''CLEAN'', Some ''HAS_HOOKS''} \<and> review_permits (ps_review_decision s)"
proof -
  have "(\<forall>c \<in> set (ps_checks s). check_passed c) \<longleftrightarrow>
      first_failing_check (ps_checks s) = None \<and> first_pending_check (ps_checks s) = None"
    unfolding first_check_None not_pending_iff using passed_not_failing by blast
  then show ?thesis
    by (cases "first_failing_check (ps_checks s)"; cases "first_pending_check (ps_checks s)")
      (auto simp: status_decision_def Let_def mergeability_ready split: option.splits)
qed

lemma status_done:
  "md_target_state (status_decision issue base s) = Some ''done'' \<longleftrightarrow>
     md_kind (status_decision issue base s) \<in> {ReadyToMerge, AlreadyMerged}"
  using mergeability_done mergeability_not_merged
  by (auto simp: status_decision_def Let_def split: option.splits)

subsection \<open>Facts: commands\<close>

lemma bind_run_Inr: "bind_run r f = (Inr b, g) \<longleftrightarrow> (\<exists>a g'. r = (Inr a, g') \<and> f a g' = (Inr b, g))"
  by (cases r; cases "fst r") (auto simp: bind_run_def)

lemma run_ok_Inr:
  "run_ok R p args cwd g = (Inr out, g') \<longleftrightarrow> R p args cwd g = (Inr out, g') \<and> co_status out = 0"
  by (cases "R p args cwd g"; cases "fst (R p args cwd g)")
    (auto simp: run_ok_def run_def bind_run_def require_success_def)

text \<open>A runner that keeps the commands it has run and their results.\<close>

datatype event = Event string "string list" string "(GitHandoffError, CommandOutput) result"

definition logged :: "'g runner \<Rightarrow> ('g \<times> event list) runner" where
  "logged R program args cwd = (\<lambda>(g, es).
     case R program args cwd g of (r, g') \<Rightarrow> (r, (g', es @ [Event program args cwd r])))"

fun is_push :: "event \<Rightarrow> bool" where
  "is_push (Event program args cwd r) \<longleftrightarrow> program = ''git'' \<and> args \<noteq> [] \<and> hd args = ''push''"

fun merged_cleanly :: "string \<Rightarrow> event option \<Rightarrow> event option \<Rightarrow> event \<Rightarrow> bool" where
  "merged_cleanly base (Some (Event p1 a1 c1 r1)) (Some (Event p2 a2 c2 r2)) (Event p a c r) \<longleftrightarrow>
     p1 = ''git'' \<and> a1 = [''merge'', ''--no-edit'', ''origin/'' @ base] \<and> c1 = c \<and>
     (\<exists>out. r1 = Inr out \<and> co_status out = 0) \<and>
     p2 = ''git'' \<and> a2 = [''status'', ''--porcelain''] \<and> c2 = c \<and>
     (\<exists>out. r2 = Inr out \<and> co_status out = 0 \<and> blank (co_stdout out))"
| "merged_cleanly base _ _ _ \<longleftrightarrow> False"

text \<open>Every push is preceded by a successful merge of the base branch and a clean status, in the
  same worktree.\<close>

fun pushes_guarded :: "string \<Rightarrow> event option \<Rightarrow> event option \<Rightarrow> event list \<Rightarrow> bool" where
  "pushes_guarded base e1 e2 [] \<longleftrightarrow> True"
| "pushes_guarded base e1 e2 (e # es) \<longleftrightarrow>
     (is_push e \<longrightarrow> merged_cleanly base e1 e2 e) \<and> pushes_guarded base e2 (Some e) es"

lemma merged_cleanly_weaken:
  "merged_cleanly base a b e \<Longrightarrow> a = None \<or> a = a' \<Longrightarrow> b = None \<or> b = b' \<Longrightarrow> merged_cleanly base a' b' e"
  by (cases a; cases b) auto

lemma pushes_guarded_weaken:
  "pushes_guarded base a b es \<Longrightarrow> a = None \<or> a = a' \<Longrightarrow> b = None \<or> b = b' \<Longrightarrow> pushes_guarded base a' b' es"
proof (induction es arbitrary: a b a' b')
  case (Cons e es)
  have "pushes_guarded base b' (Some e) es"
    by (rule Cons.IH [of b "Some e"]) (use Cons.prems in auto)
  moreover have "is_push e \<longrightarrow> merged_cleanly base a' b' e"
    using Cons.prems merged_cleanly_weaken by auto
  ultimately show ?case by simp
qed simp

lemma pushes_guarded_append:
  "pushes_guarded base a b xs \<Longrightarrow> pushes_guarded base None None ys \<Longrightarrow> pushes_guarded base a b (xs @ ys)"
proof (induction xs arbitrary: a b)
  case Nil
  then show ?case using pushes_guarded_weaken [of base None None ys a b] by simp
qed simp

lemma run_logged:
  "run (logged R) p args cwd (g, es) =
     (case R p args cwd g of
        (r, g') \<Rightarrow> (case r of Inl e \<Rightarrow> Inl (Git e) | Inr out \<Rightarrow> Inr out, g', es @ [Event p args cwd r]))"
  by (simp add: run_def logged_def split: prod.splits sum.splits)

lemma run_ok_logged:
  "run_ok (logged R) p args cwd (g, es) =
     (case R p args cwd g of
        (r, g') \<Rightarrow>
          (case r of Inl e \<Rightarrow> Inl (Git e)
           | Inr out \<Rightarrow> (if co_status out = 0 then Inr out
                         else Inl (Git (CommandFailed p (co_status out) (co_stdout out) (co_stderr out)))),
           g', es @ [Event p args cwd r]))"
  by (simp add: run_ok_def run_logged bind_run_def require_success_def split: prod.splits sum.splits)

text \<open>The outcome of a repair that pushed: its last command is a successful push of the head branch
  from the worktree the outcome names.\<close>

fun pushed_from :: "string \<Rightarrow> string option \<Rightarrow> event \<Rightarrow> bool" where
  "pushed_from head path (Event p a c r) \<longleftrightarrow>
     p = ''git'' \<and> a = [''push'', ''origin'', head] \<and> path = Some c \<and> (\<exists>out. r = Inr out \<and> co_status out = 0)"

definition pushed :: "string \<Rightarrow> MergeConflictRepairOutcome \<Rightarrow> event list \<Rightarrow> bool" where
  "pushed head out es \<longleftrightarrow> es \<noteq> [] \<and> pushed_from head (ro_worktree_path out) (last es)"

definition extends_log ::
    "string \<Rightarrow> string \<Rightarrow> event list \<Rightarrow> MergeConflictRepairOutcome option \<Rightarrow> event list \<Rightarrow> bool" where
  "extends_log head base es q es' \<longleftrightarrow>
     (\<exists>ds. es' = es @ ds \<and> pushes_guarded base None None ds \<and>
        (case q of None \<Rightarrow> True | Some out \<Rightarrow> ro_repaired out \<longrightarrow> pushed head out ds))"

lemma extends_logI:
  "es' = es @ ds \<Longrightarrow> pushes_guarded base None None ds \<Longrightarrow>
   (\<And>out. q = Some out \<Longrightarrow> ro_repaired out \<Longrightarrow> pushed head out ds) \<Longrightarrow> extends_log head base es q es'"
  by (auto simp: extends_log_def split: option.splits)

lemma extends_log_trans:
  assumes "extends_log head base es None es1" "extends_log head base es1 q es2"
  shows "extends_log head base es q es2"
proof -
  obtain d1 d2 where d: "es1 = es @ d1" "es2 = es1 @ d2" "pushes_guarded base None None d1"
      "pushes_guarded base None None d2" and q: "\<And>out. q = Some out \<Longrightarrow> ro_repaired out \<Longrightarrow> pushed head out d2"
    using assms by (auto simp: extends_log_def split: option.splits)
  show ?thesis
  proof (rule extends_logI)
    show "es2 = es @ (d1 @ d2)" using d by simp
    show "pushes_guarded base None None (d1 @ d2)" using d pushes_guarded_append by blast
    show "pushed head out (d1 @ d2)" if "q = Some out" "ro_repaired out" for out
      using q [OF that] by (auto simp: pushed_def)
  qed
qed

definition of_result :: "('e, 'a) result \<Rightarrow> 'a option" where
  "of_result r = (case r of Inl _ \<Rightarrow> None | Inr a \<Rightarrow> Some a)"

lemma of_result_simps [simp]: "of_result (Inl e) = None" "of_result (Inr a) = Some a"
  by (simp_all add: of_result_def)

lemma extends_log_command:
  "args = [] \<or> hd args \<noteq> ''push'' \<Longrightarrow> (\<And>out. q = Some out \<Longrightarrow> \<not> ro_repaired out) \<Longrightarrow>
   extends_log head base es q (es @ [Event p args cwd r])"
  by (rule extends_logI [OF refl]) auto

lemma extends_log_refl: "(\<And>out. q = Some out \<Longrightarrow> \<not> ro_repaired out) \<Longrightarrow> extends_log head base es q es"
  by (rule extends_logI [of _ _ "[]"]) auto

lemma ro_simps [simp]:
  "ro_repaired (repair_outcome b w out reason k) = b" "ro_worktree_path (repair_outcome b w out reason k) = w"
  by (simp_all add: repair_outcome_def)

lemma merge_and_push_log:
  assumes "merge_and_push (logged R) head base path (g, es) = (r, g', es')"
  shows "extends_log head base es (of_result r) es'"
  using assms unfolding merge_and_push_def Let_def run_logged run_ok_logged bind_run_def
  by (auto intro!: extends_logI simp: run_logged run_ok_logged pushed_def split: prod.splits sum.splits if_splits)

lemma find_worktree_log:
  "find_worktree_for_branch (logged R) cwd head (g, es) = (r, g', es') \<Longrightarrow> extends_log head base es None es'"
  by (auto intro: extends_log_command simp: find_worktree_for_branch_def run_ok_logged bind_run_def
      split: prod.splits sum.splits if_splits)

lemma abort_log:
  "abort_interrupted_merge_repair (logged R) path (g, es) = (r, g', es') \<Longrightarrow> extends_log head base es None es'"
  unfolding abort_interrupted_merge_repair_def run_logged run_ok_logged bind_run_def
  by (auto intro!: extends_logI simp: run_logged run_ok_logged split: prod.splits sum.splits if_splits)

lemma status_log:
  "run_ok (logged R) p (''status'' # args) path (g, es) = (r, g', es') \<Longrightarrow> extends_log head base es None es'"
  by (auto intro: extends_log_command simp: run_ok_logged split: prod.splits)

definition returned :: "(MergeLaneError, 'a option) result \<Rightarrow> 'a option" where
  "returned r = (case r of Inl _ \<Rightarrow> None | Inr q \<Rightarrow> q)"

lemma returned_simps [simp]: "returned (Inl e) = None" "returned (Inr q) = q"
  by (simp_all add: returned_def)

lemma bind_run_log:
  assumes "bind_run m f = (r, g', es')"
    and "\<And>a h ds. m = (a, h, ds) \<Longrightarrow> extends_log head base es None ds"
    and "\<And>a h ds. m = (Inr a, h, ds) \<Longrightarrow> f a (h, ds) = (r, g', es') \<Longrightarrow> extends_log head base ds (returned r) es'"
  shows "extends_log head base es (returned r) es'"
proof -
  obtain a h ds where m: "m = (a, h, ds)" by (cases m) auto
  show ?thesis
  proof (cases a)
    case (Inl e)
    then have "r = Inl e" "es' = ds" using assms(1) m by (auto simp: bind_run_def)
    then show ?thesis using assms(2) [OF m] by simp
  next
    case (Inr x)
    then have "f x (h, ds) = (r, g', es')" using assms(1) m by (simp add: bind_run_def)
    then show ?thesis using assms(2) [OF m] assms(3) [of x h ds] extends_log_trans m Inr by simp
  qed
qed

lemma dirty_worktree_log:
  assumes "bind_run (abort_interrupted_merge_repair (logged R) path (g, es)) (\<lambda>aborted g3.
      if \<not> aborted then (Inr (Some dirty), g3)
      else bind_run (run_ok (logged R) p (''status'' # args) path g3) (\<lambda>recovered g4.
        if blank (co_stdout recovered) then (Inr None, g4) else (Inr (Some dirty), g4))) = (r, g', es')"
    and "\<not> ro_repaired dirty"
  shows "extends_log head base es (returned r) es'"
  using assms(1)
proof (rule bind_run_log)
  fix a h ds
  assume "(if \<not> a then (Inr (Some dirty), h, ds)
      else bind_run (run_ok (logged R) p (''status'' # args) path (h, ds)) (\<lambda>recovered g4.
        if blank (co_stdout recovered) then (Inr None, g4) else (Inr (Some dirty), g4))) = (r, g', es')"
  then show "extends_log head base ds (returned r) es'"
    using assms(2)
    by (cases a) (auto intro!: extends_log_refl elim!: bind_run_log status_log split: if_splits)
qed (rule abort_log)

lemma merge_step_log:
  "bind_run (merge_and_push (logged R) head base path (g, es)) (\<lambda>r g3. (Inr (Some r), g3)) = (r, g', es') \<Longrightarrow>
   extends_log head base es (returned r) es'"
  by (cases "merge_and_push (logged R) head base path (g, es)")
    (auto dest: merge_and_push_log simp: bind_run_def split: sum.splits)

lemma repair_attempt_log:
  assumes "repair_attempt (logged R) cwd head base (g, es) = (r, g', es')"
  shows "extends_log head base es (returned r) es'"
  using assms unfolding repair_attempt_def
proof (rule bind_run_log, goal_cases)
  case (2 found h ds)
  show ?case
  proof (cases found)
    case None
    then show ?thesis using 2(2) by (auto intro!: extends_log_refl)
  next
    case (Some path)
    show ?thesis
      using 2(2) unfolding Some option.case
      by (rule bind_run_log)
        (auto simp: Let_def intro: merge_step_log dirty_worktree_log status_log split: if_splits)
  qed
qed (rule find_worktree_log)

lemma repair_loop_log_induct:
  assumes "repair_loop a s = Some y" "a = repair_attempt (logged R) cwd head base"
  shows "extends_log head base (snd s) (of_result (fst y)) (snd (snd y))"
  using assms
proof (induction rule: repair_loop.raw_induct [rotated, consumes 1, case_names loop])
  case (loop rec a s y)
  obtain q h ds where at: "repair_attempt (logged R) cwd head base s = (q, h, ds)"
    by (cases "repair_attempt (logged R) cwd head base s") auto
  then have l: "extends_log head base (snd s) (returned q) ds"
    using repair_attempt_log [of R cwd head base "fst s" "snd s" q h ds] by simp
  show ?case
  proof (cases "q = Inr None")
    case True
    then have "rec a (h, ds) = Some y" using loop(2,3) at by simp
    from loop(1) [OF this loop(3)] show ?thesis using extends_log_trans l True by simp
  next
    case False
    then show ?thesis using loop(2,3) at l by (auto split: sum.splits option.splits)
  qed
qed

lemma repair_loop_log:
  "repair_loop (repair_attempt (logged R) cwd head base) (g, es) = Some (r, g', es') \<Longrightarrow>
   extends_log head base es (of_result r) es'"
  using repair_loop_log_induct by fastforce

text \<open>C12: Conflict repair never publishes a branch it did not verify. Whatever the commands return, each
  \<^verbatim>\<open>git push\<close> a repair runs comes immediately after a successful merge of the base branch and an
  empty \<^verbatim>\<open>git status\<close> in the same worktree, also across restarts after an interrupted merge; and
  a repair that reports success outside fixture mode ended with a successful push of the pull
  request's head branch from the worktree it names.\<close>

theorem repair_pushes_only_clean_merges:
  assumes "repair_dirty_pull_request (logged R) cwd pr head_ref base fixture_mode (g, []) = Some (r, g', es)"
  shows "pushes_guarded base None None es \<and>
    (case r of Inl _ \<Rightarrow> True
     | Inr out \<Rightarrow> ro_repaired out \<longrightarrow>
         fixture_mode \<and> es = [] \<or> (\<exists>head. head_ref = Some head \<and> pushed head out es))"
proof (cases "fixture_mode \<or> filter_option (\<lambda>h. \<not> blank h) head_ref = None")
  case True
  then show ?thesis using assms by (auto simp: repair_dirty_pull_request_def split: if_splits)
next
  case False
  then obtain head where h: "filter_option (\<lambda>h. \<not> blank h) head_ref = Some head" "\<not> fixture_mode" by auto
  then have "head_ref = Some head" by (cases head_ref) (auto split: if_splits)
  moreover have "extends_log head base [] (of_result r) es"
    using assms h repair_loop_log [of R cwd head base g "[]"] by (simp add: repair_dirty_pull_request_def)
  ultimately show ?thesis by (auto simp: extends_log_def split: sum.splits)
qed

subsection \<open>Facts: repairs end\<close>

lemma repair_loop_returns_now:
  "attempt g = (r, g') \<Longrightarrow> r \<noteq> Inr None \<Longrightarrow> \<exists>y. repair_loop attempt g = Some y"
  by (subst repair_loop.simps) (auto split: sum.splits option.splits)

lemma repair_loop_restart: "attempt g = (Inr None, g') \<Longrightarrow> repair_loop attempt g = repair_loop attempt g'"
  by (subst repair_loop.simps) simp

abbreviation worktree_list_args :: "string list" where
  "worktree_list_args \<equiv> [''worktree'', ''list'', ''--porcelain'']"

abbreviation status_args :: "string list" where
  "status_args \<equiv> [''status'', ''--porcelain'']"

definition reads_only :: "'g runner \<Rightarrow> bool" where
  "reads_only R \<longleftrightarrow> (\<forall>cwd g. snd (R ''git'' worktree_list_args cwd g) = g \<and> snd (R ''git'' status_args cwd g) = g)"

definition keeps_worktrees :: "'g runner \<Rightarrow> string \<Rightarrow> bool" where
  "keeps_worktrees R cwd \<longleftrightarrow>
     (\<forall>path g. \<forall>args \<in> {[''rev-parse'', ''-q'', ''--verify'', ''MERGE_HEAD''],
                            [''diff'', ''--name-only'', ''--diff-filter=U''], [''merge'', ''--abort'']}.
        fst (R ''git'' worktree_list_args cwd (snd (R ''git'' args path g))) =
        fst (R ''git'' worktree_list_args cwd g))"

lemma run_Inr: "run R p args cwd g = (Inr out, g') \<longleftrightarrow> R p args cwd g = (Inr out, g')"
  by (auto simp: run_def split: prod.splits sum.splits)

lemma abort_keeps_worktrees:
  assumes "keeps_worktrees R cwd" "abort_interrupted_merge_repair R path g = (Inr True, g')"
  shows "fst (R ''git'' worktree_list_args cwd g') = fst (R ''git'' worktree_list_args cwd g)"
proof -
  obtain o1 g1 o2 g2 o3 where
      "R ''git'' [''rev-parse'', ''-q'', ''--verify'', ''MERGE_HEAD''] path g = (Inr o1, g1)"
      "R ''git'' [''diff'', ''--name-only'', ''--diff-filter=U''] path g1 = (Inr o2, g2)"
      "R ''git'' [''merge'', ''--abort''] path g2 = (Inr o3, g')"
    using assms(2) by (auto simp: abort_interrupted_merge_repair_def bind_run_Inr run_Inr run_ok_Inr split: if_splits)
  then show ?thesis
    using assms(1) unfolding keeps_worktrees_def ball_simps by (metis snd_conv)
qed

lemma restart_then_clean:
  assumes R: "reads_only R" "keeps_worktrees R cwd" and at: "repair_attempt R cwd head base g = (Inr None, g')"
  shows "fst (repair_attempt R cwd head base g') \<noteq> Inr None"
proof -
  have ro: "R ''git'' worktree_list_args cwd g = (r, h) \<Longrightarrow> h = g"
      "R ''git'' status_args p g = (r, h) \<Longrightarrow> h = g" for p cwd g r h
    using R(1) by (metis reads_only_def snd_conv)+
  obtain path out rec g1 g2 g3 where
      wl: "R ''git'' worktree_list_args cwd g = (Inr out, g1)" "co_status out = 0"
          "parse_worktree_for_branch (co_stdout out) head = Some path"
      and st: "snd (R ''git'' status_args path g1) = g2"
      and ab: "abort_interrupted_merge_repair R path g2 = (Inr True, g3)"
      and rec: "R ''git'' status_args path g3 = (Inr rec, g')" "co_status rec = 0" "blank (co_stdout rec)"
    using at
    by (auto simp: repair_attempt_def find_worktree_for_branch_def bind_run_Inr run_ok_Inr Let_def
        split: if_splits option.splits)
  have g: "g1 = g" "g2 = g" "g3 = g'"
    using ro(1) [OF wl(1)] ro(2) [OF rec(1)] st R(1) by (simp_all add: reads_only_def)
  have "fst (R ''git'' worktree_list_args cwd g') = Inr out" "snd (R ''git'' worktree_list_args cwd g') = g'"
    using abort_keeps_worktrees [OF R(2) ab] wl(1) R(1) g by (simp_all add: reads_only_def)
  then have "R ''git'' worktree_list_args cwd g' = (Inr out, g')" by (metis prod.collapse)
  then have "repair_attempt R cwd head base g' = bind_run (merge_and_push R head base path g') (\<lambda>r g3. (Inr (Some r), g3))"
    using wl(2,3) rec g
    by (simp add: repair_attempt_def find_worktree_for_branch_def bind_run_def run_ok_def run_def require_success_def)
  then show ?thesis by (auto simp: bind_run_def split: prod.splits sum.splits)
qed

text \<open>The repair of a conflicting pull request ends: its recursive call after an aborted merge is taken
  at most once, provided \<^verbatim>\<open>git status\<close> and \<^verbatim>\<open>git worktree list\<close> only read the repository and aborting a
  merge does not move worktrees.\<close>

theorem repair_returns:
  assumes "reads_only R" "keeps_worktrees R cwd"
  shows "\<exists>y. repair_dirty_pull_request R cwd pr head_ref base fixture_mode g = Some y"
proof -
  have "\<exists>y. repair_loop (repair_attempt R cwd head base) g = Some y" for head
  proof (cases "repair_attempt R cwd head base g")
    case (Pair r g')
    show ?thesis
    proof (cases "r = Inr None")
      case True
      then have at: "repair_attempt R cwd head base g = (Inr None, g')" using Pair by simp
      show ?thesis
        unfolding repair_loop_restart [of "repair_attempt R cwd head base", OF at]
        by (rule repair_loop_returns_now [of "repair_attempt R cwd head base", OF surjective_pairing restart_then_clean [OF assms at]])
    next
      case False
      show ?thesis by (rule repair_loop_returns_now [of "repair_attempt R cwd head base", OF Pair False])
    qed
  qed
  then show ?thesis by (simp add: repair_dirty_pull_request_def split: option.splits)
qed

text \<open>A repository with one worktree for the branch \<^verbatim>\<open>f\<close>, in which every command succeeds.\<close>

definition repo_runner :: "unit runner" where
  "repo_runner program args cwd g =
     (Inr \<lparr>co_status = 0,
           co_stdout = (if args = worktree_list_args then ''worktree /w'' @ [char_of (10 :: nat)] @ ''branch refs/heads/f'' else []),
           co_stderr = []\<rparr>, g)"

definition done_output :: "string \<Rightarrow> (GitHandoffError, CommandOutput) result" where
  "done_output text = Inr \<lparr>co_status = 0, co_stdout = text, co_stderr = []\<rparr>"

definition repo_log :: "event list" where
  "repo_log =
     [Event ''git'' worktree_list_args ''/r'' (done_output (''worktree /w'' @ [char_of (10 :: nat)] @ ''branch refs/heads/f'')),
      Event ''git'' status_args ''/w'' (done_output []),
      Event ''git'' [''fetch'', ''origin'', ''main''] ''/w'' (done_output []),
      Event ''git'' [''merge'', ''--no-edit'', ''origin/main''] ''/w'' (done_output []),
      Event ''git'' status_args ''/w'' (done_output []),
      Event ''git'' [''push'', ''origin'', ''f''] ''/w'' (done_output [])]"

definition repo_outcome :: MergeConflictRepairOutcome where
  "repo_outcome = repair_outcome True (Some ''/w'') \<lparr>co_status = 0, co_stdout = [], co_stderr = []\<rparr>
     ''safe merge-lane repair merged `origin/main` into `f` and pushed the existing PR branch'' None"

lemma repo_attempt:
  "repair_attempt (logged repo_runner) ''/r'' ''f'' ''main'' ((), []) = (Inr (Some repo_outcome), (), repo_log)"
  by code_simp

lemma repo_repair:
  "repair_dirty_pull_request (logged repo_runner) ''/r'' ''7'' (Some ''f'') ''main'' False ((), []) =
     Some (Inr repo_outcome, (), repo_log)"
proof -
  have "\<not> blank ''f''" by code_simp
  then show ?thesis
    by (simp add: repair_dirty_pull_request_def repair_loop.simps [of _ "((), [])"] repo_attempt)
qed

theorem repair_pushes_only_clean_merges_witness:
  "repair_dirty_pull_request (logged repo_runner) ''/r'' ''7'' (Some ''f'') ''main'' False ((), []) =
     Some (Inr repo_outcome, (), repo_log) \<and> ro_repaired repo_outcome \<and>
   pushes_guarded ''main'' None None repo_log \<and> pushed ''f'' repo_outcome repo_log"
  using repair_pushes_only_clean_merges [OF repo_repair] repo_repair
  by (simp add: repo_outcome_def)

theorem repair_returns_witness:
  "\<exists>y. repair_dirty_pull_request repo_runner ''/r'' ''7'' (Some ''f'') ''main'' False () = Some y"
  by (rule repair_returns) (simp_all add: reads_only_def keeps_worktrees_def repo_runner_def)


text \<open>The merge command with recovery reports success only when the command succeeded or the read
  back pull request is merged.\<close>

lemma merge_recovery_sound:
  assumes "merge_pull_request_with_recovery parse R cwd pr g = (Inr (out, how), g')"
  shows "how = Applied \<and> R ''gh'' [''pr'', ''merge'', pr, ''--merge''] cwd g = (Inr out, g') \<and> co_status out = 0 \<or>
    how = Recovered \<and>
      (\<exists>s g1. fetch_pull_request_status_with_recheck parse R cwd pr 2 g1 = (Inr s, g') \<and>
        normalize_state (ps_state s) = ''merged'')"
proof (cases "merge_pull_request R cwd pr g")
  case (Pair r g1)
  show ?thesis
  proof (cases r)
    case (Inl e)
    then show ?thesis using assms Pair
      by (auto simp: merge_pull_request_with_recovery_def Let_def split: if_splits prod.splits sum.splits)
  next
    case (Inr o1)
    then have "R ''gh'' [''pr'', ''merge'', pr, ''--merge''] cwd g = (Inr o1, g1)" "co_status o1 = 0"
      using Pair by (simp_all add: merge_pull_request_def run_ok_Inr)
    then show ?thesis using assms Pair Inr by (simp add: merge_pull_request_with_recovery_def)
  qed
qed

text \<open>A completed check run whose conclusion is, say, \<^verbatim>\<open>STARTUP_FAILURE\<close> is not failing for the preflight:
  it counts as pending for good.\<close>

theorem startup_failure_counts_as_pending:
  "(let c = \<lparr>ck_name = ''ci'', ck_status = Some ''COMPLETED'', ck_conclusion = Some ''STARTUP_FAILURE''\<rparr> in
    first_failing_check [c] = None \<and> first_pending_check [c] = Some ''ci'')"
  by code_simp

text \<open>A legacy commit status carries \<^verbatim>\<open>context\<close> and \<^verbatim>\<open>state\<close> instead of \<^verbatim>\<open>status\<close> and \<^verbatim>\<open>conclusion\<close>; a
  failed one counts as passed.\<close>

theorem failed_commit_status_counts_as_passed:
  "(let checks = checks_from_json (Some (Array [Object [(''context'', String ''ci''), (''state'', String ''FAILURE'')]])) in
    map ck_name checks = [''ci''] \<and> first_failing_check checks = None \<and> first_pending_check checks = None)"
  by code_simp

end
