(* ===== verification/Config_Load.thy ===== *)
theory Config_Load
  imports Config Paths
begin

section \<open>Loading and validating the configuration (\<^verbatim>\<open>src/config.rs\<close>)\<close>

text \<open>
  \<^verbatim>\<open>RuntimeConfig::from_workflow\<close> turns the front matter of a workflow file into the
  configuration, \<^verbatim>\<open>validate\<close> rejects what the lanes cannot run with. The front matter is a JSON
  value (parsing YAML is not modelled); objects list their entries in the order the library
  iterates them. Environment variables, the temporary directory, the test whether a file
  exists and the build's manifest directory are the argument \<open>ConfigEnv\<close>.
\<close>

record ConfigEnv =
  ce_var :: "string \<Rightarrow> string option"
  ce_temp_dir :: string
  ce_is_file :: "string \<Rightarrow> bool"
  ce_manifest_dir :: string

datatype ConfigError =
    Invalid string
  | UnsupportedTracker string
  | UnsupportedBackend string

subsection \<open>Reading values\<close>

definition get_value :: "json option \<Rightarrow> string \<Rightarrow> json option" where
  "get_value root key = Option.bind (Option.bind root as_object) (\<lambda>m. map_of m key)"

definition get_string :: "json option \<Rightarrow> string \<Rightarrow> string option" where
  "get_string root key = Option.bind (get_value root key) as_str"

definition value_string :: "json option \<Rightarrow> string \<Rightarrow> string \<Rightarrow> string" where
  "value_string root key dflt = unwrap_or (get_string root key) dflt"

definition get_u64 :: "json option \<Rightarrow> string \<Rightarrow> u64 option" where
  "get_u64 root key = map_option of_nat (Option.bind (get_value root key) as_u64)"

definition get_i64 :: "json option \<Rightarrow> string \<Rightarrow> int option" where
  "get_i64 root key = Option.bind (get_value root key) as_i64"

definition get_bool :: "json option \<Rightarrow> string \<Rightarrow> bool option" where
  "get_bool root key = Option.bind (get_value root key) as_bool"

definition get_string_vec :: "json option \<Rightarrow> string \<Rightarrow> string list option" where
  "get_string_vec root key =
     map_option (List.map_filter as_str) (Option.bind (get_value root key) as_array)"

definition env_nonempty :: "ConfigEnv \<Rightarrow> string \<Rightarrow> string option" where
  "env_nonempty E name = filter_option (\<lambda>v. v \<noteq> []) (ce_var E name)"

definition resolve_secret :: "ConfigEnv \<Rightarrow> string option \<Rightarrow> string \<Rightarrow> string option" where
  "resolve_secret E v fallback_env =
     (case v of
        Some raw \<Rightarrow>
          (if starts_with raw ''$'' then env_nonempty E (trim_start_matches (\<lambda>c. c = CHR ''$'') raw)
           else if raw \<noteq> [] then Some raw
           else env_nonempty E fallback_env)
      | None \<Rightarrow> env_nonempty E fallback_env)"

definition resolve_command_token :: "ConfigEnv \<Rightarrow> string option \<Rightarrow> string \<Rightarrow> string" where
  "resolve_command_token E v dflt =
     (case v of
        Some raw \<Rightarrow>
          (if starts_with raw ''$''
           then unwrap_or (env_nonempty E (trim_start_matches (\<lambda>c. c = CHR ''$'') raw)) raw
           else if raw \<noteq> [] then raw
           else dflt)
      | None \<Rightarrow> dflt)"

definition resolve_optional_command_token :: "ConfigEnv \<Rightarrow> string option \<Rightarrow> string option" where
  "resolve_optional_command_token E v =
     (case v of
        Some raw \<Rightarrow>
          (if starts_with raw ''$''
           then Some (unwrap_or (env_nonempty E (trim_start_matches (\<lambda>c. c = CHR ''$'') raw)) raw)
           else if \<not> blank raw then Some raw
           else None)
      | None \<Rightarrow> None)"

subsection \<open>Paths\<close>

definition home_dir :: "ConfigEnv \<Rightarrow> string option" where
  "home_dir E = ce_var E ''HOME''"

definition expand_tilde :: "ConfigEnv \<Rightarrow> string \<Rightarrow> string" where
  "expand_tilde E path =
     (if path = ''~'' then unwrap_or (home_dir E) path
      else case strip_prefix ''~/'' path of
        Some rest \<Rightarrow> unwrap_or (map_option (\<lambda>home. path_join home rest) (home_dir E)) path
      | None \<Rightarrow> path)"

definition default_artifact_root :: "ConfigEnv \<Rightarrow> string" where
  "default_artifact_root E =
     unwrap_or
       (or_else (map_option (expand_tilde E) (env_nonempty E ''SHEA_SYMPHONY_ARTIFACT_ROOT''))
          (map_option (\<lambda>home. path_join (path_join home ''.shea-symphony'') ''artifacts'') (home_dir E)))
       (path_join (ce_temp_dir E) ''shea-symphony-artifacts'')"

definition resolve_env_path_token :: "ConfigEnv \<Rightarrow> string \<Rightarrow> string option" where
  "resolve_env_path_token E raw =
     (let (env_name, suffix) = unwrap_or (split_once (CHR ''/'') raw) (raw, []) in
      if env_name = [] then None
      else map_option
             (\<lambda>base. let base = expand_tilde E base in if suffix = [] then base else path_join base suffix)
             (or_else (env_nonempty E env_name)
                (if env_name = ''SHEA_SYMPHONY_ARTIFACT_ROOT'' then Some (default_artifact_root E) else None)))"

definition resolve_path_token :: "ConfigEnv \<Rightarrow> string \<Rightarrow> string option" where
  "resolve_path_token E raw =
     (if raw = [] then None
      else case strip_prefix ''$'' raw of
        Some env_path \<Rightarrow> resolve_env_path_token E env_path
      | None \<Rightarrow> Some raw)"

definition resolve_path :: "ConfigEnv \<Rightarrow> string option \<Rightarrow> string \<Rightarrow> string \<Rightarrow> string" where
  "resolve_path E raw workflow_dir dflt =
     (let v = expand_tilde E (unwrap_or (Option.bind raw (resolve_path_token E)) dflt) in
      if is_absolute v then v else path_join workflow_dir v)"

subsection \<open>Sections\<close>

definition DEFAULT_GIT_BASE_BRANCH :: string where
  "DEFAULT_GIT_BASE_BRANCH = ''main''"

definition default_codex_approval_policy :: json where
  "default_codex_approval_policy = String ''never''"

definition default_codex_app_server_command :: string where
  "default_codex_app_server_command = DEFAULT_CODEX_COMMAND"

definition parse_git :: "json option \<Rightarrow> GitConfig" where
  "parse_git v =
     \<lparr>gc_base_branch =
        unwrap_or (filter_option (\<lambda>b. b \<noteq> []) (map_option trim (get_string v ''base_branch'')))
          DEFAULT_GIT_BASE_BRANCH\<rparr>"

definition usize_or :: "u64 option \<Rightarrow> nat \<Rightarrow> nat" where
  "usize_or v dflt = unwrap_or (map_option unat v) dflt"

definition parse_temporal :: "json option \<Rightarrow> TemporalConfig" where
  "parse_temporal v =
     (let task_queues = get_value v ''task_queues''; worker = get_value v ''worker'' in
      \<lparr>tmp_address = unwrap_or (get_string v ''address'') ''localhost:7233'',
       tmp_namespace = unwrap_or (get_string v ''namespace'') ''default'',
       tmp_task_queues =
         \<lparr>tmq_core = unwrap_or (get_string task_queues ''core'') ''symphony-core'',
          tmq_agent = unwrap_or (get_string task_queues ''agent'') ''symphony-agent'',
          tmq_local = unwrap_or (get_string task_queues ''local'') ''symphony-local''\<rparr>,
       tmp_worker =
         \<lparr>tmw_core_concurrency = usize_or (get_u64 worker ''core_concurrency'') 3,
          tmw_agent_concurrency = usize_or (get_u64 worker ''agent_concurrency'') 3,
          tmw_local_concurrency = usize_or (get_u64 worker ''local_concurrency'') 8\<rparr>\<rparr>)"

definition parse_state_map :: "json option \<Rightarrow> StateMap" where
  "parse_state_map v =
     \<lparr>sm_backlog = value_string v ''backlog'' ''Backlog'',
      sm_todo = value_string v ''todo'' ''Todo'',
      sm_need_to_clarify = value_string v ''need_to_clarify'' ''Need to Clarify'',
      sm_in_progress = value_string v ''in_progress'' ''In Progress'',
      sm_need_human_input = value_string v ''need_human_input'' ''Need Human Input'',
      sm_agent_review = value_string v ''agent_review'' ''Agent Review'',
      sm_human_review = value_string v ''human_review'' ''Human Review'',
      sm_rework = value_string v ''rework'' ''Rework'',
      sm_merging = value_string v ''merging'' ''Merging'',
      sm_done = value_string v ''done'' ''Done''\<rparr>"

definition parse_assignee_filter :: "json option \<Rightarrow> AssigneeFilter" where
  "parse_assignee_filter v =
     \<lparr>af_source = value_string v ''source'' ''issue_assignees'',
      af_additional_assignees =
        unwrap_or (or_else (get_string_vec v ''additional_assignees'') (get_string_vec v ''assignees'')) []\<rparr>"

definition parse_workpad :: "json option \<Rightarrow> WorkpadConfig" where
  "parse_workpad v =
     \<lparr>wc_source = value_string v ''source'' ''issue_comment'',
      wc_marker = value_string v ''marker'' ''<!-- shea-symphony-workpad -->''\<rparr>"

definition parse_tracker :: "ConfigEnv \<Rightarrow> json option \<Rightarrow> string \<Rightarrow> TrackerConfig" where
  "parse_tracker E v workflow_dir =
     (let kind = unwrap_or (get_string v ''kind'') ''github_project_v2'' in
      \<lparr>tc_kind = kind,
       tc_endpoint = or_else (get_string v ''endpoint'')
         (if kind = ''linear'' then Some ''https://api.linear.app/graphql'' else None),
       tc_api_key =
         (if kind = ''linear'' then resolve_secret E (get_string v ''api_key'') ''LINEAR_API_KEY''
          else or_else (resolve_secret E (get_string v ''api_key'') ''GITHUB_TOKEN'')
                 (resolve_secret E None ''GH_TOKEN'')),
       tc_owner = get_string v ''owner'',
       tc_repo = get_string v ''repo'',
       tc_project_owner = get_string v ''project_owner'',
       tc_project_owner_type = get_string v ''project_owner_type'',
       tc_project_number = get_u64 v ''project_number'',
       tc_project_slug = get_string v ''project_slug'',
       tc_status_field = unwrap_or (get_string v ''status_field'') ''Status'',
       tc_state_map = parse_state_map (get_value v ''state_map''),
       tc_assignee_filter = parse_assignee_filter (get_value v ''assignee_filter''),
       tc_workpad = parse_workpad (get_value v ''workpad''),
       tc_active_states =
         unwrap_or (get_string_vec v ''active_states'') [''Todo'', ''In Progress'', ''Rework''],
       tc_terminal_states =
         unwrap_or (get_string_vec v ''terminal_states'')
           [''Closed'', ''Cancelled'', ''Canceled'', ''Duplicate'', ''Done''],
       tc_fixture_path =
         map_option (\<lambda>p. resolve_path E (Some p) workflow_dir []) (get_string v ''fixture_path'')\<rparr>)"

definition nonblank_trimmed :: "string list \<Rightarrow> string list" where
  "nonblank_trimmed ss = filter (\<lambda>s. s \<noteq> []) (map trim ss)"

definition parse_worker :: "json option \<Rightarrow> WorkerConfig" where
  "parse_worker v =
     \<lparr>wrk_ssh_hosts = nonblank_trimmed (unwrap_or (get_string_vec v ''ssh_hosts'') []),
      wrk_max_concurrent_agents_per_host = get_i64 v ''max_concurrent_agents_per_host''\<rparr>"

definition parse_string_map :: "json option \<Rightarrow> (string \<rightharpoonup> string)" where
  "parse_string_map v =
     (case v of
        Some (Object kvs) \<Rightarrow>
          foldl (\<lambda>m (k, j). case as_str j of Some s \<Rightarrow> m(k \<mapsto> s) | None \<Rightarrow> m) Map.empty kvs
      | _ \<Rightarrow> Map.empty)"

definition parse_state_limits :: "json option \<Rightarrow> (string \<rightharpoonup> nat)" where
  "parse_state_limits v =
     (case v of
        Some (Object kvs) \<Rightarrow>
          foldl (\<lambda>m (k, j). case as_u64 j of
                   Some n \<Rightarrow> (if n > 0 then m(to_lowercase (trim k) \<mapsto> n) else m)
                 | None \<Rightarrow> m) Map.empty kvs
      | _ \<Rightarrow> Map.empty)"

definition parse_execution_profile :: "ConfigEnv \<Rightarrow> string \<Rightarrow> json \<Rightarrow> ExecutionProfileConfig option" where
  "parse_execution_profile E workflow_dir item =
     map_option (\<lambda>i.
       \<lparr>epf_id = i,
        epf_instance_name = get_string (Some item) ''instance_name'',
        epf_backend = get_string (Some item) ''backend'',
        epf_workspace_namespace = get_string (Some item) ''workspace_namespace'',
        epf_user_data_dir =
          map_option (\<lambda>p. resolve_path E (Some p) workflow_dir []) (get_string (Some item) ''user_data_dir''),
        epf_working_dir =
          map_option (\<lambda>p. resolve_path E (Some p) workflow_dir []) (get_string (Some item) ''working_dir''),
        epf_extra_args = get_string (Some item) ''extra_args'',
        epf_env = parse_string_map (get_value (Some item) ''env'')\<rparr>)
     (get_string (Some item) ''id'')"

definition parse_execution_profiles :: "ConfigEnv \<Rightarrow> json option \<Rightarrow> string \<Rightarrow> ExecutionProfileConfig list" where
  "parse_execution_profiles E v workflow_dir =
     unwrap_or (map_option (List.map_filter (parse_execution_profile E workflow_dir))
       (Option.bind v as_array)) []"

definition parse_profiles :: "ConfigEnv \<Rightarrow> json option \<Rightarrow> string \<Rightarrow> ProfilesConfig" where
  "parse_profiles E v workflow_dir =
     \<lparr>pfs_default = get_string v ''default'',
      pfs_cockpit_tools =
        \<lparr>ckt_codex_instances_path =
           map_option (\<lambda>p. resolve_path E (Some p) workflow_dir [])
             (get_string (get_value v ''cockpit_tools'') ''codex_instances_path'')\<rparr>,
      pfs_entries = parse_execution_profiles E (get_value v ''entries'') workflow_dir\<rparr>"

definition parse_runtime_profile :: "ConfigEnv \<Rightarrow> json option \<Rightarrow> string \<Rightarrow> RuntimeProfileConfig" where
  "parse_runtime_profile E v workflow_dir =
     (let runtime_root = unwrap_or (path_parent workflow_dir) workflow_dir in
      \<lparr>rtp_path = unwrap_or
         (map_option (\<lambda>p. resolve_path E (Some p) workflow_dir []) (get_string v ''path''))
         (path_join runtime_root ''runtime-profile.json''),
       rtp_required = unwrap_or (get_bool v ''required'') False,
       rtp_timeout_ms = unwrap_or (get_u64 v ''timeout_ms'') 10000\<rparr>)"

definition parse_quality_gate :: "json option \<Rightarrow> QualityGateConfig" where
  "parse_quality_gate v =
     (let llm = get_value v ''llm'' in
      \<lparr>qgt_llm =
         \<lparr>lqg_mode = unwrap_or (get_string llm ''mode'') ''disabled'',
          lqg_command = get_string llm ''command'',
          lqg_timeout_ms = unwrap_or (get_u64 llm ''timeout_ms'') 120000\<rparr>\<rparr>)"

definition parse_issue_templates :: "ConfigEnv \<Rightarrow> json option \<Rightarrow> string \<Rightarrow> IssueTemplatesConfig" where
  "parse_issue_templates E v workflow_dir =
     (let configured = map_option (\<lambda>p. resolve_path E (Some p) workflow_dir []) (get_string v ''executable'');
          repository_candidate = path_join workflow_dir ''../template/issue/executable.md''
      in \<lparr>ist_executable = unwrap_or configured
            (if ce_is_file E repository_candidate then repository_candidate
             else path_join (ce_manifest_dir E) ''.shea/template/issue/executable.md'')\<rparr>)"

definition parse_verification :: "json option \<Rightarrow> VerificationConfig" where
  "parse_verification v =
     \<lparr>vrf_commands = unwrap_or (get_string_vec v ''commands'') [],
      vrf_timeout_ms = unwrap_or (get_u64 v ''timeout_ms'') 600000\<rparr>"

definition parse_git_identity :: "json option \<Rightarrow> GitIdentityConfig" where
  "parse_git_identity v =
     \<lparr>gi_name = get_string v ''name'', gi_email = get_string v ''email'',
      gi_signing_key = get_string v ''signing_key'',
      gi_extra = parse_string_map (get_value v ''extra'')\<rparr>"

definition parse_identity :: "json option \<Rightarrow> IdentityConfig" where
  "parse_identity v =
     \<lparr>ic_actor_role = unwrap_or (get_string v ''actor_role'') ''implementation_agent'',
      ic_actor_label = unwrap_or (get_string v ''actor_label'') ''Shea Symphony Agent'',
      ic_git = parse_git_identity (get_value v ''git'')\<rparr>"

definition parse_artifacts :: "ConfigEnv \<Rightarrow> json option \<Rightarrow> string \<Rightarrow> ArtifactConfig" where
  "parse_artifacts E v workflow_dir =
     \<lparr>art_root = resolve_path E (get_string v ''root'') workflow_dir (default_artifact_root E),
      art_namespace = get_string v ''namespace''\<rparr>"

subsection \<open>The configuration\<close>

definition parse_agent :: "json option \<Rightarrow> json option \<Rightarrow> AgentConfig" where
  "parse_agent main_lane_config backend_section =
     \<lparr>ac_max_concurrent_agents = usize_or (get_u64 main_lane_config ''max_concurrent_agents'') 10,
      ac_max_turns = ucast (unwrap_or (get_u64 main_lane_config ''max_turns'') 20),
      ac_max_retry_backoff_ms = unwrap_or (get_u64 main_lane_config ''max_retry_backoff_ms'') 300000,
      ac_max_concurrent_agents_by_state =
        parse_state_limits (get_value main_lane_config ''max_concurrent_agents_by_state''),
      ac_backend =
        unwrap_or (or_else (get_string main_lane_config ''backend'') (get_string backend_section ''kind''))
          ''dry-run''\<rparr>"

definition parse_codex :: "json option \<Rightarrow> CodexConfig" where
  "parse_codex v =
     \<lparr>cdx_command = unwrap_or (get_string v ''command'') default_codex_app_server_command,
      cdx_model = get_string v ''model'',
      cdx_reasoning_effort = unwrap_or (get_string v ''reasoning_effort'') ''high'',
      cdx_approval_policy = unwrap_or (get_value v ''approval_policy'') default_codex_approval_policy,
      cdx_thread_sandbox = unwrap_or (get_string v ''thread_sandbox'') ''workspace-write'',
      cdx_turn_sandbox_policy = get_value v ''turn_sandbox_policy'',
      cdx_turn_timeout_ms = unwrap_or (get_u64 v ''turn_timeout_ms'') 3600000,
      cdx_read_timeout_ms = unwrap_or (get_u64 v ''read_timeout_ms'') 5000,
      cdx_stall_timeout_ms = unwrap_or (get_u64 v ''stall_timeout_ms'') 300000,
      cdx_session_stale_after_ms = unwrap_or (get_u64 v ''session_stale_after_ms'') (30 * 60 * 1000)\<rparr>"

definition parse_tmux :: "ConfigEnv \<Rightarrow> json option \<Rightarrow> TmuxConfig" where
  "parse_tmux E v =
     \<lparr>tmx_command = resolve_command_token E (get_string v ''command'') ''tmux'',
      tmx_agent_command = unwrap_or (get_string v ''agent_command'') ''codex'',
      tmx_main_agent_command = resolve_optional_command_token E (get_string v ''main_agent_command''),
      tmx_review_agent_command = resolve_optional_command_token E (get_string v ''review_agent_command''),
      tmx_merge_agent_command = resolve_optional_command_token E (get_string v ''merge_agent_command''),
      tmx_session_prefix = unwrap_or (get_string v ''session_prefix'') ''shea''\<rparr>"

definition workers_or_one :: "u64 option \<Rightarrow> nat" where
  "workers_or_one v = max (usize_or v 1) 1"

definition parse_review :: "ConfigEnv \<Rightarrow> json option \<Rightarrow> ClaudeConfig \<Rightarrow> CodexConfig \<Rightarrow> ReviewConfig" where
  "parse_review E v claude codex =
     \<lparr>rvw_backend = unwrap_or (get_string v ''backend'') ''fake'',
      rvw_gemini_command = resolve_command_token E (get_string v ''gemini_command'') ''gemini'',
      rvw_gemini_model = get_string v ''gemini_model'',
      rvw_gemini_allowed_tools = nonblank_trimmed (unwrap_or (get_string_vec v ''gemini_allowed_tools'') []),
      rvw_agy_command = resolve_command_token E (get_string v ''agy_command'') ''agy'',
      rvw_agy_model = get_string v ''agy_model'',
      rvw_claude_command = resolve_command_token E (get_string v ''claude_command'') (cld_command claude),
      rvw_codex_command = resolve_command_token E (get_string v ''codex_command'') (cdx_command codex),
      rvw_codex_approval_policy =
        unwrap_or (get_value v ''codex_approval_policy'') default_codex_approval_policy,
      rvw_codex_thread_sandbox = unwrap_or (get_string v ''codex_thread_sandbox'') ''read-only'',
      rvw_codex_turn_sandbox_policy = get_value v ''codex_turn_sandbox_policy'',
      rvw_timeout_ms = unwrap_or (get_u64 v ''timeout_ms'') 600000,
      rvw_max_concurrent_workers = workers_or_one (get_u64 v ''max_concurrent_workers'')\<rparr>"

definition from_workflow :: "ConfigEnv \<Rightarrow> json \<Rightarrow> string \<Rightarrow> (ConfigError, RuntimeConfig) result" where
  "from_workflow E config workflow_path =
     (let workflow_dir = unwrap_or (path_parent workflow_path) ''.'';
          root = (\<lambda>key. Option.bind (as_object config) (\<lambda>m. map_of m key));
          main_lane_config = or_else (root ''main_lane'') (root ''agent'');
          review_lane_config = or_else (root ''review_lane'') (root ''review'');
          merge_lane_config = root ''merge_lane'';
          agent = parse_agent main_lane_config (root ''backend'');
          codex = parse_codex (root ''codex'');
          claude =
            \<lparr>cld_command = unwrap_or (get_string (root ''claude'') ''command'') ''claude'',
             cld_turn_timeout_ms = unwrap_or (get_u64 (root ''claude'') ''turn_timeout_ms'') 3600000\<rparr>
      in Inr
        \<lparr>rc_tracker = parse_tracker E (root ''tracker'') workflow_dir,
         rc_git = parse_git (root ''git''),
         rc_temporal = parse_temporal (root ''temporal''),
         rc_polling = \<lparr>pc_interval_ms = unwrap_or (get_u64 (root ''polling'') ''interval_ms'') 30000\<rparr>,
         rc_workspace =
           \<lparr>wsp_root = resolve_path E (get_string (root ''workspace'') ''root'') workflow_dir
              (path_join (ce_temp_dir E) ''symphony_workspaces'')\<rparr>,
         rc_worker = parse_worker (root ''worker''),
         rc_hooks =
           \<lparr>hks_after_create = get_string (root ''hooks'') ''after_create'',
            hks_before_run = get_string (root ''hooks'') ''before_run'',
            hks_after_run = get_string (root ''hooks'') ''after_run'',
            hks_before_remove = get_string (root ''hooks'') ''before_remove'',
            hks_timeout_ms = unwrap_or (get_u64 (root ''hooks'') ''timeout_ms'') 60000\<rparr>,
         rc_agent = agent,
         rc_backend = \<lparr>bc_kind = ac_backend agent\<rparr>,
         rc_codex = codex,
         rc_claude = claude,
         rc_tmux = parse_tmux E (root ''tmux''),
         rc_review = parse_review E review_lane_config claude codex,
         rc_merge_lane =
           \<lparr>mgl_max_concurrent_workers = workers_or_one (get_u64 merge_lane_config ''max_concurrent_workers''),
            mgl_agent_backend = unwrap_or (get_string merge_lane_config ''agent_backend'') ''codex''\<rparr>,
         rc_issue_templates = parse_issue_templates E (root ''issue_templates'') workflow_dir,
         rc_quality_gate = parse_quality_gate (root ''quality_gate''),
         rc_verification = parse_verification (root ''verification''),
         rc_profiles = parse_profiles E (root ''profiles'') workflow_dir,
         rc_runtime_profile = parse_runtime_profile E (root ''runtime_profile'') workflow_dir,
         rc_identity = parse_identity (root ''identity''),
         rc_artifacts = parse_artifacts E (root ''artifacts'') workflow_dir,
         rc_observability =
           \<lparr>obs_dashboard_enabled = unwrap_or (get_bool (root ''observability'') ''dashboard_enabled'') True,
            obs_refresh_ms = unwrap_or (get_u64 (root ''observability'') ''refresh_ms'') 1000,
            obs_render_interval_ms = unwrap_or (get_u64 (root ''observability'') ''render_interval_ms'') 16,
            obs_logs_root = resolve_path E (get_string (root ''observability'') ''logs_root'') workflow_dir ''log''\<rparr>,
         rc_server =
           \<lparr>srv_port = map_option ucast (get_u64 (root ''server'') ''port''),
            srv_host = unwrap_or (get_string (root ''server'') ''host'') ''127.0.0.1''\<rparr>,
         rc_raw = config\<rparr>)"

subsection \<open>Validation\<close>

definition clean_shell_token :: "string \<Rightarrow> string" where
  "clean_shell_token t = trim_matches (\<lambda>c. c \<in> {CHR 0x27, CHR 0x22, CHR '';''}) t"

definition is_env_assignment :: "string \<Rightarrow> bool" where
  "is_env_assignment t \<longleftrightarrow>
     (case split_once (CHR ''='') t of
        None \<Rightarrow> False
      | Some (name, v) \<Rightarrow> name \<noteq> [] \<and> list_all (\<lambda>c. c = CHR ''_'' \<or> is_ascii_alphanumeric c) name)"

definition is_codex_executable :: "string \<Rightarrow> bool" where
  "is_codex_executable t \<longleftrightarrow> file_name t = Some ''codex''"

definition codex_app_server_executable :: "string \<Rightarrow> string option" where
  "codex_app_server_executable command =
     (let tokens = filter (\<lambda>t. t \<noteq> []) (map clean_shell_token (split_whitespace command)) in
      case dropWhile (\<lambda>t. t \<in> {''env'', ''exec'', ''command''} \<or> is_env_assignment t) tokens of
        executable # first_arg # rest \<Rightarrow>
          (if is_codex_executable executable \<and> first_arg = ''app-server'' then Some executable else None)
      | _ \<Rightarrow> None)"

definition is_codex_app_server_command :: "string \<Rightarrow> bool" where
  "is_codex_app_server_command command \<longleftrightarrow> codex_app_server_executable command \<noteq> None"

text \<open>\<open>reject_unless\<close> is one early return; \<open>checks\<close> runs a list of them in order.\<close>

definition reject_unless :: "bool \<Rightarrow> ConfigError \<Rightarrow> (ConfigError, unit) result" where
  "reject_unless b e = (if b then Inr () else Inl e)"

primrec checks :: "(ConfigError, unit) result list \<Rightarrow> (ConfigError, unit) result" where
  "checks [] = Inr ()"
| "checks (c # cs) = and_then c (\<lambda>_. checks cs)"

definition require_positive :: "string \<Rightarrow> u64 \<Rightarrow> (ConfigError, unit) result" where
  "require_positive name v = (if v = 0 then Inl (Invalid (name @ '' must be positive'')) else Inr ())"

definition require_present :: "string \<Rightarrow> string option \<Rightarrow> (ConfigError, unit) result" where
  "require_present name v =
     (if filter_option (\<lambda>s. s \<noteq> []) (map_option trim v) \<noteq> None then Inr ()
      else Inl (Invalid (name @ '' is required'')))"

definition validate_backends :: "RuntimeConfig \<Rightarrow> (ConfigError, unit) result" where
  "validate_backends c =
     (let tmux = bc_kind (rc_backend c) = ''tmux'' in
      checks
        [reject_unless (tc_kind (rc_tracker c) \<in> {''github_project_v2'', ''linear'', ''memory''})
           (UnsupportedTracker (tc_kind (rc_tracker c))),
         reject_unless (bc_kind (rc_backend c) \<in> {''dry-run'', ''codex'', ''claude-code'', ''tmux''})
           (UnsupportedBackend (bc_kind (rc_backend c))),
         reject_unless (\<not> (tmux \<and> blank (tmx_session_prefix (rc_tmux c))))
           (Invalid ''tmux.session_prefix must not be empty''),
         reject_unless (\<not> (tmux \<and> blank (tmx_agent_command (rc_tmux c))))
           (Invalid ''tmux.agent_command must not be empty''),
         reject_unless
           (\<not> ((bc_kind (rc_backend c) = ''claude-code'' \<or> mgl_agent_backend (rc_merge_lane c) = ''claude-code'') \<and>
               blank (cld_command (rc_claude c))))
           (Invalid ''claude.command must not be empty when a lane selects claude-code''),
         reject_unless
           (rvw_backend (rc_review c) \<in>
              {''fake'', ''gemini-cli'', ''agy-cli'', ''codex-app-server'', ''claude-code''})
           (UnsupportedBackend (rvw_backend (rc_review c))),
         (if rvw_backend (rc_review c) = ''claude-code''
          then require_present ''review_lane.claude_command'' (Some (rvw_claude_command (rc_review c)))
          else Inr ())])"

definition validate_codex_review :: "ReviewConfig \<Rightarrow> (ConfigError, unit) result" where
  "validate_codex_review r =
     (if rvw_backend r \<noteq> ''codex-app-server'' then Inr ()
      else checks
        [require_present ''review_lane.codex_command'' (Some (rvw_codex_command r)),
         reject_unless (is_codex_app_server_command (rvw_codex_command r))
           (Invalid ''review_lane.codex_command must launch the Codex app-server subcommand''),
         reject_unless (as_str (rvw_codex_approval_policy r) = Some ''never'')
           (Invalid ''review_lane.codex_approval_policy must be never for codex-app-server review''),
         reject_unless (trim (rvw_codex_thread_sandbox r) \<in> {''read-only'', ''readOnly''})
           (Invalid ''review_lane.codex_thread_sandbox must be read-only for codex-app-server review''),
         (case rvw_codex_turn_sandbox_policy r of
            None \<Rightarrow> Inr ()
          | Some policy \<Rightarrow>
              reject_unless (Option.bind (json_get policy ''type'') as_str \<in> {Some ''readOnly'', Some ''read-only''})
                (Invalid ''review_lane.codex_turn_sandbox_policy.type must be readOnly when configured''))])"

definition validate_limits :: "RuntimeConfig \<Rightarrow> (ConfigError, unit) result" where
  "validate_limits c =
     (let llm = qgt_llm (rc_quality_gate c); te = rc_temporal c in
      checks
        [reject_unless (lqg_mode llm \<in> {''disabled'', ''advisory'', ''required''})
           (Invalid (''quality_gate.llm.mode must be disabled, advisory, or required; got '' @ lqg_mode llm)),
         (if lqg_mode llm = ''required'' then require_present ''quality_gate.llm.command'' (lqg_command llm)
          else Inr ()),
         require_positive ''polling.interval_ms'' (pc_interval_ms (rc_polling c)),
         require_present ''git.base_branch'' (Some (gc_base_branch (rc_git c))),
         require_present ''temporal.address'' (Some (tmp_address te)),
         require_present ''temporal.namespace'' (Some (tmp_namespace te)),
         require_present ''temporal.task_queues.core'' (Some (tmq_core (tmp_task_queues te))),
         require_present ''temporal.task_queues.agent'' (Some (tmq_agent (tmp_task_queues te))),
         require_present ''temporal.task_queues.local'' (Some (tmq_local (tmp_task_queues te))),
         require_positive ''temporal.worker.core_concurrency'' (of_nat (tmw_core_concurrency (tmp_worker te))),
         require_positive ''temporal.worker.agent_concurrency'' (of_nat (tmw_agent_concurrency (tmp_worker te))),
         require_positive ''temporal.worker.local_concurrency'' (of_nat (tmw_local_concurrency (tmp_worker te))),
         require_positive ''hooks.timeout_ms'' (hks_timeout_ms (rc_hooks c)),
         (case wrk_max_concurrent_agents_per_host (rc_worker c) of
            Some limit \<Rightarrow> reject_unless (\<not> limit \<le> 0)
              (Invalid ''worker.max_concurrent_agents_per_host must be positive'')
          | None \<Rightarrow> Inr ()),
         require_positive ''main_lane.max_concurrent_agents'' (of_nat (ac_max_concurrent_agents (rc_agent c))),
         require_positive ''main_lane.max_turns'' (ucast (ac_max_turns (rc_agent c))),
         require_positive ''main_lane.max_retry_backoff_ms'' (ac_max_retry_backoff_ms (rc_agent c)),
         require_positive ''review_lane.timeout_ms'' (rvw_timeout_ms (rc_review c)),
         require_positive ''claude.turn_timeout_ms'' (cld_turn_timeout_ms (rc_claude c)),
         require_positive ''review_lane.max_concurrent_workers'' (of_nat (rvw_max_concurrent_workers (rc_review c))),
         require_positive ''merge_lane.max_concurrent_workers'' (of_nat (mgl_max_concurrent_workers (rc_merge_lane c))),
         require_positive ''quality_gate.llm.timeout_ms'' (lqg_timeout_ms llm),
         require_positive ''verification.timeout_ms'' (vrf_timeout_ms (rc_verification c)),
         require_positive ''runtime_profile.timeout_ms'' (rtp_timeout_ms (rc_runtime_profile c))])"

definition validate_tracker :: "TrackerConfig \<Rightarrow> (ConfigError, unit) result" where
  "validate_tracker t =
     checks
       [(if tc_kind t = ''github_project_v2'' then
           checks
             [require_present ''tracker.owner'' (tc_owner t),
              require_present ''tracker.repo'' (tc_repo t),
              require_present ''tracker.project_owner'' (tc_project_owner t),
              (case tc_project_owner_type t of
                 None \<Rightarrow> Inr ()
               | Some owner_type \<Rightarrow>
                   (let other = to_ascii_lowercase (trim owner_type) in
                    reject_unless (other \<in> {''user'', ''organization''})
                      (Invalid (''tracker.project_owner_type must be user or organization; got '' @ other)))),
              reject_unless (tc_project_number t \<noteq> None)
                (Invalid ''tracker.project_number is required for github_project_v2'')]
         else Inr ()),
        (if tc_kind t = ''linear'' then
           checks
             [require_present ''tracker.project_slug'' (tc_project_slug t),
              (if tc_fixture_path t = None then require_present ''tracker.api_key'' (tc_api_key t) else Inr ())]
         else Inr ())]"

definition validate :: "RuntimeConfig \<Rightarrow> (ConfigError, unit) result" where
  "validate c =
     checks [validate_backends c, validate_codex_review (rc_review c), validate_limits c,
             validate_tracker (rc_tracker c)]"

subsection \<open>Facts: paths\<close>

lemma resolve_path_absolute: "is_absolute workflow_dir \<Longrightarrow> is_absolute (resolve_path E raw workflow_dir dflt)"
  by (simp add: resolve_path_def Let_def absolute_join)

lemma dropWhile_last:
  assumes "\<exists>c \<in> set xs. \<not> P c"
  shows "dropWhile P xs \<noteq> [] \<and> last (dropWhile P xs) = last xs"
  using assms by (induction xs) auto

lemma strip_path_end_last:
  "xs \<noteq> [] \<Longrightarrow> last xs = CHR ''/'' \<Longrightarrow> strip_path_end xs \<noteq> [] \<and> last (strip_path_end xs) = CHR ''/''"
  by (induction xs rule: strip_path_end.induct) auto

lemma absolute_rev: "is_absolute (rev xs) \<longleftrightarrow> xs \<noteq> [] \<and> last xs = CHR ''/''"
  by (cases xs rule: rev_cases) (auto simp: absolute_iff)

lemma path_parent_absolute:
  assumes "is_absolute p" "path_parent p = Some d"
  shows "is_absolute d"
proof -
  let ?r = "strip_path_end (rev p)"
  have "rev p \<noteq> []" "last (rev p) = CHR ''/''" using assms(1) absolute_rev [of "rev p"] by simp_all
  then have r: "?r \<noteq> []" "last ?r = CHR ''/''" using strip_path_end_last by blast+
  then have "\<exists>c \<in> set ?r. \<not> c \<noteq> CHR ''/''" using last_in_set by metis
  from dropWhile_last [OF this] r have
    "dropWhile (\<lambda>c. c \<noteq> CHR ''/'') ?r \<noteq> []" "last (dropWhile (\<lambda>c. c \<noteq> CHR ''/'') ?r) = CHR ''/''" by simp_all
  from strip_path_end_last [OF this] show ?thesis
    using assms(2) by (auto simp: path_parent_def Let_def absolute_rev split: if_splits)
qed

subsection \<open>Facts: validation\<close>

lemma checks_Inr: "checks cs = Inr () \<longleftrightarrow> list_all (\<lambda>c. c = Inr ()) cs"
  by (induction cs) (auto simp: and_then_Inr_iff)

declare checks.simps [simp del]

lemma reject_unless_Inr [simp]: "reject_unless b e = Inr () \<longleftrightarrow> b"
  by (simp add: reject_unless_def)

lemma require_positive_Inr [simp]: "require_positive name v = Inr () \<longleftrightarrow> v \<noteq> 0"
  by (simp add: require_positive_def)

lemma require_present_Inr [simp]:
  "require_present name v = Inr () \<longleftrightarrow> (\<exists>s. v = Some s \<and> \<not> blank s)"
  by (cases v) (auto simp: require_present_def)

lemma validate_Inr:
  "validate c = Inr () \<longleftrightarrow>
     validate_backends c = Inr () \<and> validate_codex_review (rc_review c) = Inr () \<and>
     validate_limits c = Inr () \<and> validate_tracker (rc_tracker c) = Inr ()"
  by (simp add: validate_def checks_Inr)

lemma codex_review_Inr:
  "validate_codex_review r = Inr () \<Longrightarrow> rvw_backend r = ''codex-app-server'' \<Longrightarrow>
     is_codex_app_server_command (rvw_codex_command r) \<and>
     rvw_codex_approval_policy r = String ''never'' \<and>
     trim (rvw_codex_thread_sandbox r) \<in> {''read-only'', ''readOnly''} \<and>
     (\<forall>policy. rvw_codex_turn_sandbox_policy r = Some policy \<longrightarrow>
        Option.bind (json_get policy ''type'') as_str \<in> {Some ''readOnly'', Some ''read-only''})"
  by (cases "rvw_codex_approval_policy r")
    (auto simp: validate_codex_review_def checks_Inr split: option.splits)

lemma limits_positive:
  assumes "validate_limits c = Inr ()"
  shows "pc_interval_ms (rc_polling c) \<noteq> 0" "(of_nat (ac_max_concurrent_agents (rc_agent c)) :: u64) \<noteq> 0"
    "ac_max_turns (rc_agent c) \<noteq> 0" "ac_max_retry_backoff_ms (rc_agent c) \<noteq> 0"
    "\<not> blank (gc_base_branch (rc_git c))"
proof -
  have "(ucast (ac_max_turns (rc_agent c)) :: u64) \<noteq> 0"
    using assms by (simp add: validate_limits_def checks_Inr Let_def)
  then show "ac_max_turns (rc_agent c) \<noteq> 0" by auto
qed (use assms in \<open>simp_all add: validate_limits_def checks_Inr Let_def\<close>)

subsection \<open>Facts: state limits\<close>

lemma state_limits_other:
  "k \<notin> set (map (\<lambda>(k, j). to_lowercase (trim k)) kvs) \<Longrightarrow>
   foldl (\<lambda>m (k, j). case as_u64 j of
            Some n \<Rightarrow> (if n > 0 then m(to_lowercase (trim k) \<mapsto> n) else m)
          | None \<Rightarrow> m) m kvs k = m k"
  by (induction kvs arbitrary: m) (auto split: option.splits prod.splits)

lemma state_limits_lookup:
  assumes "distinct (map (\<lambda>(k, j). to_lowercase (trim k)) kvs)" "(k, j) \<in> set kvs" "as_u64 j = Some n" "0 < n"
  shows "parse_state_limits (Some (Object kvs)) (to_lowercase (trim k)) = Some n"
proof -
  let ?f = "\<lambda>m (k, j). case as_u64 j of
            Some n \<Rightarrow> (if n > 0 then m(to_lowercase (trim k) \<mapsto> n) else m)
          | None \<Rightarrow> m"
  obtain xs ys where kvs: "kvs = xs @ (k, j) # ys" using assms(2) by (blast dest: split_list)
  with assms(1) have "to_lowercase (trim k) \<notin> set (map (\<lambda>(k, j). to_lowercase (trim k)) ys)" by auto
  from state_limits_other [OF this] show ?thesis
    using assms(3,4) by (simp add: parse_state_limits_def kvs)
qed

subsection \<open>Properties\<close>

text \<open>Every directory and file the configuration names is absolute when the workflow file is given by an
  absolute path, whatever the front matter, the environment variables and the home directory hold:
  a relative value, also one that an environment variable supplied, is taken from the directory of
  the workflow file.\<close>

theorem loaded_paths_absolute:
  assumes "is_absolute workflow_path" and "path_parent workflow_path \<noteq> None"
    and "from_workflow E config workflow_path = Inr c"
  shows "is_absolute (wsp_root (rc_workspace c)) \<and> is_absolute (art_root (rc_artifacts c)) \<and>
    is_absolute (obs_logs_root (rc_observability c)) \<and>
    pred_option is_absolute (tc_fixture_path (rc_tracker c)) \<and>
    pred_option is_absolute (ckt_codex_instances_path (pfs_cockpit_tools (rc_profiles c))) \<and>
    list_all (\<lambda>p. pred_option is_absolute (epf_user_data_dir p) \<and> pred_option is_absolute (epf_working_dir p))
      (pfs_entries (rc_profiles c)) \<and>
    is_absolute (rtp_path (rc_runtime_profile c))"
proof -
  obtain d where d: "path_parent workflow_path = Some d" using assms(2) by blast
  note abs = path_parent_absolute [OF assms(1) d]
  have "is_absolute (unwrap_or (path_parent d) d)"
    using abs path_parent_absolute [OF abs] by (cases "path_parent d") auto
  then have rp: "is_absolute (path_join (unwrap_or (path_parent d) d) ''runtime-profile.json'')"
    by (rule absolute_join)
  have prof: "pred_option is_absolute (epf_user_data_dir p) \<and> pred_option is_absolute (epf_working_dir p)"
    if "parse_execution_profile E d item = Some p" for item p
    using that resolve_path_absolute [OF abs]
    by (auto simp: parse_execution_profile_def pred_option_def)
  have profs: "list_all (\<lambda>p. pred_option is_absolute (epf_user_data_dir p) \<and> pred_option is_absolute (epf_working_dir p))
      (parse_execution_profiles E v d)" for v
    using prof
    by (cases "Option.bind v as_array") (auto simp: parse_execution_profiles_def list_all_iff map_filter_def)
  have opt: "pred_option is_absolute (map_option (\<lambda>p. resolve_path E (Some p) d []) x)" for x
    using resolve_path_absolute [OF abs] by (cases x) auto
  have rpath: "is_absolute (unwrap_or (map_option (\<lambda>p. resolve_path E (Some p) d []) x)
      (path_join (unwrap_or (path_parent d) d) ''runtime-profile.json''))" for x
    using resolve_path_absolute [OF abs] rp by (cases x) auto
  show ?thesis
    using assms(3) d resolve_path_absolute [OF abs] profs opt rpath
    by (auto simp: from_workflow_def parse_artifacts_def parse_tracker_def parse_profiles_def
        parse_runtime_profile_def Let_def)
qed

definition plain_env :: ConfigEnv where
  "plain_env = \<lparr>ce_var = [''HOME'' \<mapsto> ''home''], ce_temp_dir = ''/tmp'', ce_is_file = (\<lambda>p. False), ce_manifest_dir = ''/m''\<rparr>"

definition memory_workflow :: "(string \<times> json) list \<Rightarrow> json" where
  "memory_workflow sections = Object ((''tracker'', Object [(''kind'', String ''memory'')]) # sections)"

theorem loaded_paths_absolute_witness:
  "\<exists>c. from_workflow plain_env
         (memory_workflow [(''workspace'', Object [(''root'', String ''~/ws'')])]) ''/r/WORKFLOW.md'' = Inr c \<and>
       is_absolute (wsp_root (rc_workspace c)) \<and> is_absolute (art_root (rc_artifacts c))"
proof -
  let ?w = "memory_workflow [(''workspace'', Object [(''root'', String ''~/ws'')])]"
  obtain c where c: "from_workflow plain_env ?w ''/r/WORKFLOW.md'' = Inr c" by (simp add: from_workflow_def Let_def)
  have "is_absolute ''/r/WORKFLOW.md''" "path_parent ''/r/WORKFLOW.md'' \<noteq> None" by code_simp+
  from loaded_paths_absolute [OF this c] c show ?thesis by blast
qed

text \<open>The sections a workflow file leaves out never make its configuration invalid.\<close>

lemma from_workflow_fields:
  assumes "from_workflow E (Object m) path = Inr c"
  defines "dir \<equiv> unwrap_or (path_parent path) ''.''"
  shows "rc_tracker c = parse_tracker E (map_of m ''tracker'') dir"
    "rc_git c = parse_git (map_of m ''git'')" "rc_temporal c = parse_temporal (map_of m ''temporal'')"
    "pc_interval_ms (rc_polling c) = unwrap_or (get_u64 (map_of m ''polling'') ''interval_ms'') 30000"
    "rc_worker c = parse_worker (map_of m ''worker'')"
    "hks_timeout_ms (rc_hooks c) = unwrap_or (get_u64 (map_of m ''hooks'') ''timeout_ms'') 60000"
    "rc_agent c = parse_agent (or_else (map_of m ''main_lane'') (map_of m ''agent'')) (map_of m ''backend'')"
    "bc_kind (rc_backend c) = ac_backend (rc_agent c)"
    "rc_codex c = parse_codex (map_of m ''codex'')"
    "cld_command (rc_claude c) = unwrap_or (get_string (map_of m ''claude'') ''command'') ''claude''"
    "cld_turn_timeout_ms (rc_claude c) = unwrap_or (get_u64 (map_of m ''claude'') ''turn_timeout_ms'') 3600000"
    "rc_review c = parse_review E (or_else (map_of m ''review_lane'') (map_of m ''review'')) (rc_claude c) (rc_codex c)"
    "mgl_max_concurrent_workers (rc_merge_lane c) = workers_or_one (get_u64 (map_of m ''merge_lane'') ''max_concurrent_workers'')"
    "mgl_agent_backend (rc_merge_lane c) = unwrap_or (get_string (map_of m ''merge_lane'') ''agent_backend'') ''codex''"
    "rc_quality_gate c = parse_quality_gate (map_of m ''quality_gate'')"
    "rc_verification c = parse_verification (map_of m ''verification'')"
    "rc_runtime_profile c = parse_runtime_profile E (map_of m ''runtime_profile'') dir"
  using assms(1) unfolding dir_def from_workflow_def Let_def by auto

definition fixed_review :: "(string \<times> json) list \<Rightarrow> bool" where
  "fixed_review sections \<longleftrightarrow>
     sections \<in> {[], [(''review'', Object [(''backend'', String ''codex-app-server'')])]}"

lemma fixed_config_valid:
  assumes "fixed_review sections"
  shows "\<exists>c. from_workflow E (memory_workflow sections) path = Inr c \<and> validate c = Inr () \<and>
    rvw_backend (rc_review c) = (if sections = [] then ''fake'' else ''codex-app-server'')"
proof -
  obtain c where c: "from_workflow E (memory_workflow sections) path = Inr c" by (simp add: from_workflow_def Let_def)
  note f = from_workflow_fields [OF c [unfolded memory_workflow_def]]
  have none: "map_of sections k = None" if "k \<noteq> ''review''" for k
    using assms that by (auto simp: fixed_review_def)
  have review: "map_of sections ''review'' = (if sections = [] then None else Some (Object [(''backend'', String ''codex-app-server'')]))"
    using assms by (auto simp: fixed_review_def)
  note get = get_string_def get_value_def get_u64_def get_i64_def none review usize_or_def workers_or_one_def
  note parts = parse_tracker_def parse_agent_def parse_review_def parse_git_def parse_codex_def
    parse_temporal_def parse_quality_gate_def parse_verification_def parse_runtime_profile_def parse_worker_def
    resolve_command_token_def default_codex_app_server_command_def default_codex_approval_policy_def
    DEFAULT_GIT_BASE_BRANCH_def
  have blanks: "\<not> blank ''main''" "\<not> blank ''localhost:7233''" "\<not> blank ''default''" "\<not> blank ''symphony-core''"
    "\<not> blank ''symphony-agent''" "\<not> blank ''symphony-local''" "\<not> blank ''claude''"
    "\<not> blank DEFAULT_CODEX_COMMAND" "is_codex_app_server_command DEFAULT_CODEX_COMMAND" "trim ''read-only'' = ''read-only''"
    by code_simp+
  have backend: "rvw_backend (rc_review c) = (if sections = [] then ''fake'' else ''codex-app-server'')"
    by (simp add: f parts get)
  have rest: "bc_kind (rc_backend c) = ''dry-run''" "mgl_agent_backend (rc_merge_lane c) = ''codex''"
    "tc_kind (rc_tracker c) = ''memory''" "rvw_codex_command (rc_review c) = DEFAULT_CODEX_COMMAND"
    "rvw_codex_approval_policy (rc_review c) = String ''never''" "rvw_codex_thread_sandbox (rc_review c) = ''read-only''"
    "rvw_codex_turn_sandbox_policy (rc_review c) = None"
    by (simp_all add: f parts get Let_def)
  have "validate_backends c = Inr ()" "validate_tracker (rc_tracker c) = Inr ()"
    unfolding validate_backends_def validate_tracker_def checks_Inr Let_def rest backend by simp_all
  moreover have "validate_codex_review (rc_review c) = Inr ()"
    unfolding validate_codex_review_def backend rest using blanks by (simp add: checks_Inr)
  moreover have "validate_limits c = Inr ()"
    unfolding validate_limits_def checks_Inr Let_def using blanks by (simp add: f parts get Let_def)
  ultimately show ?thesis using c backend validate_Inr by blast
qed

lemma minimal_config_valid:
  "\<exists>c. from_workflow E (memory_workflow []) path = Inr c \<and> validate c = Inr ()"
  using fixed_config_valid [of "[]"] by (auto simp: fixed_review_def)

text \<open>The turn limit is cut to 32 bits before it is validated: a limit of 4294967297 loads as 1.\<close>

lemma max_turns_truncated:
  "\<exists>c. from_workflow E (memory_workflow [(''main_lane'', Object [(''max_turns'', Number 4294967297)])]) path = Inr c \<and>
     ac_max_turns (rc_agent c) = 1"
  by (simp add: from_workflow_def Let_def memory_workflow_def parse_agent_def get_u64_def get_value_def)

text \<open>The server port is cut to 16 bits: port 70000 loads as 4464.\<close>

lemma port_truncated:
  "\<exists>c. from_workflow E (memory_workflow [(''server'', Object [(''port'', Number 70000)])]) path = Inr c \<and>
     srv_port (rc_server c) = Some 4464"
  by (simp add: from_workflow_def Let_def memory_workflow_def get_u64_def get_value_def)

text \<open>C24: A validated configuration whose review lane runs Codex can only run it read-only and
  unattended: the command starts the \<^verbatim>\<open>codex\<close> executable with \<^verbatim>\<open>app-server\<close>, the approval policy
  is \<^verbatim>\<open>never\<close>, and both sandbox settings, where given, are read-only; and every validated
  configuration polls, dispatches and retries with positive limits.\<close>

theorem validated_config_safe:
  assumes "validate c = Inr ()"
  shows "(rvw_backend (rc_review c) = ''codex-app-server'' \<longrightarrow>
       (\<exists>command. codex_app_server_executable (rvw_codex_command (rc_review c)) = Some command \<and>
          file_name command = Some ''codex'') \<and>
       rvw_codex_approval_policy (rc_review c) = String ''never'' \<and>
       trim (rvw_codex_thread_sandbox (rc_review c)) \<in> {''read-only'', ''readOnly''} \<and>
       (\<forall>policy. rvw_codex_turn_sandbox_policy (rc_review c) = Some policy \<longrightarrow>
          Option.bind (json_get policy ''type'') as_str \<in> {Some ''readOnly'', Some ''read-only''})) \<and>
    pc_interval_ms (rc_polling c) \<noteq> 0 \<and> ac_max_turns (rc_agent c) \<noteq> 0 \<and>
    ac_max_retry_backoff_ms (rc_agent c) \<noteq> 0 \<and> ac_max_concurrent_agents (rc_agent c) \<noteq> 0"
proof -
  have "codex_app_server_executable s = Some e \<Longrightarrow> file_name e = Some ''codex''" for s e
    by (auto simp: codex_app_server_executable_def is_codex_executable_def Let_def split: list.splits if_splits)
  moreover have "ac_max_concurrent_agents (rc_agent c) \<noteq> 0"
    using limits_positive(2) [of c] assms validate_Inr [of c] by (auto intro: ccontr)
  ultimately show ?thesis
    using assms codex_review_Inr [of "rc_review c"] limits_positive [of c]
    unfolding validate_Inr is_codex_app_server_command_def by blast
qed

theorem validated_config_safe_witness:
  "\<exists>c. from_workflow plain_env (memory_workflow [(''review'', Object [(''backend'', String ''codex-app-server'')])])
         ''/r/WORKFLOW.md'' = Inr c \<and>
       rvw_codex_approval_policy (rc_review c) = String ''never'' \<and> ac_max_turns (rc_agent c) \<noteq> 0"
proof -
  obtain c where c: "from_workflow plain_env
      (memory_workflow [(''review'', Object [(''backend'', String ''codex-app-server'')])]) ''/r/WORKFLOW.md'' = Inr c"
    "validate c = Inr ()" "rvw_backend (rc_review c) = ''codex-app-server''"
    using fixed_config_valid [of "[(''review'', Object [(''backend'', String ''codex-app-server'')])]"]
    by (auto simp: fixed_review_def)
  from validated_config_safe [OF c(2)] c show ?thesis by blast
qed

end
