(* ===== verification/Effects.thy ===== *)
theory Effects
  imports Prelude
begin

section \<open>Effects\<close>

text \<open>
  Functions that read and change the world around the program and may fail: a world goes in, a
  result and a world come out. \<open>bindE\<close> is sequencing with the \<^verbatim>\<open>?\<close> operator, \<open>forE\<close> a \<^verbatim>\<open>for\<close>
  loop over a list with mutable locals whose body may return an error. The operations of the
  world (tracker, file system, processes, clock) are arguments of the definitions that use
  them. \<open>returns m Q\<close> states what holds of every value \<open>m\<close> returns, \<open>keeps m P\<close> that
  \<open>m\<close> preserves a property of the world, also when it fails.
\<close>

type_synonym ('w, 'e, 'a) io = "'w \<Rightarrow> ('e, 'a) result \<times> 'w"

definition returnE :: "'a \<Rightarrow> ('w, 'e, 'a) io" where
  "returnE a w = (Inr a, w)"

definition failE :: "'e \<Rightarrow> ('w, 'e, 'a) io" where
  "failE e w = (Inl e, w)"

definition bindE :: "('w, 'e, 'a) io \<Rightarrow> ('a \<Rightarrow> ('w, 'e, 'b) io) \<Rightarrow> ('w, 'e, 'b) io" where
  "bindE m f w = (case m w of (Inl e, w') \<Rightarrow> (Inl e, w') | (Inr a, w') \<Rightarrow> f a w')"

text \<open>A pure result in sequence, the result of an operation as a value (\<^verbatim>\<open>match\<close> on it), and an
  error translated.\<close>

definition liftE :: "('e, 'a) result \<Rightarrow> ('w, 'e, 'a) io" where
  "liftE r w = (r, w)"

definition tryE :: "('w, 'f, 'a) io \<Rightarrow> ('w, 'e, ('f, 'a) result) io" where
  "tryE m w = (case m w of (r, w') \<Rightarrow> (Inr r, w'))"

definition map_errE :: "('f \<Rightarrow> 'e) \<Rightarrow> ('w, 'f, 'a) io \<Rightarrow> ('w, 'e, 'a) io" where
  "map_errE f m w = (case m w of (Inl e, w') \<Rightarrow> (Inl (f e), w') | (Inr a, w') \<Rightarrow> (Inr a, w'))"

fun forE :: "('a \<Rightarrow> 's \<Rightarrow> ('w, 'e, 's) io) \<Rightarrow> 'a list \<Rightarrow> 's \<Rightarrow> ('w, 'e, 's) io" where
  "forE f [] s = returnE s"
| "forE f (x # xs) s = bindE (f x s) (forE f xs)"

subsection \<open>Laws\<close>

lemma bindE_return [simp]: "bindE (returnE a) f = f a"
  by (simp add: bindE_def returnE_def fun_eq_iff)

lemma return_bindE [simp]: "bindE m returnE = m"
  by (auto simp: bindE_def returnE_def fun_eq_iff split: prod.splits sum.splits)

lemma bindE_assoc: "bindE (bindE m f) g = bindE m (\<lambda>a. bindE (f a) g)"
  by (auto simp: bindE_def fun_eq_iff split: prod.splits sum.splits)

lemma bindE_fail [simp]: "bindE (failE e) f = failE e"
  by (simp add: bindE_def failE_def fun_eq_iff)

lemma forE_append: "forE f (xs @ ys) s = bindE (forE f xs s) (forE f ys)"
proof (induction xs arbitrary: s)
  case (Cons x xs)
  then have "forE f (xs @ ys) = (\<lambda>s. bindE (forE f xs s) (forE f ys))" by (rule ext)
  then show ?case by (simp add: bindE_assoc)
qed simp

lemma bindE_Inr: "bindE m f w = (Inr b, w'') \<longleftrightarrow> (\<exists>a w'. m w = (Inr a, w') \<and> f a w' = (Inr b, w''))"
  by (cases "m w"; cases "fst (m w)") (auto simp: bindE_def)

lemma returnE_eq [simp]: "returnE a w = (r, w') \<longleftrightarrow> r = Inr a \<and> w' = w"
  by (auto simp: returnE_def)

lemma failE_eq [simp]: "failE e w = (r, w') \<longleftrightarrow> r = Inl e \<and> w' = w"
  by (auto simp: failE_def)

lemma liftE_eq [simp]: "liftE x w = (r, w') \<longleftrightarrow> r = x \<and> w' = w"
  by (auto simp: liftE_def)

lemma map_errE_files:
  "map_errE f m w = (r, w') \<Longrightarrow> \<exists>r0. m w = (r0, w') \<and> (case r of Inl e \<Rightarrow> \<exists>e0. r0 = Inl e0 | Inr a \<Rightarrow> r0 = Inr a)"
  by (auto simp: map_errE_def split: prod.splits sum.splits)

subsection \<open>What is returned\<close>

definition returns :: "('w, 'e, 'a) io \<Rightarrow> ('a \<Rightarrow> bool) \<Rightarrow> bool" where
  "returns m Q \<longleftrightarrow> (\<forall>w a w'. m w = (Inr a, w') \<longrightarrow> Q a)"

named_theorems returns_rules

lemma returnsD: "returns m Q \<Longrightarrow> m w = (Inr a, w') \<Longrightarrow> Q a"
  by (auto simp: returns_def)

lemma returns_return [returns_rules]: "Q a \<Longrightarrow> returns (returnE a) Q"
  by (simp add: returns_def)

lemma returns_fail [returns_rules]: "returns (failE e) Q"
  by (simp add: returns_def)

lemma returns_lift [returns_rules]: "(\<And>a. r = Inr a \<Longrightarrow> Q a) \<Longrightarrow> returns (liftE r) Q"
  by (auto simp: returns_def)

lemma returns_bind:
  "returns m Q \<Longrightarrow> (\<And>a. Q a \<Longrightarrow> returns (f a) R) \<Longrightarrow> returns (bindE m f) R"
  by (auto simp: returns_def bindE_Inr) blast

text \<open>When nothing needs to be known of the first value.\<close>

lemma returns_bind_any [returns_rules]: "(\<And>a. returns (f a) R) \<Longrightarrow> returns (bindE m f) R"
  by (rule returns_bind [where Q = "\<lambda>_. True"]) (auto simp: returns_def)

lemma returns_weaken: "returns m Q \<Longrightarrow> (\<And>a. Q a \<Longrightarrow> R a) \<Longrightarrow> returns m R"
  by (auto simp: returns_def)

lemma returns_try: "returns m Q \<Longrightarrow> returns (tryE m) (\<lambda>r. \<forall>a. r = Inr a \<longrightarrow> Q a)"
  by (auto simp: returns_def tryE_def split: prod.splits)

lemma returns_if [returns_rules]:
  "(b \<Longrightarrow> returns m Q) \<Longrightarrow> (\<not> b \<Longrightarrow> returns n Q) \<Longrightarrow> returns (if b then m else n) Q"
  by simp

lemma returns_option [returns_rules]:
  "(x = None \<Longrightarrow> returns m Q) \<Longrightarrow> (\<And>a. x = Some a \<Longrightarrow> returns (f a) Q) \<Longrightarrow>
   returns (case x of None \<Rightarrow> m | Some a \<Rightarrow> f a) Q"
  by (cases x) simp_all

lemma returns_result [returns_rules]:
  "(\<And>e. x = Inl e \<Longrightarrow> returns (f e) Q) \<Longrightarrow> (\<And>a. x = Inr a \<Longrightarrow> returns (g a) Q) \<Longrightarrow>
   returns (case x of Inl e \<Rightarrow> f e | Inr a \<Rightarrow> g a) Q"
  by (cases x) simp_all

lemma returns_for:
  assumes "I [] s"
    and "\<And>ys x zs s. xs = ys @ x # zs \<Longrightarrow> I ys s \<Longrightarrow> returns (f x s) (I (ys @ [x]))"
  shows "returns (forE f xs s) (I xs)"
proof -
  have "returns (forE f zs s) (I xs)" if "xs = ys @ zs" "I ys s" for ys zs s
    using that
  proof (induction zs arbitrary: ys s)
    case (Cons x zs)
    show ?case
      unfolding forE.simps
    proof (rule returns_bind)
      show "returns (f x s) (I (ys @ [x]))" by (rule assms(2)) (use Cons.prems in simp_all)
      show "returns (forE f zs t) (I xs)" if "I (ys @ [x]) t" for t
        by (rule Cons.IH) (use Cons.prems that in simp_all)
    qed
  qed (simp add: returns_return)
  from this [of "[]"] assms(1) show ?thesis by simp
qed

subsection \<open>What is kept\<close>

definition keeps :: "('w, 'e, 'a) io \<Rightarrow> ('w \<Rightarrow> bool) \<Rightarrow> bool" where
  "keeps m P \<longleftrightarrow> (\<forall>w r w'. P w \<longrightarrow> m w = (r, w') \<longrightarrow> P w')"

lemma keeps_return: "keeps (returnE a) P"
  by (simp add: keeps_def)

lemma keeps_bind:
  assumes "keeps m P" "\<And>a. keeps (f a) P"
  shows "keeps (bindE m f) P"
  unfolding keeps_def
proof (intro allI impI)
  fix w r w' assume "P w" and b: "bindE m f w = (r, w')"
  obtain q v where m: "m w = (q, v)" by (cases "m w")
  then have "P v" using assms(1) \<open>P w\<close> by (auto simp: keeps_def)
  then show "P w'" using b m assms(2) by (cases q) (auto simp: bindE_def keeps_def)
qed

lemma keeps_for: "(\<And>x s. keeps (f x s) P) \<Longrightarrow> keeps (forE f xs s) P"
  by (induction xs arbitrary: s) (auto intro: keeps_bind keeps_return)

subsection \<open>Triples\<close>

text \<open>From a world that satisfies \<open>P\<close>, a returned value satisfies \<open>Q\<close> with the world it leaves, and a
  failure leaves a world that satisfies \<open>X\<close>.\<close>

definition valid :: "('w \<Rightarrow> bool) \<Rightarrow> ('w, 'e, 'a) io \<Rightarrow> ('a \<Rightarrow> 'w \<Rightarrow> bool) \<Rightarrow> ('w \<Rightarrow> bool) \<Rightarrow> bool" where
  "valid P m Q X \<longleftrightarrow>
     (\<forall>w r w'. P w \<longrightarrow> m w = (r, w') \<longrightarrow> (case r of Inl _ \<Rightarrow> X w' | Inr a \<Rightarrow> Q a w'))"

lemma valid_return: "(\<And>w. P w \<Longrightarrow> Q a w) \<Longrightarrow> valid P (returnE a) Q X"
  by (simp add: valid_def)

lemma valid_fail: "(\<And>w. P w \<Longrightarrow> X w) \<Longrightarrow> valid P (failE e) Q X"
  by (simp add: valid_def)

lemma valid_lift: "(\<And>w. P w \<Longrightarrow> X w) \<Longrightarrow> (\<And>a w. r = Inr a \<Longrightarrow> P w \<Longrightarrow> Q a w) \<Longrightarrow> valid P (liftE r) Q X"
  by (auto simp: valid_def split: sum.splits)

lemma validD:
  assumes "valid P m Q X" "P w"
  shows "m w = (Inl e, w') \<Longrightarrow> X w'" "m w = (Inr a, w') \<Longrightarrow> Q a w'"
  using assms unfolding valid_def by fastforce+

lemma valid_bind:
  assumes m: "valid P m M X" and f: "\<And>a. valid (M a) (f a) Q X"
  shows "valid P (bindE m f) Q X"
  unfolding valid_def
proof (intro allI impI)
  fix w r w' assume P: "P w" and b: "bindE m f w = (r, w')"
  obtain q v where q: "m w = (q, v)" by (cases "m w")
  show "case r of Inl _ \<Rightarrow> X w' | Inr a \<Rightarrow> Q a w'"
  proof (cases q)
    case (Inl e)
    then show ?thesis using b q validD(1) [OF m P] by (auto simp: bindE_def)
  next
    case (Inr a)
    then have "M a v" "f a v = (r, w')" using q b validD(2) [OF m P] by (auto simp: bindE_def)
    then show ?thesis using f [of a] unfolding valid_def by blast
  qed
qed

lemma valid_if: "(b \<Longrightarrow> valid P m Q X) \<Longrightarrow> (\<not> b \<Longrightarrow> valid P n Q X) \<Longrightarrow> valid P (if b then m else n) Q X"
  by simp

lemma valid_pre: "valid P m Q X \<Longrightarrow> (\<And>w. P' w \<Longrightarrow> P w) \<Longrightarrow> valid P' m Q X"
  by (auto simp: valid_def)

lemma valid_post:
  assumes "valid P m Q X" "\<And>a w. Q a w \<Longrightarrow> Q' a w" "\<And>w. X w \<Longrightarrow> X' w"
  shows "valid P m Q' X'"
  unfolding valid_def
proof (intro allI impI)
  fix w r w' assume "P w" "m w = (r, w')"
  then have "case r of Inl _ \<Rightarrow> X w' | Inr a \<Rightarrow> Q a w'" using assms(1) unfolding valid_def by blast
  then show "case r of Inl _ \<Rightarrow> X' w' | Inr a \<Rightarrow> Q' a w'" using assms(2,3) by (cases r) simp_all
qed

lemma valid_keeps: "keeps m P \<Longrightarrow> valid P m (\<lambda>_. P) P"
  by (fastforce simp: keeps_def valid_def split: sum.splits)

lemma keeps_valid: "valid P m (\<lambda>_. P) P \<Longrightarrow> keeps m P"
  unfolding valid_def keeps_def by (metis (mono_tags, lifting) sum.case_eq_if)

lemma keeps_fail: "keeps (failE e) P"
  by (simp add: keeps_def)

lemma keeps_if: "(b \<Longrightarrow> keeps m P) \<Longrightarrow> (\<not> b \<Longrightarrow> keeps n P) \<Longrightarrow> keeps (if b then m else n) P"
  by simp

lemma keeps_try: "keeps m P \<Longrightarrow> keeps (tryE m) P"
  by (fastforce simp: keeps_def tryE_def split: prod.splits)

lemma keeps_lift: "keeps (liftE r) P"
  by (simp add: keeps_def)

end
