(* ===== verification/Serde.thy ===== *)
theory Serde
  imports Prelude "HOL-Library.Multiset" "HOL-Library.List_Lexorder" "HOL-Library.Char_ord"
begin

section \<open>Structs as JSON\<close>

text \<open>
  What serde's derived code does with the structs the program persists: a struct is an object
  with one entry per field, fields marked \<^verbatim>\<open>skip_serializing_if = "Option::is_none"\<close> are left
  out when absent, an absent or \<^verbatim>\<open>null\<close> entry reads as \<^verbatim>\<open>None\<close> for an optional field and as an
  error for any other one without a default, and unknown entries are ignored. Decoders return
  \<^term>\<open>None\<close> for any error, whose text is the library's. The array form of a struct, which the
  derived code also reads but never writes, is not modelled.

  Printing a value and parsing it again, both arguments of the model, gives the same value with
  the entries of every object in the order of their names: \<open>canon\<close>.
\<close>

fun canon :: "json \<Rightarrow> json" where
  "canon (Array vs) = Array (map canon vs)"
| "canon (Object kvs) = Object (sort_key fst (map (\<lambda>(k, v). (k, canon v)) kvs))"
| "canon v = v"

definition json_text_ok :: "(json \<Rightarrow> string) \<Rightarrow> (string \<Rightarrow> json option) \<Rightarrow> bool" where
  "json_text_ok print parse \<longleftrightarrow> (\<forall>v. parse (print v) = Some (canon v))"

subsection \<open>Writing\<close>

definition struct :: "(string \<times> json option) list \<Rightarrow> json" where
  "struct fs = Object (List.map_filter (\<lambda>(k, v). map_option (Pair k) v) fs)"

text \<open>An optional field that is always written, and one that is left out when absent.\<close>

definition nullable :: "('a \<Rightarrow> json) \<Rightarrow> 'a option \<Rightarrow> json option" where
  "nullable enc v = Some (case v of None \<Rightarrow> Null | Some a \<Rightarrow> enc a)"

definition skipped :: "('a \<Rightarrow> json) \<Rightarrow> 'a option \<Rightarrow> json option" where
  "skipped enc v = map_option enc v"

definition enc_word :: "'a::len word \<Rightarrow> json" where
  "enc_word w = Number (uint w)"

subsection \<open>Reading\<close>

definition req :: "(json \<Rightarrow> 'a option) \<Rightarrow> json \<Rightarrow> string \<Rightarrow> 'a option" where
  "req dec v k = Option.bind (json_get v k) dec"

definition opt :: "(json \<Rightarrow> 'a option) \<Rightarrow> json \<Rightarrow> string \<Rightarrow> 'a option option" where
  "opt dec v k =
     (case json_get v k of
        None \<Rightarrow> Some None
      | Some j \<Rightarrow> (if j = Null then Some None else map_option Some (dec j)))"

definition with_default :: "'a \<Rightarrow> (json \<Rightarrow> 'a option) \<Rightarrow> json \<Rightarrow> string \<Rightarrow> 'a option" where
  "with_default d dec v k = (case json_get v k of None \<Rightarrow> Some d | Some j \<Rightarrow> dec j)"

fun dec_word :: "json \<Rightarrow> 'a::len word option" where
  "dec_word (Number n) = (if 0 \<le> n \<and> n < 2 ^ LENGTH('a) then Some (word_of_int n) else None)"
| "dec_word _ = None"

fun all_some :: "'a option list \<Rightarrow> 'a list option" where
  "all_some [] = Some []"
| "all_some (x # xs) = Option.bind x (\<lambda>a. map_option ((#) a) (all_some xs))"

definition dec_list :: "(json \<Rightarrow> 'a option) \<Rightarrow> json \<Rightarrow> 'a list option" where
  "dec_list dec v = Option.bind (as_array v) (\<lambda>vs. all_some (map dec vs))"

subsection \<open>Facts\<close>

lemma map_of_sort_key: "distinct (map fst kvs) \<Longrightarrow> map_of (sort_key fst kvs) k = map_of kvs k"
proof -
  assume d: "distinct (map fst kvs)"
  have "mset (map fst (sort_key fst kvs)) = mset (map fst kvs)" by simp
  then have "distinct (map fst (sort_key fst kvs))" using d mset_eq_imp_distinct_iff by blast
  moreover have "set (sort_key fst kvs) = set kvs" by simp
  ultimately show ?thesis using d by (metis map_of_eq_Some_iff option.exhaust)
qed

lemma struct_keys: "set (map fst (List.map_filter (\<lambda>(k, v). map_option (Pair k) v) fs)) \<subseteq> set (map fst fs)"
  by (induction fs) (auto simp: map_filter_simps split: option.splits)

lemma struct_distinct:
  "distinct (map fst fs) \<Longrightarrow> distinct (map fst (List.map_filter (\<lambda>(k, v). map_option (Pair k) v) fs))"
proof (induction fs)
  case (Cons f fs)
  obtain k v where f: "f = (k, v)" by (cases f)
  show ?case using Cons struct_keys [of fs] unfolding f by (cases v) (auto simp: map_filter_simps)
qed (simp add: map_filter_simps)

lemma map_of_struct:
  "distinct (map fst fs) \<Longrightarrow>
   map_of (List.map_filter (\<lambda>(k, v). map_option (Pair k) v) fs) k = Option.bind (map_of fs k) id"
proof (induction fs)
  case (Cons f fs)
  obtain k' v where f: "f = (k', v)" by (cases f)
  have "k' \<notin> fst ` set fs" using Cons.prems f by simp
  then have "map_of fs k' = None" by (simp add: map_of_eq_None_iff)
  then show ?case using Cons unfolding f by (cases v) (auto simp: map_filter_simps)
qed (simp add: map_filter_simps)

lemma map_fst_canon: "map fst (map (\<lambda>(k, v). (k, canon v)) kvs) = map fst kvs"
  by (induction kvs) auto

lemma map_of_canon: "map_of (map (\<lambda>(k, v). (k, canon v)) kvs) k = map_option canon (map_of kvs k)"
  by (induction kvs) auto

lemma json_get_struct [simp]:
  "distinct (map fst fs) \<Longrightarrow> json_get (canon (struct fs)) k = map_option canon (Option.bind (map_of fs k) id)"
  unfolding struct_def canon.simps json_get.simps
  by (subst map_of_sort_key) (simp_all only: map_fst_canon map_of_canon map_of_struct struct_distinct)

lemma canon_struct_not_Null [simp]: "canon (struct fs) \<noteq> Null" "struct fs \<noteq> Null"
  by (simp_all add: struct_def)

lemma dec_enc_word [simp]: "dec_word (enc_word w) = Some w" "canon (enc_word w) = enc_word w" "enc_word w \<noteq> Null"
  by (simp_all add: enc_word_def)

lemma all_some_map: "(\<And>a. a \<in> set as \<Longrightarrow> f a = Some (g a)) \<Longrightarrow> all_some (map f as) = Some (map g as)"
  by (induction as) auto

lemma all_some_Some: "all_some xs = Some as \<Longrightarrow> xs = map Some as"
  by (induction xs arbitrary: as) (auto simp: bind_eq_Some_conv)

text \<open>Reading back the fields of a written struct.\<close>

lemma req_struct:
  "distinct (map fst fs) \<Longrightarrow> map_of fs k = Some (Some j) \<Longrightarrow> req dec (canon (struct fs)) k = dec (canon j)"
  by (simp add: req_def)

lemma opt_nullable:
  "distinct (map fst fs) \<Longrightarrow> map_of fs k = Some (nullable enc v) \<Longrightarrow>
   (\<And>a. dec (canon (enc a)) = Some a \<and> canon (enc a) \<noteq> Null) \<Longrightarrow> opt dec (canon (struct fs)) k = Some v"
  by (cases v) (auto simp: opt_def nullable_def)

lemma opt_skipped:
  "distinct (map fst fs) \<Longrightarrow> map_of fs k = Some (skipped enc v) \<Longrightarrow>
   (\<And>a. dec (canon (enc a)) = Some a \<and> canon (enc a) \<noteq> Null) \<Longrightarrow> opt dec (canon (struct fs)) k = Some v"
  by (cases v) (auto simp: opt_def skipped_def)

end
