(* ===== verification/File_System.thy ===== *)
theory File_System
  imports Effects Paths
begin

section \<open>Files\<close>

text \<open>
  The calls of \<^verbatim>\<open>std::fs\<close> that the persisted stores use, on a map from paths to contents. Any
  call can fail: the world carries the faults of the coming calls, one entry per call, and an
  exhausted list means no fault. A failed write may leave a part of the text in the file. The
  counter behind unique temporary names and the process identifier are part of the world.
  Directories and permissions are not modelled: creating a directory only may fail.
\<close>

datatype io_error = NotFound | OtherError string

datatype fault = Fault string "string option"

record fs =
  fs_files :: "string \<Rightarrow> string option"
  fs_faults :: "fault option list"
  fs_temp_counter :: u64
  fs_process_id :: u32

definition next_fault :: "'m fs_scheme \<Rightarrow> fault option \<times> 'm fs_scheme" where
  "next_fault w =
     (case fs_faults w of [] \<Rightarrow> (None, w) | f # fs \<Rightarrow> (f, w\<lparr>fs_faults := fs\<rparr>))"

definition read_to_string :: "string \<Rightarrow> ('m fs_scheme, io_error, string) io" where
  "read_to_string p w =
     (case next_fault w of
        (Some (Fault e _), w') \<Rightarrow> (Inl (OtherError e), w')
      | (None, w') \<Rightarrow> (case fs_files w' p of None \<Rightarrow> (Inl NotFound, w') | Some c \<Rightarrow> (Inr c, w')))"

definition create_dir_all :: "string \<Rightarrow> ('m fs_scheme, io_error, unit) io" where
  "create_dir_all p w =
     (case next_fault w of
        (Some (Fault e _), w') \<Rightarrow> (Inl (OtherError e), w')
      | (None, w') \<Rightarrow> (Inr (), w'))"

definition write_file :: "string \<Rightarrow> string \<Rightarrow> ('m fs_scheme, io_error, unit) io" where
  "write_file p content w =
     (case next_fault w of
        (Some (Fault e partial), w') \<Rightarrow>
          (Inl (OtherError e),
           case partial of None \<Rightarrow> w' | Some t \<Rightarrow> w'\<lparr>fs_files := (fs_files w')(p \<mapsto> t)\<rparr>)
      | (None, w') \<Rightarrow> (Inr (), w'\<lparr>fs_files := (fs_files w')(p \<mapsto> content)\<rparr>))"

definition rename :: "string \<Rightarrow> string \<Rightarrow> ('m fs_scheme, io_error, unit) io" where
  "rename a b w =
     (case next_fault w of
        (Some (Fault e _), w') \<Rightarrow> (Inl (OtherError e), w')
      | (None, w') \<Rightarrow>
          (case fs_files w' a of
             None \<Rightarrow> (Inl NotFound, w')
           | Some c \<Rightarrow> (Inr (), w'\<lparr>fs_files := ((fs_files w')(a := None))(b \<mapsto> c)\<rparr>)))"

definition remove_file :: "string \<Rightarrow> ('m fs_scheme, io_error, unit) io" where
  "remove_file p w =
     (case next_fault w of
        (Some (Fault e _), w') \<Rightarrow> (Inl (OtherError e), w')
      | (None, w') \<Rightarrow>
          (case fs_files w' p of
             None \<Rightarrow> (Inl NotFound, w')
           | Some c \<Rightarrow> (Inr (), w'\<lparr>fs_files := (fs_files w')(p := None)\<rparr>)))"

subsection \<open>Replacing a file through a temporary one\<close>

text \<open>\<^verbatim>\<open>unique_runtime_state_temp_path\<close> and \<^verbatim>\<open>unique_session_registry_temp_path\<close>, which differ in the
  name they fall back to; the counter is taken before the name is built and wraps.\<close>

definition unique_temp_path :: "string \<Rightarrow> string \<Rightarrow> ('m fs_scheme, io_error, string) io" where
  "unique_temp_path fallback path w =
     (let counter = fs_temp_counter w; filename = unwrap_or (file_name path) fallback in
      (Inr (with_file_name path
         (filename @ ''.'' @ show_nat (unat (fs_process_id w)) @ ''.'' @ show_nat (unat counter) @ ''.tmp'')),
       w\<lparr>fs_temp_counter := counter + 1\<rparr>))"

text \<open>Creating the directory, writing the temporary file and renaming it over the target.\<close>

definition replace_file :: "string \<Rightarrow> string \<Rightarrow> string \<Rightarrow> ('m fs_scheme, io_error, unit) io" where
  "replace_file fallback path content =
     bindE (case path_parent path of None \<Rightarrow> returnE () | Some parent \<Rightarrow> create_dir_all parent) (\<lambda>_.
     bindE (unique_temp_path fallback path) (\<lambda>temp_path.
     bindE (write_file temp_path content) (\<lambda>_.
     rename temp_path path)))"

subsection \<open>Facts: names\<close>

lemma strip_path_end_id: "c \<noteq> CHR ''/'' \<Longrightarrow> c \<noteq> CHR ''.'' \<Longrightarrow> strip_path_end (c # r) = c # r"
  by (cases r) auto

lemma file_name_join:
  assumes "n \<noteq> []" "CHR ''/'' \<notin> set n" "last n \<noteq> CHR ''.''" "n \<notin> {''.'', ''..''}"
  shows "file_name (path_join d n) = Some n"
proof -
  obtain r c where r: "rev n = c # r" using assms(1) by (cases "rev n") auto
  then have c: "c \<noteq> CHR ''/''" "c \<noteq> CHR ''.''" using assms(2,3) by (auto simp: rev_swap)
  have "\<not> is_absolute n" using assms(1,2) by (auto simp: absolute_iff)
  then obtain q where q: "rev (path_join d n) = rev n @ q" "q = [] \<or> hd q = CHR ''/''"
    by (cases "d = []"; cases "last d = CHR ''/''")
      (auto simp: path_join_def hd_rev intro!: that)
  have "\<And>c. c \<in> set (rev n) \<Longrightarrow> c \<noteq> CHR ''/''" using assms(2) by auto
  from takeWhile_append2 [of "rev n" "\<lambda>c. c \<noteq> CHR ''/''", OF this]
  have "takeWhile (\<lambda>c. c \<noteq> CHR ''/'') (rev n @ q) = rev n"
    using q(2) assms(2) by (cases q) auto
  moreover have "strip_path_end (rev n @ q) = rev n @ q"
    using strip_path_end_id [OF c] by (simp add: r)
  ultimately show ?thesis using q(1) assms(1,4) by (simp add: file_name_def)
qed

lemma file_name_no_slash: "file_name p = Some f \<Longrightarrow> CHR ''/'' \<notin> set f"
  by (auto simp: file_name_def Let_def dest: set_takeWhileD split: if_splits)

text \<open>The temporary file is never the target.\<close>

lemma temp_path_differs:
  assumes "unique_temp_path fallback path w = (Inr t, w')" and "CHR ''/'' \<notin> set fallback"
  shows "t \<noteq> path"
proof
  define f where "f = unwrap_or (file_name path) fallback"
  let ?n = "f @ ''.'' @ show_nat (unat (fs_process_id w)) @ ''.'' @ show_nat (unat (fs_temp_counter w)) @ ''.tmp''"
  have t: "t = path_join (unwrap_or (path_parent path) []) ?n"
    using assms(1) by (simp add: unique_temp_path_def with_file_name_def Let_def f_def)
  have f: "CHR ''/'' \<notin> set f"
    using assms(2) file_name_no_slash [of path] by (cases "file_name path") (auto simp: f_def)
  have s: "CHR ''/'' \<notin> set (show_nat k)" for k
    using show_nat_digits [of "CHR ''/''" k] by (auto simp: is_ascii_digit_def)
  have "file_name t = Some ?n"
    unfolding t by (rule file_name_join) (use f s in auto)
  moreover assume "t = path"
  ultimately have "file_name path = Some ?n" by simp
  then have "f = ?n" using f_def by (metis unwrap_or.simps(1))
  then have "length f = length ?n" by (rule arg_cong)
  then show False by simp
qed

subsection \<open>Facts: replacing\<close>

lemma next_fault_files [simp]: "next_fault w = (f, w') \<Longrightarrow> fs_files w' = fs_files w"
  by (auto simp: next_fault_def split: list.splits)

lemma create_dir_files [simp]: "create_dir_all p w = (r, w') \<Longrightarrow> fs_files w' = fs_files w"
  by (auto simp: create_dir_all_def split: prod.splits option.splits fault.splits)

lemma temp_path_files [simp]: "unique_temp_path fb p w = (r, w') \<Longrightarrow> fs_files w' = fs_files w"
  by (auto simp: unique_temp_path_def Let_def)

lemma write_file_others: "write_file p c w = (r, w') \<Longrightarrow> q \<noteq> p \<Longrightarrow> fs_files w' q = fs_files w q"
  by (auto simp: write_file_def split: prod.splits option.splits fault.splits)

lemma write_file_done: "write_file p c w = (Inr u, w') \<Longrightarrow> fs_files w' = (fs_files w)(p \<mapsto> c)"
  by (auto simp: write_file_def split: prod.splits option.splits fault.splits)

lemma rename_outcome:
  "rename a b w = (r, w') \<Longrightarrow>
   (case r of
      Inl e \<Rightarrow> fs_files w' = fs_files w
    | Inr _ \<Rightarrow> \<exists>c. fs_files w a = Some c \<and> fs_files w' = ((fs_files w)(a := None))(b \<mapsto> c))"
  by (auto simp: rename_def split: prod.splits option.splits fault.splits)

text \<open>Whatever fails on the way, the target holds its old content or the new one, and the new one
  exactly when the replacement reports success.\<close>

lemma replace_file_atomic:
  fixes w :: "'m fs_scheme"
  assumes "replace_file fallback path content w = (r, w')" and "CHR ''/'' \<notin> set fallback"
  shows "(case r of Inl e \<Rightarrow> fs_files w' path = fs_files w path | Inr _ \<Rightarrow> fs_files w' path = Some content)"
proof -
  define mk :: "('m fs_scheme, io_error, unit) io" where "mk = (case path_parent path of None \<Rightarrow> returnE () | Some parent \<Rightarrow> create_dir_all parent)"
  define K :: "unit \<Rightarrow> ('m fs_scheme, io_error, unit) io" where "K = (\<lambda>_. bindE (unique_temp_path fallback path) (\<lambda>temp_path.
     bindE (write_file temp_path content) (\<lambda>_. rename temp_path path)))"
  have run: "bindE mk K w = (r, w')" using assms(1) by (simp only: replace_file_def mk_def K_def)
  obtain r1 w1 where mk: "mk w = (r1, w1)" by (cases "mk w")
  then have f1: "fs_files w1 = fs_files w" by (auto simp: mk_def split: option.splits)
  show ?thesis
  proof (cases r1)
    case (Inl e)
    then have "r = Inl e" "w' = w1" using run mk by (simp_all add: bindE_def)
    then show ?thesis using f1 by simp
  next
    case (Inr u)
    then have run: "K u w1 = (r, w')" using run mk by (simp add: bindE_def)
    obtain t w2 where t: "unique_temp_path fallback path w1 = (Inr t, w2)" unfolding unique_temp_path_def Let_def by blast
    obtain r3 w3 where wr: "write_file t content w2 = (r3, w3)" by (cases "write_file t content w2")
    have "t \<noteq> path" by (rule temp_path_differs [OF t assms(2)])
    then have f3: "fs_files w3 path = fs_files w path" using write_file_others [OF wr] t f1 by simp
    show ?thesis
    proof (cases r3)
      case (Inl e)
      then have "r = Inl e" "w' = w3" using run t wr by (simp_all add: K_def bindE_def)
      then show ?thesis using f3 by simp
    next
      case (Inr v)
      then have "fs_files w3 t = Some content" using write_file_done wr by fastforce
      moreover have "rename t path w3 = (r, w')" using run t wr Inr by (simp add: K_def bindE_def)
      ultimately show ?thesis using rename_outcome [of t path w3 r w'] f3 by (auto split: sum.splits)
    qed
  qed
qed

text \<open>Without a fault the replacement succeeds.\<close>

lemma replace_file_succeeds:
  assumes "fs_faults w = []"
  shows "\<exists>w'. replace_file fallback path content w = (Inr (), w') \<and> fs_faults w' = []"
proof -
  obtain t w1 where t: "unique_temp_path fallback path w = (Inr t, w1)" unfolding unique_temp_path_def Let_def by blast
  have "fs_faults (snd (unique_temp_path fallback path w)) = fs_faults w"
    unfolding unique_temp_path_def Let_def by (simp del: show_nat.simps)
  then have w1: "fs_faults w1 = []" using assms by (simp only: t snd_conv)
  have d: "(case path_parent path of None \<Rightarrow> returnE () | Some parent \<Rightarrow> create_dir_all parent) w = (Inr (), w)"
    using assms by (auto simp: create_dir_all_def next_fault_def split: option.splits)
  let ?w2 = "w1\<lparr>fs_files := (fs_files w1)(t \<mapsto> content)\<rparr>"
  have wr: "write_file t content w1 = (Inr (), ?w2)" using w1 by (simp add: write_file_def next_fault_def)
  have rn: "\<exists>w'. rename t path ?w2 = (Inr (), w') \<and> fs_faults w' = []"
    using w1 by (simp add: rename_def next_fault_def)
  have "replace_file fallback path content w = rename t path ?w2"
    unfolding replace_file_def bindE_def d t wr by (simp only: prod.case sum.case t wr)
  then show ?thesis using rn by (simp only:)
qed

subsection \<open>Records kept under a key\<close>

text \<open>The update of a list of records that both stores use: the first record that matches is
  overwritten, a record without a match is appended.\<close>

fun replace_first :: "('r \<Rightarrow> bool) \<Rightarrow> 'r \<Rightarrow> 'r list \<Rightarrow> 'r list" where
  "replace_first p r [] = [r]"
| "replace_first p r (x # xs) = (if p x then r # xs else x # replace_first p r xs)"

lemma replace_first_none: "\<forall>x \<in> set xs. \<not> p x \<Longrightarrow> replace_first p r xs = xs @ [r]"
  by (induction xs) auto

lemma replace_first_split:
  assumes "\<forall>x \<in> set xs. \<not> p x" "p y"
  shows "replace_first p r (xs @ y # zs) = xs @ r # zs"
  using assms by (induction xs) auto

text \<open>A store whose records may have a key, and whose update never changes what is found under
  another key, keeps the order of the keys and never stores two records under one.\<close>

locale record_store =
  fixes key :: "'r \<Rightarrow> 'k option" and upsert :: "'r \<Rightarrow> 'r list \<Rightarrow> 'r list"
  assumes upsert_keyed: "key r = Some k \<Longrightarrow> upsert r rs = replace_first (\<lambda>x. key x = Some k) r rs"
    and upsert_unkeyed: "key r = None \<Longrightarrow> upsert r rs = rs @ [r]"
begin

definition look :: "'k \<Rightarrow> 'r list \<Rightarrow> 'r option" where
  "look k rs = List.find (\<lambda>x. key x = Some k) rs"

definition keys :: "'r list \<Rightarrow> 'k list" where
  "keys rs = List.map_filter key rs"

lemma keys_simps [simp]:
  "keys [] = []" "keys (r # rs) = (case key r of None \<Rightarrow> keys rs | Some k \<Rightarrow> k # keys rs)"
  "keys (rs @ ss) = keys rs @ keys ss"
  by (induction rs) (auto simp: keys_def map_filter_simps map_filter_def)

lemma look_replace:
  "key r = Some k \<Longrightarrow>
   List.find (\<lambda>x. key x = Some k') (replace_first (\<lambda>x. key x = Some k) r rs) =
     (if k' = k then Some r else List.find (\<lambda>x. key x = Some k') rs)"
  by (induction rs) auto

lemma look_append_unkeyed: "key r = None \<Longrightarrow> List.find (\<lambda>x. key x = Some k) (rs @ [r]) = List.find (\<lambda>x. key x = Some k) rs"
  by (induction rs) auto

lemma look_upsert: "look k (upsert r rs) = (if key r = Some k then Some r else look k rs)"
  by (cases "key r") (auto simp: look_def upsert_keyed upsert_unkeyed look_replace look_append_unkeyed)

lemma keys_replace:
  "key r = Some k \<Longrightarrow>
   keys (replace_first (\<lambda>x. key x = Some k) r rs) = (if k \<in> set (keys rs) then keys rs else keys rs @ [k])"
  by (induction rs) (auto split: option.splits)

lemma keys_upsert:
  "keys (upsert r rs) =
     (case key r of None \<Rightarrow> keys rs | Some k \<Rightarrow> if k \<in> set (keys rs) then keys rs else keys rs @ [k])"
  by (cases "key r") (simp_all add: upsert_keyed upsert_unkeyed keys_replace)

lemma distinct_upsert: "distinct (keys rs) \<Longrightarrow> distinct (keys (upsert r rs))"
  by (auto simp: keys_upsert split: option.splits)

lemma look_None: "look k rs = None \<longleftrightarrow> k \<notin> set (keys rs)"
  unfolding look_def by (induction rs) (auto split: option.splits)

text \<open>After any sequence of updates, a key holds its last record.\<close>

lemma look_upserts:
  "look k (fold upsert ss rs) =
     (case List.find (\<lambda>x. key x = Some k) (rev ss) of Some s \<Rightarrow> Some s | None \<Rightarrow> look k rs)"
proof (induction ss arbitrary: rs)
  case (Cons s ss)
  have "List.find p (xs @ [s]) = (case List.find p xs of Some x \<Rightarrow> Some x | None \<Rightarrow> if p s then Some s else None)"
    for p xs by (induction xs) auto
  then show ?case using Cons by (auto simp: look_upsert split: option.splits)
qed (simp add: look_def)

lemma distinct_upserts: "distinct (keys rs) \<Longrightarrow> distinct (keys (fold upsert ss rs))"
  by (induction ss arbitrary: rs) (auto simp: distinct_upsert)

end

end
