(* ===== verification/Json_Text.thy ===== *)
theory Json_Text
  imports Serde
begin

section \<open>A text form of JSON values\<close>

text \<open>
  A concrete printer and parser that satisfy \<open>json_text_ok\<close>, so that the theorems that assume it
  have instances. Every value starts with a letter for its kind, texts and sequences carry their
  length, and the whole starts with a bound on the nesting.
\<close>

definition counted :: "nat \<Rightarrow> string" where
  "counted n = show_nat n @ '';''"

fun print_value :: "json \<Rightarrow> string" where
  "print_value Null = ''n''"
| "print_value (Bool b) = (if b then ''t'' else ''f'')"
| "print_value (Number n) = (if 0 \<le> n then ''p'' @ counted (nat n) else ''m'' @ counted (nat (- n)))"
| "print_value (String s) = ''s'' @ counted (length s) @ s"
| "print_value (Array vs) = ''a'' @ counted (length vs) @ concat (map print_value vs)"
| "print_value (Object kvs) =
     ''o'' @ counted (length kvs) @
     concat (map (\<lambda>(k, v). counted (length k) @ k @ print_value v) kvs)"

definition read_count :: "string \<Rightarrow> (nat \<times> string) option" where
  "read_count s =
     (case dropWhile is_ascii_digit s of
        [] \<Rightarrow> None
      | c # r \<Rightarrow> (if c = CHR '';'' then Some (read_digits (takeWhile is_ascii_digit s), r) else None))"

definition read_text :: "string \<Rightarrow> (string \<times> string) option" where
  "read_text s = map_option (\<lambda>(n, r). (take n r, drop n r)) (read_count s)"

fun read_many :: "(string \<Rightarrow> ('a \<times> string) option) \<Rightarrow> nat \<Rightarrow> string \<Rightarrow> ('a list \<times> string) option" where
  "read_many p 0 s = Some ([], s)"
| "read_many p (Suc n) s =
     Option.bind (p s) (\<lambda>(a, r). map_option (\<lambda>(as, t). (a # as, t)) (read_many p n r))"

text \<open>The first argument bounds the nesting.\<close>

primrec parse_value :: "nat \<Rightarrow> string \<Rightarrow> (json \<times> string) option" where
  "parse_value 0 s = None"
| "parse_value (Suc d) s =
     (case s of
        [] \<Rightarrow> None
      | c # r \<Rightarrow>
          (if c = CHR ''n'' then Some (Null, r)
           else if c = CHR ''t'' then Some (Bool True, r)
           else if c = CHR ''f'' then Some (Bool False, r)
           else if c = CHR ''p'' then map_option (\<lambda>(n, t). (Number (int n), t)) (read_count r)
           else if c = CHR ''m'' then map_option (\<lambda>(n, t). (Number (- int n), t)) (read_count r)
           else if c = CHR ''s'' then map_option (\<lambda>(x, t). (String x, t)) (read_text r)
           else if c = CHR ''a'' then
             Option.bind (read_count r) (\<lambda>(n, t).
               map_option (\<lambda>(vs, u). (Array vs, u)) (read_many (parse_value d) n t))
           else if c = CHR ''o'' then
             Option.bind (read_count r) (\<lambda>(n, t).
               map_option (\<lambda>(kvs, u). (Object kvs, u))
                 (read_many (\<lambda>x. Option.bind (read_text x) (\<lambda>(k, y).
                    map_option (\<lambda>(v, z). ((k, v), z)) (parse_value d y))) n t))
           else None))"

definition print_json :: "json \<Rightarrow> string" where
  "print_json v = counted (size v) @ print_value v"

definition parse_json :: "string \<Rightarrow> json option" where
  "parse_json s =
     Option.bind (read_count s) (\<lambda>(d, r). map_option (\<lambda>(v, t). canon v) (parse_value (Suc d) r))"

lemma read_count_counted [simp]: "read_count (counted n @ r) = Some (n, r)"
proof -
  have d: "\<And>c. c \<in> set (show_nat n) \<Longrightarrow> is_ascii_digit c" by (rule show_nat_digits)
  have "\<not> is_ascii_digit (CHR '';'')" by (simp add: is_ascii_digit_def)
  then show ?thesis
    using takeWhile_append2 [of "show_nat n" is_ascii_digit, OF d] dropWhile_append2 [of "show_nat n" is_ascii_digit, OF d]
    by (simp add: read_count_def counted_def)
qed

lemma read_text_counted [simp]: "read_text (counted (length k) @ k @ r) = Some (k, r)"
  by (simp add: read_text_def)

lemma read_many_concat:
  "(\<And>a r. a \<in> set as \<Longrightarrow> p (f a @ r) = Some (a, r)) \<Longrightarrow>
   read_many p (length as) (concat (map f as) @ r) = Some (as, r)"
  by (induction as) auto

lemma parse_print_value: "size v \<le> d \<Longrightarrow> parse_value (Suc d) (print_value v @ r) = Some (v, r)"
proof (induction v arbitrary: d r)
  case (Array vs)
  then obtain d' where d: "d = Suc d'" by (cases d) auto
  have "parse_value (Suc d') (print_value v @ r) = Some (v, r)" if "v \<in> set vs" for v r
  proof (rule Array.IH [OF that])
    have "size v \<le> size_list size vs" using that by (rule size_list_estimation') simp
    then show "size v \<le> d'" using Array.prems d by simp
  qed
  then have "read_many (parse_value d) (length vs) (concat (map print_value vs) @ r) = Some (vs, r)" for r
    unfolding d by (rule read_many_concat)
  then show ?case by simp
next
  case (Object kvs)
  then obtain d' where d: "d = Suc d'" by (cases d) auto
  have kv: "parse_value (Suc d') (print_value v @ r) = Some (v, r)" if "(k, v) \<in> set kvs" for k v r
  proof (rule Object.IH [OF that])
    have "size_prod (\<lambda>x. 0) size (k, v) \<le> size_list (size_prod (\<lambda>x. 0) size) kvs"
      using that by (rule size_list_estimation') simp
    then show "size v \<le> d'" using Object.prems d by simp
  qed simp
  let ?p = "\<lambda>x. Option.bind (read_text x) (\<lambda>(k, y). map_option (\<lambda>(v, z). ((k, v), z)) (parse_value d y))"
  have "read_many ?p (length kvs) (concat (map (\<lambda>(k, v). counted (length k) @ k @ print_value v) kvs) @ r) = Some (kvs, r)" for r
    by (rule read_many_concat) (use kv d in auto)
  then show ?case by simp
qed auto

lemma json_text_example: "json_text_ok print_json parse_json"
proof -
  have "parse_value (Suc (size v)) (print_value v) = Some (v, [])" for v
    using parse_print_value [of v "size v" "[]"] by simp
  then show ?thesis by (simp add: json_text_ok_def print_json_def parse_json_def del: parse_value.simps)
qed

end
