(* ===== verification/Runtime_State.thy ===== *)
theory Runtime_State
  imports Config File_System Json_Text
begin

section \<open>The runtime state of the lanes (\<^verbatim>\<open>src/runtime_state.rs\<close>)\<close>

text \<open>
  What the main lane remembers of its workers between runs, and its file: a single worker is
  written as an object of its own, several as a versioned store, none by removing the file.
  Printing and parsing JSON text are arguments; the conversion of the structs is written out
  with \<open>Serde\<close>. The lock that serialises writers of one process is not modelled: each
  operation is one step.
\<close>

record RuntimeIssueState =
  ris_id :: string
  ris_identifier :: string

record RuntimeTransition =
  rtr_from :: "string option"
  rtr_to :: string
  rtr_reason :: string

record RuntimeRetryState =
  rry_attempt :: u32
  rry_scheduled_at_ms :: u64
  rry_next_retry_at_ms :: u64
  rry_error :: string

record RuntimeStallState =
  rsl_detected_at_ms :: u64
  rsl_stalled_for_ms :: u64
  rsl_reason :: string

record RuntimeState =
  rst_active_issue :: "RuntimeIssueState option"
  rst_workspace_path :: "string option"
  rst_branch_name :: "string option"
  rst_backend :: string
  rst_backend_session_id :: "string option"
  rst_lane :: "string option"
  rst_run_id :: "string option"
  rst_backend_log_path :: "string option"
  rst_backend_attach_command :: "string option"
  rst_profile_id :: "string option"
  rst_instance_name :: "string option"
  rst_actor_role :: "string option"
  rst_actor_label :: "string option"
  rst_git_author :: "string option"
  rst_attempt_count :: u32
  rst_updated_at_ms :: "u64 option"
  rst_retry :: "RuntimeRetryState option"
  rst_stall :: "RuntimeStallState option"
  rst_last_event :: "string option"
  rst_last_transition :: "RuntimeTransition option"

definition runtime_state_active :: "RuntimeIssueState \<Rightarrow> string \<Rightarrow> RuntimeState" where
  "runtime_state_active issue backend =
     \<lparr>rst_active_issue = Some issue, rst_workspace_path = None, rst_branch_name = None,
      rst_backend = backend, rst_backend_session_id = None, rst_lane = None, rst_run_id = None,
      rst_backend_log_path = None, rst_backend_attach_command = None, rst_profile_id = None,
      rst_instance_name = None, rst_actor_role = None, rst_actor_label = None, rst_git_author = None,
      rst_attempt_count = 1, rst_updated_at_ms = None, rst_retry = None, rst_stall = None,
      rst_last_event = None, rst_last_transition = None\<rparr>"

subsection \<open>Retries and stalls\<close>

definition due_in_ms :: "RuntimeRetryState \<Rightarrow> u64 \<Rightarrow> u64" where
  "due_in_ms r now_ms = saturating_sub (rry_next_retry_at_ms r) now_ms"

definition mark_runtime_state_updated :: "RuntimeState \<Rightarrow> u64 \<Rightarrow> RuntimeState" where
  "mark_runtime_state_updated s now_ms = s\<lparr>rst_updated_at_ms := Some now_ms\<rparr>"

definition record_runtime_retry :: "RuntimeState \<Rightarrow> u64 \<Rightarrow> u64 \<Rightarrow> string \<Rightarrow> RuntimeState" where
  "record_runtime_retry s now_ms delay_ms err =
     mark_runtime_state_updated
       (s\<lparr>rst_retry := Some \<lparr>rry_attempt = rst_attempt_count s, rry_scheduled_at_ms = now_ms,
            rry_next_retry_at_ms = saturating_add now_ms delay_ms, rry_error = err\<rparr>\<rparr>) now_ms"

definition detect_runtime_stall :: "RuntimeState \<Rightarrow> u64 \<Rightarrow> u64 \<Rightarrow> RuntimeStallState option" where
  "detect_runtime_stall s now_ms stall_timeout_ms =
     Option.bind (rst_updated_at_ms s) (\<lambda>updated_at_ms.
       let stalled_for_ms = saturating_sub now_ms updated_at_ms in
       if stall_timeout_ms > 0 \<and> stalled_for_ms \<ge> stall_timeout_ms
       then Some \<lparr>rsl_detected_at_ms = now_ms, rsl_stalled_for_ms = stalled_for_ms,
              rsl_reason = ''no runtime update for '' @ show_nat (unat stalled_for_ms) @ ''ms''\<rparr>
       else None)"

subsection \<open>The list of workers\<close>

definition runtime_state_issue_identifier :: "RuntimeState \<Rightarrow> string option" where
  "runtime_state_issue_identifier s = map_option ris_identifier (rst_active_issue s)"

definition runtime_state_for_issue :: "RuntimeState list \<Rightarrow> string \<Rightarrow> RuntimeState option" where
  "runtime_state_for_issue states issue_identifier =
     List.find (\<lambda>s. runtime_state_issue_identifier s = Some issue_identifier) states"

definition upsert_runtime_state_entry :: "RuntimeState \<Rightarrow> RuntimeState list \<Rightarrow> RuntimeState list" where
  "upsert_runtime_state_entry s states =
     (case runtime_state_issue_identifier s of
        None \<Rightarrow> states @ [s]
      | Some issue_identifier \<Rightarrow>
          replace_first (\<lambda>e. runtime_state_issue_identifier e = Some issue_identifier) s states)"

subsection \<open>The file format\<close>

definition enc_issue :: "RuntimeIssueState \<Rightarrow> json" where
  "enc_issue i = struct [(''id'', Some (String (ris_id i))), (''identifier'', Some (String (ris_identifier i)))]"

definition enc_retry :: "RuntimeRetryState \<Rightarrow> json" where
  "enc_retry r =
     struct [(''attempt'', Some (enc_word (rry_attempt r))),
             (''scheduled_at_ms'', Some (enc_word (rry_scheduled_at_ms r))),
             (''next_retry_at_ms'', Some (enc_word (rry_next_retry_at_ms r))),
             (''error'', Some (String (rry_error r)))]"

definition enc_stall :: "RuntimeStallState \<Rightarrow> json" where
  "enc_stall s =
     struct [(''detected_at_ms'', Some (enc_word (rsl_detected_at_ms s))),
             (''stalled_for_ms'', Some (enc_word (rsl_stalled_for_ms s))),
             (''reason'', Some (String (rsl_reason s)))]"

definition enc_transition :: "RuntimeTransition \<Rightarrow> json" where
  "enc_transition t =
     struct [(''from'', nullable String (rtr_from t)), (''to'', Some (String (rtr_to t))),
             (''reason'', Some (String (rtr_reason t)))]"

definition state_fields :: "RuntimeState \<Rightarrow> (string \<times> json option) list" where
  "state_fields s =
     [(''active_issue'', nullable enc_issue (rst_active_issue s)),
      (''workspace_path'', nullable String (rst_workspace_path s)),
      (''branch_name'', nullable String (rst_branch_name s)),
      (''backend'', Some (String (rst_backend s))),
      (''backend_session_id'', nullable String (rst_backend_session_id s)),
      (''lane'', skipped String (rst_lane s)),
      (''run_id'', skipped String (rst_run_id s)),
      (''backend_log_path'', skipped String (rst_backend_log_path s)),
      (''backend_attach_command'', skipped String (rst_backend_attach_command s)),
      (''profile_id'', skipped String (rst_profile_id s)),
      (''instance_name'', skipped String (rst_instance_name s)),
      (''actor_role'', skipped String (rst_actor_role s)),
      (''actor_label'', skipped String (rst_actor_label s)),
      (''git_author'', skipped String (rst_git_author s)),
      (''attempt_count'', Some (enc_word (rst_attempt_count s))),
      (''updated_at_ms'', skipped enc_word (rst_updated_at_ms s)),
      (''retry'', skipped enc_retry (rst_retry s)),
      (''stall'', skipped enc_stall (rst_stall s)),
      (''last_event'', nullable String (rst_last_event s)),
      (''last_transition'', nullable enc_transition (rst_last_transition s))]"

definition enc_state :: "RuntimeState \<Rightarrow> json" where
  "enc_state s = struct (state_fields s)"

definition enc_store :: "RuntimeState list \<Rightarrow> json" where
  "enc_store states =
     struct [(''version'', Some (Number 1)), (''active_workers'', Some (Array (map enc_state states)))]"

definition dec_issue :: "json \<Rightarrow> RuntimeIssueState option" where
  "dec_issue v =
     Option.bind (req as_str v ''id'') (\<lambda>i.
     map_option (\<lambda>n. \<lparr>ris_id = i, ris_identifier = n\<rparr>) (req as_str v ''identifier''))"

definition dec_retry :: "json \<Rightarrow> RuntimeRetryState option" where
  "dec_retry v =
     Option.bind (req dec_word v ''attempt'') (\<lambda>a.
     Option.bind (req dec_word v ''scheduled_at_ms'') (\<lambda>s.
     Option.bind (req dec_word v ''next_retry_at_ms'') (\<lambda>n.
     map_option (\<lambda>e. \<lparr>rry_attempt = a, rry_scheduled_at_ms = s, rry_next_retry_at_ms = n, rry_error = e\<rparr>)
       (req as_str v ''error''))))"

definition dec_stall :: "json \<Rightarrow> RuntimeStallState option" where
  "dec_stall v =
     Option.bind (req dec_word v ''detected_at_ms'') (\<lambda>d.
     Option.bind (req dec_word v ''stalled_for_ms'') (\<lambda>s.
     map_option (\<lambda>r. \<lparr>rsl_detected_at_ms = d, rsl_stalled_for_ms = s, rsl_reason = r\<rparr>)
       (req as_str v ''reason'')))"

definition dec_transition :: "json \<Rightarrow> RuntimeTransition option" where
  "dec_transition v =
     Option.bind (opt as_str v ''from'') (\<lambda>f.
     Option.bind (req as_str v ''to'') (\<lambda>t.
     map_option (\<lambda>r. \<lparr>rtr_from = f, rtr_to = t, rtr_reason = r\<rparr>) (req as_str v ''reason'')))"

definition dec_state :: "json \<Rightarrow> RuntimeState option" where
  "dec_state v =
     Option.bind (opt dec_issue v ''active_issue'') (\<lambda>active_issue.
     Option.bind (opt as_str v ''workspace_path'') (\<lambda>workspace_path.
     Option.bind (opt as_str v ''branch_name'') (\<lambda>branch_name.
     Option.bind (req as_str v ''backend'') (\<lambda>backend.
     Option.bind (opt as_str v ''backend_session_id'') (\<lambda>backend_session_id.
     Option.bind (opt as_str v ''lane'') (\<lambda>lane.
     Option.bind (opt as_str v ''run_id'') (\<lambda>run_id.
     Option.bind (opt as_str v ''backend_log_path'') (\<lambda>backend_log_path.
     Option.bind (opt as_str v ''backend_attach_command'') (\<lambda>backend_attach_command.
     Option.bind (opt as_str v ''profile_id'') (\<lambda>profile_id.
     Option.bind (opt as_str v ''instance_name'') (\<lambda>instance_name.
     Option.bind (opt as_str v ''actor_role'') (\<lambda>actor_role.
     Option.bind (opt as_str v ''actor_label'') (\<lambda>actor_label.
     Option.bind (opt as_str v ''git_author'') (\<lambda>git_author.
     Option.bind (req dec_word v ''attempt_count'') (\<lambda>attempt_count.
     Option.bind (opt dec_word v ''updated_at_ms'') (\<lambda>updated_at_ms.
     Option.bind (opt dec_retry v ''retry'') (\<lambda>retry.
     Option.bind (opt dec_stall v ''stall'') (\<lambda>stall.
     Option.bind (opt as_str v ''last_event'') (\<lambda>last_event.
     map_option (\<lambda>last_transition.
       \<lparr>rst_active_issue = active_issue, rst_workspace_path = workspace_path,
        rst_branch_name = branch_name, rst_backend = backend,
        rst_backend_session_id = backend_session_id, rst_lane = lane, rst_run_id = run_id,
        rst_backend_log_path = backend_log_path, rst_backend_attach_command = backend_attach_command,
        rst_profile_id = profile_id, rst_instance_name = instance_name, rst_actor_role = actor_role,
        rst_actor_label = actor_label, rst_git_author = git_author, rst_attempt_count = attempt_count,
        rst_updated_at_ms = updated_at_ms, rst_retry = retry, rst_stall = stall,
        rst_last_event = last_event, rst_last_transition = last_transition\<rparr>)
       (opt dec_transition v ''last_transition''))))))))))))))))))))"

definition dec_store :: "json \<Rightarrow> RuntimeState list option" where
  "dec_store v =
     Option.bind (with_default 1 dec_word v ''version'') (\<lambda>version :: u32.
       with_default [] (dec_list dec_state) v ''active_workers'')"

subsection \<open>The file\<close>

datatype RuntimeStateError = Io io_error | Serialize

definition RUNTIME_STATE_FILE :: string where
  "RUNTIME_STATE_FILE = ''runtime-state.json''"

definition runtime_state_dir :: "RuntimeConfig \<Rightarrow> string" where
  "runtime_state_dir config = path_join (obs_logs_root (rc_observability config)) ''runtime''"

definition runtime_state_path :: "RuntimeConfig \<Rightarrow> string" where
  "runtime_state_path config = path_join (runtime_state_dir config) RUNTIME_STATE_FILE"

definition states_from_text ::
    "(string \<Rightarrow> json option) \<Rightarrow> string \<Rightarrow> (RuntimeStateError, RuntimeState list) result" where
  "states_from_text parse content =
     (case parse content of
        None \<Rightarrow> Inl Serialize
      | Some v \<Rightarrow>
          (case (if json_get v ''active_workers'' \<noteq> None then dec_store v
                 else map_option (\<lambda>s. [s]) (dec_state v)) of
             None \<Rightarrow> Inl Serialize
           | Some states \<Rightarrow> Inr states))"

definition load_runtime_states_from_path ::
    "(string \<Rightarrow> json option) \<Rightarrow> string \<Rightarrow> ('m fs_scheme, RuntimeStateError, RuntimeState list) io" where
  "load_runtime_states_from_path parse path =
     bindE (tryE (read_to_string path)) (\<lambda>r.
       case r of
         Inl NotFound \<Rightarrow> returnE []
       | Inl e \<Rightarrow> failE (Io e)
       | Inr content \<Rightarrow> liftE (states_from_text parse content))"

definition load_runtime_state_from_path ::
    "(string \<Rightarrow> json option) \<Rightarrow> string \<Rightarrow> ('m fs_scheme, RuntimeStateError, RuntimeState option) io" where
  "load_runtime_state_from_path parse path =
     bindE (load_runtime_states_from_path parse path) (\<lambda>states.
       returnE (case states of [] \<Rightarrow> None | s # _ \<Rightarrow> Some s))"

definition save_runtime_state_to_path ::
    "(json \<Rightarrow> string) \<Rightarrow> string \<Rightarrow> RuntimeState \<Rightarrow> ('m fs_scheme, RuntimeStateError, unit) io" where
  "save_runtime_state_to_path print path s =
     map_errE Io (replace_file RUNTIME_STATE_FILE path (print (enc_state s)))"

definition clear_runtime_state_at_path :: "string \<Rightarrow> ('m fs_scheme, RuntimeStateError, unit) io" where
  "clear_runtime_state_at_path path =
     bindE (tryE (remove_file path)) (\<lambda>r.
       case r of Inr _ \<Rightarrow> returnE () | Inl NotFound \<Rightarrow> returnE () | Inl e \<Rightarrow> failE (Io e))"

definition save_runtime_states_to_path ::
    "(json \<Rightarrow> string) \<Rightarrow> string \<Rightarrow> RuntimeState list \<Rightarrow> ('m fs_scheme, RuntimeStateError, unit) io" where
  "save_runtime_states_to_path print path states =
     (case states of
        [] \<Rightarrow> clear_runtime_state_at_path path
      | [s] \<Rightarrow> save_runtime_state_to_path print path s
      | _ \<Rightarrow> map_errE Io (replace_file RUNTIME_STATE_FILE path (print (enc_store states))))"

definition load_runtime_states ::
    "(string \<Rightarrow> json option) \<Rightarrow> RuntimeConfig \<Rightarrow> ('m fs_scheme, RuntimeStateError, RuntimeState list) io" where
  [simp]: "load_runtime_states parse config = load_runtime_states_from_path parse (runtime_state_path config)"

definition load_runtime_state ::
    "(string \<Rightarrow> json option) \<Rightarrow> RuntimeConfig \<Rightarrow> ('m fs_scheme, RuntimeStateError, RuntimeState option) io" where
  "load_runtime_state parse config = load_runtime_state_from_path parse (runtime_state_path config)"

definition save_runtime_states ::
    "(json \<Rightarrow> string) \<Rightarrow> RuntimeConfig \<Rightarrow> RuntimeState list \<Rightarrow> ('m fs_scheme, RuntimeStateError, unit) io" where
  [simp]: "save_runtime_states print config states =
     save_runtime_states_to_path print (runtime_state_path config) states"

definition save_runtime_state ::
    "(json \<Rightarrow> string) \<Rightarrow> RuntimeConfig \<Rightarrow> RuntimeState \<Rightarrow> ('m fs_scheme, RuntimeStateError, unit) io" where
  "save_runtime_state print config s = save_runtime_state_to_path print (runtime_state_path config) s"

definition clear_runtime_state :: "RuntimeConfig \<Rightarrow> ('m fs_scheme, RuntimeStateError, unit) io" where
  "clear_runtime_state config = clear_runtime_state_at_path (runtime_state_path config)"

definition upsert_runtime_state ::
    "(json \<Rightarrow> string) \<Rightarrow> (string \<Rightarrow> json option) \<Rightarrow> RuntimeConfig \<Rightarrow> RuntimeState \<Rightarrow>
     ('m fs_scheme, RuntimeStateError, unit) io" where
  "upsert_runtime_state print parse config s =
     bindE (load_runtime_states parse config) (\<lambda>states.
       save_runtime_states print config (upsert_runtime_state_entry s states))"

definition remove_runtime_state_for_issue ::
    "(json \<Rightarrow> string) \<Rightarrow> (string \<Rightarrow> json option) \<Rightarrow> RuntimeConfig \<Rightarrow> string \<Rightarrow>
     ('m fs_scheme, RuntimeStateError, unit) io" where
  "remove_runtime_state_for_issue print parse config issue_identifier =
     bindE (load_runtime_states parse config) (\<lambda>states.
       save_runtime_states print config
         (filter (\<lambda>s. runtime_state_issue_identifier s \<noteq> Some issue_identifier) states))"

subsection \<open>Facts: the format\<close>

lemma dec_enc_leaves [simp]:
  "dec_issue (canon (enc_issue i)) = Some i" "dec_retry (canon (enc_retry r)) = Some r"
  "dec_stall (canon (enc_stall l)) = Some l" "dec_transition (canon (enc_transition t)) = Some t"
  by (simp_all add: dec_issue_def enc_issue_def dec_retry_def enc_retry_def dec_stall_def enc_stall_def
      dec_transition_def enc_transition_def req_struct opt_nullable)

lemma enc_not_Null [simp]:
  "canon (enc_issue i) \<noteq> Null" "canon (enc_retry r) \<noteq> Null" "canon (enc_stall l) \<noteq> Null"
  "canon (enc_transition t) \<noteq> Null"
  by (simp_all add: enc_issue_def enc_retry_def enc_stall_def enc_transition_def)

lemma state_fields_distinct: "distinct (map fst (state_fields s))"
  by (simp add: state_fields_def)

lemma state_field:
  "map_of (state_fields s) ''active_issue'' = Some (nullable enc_issue (rst_active_issue s))"
  "map_of (state_fields s) ''workspace_path'' = Some (nullable String (rst_workspace_path s))"
  "map_of (state_fields s) ''branch_name'' = Some (nullable String (rst_branch_name s))"
  "map_of (state_fields s) ''backend'' = Some (Some (String (rst_backend s)))"
  "map_of (state_fields s) ''backend_session_id'' = Some (nullable String (rst_backend_session_id s))"
  "map_of (state_fields s) ''lane'' = Some (skipped String (rst_lane s))"
  "map_of (state_fields s) ''run_id'' = Some (skipped String (rst_run_id s))"
  "map_of (state_fields s) ''backend_log_path'' = Some (skipped String (rst_backend_log_path s))"
  "map_of (state_fields s) ''backend_attach_command'' = Some (skipped String (rst_backend_attach_command s))"
  "map_of (state_fields s) ''profile_id'' = Some (skipped String (rst_profile_id s))"
  "map_of (state_fields s) ''instance_name'' = Some (skipped String (rst_instance_name s))"
  "map_of (state_fields s) ''actor_role'' = Some (skipped String (rst_actor_role s))"
  "map_of (state_fields s) ''actor_label'' = Some (skipped String (rst_actor_label s))"
  "map_of (state_fields s) ''git_author'' = Some (skipped String (rst_git_author s))"
  "map_of (state_fields s) ''attempt_count'' = Some (Some (enc_word (rst_attempt_count s)))"
  "map_of (state_fields s) ''updated_at_ms'' = Some (skipped enc_word (rst_updated_at_ms s))"
  "map_of (state_fields s) ''retry'' = Some (skipped enc_retry (rst_retry s))"
  "map_of (state_fields s) ''stall'' = Some (skipped enc_stall (rst_stall s))"
  "map_of (state_fields s) ''last_event'' = Some (nullable String (rst_last_event s))"
  "map_of (state_fields s) ''last_transition'' = Some (nullable enc_transition (rst_last_transition s))"
  by (simp_all add: state_fields_def)

lemmas state_reads =
  opt_nullable [OF state_fields_distinct state_field(1)]
  opt_nullable [OF state_fields_distinct state_field(2)]
  opt_nullable [OF state_fields_distinct state_field(3)]
  req_struct [OF state_fields_distinct state_field(4)]
  opt_nullable [OF state_fields_distinct state_field(5)]
  opt_skipped [OF state_fields_distinct state_field(6)]
  opt_skipped [OF state_fields_distinct state_field(7)]
  opt_skipped [OF state_fields_distinct state_field(8)]
  opt_skipped [OF state_fields_distinct state_field(9)]
  opt_skipped [OF state_fields_distinct state_field(10)]
  opt_skipped [OF state_fields_distinct state_field(11)]
  opt_skipped [OF state_fields_distinct state_field(12)]
  opt_skipped [OF state_fields_distinct state_field(13)]
  opt_skipped [OF state_fields_distinct state_field(14)]
  req_struct [OF state_fields_distinct state_field(15)]
  opt_skipped [OF state_fields_distinct state_field(16)]
  opt_skipped [OF state_fields_distinct state_field(17)]
  opt_skipped [OF state_fields_distinct state_field(18)]
  opt_nullable [OF state_fields_distinct state_field(19)]
  opt_nullable [OF state_fields_distinct state_field(20)]

lemma dec_enc_state [simp]: "dec_state (canon (enc_state s)) = Some s"
  unfolding dec_state_def enc_state_def by (simp add: state_reads)

lemma dec_enc_store: "dec_store (canon (enc_store states)) = Some states"
proof -
  have "dec_list dec_state (Array (map canon (map enc_state states))) = Some (map id states)"
    unfolding dec_list_def as_array.simps Option.bind.bind_lunit map_map
    by (rule all_some_map) simp
  then show ?thesis by (simp add: dec_store_def enc_store_def with_default_def)
qed

text \<open>The two formats cannot be confused: only the store has the key that the reader looks for.\<close>

lemma states_from_text_single:
  "json_text_ok print parse \<Longrightarrow> states_from_text parse (print (enc_state s)) = Inr [s]"
  by (simp add: states_from_text_def json_text_ok_def)
    (simp add: enc_state_def state_fields_distinct state_fields_def)

lemma states_from_text_store:
  "json_text_ok print parse \<Longrightarrow> states_from_text parse (print (enc_store states)) = Inr states"
  by (simp add: states_from_text_def json_text_ok_def dec_enc_store) (simp add: enc_store_def)

subsection \<open>Facts: the file\<close>

interpretation workers: record_store runtime_state_issue_identifier upsert_runtime_state_entry
  by unfold_locales (simp_all add: upsert_runtime_state_entry_def)

lemma runtime_state_for_issue_look: "runtime_state_for_issue states k = workers.look k states"
  by (simp add: runtime_state_for_issue_def workers.look_def)

text \<open>What a reader gets that meets no fault.\<close>

definition stored_states :: "(string \<Rightarrow> json option) \<Rightarrow> string option \<Rightarrow> (RuntimeStateError, RuntimeState list) result" where
  "stored_states parse content = (case content of None \<Rightarrow> Inr [] | Some c \<Rightarrow> states_from_text parse c)"

lemma load_no_fault:
  "fs_faults w = [] \<Longrightarrow> load_runtime_states_from_path parse path w = (stored_states parse (fs_files w path), w)"
  by (auto simp: load_runtime_states_from_path_def bindE_def tryE_def read_to_string_def next_fault_def
      stored_states_def returnE_def liftE_def split: option.splits)

lemma load_runtime_states_Inr:
  "load_runtime_states_from_path parse path w = (Inr states, w') \<Longrightarrow>
   stored_states parse (fs_files w path) = Inr states \<and> fs_files w' = fs_files w"
  by (auto simp: load_runtime_states_from_path_def bindE_Inr tryE_def read_to_string_def stored_states_def
      split: prod.splits sum.splits option.splits io_error.splits fault.splits)

lemma load_runtime_states_files:
  "load_runtime_states_from_path parse path w = (r, w') \<Longrightarrow> fs_files w' = fs_files w"
  by (auto simp: load_runtime_states_from_path_def bindE_def tryE_def read_to_string_def
      split: prod.splits sum.splits option.splits io_error.splits fault.splits)

definition states_text :: "(json \<Rightarrow> string) \<Rightarrow> RuntimeState list \<Rightarrow> string option" where
  "states_text print states =
     (case states of [] \<Rightarrow> None | [s] \<Rightarrow> Some (print (enc_state s)) | _ \<Rightarrow> Some (print (enc_store states)))"

lemma stored_states_text:
  "json_text_ok print parse \<Longrightarrow> stored_states parse (states_text print states) = Inr states"
  by (auto simp: states_text_def stored_states_def states_from_text_single states_from_text_store split: list.splits)

lemma state_file_name: "CHR ''/'' \<notin> set RUNTIME_STATE_FILE"
  by (simp add: RUNTIME_STATE_FILE_def)

lemma replace_state_file:
  "map_errE Io (replace_file RUNTIME_STATE_FILE path content) w = (r, w') \<Longrightarrow>
   (case r of Inl e \<Rightarrow> fs_files w' path = fs_files w path | Inr _ \<Rightarrow> fs_files w' path = Some content)"
  by (drule map_errE_files)
    (auto dest: replace_file_atomic [OF _ state_file_name] split: sum.splits)

lemma clear_state_file:
  "clear_runtime_state_at_path path w = (r, w') \<Longrightarrow>
   (case r of Inl e \<Rightarrow> fs_files w' path = fs_files w path | Inr _ \<Rightarrow> fs_files w' path = None)"
  by (auto simp: clear_runtime_state_at_path_def bindE_def tryE_def remove_file_def
      split: prod.splits sum.splits option.splits io_error.splits fault.splits)

lemma save_states_outcome:
  assumes "save_runtime_states_to_path print path states w = (r, w')"
  shows "(case r of Inl e \<Rightarrow> fs_files w' path = fs_files w path
          | Inr _ \<Rightarrow> fs_files w' path = states_text print states)"
proof -
  consider "states = []" | a where "states = [a]" | a b l where "states = a # b # l"
    by (cases states; cases "List.tl states") auto
  then show ?thesis
    using assms
    by cases (auto simp: save_runtime_states_to_path_def save_runtime_state_to_path_def states_text_def
        split: sum.splits dest: clear_state_file replace_state_file)
qed

text \<open>Without a fault, an update of a readable file succeeds.\<close>

lemma save_states_succeeds:
  assumes "fs_faults w = []"
  shows "\<exists>w'. save_runtime_states_to_path print path states w = (Inr (), w')"
proof -
  have c: "\<exists>w'. clear_runtime_state_at_path path w = (Inr (), w')"
    using assms by (auto simp: clear_runtime_state_at_path_def bindE_def tryE_def remove_file_def next_fault_def
        split: option.splits)
  have r: "\<exists>w'. map_errE Io (replace_file RUNTIME_STATE_FILE path content) w = (Inr (), w')" for content
    using replace_file_succeeds [OF assms, of RUNTIME_STATE_FILE path content] by (auto simp: map_errE_def)
  show ?thesis
    using c r by (auto simp: save_runtime_states_to_path_def save_runtime_state_to_path_def split: list.splits)
qed

lemma upsert_runtime_state_succeeds:
  assumes "fs_faults w = []" "stored_states parse (fs_files w (runtime_state_path config)) = Inr states"
  shows "\<exists>w'. upsert_runtime_state print parse config s w = (Inr (), w')"
  using save_states_succeeds [OF assms(1)] assms
  by (simp add: upsert_runtime_state_def bindE_def load_no_fault)

subsection \<open>Facts: retries and stalls\<close>

text \<open>A recorded retry is due after its delay, less what the clock cannot represent.\<close>

lemma recorded_retry_due:
  "rst_retry (record_runtime_retry s now delay e) = Some r \<Longrightarrow>
   unat (due_in_ms r now) = min (unat delay) (2 ^ 64 - 1 - unat now)"
proof -
  assume "rst_retry (record_runtime_retry s now delay e) = Some r"
  then have r: "rry_next_retry_at_ms r = saturating_add now delay"
    by (auto simp: record_runtime_retry_def mark_runtime_state_updated_def)
  have "unat now < 2 ^ 64" using unsigned_less [of now] by simp
  moreover have "unat (saturating_add now delay) = min (2 ^ 64 - 1) (unat now + unat delay)"
    using unat_saturating_add [of now delay] by simp
  moreover have "unat (due_in_ms r now) = unat (saturating_add now delay) - unat now"
    using r by (simp add: due_in_ms_def saturating_sub_def unat_sub word_le_nat_alt)
  ultimately show ?thesis
    using \<open>unat now < 2 ^ 64\<close> unfolding \<open>unat (due_in_ms r now) = unat (saturating_add now delay) - unat now\<close>
    by (simp add: min_def) linarith
qed

text \<open>A stall is only reported after a full timeout without an update, and a timeout of zero
  switches the test off.\<close>

lemma detected_stall:
  "detect_runtime_stall s now timeout = Some st \<Longrightarrow>
   \<exists>updated. rst_updated_at_ms s = Some updated \<and> 0 < timeout \<and>
     unat updated + unat timeout \<le> unat now \<and> unat (rsl_stalled_for_ms st) = unat now - unat updated"
  by (cases "rst_updated_at_ms s")
    (auto simp: detect_runtime_stall_def Let_def saturating_sub_def unat_sub word_le_nat_alt word_less_nat_alt
      split: if_splits)

subsection \<open>Properties\<close>

text \<open>C28: Updating the persisted state of a worker is all or nothing, whichever call of the file system
  fails: after an error the file is as it was; after success a reader gets the previous workers
  with this one replaced or appended, so its issue holds the new state, every other issue holds
  what it held, and no issue is stored twice if none was. This holds across the two formats of
  the file and for the empty one.\<close>

theorem upsert_runtime_state_atomic:
  assumes "json_text_ok print parse"
    and "upsert_runtime_state print parse config s w = (r, w')"
  shows "case r of
      Inl e \<Rightarrow> fs_files w' (runtime_state_path config) = fs_files w (runtime_state_path config)
    | Inr _ \<Rightarrow>
        (\<exists>before after.
           load_runtime_states_from_path parse (runtime_state_path config) (w\<lparr>fs_faults := []\<rparr>) =
             (Inr before, w\<lparr>fs_faults := []\<rparr>) \<and>
           load_runtime_states_from_path parse (runtime_state_path config) (w'\<lparr>fs_faults := []\<rparr>) =
             (Inr after, w'\<lparr>fs_faults := []\<rparr>) \<and>
           (\<forall>k. runtime_state_for_issue after k =
              (if runtime_state_issue_identifier s = Some k then Some s else runtime_state_for_issue before k)) \<and>
           (distinct (workers.keys before) \<longrightarrow> distinct (workers.keys after)))"
proof -
  let ?path = "runtime_state_path config"
  obtain r1 w1 where l: "load_runtime_states_from_path parse ?path w = (r1, w1)" by (cases "load_runtime_states_from_path parse ?path w")
  note f1 = load_runtime_states_files [OF l]
  show ?thesis
  proof (cases r1)
    case (Inl e)
    then have "r = Inl e" "w' = w1" using assms(2) l by (simp_all add: upsert_runtime_state_def bindE_def)
    then show ?thesis using f1 by simp
  next
    case (Inr states)
    let ?new = "upsert_runtime_state_entry s states"
    have s: "save_runtime_states_to_path print ?path ?new w1 = (r, w')"
      using assms(2) l Inr by (simp add: upsert_runtime_state_def bindE_def)
    show ?thesis
    proof (cases r)
      case (Inl e)
      then show ?thesis using save_states_outcome [OF s] f1 by simp
    next
      case (Inr u)
      have "stored_states parse (fs_files w ?path) = Inr states"
        using load_runtime_states_Inr l \<open>r1 = Inr states\<close> by blast
      moreover have "stored_states parse (fs_files w' ?path) = Inr ?new"
        using save_states_outcome [OF s] Inr stored_states_text [OF assms(1)] by simp
      ultimately show ?thesis
        using Inr by (auto simp: load_no_fault runtime_state_for_issue_look workers.look_upsert workers.distinct_upsert)
    qed
  qed
qed

definition example_runtime_state :: "string \<Rightarrow> RuntimeState" where
  "example_runtime_state n = runtime_state_active \<lparr>ris_id = ''id'' @ n, ris_identifier = ''#'' @ n\<rparr> ''codex''"

definition example_fs :: "fault option list \<Rightarrow> fs" where
  "example_fs faults = \<lparr>fs_files = Map.empty, fs_faults = faults, fs_temp_counter = 0, fs_process_id = 42\<rparr>"

theorem upsert_runtime_state_atomic_witness:
  "\<exists>after (w :: fs).
     load_runtime_states_from_path parse_json (runtime_state_path (example_config 2)) w = (Inr after, w) \<and>
     runtime_state_for_issue after ''#8'' = Some (example_runtime_state ''8'')"
proof -
  let ?s = "example_runtime_state ''8''"
  obtain w where "upsert_runtime_state print_json parse_json (example_config 2) ?s (example_fs []) = (Inr (), w)"
    using upsert_runtime_state_succeeds [of "example_fs []" parse_json "example_config 2" "[]" print_json ?s]
    by (auto simp: example_fs_def stored_states_def)
  note ok = upsert_runtime_state_atomic [OF json_text_example this, unfolded sum.case]
  have key: "runtime_state_issue_identifier ?s = Some ''#8''" by code_simp
  from ok obtain before after where
      l: "load_runtime_states_from_path parse_json (runtime_state_path (example_config 2))
        (w\<lparr>fs_faults := []\<rparr>) = (Inr after, w\<lparr>fs_faults := []\<rparr>)"
    and k: "\<forall>k. runtime_state_for_issue after k =
        (if runtime_state_issue_identifier ?s = Some k then Some ?s else runtime_state_for_issue before k)"
    by blast
  have "runtime_state_for_issue after ''#8'' = Some ?s" by (rule trans [OF spec [OF k]]) (simp only: key refl if_True)
  with l show ?thesis by blast
qed

end
