(* ===== verification/Session_Registry.thy ===== *)
theory Session_Registry
  imports Config File_System Json_Text
begin

section \<open>The session registry (\<^verbatim>\<open>src/session_registry.rs\<close>)\<close>

text \<open>
  The file in which every lane records the agent sessions it starts, and the classification of a
  session from its recorded status, the tail of its terminal pane and the tail of its log. As in
  \<open>Runtime_State\<close>, printing and parsing JSON text are arguments and each operation is one step.
  Texts hold characters below 256, so the two prompt characters outside that range that the
  classification also looks for never occur.
\<close>

datatype SessionStatus =
    Starting
  | Running
  | WaitingForTrust
  | WaitingForApproval
  | WaitingForHumanInput
  | UsageLimited
  | Failed
  | Completed
  | Recorded
  | Stale
  | Unknown
  | UnknownPersisted string

record AgentSessionRecord =
  ars_issue_id :: "string option"
  ars_issue_identifier :: "string option"
  ars_issue_title :: "string option"
  ars_lane :: string
  ars_run_id :: "string option"
  ars_thread :: "string option"
  ars_session_source :: "string option"
  ars_claim_value :: "string option"
  ars_actor_role :: "string option"
  ars_actor_label :: "string option"
  ars_git_author :: "string option"
  ars_profile_id :: "string option"
  ars_instance_name :: "string option"
  ars_worktree :: string
  ars_branch :: "string option"
  ars_backend :: string
  ars_session_name :: string
  ars_process_id :: "u32 option"
  ars_pane_target :: string
  ars_prompt_artifact_path :: string
  ars_log_path :: string
  ars_attach_command :: string
  ars_attempt :: u32
  ars_status :: SessionStatus
  ars_started_at_ms :: u64
  ars_updated_at_ms :: u64

datatype SessionStatusSource = Pane | Log | Registry | NoSource

record SessionStatusProbe =
  ssp_status :: SessionStatus
  ssp_source :: SessionStatusSource
  ssp_evidence :: string

subsection \<open>Statuses\<close>

fun session_status_as_str :: "SessionStatus \<Rightarrow> string" where
  "session_status_as_str Starting = ''starting''"
| "session_status_as_str Running = ''running''"
| "session_status_as_str WaitingForTrust = ''waiting_for_trust''"
| "session_status_as_str WaitingForApproval = ''waiting_for_approval''"
| "session_status_as_str WaitingForHumanInput = ''waiting_for_human_input''"
| "session_status_as_str UsageLimited = ''usage_limited''"
| "session_status_as_str Failed = ''failed''"
| "session_status_as_str Completed = ''completed''"
| "session_status_as_str Recorded = ''recorded''"
| "session_status_as_str Stale = ''stale''"
| "session_status_as_str Unknown = ''unknown''"
| "session_status_as_str (UnknownPersisted _) = ''unknown''"

fun raw_persisted_unknown :: "SessionStatus \<Rightarrow> string option" where
  "raw_persisted_unknown (UnknownPersisted raw) = Some raw"
| "raw_persisted_unknown _ = None"

text \<open>The spellings in the order of the match.\<close>

definition known_statuses :: "SessionStatus list" where
  "known_statuses =
     [Starting, Running, WaitingForTrust, WaitingForApproval, WaitingForHumanInput, UsageLimited,
      Failed, Completed, Recorded, Stale, Unknown]"

definition from_persisted_str :: "string \<Rightarrow> SessionStatus" where
  "from_persisted_str value =
     (case List.find (\<lambda>s. session_status_as_str s = value) known_statuses of
        Some s \<Rightarrow> s
      | None \<Rightarrow> UnknownPersisted value)"

fun persisted_str :: "SessionStatus \<Rightarrow> string" where
  "persisted_str (UnknownPersisted raw) = raw"
| "persisted_str s = session_status_as_str s"

fun session_status_source_as_str :: "SessionStatusSource \<Rightarrow> string" where
  "session_status_source_as_str Pane = ''pane''"
| "session_status_source_as_str Log = ''log''"
| "session_status_source_as_str Registry = ''registry''"
| "session_status_source_as_str NoSource = ''none''"

subsection \<open>The file format\<close>

definition record_fields :: "AgentSessionRecord \<Rightarrow> (string \<times> json option) list" where
  "record_fields r =
     [(''issue_id'', nullable String (ars_issue_id r)),
      (''issue_identifier'', nullable String (ars_issue_identifier r)),
      (''issue_title'', nullable String (ars_issue_title r)),
      (''lane'', Some (String (ars_lane r))),
      (''run_id'', skipped String (ars_run_id r)),
      (''thread'', skipped String (ars_thread r)),
      (''session_source'', skipped String (ars_session_source r)),
      (''claim_value'', skipped String (ars_claim_value r)),
      (''actor_role'', nullable String (ars_actor_role r)),
      (''actor_label'', nullable String (ars_actor_label r)),
      (''git_author'', nullable String (ars_git_author r)),
      (''profile_id'', nullable String (ars_profile_id r)),
      (''instance_name'', nullable String (ars_instance_name r)),
      (''worktree'', Some (String (ars_worktree r))),
      (''branch'', nullable String (ars_branch r)),
      (''backend'', Some (String (ars_backend r))),
      (''session_name'', Some (String (ars_session_name r))),
      (''process_id'', skipped enc_word (ars_process_id r)),
      (''pane_target'', Some (String (ars_pane_target r))),
      (''prompt_artifact_path'', Some (String (ars_prompt_artifact_path r))),
      (''log_path'', Some (String (ars_log_path r))),
      (''attach_command'', Some (String (ars_attach_command r))),
      (''attempt'', Some (enc_word (ars_attempt r))),
      (''status'', Some (String (persisted_str (ars_status r)))),
      (''started_at_ms'', Some (enc_word (ars_started_at_ms r))),
      (''updated_at_ms'', Some (enc_word (ars_updated_at_ms r)))]"

definition enc_record :: "AgentSessionRecord \<Rightarrow> json" where
  "enc_record r = struct (record_fields r)"

definition enc_registry :: "AgentSessionRecord list \<Rightarrow> json" where
  "enc_registry sessions = struct [(''sessions'', Some (Array (map enc_record sessions)))]"

definition dec_record :: "json \<Rightarrow> AgentSessionRecord option" where
  "dec_record v =
     Option.bind (opt as_str v ''issue_id'') (\<lambda>issue_id.
     Option.bind (opt as_str v ''issue_identifier'') (\<lambda>issue_identifier.
     Option.bind (opt as_str v ''issue_title'') (\<lambda>issue_title.
     Option.bind (req as_str v ''lane'') (\<lambda>lane.
     Option.bind (opt as_str v ''run_id'') (\<lambda>run_id.
     Option.bind (opt as_str v ''thread'') (\<lambda>thread.
     Option.bind (opt as_str v ''session_source'') (\<lambda>session_source.
     Option.bind (opt as_str v ''claim_value'') (\<lambda>claim_value.
     Option.bind (opt as_str v ''actor_role'') (\<lambda>actor_role.
     Option.bind (opt as_str v ''actor_label'') (\<lambda>actor_label.
     Option.bind (opt as_str v ''git_author'') (\<lambda>git_author.
     Option.bind (opt as_str v ''profile_id'') (\<lambda>profile_id.
     Option.bind (opt as_str v ''instance_name'') (\<lambda>instance_name.
     Option.bind (req as_str v ''worktree'') (\<lambda>worktree.
     Option.bind (opt as_str v ''branch'') (\<lambda>branch.
     Option.bind (req as_str v ''backend'') (\<lambda>backend.
     Option.bind (req as_str v ''session_name'') (\<lambda>session_name.
     Option.bind (opt dec_word v ''process_id'') (\<lambda>process_id.
     Option.bind (req as_str v ''pane_target'') (\<lambda>pane_target.
     Option.bind (req as_str v ''prompt_artifact_path'') (\<lambda>prompt_artifact_path.
     Option.bind (req as_str v ''log_path'') (\<lambda>log_path.
     Option.bind (req as_str v ''attach_command'') (\<lambda>attach_command.
     Option.bind (req dec_word v ''attempt'') (\<lambda>attempt.
     Option.bind (req as_str v ''status'') (\<lambda>status.
     Option.bind (req dec_word v ''started_at_ms'') (\<lambda>started_at_ms.
     map_option (\<lambda>updated_at_ms.
       \<lparr>ars_issue_id = issue_id, ars_issue_identifier = issue_identifier, ars_issue_title = issue_title,
        ars_lane = lane, ars_run_id = run_id, ars_thread = thread, ars_session_source = session_source,
        ars_claim_value = claim_value, ars_actor_role = actor_role, ars_actor_label = actor_label,
        ars_git_author = git_author, ars_profile_id = profile_id, ars_instance_name = instance_name,
        ars_worktree = worktree, ars_branch = branch, ars_backend = backend,
        ars_session_name = session_name, ars_process_id = process_id, ars_pane_target = pane_target,
        ars_prompt_artifact_path = prompt_artifact_path, ars_log_path = log_path,
        ars_attach_command = attach_command, ars_attempt = attempt,
        ars_status = from_persisted_str status, ars_started_at_ms = started_at_ms,
        ars_updated_at_ms = updated_at_ms\<rparr>)
       (req dec_word v ''updated_at_ms''))))))))))))))))))))))))))"

definition dec_registry :: "json \<Rightarrow> AgentSessionRecord list option" where
  "dec_registry v = with_default [] (dec_list dec_record) v ''sessions''"

subsection \<open>The file\<close>

datatype SessionRegistryError = Io io_error | Serialize

definition SESSION_REGISTRY_FILE :: string where
  "SESSION_REGISTRY_FILE = ''session-registry.json''"

definition session_registry_path :: "RuntimeConfig \<Rightarrow> string" where
  "session_registry_path config =
     (let root = art_root (rc_artifacts config);
          path = (case art_namespace (rc_artifacts config) of None \<Rightarrow> root | Some n \<Rightarrow> path_join root n)
      in path_join (path_join (path_join path ''default'') ''sessions'') SESSION_REGISTRY_FILE)"

definition registry_from_text ::
    "(string \<Rightarrow> json option) \<Rightarrow> string \<Rightarrow> (SessionRegistryError, AgentSessionRecord list) result" where
  "registry_from_text parse content =
     (case Option.bind (parse content) dec_registry of None \<Rightarrow> Inl Serialize | Some rs \<Rightarrow> Inr rs)"

definition load_session_registry ::
    "(string \<Rightarrow> json option) \<Rightarrow> string \<Rightarrow> ('m fs_scheme, SessionRegistryError, AgentSessionRecord list) io" where
  "load_session_registry parse path =
     bindE (tryE (read_to_string path)) (\<lambda>r.
       case r of
         Inl NotFound \<Rightarrow> returnE []
       | Inl e \<Rightarrow> failE (Io e)
       | Inr content \<Rightarrow> liftE (registry_from_text parse content))"

definition save_session_registry ::
    "(json \<Rightarrow> string) \<Rightarrow> string \<Rightarrow> AgentSessionRecord list \<Rightarrow> ('m fs_scheme, SessionRegistryError, unit) io" where
  "save_session_registry print path sessions =
     map_errE Io (replace_file SESSION_REGISTRY_FILE path (print (enc_registry sessions)))"

definition store_session :: "AgentSessionRecord \<Rightarrow> AgentSessionRecord list \<Rightarrow> AgentSessionRecord list" where
  "store_session r = replace_first (\<lambda>e. ars_session_name e = ars_session_name r) r"

definition save_session_record ::
    "(json \<Rightarrow> string) \<Rightarrow> (string \<Rightarrow> json option) \<Rightarrow> string \<Rightarrow> AgentSessionRecord \<Rightarrow>
     ('m fs_scheme, SessionRegistryError, unit) io" where
  "save_session_record print parse path r =
     bindE (load_session_registry parse path) (\<lambda>sessions.
       save_session_registry print path (store_session r sessions))"

definition update_session_record_status ::
    "(json \<Rightarrow> string) \<Rightarrow> (string \<Rightarrow> json option) \<Rightarrow> string \<Rightarrow> string \<Rightarrow> SessionStatus \<Rightarrow> u64 \<Rightarrow>
     ('m fs_scheme, SessionRegistryError, unit) io" where
  "update_session_record_status print parse path session_id status updated_at_ms =
     bindE (load_session_registry parse path) (\<lambda>sessions.
       case List.find (\<lambda>r. ars_session_name r = session_id) sessions of
         None \<Rightarrow> returnE ()
       | Some r \<Rightarrow>
           save_session_registry print path
             (store_session (r\<lparr>ars_status := status, ars_updated_at_ms := updated_at_ms\<rparr>) sessions))"

subsection \<open>Names\<close>

definition issue_number :: "string \<Rightarrow> string option" where
  "issue_number identifier =
     (let number = unwrap_or (strip_prefix ''#'' (trim identifier)) (trim identifier) in
      if number \<noteq> [] \<and> list_all is_ascii_digit number then Some number else None)"

definition safe_component :: "string option \<Rightarrow> nat \<Rightarrow> string" where
  "safe_component value max_len =
     (let safe = trim_matches (\<lambda>c. c = CHR ''-'')
            (map (\<lambda>c. if is_ascii_alphanumeric c \<or> c \<in> {CHR ''-'', CHR ''_''} then ascii_lower_char c
                      else CHR ''-'') (unwrap_or value ''run''));
          safe' = (if safe = [] then ''run'' else safe)
      in take (max max_len 1) safe')"

definition deterministic_session_name ::
    "string \<Rightarrow> string \<Rightarrow> string option \<Rightarrow> u32 \<Rightarrow> string option \<Rightarrow> string" where
  "deterministic_session_name prefix lane issue_identifier attempt slug =
     (let issue = unwrap_or (Option.bind issue_identifier issue_number) (safe_component issue_identifier 24) in
      safe_component (Some prefix) 24 @ ''-'' @ safe_component (Some lane) 16 @ ''-'' @ issue @
      ''-attempt-'' @ show_nat (unat (max attempt 1)) @ ''-'' @ safe_component slug 48)"

subsection \<open>Pane and log\<close>

text \<open>What a finished subprocess leaves: whether it succeeded, its exit code, the text of its
  status, and its two outputs decoded with replacement characters.\<close>

record CommandOutput =
  co_success :: bool
  co_code :: "int option"
  co_status :: string
  co_stdout :: string
  co_stderr :: string

definition capture_tmux_pane_tail ::
    "(string \<Rightarrow> string list \<Rightarrow> ('w, string, CommandOutput) io) \<Rightarrow> string \<Rightarrow> string \<Rightarrow> nat \<Rightarrow>
     ('w, string, string) io" where
  "capture_tmux_pane_tail run tmux_command target max_lines =
     (let start = ''-'' @ show_nat (max 1 (min 500 max_lines)) in
      bindE (tryE (run tmux_command [''capture-pane'', ''-p'', ''-t'', target, ''-S'', start])) (\<lambda>r.
        case r of
          Inr out \<Rightarrow>
            (if co_success out then returnE (co_stdout out)
             else failE (''tmux capture-pane exited with status '' @ show_int (unwrap_or (co_code out) (- 1))))
        | Inl error \<Rightarrow> failE (''tmux capture-pane failed: '' @ error)))"

definition tail_lines :: "string \<Rightarrow> nat \<Rightarrow> string" where
  "tail_lines text max_lines =
     (let ls = lines text in join [char_of (10 :: nat)] (drop (length ls - max max_lines 1) ls))"

definition read_log_tail ::
    "string \<Rightarrow> nat \<Rightarrow> ('m fs_scheme, SessionRegistryError, string option) io" where
  "read_log_tail path max_lines =
     bindE (tryE (read_to_string path)) (\<lambda>r.
       case r of
         Inr content \<Rightarrow> returnE (Some (tail_lines content max_lines))
       | Inl NotFound \<Rightarrow> returnE None
       | Inl e \<Rightarrow> failE (Io e))"

subsection \<open>Classification\<close>

definition normalized_session_text :: "string \<Rightarrow> string" where
  "normalized_session_text text = to_lowercase (join '' '' (split_whitespace text))"

definition compact_session_evidence :: "string \<Rightarrow> string" where
  "compact_session_evidence text =
     (let compact = join '' '' (split_whitespace text) in
      if length compact > 180 then take 180 compact @ ''...'' else compact)"

text \<open>The patterns in the order in which they are tried.\<close>

definition usage_limited_text :: "string \<Rightarrow> bool" where
  "usage_limited_text t \<longleftrightarrow>
     contains_any t [''usage limit'', ''rate limit'', ''quota exceeded'', ''too many requests'', ''429'']"

definition waiting_for_trust_text :: "string \<Rightarrow> bool" where
  "waiting_for_trust_text t \<longleftrightarrow>
     contains_any t
       [''do you trust the contents of this directory'', ''do you trust the files in this directory'',
        ''do you trust the files in this folder''] \<or>
     contains t ''trust'' \<and> contains t ''directory'' \<and> contains t ''codex''"

definition waiting_for_approval_text :: "string \<Rightarrow> bool" where
  "waiting_for_approval_text t \<longleftrightarrow>
     (contains t ''approval'' \<or> contains t ''approve'' \<or> contains t ''allow'') \<and>
     contains_any t [''command'', ''permission'', ''escalation'', ''sandbox'', ''execute'', ''action'']"

definition waiting_for_human_text :: "string \<Rightarrow> bool" where
  "waiting_for_human_text t \<longleftrightarrow>
     contains_any t
       [''conversation interrupted'', ''need human input'', ''needs human input'', ''waiting for human'',
        ''requires human input'', ''clarification needed'', ''please provide'']"

definition completed_text :: "string \<Rightarrow> bool" where
  "completed_text t \<longleftrightarrow>
     contains_any t
       [''completed successfully'', ''task complete'', ''status=complete'', ''final answer'', ''done; verification'']"

definition failed_text :: "string \<Rightarrow> bool" where
  "failed_text t \<longleftrightarrow>
     contains_any t
       [''exited with status'', ''fatal:'', ''panic'', ''thread '' @ [char_of (39 :: nat)], ''error:'',
        ''operation not permitted'', ''permission denied'']"

definition starting_text :: "string \<Rightarrow> bool" where
  "starting_text t \<longleftrightarrow>
     contains_any t [''starting'', ''launching'', ''loading'', ''checking workspace'', ''preparing'']"

definition running_text :: "string \<Rightarrow> bool" where
  "running_text t \<longleftrightarrow>
     contains_any t
       [''thinking'', ''working'', ''running'', ''executing'', ''applying patch'', ''tokens'', ''codex'']"

definition output_status :: "string \<Rightarrow> SessionStatus option" where
  "output_status t =
     (if usage_limited_text t then Some UsageLimited
      else if waiting_for_trust_text t then Some WaitingForTrust
      else if waiting_for_approval_text t then Some WaitingForApproval
      else if waiting_for_human_text t then Some WaitingForHumanInput
      else if completed_text t then Some Completed
      else if failed_text t then Some Failed
      else if starting_text t then Some Starting
      else if running_text t then Some Running
      else None)"

definition classify_session_output :: "string \<Rightarrow> SessionStatusSource \<Rightarrow> SessionStatusProbe option" where
  "classify_session_output text source =
     (let evidence = compact_session_evidence text in
      if evidence = []
      then Some \<lparr>ssp_status = Starting, ssp_source = source, ssp_evidence = ''no pane or log output yet''\<rparr>
      else map_option (\<lambda>status. \<lparr>ssp_status = status, ssp_source = source, ssp_evidence = evidence\<rparr>)
             (output_status (normalized_session_text text)))"

definition registry_status_evidence :: "AgentSessionRecord \<Rightarrow> string" where
  "registry_status_evidence r =
     (case raw_persisted_unknown (ars_status r) of
        Some raw \<Rightarrow> ''unknown persisted session status '' @ raw
      | None \<Rightarrow> ''registry status '' @ session_status_as_str (ars_status r))"

text \<open>What is reported when neither tail says anything: a session without updates is stale, an
  unrecognised tail makes the status unknown, else the record's own status stands.\<close>

definition classify_quiet_session ::
    "AgentSessionRecord \<Rightarrow> string option \<Rightarrow> string option \<Rightarrow> u64 \<Rightarrow> u64 \<Rightarrow> SessionStatusProbe" where
  "classify_quiet_session r pane_tail log_tail now_ms stale_after_ms =
     (let quiet = saturating_sub now_ms (ars_updated_at_ms r) in
      if stale_after_ms > 0 \<and> quiet > stale_after_ms \<and> ars_status r \<notin> {Completed, Failed, Recorded}
      then \<lparr>ssp_status = Stale, ssp_source = Registry,
            ssp_evidence = ''registry record has not updated for '' @ show_nat (unat quiet) @ ''ms''\<rparr>
      else (case or_else (filter_option (\<lambda>t. \<not> blank t) pane_tail) (filter_option (\<lambda>t. \<not> blank t) log_tail) of
              Some tail \<Rightarrow>
                \<lparr>ssp_status = Unknown, ssp_source = (if pane_tail \<noteq> None then Pane else Log),
                 ssp_evidence = compact_session_evidence tail\<rparr>
            | None \<Rightarrow>
                \<lparr>ssp_status = ars_status r, ssp_source = Registry, ssp_evidence = registry_status_evidence r\<rparr>))"

definition classify_session_record ::
    "AgentSessionRecord \<Rightarrow> string option \<Rightarrow> string option \<Rightarrow> u64 \<Rightarrow> u64 \<Rightarrow> SessionStatusProbe" where
  "classify_session_record r pane_tail log_tail now_ms stale_after_ms =
     (if ars_status r \<in> {Completed, Recorded}
      then \<lparr>ssp_status = ars_status r, ssp_source = Registry, ssp_evidence = registry_status_evidence r\<rparr>
      else case Option.bind pane_tail (\<lambda>t. classify_session_output t Pane) of
        Some probe \<Rightarrow> probe
      | None \<Rightarrow>
          (case Option.bind log_tail (\<lambda>t. classify_session_output t Log) of
             Some probe \<Rightarrow> probe
           | None \<Rightarrow> classify_quiet_session r pane_tail log_tail now_ms stale_after_ms))"

subsection \<open>Facts: the format\<close>

text \<open>The statuses that read back as they were written; every status that was read is one.\<close>

definition status_ok :: "SessionStatus \<Rightarrow> bool" where
  "status_ok s \<longleftrightarrow> from_persisted_str (persisted_str s) = s"

lemma known_status_ok: "s \<in> set known_statuses \<Longrightarrow> status_ok s"
  unfolding known_statuses_def status_ok_def by auto (code_simp+)

lemma status_ok_iff: "status_ok s \<longleftrightarrow> (\<forall>raw. s = UnknownPersisted raw \<longrightarrow> (\<forall>k \<in> set known_statuses. session_status_as_str k \<noteq> raw))"
proof (cases "\<exists>raw. s = UnknownPersisted raw")
  case True
  then obtain raw where s: "s = UnknownPersisted raw" by blast
  have "UnknownPersisted raw \<notin> set known_statuses" by (simp add: known_statuses_def)
  then show ?thesis
    by (auto simp: s status_ok_def from_persisted_str_def find_None_iff find_Some_iff split: option.splits)
next
  case False
  then have "s \<in> set known_statuses" by (cases s) (auto simp: known_statuses_def)
  then show ?thesis using False known_status_ok by blast
qed

lemma from_persisted_ok [simp]: "status_ok (from_persisted_str t)"
proof (cases "List.find (\<lambda>s. session_status_as_str s = t) known_statuses")
  case None
  then have "from_persisted_str t = UnknownPersisted t" by (simp add: from_persisted_str_def)
  then show ?thesis using None by (auto simp: status_ok_iff find_None_iff)
next
  case (Some s)
  then have "s \<in> set known_statuses" by (auto simp: find_Some_iff)
  moreover have "from_persisted_str t = s" using Some by (simp add: from_persisted_str_def)
  ultimately show ?thesis by (simp add: known_status_ok)
qed

lemma record_fields_distinct: "distinct (map fst (record_fields r))"
  by (simp add: record_fields_def)

lemma record_field:
  "map_of (record_fields r) ''issue_id'' = Some (nullable String (ars_issue_id r))"
  "map_of (record_fields r) ''issue_identifier'' = Some (nullable String (ars_issue_identifier r))"
  "map_of (record_fields r) ''issue_title'' = Some (nullable String (ars_issue_title r))"
  "map_of (record_fields r) ''lane'' = Some (Some (String (ars_lane r)))"
  "map_of (record_fields r) ''run_id'' = Some (skipped String (ars_run_id r))"
  "map_of (record_fields r) ''thread'' = Some (skipped String (ars_thread r))"
  "map_of (record_fields r) ''session_source'' = Some (skipped String (ars_session_source r))"
  "map_of (record_fields r) ''claim_value'' = Some (skipped String (ars_claim_value r))"
  "map_of (record_fields r) ''actor_role'' = Some (nullable String (ars_actor_role r))"
  "map_of (record_fields r) ''actor_label'' = Some (nullable String (ars_actor_label r))"
  "map_of (record_fields r) ''git_author'' = Some (nullable String (ars_git_author r))"
  "map_of (record_fields r) ''profile_id'' = Some (nullable String (ars_profile_id r))"
  "map_of (record_fields r) ''instance_name'' = Some (nullable String (ars_instance_name r))"
  "map_of (record_fields r) ''worktree'' = Some (Some (String (ars_worktree r)))"
  "map_of (record_fields r) ''branch'' = Some (nullable String (ars_branch r))"
  "map_of (record_fields r) ''backend'' = Some (Some (String (ars_backend r)))"
  "map_of (record_fields r) ''session_name'' = Some (Some (String (ars_session_name r)))"
  "map_of (record_fields r) ''process_id'' = Some (skipped enc_word (ars_process_id r))"
  "map_of (record_fields r) ''pane_target'' = Some (Some (String (ars_pane_target r)))"
  "map_of (record_fields r) ''prompt_artifact_path'' = Some (Some (String (ars_prompt_artifact_path r)))"
  "map_of (record_fields r) ''log_path'' = Some (Some (String (ars_log_path r)))"
  "map_of (record_fields r) ''attach_command'' = Some (Some (String (ars_attach_command r)))"
  "map_of (record_fields r) ''attempt'' = Some (Some (enc_word (ars_attempt r)))"
  "map_of (record_fields r) ''status'' = Some (Some (String (persisted_str (ars_status r))))"
  "map_of (record_fields r) ''started_at_ms'' = Some (Some (enc_word (ars_started_at_ms r)))"
  "map_of (record_fields r) ''updated_at_ms'' = Some (Some (enc_word (ars_updated_at_ms r)))"
  by (simp_all add: record_fields_def)

lemmas record_reads =
  opt_nullable [OF record_fields_distinct record_field(1)]
  opt_nullable [OF record_fields_distinct record_field(2)]
  opt_nullable [OF record_fields_distinct record_field(3)]
  req_struct [OF record_fields_distinct record_field(4)]
  opt_skipped [OF record_fields_distinct record_field(5)]
  opt_skipped [OF record_fields_distinct record_field(6)]
  opt_skipped [OF record_fields_distinct record_field(7)]
  opt_skipped [OF record_fields_distinct record_field(8)]
  opt_nullable [OF record_fields_distinct record_field(9)]
  opt_nullable [OF record_fields_distinct record_field(10)]
  opt_nullable [OF record_fields_distinct record_field(11)]
  opt_nullable [OF record_fields_distinct record_field(12)]
  opt_nullable [OF record_fields_distinct record_field(13)]
  req_struct [OF record_fields_distinct record_field(14)]
  opt_nullable [OF record_fields_distinct record_field(15)]
  req_struct [OF record_fields_distinct record_field(16)]
  req_struct [OF record_fields_distinct record_field(17)]
  opt_skipped [OF record_fields_distinct record_field(18)]
  req_struct [OF record_fields_distinct record_field(19)]
  req_struct [OF record_fields_distinct record_field(20)]
  req_struct [OF record_fields_distinct record_field(21)]
  req_struct [OF record_fields_distinct record_field(22)]
  req_struct [OF record_fields_distinct record_field(23)]
  req_struct [OF record_fields_distinct record_field(24)]
  req_struct [OF record_fields_distinct record_field(25)]
  req_struct [OF record_fields_distinct record_field(26)]

lemma dec_enc_record: "status_ok (ars_status r) \<Longrightarrow> dec_record (canon (enc_record r)) = Some r"
  unfolding dec_record_def enc_record_def status_ok_def by (simp add: record_reads)

lemma dec_enc_registry:
  assumes "list_all (\<lambda>r. status_ok (ars_status r)) rs"
  shows "dec_registry (canon (enc_registry rs)) = Some rs"
proof -
  have "dec_list dec_record (Array (map canon (map enc_record rs))) = Some (map id rs)"
    unfolding dec_list_def as_array.simps Option.bind.bind_lunit map_map
    by (rule all_some_map) (use assms in \<open>auto simp: list_all_iff dec_enc_record\<close>)
  then show ?thesis by (simp add: dec_registry_def enc_registry_def with_default_def)
qed

lemma dec_record_ok: "dec_record v = Some r \<Longrightarrow> status_ok (ars_status r)"
  unfolding dec_record_def by (auto simp: bind_eq_Some_conv)

lemma dec_registry_ok: "dec_registry v = Some rs \<Longrightarrow> list_all (\<lambda>r. status_ok (ars_status r)) rs"
proof (cases "json_get v ''sessions''")
  case (Some j)
  assume "dec_registry v = Some rs"
  then obtain vs where "map dec_record vs = map Some rs"
    using Some by (auto simp: dec_registry_def with_default_def dec_list_def bind_eq_Some_conv dest: all_some_Some)
  then have "\<forall>r \<in> set rs. \<exists>v. dec_record v = Some r" by (metis ex_map_conv in_set_conv_nth length_map nth_map)
  then show ?thesis using dec_record_ok by (auto simp: list_all_iff)
qed (simp add: dec_registry_def with_default_def)

subsection \<open>Facts: the file\<close>

interpretation sessions: record_store "\<lambda>r. Some (ars_session_name r)" store_session
  by unfold_locales (simp_all add: store_session_def)

definition session_for :: "AgentSessionRecord list \<Rightarrow> string \<Rightarrow> AgentSessionRecord option" where
  "session_for rs name = List.find (\<lambda>r. ars_session_name r = name) rs"

lemma session_for_look: "session_for rs name = sessions.look name rs"
  by (simp add: session_for_def sessions.look_def)

definition stored_sessions ::
    "(string \<Rightarrow> json option) \<Rightarrow> string option \<Rightarrow> (SessionRegistryError, AgentSessionRecord list) result" where
  "stored_sessions parse content = (case content of None \<Rightarrow> Inr [] | Some c \<Rightarrow> registry_from_text parse c)"

lemma load_registry_no_fault:
  "fs_faults w = [] \<Longrightarrow> load_session_registry parse path w = (stored_sessions parse (fs_files w path), w)"
  by (auto simp: load_session_registry_def bindE_def tryE_def read_to_string_def next_fault_def
      stored_sessions_def split: option.splits)

lemma load_registry_Inr:
  "load_session_registry parse path w = (Inr rs, w') \<Longrightarrow>
   stored_sessions parse (fs_files w path) = Inr rs \<and> fs_files w' = fs_files w"
  by (auto simp: load_session_registry_def bindE_Inr tryE_def read_to_string_def stored_sessions_def
      split: prod.splits sum.splits option.splits io_error.splits fault.splits)

lemma load_registry_files: "load_session_registry parse path w = (r, w') \<Longrightarrow> fs_files w' = fs_files w"
  by (auto simp: load_session_registry_def bindE_def tryE_def read_to_string_def
      split: prod.splits sum.splits option.splits io_error.splits fault.splits)

lemma stored_sessions_ok: "stored_sessions parse c = Inr rs \<Longrightarrow> list_all (\<lambda>r. status_ok (ars_status r)) rs"
  by (auto simp: stored_sessions_def registry_from_text_def bind_eq_Some_conv dec_registry_ok split: option.splits)

lemma stored_sessions_text:
  "json_text_ok print parse \<Longrightarrow> list_all (\<lambda>r. status_ok (ars_status r)) rs \<Longrightarrow>
   stored_sessions parse (Some (print (enc_registry rs))) = Inr rs"
  by (simp add: stored_sessions_def registry_from_text_def json_text_ok_def dec_enc_registry)

lemma registry_file_name: "CHR ''/'' \<notin> set SESSION_REGISTRY_FILE"
  by (simp add: SESSION_REGISTRY_FILE_def)

lemma save_registry_outcome:
  "save_session_registry print path rs w = (r, w') \<Longrightarrow>
   (case r of Inl e \<Rightarrow> fs_files w' path = fs_files w path
    | Inr _ \<Rightarrow> fs_files w' path = Some (print (enc_registry rs)))"
  unfolding save_session_registry_def
  by (drule map_errE_files) (auto dest: replace_file_atomic [OF _ registry_file_name] split: sum.splits)

lemma store_session_ok:
  "status_ok (ars_status r) \<Longrightarrow> list_all (\<lambda>r. status_ok (ars_status r)) rs \<Longrightarrow>
   list_all (\<lambda>r. status_ok (ars_status r)) (store_session r rs)"
  unfolding store_session_def by (induction rs) auto

lemma save_record_succeeds:
  assumes "fs_faults w = []" "stored_sessions parse (fs_files w path) = Inr rs"
  shows "\<exists>w'. save_session_record print parse path r w = (Inr (), w')"
  using replace_file_succeeds [OF assms(1)] assms
  by (auto simp: save_session_record_def save_session_registry_def bindE_def map_errE_def load_registry_no_fault
      split: prod.splits sum.splits) (metis Inl_Inr_False prod.inject)+

subsection \<open>Properties\<close>

text \<open>C27: Recording a session is all or nothing, whichever call of the file system fails: after an error
  the registry file is as it was; after success a reader gets the previous records with this one
  in place of the one of the same session name, or appended, its status spelled so that it reads
  back as it was. No session name is stored twice if none was.\<close>

theorem save_session_record_atomic:
  assumes "json_text_ok print parse" and "status_ok (ars_status s)"
    and "save_session_record print parse path s w = (r, w')"
  shows "case r of
      Inl e \<Rightarrow> fs_files w' path = fs_files w path
    | Inr _ \<Rightarrow>
        (\<exists>before after.
           load_session_registry parse path (w\<lparr>fs_faults := []\<rparr>) = (Inr before, w\<lparr>fs_faults := []\<rparr>) \<and>
           load_session_registry parse path (w'\<lparr>fs_faults := []\<rparr>) = (Inr after, w'\<lparr>fs_faults := []\<rparr>) \<and>
           (\<forall>k. session_for after k = (if k = ars_session_name s then Some s else session_for before k)) \<and>
           (distinct (map ars_session_name before) \<longrightarrow> distinct (map ars_session_name after)))"
proof -
  obtain r1 w1 where l: "load_session_registry parse path w = (r1, w1)" by (cases "load_session_registry parse path w")
  note f1 = load_registry_files [OF l]
  have keys: "sessions.keys rs = map ars_session_name rs" for rs by (induction rs) simp_all
  show ?thesis
  proof (cases r1)
    case (Inl e)
    then have "r = Inl e" "w' = w1" using assms(3) l by (simp_all add: save_session_record_def bindE_def)
    then show ?thesis using f1 by simp
  next
    case (Inr rs)
    let ?new = "store_session s rs"
    have s: "save_session_registry print path ?new w1 = (r, w')"
      using assms(3) l Inr by (simp add: save_session_record_def bindE_def)
    show ?thesis
    proof (cases r)
      case (Inl e)
      then show ?thesis using save_registry_outcome [OF s] f1 by simp
    next
      case (Inr u)
      have before: "stored_sessions parse (fs_files w path) = Inr rs"
        using load_registry_Inr l \<open>r1 = Inr rs\<close> by blast
      then have "stored_sessions parse (fs_files w' path) = Inr ?new"
        using save_registry_outcome [OF s] Inr stored_sessions_text [OF assms(1)]
          store_session_ok [OF assms(2) stored_sessions_ok] by simp
      then show ?thesis
        using before Inr sessions.distinct_upsert [of rs s]
        by (simp add: load_registry_no_fault session_for_look sessions.look_upsert keys)
    qed
  qed
qed

text \<open>The characters of names.\<close>

definition session_char :: "char \<Rightarrow> bool" where
  "session_char c \<longleftrightarrow> is_ascii_alphanumeric c \<and> ascii_lower_char c = c \<or> c \<in> {CHR ''-'', CHR ''_''}"

lemma digit_session_char: "is_ascii_digit c \<Longrightarrow> session_char c"
  by (auto simp: session_char_def is_ascii_digit_def is_ascii_alphanumeric_def ascii_lower_char_def)

lemma lower_session_char: "is_ascii_alphanumeric c \<Longrightarrow> session_char (ascii_lower_char c)"
  by (auto simp: session_char_def is_ascii_alphanumeric_def ascii_lower_char_def)

lemma issue_number_chars: "issue_number i = Some n \<Longrightarrow> list_all session_char n"
  by (auto simp: issue_number_def Let_def list_all_iff digit_session_char split: if_splits)

lemma mapped_session_char:
  "session_char (if is_ascii_alphanumeric c \<or> c \<in> {CHR ''-'', CHR ''_''} then ascii_lower_char c else CHR ''-'')"
proof -
  have "session_char (CHR ''-'')" "session_char (ascii_lower_char (CHR ''-''))"
    "session_char (ascii_lower_char (CHR ''_''))" by code_simp+
  then show ?thesis using lower_session_char [of c] by (simp only: insert_iff empty_iff split: if_split) blast
qed

lemma trimmed_chars: "(\<And>c. P (f c)) \<Longrightarrow> list_all P (trim_matches q (map f s))"
  using set_trim_matches [of q "map f s"] by (auto simp: list_all_iff)

lemma safe_component_chars: "list_all session_char (safe_component v n)"
proof -
  define f where "f = (\<lambda>c. if is_ascii_alphanumeric c \<or> c \<in> {CHR ''-'', CHR ''_''} then ascii_lower_char c else CHR ''-'')"
  let ?t = "trim_matches (\<lambda>c. c = CHR ''-'') (map f (unwrap_or v ''run''))"
  have "session_char (f c)" for c unfolding f_def by (rule mapped_session_char)
  then have "list_all session_char ?t" by (rule trimmed_chars)
  moreover have "list_all session_char ''run''" by code_simp
  ultimately have "list_all session_char (if ?t = [] then ''run'' else ?t)" by presburger
  then have "list_all session_char (take (max n 1) (if ?t = [] then ''run'' else ?t))"
    unfolding list_all_iff by (blast dest: in_set_takeD)
  then show ?thesis by (simp only: safe_component_def Let_def f_def)
qed

text \<open>Session names, which become terminal session names and path components, consist of lower-case
  letters, digits, hyphens and underscores only, whatever the issue, lane and slug contain.\<close>

theorem session_name_safe:
  "list_all session_char (deterministic_session_name prefix lane issue attempt slug)"
proof -
  have name: "list_all session_char (unwrap_or (Option.bind issue issue_number) (safe_component issue 24))"
    using issue_number_chars safe_component_chars [of issue 24]
    by (cases "Option.bind issue issue_number") (auto simp: bind_eq_Some_conv)
  have digits: "list_all session_char (show_nat n)" for n
    using show_nat_digits digit_session_char by (auto simp: list_all_iff)
  have fixed: "list_all session_char ''-attempt-''" "list_all session_char ''-''" by code_simp+
  show ?thesis
    unfolding deterministic_session_name_def Let_def list_all_append
    by (intro conjI name digits fixed safe_component_chars)
qed

definition example_record :: "SessionStatus \<Rightarrow> AgentSessionRecord" where
  "example_record status =
     \<lparr>ars_issue_id = Some ''I_7'', ars_issue_identifier = Some ''#7'', ars_issue_title = None,
      ars_lane = ''main'', ars_run_id = Some ''run-1'', ars_thread = None, ars_session_source = None,
      ars_claim_value = None, ars_actor_role = None, ars_actor_label = None, ars_git_author = None,
      ars_profile_id = None, ars_instance_name = None, ars_worktree = ''/w/7'', ars_branch = None,
      ars_backend = ''tmux'', ars_session_name = ''shea-main-7-attempt-1-run'', ars_process_id = Some 42,
      ars_pane_target = ''shea:0'', ars_prompt_artifact_path = ''/a/prompt.md'', ars_log_path = ''/a/log'',
      ars_attach_command = ''tmux attach'', ars_attempt = 1, ars_status = status,
      ars_started_at_ms = 1000, ars_updated_at_ms = 1000\<rparr>"

definition empty_fs :: fs where
  "empty_fs = \<lparr>fs_files = Map.empty, fs_faults = [], fs_temp_counter = 0, fs_process_id = 42\<rparr>"

theorem save_session_record_atomic_witness:
  "\<exists>after (w :: fs).
     load_session_registry parse_json ''/a/r.json'' w = (Inr after, w) \<and>
     session_for after ''shea-main-7-attempt-1-run'' = Some (example_record Running)"
proof -
  let ?s = "example_record Running"
  obtain w where "save_session_record print_json parse_json ''/a/r.json'' ?s empty_fs = (Inr (), w)"
    using save_record_succeeds [of empty_fs parse_json "''/a/r.json''" "[]" print_json ?s]
    by (auto simp: empty_fs_def stored_sessions_def)
  moreover have "status_ok (ars_status ?s)" by code_simp
  ultimately have ok: "\<exists>before after.
      load_session_registry parse_json ''/a/r.json'' (w\<lparr>fs_faults := []\<rparr>) = (Inr after, w\<lparr>fs_faults := []\<rparr>) \<and>
      (\<forall>k. session_for after k = (if k = ars_session_name ?s then Some ?s else session_for before k))"
    using save_session_record_atomic [OF json_text_example, of ?s "''/a/r.json''" empty_fs "Inr ()" w]
    unfolding sum.case by blast
  have "ars_session_name ?s = ''shea-main-7-attempt-1-run''" by (simp add: example_record_def)
  then show ?thesis using ok by metis
qed

subsection \<open>Classification\<close>

text \<open>A finished record is reported as it is, whatever its pane shows.\<close>

lemma classify_finished:
  "ars_status r \<in> {Completed, Recorded} \<Longrightarrow> ssp_status (classify_session_record r pane log now stale) = ars_status r"
  by (simp add: classify_session_record_def)

text \<open>Without pane and log the outcome depends on the record and the clock only.\<close>

lemma classify_without_output:
  "classify_session_record r None None now stale =
     (if ars_status r \<in> {Completed, Recorded} then
        \<lparr>ssp_status = ars_status r, ssp_source = Registry, ssp_evidence = registry_status_evidence r\<rparr>
      else classify_quiet_session r None None now stale)"
  by (simp add: classify_session_record_def)

text \<open>A session is only reported stale when its record has not been updated for longer than the limit.\<close>

lemma output_status_not_stale: "output_status t \<noteq> Some Stale"
  by (simp add: output_status_def)

lemma classified_stale:
  assumes "ssp_status (classify_session_record r pane log now stale) = Stale"
  shows "ars_status r = Stale \<or> 0 < stale \<and> unat (ars_updated_at_ms r) + unat stale < unat now"
proof -
  have o: "classify_session_output t s = Some p \<Longrightarrow> ssp_status p \<noteq> Stale" for t s p
    using output_status_not_stale by (auto simp: classify_session_output_def Let_def split: if_splits)
  have "ars_status r \<in> {Completed, Recorded} \<or> classify_session_record r pane log now stale = classify_quiet_session r pane log now stale"
    using assms o by (auto simp: classify_session_record_def bind_eq_Some_conv split: option.splits)
  moreover have "ars_status r \<in> {Completed, Recorded} \<Longrightarrow> ars_status r = Stale"
    using assms classify_finished by metis
  moreover have "ars_status r = Stale \<or> 0 < stale \<and> unat (ars_updated_at_ms r) + unat stale < unat now"
    if "ssp_status (classify_quiet_session r pane log now stale) = Stale"
    using that
    by (auto simp: classify_quiet_session_def Let_def saturating_sub_def unat_sub word_le_nat_alt word_less_nat_alt
        split: if_splits option.splits)
  ultimately show ?thesis using assms by metis
qed

text \<open>An empty pane hides the log: it is reported as starting before the log is looked at, and never
  becomes stale.\<close>

lemma empty_pane_hides_log:
  "ars_status r \<notin> {Completed, Recorded} \<Longrightarrow>
   classify_session_record r (Some []) log now stale =
     \<lparr>ssp_status = Starting, ssp_source = Pane, ssp_evidence = ''no pane or log output yet''\<rparr>"
  by (simp add: classify_session_record_def classify_session_output_def compact_session_evidence_def
      split_whitespace_def)

text \<open>Any number that contains 429 reads as a usage limit.\<close>

lemma token_count_reads_as_usage_limit:
  "ssp_status (classify_session_record (example_record Running) (Some ''working: 14290 tokens used'') None 2000 0) = UsageLimited"
  by code_simp

end
