(* ===== verification/Main_Preflight.thy ===== *)
theory Main_Preflight
  imports Lane_Pool Runtime_State Session_Registry
begin

section \<open>What the main lane finds when it starts (\<^verbatim>\<open>src/lanes/main_loop/runtime.rs\<close>)\<close>

text \<open>
  Before it dispatches, the main lane goes through the workers it remembers and, when it may
  recover, through the registered sessions: it counts the ones that still run, archives the ones
  whose issue has moved on and collects the ones it can take over. The file system is the world
  of \<open>File_System\<close>; the tracker, the event log, the terminal multiplexer, \<^verbatim>\<open>git\<close>, \<^verbatim>\<open>kill\<close> and the
  clock are operations on it (\<open>PreflightEnv\<close>). Errors are their texts. Lines printed for the
  operator are left out.
\<close>

record 'm PreflightEnv =
  pf_parse :: "string \<Rightarrow> json option"
  pf_print :: "json \<Rightarrow> string"
  pf_registry_error :: "SessionRegistryError \<Rightarrow> string"
  pf_io_error :: "io_error \<Rightarrow> string"
  pf_get_issue :: "string \<Rightarrow> ('m fs_scheme, string, TrackerIssue option) io"
  pf_append_event :: "string \<Rightarrow> EventRecord \<Rightarrow> ('m fs_scheme, string, unit) io"
  pf_run :: "string \<Rightarrow> string list \<Rightarrow> ('m fs_scheme, string, CommandOutput) io"
  pf_path_exists :: "string \<Rightarrow> 'm fs_scheme \<Rightarrow> bool"
  pf_path_is_dir :: "string \<Rightarrow> 'm fs_scheme \<Rightarrow> bool"
  pf_clock :: "'m fs_scheme \<Rightarrow> u64 \<times> 'm fs_scheme"

type_synonym ('m, 'a) pf = "('m fs_scheme, string, 'a) io"

definition now :: "'m PreflightEnv \<Rightarrow> ('m, u64) pf" where
  "now env w = (case pf_clock env w of (t, w') \<Rightarrow> (Inr t, w'))"

definition looks :: "('m fs_scheme \<Rightarrow> bool) \<Rightarrow> ('m, bool) pf" where
  "looks p w = (Inr (p w), w)"

definition compact_evidence :: "string \<Rightarrow> string" where
  "compact_evidence value =
     (let compact = join '' '' (split_whitespace value) in
      if length compact > 240 then take 240 compact @ ''...'' else compact)"

definition issue_label :: "RuntimeState \<Rightarrow> string" where
  "issue_label s = unwrap_or (runtime_state_issue_identifier s) ''unknown''"

subsection \<open>Events (\<^verbatim>\<open>supervision.rs\<close>)\<close>

definition append_runtime_supervision_event ::
    "'m PreflightEnv \<Rightarrow> RuntimeConfig \<Rightarrow> RuntimeState option \<Rightarrow> string \<Rightarrow> string \<Rightarrow> ('m, unit) pf" where
  "append_runtime_supervision_event env config s event message =
     pf_append_event env (path_join (obs_logs_root (rc_observability config)) ''shea-symphony.jsonl'')
       (let active_issue = Option.bind s rst_active_issue; identity = rc_identity config in
        \<lparr>ev_event = event, ev_issue_id = map_option ris_id active_issue,
         ev_issue_identifier = map_option ris_identifier active_issue,
         ev_session_id = Option.bind s rst_backend_session_id,
         ev_profile_id = Option.bind s rst_profile_id,
         ev_instance_name = Option.bind s rst_instance_name,
         ev_actor_role = Some (ic_actor_role identity), ev_actor_label = Some (ic_actor_label identity),
         ev_git_author = git_identity_author (ic_git identity), ev_tracker_mutation = None,
         ev_message = message\<rparr>)"

subsection \<open>Stale workers (\<^verbatim>\<open>runtime/archive.rs\<close>)\<close>

datatype ResumePreflightAction =
    Continue
  | ArchiveStale string string string
  | RetryLater string RuntimeRetryState u64
  | Stalled string RuntimeStallState
  | Block string

datatype RuntimeWorkspaceStatus = Absent | Clean string | Dirty string | UnknownStatus string string

definition runtime_workspace_status ::
    "'m PreflightEnv \<Rightarrow> RuntimeState \<Rightarrow> ('m, RuntimeWorkspaceStatus) pf" where
  "runtime_workspace_status env s =
     (case rst_workspace_path s of
        None \<Rightarrow> returnE Absent
      | Some path \<Rightarrow>
          bindE (looks (pf_path_exists env path)) (\<lambda>exists.
          if \<not> exists then returnE Absent
          else bindE (looks (pf_path_is_dir env path)) (\<lambda>is_dir.
          if \<not> is_dir then returnE (UnknownStatus path ''workspace path is not a directory'')
          else bindE (tryE (pf_run env ''git'' [''-C'', path, ''status'', ''--porcelain''])) (\<lambda>output.
          returnE (case output of
            Inr out \<Rightarrow>
              (if co_success out then (if co_stdout out = [] then Clean path else Dirty path)
               else UnknownStatus path (trim (co_stderr out)))
          | Inl error \<Rightarrow> UnknownStatus path error)))))"

definition stale_archive_reason :: "string \<Rightarrow> RuntimeConfig \<Rightarrow> string" where
  "stale_archive_reason normalized config =
     (if normalized = ''need human input'' then ''tracker_state_need_human_input''
      else if normalized \<in> set (terminal_state_set config) then ''tracker_state_terminal''
      else if normalized \<in> {''agent review'', ''human review''} then ''tracker_state_handoff''
      else ''tracker_state_non_active'')"

definition stale_runtime_state_action ::
    "'m PreflightEnv \<Rightarrow> RuntimeState \<Rightarrow> TrackerIssue \<Rightarrow> string \<Rightarrow> RuntimeConfig \<Rightarrow>
     ('m, ResumePreflightAction) pf" where
  "stale_runtime_state_action env s issue normalized config =
     (case rst_active_issue s of
        None \<Rightarrow> failE ''runtime state has no active issue''
      | Some active_issue \<Rightarrow>
          (let archive = ArchiveStale (ris_identifier active_issue) (ti_state issue)
                           (stale_archive_reason normalized config);
               references = ''runtime state references '' @ ris_identifier active_issue @
                 '' but tracker state is '' @ ti_state issue
           in bindE (runtime_workspace_status env s) (\<lambda>status.
             returnE (case status of
                 Absent \<Rightarrow> archive
               | Clean _ \<Rightarrow> archive
               | Dirty path \<Rightarrow>
                   (if normalized = ''need human input'' then archive
                    else Block (references @ ''; workspace is dirty at '' @ path))
               | UnknownStatus path reason \<Rightarrow>
                   Block (references @ ''; workspace status is unknown at '' @ path @ '': '' @ reason)))))"

definition sanitize_archive_segment :: "string \<Rightarrow> string" where
  "sanitize_archive_segment value =
     trim_matches (\<lambda>c. c = CHR ''-'')
       (map (\<lambda>c. if is_ascii_alphanumeric c \<or> c \<in> {CHR ''-'', CHR ''_''} then c else CHR ''-'') value)"

definition archive_runtime_state ::
    "'m PreflightEnv \<Rightarrow> RuntimeConfig \<Rightarrow> RuntimeState \<Rightarrow> string \<Rightarrow> ('m, string) pf" where
  "archive_runtime_state env config s reason =
     (let archive_dir = path_join (unwrap_or (path_parent (runtime_state_path config)) ''.'') ''archive'' in
      bindE (map_errE (pf_io_error env) (create_dir_all archive_dir)) (\<lambda>_.
      bindE (now env) (\<lambda>t.
      let archive_path = path_join archive_dir
            (''runtime-state-'' @ show_nat (unat t) @ ''-'' @ sanitize_archive_segment (issue_label s) @ ''-'' @
             sanitize_archive_segment reason @ ''.json'') in
      bindE (map_errE (pf_io_error env) (write_file archive_path (pf_print env (enc_state s)))) (\<lambda>_.
      returnE archive_path))))"

subsection \<open>Sessions (\<^verbatim>\<open>runtime/session_probe.rs\<close>)\<close>

definition DEFAULT_SESSION_STATUS_LINES :: nat where
  "DEFAULT_SESSION_STATUS_LINES = 80"

definition registered_main_runtime_session :: "AgentSessionRecord \<Rightarrow> bool" where
  "registered_main_runtime_session r \<longleftrightarrow>
     eq_ignore_ascii_case (ars_lane r) ''main'' \<and> ars_backend r \<noteq> ''codex-app-manual''"

definition runtime_state_from_session_record :: "AgentSessionRecord \<Rightarrow> RuntimeState" where
  "runtime_state_from_session_record r =
     (let identifier = unwrap_or (ars_issue_identifier r) ''unknown'' in
      (runtime_state_active
         \<lparr>ris_id = unwrap_or (ars_issue_id r) identifier, ris_identifier = identifier\<rparr> (ars_backend r))
        \<lparr>rst_workspace_path := Some (ars_worktree r), rst_branch_name := ars_branch r,
         rst_backend_session_id := Some (ars_session_name r), rst_lane := Some (ars_lane r),
         rst_run_id := ars_run_id r, rst_backend_log_path := Some (ars_log_path r),
         rst_backend_attach_command := Some (ars_attach_command r), rst_profile_id := ars_profile_id r,
         rst_instance_name := ars_instance_name r, rst_actor_role := ars_actor_role r,
         rst_actor_label := ars_actor_label r, rst_git_author := ars_git_author r,
         rst_attempt_count := ars_attempt r, rst_updated_at_ms := Some (ars_updated_at_ms r),
         rst_last_event := Some ''SessionRunning''\<rparr>)"

definition runtime_session_probe_from_record ::
    "'m PreflightEnv \<Rightarrow> RuntimeConfig \<Rightarrow> AgentSessionRecord \<Rightarrow> u64 \<Rightarrow> ('m, SessionStatusProbe) pf" where
  "runtime_session_probe_from_record env config r now_ms =
     (let classify = (\<lambda>pane log. classify_session_record r pane log now_ms
            (cdx_session_stale_after_ms (rc_codex config))) in
      if ars_backend r = ''tmux'' then
        bindE (map_errE (\<lambda>e. ''tmux_pane_unavailable session='' @ ars_session_name r @ '' error='' @ compact_evidence e)
                (capture_tmux_pane_tail (pf_run env) (tmx_command (rc_tmux config)) (ars_pane_target r)
                  DEFAULT_SESSION_STATUS_LINES)) (\<lambda>pane.
        bindE (map_errE (pf_registry_error env)
                (read_log_tail (ars_log_path r) DEFAULT_SESSION_STATUS_LINES)) (\<lambda>log.
        returnE (classify (Some pane) log)))
      else returnE (classify None None))"

definition load_registry :: "'m PreflightEnv \<Rightarrow> RuntimeConfig \<Rightarrow> ('m, AgentSessionRecord list) pf" where
  "load_registry env config =
     map_errE (pf_registry_error env) (load_session_registry (pf_parse env) (session_registry_path config))"

definition runtime_session_probe_for_state ::
    "'m PreflightEnv \<Rightarrow> RuntimeConfig \<Rightarrow> RuntimeState \<Rightarrow> u64 \<Rightarrow> ('m, SessionStatusProbe option) pf" where
  "runtime_session_probe_for_state env config s now_ms =
     (if rst_last_event s \<notin> {Some ''SessionRunning'', Some ''SessionTerminal''} then returnE None
      else case rst_backend_session_id s of
        None \<Rightarrow> returnE None
      | Some session_id \<Rightarrow>
          bindE (load_registry env config) (\<lambda>sessions.
          case List.find (\<lambda>r. ars_session_name r = session_id) (rev sessions) of
            None \<Rightarrow> returnE None
          | Some r \<Rightarrow>
              bindE (runtime_session_probe_from_record env config r now_ms) (\<lambda>probe. returnE (Some probe))))"

fun session_status_counts_as_active_worker :: "SessionStatus \<Rightarrow> bool" where
  "session_status_counts_as_active_worker SessionStatus.Starting = True"
| "session_status_counts_as_active_worker SessionStatus.Running = True"
| "session_status_counts_as_active_worker WaitingForTrust = True"
| "session_status_counts_as_active_worker WaitingForApproval = True"
| "session_status_counts_as_active_worker WaitingForHumanInput = True"
| "session_status_counts_as_active_worker UsageLimited = True"
| "session_status_counts_as_active_worker SessionStatus.Unknown = True"
| "session_status_counts_as_active_worker (UnknownPersisted _) = True"
| "session_status_counts_as_active_worker _ = False"

fun active_session_status_priority :: "SessionStatus \<Rightarrow> nat" where
  "active_session_status_priority SessionStatus.Running = 0"
| "active_session_status_priority SessionStatus.Starting = 1"
| "active_session_status_priority WaitingForApproval = 2"
| "active_session_status_priority WaitingForHumanInput = 2"
| "active_session_status_priority WaitingForTrust = 2"
| "active_session_status_priority UsageLimited = 3"
| "active_session_status_priority SessionStatus.Unknown = 4"
| "active_session_status_priority (UnknownPersisted _) = 4"
| "active_session_status_priority _ = 5"

subsection \<open>One worker\<close>

definition runtime_state_is_main_lane :: "RuntimeState \<Rightarrow> bool" where
  "runtime_state_is_main_lane s \<longleftrightarrow>
     (case rst_lane s of None \<Rightarrow> True | Some lane \<Rightarrow> eq_ignore_ascii_case lane ''main'')"

definition in_progress :: "TrackerIssue \<Rightarrow> bool" where
  "in_progress issue \<longleftrightarrow> normalize_state (ti_state issue) = ''in progress''"

definition runtime_state_in_progress_issue ::
    "'m PreflightEnv \<Rightarrow> RuntimeState \<Rightarrow> ('m, TrackerIssue option) pf" where
  "runtime_state_in_progress_issue env s =
     (case rst_active_issue s of
        None \<Rightarrow> returnE None
      | Some active_issue \<Rightarrow>
          bindE (pf_get_issue env (ris_identifier active_issue)) (\<lambda>found.
          returnE (filter_option in_progress found)))"

definition runtime_state_points_at_in_progress_issue :: "'m PreflightEnv \<Rightarrow> RuntimeState \<Rightarrow> ('m, bool) pf" where
  "runtime_state_points_at_in_progress_issue env s =
     bindE (runtime_state_in_progress_issue env s) (\<lambda>issue. returnE (issue \<noteq> None))"

definition run_loop_resume_preflight ::
    "'m PreflightEnv \<Rightarrow> RuntimeConfig \<Rightarrow> RuntimeState option \<Rightarrow> u64 \<Rightarrow> ('m, ResumePreflightAction) pf" where
  "run_loop_resume_preflight env config state_opt now_ms =
     (case state_opt of
        None \<Rightarrow> returnE Continue
      | Some s \<Rightarrow>
          (case rst_active_issue s of
             None \<Rightarrow> returnE Continue
           | Some active_issue \<Rightarrow>
               bindE (pf_get_issue env (ris_identifier active_issue)) (\<lambda>found.
               case found of
                 None \<Rightarrow>
                   returnE (ResumePreflightAction.Block
                     (''runtime state references missing issue '' @ ris_identifier active_issue))
               | Some issue \<Rightarrow>
                   (if \<not> in_progress issue
                    then stale_runtime_state_action env s issue (normalize_state (ti_state issue)) config
                    else case rst_retry s of
                      Some retry \<Rightarrow>
                        returnE (let due = due_in_ms retry now_ms in
                          if due > 0 then RetryLater (ris_identifier active_issue) retry due else Continue)
                    | None \<Rightarrow>
                        returnE (case detect_runtime_stall s now_ms (cdx_stall_timeout_ms (rc_codex config)) of
                          Some stall \<Rightarrow> Stalled (ris_identifier active_issue) stall
                        | None \<Rightarrow> Continue)))))"

subsection \<open>Recovery (\<^verbatim>\<open>runtime/recovery.rs\<close>)\<close>

record ActiveRuntimeSessionProbe =
  arp_state :: RuntimeState
  arp_session_name :: string
  arp_probe :: SessionStatusProbe

definition probed_as :: "SessionStatusProbe \<Rightarrow> string" where
  "probed_as probe =
     '' status='' @ session_status_as_str (ssp_status probe) @
     '' source='' @ session_status_source_as_str (ssp_source probe) @
     '' evidence='' @ compact_evidence (ssp_evidence probe)"

definition session_of_issue :: "string \<Rightarrow> AgentSessionRecord \<Rightarrow> bool" where
  "session_of_issue issue_identifier r \<longleftrightarrow>
     registered_main_runtime_session r \<and> ars_issue_identifier r = Some issue_identifier"

definition better_active_session ::
    "'m PreflightEnv \<Rightarrow> RuntimeConfig \<Rightarrow> u64 \<Rightarrow> string \<Rightarrow> AgentSessionRecord \<Rightarrow>
     (nat \<times> ActiveRuntimeSessionProbe) option \<Rightarrow> ('m, (nat \<times> ActiveRuntimeSessionProbe) option) pf" where
  "better_active_session env config now_ms issue_identifier r best =
     (if \<not> session_of_issue issue_identifier r then returnE best
      else bindE (tryE (runtime_session_probe_from_record env config r now_ms)) (\<lambda>probed.
        returnE (case probed of
          Inl _ \<Rightarrow> best
        | Inr probe \<Rightarrow>
            (let priority = active_session_status_priority (ssp_status probe) in
             if session_status_counts_as_active_worker (ssp_status probe) \<and>
                (case best of None \<Rightarrow> True | Some (best_priority, _) \<Rightarrow> priority < best_priority)
             then Some (priority,
                    \<lparr>arp_state = runtime_state_from_session_record r,
                     arp_session_name = ars_session_name r, arp_probe = probe\<rparr>)
             else best))))"

definition active_runtime_session_for_issue ::
    "'m PreflightEnv \<Rightarrow> RuntimeConfig \<Rightarrow> RuntimeState \<Rightarrow> u64 \<Rightarrow>
     ('m, ActiveRuntimeSessionProbe option) pf" where
  "active_runtime_session_for_issue env config s now_ms =
     (case runtime_state_issue_identifier s of
        None \<Rightarrow> returnE None
      | Some issue_identifier \<Rightarrow>
          bindE (load_registry env config) (\<lambda>sessions.
          bindE (forE (better_active_session env config now_ms issue_identifier) (rev sessions) None) (\<lambda>best.
          case best of
            Some (_, active_session) \<Rightarrow> returnE (Some active_session)
          | None \<Rightarrow>
              bindE (tryE (runtime_session_probe_for_state env config s now_ms)) (\<lambda>probed.
              returnE (case probed of
                Inr (Some probe) \<Rightarrow>
                  (if session_status_counts_as_active_worker (ssp_status probe)
                   then Some \<lparr>arp_state = s,
                          arp_session_name = unwrap_or (rst_backend_session_id s) ''unknown'', arp_probe = probe\<rparr>
                   else None)
              | _ \<Rightarrow> None)))))"

fun terminal_session_among ::
    "'m PreflightEnv \<Rightarrow> RuntimeConfig \<Rightarrow> u64 \<Rightarrow> string \<Rightarrow> AgentSessionRecord list \<Rightarrow>
     ('m, ActiveRuntimeSessionProbe option) pf" where
  "terminal_session_among env config now_ms issue_identifier [] = returnE None"
| "terminal_session_among env config now_ms issue_identifier (r # rs) =
     (if \<not> session_of_issue issue_identifier r
      then terminal_session_among env config now_ms issue_identifier rs
      else bindE (tryE (runtime_session_probe_from_record env config r now_ms)) (\<lambda>probed.
        case probed of
          Inl _ \<Rightarrow> terminal_session_among env config now_ms issue_identifier rs
        | Inr probe \<Rightarrow>
            (if ssp_status probe = SessionStatus.Completed
             then returnE (Some
                 \<lparr>arp_state = (runtime_state_from_session_record r)\<lparr>rst_last_event := Some ''SessionTerminal''\<rparr>,
                  arp_session_name = ars_session_name r, arp_probe = probe\<rparr>)
             else if session_status_counts_as_active_worker (ssp_status probe) then returnE None
             else terminal_session_among env config now_ms issue_identifier rs)))"

definition terminal_runtime_session_for_issue ::
    "'m PreflightEnv \<Rightarrow> RuntimeConfig \<Rightarrow> RuntimeState \<Rightarrow> u64 \<Rightarrow>
     ('m, ActiveRuntimeSessionProbe option) pf" where
  "terminal_runtime_session_for_issue env config s now_ms =
     (case runtime_state_issue_identifier s of
        None \<Rightarrow> returnE None
      | Some issue_identifier \<Rightarrow>
          bindE (load_registry env config) (\<lambda>sessions.
          terminal_session_among env config now_ms issue_identifier (rev sessions)))"

definition stalled_reason :: "RuntimeStallState \<Rightarrow> string" where
  "stalled_reason stall =
     ''runtime_stalled stalled_for_ms='' @ show_nat (unat (rsl_stalled_for_ms stall)) @ '' reason='' @ rsl_reason stall"

definition runtime_recovery_reason ::
    "'m PreflightEnv \<Rightarrow> RuntimeConfig \<Rightarrow> RuntimeState \<Rightarrow> u64 \<Rightarrow> ('m, string option) pf" where
  "runtime_recovery_reason env config s now_ms =
     (case rst_retry s of
        Some retry \<Rightarrow>
          returnE (if due_in_ms retry now_ms > 0 then None
            else Some (''retry_due attempt='' @ show_nat (unat (rry_attempt retry)) @
                   '' error='' @ compact_evidence (rry_error retry)))
      | None \<Rightarrow>
      (case detect_runtime_stall s now_ms (cdx_stall_timeout_ms (rc_codex config)) of
         Some stall \<Rightarrow> returnE (Some (stalled_reason stall))
       | None \<Rightarrow>
      (if rst_last_event s \<notin> {Some ''SessionRunning'', Some ''SessionTerminal''} then returnE None
       else case rst_backend_session_id s of
         None \<Rightarrow> returnE (Some ''session_running_without_backend_session_id'')
       | Some session_id \<Rightarrow>
           bindE (load_registry env config) (\<lambda>sessions.
           case List.find (\<lambda>r. ars_session_name r = session_id) (rev sessions) of
             None \<Rightarrow> returnE (Some (''session_missing_from_registry session='' @ session_id))
           | Some r \<Rightarrow>
               bindE (tryE (runtime_session_probe_from_record env config r now_ms)) (\<lambda>probed.
               returnE (case probed of
                 Inr probe \<Rightarrow>
                   (if ssp_status probe \<in> {Stale, SessionStatus.Failed}
                    then Some (''session_'' @ session_status_as_str (ssp_status probe) @
                           '' source='' @ session_status_source_as_str (ssp_source probe) @
                           '' evidence='' @ compact_evidence (ssp_evidence probe))
                    else None)
               | Inl error \<Rightarrow> Some (compact_evidence error)))))))"

subsection \<open>Registered sessions without a remembered worker\<close>

record RuntimePreflightSummary =
  rps_retained_states :: "RuntimeState list"
  rps_active_main_workers :: nat
  rps_recoverable_states :: "RuntimeState RuntimeRecoveryCandidate list"
  rps_blocked :: "string option"

text \<open>The updates of the locals.\<close>

definition retain :: "RuntimeState \<Rightarrow> RuntimePreflightSummary \<Rightarrow> RuntimePreflightSummary" where
  "retain s a = a\<lparr>rps_retained_states := rps_retained_states a @ [s]\<rparr>"

definition count_active :: "RuntimePreflightSummary \<Rightarrow> RuntimePreflightSummary" where
  "count_active a = a\<lparr>rps_active_main_workers := rps_active_main_workers a + 1\<rparr>"

definition recover_as :: "RuntimeState \<Rightarrow> TrackerIssue \<Rightarrow> string \<Rightarrow> RuntimePreflightSummary \<Rightarrow> RuntimePreflightSummary" where
  "recover_as s issue reason a =
     retain s (a\<lparr>rps_recoverable_states := rps_recoverable_states a @
       [\<lparr>rr_state = s, rr_issue = issue, rr_reason = reason\<rparr>]\<rparr>)"

definition block_with :: "string \<Rightarrow> RuntimePreflightSummary \<Rightarrow> RuntimePreflightSummary" where
  "block_with reason a = a\<lparr>rps_blocked := or_else (rps_blocked a) (Some reason)\<rparr>"

definition terminate_stale_structured_agent_session ::
    "'m PreflightEnv \<Rightarrow> RuntimeConfig \<Rightarrow> AgentSessionRecord \<Rightarrow> ('m, string option) pf" where
  "terminate_stale_structured_agent_session env config r =
     (if ars_session_source r \<notin> {Some ''codex-app-server'', Some ''claude-code-stream-json''} then returnE None
      else case ars_process_id r of
        None \<Rightarrow> returnE (Some ''terminate_process_id=missing'')
      | Some process_id \<Rightarrow>
          (let pid = show_nat (unat process_id) in
           bindE (tryE (pf_run env ''kill'' [''-TERM'', pid])) (\<lambda>output.
           bindE (now env) (\<lambda>t.
           bindE (map_errE (pf_registry_error env)
                   (save_session_record (pf_print env) (pf_parse env) (session_registry_path config)
                     (r\<lparr>ars_status := Stale, ars_updated_at_ms := t\<rparr>))) (\<lambda>_.
           returnE (Some (case output of
               Inr out \<Rightarrow>
                 (if co_success out then ''terminated_process_id='' @ pid @ '' signal=TERM''
                  else ''terminate_process_id='' @ pid @ '' failed status='' @ co_status out @
                       '' stderr='' @ compact_evidence (co_stderr out))
             | Inl error \<Rightarrow>
                 ''terminate_process_id='' @ pid @ '' failed error='' @ compact_evidence error)))))))"

definition skip_unreadable_issue ::
    "'m PreflightEnv \<Rightarrow> RuntimeConfig \<Rightarrow> RuntimeState \<Rightarrow> string \<Rightarrow> string \<Rightarrow> ('m, unit) pf" where
  "skip_unreadable_issue env config s issue_identifier error =
     append_runtime_supervision_event env config (Some s) ''RuntimeRecoverReadSkipped''
       (''issue='' @ issue_identifier @ '' reason=tracker_read_failed: '' @ compact_evidence error)"

definition recover_registry_issue_allows_active_retention ::
    "'m PreflightEnv \<Rightarrow> RuntimeConfig \<Rightarrow> RuntimeState \<Rightarrow> string \<Rightarrow> ('m, bool) pf" where
  "recover_registry_issue_allows_active_retention env config s issue_identifier =
     bindE (tryE (pf_get_issue env issue_identifier)) (\<lambda>found.
     case found of
       Inr (Some issue) \<Rightarrow> returnE (in_progress issue)
     | Inr None \<Rightarrow> returnE False
     | Inl error \<Rightarrow>
         bindE (skip_unreadable_issue env config s issue_identifier error) (\<lambda>_. returnE True))"

definition recover_registry_issue_for_restart ::
    "'m PreflightEnv \<Rightarrow> RuntimeConfig \<Rightarrow> RuntimeState \<Rightarrow> string \<Rightarrow> ('m, TrackerIssue option) pf" where
  "recover_registry_issue_for_restart env config s issue_identifier =
     bindE (tryE (pf_get_issue env issue_identifier)) (\<lambda>found.
     case found of
       Inr issue \<Rightarrow> returnE (filter_option in_progress issue)
     | Inl error \<Rightarrow>
         bindE (skip_unreadable_issue env config s issue_identifier error) (\<lambda>_. returnE None))"

definition recover_registered_session_candidate ::
    "'m PreflightEnv \<Rightarrow> RuntimeConfig \<Rightarrow> RuntimeState \<Rightarrow> TrackerIssue \<Rightarrow> string \<Rightarrow> string \<Rightarrow>
     RuntimePreflightSummary \<Rightarrow> ('m, RuntimePreflightSummary) pf" where
  "recover_registered_session_candidate env config s issue issue_identifier reason a =
     bindE (append_runtime_supervision_event env config (Some s) ''RuntimeRecoverable''
             (''issue='' @ issue_identifier @ '' reason='' @ reason)) (\<lambda>_.
     returnE (recover_as s issue reason a))"

definition issue_known :: "string \<Rightarrow> RuntimePreflightSummary \<Rightarrow> bool" where
  "issue_known issue_identifier a \<longleftrightarrow>
     list_ex (\<lambda>s. runtime_state_issue_identifier s = Some issue_identifier) (rps_retained_states a) \<or>
     list_ex (\<lambda>c. runtime_state_issue_identifier (rr_state c) = Some issue_identifier) (rps_recoverable_states a)"

definition recover_registered_session ::
    "'m PreflightEnv \<Rightarrow> RuntimeConfig \<Rightarrow> u64 \<Rightarrow> AgentSessionRecord \<Rightarrow> string \<Rightarrow>
     RuntimePreflightSummary \<Rightarrow> ('m, RuntimePreflightSummary) pf" where
  "recover_registered_session env config now_ms r issue_identifier a =
     (let s = runtime_state_from_session_record r in
      bindE (tryE (runtime_session_probe_from_record env config r now_ms)) (\<lambda>probed.
      case probed of
        Inr probe \<Rightarrow>
          (if session_status_counts_as_active_worker (ssp_status probe) then
             bindE (recover_registry_issue_allows_active_retention env config s issue_identifier) (\<lambda>allowed.
             if \<not> allowed then returnE a
             else bindE (append_runtime_supervision_event env config (Some s)
                    ''RuntimeRecoverSkippedActiveRegistrySession''
                    (''issue='' @ issue_identifier @ '' session='' @ ars_session_name r @ probed_as probe)) (\<lambda>_.
                  returnE (retain s (count_active a))))
           else if ssp_status probe \<notin> {Stale, SessionStatus.Failed} then returnE a
           else
             bindE (recover_registry_issue_for_restart env config s issue_identifier) (\<lambda>found.
             case found of
               None \<Rightarrow> returnE a
             | Some issue \<Rightarrow>
                 bindE (if ssp_status probe = Stale then terminate_stale_structured_agent_session env config r
                        else returnE None) (\<lambda>termination.
                 recover_registered_session_candidate env config s issue issue_identifier
                   (''registry_session_recoverable session='' @ ars_session_name r @ probed_as probe @
                    (case termination of None \<Rightarrow> [] | Some evidence \<Rightarrow> '' '' @ evidence)) a)))
      | Inl error \<Rightarrow>
          bindE (recover_registry_issue_for_restart env config s issue_identifier) (\<lambda>found.
          case found of
            None \<Rightarrow> returnE a
          | Some issue \<Rightarrow>
              recover_registered_session_candidate env config s issue issue_identifier
                (''registry_session_unavailable session='' @ ars_session_name r @
                 '' reason='' @ compact_evidence error) a)))"

definition recover_registered_main_sessions ::
    "'m PreflightEnv \<Rightarrow> RuntimeConfig \<Rightarrow> u64 \<Rightarrow> RuntimePreflightSummary \<Rightarrow> ('m, RuntimePreflightSummary) pf" where
  "recover_registered_main_sessions env config now_ms a =
     bindE (load_registry env config) (\<lambda>sessions.
     forE (\<lambda>r a.
         if \<not> registered_main_runtime_session r then returnE a
         else case ars_issue_identifier r of
           None \<Rightarrow> returnE a
         | Some issue_identifier \<Rightarrow>
             (if issue_known issue_identifier a then returnE a
              else recover_registered_session env config now_ms r issue_identifier a))
       (rev sessions) a)"

subsection \<open>All workers\<close>

text \<open>The attempt to recover one worker: the new locals when the loop continues with the next one,
  \<^term>\<open>None\<close> when the worker is treated as without recovery.\<close>

definition recover_in_progress_state ::
    "'m PreflightEnv \<Rightarrow> RuntimeConfig \<Rightarrow> u64 \<Rightarrow> RuntimeState \<Rightarrow> TrackerIssue \<Rightarrow>
     RuntimePreflightSummary \<Rightarrow> ('m, RuntimePreflightSummary option) pf" where
  "recover_in_progress_state env config now_ms s issue a =
     bindE (active_runtime_session_for_issue env config s now_ms) (\<lambda>active.
     case filter_option (\<lambda>p. session_status_counts_as_active_worker (ssp_status (arp_probe p))) active of
       Some p \<Rightarrow>
         bindE (append_runtime_supervision_event env config (Some s) ''RuntimeRecoverSkippedActiveSession''
                 (''issue='' @ issue_label s @ '' session='' @ arp_session_name p @ probed_as (arp_probe p))) (\<lambda>_.
         returnE (Some (retain (arp_state p) (count_active a))))
     | None \<Rightarrow>
     bindE (terminal_runtime_session_for_issue env config s now_ms) (\<lambda>terminal.
     case terminal of
       Some p \<Rightarrow>
         (let reason = ''registry_session_terminal session='' @ arp_session_name p @ probed_as (arp_probe p) in
          bindE (append_runtime_supervision_event env config (Some (arp_state p)) ''RuntimeRecoverableTerminalSession''
                  (''issue='' @ issue_label s @ '' reason='' @ reason)) (\<lambda>_.
          returnE (Some (recover_as (arp_state p) issue reason a))))
     | None \<Rightarrow>
     bindE (runtime_recovery_reason env config s now_ms) (\<lambda>recovery.
     case recovery of
       Some reason \<Rightarrow>
         bindE (append_runtime_supervision_event env config (Some s) ''RuntimeRecoverable''
                 (''issue='' @ issue_label s @ '' reason='' @ reason)) (\<lambda>_.
         returnE (Some (recover_as s issue reason a)))
     | None \<Rightarrow> returnE None)))"

definition recover_runtime_state ::
    "'m PreflightEnv \<Rightarrow> RuntimeConfig \<Rightarrow> u64 \<Rightarrow> RuntimeState \<Rightarrow> RuntimePreflightSummary \<Rightarrow>
     ('m, RuntimePreflightSummary option) pf" where
  "recover_runtime_state env config now_ms s a =
     bindE (tryE (runtime_state_in_progress_issue env s)) (\<lambda>found.
     case found of
       Inl error \<Rightarrow>
         bindE (skip_unreadable_issue env config s (issue_label s) error) (\<lambda>_.
         returnE (Some (retain s a)))
     | Inr None \<Rightarrow> returnE None
     | Inr (Some issue) \<Rightarrow> recover_in_progress_state env config now_ms s issue a)"

definition apply_resume_action ::
    "'m PreflightEnv \<Rightarrow> RuntimeConfig \<Rightarrow> bool \<Rightarrow> RuntimeState \<Rightarrow> ResumePreflightAction \<Rightarrow>
     RuntimePreflightSummary \<Rightarrow> ('m, RuntimePreflightSummary) pf" where
  "apply_resume_action env config recover s action a =
     (case action of
        Continue \<Rightarrow>
          bindE (runtime_state_points_at_in_progress_issue env s) (\<lambda>active.
          returnE (retain s (if active then count_active a else a)))
      | ArchiveStale issue_identifier tracker_state archive_reason \<Rightarrow>
          bindE (archive_runtime_state env config s archive_reason) (\<lambda>archive_path.
          bindE (append_runtime_supervision_event env config (Some s) ''RuntimeStateArchived''
                  (''issue='' @ issue_identifier @ '' tracker_state='' @ tracker_state @
                   '' reason='' @ archive_reason @ '' archive_path='' @ archive_path)) (\<lambda>_.
          returnE a))
      | RetryLater issue_identifier retry due \<Rightarrow>
          bindE (append_runtime_supervision_event env config (Some s) ''RetryDeferred''
                  (''issue='' @ issue_identifier @ '' attempt='' @ show_nat (unat (rry_attempt retry)) @
                   '' due_in_ms='' @ show_nat (unat due) @ '' error='' @ rry_error retry)) (\<lambda>_.
          returnE (retain s (count_active a)))
      | Stalled issue_identifier stall \<Rightarrow>
          (if recover then
             bindE (runtime_state_in_progress_issue env s) (\<lambda>found.
             case found of
               None \<Rightarrow> returnE (retain s a)
             | Some issue \<Rightarrow>
                 bindE (append_runtime_supervision_event env config (Some s) ''RuntimeRecoverable''
                         (''issue='' @ issue_identifier @ '' reason='' @ stalled_reason stall)) (\<lambda>_.
                 returnE (recover_as s issue (stalled_reason stall) a)))
           else
             bindE (append_runtime_supervision_event env config (Some s) ''RuntimeStalled''
                     (''issue='' @ issue_identifier @ '' stalled_for_ms='' @ show_nat (unat (rsl_stalled_for_ms stall)) @
                      '' reason='' @ rsl_reason stall)) (\<lambda>_.
             returnE (block_with
               (''runtime_stalled issue='' @ issue_identifier @ '' stalled_for_ms='' @
                show_nat (unat (rsl_stalled_for_ms stall)))
               (retain s (count_active a)))))
      | ResumePreflightAction.Block reason \<Rightarrow>
          bindE (append_runtime_supervision_event env config (Some s) ''ResumeBlocked'' reason) (\<lambda>_.
          returnE (block_with reason (retain s a))))"

definition preflight_state ::
    "'m PreflightEnv \<Rightarrow> RuntimeConfig \<Rightarrow> u64 \<Rightarrow> bool \<Rightarrow> RuntimeState \<Rightarrow> RuntimePreflightSummary \<Rightarrow>
     ('m, RuntimePreflightSummary) pf" where
  "preflight_state env config now_ms recover s a =
     (if \<not> runtime_state_is_main_lane s then returnE (retain s a)
      else bindE (if recover then recover_runtime_state env config now_ms s a else returnE None) (\<lambda>recovered.
        case recovered of
          Some a' \<Rightarrow> returnE a'
        | None \<Rightarrow>
            bindE (run_loop_resume_preflight env config (Some s) now_ms) (\<lambda>action.
            apply_resume_action env config recover s action a)))"

definition run_loop_resume_preflight_many ::
    "'m PreflightEnv \<Rightarrow> RuntimeConfig \<Rightarrow> RuntimeState list \<Rightarrow> u64 \<Rightarrow> bool \<Rightarrow>
     ('m, RuntimePreflightSummary) pf" where
  "run_loop_resume_preflight_many env config states now_ms recover =
     bindE (forE (preflight_state env config now_ms recover) states
              \<lparr>rps_retained_states = [], rps_active_main_workers = 0, rps_recoverable_states = [],
               rps_blocked = None\<rparr>) (\<lambda>a.
     if recover then recover_registered_main_sessions env config now_ms a else returnE a)"

subsection \<open>Facts: one step\<close>

text \<open>What the tracker answers for an identifier, in some state of the world.\<close>

definition tracker_read :: "'m PreflightEnv \<Rightarrow> string \<Rightarrow> TrackerIssue \<Rightarrow> bool" where
  "tracker_read env k issue \<longleftrightarrow> (\<exists>w w'. pf_get_issue env k w = (Inr (Some issue), w'))"

text \<open>What the treatment of one worker, or of one session, can do to the locals.\<close>

inductive preflight_step ::
    "'m PreflightEnv \<Rightarrow> string option \<Rightarrow> RuntimePreflightSummary \<Rightarrow> RuntimePreflightSummary \<Rightarrow> bool"
  for env k a where
  dropped: "preflight_step env k a a"
| kept: "runtime_state_issue_identifier s = k \<Longrightarrow> preflight_step env k a (retain s a)"
| active: "runtime_state_issue_identifier s = k \<Longrightarrow> preflight_step env k a (retain s (count_active a))"
| recovered: "runtime_state_issue_identifier s = k \<Longrightarrow> k = Some i \<Longrightarrow> in_progress issue \<Longrightarrow> tracker_read env i issue \<Longrightarrow>
    preflight_step env k a (recover_as s issue reason a)"
| blocked: "preflight_step env k a a' \<Longrightarrow> preflight_step env k a (block_with reason a')"

lemma session_state_issue:
  "ars_issue_identifier r = Some k \<Longrightarrow> runtime_state_issue_identifier (runtime_state_from_session_record r) = Some k"
  by (simp add: runtime_state_from_session_record_def runtime_state_active_def runtime_state_issue_identifier_def Let_def)

lemma identifier_last_event [simp]:
  "runtime_state_issue_identifier (s\<lparr>rst_last_event := e\<rparr>) = runtime_state_issue_identifier s"
  by (simp add: runtime_state_issue_identifier_def)

lemma in_progress_issue_read:
  "returns (runtime_state_in_progress_issue env s)
     (\<lambda>found. \<forall>issue. found = Some issue \<longrightarrow>
        (\<exists>i. runtime_state_issue_identifier s = Some i \<and> in_progress issue \<and> tracker_read env i issue))"
proof -
  have "returns (pf_get_issue env i) (\<lambda>found. \<forall>issue. found = Some issue \<longrightarrow> tracker_read env i issue)" for i
    by (auto simp: returns_def tracker_read_def)
  note g = returns_bind [OF this]
  show ?thesis
  proof (cases "rst_active_issue s")
    case None
    then show ?thesis by (simp add: runtime_state_in_progress_issue_def returns_return)
  next
    case (Some i)
    have "runtime_state_issue_identifier s = Some (ris_identifier i)"
      using Some by (simp add: runtime_state_issue_identifier_def)
    then show ?thesis
      unfolding runtime_state_in_progress_issue_def Some option.case
      by (intro g returns_return) (auto split: if_splits elim!: filter_option.elims)
  qed
qed

lemma active_session_issue:
  "returns (active_runtime_session_for_issue env config s now_ms)
     (\<lambda>found. \<forall>p. found = Some p \<longrightarrow> runtime_state_issue_identifier (arp_state p) = runtime_state_issue_identifier s)"
proof (cases "runtime_state_issue_identifier s")
  case None
  then show ?thesis by (simp add: active_runtime_session_for_issue_def returns_return)
next
  case (Some k)
  let ?I = "\<lambda>best. \<forall>n p. best = Some (n, p) \<longrightarrow> runtime_state_issue_identifier (arp_state p) = Some k"
  have better: "returns (better_active_session env config now_ms k r best) ?I" if "?I best" for r best
    unfolding better_active_session_def
    by (intro returns_rules) (use that in \<open>auto simp: session_of_issue_def session_state_issue Let_def split: sum.splits\<close>)
  have "returns (forE (better_active_session env config now_ms k) rs None) ?I" for rs
    by (rule returns_for [where I = "\<lambda>_. ?I"]) (use better in auto)
  note best = returns_bind [OF this]
  show ?thesis
    unfolding active_runtime_session_for_issue_def Some option.case
    by (rule returns_bind_any, rule best)
      (auto intro!: returns_rules simp: Some split: sum.splits option.splits prod.splits if_splits)
qed

lemma terminal_session_issue:
  "returns (terminal_runtime_session_for_issue env config s now_ms)
     (\<lambda>found. \<forall>p. found = Some p \<longrightarrow> runtime_state_issue_identifier (arp_state p) = runtime_state_issue_identifier s)"
proof (cases "runtime_state_issue_identifier s")
  case None
  then show ?thesis by (simp add: terminal_runtime_session_for_issue_def returns_return)
next
  case (Some k)
  have "returns (terminal_session_among env config now_ms k rs)
      (\<lambda>found. \<forall>p. found = Some p \<longrightarrow> runtime_state_issue_identifier (arp_state p) = Some k)" for rs
    by (induction rs) (auto intro!: returns_rules simp: session_of_issue_def session_state_issue split: sum.splits)
  then show ?thesis
    unfolding terminal_runtime_session_for_issue_def Some option.case by (intro returns_bind_any)
qed

lemma recover_in_progress_step:
  assumes "runtime_state_issue_identifier s = Some i" "in_progress issue" "tracker_read env i issue"
  shows "returns (recover_in_progress_state env config now_ms s issue a)
    (\<lambda>r. \<forall>a'. r = Some a' \<longrightarrow> preflight_step env (Some i) a a')"
proof -
  note session = returns_bind [OF active_session_issue] returns_bind [OF terminal_session_issue]
  show ?thesis
    unfolding recover_in_progress_state_def Let_def
    by (intro session returns_rules) (use assms in \<open>auto intro!: preflight_step.intros split: if_splits elim!: filter_option.elims\<close>)
qed

lemma recover_runtime_state_step:
  "returns (recover_runtime_state env config now_ms s a)
     (\<lambda>r. \<forall>a'. r = Some a' \<longrightarrow> preflight_step env (runtime_state_issue_identifier s) a a')"
  unfolding recover_runtime_state_def
proof (rule returns_bind [OF returns_try [OF in_progress_issue_read]], goal_cases)
  case (1 found)
  show ?case
  proof (cases found)
    case (Inl e)
    then show ?thesis by (auto intro!: returns_rules preflight_step.intros)
  next
    case (Inr res)
    show ?thesis
    proof (cases res)
      case None
      then show ?thesis using Inr by (auto intro!: returns_rules)
    next
      case (Some issue)
      with 1 Inr obtain i where i: "runtime_state_issue_identifier s = Some i" "in_progress issue" "tracker_read env i issue"
        by auto
      show ?thesis using recover_in_progress_step [OF i] by (simp add: Inr Some i(1))
    qed
  qed
qed

lemma apply_resume_action_step:
  "returns (apply_resume_action env config recover s action a)
     (preflight_step env (runtime_state_issue_identifier s) a)"
proof -
  note read = returns_bind [OF in_progress_issue_read]
  show ?thesis
  proof (cases action)
    case (Stalled i stall)
    show ?thesis
      unfolding apply_resume_action_def Stalled ResumePreflightAction.case
      by (intro returns_if read returns_option) (auto intro!: returns_rules preflight_step.intros)
  qed (auto simp: apply_resume_action_def intro!: returns_rules preflight_step.intros)
qed

lemma preflight_state_step:
  "returns (preflight_state env config now_ms recover s a)
     (preflight_step env (runtime_state_issue_identifier s) a)"
proof -
  have "returns (if recover then recover_runtime_state env config now_ms s a else returnE None)
      (\<lambda>r. \<forall>a'. r = Some a' \<longrightarrow> preflight_step env (runtime_state_issue_identifier s) a a')"
    using recover_runtime_state_step by (auto intro: returns_rules)
  note recovered = returns_bind [OF this]
  show ?thesis
    unfolding preflight_state_def
    by (intro returns_if recovered returns_option returns_bind_any apply_resume_action_step)
      (auto intro!: returns_rules preflight_step.intros)
qed

lemma restart_issue_read:
  "returns (recover_registry_issue_for_restart env config s i)
     (\<lambda>found. \<forall>issue. found = Some issue \<longrightarrow> in_progress issue \<and> tracker_read env i issue)"
proof -
  have "returns (pf_get_issue env i) (\<lambda>found. \<forall>issue. found = Some issue \<longrightarrow> tracker_read env i issue)"
    by (auto simp: returns_def tracker_read_def)
  note g = returns_bind [OF returns_try [OF this]]
  show ?thesis
    unfolding recover_registry_issue_for_restart_def
    by (rule g) (auto intro!: returns_rules split: sum.splits if_splits elim!: filter_option.elims)
qed

lemma registered_session_step:
  assumes "ars_issue_identifier r = Some i"
  shows "returns (recover_registered_session env config now_ms r i a) (preflight_step env (Some i) a)"
proof -
  note read = returns_bind [OF restart_issue_read]
  have candidate: "returns (recover_registered_session_candidate env config (runtime_state_from_session_record r) issue i reason a)
      (preflight_step env (Some i) a)" if "in_progress issue" "tracker_read env i issue" for issue reason
    unfolding recover_registered_session_candidate_def
    using that session_state_issue [OF assms] by (auto intro!: returns_rules preflight_step.intros)
  show ?thesis
    unfolding recover_registered_session_def Let_def
    by (intro returns_bind_any returns_result returns_if read returns_option candidate)
      (use session_state_issue [OF assms] in \<open>auto intro!: returns_rules preflight_step.intros\<close>)
qed

subsection \<open>Facts: all workers\<close>

lemma step_locals [simp]:
  "rps_retained_states (retain s a) = rps_retained_states a @ [s]"
  "rps_active_main_workers (retain s a) = rps_active_main_workers a"
  "rps_recoverable_states (retain s a) = rps_recoverable_states a"
  "rps_blocked (retain s a) = rps_blocked a"
  "rps_retained_states (count_active a) = rps_retained_states a"
  "rps_active_main_workers (count_active a) = Suc (rps_active_main_workers a)"
  "rps_recoverable_states (count_active a) = rps_recoverable_states a"
  "rps_retained_states (block_with m a) = rps_retained_states a"
  "rps_active_main_workers (block_with m a) = rps_active_main_workers a"
  "rps_recoverable_states (block_with m a) = rps_recoverable_states a"
  "rps_retained_states (recover_as s issue m a) = rps_retained_states a @ [s]"
  "rps_active_main_workers (recover_as s issue m a) = rps_active_main_workers a"
  "rps_recoverable_states (recover_as s issue m a) =
     rps_recoverable_states a @ [\<lparr>rr_state = s, rr_issue = issue, rr_reason = m\<rparr>]"
  by (simp_all add: retain_def count_active_def block_with_def recover_as_def)

definition candidate_ok :: "'m PreflightEnv \<Rightarrow> RuntimeState list \<Rightarrow> RuntimeState RuntimeRecoveryCandidate \<Rightarrow> bool" where
  "candidate_ok env retained c \<longleftrightarrow>
     rr_state c \<in> set retained \<and> in_progress (rr_issue c) \<and>
     (\<exists>i. runtime_state_issue_identifier (rr_state c) = Some i \<and> tracker_read env i (rr_issue c))"

definition candidate_issues :: "RuntimeState RuntimeRecoveryCandidate list \<Rightarrow> string option list" where
  "candidate_issues cs = map (\<lambda>c. runtime_state_issue_identifier (rr_state c)) cs"

definition preflight_inv :: "'m PreflightEnv \<Rightarrow> RuntimePreflightSummary \<Rightarrow> bool" where
  "preflight_inv env a \<longleftrightarrow>
     distinct (workers.keys (rps_retained_states a)) \<and>
     rps_active_main_workers a + length (rps_recoverable_states a) \<le> length (rps_retained_states a) \<and>
     list_all (candidate_ok env (rps_retained_states a)) (rps_recoverable_states a) \<and>
     distinct (candidate_issues (rps_recoverable_states a))"

lemma worker_key: "s \<in> set states \<Longrightarrow> runtime_state_issue_identifier s = Some i \<Longrightarrow> i \<in> set (workers.keys states)"
  by (induction states) (auto split: option.splits)

lemma candidate_known:
  "preflight_inv env a \<Longrightarrow> Some i \<in> set (candidate_issues (rps_recoverable_states a)) \<Longrightarrow>
   i \<in> set (workers.keys (rps_retained_states a))"
  by (auto simp: preflight_inv_def candidate_issues_def list_all_iff candidate_ok_def worker_key)

lemma candidate_ok_more: "candidate_ok env retained c \<Longrightarrow> candidate_ok env (retained @ ss) c"
  by (auto simp: candidate_ok_def)

text \<open>A step on an issue that is not yet retained keeps the invariant.\<close>

lemma preflight_step_inv:
  assumes "preflight_step env k a a'" "preflight_inv env a" "\<And>i. k = Some i \<Longrightarrow> i \<notin> set (workers.keys (rps_retained_states a))"
  shows "preflight_inv env a' \<and>
    set (workers.keys (rps_retained_states a')) \<subseteq> set (workers.keys (rps_retained_states a)) \<union> set_option k"
  using assms(1)
proof induction
  case dropped
  then show ?case using assms(2) by simp
next
  case (kept s)
  then show ?case using assms(2,3)
    by (auto simp: preflight_inv_def list_all_iff candidate_ok_more split: option.splits)
next
  case (active s)
  then show ?case using assms(2,3)
    by (auto simp: preflight_inv_def list_all_iff candidate_ok_more split: option.splits)
next
  case (recovered s i issue reason)
  have "Some i \<notin> set (candidate_issues (rps_recoverable_states a))"
    using candidate_known [OF assms(2)] assms(3) recovered(2) by blast
  moreover have "candidate_ok env (rps_retained_states a @ [s]) \<lparr>rr_state = s, rr_issue = issue, rr_reason = reason\<rparr>"
    using recovered by (simp add: candidate_ok_def)
  ultimately show ?case using assms(2,3) recovered
    by (auto simp: preflight_inv_def list_all_iff candidate_ok_more candidate_issues_def split: option.splits)
next
  case (blocked a' reason)
  then show ?case by (simp add: preflight_inv_def)
qed

text \<open>What holds of the candidates whatever was remembered.\<close>

definition candidates_inv :: "'m PreflightEnv \<Rightarrow> RuntimePreflightSummary \<Rightarrow> bool" where
  "candidates_inv env a \<longleftrightarrow>
     rps_active_main_workers a + length (rps_recoverable_states a) \<le> length (rps_retained_states a) \<and>
     list_all (candidate_ok env (rps_retained_states a)) (rps_recoverable_states a)"

lemma preflight_step_candidates: "preflight_step env k a a' \<Longrightarrow> candidates_inv env a \<Longrightarrow> candidates_inv env a'"
proof (induction rule: preflight_step.induct)
  case (recovered s i issue reason)
  then have "candidate_ok env (rps_retained_states a @ [s]) \<lparr>rr_state = s, rr_issue = issue, rr_reason = reason\<rparr>"
    by (simp add: candidate_ok_def)
  then show ?case using recovered by (auto simp: candidates_inv_def list_all_iff candidate_ok_more)
qed (auto simp: candidates_inv_def list_all_iff candidate_ok_more)

lemma preflight_states_inv:
  assumes "distinct (workers.keys states)"
  shows "returns (forE (preflight_state env config now_ms recover) states
      \<lparr>rps_retained_states = [], rps_active_main_workers = 0, rps_recoverable_states = [], rps_blocked = None\<rparr>)
    (preflight_inv env)"
proof -
  let ?I = "\<lambda>ys a. preflight_inv env a \<and> set (workers.keys (rps_retained_states a)) \<subseteq> set (workers.keys ys)"
  have "returns (forE (preflight_state env config now_ms recover) states
      \<lparr>rps_retained_states = [], rps_active_main_workers = 0, rps_recoverable_states = [], rps_blocked = None\<rparr>)
    (?I states)"
  proof (rule returns_for [where I = ?I])
    show "?I [] \<lparr>rps_retained_states = [], rps_active_main_workers = 0, rps_recoverable_states = [], rps_blocked = None\<rparr>"
      by (simp add: preflight_inv_def candidate_issues_def)
    fix ys s zs a
    assume states: "states = ys @ s # zs" and I: "?I ys a"
    then have fresh: "runtime_state_issue_identifier s = Some i \<Longrightarrow> i \<notin> set (workers.keys (rps_retained_states a))" for i
      using assms by (auto split: option.splits)
    show "returns (preflight_state env config now_ms recover s a) (?I (ys @ [s]))"
    proof (rule returns_weaken [OF preflight_state_step])
      fix a' assume "preflight_step env (runtime_state_issue_identifier s) a a'"
      from preflight_step_inv [OF this _ fresh] I
      show "?I (ys @ [s]) a'" by (auto split: option.splits)
    qed
  qed
  then show ?thesis by (rule returns_weaken) blast
qed

lemma issue_known_iff:
  "preflight_inv env a \<Longrightarrow> \<not> issue_known i a \<Longrightarrow> i \<notin> set (workers.keys (rps_retained_states a))"
proof -
  have "i \<in> set (workers.keys states) \<Longrightarrow> list_ex (\<lambda>s. runtime_state_issue_identifier s = Some i) states" for states
    by (induction states) (auto split: option.splits)
  then show "\<not> issue_known i a \<Longrightarrow> ?thesis" by (auto simp: issue_known_def)
qed

lemma recover_registered_inv:
  assumes "preflight_inv env a"
  shows "returns (recover_registered_main_sessions env config now_ms a) (preflight_inv env)"
  unfolding recover_registered_main_sessions_def
proof (rule returns_bind_any, rule returns_for [where I = "\<lambda>_. preflight_inv env", OF assms])
  fix r a assume I: "preflight_inv env a"
  have "returns (recover_registered_session env config now_ms r i a) (preflight_inv env)"
    if "ars_issue_identifier r = Some i" "\<not> issue_known i a" for i
    by (rule returns_weaken [OF registered_session_step [OF that(1)]])
      (use preflight_step_inv I issue_known_iff [OF I that(2)] in blast)
  then show "returns (if \<not> registered_main_runtime_session r then returnE a
         else case ars_issue_identifier r of None \<Rightarrow> returnE a
           | Some i \<Rightarrow> if issue_known i a then returnE a else recover_registered_session env config now_ms r i a)
      (preflight_inv env)"
    using I by (auto intro!: returns_rules)
qed

lemma preflight_without_recovery:
  "returns (preflight_state env config now_ms False s a) (\<lambda>a'. rps_recoverable_states a' = rps_recoverable_states a)"
proof -
  have "returns (apply_resume_action env config False s action a)
      (\<lambda>a'. rps_recoverable_states a' = rps_recoverable_states a)" for action
    by (cases action) (auto simp: apply_resume_action_def intro!: returns_rules)
  then show ?thesis by (auto simp: preflight_state_def intro!: returns_rules)
qed

lemma preflight_candidates:
  "returns (run_loop_resume_preflight_many env config states now_ms recover)
     (\<lambda>a. candidates_inv env a \<and> (\<not> recover \<longrightarrow> rps_recoverable_states a = []))"
  unfolding run_loop_resume_preflight_many_def
proof (rule returns_bind, rule returns_for [where I =
      "\<lambda>_ a. candidates_inv env a \<and> (\<not> recover \<longrightarrow> rps_recoverable_states a = [])"])
  fix s a assume I: "candidates_inv env a \<and> (\<not> recover \<longrightarrow> rps_recoverable_states a = [])"
  have "returns (preflight_state env config now_ms recover s a) (candidates_inv env)"
    using I preflight_step_candidates by (blast intro: returns_weaken [OF preflight_state_step])
  moreover have "returns (preflight_state env config now_ms recover s a) (\<lambda>a. \<not> recover \<longrightarrow> rps_recoverable_states a = [])"
    using I preflight_without_recovery [of env config now_ms s a] by (cases recover) (auto simp: returns_def)
  ultimately show "returns (preflight_state env config now_ms recover s a)
      (\<lambda>a. candidates_inv env a \<and> (\<not> recover \<longrightarrow> rps_recoverable_states a = []))"
    by (auto simp: returns_def)
next
  fix a assume I: "candidates_inv env a \<and> (\<not> recover \<longrightarrow> rps_recoverable_states a = [])"
  have "returns (recover_registered_main_sessions env config now_ms a) (candidates_inv env)"
    unfolding recover_registered_main_sessions_def
  proof (rule returns_bind_any, rule returns_for [where I = "\<lambda>_. candidates_inv env"])
    fix r a assume "candidates_inv env a"
    then show "returns (if \<not> registered_main_runtime_session r then returnE a
         else case ars_issue_identifier r of None \<Rightarrow> returnE a
           | Some i \<Rightarrow> if issue_known i a then returnE a else recover_registered_session env config now_ms r i a)
      (candidates_inv env)"
      by (auto intro!: returns_return intro: preflight_step_candidates returns_weaken [OF registered_session_step]
          split: option.splits)
  qed (use I in simp)
  then show "returns (if recover then recover_registered_main_sessions env config now_ms a else returnE a)
      (\<lambda>a. candidates_inv env a \<and> (\<not> recover \<longrightarrow> rps_recoverable_states a = []))"
    using I by (auto simp: returns_def)
qed (simp add: candidates_inv_def)

subsection \<open>Properties\<close>

text \<open>C10: The resume preflight of the main lane keeps at most one worker per issue, and no worker is
  counted twice: the workers it reports as running and the ones it reports as recoverable are
  distinct retained workers. Every recovery candidate is a retained worker of an issue that the
  tracker itself reported to be in progress under the identifier of that worker, and no issue has
  two candidates. Without permission to recover there are none.\<close>

theorem resume_preflight_sound:
  assumes "distinct (workers.keys states)"
    and "run_loop_resume_preflight_many env config states now_ms recover w = (Inr r, w')"
  shows "distinct (workers.keys (rps_retained_states r)) \<and>
    rps_active_main_workers r + length (rps_recoverable_states r) \<le> length (rps_retained_states r) \<and>
    list_all (candidate_ok env (rps_retained_states r)) (rps_recoverable_states r) \<and>
    distinct (candidate_issues (rps_recoverable_states r)) \<and>
    (recover \<or> rps_recoverable_states r = [])"
proof -
  have "returns (run_loop_resume_preflight_many env config states now_ms recover) (preflight_inv env)"
    unfolding run_loop_resume_preflight_many_def
    by (rule returns_bind [OF preflight_states_inv [OF assms(1)]])
      (auto intro!: returns_rules recover_registered_inv)
  from returnsD [OF this assms(2)] returnsD [OF preflight_candidates assms(2)]
  show ?thesis by (auto simp: preflight_inv_def)
qed

definition example_env :: "(string \<Rightarrow> TrackerIssue option) \<Rightarrow> unit PreflightEnv" where
  "example_env tracker =
     \<lparr>pf_parse = \<lambda>_. None, pf_print = \<lambda>_. [], pf_registry_error = \<lambda>_. ''registry'', pf_io_error = \<lambda>_. ''io'',
      pf_get_issue = \<lambda>i w. (Inr (tracker i), w), pf_append_event = \<lambda>_ _ w. (Inr (), w),
      pf_run = \<lambda>_ _ w. (Inl ''no such command'', w), pf_path_exists = \<lambda>_ _. False, pf_path_is_dir = \<lambda>_ _. False,
      pf_clock = \<lambda>w. (5000, w)\<rparr>"

definition example_tracker :: "string \<Rightarrow> TrackerIssue option" where
  "example_tracker i = (if i = ''#7'' then Some (sample_issue ''7'' ''In Progress'') else None)"

definition example_worker :: RuntimeState where
  "example_worker =
     (runtime_state_active \<lparr>ris_id = ''I_7'', ris_identifier = ''#7''\<rparr> ''codex'')
       \<lparr>rst_last_event := Some ''SessionRunning''\<rparr>"

definition example_preflight :: "(string, RuntimePreflightSummary) result \<times> fs" where
  "example_preflight = run_loop_resume_preflight_many (example_env example_tracker) (example_config 2) [example_worker] 5000 True
     \<lparr>fs_files = Map.empty, fs_faults = [], fs_temp_counter = 0, fs_process_id = 42\<rparr>"

lemma example_preflight_candidates:
  "map_option candidate_issues (map_option rps_recoverable_states
     (case fst example_preflight of Inr r \<Rightarrow> Some r | Inl _ \<Rightarrow> None)) = Some [Some ''#7'']"
  by code_simp

theorem resume_preflight_sound_witness:
  "\<exists>r. fst example_preflight = Inr r \<and> candidate_issues (rps_recoverable_states r) = [Some ''#7''] \<and>
     list_all (candidate_ok (example_env example_tracker) (rps_retained_states r)) (rps_recoverable_states r) \<and>
     distinct (workers.keys (rps_retained_states r))"
proof -
  obtain r where r: "fst example_preflight = Inr r" and c: "candidate_issues (rps_recoverable_states r) = [Some ''#7'']"
    using example_preflight_candidates by (auto split: sum.splits)
  have "distinct (workers.keys [example_worker])" by (simp split: option.splits)
  moreover have "example_preflight = (Inr r, snd example_preflight)" using r by (metis prod.collapse)
  ultimately show ?thesis
    using resume_preflight_sound [of "[example_worker]", OF _ example_preflight_def [symmetric, THEN trans]] r c
    by blast
qed

end
