(* ===== verification/Main_Loop.thy ===== *)
theory Main_Loop
  imports Main_Preflight Dispatch Config_Load
begin

section \<open>The main lane's loop (\<^verbatim>\<open>src/lanes/main_loop.rs\<close>)\<close>

text \<open>
  One iteration loads the configuration, goes through the remembered workers, reads the queue,
  plans, fills the free slots and runs one thread per selected issue. What a thread does, and how
  the threads interleave, is an operation of the environment that returns their outcomes in the
  order of the issues; so are reading the workflow file and the queue, the dry-run reports and
  sleeping. The loop may run forever: it is a partial function on the world. Panels and lines
  printed for the operator are left out.
\<close>

subsection \<open>The backend (\<^verbatim>\<open>preflight.rs\<close>)\<close>

record MainAppServerSmokeGate =
  sg_backend :: string
  sg_backend_source :: string
  sg_command :: string
  sg_approval_policy :: string
  sg_app_server_live_smoke_ready :: bool
  sg_app_server_live_smoke_reason :: string

definition codex_approval_policy_label :: "(json \<Rightarrow> string) \<Rightarrow> RuntimeConfig \<Rightarrow> string" where
  "codex_approval_policy_label print config =
     unwrap_or (as_str (cdx_approval_policy (rc_codex config))) (print (cdx_approval_policy (rc_codex config)))"

definition main_app_server_smoke_gate :: "(json \<Rightarrow> string) \<Rightarrow> RuntimeConfig \<Rightarrow> MainAppServerSmokeGate" where
  "main_app_server_smoke_gate print config =
     (let kind = bc_kind (rc_backend config); command = cdx_command (rc_codex config);
          gate = (\<lambda>source command policy ready reason.
            \<lparr>sg_backend = kind, sg_backend_source = source, sg_command = command, sg_approval_policy = policy,
             sg_app_server_live_smoke_ready = ready, sg_app_server_live_smoke_reason = reason\<rparr>) in
      if kind = ''codex'' \<and> contains command ''app-server'' then
        gate ''codex-app-server'' command (codex_approval_policy_label print config) True
          ''main_lane.backend=codex and codex.command includes app-server''
      else if kind = ''codex'' then
        gate ''codex-subprocess'' command (codex_approval_policy_label print config) False
          ''codex command does not select the app-server transport''
      else if kind = ''tmux'' then
        gate ''tmux-fallback''
          (unwrap_or (tmx_main_agent_command (rc_tmux config)) (tmx_agent_command (rc_tmux config))) ''n/a'' False
          ''tmux is explicit fallback/debug and is not the app-server smoke path''
      else if kind = ''dry-run'' then
        gate ''dry-run'' ''dry-run'' ''n/a'' False ''dry-run backend cannot perform a live app-server smoke''
      else
        gate kind kind ''n/a'' False ''configured Main backend is not the Codex app-server runtime'')"

definition ensure_write_mode_main_agent_backend ::
    "string \<Rightarrow> RuntimeConfig \<Rightarrow> string \<Rightarrow> (string, unit) result" where
  "ensure_write_mode_main_agent_backend workflow_path config command =
     (if bc_kind (rc_backend config) \<noteq> ''dry-run'' then Inr ()
      else Inl (''write-mode '' @ command @ '' is blocked because workflow='' @ workflow_path @
        '' configures main_lane.backend=dry-run; configure a real main-agent backend such as tmux, codex, '' @
        ''or claude-code before using --write''))"

subsection \<open>Options and environment\<close>

datatype DisplayMode = Plain | Tui

record RunLoopOptions =
  rlo_workflow_path :: string
  rlo_max_iterations :: "nat option"
  rlo_once :: bool
  rlo_write :: bool
  rlo_recover :: bool
  rlo_max_concurrent :: "nat option"
  rlo_display :: DisplayMode
  rlo_quiet_idle :: bool

definition iteration_limit :: "RunLoopOptions \<Rightarrow> nat option" where
  "iteration_limit options = (if rlo_once options then Some 1 else rlo_max_iterations options)"

definition worker_limit :: "RunLoopOptions \<Rightarrow> RuntimeConfig \<Rightarrow> nat" where
  "worker_limit options config =
     max (unwrap_or (rlo_max_concurrent options) (ac_max_concurrent_agents (rc_agent config))) 1"

datatype RunLoopWorkerOutcome = Completed | StopIteration

text \<open>What joining a worker's thread gives.\<close>

datatype WorkerJoin = Joined "(string, RunLoopWorkerOutcome) result" | Panicked

record 'm MainLoopEnv =
  ml_preflight :: "RuntimeConfig \<Rightarrow> 'm PreflightEnv"
  ml_load :: "string \<Rightarrow> ('m, RuntimeConfig) pf"
  ml_config_error :: "ConfigError \<Rightarrow> string"
  ml_state_error :: "RuntimeStateError \<Rightarrow> string"
  ml_checkout :: "RuntimeConfig \<Rightarrow> string \<Rightarrow> bool \<Rightarrow> ('m, unit) pf"
  ml_scan :: "RuntimeConfig \<Rightarrow> ('m, TrackerIssue list) pf"
  ml_workers :: "RuntimeConfig \<Rightarrow> RunLoopOptions \<Rightarrow> string \<Rightarrow> TrackerIssue list \<Rightarrow>
    'm fs_scheme \<Rightarrow> WorkerJoin list \<times> 'm fs_scheme"
  ml_hydrate :: "RuntimeConfig \<Rightarrow> TrackerIssue \<Rightarrow> TrackerIssue list \<Rightarrow> ('m, TrackerIssue) pf"
  ml_evaluate :: "RuntimeConfig \<Rightarrow> TrackerIssue \<Rightarrow> ('m, GateDecision) pf"
  ml_gate_failure :: "RuntimeConfig \<Rightarrow> TrackerIssue \<Rightarrow> GateDecision \<Rightarrow> ('m, unit) pf"
  ml_handoff_plan :: "RuntimeConfig \<Rightarrow> TrackerIssue \<Rightarrow> ('m, unit) pf"
  ml_handoff_failure :: "RuntimeConfig \<Rightarrow> TrackerIssue \<Rightarrow> string \<Rightarrow> ('m, unit) pf"
  ml_preview_claim :: "RuntimeConfig \<Rightarrow> string \<Rightarrow> TrackerIssue \<Rightarrow> ('m, unit) pf"
  ml_preview_actions :: "RuntimeConfig \<Rightarrow> TrackerIssue \<Rightarrow> ('m, unit) pf"
  ml_execute_once :: "RuntimeConfig \<Rightarrow> TrackerIssue \<Rightarrow> ('m, unit) pf"
  ml_sleep :: "u64 \<Rightarrow> ('m, unit) pf"

subsection \<open>Running the workers (\<^verbatim>\<open>dispatch.rs\<close>)\<close>

fun worker_error :: "string \<Rightarrow> WorkerJoin \<Rightarrow> string option" where
  "worker_error issue_ref (Joined (Inl e)) = Some (issue_ref @ '': '' @ e)"
| "worker_error issue_ref Panicked = Some (issue_ref @ '': worker thread panicked'')"
| "worker_error issue_ref (Joined (Inr _)) = None"

definition collect_workers :: "(string \<times> WorkerJoin) list \<Rightarrow> (string, bool) result" where
  "collect_workers joined =
     (let errors = List.map_filter (\<lambda>(issue_ref, j). worker_error issue_ref j) joined in
      if errors \<noteq> [] then Inl (''run_loop concurrent dispatch failed: '' @ join ''; '' errors)
      else Inr (list_ex (\<lambda>(_, j). j = Joined (Inr StopIteration)) joined))"

definition run_loop_dispatch_write_candidates ::
    "'m MainLoopEnv \<Rightarrow> RuntimeConfig \<Rightarrow> TrackerIssue list \<Rightarrow> RunLoopOptions \<Rightarrow> ('m, bool) pf" where
  "run_loop_dispatch_write_candidates env config selected options w =
     (case ml_workers env config options (worker_identity config Main) selected w of
        (joins, w') \<Rightarrow> (collect_workers (zip (map ti_identifier selected) joins), w'))"

subsection \<open>One iteration\<close>

record IterationPlan =
  ip_active :: nat
  ip_recoverable :: "RuntimeState RuntimeRecoveryCandidate list"
  ip_issues :: "TrackerIssue list"
  ip_available :: nat
  ip_selected :: "TrackerIssue list"

text \<open>The part before the dispatch: the reason for which the preflight blocks, or the plan. With no
  free slot nothing is selected.\<close>

definition resume_workers ::
    "'m MainLoopEnv \<Rightarrow> RunLoopOptions \<Rightarrow> RuntimeConfig \<Rightarrow> ('m, RuntimePreflightSummary) pf" where
  "resume_workers env options config =
     (let pf = ml_preflight env config in
      bindE (map_errE (ml_state_error env) (load_runtime_states (pf_parse pf) config)) (\<lambda>states.
      bindE (now pf) (\<lambda>now_ms.
      bindE (run_loop_resume_preflight_many pf config states now_ms (rlo_recover options)) (\<lambda>preflight.
      bindE (map_errE (ml_state_error env)
              (save_runtime_states (pf_print pf) config (rps_retained_states preflight))) (\<lambda>_.
      returnE preflight)))))"

definition plan_iteration ::
    "'m MainLoopEnv \<Rightarrow> RunLoopOptions \<Rightarrow> RuntimeConfig \<Rightarrow> ('m, string + IterationPlan) pf" where
  "plan_iteration env options config =
     (let max_concurrent = worker_limit options config in
      bindE (if rlo_write options then resume_workers env options config
             else returnE \<lparr>rps_retained_states = [], rps_active_main_workers = 0, rps_recoverable_states = [],
                    rps_blocked = None\<rparr>) (\<lambda>preflight.
      case rps_blocked preflight of
        Some reason \<Rightarrow> returnE (Inl reason)
      | None \<Rightarrow>
          bindE (ml_scan env config) (\<lambda>issues.
          let plan = plan_dispatch config issues;
              available = (if rlo_write options then max_concurrent - rps_active_main_workers preflight
                           else max_concurrent);
              recoverable = (if rlo_write options \<and> rlo_recover options then rps_recoverable_states preflight else [])
          in returnE (Inr
               \<lparr>ip_active = rps_active_main_workers preflight, ip_recoverable = recoverable, ip_issues = issues,
                ip_available = available,
                ip_selected = select_main_run_loop_issues recoverable (dp_selected plan) available
                  (worker_identity config Main) config\<rparr>))))"

datatype LoopStep = NextIteration | StopLoop string

definition idle_step :: "'m MainLoopEnv \<Rightarrow> string \<Rightarrow> u64 option \<Rightarrow> ('m, LoopStep) pf" where
  "idle_step env reason delay =
     (case delay of
        Some delay_ms \<Rightarrow> bindE (ml_sleep env delay_ms) (\<lambda>_. returnE NextIteration)
      | None \<Rightarrow> returnE (StopLoop reason))"

definition dry_run_iteration ::
    "'m MainLoopEnv \<Rightarrow> RunLoopOptions \<Rightarrow> RuntimeConfig \<Rightarrow> TrackerIssue list \<Rightarrow> TrackerIssue \<Rightarrow> TrackerIssue list \<Rightarrow>
     ('m, LoopStep) pf" where
  "dry_run_iteration env options config issues first selected =
     bindE (ml_hydrate env config first issues) (\<lambda>issue.
     bindE (ml_evaluate env config issue) (\<lambda>decision.
     if \<not> is_dispatchable decision then
       bindE (ml_gate_failure env config issue decision) (\<lambda>_. returnE NextIteration)
     else
       bindE (tryE (ml_handoff_plan env config issue)) (\<lambda>handoff.
       case handoff of
         Inl error \<Rightarrow> bindE (ml_handoff_failure env config issue error) (\<lambda>_. returnE NextIteration)
       | Inr _ \<Rightarrow>
           bindE (forE (\<lambda>candidate _. ml_preview_claim env config (worker_identity config Main) candidate) selected ()) (\<lambda>_.
           bindE (ml_preview_actions env config issue) (\<lambda>_.
           bindE (case unbounded_loop_sleep_ms (iteration_limit options) (pc_interval_ms (rc_polling config)) of
                    None \<Rightarrow> returnE () | Some delay_ms \<Rightarrow> ml_sleep env delay_ms) (\<lambda>_.
           returnE NextIteration))))))"

definition run_loop_iteration :: "'m MainLoopEnv \<Rightarrow> RunLoopOptions \<Rightarrow> ('m, LoopStep) pf" where
  "run_loop_iteration env options =
     bindE (ml_load env (rlo_workflow_path options)) (\<lambda>config.
     bindE (map_errE (ml_config_error env) (liftE (validate config))) (\<lambda>_.
     bindE (liftE (if rlo_write options
                   then ensure_write_mode_main_agent_backend (rlo_workflow_path options) config ''main loop''
                   else Inr ())) (\<lambda>_.
     bindE (ml_checkout env config ''run_loop'' (rlo_write options)) (\<lambda>_.
     bindE (plan_iteration env options config) (\<lambda>planned.
     let limit = iteration_limit options; interval = pc_interval_ms (rc_polling config) in
     case planned of
       Inl reason \<Rightarrow> returnE (StopLoop ''resume_preflight_blocked'')
     | Inr plan \<Rightarrow>
         (if rlo_write options \<and> ip_available plan = 0
          then idle_step env ''max_concurrent_reached'' (unbounded_loop_sleep_ms limit interval)
          else case ip_selected plan of
            [] \<Rightarrow>
              (case no_dispatch_action limit interval of
                 Stop reason \<Rightarrow> returnE (StopLoop reason)
               | SleepAndContinue delay_ms \<Rightarrow> bindE (ml_sleep env delay_ms) (\<lambda>_. returnE NextIteration))
          | first # _ \<Rightarrow>
              (if rlo_write options then
                 bindE (run_loop_dispatch_write_candidates env config (ip_selected plan) options) (\<lambda>stop.
                 returnE (if stop then StopLoop ''worker_stopped'' else NextIteration))
               else dry_run_iteration env options config (ip_issues plan) first (ip_selected plan))))))))"

subsection \<open>The loop\<close>

partial_function (option) run_loop_from ::
    "'m MainLoopEnv \<Rightarrow> RunLoopOptions \<Rightarrow> nat \<Rightarrow> 'm fs_scheme \<Rightarrow> ((string, unit) result \<times> 'm fs_scheme) option" where
  "run_loop_from env options iterations w =
     (if (case iteration_limit options of None \<Rightarrow> False | Some limit \<Rightarrow> iterations \<ge> limit) then Some (Inr (), w)
      else case run_loop_iteration env options w of
        (Inl error, w') \<Rightarrow> Some (Inl error, w')
      | (Inr (StopLoop _), w') \<Rightarrow> Some (Inr (), w')
      | (Inr NextIteration, w') \<Rightarrow> run_loop_from env options (iterations + 1) w')"

definition run_loop ::
    "'m MainLoopEnv \<Rightarrow> RunLoopOptions \<Rightarrow> 'm fs_scheme \<Rightarrow> ((string, unit) result \<times> 'm fs_scheme) option" where
  "run_loop env options w = run_loop_from env options 0 w"

definition run_once :: "'m MainLoopEnv \<Rightarrow> string \<Rightarrow> ('m, bool) pf" where
  "run_once env workflow_path =
     bindE (ml_load env workflow_path) (\<lambda>config.
     bindE (map_errE (ml_config_error env) (liftE (validate config))) (\<lambda>_.
     bindE (ml_scan env config) (\<lambda>issues.
     case dp_selected (plan_dispatch config issues) of
       [] \<Rightarrow> returnE False
     | first # _ \<Rightarrow>
         bindE (ml_hydrate env config first issues) (\<lambda>issue.
         bindE (ml_execute_once env config issue) (\<lambda>_. returnE True)))))"

subsection \<open>Facts\<close>

lemma resume_workers_candidates:
  "returns (resume_workers env options config)
     (\<lambda>p. candidates_inv (ml_preflight env config) p \<and> (\<not> rlo_recover options \<longrightarrow> rps_recoverable_states p = []))"
  unfolding resume_workers_def Let_def
  by (rule returns_bind_any, rule returns_bind_any, rule returns_bind [OF preflight_candidates])
    (auto intro!: returns_rules)

text \<open>After the preflight the file holds the retained workers.\<close>

lemma resume_workers_persisted:
  assumes "json_text_ok (pf_print (ml_preflight env config)) (pf_parse (ml_preflight env config))"
    and "resume_workers env options config w = (Inr p, w')"
  shows "stored_states (pf_parse (ml_preflight env config)) (fs_files w' (runtime_state_path config)) =
    Inr (rps_retained_states p)"
proof -
  let ?pf = "ml_preflight env config"
  from assms(2) obtain w1 where
    "map_errE (ml_state_error env) (save_runtime_states (pf_print ?pf) config (rps_retained_states p)) w1 = (Inr (), w')"
    by (auto simp: resume_workers_def bindE_Inr Let_def)
  from map_errE_files [OF this] have "save_runtime_states_to_path (pf_print ?pf) (runtime_state_path config) (rps_retained_states p) w1 = (Inr (), w')"
    by auto
  from save_states_outcome [OF this] stored_states_text [OF assms(1)] show ?thesis by simp
qed

definition may_run :: "'m MainLoopEnv \<Rightarrow> RunLoopOptions \<Rightarrow> RuntimeConfig \<Rightarrow> TrackerIssue list \<Rightarrow> TrackerIssue \<Rightarrow> bool" where
  "may_run env options config issues i \<longleftrightarrow>
     i \<in> set (dp_selected (plan_dispatch config issues)) \<and>
       is_claimable (pool_claim_eligibility i Main (worker_identity config Main) config) \<or>
     rlo_write options \<and> rlo_recover options \<and> in_progress i \<and> (\<exists>k. tracker_read (ml_preflight env config) k i)"

lemma plan_iteration_returns:
  "returns (plan_iteration env options config)
     (\<lambda>r. \<forall>plan. r = Inr plan \<longrightarrow>
        ip_available plan = worker_limit options config - ip_active plan \<and>
        length (ip_selected plan) \<le> ip_available plan \<and>
        distinct (map ti_identifier (ip_selected plan)) \<and>
        list_all (may_run env options config (ip_issues plan)) (ip_selected plan))"
proof -
  let ?pf = "ml_preflight env config"
  let ?P = "\<lambda>p. candidates_inv ?pf p \<and> (\<not> rlo_recover options \<longrightarrow> rps_recoverable_states p = []) \<and>
    (\<not> rlo_write options \<longrightarrow> rps_active_main_workers p = 0)"
  have first: "returns (if rlo_write options then resume_workers env options config
      else returnE \<lparr>rps_retained_states = [], rps_active_main_workers = 0, rps_recoverable_states = [], rps_blocked = None\<rparr>) ?P"
    by (auto intro!: returns_rules returns_weaken [OF resume_workers_candidates] simp: candidates_inv_def)
  have selected: "list_all (may_run env options config issues)
      (select_main_run_loop_issues (if rlo_write options \<and> rlo_recover options then rps_recoverable_states p else [])
         (dp_selected (plan_dispatch config issues)) slots (worker_identity config Main) config)"
    if "candidates_inv ?pf p" for p issues slots
  proof -
    let ?rec = "if rlo_write options \<and> rlo_recover options then rps_recoverable_states p else []"
    let ?sel = "select_main_run_loop_issues ?rec (dp_selected (plan_dispatch config issues)) slots (worker_identity config Main) config"
    have "may_run env options config issues i" if "i \<in> set (map rr_issue ?rec)" for i
      using that \<open>candidates_inv ?pf p\<close>
      by (auto simp: may_run_def candidates_inv_def list_all_iff candidate_ok_def split: if_splits)
    moreover have "set ?sel \<subseteq> set (map rr_issue ?rec) \<union> {i \<in> set (dp_selected (plan_dispatch config issues)).
        is_claimable (pool_claim_eligibility i Main (worker_identity config Main) config)}"
      using main_selection_bounded by blast
    ultimately show ?thesis unfolding list_all_iff may_run_def by blast
  qed
  have bounded: "length (select_main_run_loop_issues rec planned slots wid config) \<le> slots"
    "distinct (map ti_identifier (select_main_run_loop_issues rec planned slots wid config))"
    for rec :: "RuntimeState RuntimeRecoveryCandidate list" and planned slots wid
    using main_selection_bounded [of rec planned slots wid config] by blast+
  show ?thesis
    unfolding plan_iteration_def Let_def
  proof (rule returns_bind [OF first], rule returns_option)
    fix p reason assume "?P p"
    show "returns (returnE (Inl reason) :: (_, string + IterationPlan) pf) (\<lambda>r. \<forall>plan. r = Inr plan \<longrightarrow>
        ip_available plan = worker_limit options config - ip_active plan \<and>
        length (ip_selected plan) \<le> ip_available plan \<and>
        distinct (map ti_identifier (ip_selected plan)) \<and>
        list_all (may_run env options config (ip_issues plan)) (ip_selected plan))"
      by (simp add: returns_return)
  next
    fix p assume p: "?P p"
    then have "(if rlo_write options then worker_limit options config - rps_active_main_workers p
        else worker_limit options config) = worker_limit options config - rps_active_main_workers p"
      by simp
    with p show "returns (bindE (ml_scan env config) (\<lambda>issues. returnE (Inr
         \<lparr>ip_active = rps_active_main_workers p,
          ip_recoverable = if rlo_write options \<and> rlo_recover options then rps_recoverable_states p else [],
          ip_issues = issues,
          ip_available = if rlo_write options then worker_limit options config - rps_active_main_workers p
            else worker_limit options config,
          ip_selected = select_main_run_loop_issues
            (if rlo_write options \<and> rlo_recover options then rps_recoverable_states p else [])
            (dp_selected (plan_dispatch config issues))
            (if rlo_write options then worker_limit options config - rps_active_main_workers p
             else worker_limit options config)
            (worker_identity config Main) config\<rparr>)))
      (\<lambda>r. \<forall>plan. r = Inr plan \<longrightarrow>
        ip_available plan = worker_limit options config - ip_active plan \<and>
        length (ip_selected plan) \<le> ip_available plan \<and>
        distinct (map ti_identifier (ip_selected plan)) \<and>
        list_all (may_run env options config (ip_issues plan)) (ip_selected plan))"
      by (intro returns_bind_any returns_return) (simp add: bounded selected split del: if_split)
  qed
qed

lemma run_loop_from_eq:
  "run_loop_from env options iterations w =
     (if (case iteration_limit options of None \<Rightarrow> False | Some limit \<Rightarrow> iterations \<ge> limit) then Some (Inr (), w)
      else case run_loop_iteration env options w of
        (Inl error, w') \<Rightarrow> Some (Inl error, w')
      | (Inr (StopLoop _), w') \<Rightarrow> Some (Inr (), w')
      | (Inr NextIteration, w') \<Rightarrow> run_loop_from env options (iterations + 1) w')"
  by (rule run_loop_from.simps)

subsection \<open>Properties\<close>


text \<open>C33: A loop with an iteration limit returns, whatever the tracker, the agents and the file system
  do, as long as each single call returns.\<close>

theorem bounded_run_loop_returns:
  assumes "iteration_limit options = Some limit"
  shows "\<exists>r w'. run_loop env options w = Some (r, w')"
proof -
  have "\<exists>r w'. run_loop_from env options iterations w = Some (r, w')" for iterations w
  proof (induction "limit - iterations" arbitrary: iterations w)
    case 0
    then show ?case by (subst run_loop_from_eq) (simp add: assms)
  next
    case (Suc n)
    then have "n = limit - (iterations + 1)" by simp
    note next_iteration = Suc.hyps(1) [OF this]
    obtain r w' where "run_loop_iteration env options w = (r, w')" by (cases "run_loop_iteration env options w")
    moreover have "\<exists>r' w''. (case r of Inl e \<Rightarrow> Some (Inl e, w')
        | Inr (StopLoop _) \<Rightarrow> Some (Inr (), w')
        | Inr NextIteration \<Rightarrow> run_loop_from env options (iterations + 1) w') = Some (r', w'')"
      using next_iteration [of w'] by (cases r) (auto split: LoopStep.splits)
    moreover have "\<not> limit \<le> iterations" using Suc.hyps(2) by simp
    ultimately show ?case
      unfolding run_loop_from_eq [of env options iterations w] assms option.case by (simp only: if_False prod.case)
  qed
  then show ?thesis by (simp add: run_loop_def)
qed

definition example_loop_env :: "unit MainLoopEnv" where
  "example_loop_env =
     \<lparr>ml_preflight = \<lambda>_. example_env example_tracker, ml_load = \<lambda>_. returnE one_slot,
      ml_config_error = \<lambda>_. ''configuration'', ml_state_error = \<lambda>_. ''state'',
      ml_checkout = \<lambda>_ _ _. returnE (), ml_scan = \<lambda>_. returnE [example_second, example_first],
      ml_workers = \<lambda>_ _ _ is w. (map (\<lambda>_. Joined (Inr Completed)) is, w),
      ml_hydrate = \<lambda>_ i _. returnE i, ml_evaluate = \<lambda>_ _. returnE ready,
      ml_gate_failure = \<lambda>_ _ _. returnE (), ml_handoff_plan = \<lambda>_ _. returnE (),
      ml_handoff_failure = \<lambda>_ _ _. returnE (), ml_preview_claim = \<lambda>_ _ _. returnE (),
      ml_preview_actions = \<lambda>_ _. returnE (), ml_execute_once = \<lambda>_ _. returnE (),
      ml_sleep = \<lambda>_. returnE ()\<rparr>"

definition example_options :: RunLoopOptions where
  "example_options =
     \<lparr>rlo_workflow_path = ''/w/WORKFLOW.md'', rlo_max_iterations = Some 3, rlo_once = False, rlo_write = True,
      rlo_recover = True, rlo_max_concurrent = None, rlo_display = Plain, rlo_quiet_idle = True\<rparr>"

definition example_world :: fs where
  "example_world = \<lparr>fs_files = Map.empty, fs_faults = [], fs_temp_counter = 0, fs_process_id = 42\<rparr>"

lemma example_resume:
  "resume_workers example_loop_env example_options one_slot example_world =
     (Inr \<lparr>rps_retained_states = [], rps_active_main_workers = 0, rps_recoverable_states = [], rps_blocked = None\<rparr>,
      example_world)"
proof -
  have "load_runtime_states_from_path parse path example_world = (Inr [], example_world)" for parse path
    by (simp add: load_no_fault stored_states_def example_world_def)
  moreover have "load_session_registry parse path example_world = (Inr [], example_world)" for parse path
    by (simp add: load_registry_no_fault stored_sessions_def example_world_def)
  moreover have "clear_runtime_state_at_path path example_world = (Inr (), example_world)" for path
    by (simp add: clear_runtime_state_at_path_def bindE_def tryE_def remove_file_def next_fault_def example_world_def
        returnE_def)
  ultimately show ?thesis
    by (simp add: resume_workers_def Let_def bindE_def map_errE_def run_loop_resume_preflight_many_def returnE_def
        recover_registered_main_sessions_def load_registry_def save_runtime_states_to_path_def now_def
        example_loop_env_def example_env_def example_options_def)
qed

lemma example_claimable: "is_claimable (pool_claim_eligibility example_first Main w one_slot)"
proof -
  have "lane_state_eligible example_first Main one_slot" by code_simp
  moreover have "project_text_field example_first f = None" for f
    by (simp add: project_text_field_def example_fields)
  ultimately show ?thesis
    unfolding claimable_iff lane_open_def
    by (simp add: claim_field_eligibility_def is_claimable_def example_no_subissues example_fields)
qed

lemma example_iteration:
  "\<exists>plan. plan_iteration example_loop_env example_options one_slot example_world = (Inr (Inr plan), example_world) \<and>
     ip_selected plan = [example_first]"
proof -
  have "pool_key example_first = 1" by (simp add: pool_key_def example_first_def)
  then have "select_pool_worker_issues [example_first] Main w 1 one_slot = [example_first]" for w
    using example_claimable by (simp add: select_pool_eq)
  then have "select_main_run_loop_issues ([] :: RuntimeState RuntimeRecoveryCandidate list) [example_first] 1 w one_slot = [example_first]" for w
    by (simp add: select_main_run_loop_issues_def Let_def push_new_issue_def already_selected_def)
  moreover have "worker_limit example_options one_slot = 1"
    by (simp add: worker_limit_def example_options_def one_slot_limits)
  moreover have "ml_scan example_loop_env one_slot w = (Inr [example_second, example_first], w)" for w
    by (simp add: example_loop_env_def returnE_def)
  moreover have "rlo_write example_options" by (simp add: example_options_def)
  ultimately show ?thesis
    by (simp add: plan_iteration_def bindE_def example_resume returnE_def example_selected Let_def)
qed


theorem bounded_run_loop_returns_witness:
  "\<exists>r w'. run_loop example_loop_env example_options example_world = Some (r, w')"
  by (rule bounded_run_loop_returns [of example_options 3])
    (simp add: iteration_limit_def example_options_def)

end
