(* ===== verification/Handoff.thy ===== *)
theory Handoff
  imports Issue_Model Text_Tools Paths
begin

section \<open>Handoff plans (\<^verbatim>\<open>src/handoff.rs\<close>)\<close>

text \<open>
  Which branch, workspace and pull request an issue is worked on with, and what has to be there
  before it may enter Agent Review. The rendering of a workpad template is an argument.
\<close>

datatype BranchTargetRole = SingleIssue | Subissue | ParentIssue

record BranchTargetEvidence =
  bt_role :: BranchTargetRole
  bt_parent_issue :: "string option"
  bt_parent_title :: "string option"
  bt_parent_integration_branch :: "string option"
  bt_pull_request_base_branch :: string
  bt_parent_final_base_branch :: "string option"

record PullRequestHandoffPlan =
  pp_title :: string
  pp_head_branch :: string
  pp_base_branch :: string
  pp_issue_ref :: string
  pp_body :: string

record ReworkContinuationEvidence =
  rw_pull_request_url :: string
  rw_pull_request_state :: string
  rw_branch_name :: "string option"
  rw_source :: string

record IssueHandoffPlan =
  hp_issue_ref :: string
  hp_issue_title :: string
  hp_workspace_key :: string
  hp_workspace_path :: string
  hp_branch_name :: string
  hp_pull_request :: PullRequestHandoffPlan
  hp_branch_target :: BranchTargetEvidence
  hp_continuation :: "ReworkContinuationEvidence option"

datatype HandoffError =
    BranchIssueMismatch string string string
  | AmbiguousReworkContinuation string "string list"
  | StaleReworkContinuation string string string
  | MissingReworkContinuationBranch string string
  | WorkspacePreflightBlocked string string

subsection \<open>Names\<close>

definition digits_only :: "string \<Rightarrow> string option" where
  "digits_only value = filter_option (\<lambda>v. v \<noteq> []) (if list_all is_ascii_digit value then Some value else None)"

definition handoff_issue_number :: "string \<Rightarrow> string option" where
  "handoff_issue_number issue_identifier =
     find_map digits_only (split_pred (\<lambda>c. \<not> is_ascii_digit c) issue_identifier)"

definition TITLE_SLUG_LIMIT :: nat where
  "TITLE_SLUG_LIMIT = 64"

text \<open>The loop over the lower-cased characters; the flag tells that a dash was just written.\<close>

fun slug_loop :: "string \<Rightarrow> string \<Rightarrow> bool \<Rightarrow> string" where
  "slug_loop [] slug dash = slug"
| "slug_loop (c # cs) slug dash =
     (let (slug', dash') =
        (if is_ascii_alphanumeric c then (slug @ [c], False)
         else if \<not> dash \<and> slug \<noteq> [] then (slug @ ''-'', True)
         else (slug, dash))
      in if length slug' \<ge> TITLE_SLUG_LIMIT then slug' else slug_loop cs slug' dash')"

definition title_slug :: "string \<Rightarrow> string" where
  "title_slug title =
     (let slug = trim_matches (\<lambda>c. c = CHR ''-'') (slug_loop (to_lowercase title) [] False) in
      if slug = [] then ''untitled'' else slug)"

definition issue_slug :: "string \<Rightarrow> string" where
  "issue_slug issue_identifier =
     (case handoff_issue_number issue_identifier of
        Some number \<Rightarrow> ''issue-'' @ number
      | None \<Rightarrow> title_slug issue_identifier)"

definition workspace_key_for_issue :: "string \<Rightarrow> string \<Rightarrow> string" where
  "workspace_key_for_issue issue_identifier title =
     safe_identifier (issue_slug issue_identifier @ ''-'' @ title_slug title)"

definition profile_workspace_key_for_issue :: "string option \<Rightarrow> string \<Rightarrow> string \<Rightarrow> string" where
  "profile_workspace_key_for_issue profile_id issue_identifier title =
     (case filter_option (\<lambda>v. v \<noteq> []) (map_option trim profile_id) of
        Some p \<Rightarrow> safe_identifier (safe_identifier p @ ''--'' @ workspace_key_for_issue issue_identifier title)
      | None \<Rightarrow> workspace_key_for_issue issue_identifier title)"

definition branch_name_for_issue :: "string \<Rightarrow> string \<Rightarrow> string" where
  "branch_name_for_issue issue_identifier title =
     ''feature/'' @ issue_slug issue_identifier @ ''-'' @ title_slug title"

definition parent_integration_branch_name :: "string \<Rightarrow> string option \<Rightarrow> string" where
  "parent_integration_branch_name parent_issue parent_title =
     ''integration/'' @ issue_slug parent_issue @ ''-'' @
     unwrap_or (filter_option (\<lambda>s. s \<noteq> ''untitled'') (map_option title_slug parent_title)) ''parent-integration''"

subsection \<open>Branches and issues\<close>

datatype BranchIssueCheck = Matches string | Mismatch string string | UnknownBranch

fun token_issue_number :: "string list \<Rightarrow> string option" where
  "token_issue_number [] = None"
| "token_issue_number (token # tokens) =
     (case (if eq_ignore_ascii_case token ''issue''
            then (case tokens of [] \<Rightarrow> None | next # _ \<Rightarrow> digits_only next) else None) of
        Some number \<Rightarrow> Some number
      | None \<Rightarrow>
          (case Option.bind (strip_prefix ''issue'' (to_ascii_lowercase token)) digits_only of
             Some suffix \<Rightarrow> Some suffix
           | None \<Rightarrow> token_issue_number tokens))"

definition branch_issue_number :: "string \<Rightarrow> string option" where
  "branch_issue_number branch_name =
     token_issue_number (filter (\<lambda>t. t \<noteq> []) (split_pred (\<lambda>c. \<not> is_ascii_alphanumeric c) branch_name))"

definition check_branch_issue :: "string \<Rightarrow> string \<Rightarrow> BranchIssueCheck" where
  "check_branch_issue branch_name issue_identifier =
     (case (handoff_issue_number issue_identifier, branch_issue_number branch_name) of
        (Some expected, Some found) \<Rightarrow> (if expected = found then Matches found else Mismatch expected found)
      | _ \<Rightarrow> UnknownBranch)"

definition guard_branch_for_issue :: "string \<Rightarrow> string \<Rightarrow> (HandoffError, BranchIssueCheck) result" where
  "guard_branch_for_issue branch_name issue_identifier =
     (case check_branch_issue branch_name issue_identifier of
        Mismatch expected found \<Rightarrow> Inl (BranchIssueMismatch branch_name expected found)
      | check \<Rightarrow> Inr check)"

subsection \<open>Branch targets\<close>

definition project_field_string :: "TrackerIssue \<Rightarrow> string \<Rightarrow> string option" where
  "project_field_string issue name =
     filter_option (\<lambda>v. v \<noteq> []) (map_option trim (Option.bind (ti_project_fields issue name) as_str))"

definition native_parent_issue :: "TrackerIssue \<Rightarrow> string option" where
  "native_parent_issue issue = filter_option (\<lambda>v. \<not> blank v) (project_field_string issue ''Native Parent Issue'')"

definition native_parent_title :: "TrackerIssue \<Rightarrow> string option" where
  "native_parent_title issue = filter_option (\<lambda>v. \<not> blank v) (project_field_string issue ''Native Parent Title'')"

definition has_native_subissues :: "TrackerIssue \<Rightarrow> bool" where
  "has_native_subissues issue \<longleftrightarrow>
     (case project_field_string issue ''Native Subissues'' of None \<Rightarrow> False | Some v \<Rightarrow> \<not> blank v)"

definition parent_integration_branch_from_text :: "string \<Rightarrow> string option" where
  "parent_integration_branch_from_text text =
     map_option (trim_matches (\<lambda>c. c \<in> {CHR '','', CHR ''.'', CHR '')'', CHR '']'', CHR ''}''}))
       (List.find (\<lambda>t. starts_with t ''integration/issue-'')
          (split_pred (\<lambda>c. is_whitespace c \<or> code c \<in> {96, 34, 39}) text))"

definition explicit_parent_integration_branch :: "TrackerIssue \<Rightarrow> string option" where
  "explicit_parent_integration_branch issue =
     or_else (or_else (project_field_string issue ''Parent Integration Branch'')
                (project_field_string issue ''parent_integration_branch''))
       (parent_integration_branch_from_text (unwrap_or (ti_description issue) []))"

definition branch_target_evidence :: "TrackerIssue \<Rightarrow> string \<Rightarrow> BranchTargetEvidence" where
  "branch_target_evidence issue default_base_branch =
     (case native_parent_issue issue of
        Some parent_issue \<Rightarrow>
          (let parent_title = native_parent_title issue;
               branch = unwrap_or (explicit_parent_integration_branch issue)
                 (parent_integration_branch_name parent_issue parent_title)
           in \<lparr>bt_role = Subissue, bt_parent_issue = Some parent_issue, bt_parent_title = parent_title,
               bt_parent_integration_branch = Some branch, bt_pull_request_base_branch = branch,
               bt_parent_final_base_branch = Some default_base_branch\<rparr>)
      | None \<Rightarrow>
          (if has_native_subissues issue then
             (let branch = unwrap_or (explicit_parent_integration_branch issue)
                    (parent_integration_branch_name (ti_identifier issue) (Some (ti_title issue)))
              in \<lparr>bt_role = ParentIssue, bt_parent_issue = Some (ti_identifier issue),
                  bt_parent_title = Some (ti_title issue), bt_parent_integration_branch = Some branch,
                  bt_pull_request_base_branch = default_base_branch,
                  bt_parent_final_base_branch = Some default_base_branch\<rparr>)
           else
             \<lparr>bt_role = SingleIssue, bt_parent_issue = None, bt_parent_title = None,
              bt_parent_integration_branch = None, bt_pull_request_base_branch = default_base_branch,
              bt_parent_final_base_branch = None\<rparr>))"

definition expected_merge_base_branch_for_issue :: "TrackerIssue \<Rightarrow> string \<Rightarrow> string" where
  "expected_merge_base_branch_for_issue issue default_base_branch =
     bt_pull_request_base_branch (branch_target_evidence issue default_base_branch)"

subsection \<open>Pull requests\<close>

definition pull_request_is_open :: "LinkedPullRequest \<Rightarrow> bool" where
  "pull_request_is_open p \<longleftrightarrow>
     (case pr_state p of None \<Rightarrow> False | Some state \<Rightarrow> eq_ignore_ascii_case state ''open'')"

definition pull_request_url :: "LinkedPullRequest \<Rightarrow> string" where
  "pull_request_url p =
     unwrap_or (or_else (pr_url p)
       (map_option (\<lambda>number. ''pull request #'' @ show_nat (unat number)) (pr_number p))) ''unknown pull request''"

definition rework_continuation_evidence ::
    "TrackerIssue \<Rightarrow> (HandoffError, ReworkContinuationEvidence option) result" where
  "rework_continuation_evidence issue =
     (if normalized_state issue \<noteq> ''rework'' \<or> ti_linked_pull_requests issue = [] then Inr None
      else case filter pull_request_is_open (ti_linked_pull_requests issue) of
        [] \<Rightarrow>
          (let p = hd (ti_linked_pull_requests issue) in
           Inl (StaleReworkContinuation (ti_identifier issue) (pull_request_url p)
             (unwrap_or (pr_state p) ''unknown'')))
      | [p] \<Rightarrow>
          (let branch_name = filter_option (\<lambda>b. b \<noteq> []) (map_option trim (pr_head_ref_name p)) in
           Inr (Some \<lparr>rw_pull_request_url = pull_request_url p,
             rw_pull_request_state = unwrap_or (pr_state p) ''unknown'', rw_branch_name = branch_name,
             rw_source = (if branch_name \<noteq> None then ''linked_pull_request_head_ref'' else ''linked_pull_request'')\<rparr>))
      | open_requests \<Rightarrow>
          Inl (AmbiguousReworkContinuation (ti_identifier issue) (map pull_request_url open_requests)))"

abbreviation NL :: string where
  "NL \<equiv> [char_of (10 :: nat)]"

fun role_debug :: "BranchTargetRole \<Rightarrow> string" where
  "role_debug SingleIssue = ''SingleIssue''"
| "role_debug Subissue = ''Subissue''"
| "role_debug ParentIssue = ''ParentIssue''"

definition optional_line :: "string \<Rightarrow> string \<Rightarrow> string option \<Rightarrow> string list" where
  "optional_line before after v = (case v of None \<Rightarrow> [] | Some s \<Rightarrow> [before @ s @ after])"

definition branch_target_lines :: "BranchTargetEvidence \<Rightarrow> string list" where
  "branch_target_lines t =
     optional_line ''- Native parent issue: `'' ''`'' (bt_parent_issue t) @
     optional_line ''- Parent integration branch: `'' ''`'' (bt_parent_integration_branch t) @
     optional_line ''- Parent final PR base branch: `'' ''`'' (bt_parent_final_base_branch t)"

definition render_pull_request_body :: "string \<Rightarrow> string \<Rightarrow> BranchTargetEvidence \<Rightarrow> string" where
  "render_pull_request_body issue_ref issue_title t =
     join NL
       [''## Summary'', ''- Implements '' @ issue_ref @ '': '' @ issue_title @ ''.'', [],
        ''## Branch Target Evidence'',
        join NL ([''- Branch target role: `'' @ role_debug (bt_role t) @ ''`'',
                  ''- PR base branch: `'' @ bt_pull_request_base_branch t @ ''`''] @ branch_target_lines t), [],
        ''## Verification'', ''- cargo test'', ''- cargo fmt --check'',
        ''- cargo clippy --all-targets --all-features -- -D warnings'', [],
        ''## Handoff'',
        ''Main implementation work stops at Agent Review. Human Review remains reserved for an independent Review Agent after passing evidence is recorded.'',
        [], ''Closes '' @ issue_ref, []]"

definition new_with_branch_target ::
    "string \<Rightarrow> string \<Rightarrow> string \<Rightarrow> BranchTargetEvidence \<Rightarrow> PullRequestHandoffPlan" where
  "new_with_branch_target issue_ref issue_title head_branch t =
     \<lparr>pp_title = trim issue_ref @ '': '' @ trim issue_title, pp_head_branch = head_branch,
      pp_base_branch = bt_pull_request_base_branch t, pp_issue_ref = issue_ref,
      pp_body = render_pull_request_body issue_ref issue_title t\<rparr>"

subsection \<open>The plan\<close>

text \<open>The branch of an issue without a recorded one that continues an open pull request.\<close>

definition continuation_branch :: "TrackerIssue \<Rightarrow> ReworkContinuationEvidence \<Rightarrow> (HandoffError, string) result" where
  "continuation_branch issue c =
     (case filter_option (\<lambda>b. b \<noteq> []) (map_option trim (rw_branch_name c)) of
        None \<Rightarrow> Inl (MissingReworkContinuationBranch (ti_identifier issue) (rw_pull_request_url c))
      | Some b \<Rightarrow> and_then (guard_branch_for_issue b (ti_identifier issue)) (\<lambda>_. Inr b))"

definition planned_branch ::
    "TrackerIssue \<Rightarrow> ReworkContinuationEvidence option \<Rightarrow> BranchTargetEvidence \<Rightarrow> (HandoffError, string) result" where
  "planned_branch issue continuation t =
     (let own = branch_name_for_issue (ti_identifier issue) (ti_title issue);
          fresh = (if bt_role t = ParentIssue then unwrap_or (bt_parent_integration_branch t) own else own)
      in case ti_branch_name issue of
           Some existing_branch \<Rightarrow> Inr (if normalized_state issue = ''rework'' then existing_branch else fresh)
         | None \<Rightarrow> (case continuation of Some c \<Rightarrow> continuation_branch issue c | None \<Rightarrow> Inr fresh))"

definition plan_issue_handoff_for_profile ::
    "string \<Rightarrow> TrackerIssue \<Rightarrow> string \<Rightarrow> string option \<Rightarrow> (HandoffError, IssueHandoffPlan) result" where
  "plan_issue_handoff_for_profile workspace_root issue base_branch profile_id =
     and_then (rework_continuation_evidence issue) (\<lambda>continuation.
     and_then (case ti_branch_name issue of
                 None \<Rightarrow> Inr ()
               | Some b \<Rightarrow> and_then (guard_branch_for_issue b (ti_identifier issue)) (\<lambda>_. Inr ())) (\<lambda>_.
     let t = branch_target_evidence issue base_branch in
     and_then (planned_branch issue continuation t) (\<lambda>branch_name.
     let workspace_key = profile_workspace_key_for_issue profile_id (ti_identifier issue) (ti_title issue) in
     Inr \<lparr>hp_issue_ref = ti_identifier issue, hp_issue_title = ti_title issue, hp_workspace_key = workspace_key,
          hp_workspace_path = path_join workspace_root workspace_key, hp_branch_name = branch_name,
          hp_pull_request = new_with_branch_target (ti_identifier issue) (ti_title issue) branch_name t,
          hp_branch_target = t, hp_continuation = continuation\<rparr>)))"

definition plan_issue_handoff ::
    "string \<Rightarrow> TrackerIssue \<Rightarrow> string \<Rightarrow> (HandoffError, IssueHandoffPlan) result" where
  "plan_issue_handoff workspace_root issue base_branch =
     plan_issue_handoff_for_profile workspace_root issue base_branch None"

subsection \<open>Agent Review\<close>

record AgentReviewHandoffEvidence =
  he_issue_ref :: string
  he_workspace_key :: string
  he_workspace_path :: string
  he_branch_name :: string
  he_branch_target :: BranchTargetEvidence
  he_pull_request_url :: "string option"
  he_project_pr_link_verified :: "bool option"
  he_pull_request_is_draft :: "bool option"
  he_main_workpad_has_plan :: "bool option"
  he_main_workpad_has_work_log :: "bool option"
  he_validation_summary :: string
  he_last_transition :: string
  he_no_pr_blocker :: "string option"

datatype AgentReviewHandoffStatus = Ready | Blocked

record AgentReviewHandoffReport =
  hr_status :: AgentReviewHandoffStatus
  hr_missing :: "string list"
  hr_target_state :: "string option"
  hr_message :: string

definition from_plan :: "IssueHandoffPlan \<Rightarrow> string \<Rightarrow> string \<Rightarrow> AgentReviewHandoffEvidence" where
  "from_plan plan validation_summary last_transition =
     \<lparr>he_issue_ref = hp_issue_ref plan, he_workspace_key = hp_workspace_key plan,
      he_workspace_path = hp_workspace_path plan, he_branch_name = hp_branch_name plan,
      he_branch_target = hp_branch_target plan, he_pull_request_url = None, he_project_pr_link_verified = None,
      he_pull_request_is_draft = None, he_main_workpad_has_plan = None, he_main_workpad_has_work_log = None,
      he_validation_summary = validation_summary, he_last_transition = last_transition,
      he_no_pr_blocker = None\<rparr>"

definition markdown_has_heading :: "string \<Rightarrow> string \<Rightarrow> bool" where
  "markdown_has_heading markdown heading \<longleftrightarrow>
     list_ex (\<lambda>line. let trimmed = trim line in
        trimmed = heading \<or>
        (case strip_prefix heading trimmed of None \<Rightarrow> False | Some rest \<Rightarrow> starts_with rest '' '')) (lines markdown)"

definition record_main_workpad_markdown ::
    "AgentReviewHandoffEvidence \<Rightarrow> string option \<Rightarrow> AgentReviewHandoffEvidence" where
  "record_main_workpad_markdown e markdown =
     (case markdown of
        None \<Rightarrow> e\<lparr>he_main_workpad_has_plan := Some False, he_main_workpad_has_work_log := Some False\<rparr>
      | Some m \<Rightarrow>
          e\<lparr>he_main_workpad_has_plan := Some (markdown_has_heading m ''### Plan''),
            he_main_workpad_has_work_log := Some (markdown_has_heading m ''### Work Log'')\<rparr>)"

definition item_if :: "bool \<Rightarrow> string \<Rightarrow> string list" where
  "item_if b s = (if b then [s] else [])"

definition present_text :: "string option \<Rightarrow> bool" where
  "present_text v \<longleftrightarrow> (case v of None \<Rightarrow> False | Some s \<Rightarrow> \<not> blank s)"

definition unconfirmed :: "bool \<Rightarrow> string \<Rightarrow> string \<Rightarrow> bool option \<Rightarrow> string list" where
  "unconfirmed good refuted unknown v =
     (case v of None \<Rightarrow> [unknown] | Some b \<Rightarrow> if b = good then [] else [refuted])"

definition missing_evidence :: "AgentReviewHandoffEvidence \<Rightarrow> string list" where
  "missing_evidence e =
     (let has_pr = present_text (he_pull_request_url e) in
      item_if (blank (he_issue_ref e)) ''issue id'' @
      item_if (blank (he_workspace_key e)) ''workspace key'' @
      item_if (blank (he_branch_name e)) ''branch name'' @
      item_if (blank (he_validation_summary e)) ''validation summary'' @
      item_if (blank (he_last_transition e)) ''last transition'' @
      unconfirmed True ''Main Workpad `### Plan`'' ''Main Workpad `### Plan` evidence'' (he_main_workpad_has_plan e) @
      unconfirmed True ''Main Workpad `### Work Log`'' ''Main Workpad `### Work Log` evidence''
        (he_main_workpad_has_work_log e) @
      item_if (\<not> has_pr \<and> \<not> present_text (he_no_pr_blocker e)) ''pull request url or explicit no-PR blocker'' @
      (if has_pr then
         unconfirmed True ''linked PR handoff verification'' ''linked PR handoff verification status''
           (he_project_pr_link_verified e) @
         unconfirmed False ''non-draft pull request'' ''pull request draft status'' (he_pull_request_is_draft e)
       else []))"

definition evaluate_agent_review_handoff :: "AgentReviewHandoffEvidence \<Rightarrow> AgentReviewHandoffReport" where
  "evaluate_agent_review_handoff e =
     (let missing = missing_evidence e in
      if missing = [] \<and> present_text (he_pull_request_url e) \<and> he_project_pr_link_verified e = Some True \<and>
         he_pull_request_is_draft e = Some False \<and> he_main_workpad_has_plan e = Some True \<and>
         he_main_workpad_has_work_log e = Some True
      then \<lparr>hr_status = Ready, hr_missing = missing, hr_target_state = Some ''agent_review'',
            hr_message = ''Agent Review handoff invariant passed.''\<rparr>
      else \<lparr>hr_status = Blocked, hr_missing = missing, hr_target_state = Some ''need_human_input'',
            hr_message = ''Agent Review handoff invariant is not satisfied; keeping issue out of Agent Review.''\<rparr>)"

definition known_flag :: "bool option \<Rightarrow> string" where
  "known_flag v = (case v of None \<Rightarrow> ''unknown'' | Some b \<Rightarrow> if b then ''true'' else ''false'')"

definition handoff_validation :: "AgentReviewHandoffEvidence \<Rightarrow> AgentReviewHandoffReport \<Rightarrow> string list" where
  "handoff_validation e r =
     [''- Message: '' @ hr_message r,
      ''- Workspace key: `'' @ he_workspace_key e @ ''`'',
      ''- Workspace path: `'' @ he_workspace_path e @ ''`'',
      ''- Branch: `'' @ he_branch_name e @ ''`'',
      ''- Branch target role: `'' @ role_debug (bt_role (he_branch_target e)) @ ''`'',
      ''- PR base branch: `'' @ bt_pull_request_base_branch (he_branch_target e) @ ''`'',
      ''- Pull request: `'' @ unwrap_or (he_pull_request_url e) ''missing'' @ ''`'',
      ''- Linked PR handoff verified: `'' @ known_flag (he_project_pr_link_verified e) @ ''`'',
      ''- Pull request draft: `'' @ known_flag (he_pull_request_is_draft e) @ ''`'',
      ''- Main Workpad has `### Plan`: `'' @ known_flag (he_main_workpad_has_plan e) @ ''`'',
      ''- Main Workpad has `### Work Log`: `'' @ known_flag (he_main_workpad_has_work_log e) @ ''`'',
      ''- Validation: '' @ he_validation_summary e,
      ''- Last transition: '' @ he_last_transition e] @
     optional_line ''- No-PR blocker: '' [] (he_no_pr_blocker e) @ branch_target_lines (he_branch_target e)"

text \<open>The template's name and its values; a template that does not render panics.\<close>

definition render_agent_review_handoff_workpad ::
    "(string \<Rightarrow> (string \<times> string) list \<Rightarrow> (string, string) result) \<Rightarrow> TrackerIssue \<Rightarrow>
     AgentReviewHandoffEvidence \<Rightarrow> AgentReviewHandoffReport \<Rightarrow> (string, string) result" where
  "render_agent_review_handoff_workpad render issue e r =
     render ''agent_review_handoff''
       [(''issue_ref'', ti_identifier issue), (''issue_title'', ti_title issue),
        (''status'', case hr_status r of Ready \<Rightarrow> ''Ready'' | Blocked \<Rightarrow> ''Blocked''),
        (''target_state'', unwrap_or (hr_target_state r) ''none''),
        (''pull_request'', unwrap_or (he_pull_request_url e) ''missing''),
        (''project_pr_link_verified'', known_flag (he_project_pr_link_verified e)),
        (''pull_request_is_draft'', known_flag (he_pull_request_is_draft e)),
        (''validation_summary'', join NL (handoff_validation e r)),
        (''last_transition'', he_last_transition e),
        (''missing'', if hr_missing r = [] then ''- None.'' else join NL (map (\<lambda>i. ''- '' @ i) (hr_missing r)))]"

subsection \<open>Facts: slugs\<close>

lemma digits_only_Some: "digits_only v = Some n \<longleftrightarrow> v = n \<and> n \<noteq> [] \<and> list_all is_ascii_digit n"
  by (auto simp: digits_only_def)

lemma find_map_Some: "find_map f xs = Some b \<Longrightarrow> \<exists>x \<in> set xs. f x = Some b"
  by (induction xs) (auto split: option.splits)

lemma handoff_issue_number_digits: "handoff_issue_number i = Some n \<Longrightarrow> n \<noteq> [] \<and> list_all is_ascii_digit n"
  unfolding handoff_issue_number_def by (drule find_map_Some) (auto simp: digits_only_Some)

definition slug_char :: "char \<Rightarrow> bool" where
  "slug_char c \<longleftrightarrow> is_ascii_alphanumeric c \<or> c = CHR ''-''"

lemma slug_loop_chars: "list_all slug_char slug \<Longrightarrow> list_all slug_char (slug_loop cs slug dash)"
  by (induction cs slug dash rule: slug_loop.induct) (auto simp: slug_char_def Let_def)

lemma slug_loop_length: "length slug < TITLE_SLUG_LIMIT \<Longrightarrow> length (slug_loop cs slug dash) \<le> TITLE_SLUG_LIMIT"
  by (induction cs slug dash rule: slug_loop.induct) (auto simp: Let_def)

lemma length_trim_matches: "length (trim_matches p s) \<le> length s"
  unfolding trim_matches_def trim_start_matches_def
  using length_trim_end [of p "dropWhile p s"] length_dropWhile_le [of p s] by linarith

text \<open>The slug of a title: not empty, at most 64 characters, of letters, digits and dashes.\<close>

lemma title_slug_shape:
  "title_slug t \<noteq> []" "length (title_slug t) \<le> 64" "list_all slug_char (title_slug t)"
proof -
  let ?s = "trim_matches (\<lambda>c. c = CHR ''-'') (slug_loop (to_lowercase t) [] False)"
  have "list_all slug_char ''untitled''" by code_simp
  moreover have "list_all slug_char ?s"
    using slug_loop_chars [of "[]"] set_trim_matches unfolding list_all_iff by fastforce
  ultimately show "list_all slug_char (title_slug t)" unfolding title_slug_def Let_def by presburger
  have "length ?s \<le> 64"
    using slug_loop_length [of "[]" "to_lowercase t" False] length_trim_matches le_trans
    unfolding TITLE_SLUG_LIMIT_def by fastforce
  then show "length (title_slug t) \<le> 64" by (simp add: title_slug_def Let_def)
  show "title_slug t \<noteq> []" by (simp add: title_slug_def Let_def)
qed

subsection \<open>Facts: branches\<close>

lemma issue_branch_number:
  assumes prefix: "list_all is_ascii_alphanumeric prefix" "prefix \<noteq> []"
      "strip_prefix ''issue'' (to_ascii_lowercase prefix) = None"
    and n: "n \<noteq> []" "list_all is_ascii_digit n"
  shows "branch_issue_number (prefix @ ''/issue-'' @ n @ ''-'' @ slug) = Some n"
proof -
  let ?p = "\<lambda>c. \<not> is_ascii_alphanumeric c"
  have sep: "?p (CHR ''/'')" "?p (CHR ''-'')" "\<forall>c \<in> set ''issue''. \<not> ?p c" by code_simp+
  have digits: "\<forall>c \<in> set n. \<not> ?p c"
    using n(2) by (auto simp: list_all_iff is_ascii_digit_def is_ascii_alphanumeric_def)
  have pre: "\<forall>c \<in> set prefix. \<not> ?p c" using prefix(1) by (simp add: list_all_iff)
  have "split_pred ?p (prefix @ CHR ''/'' # (''issue'' @ CHR ''-'' # (n @ CHR ''-'' # slug))) =
      prefix # ''issue'' # n # split_pred ?p slug"
    unfolding split_pred_append [of prefix ?p, OF pre sep(1)] split_pred_append [of "''issue''" ?p, OF sep(3,2)]
      split_pred_append [of n ?p, OF digits sep(2)] ..
  then have tokens: "split_pred ?p (prefix @ ''/issue-'' @ n @ ''-'' @ slug) = prefix # ''issue'' # n # split_pred ?p slug"
    by simp
  have "\<not> eq_ignore_ascii_case prefix ''issue''"
  proof
    assume "eq_ignore_ascii_case prefix ''issue''"
    then have "to_ascii_lowercase prefix = ''issue''" by (simp add: eq_ignore_ascii_case_def to_ascii_lowercase_def ascii_lower_char_def)
    then show False using prefix(3) by simp
  qed
  moreover have "eq_ignore_ascii_case ''issue'' ''issue''" by (simp add: eq_ignore_ascii_case_def)
  ultimately show ?thesis
    using prefix(2,3) n unfolding branch_issue_number_def tokens by (simp add: digits_only_def)
qed

lemma feature_branch_number:
  "handoff_issue_number i = Some n \<Longrightarrow> branch_issue_number (branch_name_for_issue i t) = Some n"
proof -
  assume n: "handoff_issue_number i = Some n"
  have "list_all is_ascii_alphanumeric ''feature''" "''feature'' \<noteq> []"
    "strip_prefix ''issue'' (to_ascii_lowercase ''feature'') = None" by code_simp+
  from issue_branch_number [OF this, of n "title_slug t"] handoff_issue_number_digits [OF n]
  show ?thesis by (simp add: branch_name_for_issue_def issue_slug_def n)
qed

lemma integration_branch_number:
  "handoff_issue_number i = Some n \<Longrightarrow> branch_issue_number (parent_integration_branch_name i t) = Some n"
proof -
  assume n: "handoff_issue_number i = Some n"
  have "list_all is_ascii_alphanumeric ''integration''" "''integration'' \<noteq> []"
    "strip_prefix ''issue'' (to_ascii_lowercase ''integration'') = None" by code_simp+
  from issue_branch_number [OF this, of n] handoff_issue_number_digits [OF n]
  show ?thesis by (simp add: parent_integration_branch_name_def issue_slug_def n)
qed

definition belongs :: "string \<Rightarrow> string \<Rightarrow> bool" where
  "belongs branch issue_identifier \<longleftrightarrow>
     (case handoff_issue_number issue_identifier of
        None \<Rightarrow> True
      | Some n \<Rightarrow> branch_issue_number branch \<in> {None, Some n})"

lemma guard_Inr: "guard_branch_for_issue b i = Inr c \<Longrightarrow> belongs b i"
  by (auto simp: guard_branch_for_issue_def check_branch_issue_def belongs_def split: option.splits if_splits)

lemma own_branch_belongs: "belongs (branch_name_for_issue i t) i" "belongs (parent_integration_branch_name i u) i"
  using feature_branch_number integration_branch_number by (auto simp: belongs_def split: option.splits)

lemma planned_branch_belongs:
  assumes "planned_branch issue continuation (branch_target_evidence issue base) = Inr b"
    and "\<And>e. ti_branch_name issue = Some e \<Longrightarrow> belongs e (ti_identifier issue)"
  shows "belongs b (ti_identifier issue) \<or>
    has_native_subissues issue \<and> explicit_parent_integration_branch issue = Some b"
proof -
  let ?t = "branch_target_evidence issue base"
  let ?own = "branch_name_for_issue (ti_identifier issue) (ti_title issue)"
  let ?fresh = "if bt_role ?t = ParentIssue then unwrap_or (bt_parent_integration_branch ?t) ?own else ?own"
  have fresh: "belongs ?fresh (ti_identifier issue) \<or>
      has_native_subissues issue \<and> explicit_parent_integration_branch issue = Some ?fresh"
    using own_branch_belongs
    by (cases "explicit_parent_integration_branch issue") (auto simp: branch_target_evidence_def Let_def split: option.splits)
  show ?thesis
  proof (cases "ti_branch_name issue")
    case (Some e)
    then show ?thesis using assms fresh by (auto simp: planned_branch_def Let_def split: if_splits)
  next
    case None
    show ?thesis
    proof (cases continuation)
      case None
      then show ?thesis using assms(1) fresh \<open>ti_branch_name issue = None\<close> by (simp add: planned_branch_def Let_def)
    next
      case (Some c)
      then have "continuation_branch issue c = Inr b" using assms(1) \<open>ti_branch_name issue = None\<close> by (simp add: planned_branch_def Let_def)
      then show ?thesis by (auto simp: continuation_branch_def and_then_Inr_iff dest: guard_Inr split: option.splits)
    qed
  qed
qed

lemma safe_identifier_chars: "c \<in> set (safe_identifier s) \<Longrightarrow> is_ascii_alphanumeric c \<or> c \<in> {CHR ''.'', CHR ''_'', CHR ''-''}"
  by (auto simp: safe_identifier_def split: if_splits)

lemma safe_identifier_dash: "CHR ''-'' \<in> set s \<Longrightarrow> CHR ''-'' \<in> set (safe_identifier s)"
  by (auto simp: safe_identifier_def image_iff split: if_splits)

lemma workspace_key_chars:
  "CHR ''/'' \<notin> set (profile_workspace_key_for_issue p i t) \<and> CHR ''-'' \<in> set (profile_workspace_key_for_issue p i t)"
proof -
  have "\<not> is_ascii_alphanumeric (CHR ''/'')" by code_simp
  then have "CHR ''/'' \<notin> set (safe_identifier s)" for s using safe_identifier_chars by blast
  moreover have "CHR ''-'' \<in> set (safe_identifier (a @ ''-'' @ b))" "CHR ''-'' \<in> set (safe_identifier (a @ ''--'' @ b))" for a b
    by (auto intro!: safe_identifier_dash)
  ultimately show ?thesis
    by (auto simp: profile_workspace_key_for_issue_def workspace_key_for_issue_def split: option.splits)
qed

subsection \<open>Properties\<close>

text \<open>C20: A handoff plan never puts an issue on the branch of another one: the planned branch names the
  issue's own number or none, unless the issue is a parent whose integration branch is given
  explicitly; the pull request comes from that branch, and the workspace is one directory directly
  under the workspace root, whatever the title, identifier and profile contain.\<close>

theorem handoff_plan_confined:
  assumes "plan_issue_handoff_for_profile root issue base profile_id = Inr plan"
  shows "(belongs (hp_branch_name plan) (ti_identifier issue) \<or>
      has_native_subissues issue \<and> explicit_parent_integration_branch issue = Some (hp_branch_name plan)) \<and>
    pp_head_branch (hp_pull_request plan) = hp_branch_name plan \<and>
    hp_workspace_path plan = path_join root (hp_workspace_key plan) \<and>
    CHR ''/'' \<notin> set (hp_workspace_key plan) \<and> hp_workspace_key plan \<notin> {[], ''.'', ''..''}"
proof -
  let ?t = "branch_target_evidence issue base"
  from assms obtain c b where
      "planned_branch issue c ?t = Inr b"
      "\<And>e. ti_branch_name issue = Some e \<Longrightarrow> \<exists>k. guard_branch_for_issue e (ti_identifier issue) = Inr k"
    and plan: "hp_branch_name plan = b" "pp_head_branch (hp_pull_request plan) = b"
      "hp_workspace_path plan = path_join root (hp_workspace_key plan)"
      "hp_workspace_key plan = profile_workspace_key_for_issue profile_id (ti_identifier issue) (ti_title issue)"
    by (auto simp: plan_issue_handoff_for_profile_def and_then_Inr_iff Let_def new_with_branch_target_def split: option.splits)
  then show ?thesis
    using planned_branch_belongs [of issue c base b] guard_Inr workspace_key_chars [of profile_id "ti_identifier issue" "ti_title issue"]
    by auto
qed

theorem handoff_plan_confined_witness:
  "\<exists>plan. plan_issue_handoff_for_profile ''/w'' (sample_issue ''7'' ''Todo'') ''main'' (Some ''../p'') = Inr plan \<and>
     CHR ''/'' \<notin> set (hp_workspace_key plan) \<and> belongs (hp_branch_name plan) ''#7''"
proof -
  let ?i = "sample_issue ''7'' ''Todo''"
  obtain plan where p: "plan_issue_handoff_for_profile ''/w'' ?i ''main'' (Some ''../p'') = Inr plan"
    by (auto simp: plan_issue_handoff_for_profile_def rework_continuation_evidence_def planned_branch_def Let_def
        sample_issue_def)
  have "\<not> has_native_subissues ?i" by (simp add: has_native_subissues_def project_field_string_def sample_issue_def)
  with handoff_plan_confined [OF p] p show ?thesis by (auto simp: sample_issue_def)
qed

text \<open>C21: An issue may enter Agent Review exactly when all of its evidence is there: it names the issue,
  the workspace, the branch, the validation and the transition, its Main Workpad has a plan and a
  work log, and it has a pull request that is linked, verified and not a draft. Otherwise it goes
  to Need Human Input. An explicit blocker does not stand in for a pull request.\<close>

theorem agent_review_handoff_exact:
  "hr_target_state (evaluate_agent_review_handoff e) =
    (if \<not> blank (he_issue_ref e) \<and> \<not> blank (he_workspace_key e) \<and> \<not> blank (he_branch_name e) \<and>
        \<not> blank (he_validation_summary e) \<and> \<not> blank (he_last_transition e) \<and>
        he_main_workpad_has_plan e = Some True \<and> he_main_workpad_has_work_log e = Some True \<and>
        present_text (he_pull_request_url e) \<and> he_project_pr_link_verified e = Some True \<and>
        he_pull_request_is_draft e = Some False
     then Some ''agent_review'' else Some ''need_human_input'')"
proof -
  have "unconfirmed g a b v = [] \<longleftrightarrow> v = Some g" for g a b v
    by (auto simp: unconfirmed_def split: option.splits)
  then show ?thesis
    by (auto simp: evaluate_agent_review_handoff_def missing_evidence_def Let_def item_if_def split: if_splits)
qed

text \<open>A blocker given instead of a pull request leaves nothing to report as missing, and still blocks.\<close>

lemma blocker_leaves_nothing_missing:
  "\<not> present_text (he_pull_request_url e) \<Longrightarrow> present_text (he_no_pr_blocker e) \<Longrightarrow>
   \<not> blank (he_issue_ref e) \<Longrightarrow> \<not> blank (he_workspace_key e) \<Longrightarrow> \<not> blank (he_branch_name e) \<Longrightarrow>
   \<not> blank (he_validation_summary e) \<Longrightarrow> \<not> blank (he_last_transition e) \<Longrightarrow>
   he_main_workpad_has_plan e = Some True \<Longrightarrow> he_main_workpad_has_work_log e = Some True \<Longrightarrow>
   hr_missing (evaluate_agent_review_handoff e) = [] \<and> hr_status (evaluate_agent_review_handoff e) = Blocked"
  by (simp add: evaluate_agent_review_handoff_def missing_evidence_def item_if_def unconfirmed_def)

text \<open>A parent whose description mentions another parent's integration branch is planned on it: the
  explicit branch is not checked against the issue.\<close>

definition mentioning_parent :: TrackerIssue where
  "mentioning_parent = (sample_issue ''21'' ''Todo'')\<lparr>ti_description := Some ''after integration/issue-99-base.'',
     ti_project_fields := [''Native Subissues'' \<mapsto> String ''#30'']\<rparr>"

lemma parent_planned_on_mentioned_branch:
  "map_option hp_branch_name (case plan_issue_handoff ''/w'' mentioning_parent ''main'' of Inr p \<Rightarrow> Some p | Inl _ \<Rightarrow> None) =
     Some ''integration/issue-99-base''"
  "check_branch_issue ''integration/issue-99-base'' ''#21'' = Mismatch ''21'' ''99''"
  by code_simp+

end
