(* ===== verification/Merge_Agent.thy ===== *)
theory Merge_Agent
  imports Merge_Lane Effects
begin

section \<open>The merge agent (\<^verbatim>\<open>src/lanes/merge/repair.rs\<close>)\<close>

text \<open>
  When the base branch cannot be merged mechanically, an agent resolves the conflicts in the
  worktree of the pull request. What it did is only pushed when it says so, the conflict markers
  are gone, and the tree is clean. Preparing and running the agent is an operation on the state
  behind the command runner; so is recording its events.
\<close>

record MergeRepairEvidence =
  me_method :: string
  me_conflict_summary :: string
  me_resolution_summary :: string
  me_semantic_safety :: string
  me_verification :: string
  me_push_evidence :: string
  me_next_state_rationale :: string

record MergeAgentConflictRepairOutcome =
  mo_repaired :: bool
  mo_retryable :: bool
  mo_output :: CommandOutput
  mo_evidence :: MergeRepairEvidence
  mo_reason :: string
  mo_backend :: string
  mo_session_id :: "string option"

definition mechanical_merge_repair_evidence :: "MergeConflictRepairOutcome \<Rightarrow> string \<Rightarrow> MergeRepairEvidence" where
  "mechanical_merge_repair_evidence repair expected_base =
     \<lparr>me_method = ''mechanical_git_merge'',
      me_conflict_summary = ''`git merge --no-edit origin/'' @ expected_base @ ''` completed without content conflicts'',
      me_resolution_summary = ro_reason repair,
      me_semantic_safety = ''No agent-authored changes were needed; Git produced a clean merge commit from the approved PR branch and current base.'',
      me_verification = ''`git status --porcelain` was clean after the merge commit; push was attempted only after that clean check.'',
      me_push_evidence = ''push exit status `'' @ show_int (co_status (ro_output repair)) @
        ''` stdout=`'' @ single_line (co_stdout (ro_output repair)) @
        ''` stderr=`'' @ single_line (co_stderr (ro_output repair)) @ ''`'',
      me_next_state_rationale = ''Successful repair stays in `Merging` so a later merge tick rereads GitHub mergeability before landing.''\<rparr>"

definition ineligible_merge_agent_repair_evidence :: "MergeConflictRepairOutcome \<Rightarrow> MergeRepairEvidence" where
  "ineligible_merge_agent_repair_evidence repair =
     \<lparr>me_method = ''not_started'', me_conflict_summary = ro_reason repair,
      me_resolution_summary = ''Merge-agent repair was not started because trusted repair preconditions were not met.'',
      me_semantic_safety = ''Without a trusted clean PR worktree and content-conflict evidence, the merge lane cannot prove branch safety.'',
      me_verification = ''No agent verification ran.'', me_push_evidence = ''No push attempted.'',
      me_next_state_rationale = ''Unsafe or untrusted repair preconditions route to `Need Human Input` with one operator question.''\<rparr>"

subsection \<open>What the agent says (\<^verbatim>\<open>agent_contract.rs\<close>)\<close>

definition merge_agent_reports_repaired :: "string \<Rightarrow> bool" where
  "merge_agent_reports_repaired text \<longleftrightarrow> contains text ''MERGE_AGENT_DECISION: repaired''"

definition merge_agent_requests_human_input :: "string \<Rightarrow> bool" where
  "merge_agent_requests_human_input text \<longleftrightarrow>
     contains text ''MERGE_AGENT_DECISION: needs_human_input'' \<or>
     contains (to_ascii_lowercase text) ''semantic uncertainty''"

definition marker_line :: "string \<Rightarrow> string \<Rightarrow> string option" where
  "marker_line text marker =
     filter_option (\<lambda>v. v \<noteq> []) (find_map (\<lambda>line. map_option trim (strip_prefix marker (trim line))) (lines text))"

definition merge_agent_resolution_summary :: "string \<Rightarrow> string" where
  "merge_agent_resolution_summary text =
     unwrap_or (marker_line text ''RESOLUTION_SUMMARY:'') ''Merge-agent reported repaired conflict resolution.''"

definition merge_agent_semantic_safety :: "string \<Rightarrow> string" where
  "merge_agent_semantic_safety text =
     unwrap_or (marker_line text ''SEMANTIC_SAFETY:'')
       ''Merge-agent reported that reviewed implementation intent was preserved.''"

subsection \<open>Outcomes (\<^verbatim>\<open>outcome.rs\<close>)\<close>

definition failed_output :: "string \<Rightarrow> string \<Rightarrow> CommandOutput" where
  "failed_output stdout stderr = \<lparr>co_status = 1, co_stdout = stdout, co_stderr = stderr\<rparr>"

definition merge_agent_repair_blocked ::
    "string \<Rightarrow> MergeConflictRepairOutcome \<Rightarrow> MergeAgentConflictRepairOutcome" where
  "merge_agent_repair_blocked reason mechanical_repair =
     \<lparr>mo_repaired = False, mo_retryable = False, mo_output = ro_output mechanical_repair,
      mo_evidence =
        \<lparr>me_method = ''merge_agent_not_started'', me_conflict_summary = ro_reason mechanical_repair,
         me_resolution_summary = reason,
         me_semantic_safety = ''Trusted repair preconditions failed before the merge-agent could safely edit files.'',
         me_verification = ''No agent verification ran.'', me_push_evidence = ''No push attempted.'',
         me_next_state_rationale = ''Route to `Need Human Input` because the merge lane cannot prove safe branch repair.''\<rparr>,
      mo_reason = reason, mo_backend = ''not-started'', mo_session_id = None\<rparr>"

definition merge_agent_repair_backend_failed :: "string \<Rightarrow> string \<Rightarrow> string \<Rightarrow> MergeAgentConflictRepairOutcome" where
  "merge_agent_repair_backend_failed backend reason conflict_summary =
     \<lparr>mo_repaired = False, mo_retryable = True, mo_output = failed_output [] reason,
      mo_evidence =
        \<lparr>me_method = ''merge_agent_backend'', me_conflict_summary = conflict_summary,
         me_resolution_summary = reason,
         me_semantic_safety = ''Backend failure prevents semantic-safety proof.'',
         me_verification = ''No completed repair verification.'', me_push_evidence = ''No push attempted.'',
         me_next_state_rationale = ''Keep the issue in `Merging` for retry because the repair backend did not reach a semantic decision.''\<rparr>,
      mo_reason = reason, mo_backend = backend, mo_session_id = None\<rparr>"

definition merge_agent_repair_semantic_uncertainty ::
    "string \<Rightarrow> string option \<Rightarrow> string \<Rightarrow> string \<Rightarrow> MergeAgentConflictRepairOutcome" where
  "merge_agent_repair_semantic_uncertainty backend session_id conflict_summary reason =
     \<lparr>mo_repaired = False, mo_retryable = False, mo_output = failed_output reason [],
      mo_evidence =
        \<lparr>me_method = ''merge_agent_semantic_uncertainty'', me_conflict_summary = conflict_summary,
         me_resolution_summary = single_line reason,
         me_semantic_safety = ''The merge-agent did not provide a positive semantic-safety proof.'',
         me_verification = ''Repair verification was skipped or incomplete because semantic safety was uncertain.'',
         me_push_evidence = ''No push attempted.'',
         me_next_state_rationale = ''Route to `Need Human Input` with a concrete semantic-safety question.''\<rparr>,
      mo_reason = ''merge-agent repair could not prove semantic safety'', mo_backend = backend,
      mo_session_id = session_id\<rparr>"

definition merge_agent_repair_verification_failed ::
    "string \<Rightarrow> string option \<Rightarrow> string \<Rightarrow> string \<Rightarrow> MergeAgentConflictRepairOutcome" where
  "merge_agent_repair_verification_failed backend session_id conflict_summary reason =
     \<lparr>mo_repaired = False, mo_retryable = False, mo_output = failed_output [] reason,
      mo_evidence =
        \<lparr>me_method = ''merge_agent_verification_failed'', me_conflict_summary = conflict_summary,
         me_resolution_summary = reason,
         me_semantic_safety = ''Verification failure prevents treating the repair as safe.'',
         me_verification = reason, me_push_evidence = ''No push attempted.'',
         me_next_state_rationale = ''Route to `Need Human Input` because the repaired branch was not clean and verified.''\<rparr>,
      mo_reason = reason, mo_backend = backend, mo_session_id = session_id\<rparr>"

definition merge_agent_repair_retryable_verification_failed ::
    "string \<Rightarrow> string option \<Rightarrow> string \<Rightarrow> string \<Rightarrow> MergeAgentConflictRepairOutcome" where
  "merge_agent_repair_retryable_verification_failed backend session_id conflict_summary reason =
     \<lparr>mo_repaired = False, mo_retryable = True, mo_output = failed_output [] reason,
      mo_evidence =
        \<lparr>me_method = ''merge_agent_retryable_verification_failed'', me_conflict_summary = conflict_summary,
         me_resolution_summary = reason,
         me_semantic_safety = ''The merge lane cleaned up the interrupted repair attempt before retrying.'',
         me_verification = reason, me_push_evidence = ''No push attempted.'',
         me_next_state_rationale = ''Keep the issue in `Merging` because the failed repair attempt was cleaned up and can be retried automatically.''\<rparr>,
      mo_reason = reason, mo_backend = backend, mo_session_id = session_id\<rparr>"

subsection \<open>Commands\<close>

text \<open>A command with its error as text, and the quotation of its output in messages.\<close>

definition command :: "'g runner \<Rightarrow> string \<Rightarrow> string list \<Rightarrow> ('g, string, CommandOutput) io" where
  "command R path args = map_errE git_handoff_error_display (R ''git'' args path)"

definition outputs :: "CommandOutput \<Rightarrow> string" where
  "outputs out = ''stdout=`'' @ single_line (co_stdout out) @ ''` stderr=`'' @ single_line (co_stderr out) @ ''`''"

definition status_args :: "string list" where
  "status_args = [''status'', ''--porcelain'']"

definition unmerged_args :: "string list" where
  "unmerged_args = [''diff'', ''--name-only'', ''--diff-filter=U'']"

definition merge_head_args :: "string list" where
  "merge_head_args = [''rev-parse'', ''-q'', ''--verify'', ''MERGE_HEAD'']"

definition finish_merge_agent_repaired_branch ::
    "'g runner \<Rightarrow> string \<Rightarrow> string \<Rightarrow> string \<Rightarrow> string \<Rightarrow> string list \<Rightarrow> string \<Rightarrow> string \<Rightarrow> CommandOutput \<Rightarrow>
     string \<Rightarrow> string option \<Rightarrow> ('g, string, MergeAgentConflictRepairOutcome) io" where
  "finish_merge_agent_repaired_branch R method conflict_summary resolution_summary semantic_safety
     verification_commands head_ref_name path initial_output backend session_id =
     bindE (command R path status_args) (\<lambda>post_status.
     if co_status post_status \<noteq> 0 \<or> \<not> blank (co_stdout post_status) then
       returnE (merge_agent_repair_verification_failed backend session_id conflict_summary
         (''repaired branch was not clean before push: `'' @ single_line (co_stdout post_status) @ ''`''))
     else bindE (command R path [''push'', ''origin'', head_ref_name]) (\<lambda>push.
     if co_status push \<noteq> 0 then
       returnE (merge_agent_repair_verification_failed backend session_id conflict_summary
         (''push failed: '' @ outputs push))
     else returnE
       \<lparr>mo_repaired = True, mo_retryable = False,
        mo_output = \<lparr>co_status = 0,
          co_stdout = single_line (co_stdout initial_output) @ [char_of (10 :: nat)] @ single_line (co_stdout push),
          co_stderr = single_line (co_stderr push)\<rparr>,
        mo_evidence =
          \<lparr>me_method = method, me_conflict_summary = conflict_summary,
           me_resolution_summary = resolution_summary, me_semantic_safety = semantic_safety,
           me_verification = join ''; '' verification_commands,
           me_push_evidence = ''`git push origin '' @ head_ref_name @ ''` exit status `'' @ show_int (co_status push) @ ''`'',
           me_next_state_rationale = ''Successful merge-agent repair stays in `Merging` so the next merge tick rereads GitHub mergeability before landing.''\<rparr>,
        mo_reason = ''merge-agent repaired the conflicted approved PR branch, verification passed, and the existing branch was pushed'',
        mo_backend = backend, mo_session_id = session_id\<rparr>))"

datatype MergeAgentStageFailure = Retryable string | Unsafe string

fun stage_failure_display :: "MergeAgentStageFailure \<Rightarrow> string" where
  "stage_failure_display (Retryable reason) = reason"
| "stage_failure_display (Unsafe reason) = reason"

definition stage_resolved_merge_agent_changes :: "'g runner \<Rightarrow> string \<Rightarrow> ('g, MergeAgentStageFailure, unit) io" where
  "stage_resolved_merge_agent_changes R path =
     (let git = (\<lambda>args. map_errE Retryable (command R path args)) in
      bindE (git [''diff'', ''--check'']) (\<lambda>diff_check.
      if co_status diff_check \<noteq> 0 then failE (Retryable (''`git diff --check` failed: '' @ outputs diff_check))
      else bindE (git status_args) (\<lambda>pre_commit_status.
      if list_ex (\<lambda>line. starts_with line ''??'') (lines (co_stdout pre_commit_status))
      then failE (Unsafe ''merge-agent left untracked files in the PR worktree'')
      else bindE (git [''add'', ''-A'']) (\<lambda>add.
      if co_status add \<noteq> 0 then
        failE (Unsafe (''`git add -A` failed after merge-agent reported repair: '' @ outputs add))
      else bindE (git unmerged_args) (\<lambda>unresolved.
      if co_status unresolved \<noteq> 0 \<or> \<not> blank (co_stdout unresolved) then
        failE (Retryable (''unresolved conflict files remain after staging: `'' @
          single_line (co_stdout unresolved) @ ''`''))
      else returnE ())))))"

definition abort_merge :: "'g runner \<Rightarrow> string \<Rightarrow> ('g, 'e, unit) io" where
  "abort_merge R path = bindE (tryE (command R path [''merge'', ''--abort''])) (\<lambda>_. returnE ())"

definition abort_merge_repair_if_active :: "'g runner \<Rightarrow> string \<Rightarrow> ('g, 'e, unit) io" where
  "abort_merge_repair_if_active R path =
     bindE (tryE (command R path merge_head_args)) (\<lambda>merge_head.
     case merge_head of
       Inr out \<Rightarrow> (if co_status out = 0 then abort_merge R path else returnE ())
     | Inl _ \<Rightarrow> returnE ())"

subsection \<open>The agent\<close>

record AgentRun =
  ag_success :: bool
  ag_backend :: string
  ag_session_id :: "string option"
  ag_message :: string
  ag_text :: string

text \<open>Preparing the prompt and the backend may fail, which is an error of the tick, and so may the
  run, which is not; a finished run is then recorded, which may fail too.\<close>

record 'g MergeAgentEnv =
  ma_prepare :: "string \<Rightarrow> CommandOutput \<Rightarrow> ('g, string, string) io"
  ma_run :: "('g, string, AgentRun) io"
  ma_record :: "AgentRun \<Rightarrow> ('g, string, unit) io"

definition commit_resolved ::
    "'g runner \<Rightarrow> string \<Rightarrow> ('g, string, string option) io" where
  "commit_resolved R path =
     bindE (command R path merge_head_args) (\<lambda>merge_head.
     if co_status merge_head \<noteq> 0 then returnE None
     else bindE (command R path [''commit'', ''--no-edit'']) (\<lambda>commit.
     if co_status commit \<noteq> 0 then
       bindE (abort_merge_repair_if_active R path) (\<lambda>_.
       returnE (Some (''`git commit --no-edit` failed: '' @ outputs commit)))
     else returnE None))"

definition judge_agent_run ::
    "'g runner \<Rightarrow> AgentRun \<Rightarrow> string \<Rightarrow> string \<Rightarrow> string \<Rightarrow> ('g, string, MergeAgentConflictRepairOutcome) io" where
  "judge_agent_run R agent conflict_summary head_ref_name path =
     (let uncertain = (\<lambda>reason. bindE (abort_merge R path) (\<lambda>_.
            returnE (merge_agent_repair_semantic_uncertainty (ag_backend agent) (ag_session_id agent)
              conflict_summary reason))) in
      if \<not> ag_success agent then
        bindE (abort_merge R path) (\<lambda>_.
        returnE (merge_agent_repair_backend_failed (ag_backend agent)
          (''merge-agent backend did not complete: '' @ ag_message agent) conflict_summary))
      else if merge_agent_requests_human_input (ag_text agent) then uncertain (ag_text agent)
      else if \<not> merge_agent_reports_repaired (ag_text agent) then
        uncertain ''merge-agent completed without the required MERGE_AGENT_DECISION marker''
      else
        bindE (tryE (stage_resolved_merge_agent_changes R path)) (\<lambda>staged.
        case staged of
          Inl reason \<Rightarrow>
            bindE (abort_merge_repair_if_active R path) (\<lambda>_.
            returnE (merge_agent_repair_verification_failed (ag_backend agent) (ag_session_id agent)
              conflict_summary (stage_failure_display reason)))
        | Inr _ \<Rightarrow>
            bindE (commit_resolved R path) (\<lambda>commit_failure.
            case commit_failure of
              Some reason \<Rightarrow>
                returnE (merge_agent_repair_retryable_verification_failed (ag_backend agent) (ag_session_id agent)
                  conflict_summary reason)
            | None \<Rightarrow>
                finish_merge_agent_repaired_branch R ''merge_agent'' conflict_summary
                  (merge_agent_resolution_summary (ag_text agent)) (merge_agent_semantic_safety (ag_text agent))
                  [''git diff --name-only --diff-filter=U'', ''git diff --check'', ''git status --porcelain'']
                  head_ref_name path \<lparr>co_status = 0, co_stdout = ag_message agent, co_stderr = []\<rparr>
                  (ag_backend agent) (ag_session_id agent))))"

definition run_merge_agent_conflict_repair ::
    "'g runner \<Rightarrow> 'g MergeAgentEnv \<Rightarrow> string \<Rightarrow> string \<Rightarrow> MergeConflictRepairOutcome \<Rightarrow>
     ('g, string, MergeAgentConflictRepairOutcome) io" where
  "run_merge_agent_conflict_repair R A head_ref_name expected_base mechanical_repair =
     (case ro_worktree_path mechanical_repair of
        None \<Rightarrow> returnE (merge_agent_repair_blocked
          ''missing trusted PR worktree after mechanical content-conflict repair failed'' mechanical_repair)
      | Some path \<Rightarrow>
          bindE (command R path status_args) (\<lambda>clean_after_abort.
          if co_status clean_after_abort \<noteq> 0 \<or> \<not> blank (co_stdout clean_after_abort) then
            returnE (merge_agent_repair_blocked
              ''PR worktree was not clean after aborting the failed mechanical merge'' mechanical_repair)
          else bindE (command R path [''fetch'', ''origin'', expected_base]) (\<lambda>fetch.
          if co_status fetch \<noteq> 0 then
            returnE (merge_agent_repair_blocked
              ''merge-agent repair could not refresh the expected base branch'' mechanical_repair)
          else (let fetch_ref = ''origin/'' @ expected_base in
            bindE (command R path [''merge'', ''--no-edit'', fetch_ref]) (\<lambda>conflict_merge.
            if co_status conflict_merge = 0 then
              finish_merge_agent_repaired_branch R ''mechanical_retry''
                ''The second base merge completed before agent edits were needed.''
                ''`git merge --no-edit` completed cleanly on retry.''
                ''No merge-agent semantic changes were needed.'' [''git merge --no-edit'']
                head_ref_name path
                \<lparr>co_status = 0, co_stdout = co_stdout conflict_merge, co_stderr = co_stderr conflict_merge\<rparr>
                ''direct-cli'' None
            else
              bindE (command R path unmerged_args) (\<lambda>conflict_files.
              let conflict_summary =
                (if blank (co_stdout conflict_files) then
                   ''Git reported conflicts while merging `'' @ fetch_ref @ ''`, but no unmerged files were listed.''
                 else ''Conflicted files after merging `'' @ fetch_ref @ ''`: `'' @
                   single_line (co_stdout conflict_files) @ ''`'') in
              bindE (ma_prepare A conflict_summary (ro_output mechanical_repair)) (\<lambda>backend.
              bindE (tryE (ma_run A)) (\<lambda>ran.
              case ran of
                Inl error \<Rightarrow>
                  bindE (abort_merge R path) (\<lambda>_.
                  returnE (merge_agent_repair_backend_failed backend
                    (''merge-agent backend unavailable: '' @ error) conflict_summary))
              | Inr agent \<Rightarrow>
                  bindE (ma_record A agent) (\<lambda>_.
                  judge_agent_run R agent conflict_summary head_ref_name path)))))))))"

subsection \<open>Facts: the log of commands\<close>

text \<open>The same agent, running beside a log of the commands of the lane.\<close>

definition beside_log :: "('g, 'e, 'a) io \<Rightarrow> ('g \<times> event list, 'e, 'a) io" where
  "beside_log m = (\<lambda>(g, es). case m g of (r, g') \<Rightarrow> (r, (g', es)))"

definition logged_agent :: "'g MergeAgentEnv \<Rightarrow> ('g \<times> event list) MergeAgentEnv" where
  "logged_agent A =
     \<lparr>ma_prepare = \<lambda>s out. beside_log (ma_prepare A s out), ma_run = beside_log (ma_run A),
      ma_record = \<lambda>agent. beside_log (ma_record A agent)\<rparr>"

definition logs :: "('g \<times> event list, 'e, 'a) io \<Rightarrow> (('e, 'a) result \<Rightarrow> event list \<Rightarrow> bool) \<Rightarrow> bool" where
  "logs m Q \<longleftrightarrow> (\<forall>g es r g' es'. m (g, es) = (r, (g', es')) \<longrightarrow> (\<exists>ds. es' = es @ ds \<and> Q r ds))"

definition no_push :: "event list \<Rightarrow> bool" where
  "no_push ds \<longleftrightarrow> list_all (\<lambda>e. \<not> is_push e) ds"

abbreviation quiet :: "('e, 'a) result \<Rightarrow> event list \<Rightarrow> bool" where
  "quiet \<equiv> (\<lambda>r ds. no_push ds)"

definition absorbs :: "(('e, 'a) result \<Rightarrow> event list \<Rightarrow> bool) \<Rightarrow> bool" where
  "absorbs Q \<longleftrightarrow> (\<forall>e ds. no_push ds \<longrightarrow> Q (Inl e) ds) \<and> (\<forall>ds r ds'. no_push ds \<longrightarrow> Q r ds' \<longrightarrow> Q r (ds @ ds'))"

lemma no_push_append [simp]: "no_push (ds @ ds') \<longleftrightarrow> no_push ds \<and> no_push ds'"
  by (simp add: no_push_def)

lemma no_push_Nil [simp]: "no_push []"
  by (simp add: no_push_def)

lemma absorbs_quiet [simp]: "absorbs quiet"
  by (simp add: absorbs_def)

lemma logs_return: "Q (Inr a) [] \<Longrightarrow> logs (returnE a) Q"
  by (simp add: logs_def)

lemma logs_fail: "Q (Inl e) [] \<Longrightarrow> logs (failE e) Q"
  by (simp add: logs_def)

lemma logs_quiet_end [simp]: "logs (returnE a) quiet" "logs (failE e) quiet"
  by (simp_all add: logs_def)

lemma logs_weaken: "logs m Q \<Longrightarrow> (\<And>r ds. Q r ds \<Longrightarrow> R r ds) \<Longrightarrow> logs m R"
  unfolding logs_def by blast

lemma logs_bind:
  assumes "absorbs Q" "logs m quiet" "\<And>a. logs (f a) Q"
  shows "logs (bindE m f) Q"
  unfolding logs_def
proof (intro allI impI)
  fix g es r g' es' assume b: "bindE m f (g, es) = (r, (g', es'))"
  obtain q g1 es1 where m: "m (g, es) = (q, (g1, es1))" by (metis prod.exhaust)
  then obtain ds where ds: "es1 = es @ ds" "no_push ds" using assms(2) unfolding logs_def by blast
  show "\<exists>ds. es' = es @ ds \<and> Q r ds"
  proof (cases q)
    case (Inl e)
    then show ?thesis using b m ds assms(1) by (auto simp: bindE_def absorbs_def)
  next
    case (Inr a)
    then have "f a (g1, es1) = (r, (g', es'))" using b m by (simp add: bindE_def)
    then obtain ds' where "es' = es1 @ ds'" "Q r ds'" using assms(3) unfolding logs_def by blast
    then show ?thesis using ds assms(1) by (auto simp: absorbs_def)
  qed
qed

lemma logs_try: "logs m quiet \<Longrightarrow> logs (tryE m) quiet"
  by (fastforce simp: logs_def tryE_def split: prod.splits)

lemma logs_map_err: "logs m quiet \<Longrightarrow> logs (map_errE f m) quiet"
  by (fastforce simp: logs_def map_errE_def split: prod.splits sum.splits)

lemma logs_if: "(b \<Longrightarrow> logs m Q) \<Longrightarrow> (\<not> b \<Longrightarrow> logs n Q) \<Longrightarrow> logs (if b then m else n) Q"
  by simp

lemma logs_beside: "logs (beside_log m) quiet"
  by (auto simp: logs_def beside_log_def split: prod.splits)

lemma command_logged:
  "logs (command (logged R) path args)
     (\<lambda>r ds. \<exists>res. ds = [Event ''git'' args path res] \<and> (\<forall>out. r = Inr out \<longleftrightarrow> res = Inr out))"
  by (auto simp: logs_def command_def logged_def map_errE_def split: prod.splits sum.splits)

lemma command_quiet: "args \<noteq> [] \<Longrightarrow> hd args \<noteq> ''push'' \<Longrightarrow> logs (command (logged R) path args) quiet"
  by (rule logs_weaken [OF command_logged]) (auto simp: no_push_def)

lemmas quiet_args =
  status_args_def unmerged_args_def merge_head_args_def

lemma abort_merge_quiet: "logs (abort_merge (logged R) path) quiet"
  unfolding abort_merge_def by (intro logs_bind logs_try command_quiet logs_return) simp_all

lemma abort_if_active_quiet: "logs (abort_merge_repair_if_active (logged R) path) quiet"
proof -
  have "logs (command (logged R) path merge_head_args) quiet" by (rule command_quiet) (simp_all add: quiet_args)
  then show ?thesis
    unfolding abort_merge_repair_if_active_def
    by (intro logs_bind logs_try) (auto intro: abort_merge_quiet split: sum.splits)
qed

lemma stage_quiet: "logs (stage_resolved_merge_agent_changes (logged R) path) quiet"
proof -
  have c: "logs (map_errE Retryable (command (logged R) path args)) quiet" if "args \<noteq> []" "hd args \<noteq> ''push''" for args
    using that by (intro logs_map_err command_quiet)
  have g: "logs (map_errE Retryable (command (logged R) path [''diff'', ''--check''])) quiet"
    "logs (map_errE Retryable (command (logged R) path status_args)) quiet"
    "logs (map_errE Retryable (command (logged R) path [''add'', ''-A''])) quiet"
    "logs (map_errE Retryable (command (logged R) path unmerged_args)) quiet"
    by (rule c; simp add: quiet_args)+
  show ?thesis
    unfolding stage_resolved_merge_agent_changes_def Let_def
    by (intro logs_bind absorbs_quiet g) (auto intro!: logs_bind g simp: absorbs_quiet)
qed

lemma commit_quiet: "logs (commit_resolved (logged R) path) quiet"
proof -
  have g: "logs (command (logged R) path merge_head_args) quiet"
    "logs (command (logged R) path [''commit'', ''--no-edit'']) quiet"
    by (rule command_quiet; simp add: quiet_args)+
  show ?thesis
    unfolding commit_resolved_def
    by (intro logs_bind absorbs_quiet g) (auto intro!: logs_bind g abort_if_active_quiet)
qed

text \<open>When what the rest does depends on what was just logged.\<close>

lemma logs_bind_dep:
  assumes m: "logs m P" and e: "\<And>e ds. P (Inl e) ds \<Longrightarrow> Q (Inl e) ds"
    and f: "\<And>a ds. P (Inr a) ds \<Longrightarrow> logs (f a) (\<lambda>r ds'. Q r (ds @ ds'))"
  shows "logs (bindE m f) Q"
  unfolding logs_def
proof (intro allI impI)
  fix g es r g' es' assume b: "bindE m f (g, es) = (r, (g', es'))"
  obtain q g1 es1 where q: "m (g, es) = (q, (g1, es1))" by (metis prod.exhaust)
  then obtain ds where ds: "es1 = es @ ds" "P q ds" using m unfolding logs_def by blast
  show "\<exists>ds. es' = es @ ds \<and> Q r ds"
  proof (cases q)
    case (Inl x)
    then show ?thesis using b q ds e by (auto simp: bindE_def)
  next
    case (Inr a)
    then have "f a (g1, es1) = (r, (g', es'))" using b q by (simp add: bindE_def)
    then obtain ds' where "es' = es1 @ ds'" "Q r (ds @ ds')" using f ds Inr unfolding logs_def by blast
    then show ?thesis using ds by auto
  qed
qed

definition repaired_result :: "(string, MergeAgentConflictRepairOutcome) result \<Rightarrow> bool" where
  "repaired_result r \<longleftrightarrow> (case r of Inl _ \<Rightarrow> False | Inr out \<Rightarrow> mo_repaired out)"

text \<open>Nothing was pushed and no repair is reported, or the last two commands are an empty status and
  a push of the head branch from the same worktree, and the repair is reported exactly when
  that push succeeded.\<close>

definition pushed_clean ::
    "string \<Rightarrow> string \<Rightarrow> (string, MergeAgentConflictRepairOutcome) result \<Rightarrow> event list \<Rightarrow> bool" where
  "pushed_clean head path r ds \<longleftrightarrow>
     (\<exists>before status res. ds = before @ [Event ''git'' [''status'', ''--porcelain''] path (Inr status),
          Event ''git'' [''push'', ''origin'', head] path res] \<and>
        no_push before \<and> co_status status = 0 \<and> blank (co_stdout status) \<and>
        (repaired_result r \<longleftrightarrow> (\<exists>out. res = Inr out \<and> co_status out = 0)))"

definition push_safe ::
    "bool \<Rightarrow> string \<Rightarrow> string \<Rightarrow> (string, MergeAgentConflictRepairOutcome) result \<Rightarrow> event list \<Rightarrow> bool" where
  "push_safe allowed head path r ds \<longleftrightarrow>
     no_push ds \<and> \<not> repaired_result r \<or> allowed \<and> pushed_clean head path r ds"

lemma pushed_clean_prefix:
  assumes "no_push ds" "pushed_clean head path r ds'"
  shows "pushed_clean head path r (ds @ ds')"
  using assms by (fastforce simp: pushed_clean_def append_assoc [symmetric] simp del: append_assoc)

lemma absorbs_push_safe [simp]: "absorbs (push_safe allowed head path)"
  using pushed_clean_prefix by (auto simp: absorbs_def push_safe_def repaired_result_def)

lemma push_safe_return [simp]: "\<not> mo_repaired out \<Longrightarrow> logs (returnE out) (push_safe allowed head path)"
  by (rule logs_return) (simp add: push_safe_def repaired_result_def)

lemmas outcome_defs =
  merge_agent_repair_blocked_def merge_agent_repair_backend_failed_def
  merge_agent_repair_semantic_uncertainty_def merge_agent_repair_verification_failed_def
  merge_agent_repair_retryable_verification_failed_def

lemma finish_push_safe:
  assumes "allowed"
  shows "logs (finish_merge_agent_repaired_branch (logged R) method cs rs ss vs head path init b sid)
     (push_safe allowed head path)"
  unfolding finish_merge_agent_repaired_branch_def
proof (rule logs_bind_dep [OF command_logged], goal_cases)
  case (1 e ds)
  then show ?case by (auto simp: push_safe_def repaired_result_def no_push_def quiet_args)
next
  case (2 out ds)
  then have ds: "ds = [Event ''git'' [''status'', ''--porcelain''] path (Inr out)]" by (auto simp: quiet_args)
  show ?case
  proof (cases "co_status out \<noteq> 0 \<or> \<not> blank (co_stdout out)")
    case True
    then show ?thesis
      by (auto intro!: logs_return simp: ds push_safe_def repaired_result_def no_push_def outcome_defs)
  next
    case False
    then have pc: "push_safe allowed head path r (ds @ [Event ''git'' [''push'', ''origin'', head] path res])"
      if "repaired_result r \<longleftrightarrow> (\<exists>out. res = Inr out \<and> co_status out = 0)" for r res
      unfolding push_safe_def pushed_clean_def using assms that ds
      by (intro disjI2 conjI exI [of _ "[]"] exI [of _ out] exI [of _ res]) simp_all
    show ?thesis
      unfolding if_not_P [OF False]
    proof (rule logs_bind_dep [OF command_logged], goal_cases)
      case (1 e ds')
      then show ?case using pc by (auto simp: repaired_result_def)
    next
      case (2 push ds')
      then have "ds' = [Event ''git'' [''push'', ''origin'', head] path (Inr push)]" by auto
      then show ?case by (auto intro!: logs_return pc simp: repaired_result_def outcome_defs)
    qed
  qed
qed

definition agent_approved :: "AgentRun \<Rightarrow> bool" where
  "agent_approved agent \<longleftrightarrow> ag_success agent \<and> merge_agent_reports_repaired (ag_text agent) \<and>
     \<not> merge_agent_requests_human_input (ag_text agent)"

lemma judge_push_safe:
  "logs (judge_agent_run (logged R) agent cs head path) (push_safe (agent_approved agent) head path)"
proof -
  have stop: "logs (bindE (abort_merge (logged R) path) (\<lambda>_. returnE out)) (push_safe a head path)"
    if "\<not> mo_repaired out" for a out
    using that by (intro logs_bind abort_merge_quiet) simp_all
  show ?thesis
  proof (cases "agent_approved agent")
    case False
    then show ?thesis
      unfolding judge_agent_run_def Let_def
      by (auto intro!: stop simp: agent_approved_def outcome_defs)
  next
    case True
    then show ?thesis
      unfolding judge_agent_run_def Let_def
      by (auto intro!: logs_bind logs_try stage_quiet abort_if_active_quiet commit_quiet finish_push_safe
          simp: agent_approved_def outcome_defs split: sum.splits option.splits)
  qed
qed

text \<open>Either the base branch merged without conflicts after all, or the agent finished a run saying
  that it repaired the branch, without asking for a human.\<close>

definition repair_authorised :: "'g MergeAgentEnv \<Rightarrow> string \<Rightarrow> string \<Rightarrow> event list \<Rightarrow> bool" where
  "repair_authorised A base path es \<longleftrightarrow>
     (\<exists>out. Event ''git'' [''merge'', ''--no-edit'', ''origin/'' @ base] path (Inr out) \<in> set es \<and> co_status out = 0) \<or>
     (\<exists>g agent g'. ma_run A g = (Inr agent, g') \<and> agent_approved agent)"

definition resolved_push ::
    "'g MergeAgentEnv \<Rightarrow> string \<Rightarrow> string \<Rightarrow> string \<Rightarrow> (string, MergeAgentConflictRepairOutcome) result \<Rightarrow>
     event list \<Rightarrow> bool" where
  "resolved_push A base head path r ds \<longleftrightarrow>
     no_push ds \<and> \<not> repaired_result r \<or> pushed_clean head path r ds \<and> repair_authorised A base path ds"

lemma repair_authorised_append: "repair_authorised A base path ds' \<Longrightarrow> repair_authorised A base path (ds @ ds')"
  by (auto simp: repair_authorised_def)

lemma absorbs_resolved_push [simp]: "absorbs (resolved_push A base head path)"
  unfolding absorbs_def resolved_push_def
  by (simp add: repaired_result_def) (blast intro: pushed_clean_prefix repair_authorised_append)

lemma resolved_push_return [simp]: "\<not> mo_repaired out \<Longrightarrow> logs (returnE out) (resolved_push A base head path)"
  by (rule logs_return) (simp add: resolved_push_def repaired_result_def)

lemma agent_run_logs:
  "logs (tryE (ma_run (logged_agent A)))
     (\<lambda>r ds. no_push ds \<and> (\<forall>agent. r = Inr (Inr agent) \<longrightarrow> (\<exists>g g'. ma_run A g = (Inr agent, g'))))"
  by (fastforce simp: logs_def tryE_def logged_agent_def beside_log_def split: prod.splits)

lemma agent_prepared_quiet: "logs (ma_prepare (logged_agent A) cs out) quiet"
  by (simp add: logged_agent_def logs_beside)

lemma agent_recorded_quiet: "logs (ma_record (logged_agent A) agent) quiet"
  by (simp add: logged_agent_def logs_beside)

lemma agent_round_logs:
  "logs (bindE (tryE (ma_run (logged_agent A))) (\<lambda>ran.
      case ran of
        Inl error \<Rightarrow> bindE (abort_merge (logged R) path) (\<lambda>_. returnE (merge_agent_repair_backend_failed b (f error) cs))
      | Inr agent \<Rightarrow> bindE (ma_record (logged_agent A) agent) (\<lambda>_. judge_agent_run (logged R) agent cs head path)))
     (resolved_push A base head path)"
proof (rule logs_bind_dep [OF agent_run_logs], goal_cases)
  case (1 e ds)
  then show ?case by (simp add: resolved_push_def repaired_result_def)
next
  case (2 ran ds)
  have "logs (case ran of
        Inl error \<Rightarrow> bindE (abort_merge (logged R) path) (\<lambda>_. returnE (merge_agent_repair_backend_failed b (f error) cs))
      | Inr agent \<Rightarrow> bindE (ma_record (logged_agent A) agent) (\<lambda>_. judge_agent_run (logged R) agent cs head path))
     (resolved_push A base head path)"
  proof (cases ran)
    case (Inl error)
    then show ?thesis by (auto intro!: logs_bind abort_merge_quiet simp: outcome_defs)
  next
    case (Inr agent)
    then obtain g g' where run: "ma_run A g = (Inr agent, g')" using 2 by auto
    have "logs (judge_agent_run (logged R) agent cs head path) (resolved_push A base head path)"
      by (rule logs_weaken [OF judge_push_safe])
        (use run in \<open>auto simp: push_safe_def resolved_push_def repair_authorised_def\<close>)
    then show ?thesis using Inr by (auto intro!: logs_bind agent_recorded_quiet)
  qed
  then show ?case
    by (rule logs_weaken) (use 2 absorbs_resolved_push [of A base head path] in \<open>auto simp: absorbs_def\<close>)
qed

lemma retried_merge_logs:
  assumes "co_status out = 0"
  shows "logs (finish_merge_agent_repaired_branch (logged R) method cs rs ss vs head path init b sid)
     (\<lambda>r ds. resolved_push A base head path r
        ([Event ''git'' [''merge'', ''--no-edit'', ''origin/'' @ base] path (Inr out)] @ ds))"
proof (rule logs_weaken [OF finish_push_safe [OF TrueI]])
  fix r ds assume p: "push_safe True head path r ds"
  let ?m = "Event ''git'' [''merge'', ''--no-edit'', ''origin/'' @ base] path (Inr out)"
  have "no_push [?m]" by (simp add: no_push_def)
  then have "push_safe True head path r ([?m] @ ds)"
    using p absorbs_push_safe [of True head path] unfolding absorbs_def by blast
  then show "resolved_push A base head path r ([?m] @ ds)"
    using assms by (auto simp: push_safe_def resolved_push_def repair_authorised_def)
qed

lemma merge_agent_logs:
  assumes "ro_worktree_path m = Some path"
  shows "logs (run_merge_agent_conflict_repair (logged R) (logged_agent A) head base m) (resolved_push A base head path)"
proof -
  have q: "logs (command (logged R) path status_args) quiet" "logs (command (logged R) path unmerged_args) quiet"
    "logs (command (logged R) path [''fetch'', ''origin'', base]) quiet"
    by (rule command_quiet; simp add: quiet_args)+
  have merge: "logs (bindE (command (logged R) path [''merge'', ''--no-edit'', ''origin/'' @ base])
      (\<lambda>out. if co_status out = 0 then F out else G out))
      (resolved_push A base head path)" 
    if f0: "\<And>out. co_status out = 0 \<Longrightarrow> logs (F out) (\<lambda>r ds. resolved_push A base head path r
          ([Event ''git'' [''merge'', ''--no-edit'', ''origin/'' @ base] path (Inr out)] @ ds))"
      and f1: "\<And>out. co_status out \<noteq> 0 \<Longrightarrow> logs (G out) (resolved_push A base head path)" for F G
  proof (rule logs_bind_dep [OF command_logged], goal_cases)
    case (1 e ds)
    then show ?case by (auto simp: resolved_push_def repaired_result_def no_push_def)
  next
    case (2 out ds)
    then have ds: "ds = [Event ''git'' [''merge'', ''--no-edit'', ''origin/'' @ base] path (Inr out)]" by auto
    then have "no_push ds" by (simp add: no_push_def)
    then have keep: "resolved_push A base head path r (ds @ ds')" if "resolved_push A base head path r ds'" for r ds'
      using absorbs_resolved_push [of A base head path] that unfolding absorbs_def by blast
    show ?case
    proof (cases "co_status out = 0")
      case True
      then show ?thesis using f0 [OF True] unfolding ds by simp
    next
      case False
      show ?thesis unfolding if_not_P [OF False] by (rule logs_weaken [OF f1 [OF False] keep])
    qed
  qed
  show ?thesis
    unfolding run_merge_agent_conflict_repair_def assms option.case Let_def
    by (intro logs_bind [OF absorbs_resolved_push] logs_if merge retried_merge_logs q
        agent_prepared_quiet agent_round_logs resolved_push_return) (simp_all add: outcome_defs)
qed

lemma merge_agent_blocked_logs:
  "ro_worktree_path m = None \<Longrightarrow>
   logs (run_merge_agent_conflict_repair R A head base m) (\<lambda>r ds. no_push ds \<and> \<not> repaired_result r)"
  by (auto intro!: logs_return simp: run_merge_agent_conflict_repair_def repaired_result_def outcome_defs)

text \<open>C13: The merge agent cannot publish a branch that is not resolved. Whatever the commands and the agent
  return, a conflict repair pushes at most once, as its last command, to the pull request's head
  branch, immediately after an empty \<^verbatim>\<open>git status\<close> in the trusted worktree; and it pushes only when
  the base branch merged without conflicts after all or the agent finished, reported
  \<^verbatim>\<open>MERGE_AGENT_DECISION: repaired\<close> and asked for no human. The branch is reported repaired
  exactly when that push succeeded.\<close>

theorem merge_agent_pushes_only_resolved:
  assumes "run_merge_agent_conflict_repair (logged R) (logged_agent A) head base m (g, []) = (r, g', es)"
  shows "no_push es \<and> \<not> repaired_result r \<or>
    (\<exists>path. ro_worktree_path m = Some path \<and> pushed_clean head path r es \<and> repair_authorised A base path es)"
proof (cases "ro_worktree_path m")
  case None
  then show ?thesis using assms merge_agent_blocked_logs [OF None] unfolding logs_def by fastforce
next
  case (Some path)
  then have "resolved_push A base head path r es" using assms merge_agent_logs [OF Some] unfolding logs_def by fastforce
  then show ?thesis using Some by (simp add: resolved_push_def)
qed

text \<open>A check that the code calls retryable (an interrupted \<^verbatim>\<open>git diff --check\<close>, a conflict that is
  still unmerged) is not retried: the caller turns both kinds of staging failure into the outcome that
  routes to a human.\<close>

lemma staging_failure_is_never_retried:
  assumes "agent_approved agent" "stage_resolved_merge_agent_changes R path g = (Inl (Retryable reason), g')"
    and "judge_agent_run R agent cs head path g = (Inr out, g'')"
  shows "\<not> mo_retryable out \<and> \<not> mo_repaired out"
  using assms
  by (auto simp: judge_agent_run_def agent_approved_def bindE_def tryE_def outcome_defs split: prod.splits sum.splits)

subsection \<open>A concrete repair\<close>

text \<open>A worktree in conflict until the agent has run: the second component of the state.\<close>

definition conflict_runner :: "bool runner" where
  "conflict_runner program args cwd resolved =
     (Inr \<lparr>co_status = if args \<noteq> [] \<and> hd args = ''merge'' then 1 else 0, co_stdout = [], co_stderr = []\<rparr>, resolved)"

definition repairing_agent :: "bool MergeAgentEnv" where
  "repairing_agent =
     \<lparr>ma_prepare = \<lambda>cs out. returnE ''codex'',
      ma_run = \<lambda>resolved. (Inr \<lparr>ag_success = True, ag_backend = ''codex'', ag_session_id = None,
        ag_message = ''done'', ag_text = ''MERGE_AGENT_DECISION: repaired''\<rparr>, True),
      ma_record = \<lambda>agent. returnE ()\<rparr>"

definition conflict_outcome :: MergeConflictRepairOutcome where
  "conflict_outcome = \<lparr>ro_repaired = False, ro_worktree_path = Some ''/w'',
     ro_output = \<lparr>co_status = 1, co_stdout = [], co_stderr = []\<rparr>, ro_reason = ''conflict'',
     ro_failure_kind = Some ContentConflict\<rparr>"

lemma conflict_repair_runs:
  "case run_merge_agent_conflict_repair (logged conflict_runner) (logged_agent repairing_agent) ''f'' ''main''
     conflict_outcome (False, []) of (r, resolved, es) \<Rightarrow>
       repaired_result r \<and> resolved \<and> \<not> no_push es"
  by code_simp

theorem merge_agent_pushes_only_resolved_witness:
  "case run_merge_agent_conflict_repair (logged conflict_runner) (logged_agent repairing_agent) ''f'' ''main''
     conflict_outcome (False, []) of (r, resolved, es) \<Rightarrow>
       repaired_result r \<and> pushed_clean ''f'' ''/w'' r es \<and> repair_authorised repairing_agent ''main'' ''/w'' es"
proof -
  obtain r w es where run: "run_merge_agent_conflict_repair (logged conflict_runner) (logged_agent repairing_agent)
     ''f'' ''main'' conflict_outcome (False, []) = (r, w, es)" by (metis prod.exhaust)
  moreover from this have "repaired_result r" using conflict_repair_runs by simp
  ultimately show ?thesis
    using merge_agent_pushes_only_resolved [OF run] by (auto simp: conflict_outcome_def)
qed

end
