(* ===== verification/Merge_Tick.thy ===== *)
theory Merge_Tick
  imports Lane_Pool Merge_Agent Handoff Config_Load
begin

section \<open>The merge lane (\<^verbatim>\<open>src/lanes/merge/tick.rs\<close>, \<^verbatim>\<open>tick/dirty.rs\<close>, \<^verbatim>\<open>evidence.rs\<close>, \<^verbatim>\<open>merge.rs\<close>)\<close>

text \<open>
  One tick takes one issue in the merging state, claims it, judges its pull request and acts on
  the decision: it updates a stale branch, repairs a conflicting one, lands a ready one or routes
  the issue. The world is the tracker, what the commands act on, and the audit of the mutations.
  A tick is a function on it that returns an outcome or fails; the mechanical conflict repair may
  run forever, which is the error \<open>NeverReturns\<close>. Reading the workflow file, the template
  engine, the clock and the agent are operations of the environment. Printed lines are left out.
\<close>

subsection \<open>World and environment\<close>

datatype tick_error = Failed string | NeverReturns

record ('t, 'g) merge_world =
  mw_tracker :: 't
  mw_git :: 'g
  mw_audits :: "TrackerMutationAudit list"

type_synonym ('t, 'g, 'a) tick = "(('t, 'g) merge_world, tick_error, 'a) io"

text \<open>\<open>mt_render\<close> renders a workpad template from its fields, stamped with the time.\<close>

record ('t, 'g) MergeEnv =
  mt_adapter :: "'t TrackerAdapter"
  mt_issues_by_state :: "'t \<Rightarrow> string \<Rightarrow> (TrackerError, TrackerIssue list) result"
  mt_linked_pull_requests :: "'t \<Rightarrow> string \<Rightarrow> (TrackerError, LinkedPullRequest list) result"
  mt_runner :: "'g runner"
  mt_parse_json :: "string \<Rightarrow> (string, json) result"
  mt_cwd :: string
  mt_clock :: "('g, string, u64) io"
  mt_load :: "('g, string, RuntimeConfig) io"
  mt_config_error :: "ConfigError \<Rightarrow> string"
  mt_claim_error :: "ClaimWriteError \<Rightarrow> string"
  mt_checkout :: "RuntimeConfig \<Rightarrow> bool \<Rightarrow> ('g, string, unit) io"
  mt_render :: "(string \<times> string) list \<Rightarrow> string"
  mt_agent :: "TrackerIssue \<Rightarrow> LaneClaim \<Rightarrow> string \<Rightarrow> string \<Rightarrow> string \<Rightarrow> 'g MergeAgentEnv"
  mt_refresh :: "RuntimeConfig \<Rightarrow> ('g, string, unit) io"
  mt_sleep :: "u64 \<Rightarrow> ('g, string, unit) io"

definition failed :: "(string, 'a) result \<Rightarrow> (tick_error, 'a) result" where
  "failed r = (case r of Inl e \<Rightarrow> Inl (Failed e) | Inr a \<Rightarrow> Inr a)"

definition tracker_read :: "('t \<Rightarrow> (TrackerError, 'a) result) \<Rightarrow> ('t, 'g, 'a) tick" where
  "tracker_read f w = (failed (map_sum tracker_error_display id (f (mw_tracker w))), w)"

definition tracker_mutation :: "('t \<Rightarrow> (string, 'a) result \<times> 't) \<Rightarrow> ('t, 'g, 'a) tick" where
  "tracker_mutation f w = (case f (mw_tracker w) of (r, t) \<Rightarrow> (failed r, w\<lparr>mw_tracker := t\<rparr>))"

definition outside :: "('g, string, 'a) io \<Rightarrow> ('t, 'g, 'a) tick" where
  "outside m w = (case m (mw_git w) of (r, g) \<Rightarrow> (failed r, w\<lparr>mw_git := g\<rparr>))"

definition audit :: "TrackerMutationAudit list \<Rightarrow> ('t, 'g, unit) tick" where
  "audit as w = (Inr (), w\<lparr>mw_audits := mw_audits w @ as\<rparr>)"

definition claimed ::
    "('t, 'g) MergeEnv \<Rightarrow> ('t \<Rightarrow> (ClaimWriteError, unit) result \<times> 't \<times> TrackerMutationAudit list) \<Rightarrow>
     ('t, 'g, unit) tick" where
  "claimed E f w =
     (case f (mw_tracker w) of (r, t, as) \<Rightarrow>
        (failed (map_sum (mt_claim_error E) id r), w\<lparr>mw_tracker := t, mw_audits := mw_audits w @ as\<rparr>))"

subsection \<open>The workpad (\<^verbatim>\<open>merge_lane.rs\<close>)\<close>

definition merge_action_text :: "CommandOutput option \<Rightarrow> string" where
  "merge_action_text merge_output =
     (case merge_output of
        None \<Rightarrow> ''- Merge command evidence: `not recorded`''
      | Some output \<Rightarrow> join NL
          [''- Exit status: `'' @ show_int (co_status output) @ ''`'',
           ''- Stdout: `'' @ compact_merge_workpad_field (co_stdout output) @ ''`'',
           ''- Stderr: `'' @ compact_merge_workpad_field (co_stderr output) @ ''`''])"

definition repair_evidence_text :: "MergeRepairEvidence option \<Rightarrow> string" where
  "repair_evidence_text repair_evidence =
     (case repair_evidence of
        None \<Rightarrow> ''- Merge repair evidence: `not recorded`''
      | Some e \<Rightarrow> join NL
          [''- Method: `'' @ compact_merge_workpad_field (me_method e) @ ''`'',
           ''- Conflict summary: '' @ compact_merge_workpad_field (me_conflict_summary e),
           ''- Resolution summary: '' @ compact_merge_workpad_field (me_resolution_summary e),
           ''- Semantic safety: '' @ compact_merge_workpad_field (me_semantic_safety e),
           ''- Verification: '' @ compact_merge_workpad_field (me_verification e),
           ''- Push evidence: '' @ compact_merge_workpad_field (me_push_evidence e),
           ''- Next-state rationale: '' @ compact_merge_workpad_field (me_next_state_rationale e)])"

definition merge_preflight_text :: "TrackerIssue \<Rightarrow> MergeLaneDecision \<Rightarrow> string \<Rightarrow> string" where
  "merge_preflight_text issue d default_base_branch =
     (let t = branch_target_evidence issue default_base_branch in
      join NL
        ([''- This lane only consumes issues already in `Merging`.'',
          ''- It must not move work into `Human Review`.'',
          ''- It records diagnostics before any tracker state transition.'',
          ''- Actor: `'' @ merge_actor issue @ ''`'',
          ''- Run ID: `'' @ merge_run_id issue @ ''`'',
          ''- Source: `shea-symphony merge once`'',
          ''- Input state: `Merging`'',
          ''- Reason: '' @ md_reason d,
          ''### Branch Target Evidence'',
          ''- Role: `'' @ role_debug (bt_role t) @ ''`'',
          ''- Expected PR base branch: `'' @ bt_pull_request_base_branch t @ ''`''] @
         optional_line ''- Native parent issue: `'' ''`'' (bt_parent_issue t) @
         optional_line ''- Parent integration branch: `'' ''`'' (bt_parent_integration_branch t)))"

definition merge_lane_workpad_with_repair_evidence ::
    "('t, 'g) MergeEnv \<Rightarrow> TrackerIssue \<Rightarrow> MergeLaneDecision \<Rightarrow> CommandOutput option \<Rightarrow>
     MergeRepairEvidence option \<Rightarrow> string \<Rightarrow> string" where
  "merge_lane_workpad_with_repair_evidence E issue d merge_output repair_evidence default_base_branch =
     mt_render E
       [(''issue_ref'', ti_identifier issue), (''issue_title'', ti_title issue),
        (''result'', merge_result d), (''target_state'', unwrap_or (md_target_state d) ''none''),
        (''pr'', unwrap_or (md_pr_url d) ''missing''), (''decision'', kind_debug (md_kind d)),
        (''evidence_summary'', ''merge decision `'' @ merge_result d @ ''`; command evidence `'' @
           (if merge_output \<noteq> None then ''recorded'' else ''not recorded'') @ ''`.''),
        (''preflight'', merge_preflight_text issue d default_base_branch),
        (''merge_action'', merge_action_text merge_output),
        (''post_merge_readback'',
           ''- Post-merge readback is recorded by the surrounding merge lane transition and tracker readback paths.''),
        (''merge_repair_evidence'', repair_evidence_text repair_evidence),
        (''required_human_input'',
           if md_target_state d = Some ''need_human_input'' then join NL (required_human_input_section d) else [])]"

definition merge_lane_workpad ::
    "('t, 'g) MergeEnv \<Rightarrow> TrackerIssue \<Rightarrow> MergeLaneDecision \<Rightarrow> CommandOutput option \<Rightarrow> string \<Rightarrow> string" where
  "merge_lane_workpad E issue d merge_output default_base_branch =
     merge_lane_workpad_with_repair_evidence E issue d merge_output None default_base_branch"

subsection \<open>Recording (\<^verbatim>\<open>evidence.rs\<close>)\<close>

definition merge_audit ::
    "string \<Rightarrow> string \<Rightarrow> string option \<Rightarrow> string option \<Rightarrow> string option \<Rightarrow> string \<Rightarrow> TrackerMutationOutcome \<Rightarrow>
     ('t, 'g, unit) tick" where
  "merge_audit mutation_type issue_ref target from_state to_state reason outcome =
     (if should_record_audit outcome then
        audit [\<lparr>ta_command = ''merge once'', ta_mutation_type = mutation_type, ta_issue_ref = Some issue_ref,
                ta_target = target, ta_from_state = from_state, ta_to_state = to_state, ta_reason = reason\<rparr>]
      else returnE ())"

definition record_merge_timeline_comment_with_recovery ::
    "('t, 'g) MergeEnv \<Rightarrow> TrackerIssue \<Rightarrow> MergeLaneDecision \<Rightarrow> string \<Rightarrow> string \<Rightarrow>
     ('t, 'g, TrackerMutationOutcome) tick" where
  "record_merge_timeline_comment_with_recovery E issue d workpad reason =
     (let key = (if md_kind d \<in> {ReadyToMerge, AlreadyMerged}
                 then merge_completion_recovery_key issue (unwrap_or (md_pr_url d) ''missing-pr'')
                 else merge_decision_recovery_key issue d) in
      bindE (tracker_mutation (\<lambda>t. add_timeline_comment_with_recovery (mt_adapter E) t (ti_identifier issue)
               (Some issue) workpad key ''timeline_comment'')) (\<lambda>outcome.
      bindE (merge_audit ''timeline_comment'' (ti_identifier issue) (md_pr_url d) (Some (ti_state issue))
               (md_target_state d) reason outcome) (\<lambda>_.
      returnE outcome)))"

definition set_merge_state_with_recovery ::
    "('t, 'g) MergeEnv \<Rightarrow> TrackerIssue \<Rightarrow> string \<Rightarrow> string option \<Rightarrow> string \<Rightarrow>
     ('t, 'g, TrackerMutationOutcome) tick" where
  "set_merge_state_with_recovery E issue target_state url reason =
     bindE (tracker_mutation (\<lambda>t. set_state_with_recovery (mt_adapter E) t (ti_identifier issue)
              (Some issue) target_state ''state_change'')) (\<lambda>outcome.
     bindE (merge_audit ''state_change'' (ti_identifier issue) url (Some (ti_state issue))
              (Some target_state) reason outcome) (\<lambda>_.
     returnE outcome))"

definition close_completed_issue ::
    "('t, 'g) MergeEnv \<Rightarrow> string \<Rightarrow> TrackerIssue option \<Rightarrow> ('t, 'g, unit) tick" where
  "close_completed_issue E issue_ref initial_issue =
     bindE (tracker_mutation (\<lambda>t. close_issue_with_recovery (mt_adapter E) t issue_ref initial_issue)) (\<lambda>outcome.
     merge_audit ''issue_close'' issue_ref None (map_option ti_state initial_issue) (Some ''closed'')
       ''merge completed issue closure'' outcome)"

definition record_done_merge_lane_completion ::
    "('t, 'g) MergeEnv \<Rightarrow> TrackerIssue \<Rightarrow> LaneClaim \<Rightarrow> string \<Rightarrow> ('t, 'g, unit) tick" where
  "record_done_merge_lane_completion E issue claim workpad =
     (let url = (case ti_linked_pull_requests issue of [] \<Rightarrow> None | pr # _ \<Rightarrow> pr_url pr);
          completion = \<lparr>md_kind = ReadyToMerge, md_issue_ref = ti_identifier issue, md_pr_url = url,
                        md_target_state = Some ''done'', md_reason = ''merge completed''\<rparr> in
      bindE (record_merge_timeline_comment_with_recovery E issue completion workpad
               ''merge completion evidence'') (\<lambda>_.
      bindE (claimed E (\<lambda>t. write_lane_claim_terminal_result (mt_adapter E) t issue Merging claim Done
               ''merged'')) (\<lambda>_.
      bindE (set_merge_state_with_recovery E issue ''done'' url ''merge completed'') (\<lambda>_.
      close_completed_issue E (ti_identifier issue) (Some issue)))))"

subsection \<open>The pull request\<close>

definition merge_rehearsal_mode :: "RuntimeConfig \<Rightarrow> TrackerIssue \<Rightarrow> bool" where
  "merge_rehearsal_mode config issue \<longleftrightarrow>
     tc_fixture_path (rc_tracker config) \<noteq> None \<or> ti_tracker_kind issue = ''memory''"

definition merge_preflight_status ::
    "('t, 'g) MergeEnv \<Rightarrow> RuntimeConfig \<Rightarrow> TrackerIssue \<Rightarrow> LinkedPullRequest list \<Rightarrow>
     ('t, 'g, PullRequestMergeStatus option) tick" where
  "merge_preflight_status E config issue linked =
     (case linked of
        [pr] \<Rightarrow>
          (case or_else (pr_url pr) (map_option (\<lambda>n. show_nat (unat n)) (pr_number pr)) of
             None \<Rightarrow> returnE None
           | Some pr_ref \<Rightarrow>
               (if merge_rehearsal_mode config issue then returnE (pull_request_status_from_linked pr)
                else bindE (tryE (outside (\<lambda>g. map_prod (map_sum merge_lane_error_display id) id
                       (fetch_pull_request_status_with_recheck (mt_parse_json E) (mt_runner E) (mt_cwd E) pr_ref 2 g))))
                     (\<lambda>status. returnE (result_ok status))))
      | _ \<Rightarrow> returnE None)"

datatype MergeOnceOutcome = NoMergingIssue | DryRun | Merged | Routed | Skipped

subsection \<open>A conflicting branch (\<^verbatim>\<open>tick/dirty.rs\<close>)\<close>

definition mechanical_repair ::
    "('t, 'g) MergeEnv \<Rightarrow> RuntimeConfig \<Rightarrow> TrackerIssue \<Rightarrow> string \<Rightarrow> string option \<Rightarrow> string \<Rightarrow>
     ('t, 'g, MergeConflictRepairOutcome) tick" where
  "mechanical_repair E config issue pr_ref head_ref_name expected_base w =
     (case repair_dirty_pull_request (mt_runner E) (mt_cwd E) pr_ref head_ref_name expected_base
             (merge_rehearsal_mode config issue) (mw_git w) of
        None \<Rightarrow> (Inl NeverReturns, w)
      | Some (r, g) \<Rightarrow> (failed (map_sum merge_lane_error_display id r), w\<lparr>mw_git := g\<rparr>))"

definition route_to_human ::
    "('t, 'g) MergeEnv \<Rightarrow> TrackerIssue \<Rightarrow> MergeLaneDecision \<Rightarrow> string \<Rightarrow> ('t, 'g, MergeOnceOutcome) tick" where
  "route_to_human E issue d reason =
     bindE (set_merge_state_with_recovery E issue ''need_human_input'' (md_pr_url d) reason) (\<lambda>_.
     returnE Routed)"

definition report_repair ::
    "('t, 'g) MergeEnv \<Rightarrow> RuntimeConfig \<Rightarrow> TrackerIssue \<Rightarrow> MergeLaneDecision \<Rightarrow> CommandOutput \<Rightarrow>
     MergeRepairEvidence \<Rightarrow> string \<Rightarrow> ('t, 'g, TrackerMutationOutcome) tick" where
  "report_repair E config issue d output evidence reason =
     record_merge_timeline_comment_with_recovery E issue d
       (merge_lane_workpad_with_repair_evidence E issue d (Some output) (Some evidence) (git_base_branch config)) reason"

definition agent_repair ::
    "('t, 'g) MergeEnv \<Rightarrow> RuntimeConfig \<Rightarrow> TrackerIssue \<Rightarrow> LaneClaim \<Rightarrow> MergeLaneDecision \<Rightarrow> string \<Rightarrow> string \<Rightarrow>
     string \<Rightarrow> MergeConflictRepairOutcome \<Rightarrow> ('t, 'g, MergeOnceOutcome) tick" where
  "agent_repair E config issue claim d pr_ref head expected_base repair =
     bindE (outside (run_merge_agent_conflict_repair (mt_runner E) (mt_agent E issue claim pr_ref head expected_base)
              head expected_base repair)) (\<lambda>r.
     let agent_decision = d\<lparr>md_reason := mo_reason r,
           md_target_state := if mo_repaired r \<or> mo_retryable r then None else Some ''need_human_input''\<rparr> in
     bindE (report_repair E config issue agent_decision (mo_output r) (mo_evidence r)
              (if mo_repaired r then ''merge lane merge-agent conflict repair evidence''
               else ''merge lane merge-agent conflict repair failure evidence'')) (\<lambda>_.
     if mo_repaired r \<or> mo_retryable r then returnE Skipped
     else route_to_human E issue agent_decision ''merge-agent conflict repair needs human input''))"

definition handle_dirty_merge ::
    "('t, 'g) MergeEnv \<Rightarrow> RuntimeConfig \<Rightarrow> TrackerIssue \<Rightarrow> LaneClaim \<Rightarrow> MergeLaneDecision \<Rightarrow>
     PullRequestMergeStatus option \<Rightarrow> LinkedPullRequest list \<Rightarrow> string \<Rightarrow> ('t, 'g, MergeOnceOutcome) tick" where
  "handle_dirty_merge E config issue claim d status linked expected_base =
     (case md_pr_url d of
        None \<Rightarrow> failE (Failed ''dirty-merge decision missing pull request URL'')
      | Some pr_ref \<Rightarrow>
          (let head_ref_name = or_else (Option.bind status ps_head_ref_name)
                 (case linked of [] \<Rightarrow> None | pr # _ \<Rightarrow> pr_head_ref_name pr) in
           bindE (mechanical_repair E config issue pr_ref head_ref_name expected_base) (\<lambda>repair.
           if ro_repaired repair then
             bindE (report_repair E config issue (d\<lparr>md_reason := ro_reason repair\<rparr>) (ro_output repair)
                      (mechanical_merge_repair_evidence repair expected_base)
                      ''merge lane safe conflict repair evidence'') (\<lambda>_.
             returnE Skipped)
           else if is_agent_repair_eligible repair then
             agent_repair E config issue claim d pr_ref (unwrap_or head_ref_name []) expected_base repair
           else
             (let failed_repair = d\<lparr>md_target_state := Some ''need_human_input'', md_reason := ro_reason repair\<rparr> in
              bindE (report_repair E config issue failed_repair (ro_output repair)
                       (ineligible_merge_agent_repair_evidence repair)
                       ''merge lane conflict repair failure evidence'') (\<lambda>_.
              route_to_human E issue failed_repair ''merge lane conflict repair needs human input'')))))"

subsection \<open>One tick\<close>

definition update_stale_branch ::
    "('t, 'g) MergeEnv \<Rightarrow> RuntimeConfig \<Rightarrow> TrackerIssue \<Rightarrow> MergeLaneDecision \<Rightarrow> ('t, 'g, MergeOnceOutcome) tick" where
  "update_stale_branch E config issue d =
     (case md_pr_url d of
        None \<Rightarrow> failE (Failed ''stale-branch decision missing pull request URL'')
      | Some pr_ref \<Rightarrow>
          bindE (outside (\<lambda>g. map_prod (map_sum merge_lane_error_display id) id
                   (update_pull_request_branch (mt_runner E) (mt_cwd E) pr_ref g))) (\<lambda>output.
          if co_status output = 0 then
            bindE (record_merge_timeline_comment_with_recovery E issue d
                     (merge_lane_workpad E issue d (Some output) (git_base_branch config))
                     ''merge lane stale branch update evidence'') (\<lambda>_.
            returnE Skipped)
          else
            (let failed_update = d\<lparr>md_kind := MergeDirty, md_target_state := Some ''need_human_input'',
                   md_reason := ''safe PR branch update failed with status '' @ show_int (co_status output) @
                     '': stdout='' @ single_line (co_stdout output) @ '' stderr='' @ single_line (co_stderr output)\<rparr> in
             bindE (record_merge_timeline_comment_with_recovery E issue failed_update
                      (merge_lane_workpad E issue failed_update (Some output) (git_base_branch config))
                      ''merge lane stale branch update failure evidence'') (\<lambda>_.
             route_to_human E issue failed_update ''merge lane stale branch update failed''))))"

definition land_pull_request ::
    "('t, 'g) MergeEnv \<Rightarrow> RuntimeConfig \<Rightarrow> TrackerIssue \<Rightarrow> LaneClaim \<Rightarrow> MergeLaneDecision \<Rightarrow>
     ('t, 'g, MergeOnceOutcome) tick" where
  "land_pull_request E config issue claim d =
     (case md_pr_url d of
        None \<Rightarrow> failE (Failed ''merge-ready decision missing pull request URL'')
      | Some pr_ref \<Rightarrow>
          bindE (if merge_rehearsal_mode config issue then returnE (fixture_merge_output pr_ref)
                 else outside (\<lambda>g. map_prod (map_sum id fst) id
                   (merge_pull_request_with_recovery (mt_parse_json E) (mt_runner E) (mt_cwd E) pr_ref g))) (\<lambda>output.
          bindE (record_done_merge_lane_completion E issue claim
                   (merge_lane_workpad E issue d (Some output) (git_base_branch config))) (\<lambda>_.
          returnE Merged)))"

definition route_issue ::
    "('t, 'g) MergeEnv \<Rightarrow> RuntimeConfig \<Rightarrow> TrackerIssue \<Rightarrow> MergeLaneDecision \<Rightarrow> ('t, 'g, MergeOnceOutcome) tick" where
  "route_issue E config issue d =
     bindE (record_merge_timeline_comment_with_recovery E issue d
              (merge_lane_workpad E issue d None (git_base_branch config)) ''merge lane routing evidence'') (\<lambda>_.
     case md_target_state d of
       None \<Rightarrow> returnE Skipped
     | Some target_state \<Rightarrow>
         bindE (set_merge_state_with_recovery E issue target_state (md_pr_url d) ''merge lane routing'') (\<lambda>_.
         bindE (if md_kind d = AlreadyMerged \<and> normalize_state target_state = ''done''
                then close_completed_issue E (ti_identifier issue) (Some issue) else returnE ()) (\<lambda>_.
         returnE Routed)))"

text \<open>What a writing tick does about the decision.\<close>

definition act_on_decision ::
    "('t, 'g) MergeEnv \<Rightarrow> RuntimeConfig \<Rightarrow> TrackerIssue \<Rightarrow> LaneClaim \<Rightarrow> MergeLaneDecision \<Rightarrow>
     PullRequestMergeStatus option \<Rightarrow> LinkedPullRequest list \<Rightarrow> string \<Rightarrow> ('t, 'g, MergeOnceOutcome) tick" where
  "act_on_decision E config issue claim d status linked expected_base =
     (if md_kind d = StaleBranch then update_stale_branch E config issue d
      else if md_kind d = MergeDirty then handle_dirty_merge E config issue claim d status linked expected_base
      else if is_merge_ready (md_kind d) then land_pull_request E config issue claim d
      else route_issue E config issue d)"

definition tick_issue ::
    "('t, 'g) MergeEnv \<Rightarrow> RuntimeConfig \<Rightarrow> bool \<Rightarrow> TrackerIssue \<Rightarrow> LaneClaim \<Rightarrow> ('t, 'g, MergeOnceOutcome) tick" where
  "tick_issue E config write issue claim =
     bindE (claimed E (\<lambda>t. write_lane_claim_field (mt_adapter E) t issue Merging claim write)) (\<lambda>_.
     bindE (tracker_read (\<lambda>t. mt_linked_pull_requests E t (ti_identifier issue))) (\<lambda>all_linked.
     let linked = native_linked_pull_requests_for_merge config all_linked;
         expected_base = expected_merge_base_branch_for_issue issue (git_base_branch config) in
     bindE (merge_preflight_status E config issue linked) (\<lambda>status.
     let d = merge_lane_decision issue (sm_merging (tc_state_map (rc_tracker config))) expected_base linked status in
     if \<not> write then returnE DryRun
     else act_on_decision E config issue claim d status linked expected_base)))"

text \<open>The selected issue as the tracker has it now, with the reason to take it over from another
  worker, if any.\<close>

definition refreshed ::
    "RuntimeConfig \<Rightarrow> bool \<Rightarrow> string \<Rightarrow> MergeWorkerSelection \<Rightarrow> TrackerIssue option \<Rightarrow> TrackerIssue \<times> string option" where
  "refreshed config recover worker_id selected latest =
     (case latest of
        Some issue \<Rightarrow> (issue, if recover then merge_recovery_reason issue worker_id config else None)
      | None \<Rightarrow> (ms_issue selected, if recover then ms_recovery_reason selected else None))"

definition tick_selected ::
    "('t, 'g) MergeEnv \<Rightarrow> RuntimeConfig \<Rightarrow> bool \<Rightarrow> bool \<Rightarrow> string \<Rightarrow> MergeWorkerSelection \<Rightarrow>
     ('t, 'g, MergeOnceOutcome) tick" where
  "tick_selected E config write recover worker_id selected =
     bindE (tracker_read (\<lambda>t. ta_get_issue (mt_adapter E) t (ti_identifier (ms_issue selected)))) (\<lambda>latest.
     case refreshed config recover worker_id selected latest of
       (issue, recovery_reason) \<Rightarrow>
         (if \<not> is_claimable (pool_claim_eligibility issue Merging worker_id config) \<and> recovery_reason = None
          then returnE Skipped
          else
            bindE (outside (mt_clock E)) (\<lambda>now_ms.
            tick_issue E config write issue
              (with_worker (lane_claim_for_issue now_ms issue (claim_lane Merging) Codex Loop
                 (project_text_field issue (claim_field Merging))) worker_id))))"

definition merge_once_tick :: "('t, 'g) MergeEnv \<Rightarrow> bool \<Rightarrow> bool \<Rightarrow> ('t, 'g, MergeOnceOutcome) tick" where
  "merge_once_tick E write recover =
     bindE (outside (mt_load E)) (\<lambda>config.
     bindE (liftE (failed (map_sum (mt_config_error E) id (validate config)))) (\<lambda>_.
     bindE (if tc_fixture_path (rc_tracker config) = None then outside (mt_checkout E config write)
            else returnE ()) (\<lambda>_.
     bindE (tracker_read (\<lambda>t. mt_issues_by_state E t (sm_merging (tc_state_map (rc_tracker config))))) (\<lambda>issues.
     if issues = [] then returnE NoMergingIssue
     else (let worker_id = worker_identity config Merging in
     case select_merge_worker_issues (sort_key pool_key issues) worker_id 1 config recover of
       [] \<Rightarrow> returnE NoMergingIssue
     | selected # _ \<Rightarrow> tick_selected E config write recover worker_id selected)))))"

subsection \<open>The loop (\<^verbatim>\<open>merge.rs\<close>)\<close>

record MergeLoopOptions =
  mlo_max_iterations :: "nat option"
  mlo_once :: bool
  mlo_write :: bool
  mlo_recover :: bool
  mlo_max_concurrent :: "nat option"

definition merge_iteration_limit :: "MergeLoopOptions \<Rightarrow> nat option" where
  "merge_iteration_limit options = (if mlo_once options then Some 1 else mlo_max_iterations options)"

definition merge_worker_limit :: "MergeLoopOptions \<Rightarrow> RuntimeConfig \<Rightarrow> nat" where
  "merge_worker_limit options config =
     max (unwrap_or (mlo_max_concurrent options) (mgl_max_concurrent_workers (rc_merge_lane config))) 1"

datatype SlotsResult = SlotsDone | SlotsSleep | SlotsStop

fun merge_slots ::
    "('t, 'g) MergeEnv \<Rightarrow> MergeLoopOptions \<Rightarrow> RuntimeConfig \<Rightarrow> nat \<Rightarrow> nat \<Rightarrow> ('t, 'g, SlotsResult) tick" where
  "merge_slots E options config max_concurrent 0 = returnE SlotsDone"
| "merge_slots E options config max_concurrent (Suc slots) =
     bindE (merge_once_tick E (mlo_write options) (mlo_recover options)) (\<lambda>outcome.
     if outcome = NoMergingIssue then
       returnE (if merge_iteration_limit options = None then SlotsSleep else SlotsStop)
     else if outcome = DryRun \<and> \<not> mlo_write options \<and> merge_iteration_limit options = None then returnE SlotsSleep
     else if outcome = DryRun \<and> \<not> mlo_write options \<and> max_concurrent > 1 then returnE SlotsStop
     else
       bindE (if outcome = Merged \<and> mlo_write options \<and> tc_fixture_path (rc_tracker config) = None
              then outside (mt_refresh E config) else returnE ()) (\<lambda>_.
       merge_slots E options config max_concurrent slots))"

definition merge_iteration ::
    "('t, 'g) MergeEnv \<Rightarrow> MergeLoopOptions \<Rightarrow> RuntimeConfig \<Rightarrow> ('t, 'g, bool) tick" where
  "merge_iteration E options config =
     (let max_concurrent = merge_worker_limit options config in
      bindE (merge_slots E options config max_concurrent max_concurrent) (\<lambda>slots.
      case slots of
        SlotsStop \<Rightarrow> returnE False
      | SlotsSleep \<Rightarrow> bindE (outside (mt_sleep E (pc_interval_ms (rc_polling config)))) (\<lambda>_. returnE True)
      | SlotsDone \<Rightarrow> returnE True))"

partial_function (option) merge_loop_from ::
    "('t, 'g) MergeEnv \<Rightarrow> MergeLoopOptions \<Rightarrow> RuntimeConfig \<Rightarrow> nat \<Rightarrow> ('t, 'g) merge_world \<Rightarrow>
     ((tick_error, unit) result \<times> ('t, 'g) merge_world) option" where
  "merge_loop_from E options config iteration w =
     (if (case merge_iteration_limit options of None \<Rightarrow> False | Some limit \<Rightarrow> iteration \<ge> limit) then Some (Inr (), w)
      else case merge_iteration E options config w of
        (Inl error, w') \<Rightarrow> Some (Inl error, w')
      | (Inr continues, w') \<Rightarrow>
          (if continues then merge_loop_from E options config (iteration + 1) w' else Some (Inr (), w')))"

definition merge_loop ::
    "('t, 'g) MergeEnv \<Rightarrow> MergeLoopOptions \<Rightarrow> ('t, 'g) merge_world \<Rightarrow>
     ((tick_error, unit) result \<times> ('t, 'g) merge_world) option" where
  "merge_loop E options w =
     (case bindE (outside (mt_load E)) (\<lambda>config.
           bindE (liftE (failed (map_sum (mt_config_error E) id (validate config)))) (\<lambda>_. returnE config)) w of
        (Inl error, w') \<Rightarrow> Some (Inl error, w')
      | (Inr config, w') \<Rightarrow> merge_loop_from E options config 0 w')"

subsection \<open>Facts: operations of a tick\<close>

text \<open>A property of the world that does not depend on the audit.\<close>

definition of_state :: "('t \<Rightarrow> 'g \<Rightarrow> bool) \<Rightarrow> ('t, 'g) merge_world \<Rightarrow> bool" where
  "of_state H w \<longleftrightarrow> H (mw_tracker w) (mw_git w)"

lemma keeps_read: "keeps (tracker_read f) P"
  by (simp add: keeps_def tracker_read_def)

lemma keeps_mutation:
  "(\<And>t g. H t g \<Longrightarrow> H (snd (f t)) g) \<Longrightarrow> keeps (tracker_mutation f) (of_state H)"
  by (force simp: keeps_def tracker_mutation_def of_state_def split: prod.splits)

lemma keeps_outside:
  "(\<And>t g. H t g \<Longrightarrow> H t (snd (m g))) \<Longrightarrow> keeps (outside m) (of_state H)"
  by (force simp: keeps_def outside_def of_state_def split: prod.splits)

lemma keeps_claimed:
  "(\<And>t g. H t g \<Longrightarrow> H (fst (snd (f t))) g) \<Longrightarrow> keeps (claimed E f) (of_state H)"
  by (force simp: keeps_def claimed_def of_state_def split: prod.splits)

lemma keeps_merge_audit: "keeps (merge_audit ty k target from to reason outcome) (of_state H)"
  by (simp add: keeps_def merge_audit_def audit_def of_state_def)

text \<open>What the mutations with recovery leave: the tracker, or the tracker after the one request.\<close>

lemma recovered_states:
  "snd (set_state_with_recovery A t k i st ty) \<in> {t, snd (ta_set_state A t k st)}"
  "snd (add_timeline_comment_with_recovery A t k i md key ty) \<in>
     {t, snd (ta_add_issue_comment A t k (ensure_tracker_recovery_marker md key))}"
  "snd (close_issue_with_recovery A t k i) \<in> {t, snd (ta_close_issue A t k)}"
  by (auto simp: set_state_with_recovery_def add_timeline_comment_with_recovery_def close_issue_with_recovery_def
      split: prod.splits sum.splits TrackerError.splits)

lemma claim_value_states:
  "fst (snd (write_claim_value A t i lane v reason)) \<in>
     {t, snd (ta_set_project_field A t (ti_identifier i) \<lparr>pa_name = claim_field lane, pa_value = v\<rparr>)}"
  by (auto simp: write_claim_value_def set_project_field_with_recovery_def split: prod.splits sum.splits)

lemma claim_states:
  "\<exists>a. fst (snd (write_lane_claim_field A t i lane c write)) \<in> {t, snd (ta_set_project_field A t (ti_identifier i) a)}"
  "\<exists>a. fst (snd (write_lane_claim_terminal_result A t i lane c st res)) \<in>
     {t, snd (ta_set_project_field A t (ti_identifier i) a)}"
  using claim_value_states [of A t i lane]
  by (fastforce simp: write_lane_claim_field_def write_lane_claim_terminal_result_def split: sum.splits)+

text \<open>The properties of the tracker that only finishing issue \<open>k\<close> can end.\<close>

definition spares :: "('t \<Rightarrow> bool) \<Rightarrow> string \<Rightarrow> 't TrackerAdapter \<Rightarrow> bool" where
  "spares P k A \<longleftrightarrow>
     (\<forall>t. P t \<longrightarrow>
        (\<forall>i st. i \<noteq> k \<or> st \<noteq> ''done'' \<longrightarrow> P (snd (ta_set_state A t i st))) \<and>
        (\<forall>i a. P (snd (ta_set_project_field A t i a))) \<and>
        (\<forall>i md. P (snd (ta_add_issue_comment A t i md))) \<and>
        (\<forall>i. i \<noteq> k \<longrightarrow> P (snd (ta_close_issue A t i))))"

text \<open>\<open>steady H k A\<close>: every mutation but those keeps \<open>H\<close>; \<open>blind H\<close>: \<open>H\<close> does not look at the tracker.\<close>

definition steady :: "('t \<Rightarrow> 'g \<Rightarrow> bool) \<Rightarrow> string \<Rightarrow> 't TrackerAdapter \<Rightarrow> bool" where
  "steady H k A \<longleftrightarrow> (\<forall>g. spares (\<lambda>t. H t g) k A)"

definition blind :: "('t \<Rightarrow> 'g \<Rightarrow> bool) \<Rightarrow> bool" where
  "blind H \<longleftrightarrow> (\<forall>t t' g. H t g = H t' g)"

lemma comment_keeps:
  assumes "steady H k (mt_adapter E)"
  shows "keeps (record_merge_timeline_comment_with_recovery E issue d workpad reason) (of_state H)"
proof -
  have "H (snd (add_timeline_comment_with_recovery (mt_adapter E) t i j md key ty)) g" if "H t g" for t g i j md key ty
    using recovered_states(2) [of "mt_adapter E" t i j md key ty] that assms unfolding steady_def spares_def by auto
  then show ?thesis
    unfolding record_merge_timeline_comment_with_recovery_def Let_def
    by (intro keeps_bind keeps_mutation keeps_merge_audit keeps_return)
qed

lemma set_state_keeps:
  assumes "steady H k (mt_adapter E)" "ti_identifier issue \<noteq> k \<or> target \<noteq> ''done''"
  shows "keeps (set_merge_state_with_recovery E issue target url reason) (of_state H)"
  unfolding set_merge_state_with_recovery_def
proof (intro keeps_bind keeps_mutation keeps_merge_audit keeps_return)
  fix t g assume "H t g"
  then show "H (snd (set_state_with_recovery (mt_adapter E) t (ti_identifier issue) (Some issue) target
      ''state_change'')) g"
    using recovered_states(1) [of "mt_adapter E" t "ti_identifier issue" "Some issue" target "''state_change''"]
      assms unfolding steady_def spares_def by auto
qed

lemma close_keeps:
  assumes "steady H k (mt_adapter E)" "i \<noteq> k"
  shows "keeps (close_completed_issue E i initial) (of_state H)"
  unfolding close_completed_issue_def
proof (intro keeps_bind keeps_mutation keeps_merge_audit)
  fix t g assume "H t g"
  then show "H (snd (close_issue_with_recovery (mt_adapter E) t i initial)) g"
    using recovered_states(3) [of "mt_adapter E" t i initial] assms unfolding steady_def spares_def by auto
qed

lemma claim_keeps:
  assumes "steady H k (mt_adapter E)"
  shows "keeps (claimed E (\<lambda>t. write_lane_claim_field (mt_adapter E) t issue lane c write)) (of_state H)"
    "keeps (claimed E (\<lambda>t. write_lane_claim_terminal_result (mt_adapter E) t issue lane c st res)) (of_state H)"
proof -
  have H: "H t' g" if "H t g" "t' \<in> {t, snd (ta_set_project_field (mt_adapter E) t (ti_identifier issue) a)}" for t t' g a
    using that assms unfolding steady_def spares_def by auto
  show "keeps (claimed E (\<lambda>t. write_lane_claim_field (mt_adapter E) t issue lane c write)) (of_state H)"
  proof (rule keeps_claimed)
    fix t g assume "H t g"
    then show "H (fst (snd (write_lane_claim_field (mt_adapter E) t issue lane c write))) g"
      using claim_states(1) [of "mt_adapter E" t issue lane c "write"] H by meson
  qed
  show "keeps (claimed E (\<lambda>t. write_lane_claim_terminal_result (mt_adapter E) t issue lane c st res)) (of_state H)"
  proof (rule keeps_claimed)
    fix t g assume "H t g"
    then show "H (fst (snd (write_lane_claim_terminal_result (mt_adapter E) t issue lane c st res))) g"
      using claim_states(2) [of "mt_adapter E" t issue lane c st res] H by meson
  qed
qed

lemma blind_steady: "blind H \<Longrightarrow> steady H k A"
  unfolding blind_def steady_def spares_def by metis

subsection \<open>Facts: what was seen of a pull request\<close>

text \<open>A log only grows.\<close>

definition grows :: "('g \<times> event list \<Rightarrow> 'r \<times> 'g \<times> event list) \<Rightarrow> bool" where
  "grows m \<longleftrightarrow> (\<forall>g es r g' es'. m (g, es) = (r, g', es') \<longrightarrow> (\<exists>ds. es' = es @ ds))"

definition view_args :: "string \<Rightarrow> string list" where
  "view_args pr_ref = [''pr'', ''view'', pr_ref, ''--json'',
     ''number,url,state,isDraft,mergeStateStatus,reviewDecision,baseRefName,headRefName,statusCheckRollup'']"

text \<open>A successful query of the pull request that showed this status, a successful merge command, and
  a pull request that has landed: shown as merged, or shown and then merged under its address, or
  shown as merged under that address after the merge command.\<close>

definition shown :: "(string \<Rightarrow> (string, json) result) \<Rightarrow> string \<Rightarrow> PullRequestMergeStatus \<Rightarrow> event list \<Rightarrow> bool" where
  "shown parse_json pr_ref s es \<longleftrightarrow>
     (\<exists>cwd out v. Event ''gh'' (view_args pr_ref) cwd (Inr out) \<in> set es \<and> co_status out = 0 \<and>
        parse_json (co_stdout out) = Inr v \<and> pull_request_status_from_json v = Inr s)"

definition merge_command_succeeded :: "string \<Rightarrow> event list \<Rightarrow> bool" where
  "merge_command_succeeded pr_ref es \<longleftrightarrow>
     (\<exists>cwd out. Event ''gh'' [''pr'', ''merge'', pr_ref, ''--merge''] cwd (Inr out) \<in> set es \<and> co_status out = 0)"

definition shown_merged :: "(string \<Rightarrow> (string, json) result) \<Rightarrow> string \<Rightarrow> event list \<Rightarrow> bool" where
  "shown_merged parse_json pr_ref es \<longleftrightarrow> (\<exists>s. shown parse_json pr_ref s es \<and> normalize_state (ps_state s) = ''merged'')"

definition landed :: "(string \<Rightarrow> (string, json) result) \<Rightarrow> string \<Rightarrow> event list \<Rightarrow> bool" where
  "landed parse_json pr_ref es \<longleftrightarrow>
     shown_merged parse_json pr_ref es \<or>
     (\<exists>s. shown parse_json pr_ref s es \<and>
        (merge_command_succeeded (ps_url s) es \<or> shown_merged parse_json (ps_url s) es))"

lemma shown_append [simp]: "shown p k s es \<Longrightarrow> shown p k s (es @ ds)" "shown p k s ds \<Longrightarrow> shown p k s (es @ ds)"
  by (auto simp: shown_def)

lemma shown_Cons [simp]: "shown p k s ds \<Longrightarrow> shown p k s (e # ds)"
  by (auto simp: shown_def)

lemma merge_command_append: "merge_command_succeeded k es \<Longrightarrow> merge_command_succeeded k (es @ ds)"
  by (auto simp: merge_command_succeeded_def)

lemma shown_merged_append: "shown_merged p k es \<Longrightarrow> shown_merged p k (es @ ds)"
  unfolding shown_merged_def using shown_append(1) by blast

lemma landed_append: "landed p k es \<Longrightarrow> landed p k (es @ ds)"
  unfolding landed_def by (meson shown_append(1) merge_command_append shown_merged_append)

lemma run_ok_event:
  assumes "run_ok (logged R) program args cwd (g, es) = (r, g', es')"
  shows "\<exists>res. es' = es @ [Event program args cwd res] \<and> (\<forall>out. r = Inr out \<longrightarrow> res = Inr out \<and> co_status out = 0)"
  using assms
  by (auto simp: run_ok_def run_def bind_run_def logged_def require_success_def split: prod.splits sum.splits if_splits)

lemma fetch_logged:
  assumes "fetch_pull_request_status p (logged R) cwd k (g, es) = (r, g', es')"
  shows "\<exists>ds. es' = es @ ds \<and> (\<forall>s. r = Inr s \<longrightarrow> shown p k s ds)"
proof -
  obtain q g1 es1 where q: "run_ok (logged R) ''gh'' (view_args k) cwd (g, es) = (q, g1, es1)" by (metis prod.exhaust)
  from run_ok_event [OF q] obtain res where
    e: "es1 = es @ [Event ''gh'' (view_args k) cwd res]" "\<And>out. q = Inr out \<Longrightarrow> res = Inr out \<and> co_status out = 0"
    by blast
  show ?thesis
    using assms q e unfolding fetch_pull_request_status_def view_args_def [symmetric]
    by (cases q) (auto simp: bind_run_def shown_def split: sum.splits)
qed

lemma recheck_logged:
  "recheck p (logged R) cwd k n s (g, es) = (r, g', es') \<Longrightarrow>
   \<exists>ds. es' = es @ ds \<and> (\<forall>s'. r = Inr s' \<longrightarrow> s' = s \<or> shown p k s' ds)"
proof (induction n arbitrary: s g es)
  case (Suc n)
  show ?case
  proof (cases "mergeability_needs_recheck s")
    case True
    obtain q g1 es1 where q: "fetch_pull_request_status p (logged R) cwd k (g, es) = (q, g1, es1)"
      by (metis prod.exhaust)
    from fetch_logged [OF this] obtain ds where ds: "es1 = es @ ds" "\<And>s. q = Inr s \<Longrightarrow> shown p k s ds" by blast
    show ?thesis
    proof (cases q)
      case (Inl e)
      then show ?thesis using Suc.prems True q ds by (auto simp: bind_run_def)
    next
      case (Inr t)
      then have "recheck p (logged R) cwd k n t (g1, es1) = (r, g', es')" using Suc.prems True q by (simp add: bind_run_def)
      from Suc.IH [OF this] obtain ds' where "es' = es1 @ ds'" "\<And>s'. r = Inr s' \<Longrightarrow> s' = t \<or> shown p k s' ds'"
        by blast
      then show ?thesis using ds Inr by auto
    qed
  qed (use Suc.prems in auto)
qed auto

lemma fetch_recheck_logged:
  assumes "fetch_pull_request_status_with_recheck p (logged R) cwd k n (g, es) = (r, g', es')"
  shows "\<exists>ds. es' = es @ ds \<and> (\<forall>s. r = Inr s \<longrightarrow> shown p k s ds)"
proof -
  obtain q g1 es1 where q: "fetch_pull_request_status p (logged R) cwd k (g, es) = (q, g1, es1)" by (metis prod.exhaust)
  from fetch_logged [OF this] obtain ds where ds: "es1 = es @ ds" "\<And>s. q = Inr s \<Longrightarrow> shown p k s ds" by blast
  show ?thesis
  proof (cases q)
    case (Inl e)
    then show ?thesis using assms q ds by (auto simp: fetch_pull_request_status_with_recheck_def bind_run_def)
  next
    case (Inr t)
    then have "recheck p (logged R) cwd k (max n 1 - 1) t (g1, es1) = (r, g', es')"
      using assms q by (simp add: fetch_pull_request_status_with_recheck_def bind_run_def)
    from recheck_logged [OF this] obtain ds' where "es' = es1 @ ds'" "\<And>s'. r = Inr s' \<Longrightarrow> s' = t \<or> shown p k s' ds'"
      by blast
    then show ?thesis using ds Inr by auto
  qed
qed

lemma merge_logged:
  assumes "merge_pull_request_with_recovery p (logged R) cwd k (g, es) = (r, g', es')"
  shows "\<exists>ds. es' = es @ ds \<and> (\<forall>x. r = Inr x \<longrightarrow> merge_command_succeeded k ds \<or> shown_merged p k ds)"
proof -
  obtain q g1 es1 where q: "run_ok (logged R) ''gh'' [''pr'', ''merge'', k, ''--merge''] cwd (g, es) = (q, g1, es1)"
    by (metis prod.exhaust)
  from run_ok_event [OF this] obtain res where e: "es1 = es @ [Event ''gh'' [''pr'', ''merge'', k, ''--merge''] cwd res]"
    "\<And>out. q = Inr out \<Longrightarrow> res = Inr out \<and> co_status out = 0" by blast
  show ?thesis
  proof (cases q)
    case (Inr out)
    then show ?thesis
      using assms q e by (auto simp: merge_pull_request_with_recovery_def merge_pull_request_def merge_command_succeeded_def)
  next
    case (Inl err)
    obtain f g2 es2 where f: "fetch_pull_request_status_with_recheck p (logged R) cwd k 2 (g1, es1) = (f, g2, es2)"
      by (metis prod.exhaust)
    from fetch_recheck_logged [OF this] obtain ds where ds: "es2 = es1 @ ds" "\<And>s. f = Inr s \<Longrightarrow> shown p k s ds" by blast
    then show ?thesis
      using assms q f e Inl unfolding shown_merged_def
      by (auto simp: merge_pull_request_with_recovery_def merge_pull_request_def Let_def
          intro!: disjI2 shown_Cons split: if_splits sum.splits)
  qed
qed

subsection \<open>Facts: only landed work is finished\<close>

text \<open>The same environment, running beside a log of the commands of the lane.\<close>

definition logged_env :: "('t, 'g) MergeEnv \<Rightarrow> ('t, 'g \<times> event list) MergeEnv" where
  "logged_env E =
     \<lparr>mt_adapter = mt_adapter E, mt_issues_by_state = mt_issues_by_state E,
      mt_linked_pull_requests = mt_linked_pull_requests E, mt_runner = logged (mt_runner E),
      mt_parse_json = mt_parse_json E, mt_cwd = mt_cwd E, mt_clock = beside_log (mt_clock E),
      mt_load = beside_log (mt_load E), mt_config_error = mt_config_error E, mt_claim_error = mt_claim_error E,
      mt_checkout = \<lambda>c write. beside_log (mt_checkout E c write), mt_render = mt_render E,
      mt_agent = \<lambda>i c k head base. logged_agent (mt_agent E i c k head base),
      mt_refresh = \<lambda>c. beside_log (mt_refresh E c), mt_sleep = \<lambda>d. beside_log (mt_sleep E d)\<rparr>"

text \<open>A pull request the tracker links to issue \<open>k\<close>, and whether one of them has landed.\<close>

definition linked_ref :: "('t, 'g) MergeEnv \<Rightarrow> string \<Rightarrow> string \<Rightarrow> bool" where
  "linked_ref E k pr_ref \<longleftrightarrow>
     (\<exists>t prs pr. mt_linked_pull_requests E t k = Inr prs \<and> pr \<in> set prs \<and>
        or_else (pr_url pr) (map_option (\<lambda>n. show_nat (unat n)) (pr_number pr)) = Some pr_ref)"

definition landed_for :: "('t, 'g) MergeEnv \<Rightarrow> string \<Rightarrow> event list \<Rightarrow> bool" where
  "landed_for E k es \<longleftrightarrow> (\<exists>pr_ref. linked_ref E k pr_ref \<and> landed (mt_parse_json E) pr_ref es)"

definition shown_for :: "('t, 'g) MergeEnv \<Rightarrow> string \<Rightarrow> PullRequestMergeStatus \<Rightarrow> event list \<Rightarrow> bool" where
  "shown_for E k s es \<longleftrightarrow> (\<exists>pr_ref. linked_ref E k pr_ref \<and> shown (mt_parse_json E) pr_ref s es)"

abbreviation is_landed :: "('t, 'g) MergeEnv \<Rightarrow> string \<Rightarrow> 't \<Rightarrow> 'g \<times> event list \<Rightarrow> bool" where
  "is_landed E k \<equiv> (\<lambda>t ges. landed_for E k (snd ges))"

abbreviation unfinished_or_landed ::
    "('t, 'g) MergeEnv \<Rightarrow> ('t \<Rightarrow> bool) \<Rightarrow> string \<Rightarrow> 't \<Rightarrow> 'g \<times> event list \<Rightarrow> bool" where
  "unfinished_or_landed E P k \<equiv> (\<lambda>t ges. P t \<or> landed_for E k (snd ges))"

definition monotone_log :: "('t \<Rightarrow> 'g \<times> event list \<Rightarrow> bool) \<Rightarrow> bool" where
  "monotone_log H \<longleftrightarrow> (\<forall>t g es g' ds. H t (g, es) \<longrightarrow> H t (g', es @ ds))"

lemma landed_monotone [simp]: "monotone_log (is_landed E k)" "monotone_log (unfinished_or_landed E P k)"
  unfolding monotone_log_def landed_for_def using landed_append by (metis snd_conv)+

lemma landed_blind [simp]: "blind (is_landed E k)"
  by (simp add: blind_def)

lemma unfinished_steady: "spares P k A \<Longrightarrow> steady (unfinished_or_landed E P k) k A"
  by (auto simp: steady_def spares_def)

lemma later_events:
  "merge_command_succeeded k ds \<Longrightarrow> merge_command_succeeded k (es @ ds)"
  "shown_merged p k ds \<Longrightarrow> shown_merged p k (es @ ds)"
  by (auto simp: merge_command_succeeded_def) (unfold shown_merged_def, blast intro: shown_append(2))

lemma landed_now:
  assumes "shown_for E k s es" "merge_command_succeeded (ps_url s) ds \<or> shown_merged (mt_parse_json E) (ps_url s) ds"
  shows "landed_for E k (es @ ds)"
proof -
  obtain pr_ref where l: "linked_ref E k pr_ref" and "shown (mt_parse_json E) pr_ref s es"
    using assms(1) unfolding shown_for_def by blast
  then have "shown (mt_parse_json E) pr_ref s (es @ ds)" by simp
  moreover have "merge_command_succeeded (ps_url s) (es @ ds) \<or> shown_merged (mt_parse_json E) (ps_url s) (es @ ds)"
    using assms(2) later_events by metis
  ultimately show ?thesis using l unfolding landed_for_def landed_def by metis
qed

lemma landed_already:
  assumes "shown_for E k s es" "normalize_state (ps_state s) = ''merged''"
  shows "landed_for E k es"
proof -
  obtain pr_ref where "linked_ref E k pr_ref" and sh: "shown (mt_parse_json E) pr_ref s es"
    using assms(1) unfolding shown_for_def by (elim exE conjE)
  moreover have "shown_merged (mt_parse_json E) pr_ref es"
    unfolding shown_merged_def by (intro exI conjI) (rule sh, rule assms(2))
  ultimately show ?thesis unfolding landed_for_def landed_def by (metis (no_types))
qed

lemma grows_beside: "grows (beside_log m)"
  by (auto simp: grows_def beside_log_def split: prod.splits)

lemma grows_map: "grows m \<Longrightarrow> grows (\<lambda>w. map_prod f id (m w))"
  unfolding grows_def by (auto simp: map_prod_def split: prod.splits)

lemma grows_fetch: "grows (fetch_pull_request_status_with_recheck p (logged R) cwd k n)"
  unfolding grows_def by (intro allI impI) (drule fetch_recheck_logged, elim exE conjE, rule exI)

lemma grows_merge: "grows (merge_pull_request_with_recovery p (logged R) cwd k)"
  unfolding grows_def by (intro allI impI) (drule merge_logged, elim exE conjE, rule exI)

lemma grows_update: "grows (update_pull_request_branch (logged R) cwd k)"
  by (auto simp: grows_def update_pull_request_branch_def run_logged split: prod.splits)

lemma grows_logs: "logs m Q \<Longrightarrow> grows m"
  unfolding logs_def grows_def by blast

lemma grows_agent: "grows (run_merge_agent_conflict_repair (logged R) (logged_agent A) head base m)"
  using grows_logs merge_agent_logs merge_agent_blocked_logs by (cases "ro_worktree_path m") blast+

lemma keeps_outside_grows:
  assumes "monotone_log H" "grows m"
  shows "keeps (outside m) (of_state H)"
proof (rule keeps_outside)
  fix t ges assume H: "H t ges"
  obtain g es where ges: "ges = (g, es)" by (cases ges)
  obtain r g' es' where m: "m (g, es) = (r, g', es')" by (metis prod.exhaust)
  then obtain ds where "es' = es @ ds" using assms(2) unfolding grows_def by blast
  then show "H t (snd (m ges))" using H assms(1) m ges unfolding monotone_log_def by auto
qed

lemma logged_env_simps [simp]:
  "mt_adapter (logged_env E) = mt_adapter E" "mt_parse_json (logged_env E) = mt_parse_json E"
  "mt_runner (logged_env E) = logged (mt_runner E)" "mt_cwd (logged_env E) = mt_cwd E"
  "mt_linked_pull_requests (logged_env E) = mt_linked_pull_requests E"
  "mt_issues_by_state (logged_env E) = mt_issues_by_state E"
  "mt_load (logged_env E) = beside_log (mt_load E)" "mt_clock (logged_env E) = beside_log (mt_clock E)"
  "mt_checkout (logged_env E) c write = beside_log (mt_checkout E c write)"
  "mt_agent (logged_env E) i cl k head base = logged_agent (mt_agent E i cl k head base)"
  by (simp_all add: logged_env_def)

lemma linked_ref_logged [simp]: "linked_ref (logged_env E) k r = linked_ref E k r"
  by (simp add: linked_ref_def)

lemma mechanical_repair_keeps:
  assumes "monotone_log H"
  shows "keeps (mechanical_repair (logged_env E) config issue k head base) (of_state H)"
  unfolding keeps_def
proof (intro allI impI)
  fix w r w' assume H: "of_state H w" and m: "mechanical_repair (logged_env E) config issue k head base w = (r, w')"
  obtain g es where g: "mw_git w = (g, es)" by (cases "mw_git w")
  show "of_state H w'"
  proof (cases "repair_dirty_pull_request (logged (mt_runner E)) (mt_cwd E) k head base
      (merge_rehearsal_mode config issue) (g, es)")
    case None
    then show ?thesis using H m g by (simp add: mechanical_repair_def)
  next
    case (Some x)
    obtain q g' es' where x: "x = (q, g', es')" by (cases x)
    have "\<exists>ds. es' = es @ ds"
      using Some x repair_loop_log
      by (fastforce simp: repair_dirty_pull_request_def extends_log_def split: if_splits option.splits)
    then show ?thesis
      using H m g Some x assms by (auto simp: mechanical_repair_def of_state_def monotone_log_def)
  qed
qed

lemma report_keeps:
  "steady H k (mt_adapter E) \<Longrightarrow> keeps (report_repair E config issue d output evidence reason) (of_state H)"
  by (simp add: report_repair_def comment_keeps)

lemma route_to_human_keeps:
  "steady H k (mt_adapter E) \<Longrightarrow> keeps (route_to_human E issue d reason) (of_state H)"
  unfolding route_to_human_def by (intro keeps_bind set_state_keeps keeps_return) simp_all

lemma dirty_keeps:
  assumes "steady H k (mt_adapter E)" "monotone_log H"
  shows "keeps (handle_dirty_merge (logged_env E) config issue claim d status linked base) (of_state H)"
proof -
  have st: "steady H k (mt_adapter (logged_env E))" using assms(1) by simp
  note rules = report_keeps [OF st] route_to_human_keeps [OF st] mechanical_repair_keeps [OF assms(2)] keeps_fail
    keeps_return keeps_outside_grows [OF assms(2)] grows_agent
  have agent: "keeps (agent_repair (logged_env E) config issue claim d k' head base repair) (of_state H)" for k' head repair
    unfolding agent_repair_def Let_def by (intro keeps_bind keeps_if rules) (simp add: rules)
  show ?thesis
    unfolding handle_dirty_merge_def Let_def
    by (cases "md_pr_url d") (auto intro!: keeps_bind keeps_if rules agent)
qed

lemma stale_keeps:
  assumes "steady H k (mt_adapter E)" "monotone_log H"
  shows "keeps (update_stale_branch (logged_env E) config issue d) (of_state H)"
proof -
  have st: "steady H k (mt_adapter (logged_env E))" using assms(1) by simp
  show ?thesis
    unfolding update_stale_branch_def Let_def
    by (cases "md_pr_url d")
      (auto intro!: keeps_bind keeps_if keeps_fail keeps_return comment_keeps [OF st] route_to_human_keeps [OF st]
        keeps_outside_grows [OF assms(2)] grows_map grows_update)
qed

lemma completion_keeps:
  assumes "steady H k (mt_adapter E)" "ti_identifier issue \<noteq> k"
  shows "keeps (record_done_merge_lane_completion E issue claim workpad) (of_state H)"
  unfolding record_done_merge_lane_completion_def Let_def
  by (intro keeps_bind comment_keeps [OF assms(1)] claim_keeps(2) [OF assms(1)] set_state_keeps [OF assms(1)]
      close_keeps [OF assms(1)]) (simp_all add: assms(2))

lemma land_keeps:
  assumes "steady H k (mt_adapter E)" "monotone_log H" "ti_identifier issue \<noteq> k"
  shows "keeps (land_pull_request (logged_env E) config issue claim d) (of_state H)"
proof -
  have st: "steady H k (mt_adapter (logged_env E))" using assms(1) by simp
  show ?thesis
    unfolding land_pull_request_def
    by (cases "md_pr_url d")
      (auto intro!: keeps_bind keeps_fail keeps_return completion_keeps [OF st assms(3)]
        keeps_outside_grows [OF assms(2)] grows_map grows_merge)
qed

lemma route_keeps:
  assumes "steady H k (mt_adapter E)"
    and "ti_identifier issue \<noteq> k \<or> md_kind d \<noteq> AlreadyMerged \<and> md_target_state d \<noteq> Some ''done''"
  shows "keeps (route_issue E config issue d) (of_state H)"
  unfolding route_issue_def
  by (cases "md_target_state d")
    (use assms(2) in \<open>auto intro!: keeps_bind comment_keeps [OF assms(1)] set_state_keeps [OF assms(1)] keeps_return
      close_keeps [OF assms(1)]\<close>)

text \<open>The decision finishes an issue only on the status of its one linked pull request.\<close>

lemma decision_cases:
  fixes issue mst base linked status
  defines "d \<equiv> merge_lane_decision issue mst base linked status"
  assumes "md_kind d \<in> {ReadyToMerge, AlreadyMerged} \<or> md_target_state d = Some ''done''"
  shows "md_kind d \<in> {ReadyToMerge, AlreadyMerged} \<and>
    (\<exists>s. status = Some s \<and> md_pr_url d = Some (ps_url s) \<and>
      (md_kind d = AlreadyMerged \<longrightarrow> normalize_state (ps_state s) = ''merged''))"
proof -
  obtain pr s where l: "linked = [pr]" "status = Some s" "d = status_decision issue base s"
    using assms
    by (cases linked; cases "List.tl linked"; cases status)
      (auto simp: merge_lane_decision_def merge_decision_def split: if_splits)
  have "md_pr_url (status_decision issue base s) = Some (ps_url s)"
    by (simp add: status_decision_def mergeability_decision_def merge_decision_def Let_def split: option.splits)
  moreover have "md_kind (status_decision issue base s) = AlreadyMerged \<Longrightarrow> normalize_state (ps_state s) = ''merged''"
    using mergeability_not_merged
    by (auto simp: status_decision_def merge_decision_def Let_def split: if_splits option.splits)
  ultimately show ?thesis using l assms status_done [of issue base s] by auto
qed

lemma valid_conj: "valid P m Q X \<Longrightarrow> valid P m Q' X' \<Longrightarrow> valid P m (\<lambda>a w. Q a w \<and> Q' a w) (\<lambda>w. X w \<and> X' w)"
  unfolding valid_def by (fastforce split: sum.splits)

lemma valid_returns: "returns m Q \<Longrightarrow> valid P m (\<lambda>a _. Q a) (\<lambda>_. True)"
  by (auto simp: valid_def returns_def split: sum.splits)

lemma other_identifier: "\<exists>k :: string. i \<noteq> k"
  by (rule exI [of _ "CHR ''x'' # i"]) simp

lemma keeps_landed:
  assumes "\<And>k. steady (is_landed E i) k (mt_adapter E') \<Longrightarrow> j \<noteq> k \<Longrightarrow> keeps m (of_state (is_landed E i))"
  shows "keeps m (of_state (is_landed E i))"
  using assms blind_steady [OF landed_blind] other_identifier [of j] by blast

lemma land_landed:
  assumes "monotone_log H" "\<not> merge_rehearsal_mode config issue" "md_pr_url d = Some (ps_url s)"
  shows "valid (\<lambda>w. of_state H w \<and> shown_for E (ti_identifier issue) s (snd (mw_git w)))
    (land_pull_request (logged_env E) config issue claim d)
    (\<lambda>_. of_state (is_landed E (ti_identifier issue)))
    (\<lambda>w. of_state H w \<or> of_state (is_landed E (ti_identifier issue)) w)"
  (is "valid ?P _ (\<lambda>_. ?L) ?X")
proof -
  let ?m = "outside (\<lambda>g. map_prod (map_sum id fst) id
    (merge_pull_request_with_recovery (mt_parse_json E) (logged (mt_runner E)) (mt_cwd E) (ps_url s) g))"
  have merge: "valid ?P ?m (\<lambda>_. ?L) ?X"
    unfolding valid_def
  proof (intro allI impI)
    fix w r w' assume P: "?P w" and m: "?m w = (r, w')"
    obtain g es where g: "mw_git w = (g, es)" by (cases "mw_git w")
    obtain q g' es' where q: "merge_pull_request_with_recovery (mt_parse_json E) (logged (mt_runner E)) (mt_cwd E)
        (ps_url s) (g, es) = (q, g', es')" by (metis prod.exhaust)
    from merge_logged [OF this] obtain ds where ds: "es' = es @ ds"
      and ok: "\<And>x. q = Inr x \<Longrightarrow> merge_command_succeeded (ps_url s) ds \<or> shown_merged (mt_parse_json E) (ps_url s) ds"
      by blast
    have w': "w' = w\<lparr>mw_git := (g', es')\<rparr>" "r = failed (map_sum id fst q)" using m g q by (auto simp: outside_def)
    show "case r of Inl _ \<Rightarrow> ?X w' | Inr _ \<Rightarrow> ?L w'"
    proof (cases q)
      case (Inl e)
      then show ?thesis using P w' ds g assms(1) by (auto simp: of_state_def monotone_log_def failed_def)
    next
      case (Inr x)
      have "shown_for E (ti_identifier issue) s es" using P g by simp
      then have "landed_for E (ti_identifier issue) (es @ ds)" by (rule landed_now [OF _ ok [OF Inr]])
      then show ?thesis using Inr w' ds by (simp add: of_state_def failed_def)
    qed
  qed
  have fin: "keeps (record_done_merge_lane_completion (logged_env E) issue claim workpad) ?L" for workpad
    by (rule keeps_landed [where E' = "logged_env E" and j = "ti_identifier issue"]) (rule completion_keeps)
  show ?thesis
    unfolding land_pull_request_def assms(3) option.case
    by (rule valid_bind [where M = "\<lambda>_. ?L"])
      (auto intro!: valid_bind [where M = "\<lambda>_. ?L"] valid_return simp: assms(2) merge
        intro: valid_post [OF valid_keeps [OF fin]])
qed

lemma not_merged:
  "md_kind d \<noteq> ReadyToMerge \<Longrightarrow> returns (act_on_decision E config issue claim d status linked base) (\<lambda>r. r \<noteq> Merged)"
  unfolding act_on_decision_def update_stale_branch_def handle_dirty_merge_def agent_repair_def route_to_human_def
    route_issue_def Let_def
  by (intro returns_rules) (auto simp: is_merge_ready_def)

lemma act_valid:
  fixes E config issue mst base linked status P k
  defines "d \<equiv> merge_lane_decision issue mst base linked status"
  defines "H \<equiv> unfinished_or_landed E P k" and "i \<equiv> ti_identifier issue"
  assumes "spares P k (mt_adapter E)" "\<not> merge_rehearsal_mode config issue"
  shows "valid (\<lambda>w. of_state H w \<and> (\<forall>s. status = Some s \<longrightarrow> shown_for E i s (snd (mw_git w))))
    (act_on_decision (logged_env E) config issue claim d status linked base)
    (\<lambda>r w. of_state H w \<and> (r = Merged \<longrightarrow> of_state (is_landed E i) w)) (of_state H)"
  (is "valid ?P ?m ?Q _")
proof -
  have mono: "monotone_log H" by (simp add: H_def)
  have st: "steady H k (mt_adapter (logged_env E))" using unfinished_steady [OF assms(4)] by (simp add: H_def)
  note st' = st [simplified]
  have L: "of_state H w" if "of_state (is_landed E i) w" "i = k" for w
    using that by (simp add: H_def of_state_def)
  show ?thesis
  proof (cases "md_kind d \<in> {ReadyToMerge, AlreadyMerged} \<or> md_target_state d = Some ''done''")
    case False
    have "keeps ?m (of_state H)"
      unfolding act_on_decision_def is_merge_ready_def using False
      by (intro keeps_if stale_keeps [OF st' mono] dirty_keeps [OF st' mono] route_keeps [OF st]) auto
    from valid_conj [OF valid_keeps [OF this] valid_returns [OF not_merged]] show ?thesis
      by (rule valid_pre [OF valid_post]) (use False in auto)
  next
    case True
    from decision_cases [OF True [unfolded d_def]] obtain s where
      s: "md_kind d \<in> {ReadyToMerge, AlreadyMerged}" "status = Some s" "md_pr_url d = Some (ps_url s)"
        "md_kind d = AlreadyMerged \<Longrightarrow> normalize_state (ps_state s) = ''merged''"
      unfolding d_def [symmetric] by blast
    consider (ready) "md_kind d = ReadyToMerge" | (already) "md_kind d = AlreadyMerged" using s(1) by blast
    then show ?thesis
    proof cases
      case ready
      then have m: "?m = land_pull_request (logged_env E) config issue claim d"
        by (simp add: act_on_decision_def is_merge_ready_def)
      have land: "valid ?P ?m (\<lambda>_. of_state (is_landed E i)) (\<lambda>w. of_state H w \<or> of_state (is_landed E i) w)"
        unfolding m i_def
        by (rule valid_pre [OF land_landed [OF mono assms(5) s(3)]]) (use s(2) in simp)
      show ?thesis
      proof (cases "i = k")
        case True
        show ?thesis by (rule valid_post [OF land]) (use L True in auto)
      next
        case False
        then have "keeps ?m (of_state H)" unfolding m i_def by (rule land_keeps [OF st' mono])
        then have "valid ?P ?m (\<lambda>_. of_state H) (of_state H)" by (rule valid_pre [OF valid_keeps]) simp
        from valid_conj [OF this land] show ?thesis by (rule valid_post) auto
      qed
    next
      case already
      then have m: "?m = route_issue (logged_env E) config issue d"
        by (simp add: act_on_decision_def is_merge_ready_def)
      have "keeps ?m (of_state (is_landed E i))"
        unfolding m by (rule keeps_landed [where E' = "logged_env E" and j = i]) (rule route_keeps, auto simp: i_def)
      then have land: "valid ?P ?m (\<lambda>_. of_state (is_landed E i)) (of_state (is_landed E i))"
        by (rule valid_pre [OF valid_keeps]) (use s landed_already already in \<open>auto simp: of_state_def\<close>)
      show ?thesis
      proof (cases "i = k")
        case True
        show ?thesis by (rule valid_post [OF land]) (use L True in auto)
      next
        case False
        have "keeps ?m (of_state H)" unfolding m by (rule route_keeps [OF st]) (use False i_def in simp)
        then have "valid ?P ?m (\<lambda>_. of_state H) (of_state H)" by (rule valid_pre [OF valid_keeps]) simp
        from valid_conj [OF this land] show ?thesis by (rule valid_post) auto
      qed
    qed
  qed
qed

text \<open>A live lane: no fixture file, and no issue of the in-memory tracker.\<close>

definition live :: "('t, 'g) MergeEnv \<Rightarrow> bool" where
  "live E \<longleftrightarrow>
     (\<forall>g config g'. mt_load E g = (Inr config, g') \<longrightarrow> tc_fixture_path (rc_tracker config) = None) \<and>
     (\<forall>t state is. mt_issues_by_state E t state = Inr is \<longrightarrow> (\<forall>i \<in> set is. ti_tracker_kind i \<noteq> ''memory'')) \<and>
     (\<forall>t k i. ta_get_issue (mt_adapter E) t k = Inr (Some i) \<longrightarrow> ti_tracker_kind i \<noteq> ''memory'')"

lemma preflight_shown:
  assumes "monotone_log H" "\<not> merge_rehearsal_mode config issue"
  shows "valid (\<lambda>w. of_state H w \<and> (\<exists>t prs. mt_linked_pull_requests E t (ti_identifier issue) = Inr prs \<and> set linked \<subseteq> set prs))
    (merge_preflight_status (logged_env E) config issue linked)
    (\<lambda>status w. of_state H w \<and> (\<forall>s. status = Some s \<longrightarrow> shown_for E (ti_identifier issue) s (snd (mw_git w))))
    (of_state H)"
proof (cases "\<exists>pr k. linked = [pr] \<and> or_else (pr_url pr) (map_option (\<lambda>n. show_nat (unat n)) (pr_number pr)) = Some k")
  case False
  then have "merge_preflight_status (logged_env E) config issue linked = returnE None"
    by (cases linked; cases "List.tl linked") (auto simp: merge_preflight_status_def split: option.splits)
  then show ?thesis by (auto intro!: valid_return)
next
  case True
  then obtain pr k where pr: "linked = [pr]"
    "or_else (pr_url pr) (map_option (\<lambda>n. show_nat (unat n)) (pr_number pr)) = Some k" by blast
  let ?f = "fetch_pull_request_status_with_recheck (mt_parse_json E) (logged (mt_runner E)) (mt_cwd E) k 2"
  have m: "merge_preflight_status (logged_env E) config issue linked =
      bindE (tryE (outside (\<lambda>g. map_prod (map_sum merge_lane_error_display id) id (?f g)))) (\<lambda>s. returnE (result_ok s))"
    using pr assms(2) by (simp add: merge_preflight_status_def)
  show ?thesis
    unfolding valid_def
  proof (intro allI impI, elim conjE)
    fix w r w' assume H: "of_state H w"
      and l: "\<exists>t prs. mt_linked_pull_requests E t (ti_identifier issue) = Inr prs \<and> set linked \<subseteq> set prs"
      and run: "merge_preflight_status (logged_env E) config issue linked w = (r, w')"
    obtain g es where g: "mw_git w = (g, es)" by (cases "mw_git w")
    obtain q g' es' where q: "?f (g, es) = (q, g', es')" by (metis prod.exhaust)
    from fetch_recheck_logged [OF this] obtain ds where ds: "es' = es @ ds"
      and sh: "\<And>s. q = Inr s \<Longrightarrow> shown (mt_parse_json E) k s ds" by blast
    have r: "w' = w\<lparr>mw_git := (g', es')\<rparr>" "r = Inr (result_ok q)"
      using run g q unfolding m by (cases q; auto simp: bindE_def tryE_def outside_def failed_def returnE_def)+
    have "linked_ref E (ti_identifier issue) k" using l pr unfolding linked_ref_def by fastforce
    then have "shown_for E (ti_identifier issue) s es'" if "result_ok q = Some s" for s
      using that sh ds by (cases q) (auto simp: shown_for_def)
    then show "case r of Inl _ \<Rightarrow> of_state H w'
      | Inr status \<Rightarrow> of_state H w' \<and> (\<forall>s. status = Some s \<longrightarrow> shown_for E (ti_identifier issue) s (snd (mw_git w')))"
      using H r g ds assms(1) by (auto simp: of_state_def monotone_log_def)
  qed
qed

lemma map_sum_Inr [simp]: "map_sum f id x = Inr a \<longleftrightarrow> x = Inr a"
  by (cases x) auto

lemma tick_issue_valid:
  assumes "spares P k (mt_adapter E)" "\<not> merge_rehearsal_mode config issue"
  defines "H \<equiv> unfinished_or_landed E P k"
  shows "valid (of_state H) (tick_issue (logged_env E) config write issue claim)
    (\<lambda>r w. of_state H w \<and> (r = Merged \<longrightarrow> of_state (is_landed E (ti_identifier issue)) w)) (of_state H)"
proof -
  have mono: "monotone_log H" by (simp add: H_def)
  have st: "steady H k (mt_adapter (logged_env E))" using unfinished_steady [OF assms(1)] by (simp add: H_def)
  have read: "valid (of_state H) (tracker_read (\<lambda>t. mt_linked_pull_requests (logged_env E) t (ti_identifier issue)))
      (\<lambda>prs w. of_state H w \<and> (\<exists>t. mt_linked_pull_requests E t (ti_identifier issue) = Inr prs)) (of_state H)"
    by (auto simp: valid_def tracker_read_def failed_def split: sum.splits)
  have native: "set (native_linked_pull_requests_for_merge config prs) \<subseteq> set prs" for prs
    by (auto simp: native_linked_pull_requests_for_merge_def)
  note act = act_valid [OF assms(1,2), folded H_def]
  show ?thesis
    unfolding tick_issue_def Let_def
    by (rule valid_bind [OF valid_keeps [OF claim_keeps(1) [OF st]]], rule valid_bind [OF read],
        rule valid_bind [OF valid_pre [OF preflight_shown [OF mono assms(2)]]])
      (use native in blast, intro valid_if valid_return act, simp_all)
qed

lemma selected_issue:
  "s \<in> set (select_merge_worker_issues issues w pool config recover) \<Longrightarrow> ms_issue s \<in> set issues"
proof -
  have push: "ms_issue ` set (push_new_merge sel j) \<subseteq> insert j (ms_issue ` set sel)" for sel j
    by (auto simp: push_new_merge_def)
  have fold: "ms_issue ` set (foldl push_new_merge sel is) \<subseteq> ms_issue ` set sel \<union> set is" for sel "is"
  proof (induction "is" arbitrary: sel)
    case (Cons j "is")
    have "ms_issue ` set (foldl push_new_merge (push_new_merge sel j) is) \<subseteq> ms_issue ` set (push_new_merge sel j) \<union> set is"
      by (rule Cons.IH)
    also have "\<dots> \<subseteq> ms_issue ` set sel \<union> set (j # is)" using push [of sel j] by auto
    finally show ?case by simp
  qed simp
  have "ms_issue ` set (recovery_candidates issues w config) \<subseteq> set issues"
    using mset_eq_setD [OF recovery_candidates_issues, of issues w config] by auto
  moreover have "set (take n xs) \<subseteq> set xs" for n and xs :: "MergeWorkerSelection list" by (rule set_take_subset)
  ultimately have rec: "ms_issue ` set (take n (recovery_candidates issues w config)) \<subseteq> set issues" for n
    by blast
  have pool: "set (select_pool_worker_issues issues Merging w n config) \<subseteq> set issues" for n
    unfolding select_pool_eq using set_take_subset [of n] by fastforce
  let ?rec = "if recover then take (max pool 1) (recovery_candidates issues w config) else []"
  have start: "ms_issue ` set ?rec \<subseteq> set issues" using rec by (cases recover) simp_all
  have "ms_issue ` set (select_merge_worker_issues issues w pool config recover) \<subseteq> set issues"
  proof (cases "max pool 1 - length ?rec > 0")
    case True
    then have eq: "select_merge_worker_issues issues w pool config recover =
        foldl push_new_merge ?rec (select_pool_worker_issues issues Merging w (max pool 1 - length ?rec) config)"
      by (simp only: select_merge_worker_issues_def Let_def if_True)
    show ?thesis
      unfolding eq by (rule order_trans [OF fold]) (rule Un_least [OF start pool])
  next
    case False
    then have "select_merge_worker_issues issues w pool config recover = ?rec"
      by (simp only: select_merge_worker_issues_def Let_def if_False)
    then show ?thesis using start by (simp only:)
  qed
  then show "s \<in> set (select_merge_worker_issues issues w pool config recover) \<Longrightarrow> ms_issue s \<in> set issues"
    by blast
qed

lemma valid_pure: "(C \<Longrightarrow> valid P m Q X) \<Longrightarrow> valid (\<lambda>w. P w \<and> C) m Q X"
  by (auto simp: valid_def)

lemma valid_read: "valid P (tracker_read f) (\<lambda>a w. P w \<and> (\<exists>t. f t = Inr a)) P"
  by (auto simp: valid_def tracker_read_def failed_def split: sum.splits)

lemma live_load:
  "live E \<Longrightarrow> returns (outside (beside_log (mt_load E))) (\<lambda>config. tc_fixture_path (rc_tracker config) = None)"
  by (auto simp: returns_def outside_def beside_log_def failed_def live_def split: prod.splits sum.splits)

text \<open>What a tick guarantees when it returns.\<close>

definition finishes_landed ::
    "('t, 'g) MergeEnv \<Rightarrow> ('t \<Rightarrow> bool) \<Rightarrow> string \<Rightarrow> MergeOnceOutcome \<Rightarrow> ('t, 'g \<times> event list) merge_world \<Rightarrow> bool" where
  "finishes_landed E P k r w \<longleftrightarrow> of_state (unfinished_or_landed E P k) w \<and>
     (r = Merged \<longrightarrow> (\<exists>i. landed_for E i (snd (mw_git w))))"

lemma finishes_other [simp]: "r \<noteq> Merged \<Longrightarrow> finishes_landed E P k r w \<longleftrightarrow> of_state (unfinished_or_landed E P k) w"
  by (simp add: finishes_landed_def)

lemma outside_valid:
  "valid (of_state (unfinished_or_landed E P k)) (outside (beside_log m))
     (\<lambda>_. of_state (unfinished_or_landed E P k)) (of_state (unfinished_or_landed E P k))"
  by (rule valid_keeps [OF keeps_outside_grows [OF landed_monotone(2) grows_beside]])

lemma tick_issue_finishes:
  assumes "spares P k (mt_adapter E)" "tc_fixture_path (rc_tracker config) = None" "ti_tracker_kind issue \<noteq> ''memory''"
  shows "valid (of_state (unfinished_or_landed E P k)) (tick_issue (logged_env E) config write issue claim)
    (finishes_landed E P k) (of_state (unfinished_or_landed E P k))"
  by (rule valid_post [OF tick_issue_valid [OF assms(1)]])
    (use assms in \<open>auto simp: merge_rehearsal_mode_def of_state_def finishes_landed_def\<close>)

lemma tick_selected_finishes:
  assumes "live E" "spares P k (mt_adapter E)" "tc_fixture_path (rc_tracker config) = None"
    and "ti_tracker_kind (ms_issue selected) \<noteq> ''memory''"
  shows "valid (of_state (unfinished_or_landed E P k)) (tick_selected (logged_env E) config write recover worker_id selected)
    (finishes_landed E P k) (of_state (unfinished_or_landed E P k))"
  unfolding tick_selected_def
proof (rule valid_bind [OF valid_read], rule valid_pure, unfold logged_env_simps)
  fix latest assume read: "\<exists>t. ta_get_issue (mt_adapter E) t (ti_identifier (ms_issue selected)) = Inr latest"
  obtain issue reason where r: "refreshed config recover worker_id selected latest = (issue, reason)"
    by (metis prod.exhaust)
  have "ti_tracker_kind issue \<noteq> ''memory''"
    using read r assms(1,4) unfolding live_def refreshed_def by (cases latest) auto
  note tick = tick_issue_finishes [OF assms(2,3) this]
  show "valid (of_state (unfinished_or_landed E P k))
     (case refreshed config recover worker_id selected latest of (issue, reason) \<Rightarrow>
        if \<not> is_claimable (pool_claim_eligibility issue Merging worker_id config) \<and> reason = None then returnE Skipped
        else bindE (outside (beside_log (mt_clock E))) (\<lambda>now_ms. tick_issue (logged_env E) config write issue
          (with_worker (lane_claim_for_issue now_ms issue (claim_lane Merging) Codex Loop
             (project_text_field issue (claim_field Merging))) worker_id)))
     (finishes_landed E P k) (of_state (unfinished_or_landed E P k))"
    unfolding r prod.case by (intro valid_if valid_return valid_bind [OF outside_valid] tick) simp
qed

lemma merge_once_tick_finishes:
  assumes "live E" "spares P k (mt_adapter E)"
  shows "valid (of_state (unfinished_or_landed E P k)) (merge_once_tick (logged_env E) write recover)
    (finishes_landed E P k) (of_state (unfinished_or_landed E P k))"
proof -
  let ?H = "of_state (unfinished_or_landed E P k)"
  have load: "valid ?H (outside (beside_log (mt_load E))) (\<lambda>config w. ?H w \<and> tc_fixture_path (rc_tracker config) = None) ?H"
    using valid_conj [OF outside_valid valid_returns [OF live_load [OF assms(1)]]] by (rule valid_post) simp_all
  have checkout: "valid ?H (if b then outside (beside_log m) else returnE ()) (\<lambda>_. ?H) ?H" for b m
    by (intro valid_if outside_valid valid_return)
  have lift: "valid ?H (liftE r) (\<lambda>_. ?H) ?H" for r :: "(tick_error, unit) result"
    by (rule valid_keeps [OF keeps_lift])
  have pick: "valid ?H (if issues = [] then returnE NoMergingIssue
      else (let worker_id = worker_identity config Merging in
        case select_merge_worker_issues (sort_key pool_key issues) worker_id 1 config recover of
          [] \<Rightarrow> returnE NoMergingIssue
        | selected # _ \<Rightarrow> tick_selected (logged_env E) config write recover worker_id selected))
      (finishes_landed E P k) ?H"
    if fx: "tc_fixture_path (rc_tracker config) = None" and mem: "\<forall>i \<in> set issues. ti_tracker_kind i \<noteq> ''memory''"
    for config issues
  proof -
    let ?sel = "select_merge_worker_issues (sort_key pool_key issues) (worker_identity config Merging) 1 config recover"
    have "valid ?H (case ?sel of [] \<Rightarrow> returnE NoMergingIssue
        | selected # _ \<Rightarrow> tick_selected (logged_env E) config write recover (worker_identity config Merging) selected)
        (finishes_landed E P k) ?H"
    proof (cases ?sel)
      case Nil
      then show ?thesis by (simp add: valid_return)
    next
      case (Cons selected others)
      then have "selected \<in> set ?sel" by simp
      from selected_issue [OF this] have "ms_issue selected \<in> set issues" by simp
      then show ?thesis unfolding Cons list.case by (intro tick_selected_finishes [OF assms fx]) (use mem in simp)
    qed
    then show ?thesis unfolding Let_def by (intro valid_if valid_return) simp_all
  qed
  have rest: "valid ?H (bindE (liftE (failed (map_sum (mt_config_error (logged_env E)) id (validate config)))) (\<lambda>_.
      bindE (if tc_fixture_path (rc_tracker config) = None then outside (beside_log (mt_checkout E config write)) else returnE ()) (\<lambda>_.
      bindE (tracker_read (\<lambda>t. mt_issues_by_state E t (sm_merging (tc_state_map (rc_tracker config))))) (\<lambda>issues.
      if issues = [] then returnE NoMergingIssue
      else (let worker_id = worker_identity config Merging in
        case select_merge_worker_issues (sort_key pool_key issues) worker_id 1 config recover of
          [] \<Rightarrow> returnE NoMergingIssue
        | selected # _ \<Rightarrow> tick_selected (logged_env E) config write recover worker_id selected)))))
      (finishes_landed E P k) ?H"
    if fx: "tc_fixture_path (rc_tracker config) = None" for config
    by (rule valid_bind [OF lift], rule valid_bind [OF checkout], rule valid_bind [OF valid_read], rule valid_pure,
        rule pick [OF fx]) (use assms(1) in \<open>unfold live_def, blast\<close>)
  show ?thesis
    unfolding merge_once_tick_def logged_env_simps
    by (rule valid_bind [OF load], rule valid_pure, rule rest)
qed

text \<open>C8: The merge lane finishes only landed work. In a live lane, whatever the commands, the agent and the
  tracker return, a tick that sets an issue to done or closes it has first seen a pull request that
  the tracker links to this issue land: shown as merged, or merged by a successful merge command, or
  shown as merged after one. So every property of the tracker that only finishing the issue can end
  still holds after the tick, unless such a pull request landed; and the tick reports a merge only
  after one.\<close>

theorem finished_only_after_landing:
  assumes "live E" and "spares P k (mt_adapter E)" and "P (mw_tracker w)"
    and "merge_once_tick (logged_env E) write recover w = (r, w')"
  shows "(P (mw_tracker w') \<or> landed_for E k (snd (mw_git w'))) \<and>
    (r = Inr Merged \<longrightarrow> (\<exists>i. landed_for E i (snd (mw_git w'))))"
  using validD [OF merge_once_tick_finishes [OF assms(1,2)], of w] assms(3,4)
  by (cases r) (auto simp: of_state_def finishes_landed_def)

subsection \<open>A concrete lane\<close>

text \<open>A tracker with one issue and one linked pull request that is open and clean; every command
  succeeds.\<close>

definition lane_config :: RuntimeConfig where
  "lane_config = (let c = example_config 1 in c\<lparr>rc_tracker := (rc_tracker c)\<lparr>tc_project_owner := Some ''Alive24'', tc_project_owner_type := Some ''user'',
       tc_project_number := Some 1\<rparr>\<rparr>)"


definition lane_tracker :: "TrackerIssue TrackerAdapter" where
  "lane_tracker =
     \<lparr>ta_get_issue = (\<lambda>t r. Inr (if r = ti_identifier t then Some (t\<lparr>ti_tracker_kind := ''github_project_v2''\<rparr>) else None)),
      ta_set_state = (\<lambda>t r s. (Inr (), if r = ti_identifier t then t\<lparr>ti_state := s\<rparr> else t)),
      ta_set_project_field =
        (\<lambda>t r a. (Inr (), if r = ti_identifier t
           then t\<lparr>ti_project_fields := (ti_project_fields t)(pa_name a \<mapsto> String (pa_value a))\<rparr> else t)),
      ta_upsert_workpad = (\<lambda>t r m. (Inr (), t)), ta_add_issue_comment = (\<lambda>t r m. (Inr (), t)),
      ta_close_issue = (\<lambda>t r. (Inr (), t))\<rparr>"

definition lane_pull_request :: LinkedPullRequest where
  "lane_pull_request =
     \<lparr>pr_id = None, pr_number = Some 9, pr_url = Some ''https://github.com/Alive24/shea-symphony/pull/9'',
      pr_state = None, pr_is_draft = None, pr_merge_state_status = None, pr_review_decision = None,
      pr_base_ref_name = None, pr_head_ref_name = None, pr_head_sha = None, pr_source = GithubNative\<rparr>"

definition lane_env :: "(TrackerIssue, unit) MergeEnv" where
  "lane_env =
     \<lparr>mt_adapter = lane_tracker,
      mt_issues_by_state = (\<lambda>t s. Inr (if ti_state t = s then [t\<lparr>ti_tracker_kind := ''github_project_v2''\<rparr>] else [])),
      mt_linked_pull_requests = (\<lambda>t k. Inr [lane_pull_request]),
      mt_runner = (\<lambda>program args cwd g. (Inr \<lparr>co_status = 0, co_stdout = [], co_stderr = []\<rparr>, g)),
      mt_parse_json = (\<lambda>text. Inr (Object [(''url'', String ''https://github.com/Alive24/shea-symphony/pull/9''),
         (''state'', String ''OPEN''), (''mergeStateStatus'', String ''CLEAN'')])),
      mt_cwd = ''/r'', mt_clock = returnE 0, mt_load = returnE lane_config,
      mt_config_error = (\<lambda>_. []), mt_claim_error = (\<lambda>_. []), mt_checkout = (\<lambda>_ _. returnE ()),
      mt_render = (\<lambda>_. []),
      mt_agent = (\<lambda>_ _ _ _ _. \<lparr>ma_prepare = \<lambda>_ _. returnE [], ma_run = failE [], ma_record = \<lambda>_. returnE ()\<rparr>),
      mt_refresh = (\<lambda>_. returnE ()), mt_sleep = (\<lambda>_. returnE ())\<rparr>"

definition lane_world :: "(TrackerIssue, unit \<times> event list) merge_world" where
  "lane_world = \<lparr>mw_tracker = sample_issue ''7'' ''Merging'', mw_git = ((), []), mw_audits = []\<rparr>"

lemma lane_live: "live lane_env"
  by (auto simp: live_def lane_env_def lane_config_def lane_tracker_def example_config_def returnE_def Let_def split: if_splits)

lemma lane_spares: "spares (\<lambda>t. ti_identifier t = ''#7'' \<and> ti_state t \<noteq> ''done'') ''#7'' (mt_adapter lane_env)"
  by (auto simp: spares_def lane_env_def lane_tracker_def)

theorem finished_only_after_landing_witness:
  "\<exists>r w. merge_once_tick (logged_env lane_env) True False lane_world = (r, w) \<and>
     (ti_state (mw_tracker w) \<noteq> ''done'' \<or> landed_for lane_env ''#7'' (snd (mw_git w))) \<and>
     (r \<noteq> Inr Merged \<or> (\<exists>i. landed_for lane_env i (snd (mw_git w))))"
proof -
  obtain r w where run: "merge_once_tick (logged_env lane_env) True False lane_world = (r, w)" by (metis prod.exhaust)
  have "ti_identifier (mw_tracker lane_world) = ''#7'' \<and> ti_state (mw_tracker lane_world) \<noteq> ''done''"
    by (simp add: lane_world_def sample_issue_def)
  from finished_only_after_landing [OF lane_live lane_spares this run] run show ?thesis by blast
qed

subsection \<open>Dry runs and idle loops\<close>

lemma dry_run_keeps:
  "keeps (merge_once_tick E False recover) (\<lambda>w. mw_tracker w = t \<and> mw_audits w = as)"
proof -
  let ?H = "\<lambda>w. mw_tracker w = t \<and> mw_audits w = as"
  have outside: "keeps (outside m) ?H" for m :: "('b, string, 'c) io"
    by (auto simp: keeps_def outside_def split: prod.splits)
  have claim: "keeps (claimed E (\<lambda>t. write_lane_claim_field (mt_adapter E) t issue Merging claim False)) ?H" for issue claim
    by (auto simp: keeps_def claimed_def write_lane_claim_field_def split: prod.splits sum.splits)
  have status: "keeps (merge_preflight_status E config issue linked) ?H" for config issue linked
    unfolding merge_preflight_status_def
    by (auto intro!: keeps_bind keeps_try keeps_return outside split: list.splits option.splits)
  have issue: "keeps (tick_issue E config False issue claim) ?H" for config issue claim
    unfolding tick_issue_def Let_def
    by (intro keeps_bind claim keeps_read status) (simp add: keeps_return)
  have selected: "keeps (tick_selected E config False recover worker_id sel) ?H" for config worker_id sel
    unfolding tick_selected_def
    by (intro keeps_bind keeps_read) (auto intro!: keeps_bind keeps_return outside issue split: prod.splits)
  show ?thesis
    unfolding merge_once_tick_def Let_def
    by (intro keeps_bind outside keeps_lift keeps_read keeps_if keeps_return)
      (auto intro!: selected keeps_return split: list.splits)
qed

lemma dry_run_outcome:
  "returns (merge_once_tick E False recover) (\<lambda>r. r \<in> {NoMergingIssue, DryRun, Skipped})"
  unfolding merge_once_tick_def tick_selected_def tick_issue_def Let_def
  by (intro returns_rules) (auto intro!: returns_rules split: list.splits prod.splits)

text \<open>A dry run of the merge lane changes nothing: whatever the tracker and the commands return, the tick
  leaves the tracker and the audit as they were, and its outcome is neither a merge nor a routing.\<close>

theorem dry_run_changes_nothing:
  assumes "merge_once_tick E False recover w = (r, w')"
  shows "mw_tracker w' = mw_tracker w \<and> mw_audits w' = mw_audits w \<and> r \<notin> {Inr Merged, Inr Routed}"
proof -
  have "mw_tracker w' = mw_tracker w \<and> mw_audits w' = mw_audits w"
    using dry_run_keeps [of E recover "mw_tracker w" "mw_audits w"] assms unfolding keeps_def by blast
  moreover have "r \<notin> {Inr Merged, Inr Routed}"
  proof (cases r)
    case (Inr outcome)
    then show ?thesis using returnsD [OF dry_run_outcome assms [unfolded Inr]] by auto
  qed simp
  ultimately show ?thesis by blast
qed

theorem dry_run_changes_nothing_witness:
  "\<exists>r w. merge_once_tick lane_env False True
       \<lparr>mw_tracker = sample_issue ''7'' ''Merging'', mw_git = (), mw_audits = []\<rparr> = (r, w) \<and>
     mw_tracker w = sample_issue ''7'' ''Merging'' \<and> r \<noteq> Inr Merged"
proof -
  let ?w = "\<lparr>mw_tracker = sample_issue ''7'' ''Merging'', mw_git = (), mw_audits = []\<rparr>"
  obtain r w where run: "merge_once_tick lane_env False True ?w = (r, w)" by (metis prod.exhaust)
  from dry_run_changes_nothing [OF run] run show ?thesis by auto
qed

text \<open>While every tick skips its issue, for example one whose checks are still running, a loop
  neither sleeps nor stops: it starts the next iteration at once.\<close>

lemma skipped_slots:
  assumes "\<And>w. I w \<Longrightarrow> \<exists>w'. merge_once_tick E (mlo_write options) (mlo_recover options) w = (Inr Skipped, w') \<and> I w'"
  shows "I w \<Longrightarrow> \<exists>w'. merge_slots E options config m n w = (Inr SlotsDone, w') \<and> I w'"
proof (induction n arbitrary: w)
  case (Suc n)
  from assms [OF Suc.prems] obtain w' where
    "merge_once_tick E (mlo_write options) (mlo_recover options) w = (Inr Skipped, w')" "I w'" by blast
  then show ?case using Suc.IH by (simp add: bindE_def)
qed auto

lemma skipping_loop_never_sleeps:
  assumes "\<And>w. I w \<Longrightarrow> \<exists>w'. merge_once_tick E (mlo_write options) (mlo_recover options) w = (Inr Skipped, w') \<and> I w'"
    and "I w"
  shows "\<exists>w'. merge_iteration E options config w = (Inr True, w') \<and> I w'"
  using skipped_slots [OF assms(1) assms(2), where m = "merge_worker_limit options config"
      and n = "merge_worker_limit options config" and config = config]
  by (auto simp: merge_iteration_def Let_def bindE_def)

end
