(* ===== verification/Review_Workpad.thy ===== *)
theory Review_Workpad
  imports Review_Gate
begin

section \<open>Review evidence (\<^verbatim>\<open>src/review.rs\<close>)\<close>

text \<open>
  The fields of the workpad that records a review run on the timeline: what the reviewer said,
  what the run logged, and what the wrapper concluded. The template engine fills them into a
  Markdown template and is not part of the model. Reader of JSON text and of the artifact file
  are arguments: \<open>parse_prefix\<close> reads a JSON value at the start of a text, \<open>read_artifact\<close> the
  JSON value of a file.
\<close>

subsection \<open>Names\<close>

fun job_state_debug :: "ReviewJobState \<Rightarrow> string" where
  "job_state_debug Queued = ''Queued''"
| "job_state_debug Running = ''Running''"
| "job_state_debug ReviewJobState.Completed = ''Completed''"
| "job_state_debug ReviewJobState.Failed = ''Failed''"
| "job_state_debug TimedOut = ''TimedOut''"
| "job_state_debug ReviewJobState.Cancelled = ''Cancelled''"

fun outcome_debug :: "ReviewOutcome \<Rightarrow> string" where
  "outcome_debug PassedToHumanReview = ''PassedToHumanReview''"
| "outcome_debug PassedToMerging = ''PassedToMerging''"
| "outcome_debug NeedsRework = ''NeedsRework''"
| "outcome_debug InconclusiveNeedsRework = ''InconclusiveNeedsRework''"
| "outcome_debug ReviewOutcome.NeedsHumanInput = ''NeedsHumanInput''"
| "outcome_debug BackendUnavailable = ''BackendUnavailable''"
| "outcome_debug StillRunning = ''StillRunning''"
| "outcome_debug ReviewOutcome.Cancelled = ''Cancelled''"

fun finding_class_debug :: "ReviewFindingClass \<Rightarrow> string" where
  "finding_class_debug Confirmed = ''Confirmed''"
| "finding_class_debug Plausible = ''Plausible''"
| "finding_class_debug Rejected = ''Rejected''"
| "finding_class_debug ReviewFindingClass.NeedsContext = ''NeedsContext''"

definition format_gmt_timestamp :: "nat \<Rightarrow> string" where
  "format_gmt_timestamp seconds =
     (let days = int (seconds div 86400); seconds_of_day = seconds mod 86400;
          (year, month, day) = civil_from_days days;
          hour = seconds_of_day div 3600; minute = seconds_of_day mod 3600 div 60;
          second = seconds_of_day mod 60
      in pad0 4 (nat year) @ ''-'' @ pad0 2 (nat month) @ ''-'' @ pad0 2 (nat day) @ '' '' @
         pad0 2 hour @ '':'' @ pad0 2 minute @ '':'' @ pad0 2 second @ '' GMT'')"

subsection \<open>Bounded and escaped text\<close>

text \<open>The longest prefix of at most \<open>n\<close> bytes that ends between two characters.\<close>

fun floor_char_boundary :: "nat \<Rightarrow> string \<Rightarrow> string" where
  "floor_char_boundary n s =
     (case byte_prefix n s of
        Some p \<Rightarrow> p
      | None \<Rightarrow> (case n of 0 \<Rightarrow> [] | Suc m \<Rightarrow> floor_char_boundary m s))"

declare floor_char_boundary.simps [simp del]

definition LOG_BLOCK_LIMIT :: nat where "LOG_BLOCK_LIMIT = 2000"

definition truncate_log :: "string \<Rightarrow> string" where
  "truncate_log content =
     (if utf8_len content \<le> LOG_BLOCK_LIMIT then content
      else floor_char_boundary LOG_BLOCK_LIMIT content @ '' [... truncated]'')"

definition truncate_summary :: "string \<Rightarrow> nat \<Rightarrow> string" where
  "truncate_summary summary limit =
     (if utf8_len summary \<le> limit then summary else floor_char_boundary limit summary @ ''...'')"

definition html_escape_summary :: "string \<Rightarrow> string" where
  "html_escape_summary summary =
     replace_sub ''>'' ''&gt;'' (replace_sub ''<'' ''&lt;'' (replace_sub ''&'' ''&amp;'' summary))"

definition render_section :: "string \<Rightarrow> string \<Rightarrow> string" where
  "render_section title body =
     (if blank body then []
      else ''### '' @ title @ [NEWLINE, NEWLINE] @ trim body @ [NEWLINE, NEWLINE])"

definition fenced :: "string \<Rightarrow> string" where
  "fenced content =
     [BACKTICK, BACKTICK, BACKTICK] @ ''text'' @ [NEWLINE] @ content @ [NEWLINE, BACKTICK, BACKTICK, BACKTICK]"

definition details :: "string \<Rightarrow> string \<Rightarrow> string" where
  "details summary body =
     ''<details>'' @ [NEWLINE] @ ''<summary>'' @ summary @ ''</summary>'' @ [NEWLINE, NEWLINE] @ body @
     [NEWLINE, NEWLINE] @ ''</details>''"

definition render_log_section :: "string \<Rightarrow> string option \<Rightarrow> string option" where
  "render_log_section title content =
     (case map_option trim content of
        None \<Rightarrow> None
      | Some text \<Rightarrow>
          if text = [] then None else Some (render_section title (details title (fenced (truncate_log text)))))"

definition render_attempt_error :: "string \<Rightarrow> string" where
  "render_attempt_error err =
     (let summary = unwrap_or (filter_option (\<lambda>line. line \<noteq> [])
            (case lines err of [] \<Rightarrow> None | line # _ \<Rightarrow> Some (trim line))) ''review backend error''
      in details (''Error: '' @ html_escape_summary (truncate_summary summary 180)) (fenced (truncate_log err)))"

subsection \<open>The reviewer's note\<close>

fun extract_gemini_json_envelope :: "(string \<Rightarrow> json option) \<Rightarrow> string \<Rightarrow> json option" where
  "extract_gemini_json_envelope parse_prefix [] = None"
| "extract_gemini_json_envelope parse_prefix (c # s) =
     (if c \<noteq> CHR 0x7B then extract_gemini_json_envelope parse_prefix s
      else case parse_prefix (c # s) of
        Some v \<Rightarrow> Some v | None \<Rightarrow> extract_gemini_json_envelope parse_prefix s)"

definition heading_len :: "string \<Rightarrow> nat" where
  "heading_len line = length (takeWhile (\<lambda>c. c = CHR ''#'') line)"

definition is_heading :: "string \<Rightarrow> bool" where
  "is_heading line \<longleftrightarrow>
     1 \<le> heading_len line \<and> heading_len line \<le> 6 \<and>
     (case drop (heading_len line) line of [] \<Rightarrow> False | c # _ \<Rightarrow> is_whitespace c)"

definition strip_suffix_char :: "char \<Rightarrow> string \<Rightarrow> string" where
  "strip_suffix_char c s = (if s \<noteq> [] \<and> last s = c then butlast s else s)"

definition agent_review_note_label_heading :: "string \<Rightarrow> string option" where
  "agent_review_note_label_heading line =
     (let title = trim (strip_suffix_char (CHR '':'') line);
          prefix = (case split_once (CHR '':'') title of None \<Rightarrow> title | Some (p, _) \<Rightarrow> trim p)
      in if to_ascii_lowercase prefix \<in>
              {''review result'', ''evidence'', ''findings'', ''verification'', ''checklist review''}
         then Some title else None)"

definition normalize_note_line :: "string \<Rightarrow> string" where
  "normalize_note_line line =
     (let trimmed = trim_start line; indent = take (length line - length trimmed) line in
      if is_heading trimmed then
        (if heading_len trimmed < 4 then indent @ ''#### '' @ trim (drop (heading_len trimmed) trimmed) else line)
      else case agent_review_note_label_heading trimmed of
        Some title \<Rightarrow> indent @ ''#### '' @ title
      | None \<Rightarrow> line)"

definition normalize_agent_review_note_headings :: "string \<Rightarrow> string" where
  "normalize_agent_review_note_headings note = join [NEWLINE] (map normalize_note_line (lines note))"

definition agent_review_note :: "(string \<Rightarrow> json option) \<Rightarrow> AgentReviewReport \<Rightarrow> string option" where
  "agent_review_note parse_prefix report =
     (let nonempty = filter_option (\<lambda>text. text \<noteq> []);
          envelope_note = Option.bind (rp_stdout report) (\<lambda>stdout.
            Option.bind (extract_gemini_json_envelope parse_prefix stdout) (\<lambda>v.
              nonempty (map_option trim
                (Option.bind (or_else (json_get v ''response'') (json_get v ''note'')) as_str))))
      in map_option normalize_agent_review_note_headings
           (or_else envelope_note (nonempty (map_option trim (rp_summary report)))))"

definition NO_NOTE :: string where "NO_NOTE = ''- No Agent Review note captured.''"

definition rejected_excerpt :: "string \<Rightarrow> string" where
  "rejected_excerpt raw =
     [NEWLINE, NEWLINE] @
     details ''Rejected structured output (unaccepted)'' (''<pre>'' @ html_escape_summary (take 12000 raw) @ ''</pre>'') @
     (if length raw > 12000
      then [NEWLINE, NEWLINE] @
        ''Excerpt truncated; the complete result remains in the recorded local artifact.''
      else [])"

definition rejected_review_diagnostic :: "(string \<Rightarrow> json option) \<Rightarrow> ReviewJob \<Rightarrow> string" where
  "rejected_review_diagnostic read_artifact job =
     (case rj_error job of
        None \<Rightarrow> NO_NOTE
      | Some err \<Rightarrow>
          ''No accepted Review verdict. Execution or validation failed: '' @ html_escape_summary err @ ''.'' @
          [NEWLINE, NEWLINE] @
          ''The output below, when present, is unaccepted diagnostic evidence and cannot authorize a PASS.'' @
          (case Option.bind (Option.bind (Option.bind (rj_artifact_path job) read_artifact)
                  (\<lambda>v. json_get v ''structured_output'')) as_str of
             None \<Rightarrow> [] | Some raw \<Rightarrow> rejected_excerpt raw))"

subsection \<open>Sections\<close>

definition finding_text :: "ReviewFinding \<Rightarrow> string" where
  "finding_text f =
     ''- '' @ finding_class_debug (rf_class f) @ '': '' @ rf_title f @ '' - '' @ rf_body f @
     (case rf_severity f of None \<Rightarrow> [] | Some severity \<Rightarrow> NEWLINE # ''  - Severity: `'' @ severity @ ''`'') @
     (case rf_file f of None \<Rightarrow> []
      | Some file \<Rightarrow> NEWLINE # ''  - Location: `'' @
          (case rf_line f of Some n \<Rightarrow> file @ '':'' @ show_nat (unat n) | None \<Rightarrow> file) @ ''`'') @
     (case rf_evidence f of None \<Rightarrow> [] | Some e \<Rightarrow> NEWLINE # ''  - Evidence: '' @ e)"

definition render_parsed_findings_section :: "AgentReviewReport option \<Rightarrow> bool \<Rightarrow> string" where
  "render_parsed_findings_section report has_agent_review_note =
     (if has_agent_review_note then []
      else render_section ''Findings''
        (case report of
           Some r \<Rightarrow>
             (if rp_findings r = [] then ''- No confirmed, plausible, rejected, or needs-context findings.''
              else join [NEWLINE] (map finding_text (rp_findings r)))
         | None \<Rightarrow> ''- No report captured yet.''))"

definition render_gemini_health_section :: "ReviewJob \<Rightarrow> (panic, string) result" where
  "render_gemini_health_section job =
     and_then (gemini_review_health_diagnostic job) (\<lambda>health.
       Inr (case health of
         None \<Rightarrow> []
       | Some d \<Rightarrow> render_section ''Review Backend Health'' (join [NEWLINE]
           [''- Classification: `'' @ health_category_as_str (gd_category d) @ ''`'',
            ''- Reason: `'' @ gd_reason_code d @ ''`'',
            ''- Recovery policy: `'' @ recovery_policy_as_str (gd_recovery_policy d) @ ''`'',
            ''- Status: '' @ gd_operator_status d,
            (case gd_retry_after_ms d of
               Some v \<Rightarrow> ''- Retry-after: `'' @ show_nat (unat v) @ ''ms`''
             | None \<Rightarrow> ''- Retry-after: `not detected`''),
            ''- Diagnostic: '' @ gd_message d])))"

definition should_render_usage_limit_diagnostic :: "ReviewJob \<Rightarrow> bool" where
  "should_render_usage_limit_diagnostic job \<longleftrightarrow>
     rj_state job \<noteq> ReviewJobState.Completed \<or>
     \<not> (case rj_report job of Some r \<Rightarrow> has_parsed_review_result r | None \<Rightarrow> False)"

definition usage_limit_section :: "ReviewJob \<Rightarrow> (panic, string) result" where
  "usage_limit_section job =
     and_then (review_usage_limit_pause job) (\<lambda>pause.
       Inr (case filter_option (\<lambda>_. should_render_usage_limit_diagnostic job) pause of
         None \<Rightarrow> []
       | Some p \<Rightarrow> render_section ''Usage Limit Diagnostic'' (join [NEWLINE]
           [''- Usage-limit classifier: `'' @ up_classifier p @ ''`'',
            ''- Usage-limit evidence: '' @ up_evidence p,
            ''- Review did not pass; unavailable or inconclusive review must not move to Human Review.''])))"

definition inconclusive_section :: "ReviewJob \<Rightarrow> string" where
  "inconclusive_section job =
     (case Option.bind (rj_report job) inconclusive_reason of
        None \<Rightarrow> []
      | Some reason \<Rightarrow> render_section ''Inconclusive Review Diagnostic'' (join [NEWLINE]
          [''- Reason: '' @ reason,
           ''- Automatic Review Agent output did not establish a conclusive pass.'',
           ''- Missing context alone requires `Need Human Input`; confirmed defects still require `Rework`.'']))"

definition pass_routing_note :: "bool \<Rightarrow> string" where
  "pass_routing_note to_merging =
     ''- Review pass evidence: `recorded`'' @ [NEWLINE] @
     (if to_merging
      then ''Evidence recorded. Independent Review Agent may move this native subissue directly to Merging; final Human Review and UAT remain owned by the parent issue.''
      else ''Evidence recorded. Independent Review Agent may move this issue to Human Review; the main implementation agent must not.'')"

definition pass_evidence_section :: "ReviewOutcome \<Rightarrow> string" where
  "pass_evidence_section r =
     (if is_passed r then render_section ''Review Pass Evidence'' (pass_routing_note (r = PassedToMerging))
      else [])"

definition review_pr_line :: "TrackerIssue \<Rightarrow> string" where
  "review_pr_line issue =
     ''- PR: `'' @
     unwrap_or
       (find_map (\<lambda>pr. case (pr_number pr, pr_url pr) of
            (Some n, Some url) \<Rightarrow> Some (''#'' @ show_nat (unat n) @ '' '' @ url)
          | (Some n, None) \<Rightarrow> Some (''#'' @ show_nat (unat n))
          | (None, Some url) \<Rightarrow> Some url
          | (None, None) \<Rightarrow> None) (ti_linked_pull_requests issue)) ''not recorded'' @ ''`''"

definition review_evidence_summary :: "ReviewJob \<Rightarrow> string" where
  "review_evidence_summary job =
     show_nat (unwrap_or (map_option (\<lambda>r. length (rp_findings r)) (rj_report job)) 0) @
     '' parsed finding(s); '' @
     (if rj_artifact_path job \<noteq> None then ''artifact recorded'' else ''artifact not recorded'') @ ''; '' @
     (if rj_ledger_path job \<noteq> None then ''ledger recorded'' else ''ledger not recorded'') @ ''; '' @
     unwrap_or (map_option (\<lambda>session. ''provider session `'' @ session @ ''`'')
       (or_else (rj_backend_session_id job) (Option.bind (rj_report job) rp_session_id)))
       ''provider session not recorded'' @ ''.''"

definition attempt_details :: "ReviewJob \<Rightarrow> string" where
  "attempt_details job =
     (let ds = (case rj_error job of None \<Rightarrow> [] | Some e \<Rightarrow> [render_attempt_error e]) @
               (case rj_report job of
                  None \<Rightarrow> []
                | Some r \<Rightarrow>
                    (case rp_exit_status r of None \<Rightarrow> [] | Some st \<Rightarrow> [''- Exit status: `'' @ st @ ''`'']) @
                    (case rp_session_id r of None \<Rightarrow> [] | Some i \<Rightarrow> [''- Backend session id: `'' @ i @ ''`'']))
      in join [NEWLINE] (if ds = [] then [''- No attempt details captured yet.''] else ds))"

subsection \<open>The workpads\<close>

type_synonym fields = "(string \<times> string) list"

text \<open>The reviewer's note, or what is shown instead of it.\<close>

definition shown_note :: "(string \<Rightarrow> json option) \<Rightarrow> (string \<Rightarrow> json option) \<Rightarrow> ReviewJob \<Rightarrow> string" where
  "shown_note parse_prefix read_artifact job =
     unwrap_or (Option.bind (rj_report job) (agent_review_note parse_prefix))
       (rejected_review_diagnostic read_artifact job)"

definition report_log_section :: "string \<Rightarrow> (AgentReviewReport \<Rightarrow> string option) \<Rightarrow> ReviewJob \<Rightarrow> string" where
  "report_log_section title content job =
     unwrap_or (Option.bind (rj_report job) (\<lambda>r. render_log_section title (content r))) []"

definition review_workpad_fields ::
    "(string \<Rightarrow> json option) \<Rightarrow> (string \<Rightarrow> json option) \<Rightarrow> nat \<Rightarrow> TrackerIssue \<Rightarrow> ReviewJob \<Rightarrow>
     (panic, fields) result" where
  "review_workpad_fields parse_prefix read_artifact now issue job =
     and_then (review_gate_decision_for_issue job issue) (\<lambda>d.
     and_then (review_required_operator_actions job) (\<lambda>actions.
     and_then (render_gemini_health_section job) (\<lambda>health.
     and_then (usage_limit_section job) (\<lambda>usage_limit.
     let note = shown_note parse_prefix read_artifact job in
     Inr [(''generated_at'', format_gmt_timestamp now), (''issue_ref'', ti_identifier issue),
          (''issue_title'', ti_title issue), (''worker_key'', review_worker_key issue (rj_backend job)),
          (''reviewer_backend'', rj_backend job), (''run_id'', rj_id job),
          (''job_state'', job_state_debug (rj_state job)), (''decision'', rd_message d),
          (''target_state'', unwrap_or (rd_target_state d) ''none''),
          (''result'', outcome_debug (rd_outcome d)), (''pr_line'', review_pr_line issue),
          (''artifact_line'', (case rj_artifact_path job of
             Some path \<Rightarrow> ''- Artifact: `'' @ path @ ''`'' | None \<Rightarrow> ''- Artifact: `not recorded`'')),
          (''ledger_line'', (case rj_ledger_path job of
             Some path \<Rightarrow> ''- Review job ledger: `'' @ path @ ''`''
           | None \<Rightarrow> ''- Review job ledger: `not recorded`'')),
          (''boundary_comment_coverage'', ''not evaluated unless issue scope changes a non-obvious boundary''),
          (''rustdoc_coverage'', ''not evaluated unless issue scope changes Rust public API''),
          (''public_visibility_audit'', ''not evaluated unless issue scope changes Rust public API''),
          (''evidence_summary'', review_evidence_summary job), (''job_id'', rj_id job),
          (''attempt_details'', attempt_details job),
          (''operator_action_section'', (case actions of
             Some as \<Rightarrow> render_section ''Required Operator Action'' (join [NEWLINE] as) | None \<Rightarrow> [])),
          (''gemini_health_section'', health), (''usage_limit_section'', usage_limit),
          (''inconclusive_section'', inconclusive_section job), (''agent_review_note'', note),
          (''findings_section'', render_parsed_findings_section (rj_report job) (note \<noteq> NO_NOTE)),
          (''stdout_section'', report_log_section ''Stdout'' rp_stdout job),
          (''stderr_section'', report_log_section ''Stderr'' rp_stderr job),
          (''pass_evidence_section'', pass_evidence_section (rd_outcome d))]))))"

record ReviewRepeatedFailureEvidence =
  rr_repeat_count :: nat
  rr_first_job_id :: string
  rr_previous_job_id :: string
  rr_signature :: string

definition repeated_health_lines :: "GeminiReviewHealthDiagnostic option \<Rightarrow> string" where
  "repeated_health_lines health =
     (case health of
        None \<Rightarrow> []
      | Some d \<Rightarrow> join [NEWLINE]
          ([''- Review backend health: `'' @ health_category_as_str (gd_category d) @ ''` / `'' @
              recovery_policy_as_str (gd_recovery_policy d) @ ''`'',
            ''- Operator status: '' @ gd_operator_status d] @
           (case gd_retry_after_ms d of
              Some v \<Rightarrow> [''- Retry-after: `'' @ show_nat (unat v) @ ''ms`''] | None \<Rightarrow> [])))"

definition repeated_review_failure_fields ::
    "nat \<Rightarrow> TrackerIssue \<Rightarrow> ReviewJob \<Rightarrow> ReviewRepeatedFailureEvidence \<Rightarrow> (panic, fields) result" where
  "repeated_review_failure_fields now issue job repeat =
     and_then (review_gate_decision_for_actor job IndependentReviewAgent) (\<lambda>d.
     and_then (gemini_review_health_diagnostic job) (\<lambda>health.
     Inr [(''generated_at'', format_gmt_timestamp now), (''issue_ref'', ti_identifier issue),
          (''issue_title'', ti_title issue), (''worker_key'', review_worker_key issue (rj_backend job)),
          (''reviewer_backend'', rj_backend job), (''job_state'', job_state_debug (rj_state job)),
          (''job_id'', rj_id job), (''first_job_id'', rr_first_job_id repeat),
          (''previous_job_id'', rr_previous_job_id repeat),
          (''repeat_count'', show_nat (rr_repeat_count repeat)), (''signature'', rr_signature repeat),
          (''decision'', rd_message d), (''target_state'', unwrap_or (rd_target_state d) ''none''),
          (''ledger_line'', (case rj_ledger_path job of
             Some path \<Rightarrow> ''- Review job ledger: `'' @ path @ ''`'' | None \<Rightarrow> [])),
          (''gemini_health_lines'', repeated_health_lines health)]))"

subsection \<open>Facts: bounded text\<close>

lemma byte_prefix_Some: "byte_prefix n s = Some p \<Longrightarrow> utf8_len p \<le> n \<and> (\<exists>t. s = p @ t)"
  by (auto simp: byte_prefix_Some_iff)

lemma floor_char_boundary_prefix:
  "utf8_len (floor_char_boundary n s) \<le> n \<and> (\<exists>t. s = floor_char_boundary n s @ t)"
proof (induction n)
  case 0
  then show ?case by (simp add: floor_char_boundary.simps)
next
  case (Suc n)
  show ?case
  proof (cases "byte_prefix (Suc n) s")
    case None
    then have "floor_char_boundary (Suc n) s = floor_char_boundary n s"
      by (simp add: floor_char_boundary.simps [of "Suc n"])
    then show ?thesis using Suc.IH by auto
  next
    case (Some p)
    then have "floor_char_boundary (Suc n) s = p" by (simp add: floor_char_boundary.simps [of "Suc n"])
    then show ?thesis using byte_prefix_Some [OF Some] by auto
  qed
qed

lemma truncate_log_bounded: "utf8_len (truncate_log s) \<le> LOG_BLOCK_LIMIT + 18"
  using floor_char_boundary_prefix [of LOG_BLOCK_LIMIT s]
  by (auto simp: truncate_log_def utf8_len_char_def)

subsection \<open>Facts: escaped text\<close>

lemma split_at_char:
  "split_at_sub [c] [] = None"
  "split_at_sub [c] (d # t) =
     (if d = c then Some ([], t) else map_option (\<lambda>(a, b). (d # a, b)) (split_at_sub [c] t))"
  by (subst split_at_sub.simps; simp)+

lemma replace_char: "replace_sub [c] r s = concat (map (\<lambda>d. if d = c then r else [d]) s)"
proof (induction s)
  case Nil
  show ?case by (subst replace_sub.simps) (simp add: split_at_char)
next
  case (Cons d s)
  have "replace_sub [c] r (d # s) = (if d = c then r @ replace_sub [c] r s else d # replace_sub [c] r s)"
    by (subst (1 3) replace_sub.simps) (simp add: split_at_char split: option.split prod.split)
  then show ?case using Cons.IH by simp
qed

definition escape_html_char :: "char \<Rightarrow> string" where
  "escape_html_char c =
     (if c = CHR ''&'' then ''&amp;'' else if c = CHR ''<'' then ''&lt;''
      else if c = CHR ''>'' then ''&gt;'' else [c])"

lemma html_escape_chars: "html_escape_summary s = concat (map escape_html_char s)"
proof (induction s)
  case (Cons c s)
  then show ?case unfolding html_escape_summary_def replace_char by (simp add: escape_html_char_def)
qed (simp add: html_escape_summary_def replace_char)

text \<open>What the reviewer wrote cannot open or close an element, and nothing of it is lost.\<close>

lemma html_escape_no_markup: "CHR ''<'' \<notin> set (html_escape_summary s) \<and> CHR ''>'' \<notin> set (html_escape_summary s)"
  by (auto simp: html_escape_chars escape_html_char_def split: if_splits)

lemma html_escape_inject: "html_escape_summary s = html_escape_summary t \<longleftrightarrow> s = t"
proof
  show "html_escape_summary s = html_escape_summary t \<Longrightarrow> s = t"
    unfolding html_escape_chars
  proof (induction s arbitrary: t)
    case Nil
    then show ?case by (cases t) (auto simp: escape_html_char_def split: if_splits)
  next
    case (Cons c s)
    then show ?case by (cases t) (auto simp: escape_html_char_def split: if_splits)
  qed
qed simp

subsection \<open>Facts: what the workpad says of the gate\<close>

lemma render_section_Nil: "render_section title body = [] \<longleftrightarrow> blank body"
  by (simp add: render_section_def)

lemma pass_routing_note_not_blank: "\<not> blank (pass_routing_note b)"
  by (auto simp: trim_Nil_iff pass_routing_note_def is_whitespace_def)

lemma pass_evidence_section_Nil: "pass_evidence_section r = [] \<longleftrightarrow> \<not> is_passed r"
  by (simp add: pass_evidence_section_def render_section_Nil pass_routing_note_not_blank)

lemma workpad_lookup:
  assumes "review_workpad_fields parse_prefix read_artifact now issue job = Inr fs"
  shows "\<exists>d. review_gate_decision_for_issue job issue = Inr d \<and>
     map_of fs ''pass_evidence_section'' = Some (pass_evidence_section (rd_outcome d)) \<and>
     map_of fs ''target_state'' = Some (unwrap_or (rd_target_state d) ''none'')"
proof -
  from assms obtain d where d: "review_gate_decision_for_issue job issue = Inr d"
    by (auto simp: review_workpad_fields_def and_then_Inr_iff)
  with assms show ?thesis
    by (auto simp: review_workpad_fields_def and_then_Inr_iff Let_def)
qed

text \<open>C19: The evidence comment agrees with the gate: it carries a pass section exactly when the gate
  passed the run, it names the state the gate routes to, and a run that did not complete, whatever
  its reviewer printed, carries none.\<close>

theorem review_evidence_matches_gate:
  assumes "review_workpad_fields parse_prefix read_artifact now issue job = Inr fs"
  shows "\<exists>d. review_gate_decision_for_issue job issue = Inr d \<and>
     map_of fs ''target_state'' = Some (route (rd_outcome d)) \<and>
     (map_of fs ''pass_evidence_section'' \<noteq> Some [] \<longleftrightarrow> is_passed (rd_outcome d)) \<and>
     (rj_state job \<noteq> ReviewJobState.Completed \<longrightarrow> map_of fs ''pass_evidence_section'' = Some [])"
proof -
  obtain d where d: "review_gate_decision_for_issue job issue = Inr d"
    and p: "map_of fs ''pass_evidence_section'' = Some (pass_evidence_section (rd_outcome d))"
    and t: "map_of fs ''target_state'' = Some (unwrap_or (rd_target_state d) ''none'')"
    using workpad_lookup [OF assms] by auto
  have "\<not> is_passed (rd_outcome d)" if "rj_state job \<noteq> ReviewJobState.Completed"
    using d that failed_routed [of job]
    by (auto simp: review_gate_decision_for_issue_def review_gate_decision_def review_gate_decision_for_actor_def
        and_then_Inr_iff is_passed_def split: ReviewJobState.splits if_splits)
  moreover have "rd_target_state d = Some (route (rd_outcome d))"
    using issue_gate_routed [OF d] by (simp add: routed_def)
  ultimately show ?thesis using d p t pass_evidence_section_Nil by auto
qed

lemma completed_job_healthy:
  "rj_state job = ReviewJobState.Completed \<Longrightarrow> gemini_review_health_diagnostic job = Inr None"
  by (simp add: gemini_review_health_diagnostic_def Let_def)

lemma passing_workpad:
  "\<exists>fs. review_workpad_fields (\<lambda>_. None) (\<lambda>_. None) 0 issue passing_job = Inr fs"
proof -
  obtain d where "review_gate_decision_for_issue passing_job issue = Inr d"
    using completed_job_decided [OF passing_job_facts(1)] by blast
  moreover have "review_required_operator_actions passing_job = Inr None"
    by (simp add: review_required_operator_actions_def completed_job_healthy passing_job_facts(1) Let_def)
  moreover have "render_gemini_health_section passing_job = Inr []"
    by (simp add: render_gemini_health_section_def completed_job_healthy passing_job_facts(1))
  moreover have "review_usage_limit_pause passing_job = Inr None" by code_simp
  ultimately show ?thesis by (simp add: review_workpad_fields_def usage_limit_section_def Let_def)
qed

lemma passing_decision:
  assumes "\<not> is_native_subissue issue"
  shows "\<exists>d. review_gate_decision_for_issue passing_job issue = Inr d \<and> is_passed (rd_outcome d) \<and>
    rd_outcome d = PassedToHumanReview"
proof -
  obtain d where d: "review_gate_decision_for_issue passing_job issue = Inr d"
    using completed_job_decided [OF passing_job_facts(1)] by blast
  then have "is_passed (rd_outcome d)" using issue_gate_passes [OF d] passing_job_facts by blast
  moreover have "review_pass_target_state issue = ''human_review''" using assms by (simp add: review_pass_target_state_def)
  then have "rd_outcome d \<noteq> PassedToMerging"
    using d by (auto simp: review_gate_decision_for_issue_def review_gate_decision_def review_gate_decision_for_actor_def
        and_then_Inr_iff passing_job_facts(1) completed_decision_def split: option.splits if_splits)
  ultimately show ?thesis using d by (auto simp: is_passed_def)
qed

theorem review_evidence_matches_gate_witness:
  "\<exists>fs. review_workpad_fields (\<lambda>_. None) (\<lambda>_. None) 0 (sample_issue ''1'' ''Agent Review'') passing_job = Inr fs \<and>
     map_of fs ''target_state'' = Some ''human_review'' \<and> map_of fs ''pass_evidence_section'' \<noteq> Some []"
proof -
  let ?issue = "sample_issue ''1'' ''Agent Review''"
  obtain fs where fs: "review_workpad_fields (\<lambda>_. None) (\<lambda>_. None) 0 ?issue passing_job = Inr fs"
    using passing_workpad by blast
  have "\<not> is_native_subissue ?issue"
    by (simp add: is_native_subissue_def native_parent_identifier_def sample_issue_def)
  from passing_decision [OF this] obtain d where d: "review_gate_decision_for_issue passing_job ?issue = Inr d"
    "is_passed (rd_outcome d)" "rd_outcome d = PassedToHumanReview" by blast
  with review_evidence_matches_gate [OF fs] fs show ?thesis by (intro exI [of _ fs]) auto
qed

text \<open>Every pattern of an inconclusive review has an \<^verbatim>\<open>o\<close> or an \<^verbatim>\<open>n\<close>.\<close>

lemma inconclusive_text_letters:
  assumes "inconclusive_review_text_reason t = Some reason"
  shows "CHR ''o'' \<in> set (to_lowercase t) \<or> CHR ''n'' \<in> set (to_lowercase t)"
proof -
  let ?t = "single_line (to_lowercase t)"
  have found: "find q ps = Some x \<Longrightarrow> x \<in> set ps \<and> q x" for q ps and x :: string
    by (auto simp: find_Some_iff)
  obtain p where p: "p \<in> set (missing_evidence_patterns @ unable_to_review_patterns)" "contains ?t p"
    using assms unfolding inconclusive_review_text_reason_def Let_def
    by (auto split: if_splits option.splits dest: found)
  have "CHR ''o'' \<in> set p \<or> CHR ''n'' \<in> set p"
    using p(1) by (auto simp: missing_evidence_patterns_def unable_to_review_patterns_def)
  then show ?thesis using contains_subset [OF p(2)] single_line_subset [of "to_lowercase t"] by auto
qed

definition quoting_report :: AgentReviewReport where
  "quoting_report = (completed_report ''gemini-cli'' ''Review Result: Pass'' ''Review Result: Pass'' [] ''0'' None)
     \<lparr>rp_stderr := Some accented_rate_limit\<rparr>"

text \<open>The usage-limit classifier reads the output before the workpad asks whether it is needed: a
  passed run whose output quotes a long rate-limit message cannot be published.\<close>

definition quoting_job :: ReviewJob where
  "quoting_job = passing_job\<lparr>rj_report := Some quoting_report\<rparr>"

lemma quoting_report_passes: "report_passes quoting_report"
proof -
  have verdict: "has_parsed_review_result quoting_report" "\<not> blocks_progress quoting_report"
    "\<not> has_class ReviewFindingClass.NeedsContext (rp_findings quoting_report)" by code_simp+
  have "report_text quoting_report =
      ''Review Result: Pass'' @ NEWLINE # ''Review Result: Pass'' @ NEWLINE # ''rate limit '' @
      replicate 228 (CHR ''a'') @ [CHR 0xE9]"
    by (simp add: report_text_def quoting_report_def completed_report_def accented_rate_limit_def
        first_non_empty_line_def NEWLINE_def) code_simp
  then have "CHR ''o'' \<notin> set (to_lowercase (report_text quoting_report)) \<and>
      CHR ''n'' \<notin> set (to_lowercase (report_text quoting_report))"
    by (simp add: to_lowercase_def lower_char_def NEWLINE_def text_eval)
  then have "inconclusive_review_text_reason (report_text quoting_report) = None"
    using inconclusive_text_letters by fastforce
  then show ?thesis
    using verdict by (simp add: report_passes_def is_inconclusive_def inconclusive_reason_def
        legacy_backend_missing_review_result_def)
qed

theorem passed_run_cannot_be_published:
  "(\<exists>d. review_gate_decision_for_issue quoting_job (sample_issue ''1'' ''Agent Review'') = Inr d \<and>
     is_passed (rd_outcome d)) \<and>
   review_workpad_fields parse_prefix read_artifact now (sample_issue ''1'' ''Agent Review'') quoting_job =
     Inl (ByteIndexNotCharBoundary 240)"
proof
  let ?issue = "sample_issue ''1'' ''Agent Review''"
  have completed: "rj_state quoting_job = ReviewJobState.Completed"
    by (simp add: quoting_job_def passing_job_facts(1))
  obtain d where d: "review_gate_decision_for_issue quoting_job ?issue = Inr d"
    using completed_job_decided [OF completed] by blast
  have "is_passed (rd_outcome d)"
    using issue_gate_passes [OF d] completed quoting_report_passes by (simp add: quoting_job_def)
  with d show "\<exists>d. review_gate_decision_for_issue quoting_job ?issue = Inr d \<and> is_passed (rd_outcome d)" by blast
  have "rj_error quoting_job = None" "rj_report quoting_job = Some quoting_report"
    "rp_stderr quoting_report = Some accented_rate_limit"
    by (simp_all add: quoting_job_def passing_job_def quoting_report_def)
  then have "review_usage_limit_pause quoting_job = Inl (ByteIndexNotCharBoundary 240)"
    by (simp add: review_usage_limit_pause_def usage_limit_classifier_can_panic)
  moreover have "review_required_operator_actions quoting_job = Inr None"
    by (simp add: review_required_operator_actions_def completed_job_healthy completed Let_def)
  moreover have "render_gemini_health_section quoting_job = Inr []"
    by (simp add: render_gemini_health_section_def completed_job_healthy completed)
  ultimately show "review_workpad_fields parse_prefix read_artifact now ?issue quoting_job =
      Inl (ByteIndexNotCharBoundary 240)"
    using d by (simp add: review_workpad_fields_def usage_limit_section_def)
qed

end
