(* ===== verification/Review_Checklist.thy ===== *)
theory Review_Checklist
  imports Review_Workpad
begin

section \<open>The checklist of an issue (\<^verbatim>\<open>src/lanes/review/automatic.rs\<close>)\<close>

text \<open>
  The body of an issue without the evidence attached to it, and the update that ticks, after a
  passed review, the boxes of the sections the review agent owns. Fenced blocks are left alone.
\<close>

subsection \<open>Definitions\<close>

definition before_marker :: "string \<Rightarrow> string \<Rightarrow> string" where
  "before_marker marker s = (case split_at_sub marker s of None \<Rightarrow> s | Some (before, _) \<Rightarrow> before)"

definition canonical_issue_body_without_workpad :: "string \<Rightarrow> string" where
  "canonical_issue_body_without_workpad description =
     trim_end (before_marker ''<!-- shea-symphony-workpad -->''
       (before_marker ''<!-- shea-symphony-attached-evidence -->'' description))"

definition markdown_heading_title :: "string \<Rightarrow> string option" where
  "markdown_heading_title line =
     (if is_heading line
      then Some (trim (trim_matches (\<lambda>c. c = CHR ''#'') (trim (drop (heading_len line) line))))
      else None)"

definition review_checklist_section_is_agent_owned :: "string \<Rightarrow> bool" where
  "review_checklist_section_is_agent_owned section_title \<longleftrightarrow>
     to_ascii_lowercase section_title \<in>
       {''expected outcome'', ''completion criteria'', ''functional verification'', ''context verification''}"

definition check_markdown_checkbox_line :: "string \<Rightarrow> string" where
  "check_markdown_checkbox_line line =
     (let trimmed = trim_start line in
      if \<not> (starts_with trimmed ''- [ ]'' \<or> starts_with trimmed ''* [ ]'') then line
      else case split_at_sub ''[ ]'' line of None \<Rightarrow> line | Some (a, b) \<Rightarrow> a @ ''[x]'' @ b)"

definition is_fence :: "string \<Rightarrow> bool" where
  "is_fence line \<longleftrightarrow> starts_with (trim_start line) [BACKTICK, BACKTICK, BACKTICK]"

text \<open>The section a line is in, from the section of the line before it.\<close>

definition section_at :: "string \<Rightarrow> bool \<Rightarrow> bool" where
  "section_at line in_review_section =
     (case markdown_heading_title (trim_start line) of
        Some title \<Rightarrow> review_checklist_section_is_agent_owned title | None \<Rightarrow> in_review_section)"

fun check_lines :: "bool \<Rightarrow> bool \<Rightarrow> string list \<Rightarrow> string list" where
  "check_lines in_fence in_review_section [] = []"
| "check_lines in_fence in_review_section (line # rest) =
     (if is_fence line then line # check_lines (\<not> in_fence) in_review_section rest
      else if in_fence then line # check_lines in_fence in_review_section rest
      else (let owned = section_at line in_review_section in
            (if owned then check_markdown_checkbox_line line else line) # check_lines in_fence owned rest))"

definition check_review_verified_issue_body_checkboxes :: "string \<Rightarrow> string" where
  "check_review_verified_issue_body_checkboxes body =
     join [NEWLINE] (check_lines False False (lines body)) @
     (if ends_with body [NEWLINE] then [NEWLINE] else [])"

subsection \<open>Facts: lines\<close>

lemma join_split_on: "join [c] (split_on c s) = s"
proof (induction s)
  case (Cons d s)
  have "split_on c s \<noteq> []" by (cases s) (auto split: list.splits)
  then obtain p ps where "split_on c s = p # ps" by (cases "split_on c s") auto
  then show ?case using Cons.IH by (cases ps) auto
qed simp

lemma split_on_join:
  assumes "xs \<noteq> []" and "\<forall>x \<in> set xs. c \<notin> set x"
  shows "split_on c (join [c] xs) = xs"
proof -
  have head: "split_on c (x @ c # s) = x # split_on c s" if "c \<notin> set x" for x s
    using that by (induction x) auto
  have single: "split_on c x = [x]" if "c \<notin> set x" for x
    using that by (induction x) auto
  show ?thesis
    using assms by (induction xs rule: induct_list012) (simp_all add: head single)
qed

lemma set_split_on: "p \<in> set (split_on c s) \<Longrightarrow> set p \<subseteq> set s"
proof (induction s arbitrary: p)
  case (Cons d s)
  then show ?case by (fastforce split: if_splits list.splits)
qed simp

lemma join_snoc: "xs \<noteq> [] \<Longrightarrow> join sep (xs @ [x]) = join sep xs @ sep @ x"
  by (induction sep xs rule: join.induct) auto

subsection \<open>Facts: ticking\<close>

text \<open>Ticking changes nothing but spaces into crosses.\<close>

definition ticks :: "string \<Rightarrow> string \<Rightarrow> bool" where
  "ticks = list_all2 (\<lambda>a b. b = a \<or> a = CHR '' '' \<and> b = CHR ''x'')"

lemma ticks_refl [simp]: "ticks s s"
  by (simp add: ticks_def list_all2_refl)

lemma ticks_append: "ticks a b \<Longrightarrow> ticks c d \<Longrightarrow> ticks (a @ c) (b @ d)"
  by (simp add: ticks_def list_all2_appendI)

lemma ticks_set: "ticks a b \<Longrightarrow> set b \<subseteq> insert (CHR ''x'') (set a)"
  unfolding ticks_def by (induction rule: list_all2_induct) auto

lemma ticks_join: "list_all2 ticks xs ys \<Longrightarrow> ticks (join sep xs) (join sep ys)"
proof (induction sep xs arbitrary: ys rule: join.induct)
  case (3 sep s t ts)
  then obtain s' t' ts' where ys: "ys = s' # t' # ts'" by (auto simp: list_all2_Cons1)
  then show ?case using "3.IH" [of "t' # ts'"] "3.prems" by (simp add: ticks_append)
qed (auto simp: list_all2_Cons1)

lemma check_line_ticks: "ticks line (check_markdown_checkbox_line line)"
proof -
  have "ticks (a @ ''[ ]'' @ b) (a @ ''[x]'' @ b)" for a b
    by (intro ticks_append ticks_refl) (simp add: ticks_def)
  then show ?thesis
    by (auto simp: check_markdown_checkbox_line_def Let_def dest!: split_at_sub_Some split: option.split)
qed

lemma check_lines_ticks: "list_all2 ticks xs (check_lines f o' xs)"
  by (induction f o' xs rule: check_lines.induct) (simp_all add: Let_def check_line_ticks)

lemma check_lines_length: "length (check_lines f o' xs) = length xs"
  using check_lines_ticks list_all2_lengthD by metis

text \<open>A line that is ticked is a box of a list.\<close>

lemma check_line_cases:
  "check_markdown_checkbox_line line = line \<or>
   (\<exists>ws c rest. line = ws @ c # '' [ ]'' @ rest \<and> (\<forall>w \<in> set ws. is_whitespace w) \<and> c \<in> {CHR ''-'', CHR ''*''} \<and>
      check_markdown_checkbox_line line = ws @ c # '' [x]'' @ rest)"
proof (cases "starts_with (trim_start line) ''- [ ]'' \<or> starts_with (trim_start line) ''* [ ]''")
  case True
  then obtain c rest where t: "trim_start line = c # '' [ ]'' @ rest" and c: "c \<in> {CHR ''-'', CHR ''*''}"
    by (auto simp: starts_with_def strip_prefix_Some_iff)
  let ?ws = "takeWhile is_whitespace line"
  have line: "line = ?ws @ c # '' [ ]'' @ rest"
    using t takeWhile_dropWhile_id [of is_whitespace line] by (simp add: trim_start_def trim_start_matches_def)
  have ws: "\<forall>w \<in> set ?ws. is_whitespace w" by (auto dest: set_takeWhileD)
  have "CHR ''['' \<notin> set (?ws @ c # '' '')" using ws c by (auto simp: is_whitespace_def)
  from split_at_sub_first [OF this, of "'' ]''" rest]
  have "split_at_sub ''[ ]'' line = Some (?ws @ c # '' '', rest)" using line by simp
  then have "check_markdown_checkbox_line line = ?ws @ c # '' [x]'' @ rest"
    using True by (auto simp: check_markdown_checkbox_line_def Let_def)
  then show ?thesis using line ws c by blast
qed (simp add: check_markdown_checkbox_line_def Let_def)

lemma trim_start_box:
  "\<forall>w \<in> set ws. is_whitespace w \<Longrightarrow> c \<in> {CHR ''-'', CHR ''*''} \<Longrightarrow> trim_start (ws @ c # t) = c # t"
  by (auto simp: trim_start_def trim_start_matches_def dropWhile_append2 is_whitespace_def)

lemma box_not_heading: "c \<in> {CHR ''-'', CHR ''*''} \<Longrightarrow> markdown_heading_title (c # t) = None"
  by (auto simp: markdown_heading_title_def is_heading_def heading_len_def)

lemma check_line_kind:
  "is_fence (check_markdown_checkbox_line line) = is_fence line"
  "section_at (check_markdown_checkbox_line line) owned = section_at line owned"
  "check_markdown_checkbox_line (check_markdown_checkbox_line line) = check_markdown_checkbox_line line"
  using check_line_cases [of line]
  by (auto simp: is_fence_def section_at_def trim_start_box box_not_heading starts_with_def BACKTICK_def
      check_markdown_checkbox_line_def [of "_ @ _"] Let_def)

lemma check_lines_settles: "check_lines f owned (check_lines f owned xs) = check_lines f owned xs"
proof (induction f owned xs rule: check_lines.induct)
  case (2 f owned line rest)
  show ?case
  proof (cases "is_fence line \<or> f")
    case True
    then show ?thesis using "2.IH"(1,2) by auto
  next
    case False
    then have "check_lines False (section_at line owned) (check_lines False (section_at line owned) rest) =
        check_lines False (section_at line owned) rest" using "2.IH"(3) by simp
    then show ?thesis using False by (cases "section_at line owned") (simp_all add: Let_def check_line_kind)
  qed
qed simp

lemma check_lines_Nil_line: "check_lines f owned (xs @ [[]]) = check_lines f owned xs @ [[]]"
proof -
  have "\<not> is_fence []" "check_markdown_checkbox_line [] = []"
    by (simp_all add: is_fence_def trim_start_def trim_start_matches_def starts_with_def check_markdown_checkbox_line_def)
  then show ?thesis
    by (induction f owned xs rule: check_lines.induct) (simp_all add: Let_def)
qed

text \<open>Without carriage returns, the update works on the pieces between line feeds.\<close>

lemma check_body_pieces:
  assumes "char_of (13::nat) \<notin> set body"
  shows "check_review_verified_issue_body_checkboxes body =
    join [NEWLINE] (check_lines False False (split_on NEWLINE body))"
proof -
  let ?ps = "split_on NEWLINE body"
  have cr: "strip_cr p = p" if "p \<in> set ?ps" for p
    using set_split_on [OF that] assms by (auto simp: strip_cr_def dest: last_in_set)
  have butlast: "map strip_cr (butlast ?ps) = butlast ?ps"
    by (rule map_idI) (use cr in \<open>auto dest: in_set_butlastD\<close>)
  have ls: "lines body = butlast ?ps @ (if last ?ps = [] then [] else [last ?ps])"
    unfolding lines_def Let_def NEWLINE_def [symmetric] butlast by simp
  have body: "body = join [NEWLINE] ?ps" by (simp add: join_split_on)
  show ?thesis
  proof (cases "last ?ps = []")
    case True
    then have ps: "?ps = butlast ?ps @ [[]]" using append_butlast_last_id [of ?ps] by simp
    have ends: "ends_with body [NEWLINE] \<longleftrightarrow> butlast ?ps \<noteq> []"
    proof (cases "butlast ?ps = []")
      case True
      then have "body = []" using body ps by simp
      then show ?thesis using True by (simp add: ends_with_iff)
    next
      case False
      then have "body = join [NEWLINE] (butlast ?ps) @ [NEWLINE]"
        using body ps join_snoc [of "butlast ?ps" "[NEWLINE]" "[]"] by simp
      then show ?thesis using False by (auto simp: ends_with_iff)
    qed
    have "check_lines False False ?ps = check_lines False False (butlast ?ps) @ [[]]"
      by (subst ps) (rule check_lines_Nil_line)
    moreover have "check_lines False False (butlast ?ps) = [] \<longleftrightarrow> butlast ?ps = []"
      using check_lines_length [of False False "butlast ?ps"] by (metis length_0_conv)
    ultimately show ?thesis
      using True ends join_snoc [of "check_lines False False (butlast ?ps)" "[NEWLINE]" "[]"]
      by (auto simp: check_review_verified_issue_body_checkboxes_def ls simp del: check_lines.simps)
  next
    case False
    then have l: "lines body = ?ps" using ls by simp
    have "\<not> ends_with body [NEWLINE]"
    proof
      assume "ends_with body [NEWLINE]"
      then have "last body = NEWLINE" by (auto simp: ends_with_iff)
      moreover have "last body = last (last ?ps)"
      proof (cases "butlast ?ps = []")
        case True
        then have "?ps = [last ?ps]" using append_butlast_last_id [of ?ps] by simp
        then show ?thesis using body by (metis join.simps(2))
      next
        case nonempty: False
        then have "body = join [NEWLINE] (butlast ?ps) @ [NEWLINE] @ last ?ps"
          using body join_snoc [of "butlast ?ps" "[NEWLINE]" "last ?ps"] append_butlast_last_id [of ?ps] by simp
        then show ?thesis using False by (metis append_assoc last_appendR)
      qed
      ultimately show False
        using split_on_free [of "last ?ps" NEWLINE body] False by (metis last_in_set split_on_not_Nil)
    qed
    then show ?thesis by (simp add: check_review_verified_issue_body_checkboxes_def l)
  qed
qed

lemma newline_not_x: "NEWLINE \<noteq> CHR ''x''"
  by code_simp

lemma checked_pieces:
  assumes "char_of (13::nat) \<notin> set body"
  shows "split_on NEWLINE (check_review_verified_issue_body_checkboxes body) =
    check_lines False False (split_on NEWLINE body)"
proof -
  let ?ps = "split_on NEWLINE body"
  let ?qs = "check_lines False False ?ps"
  have "\<forall>q \<in> set ?qs. NEWLINE \<notin> set q"
  proof
    fix q assume "q \<in> set ?qs"
    then obtain p where "p \<in> set ?ps" "ticks p q"
      using check_lines_ticks [of ?ps False False] by (metis in_set_conv_nth list_all2_conv_all_nth)
    then show "NEWLINE \<notin> set q"
      using split_on_free [of p NEWLINE body] ticks_set [of p q] newline_not_x by blast
  qed
  moreover have "?qs \<noteq> []" using check_lines_length [of False False ?ps] by (metis length_0_conv split_on_not_Nil)
  ultimately show ?thesis by (simp add: check_body_pieces [OF assms] split_on_join)
qed

lemma checked_ticks:
  assumes "char_of (13::nat) \<notin> set body"
  shows "ticks body (check_review_verified_issue_body_checkboxes body) \<and>
    check_review_verified_issue_body_checkboxes (check_review_verified_issue_body_checkboxes body) =
      check_review_verified_issue_body_checkboxes body"
proof
  let ?ps = "split_on NEWLINE body"
  show ticks: "ticks body (check_review_verified_issue_body_checkboxes body)"
    using ticks_join [OF check_lines_ticks, of "[NEWLINE]" ?ps]
    by (simp add: check_body_pieces [OF assms] join_split_on)
  have "char_of (13::nat) \<noteq> CHR ''x''" by code_simp
  then have "char_of (13::nat) \<notin> set (check_review_verified_issue_body_checkboxes body)"
    using ticks_set [OF ticks] assms by auto
  from check_body_pieces [OF this] checked_pieces [OF assms]
  show "check_review_verified_issue_body_checkboxes (check_review_verified_issue_body_checkboxes body) =
      check_review_verified_issue_body_checkboxes body"
    by (simp add: check_lines_settles check_body_pieces [OF assms])
qed

text \<open>Where a line stands, without the state of the loop: in a fenced block, under a heading, in a
  section that is the agent's.\<close>

definition fenced_at :: "bool \<Rightarrow> string list \<Rightarrow> nat \<Rightarrow> bool" where
  "fenced_at f xs i \<longleftrightarrow> f \<noteq> odd (length (filter is_fence (take i xs)))"

definition title_at :: "bool \<Rightarrow> string list \<Rightarrow> nat \<Rightarrow> string option" where
  "title_at f xs i =
     (if fenced_at f xs i \<or> is_fence (xs ! i) then None else markdown_heading_title (trim_start (xs ! i)))"

definition under_agent_heading :: "bool \<Rightarrow> string list \<Rightarrow> nat \<Rightarrow> bool" where
  "under_agent_heading f xs i \<longleftrightarrow>
     (\<exists>j \<le> i. (\<exists>t. title_at f xs j = Some t \<and> review_checklist_section_is_agent_owned t) \<and>
        (\<forall>k. j < k \<and> k \<le> i \<longrightarrow> title_at f xs k = None))"

lemma fenced_at_Cons [simp]: "fenced_at f (l # xs) 0 = f" "fenced_at f (l # xs) (Suc i) = fenced_at (f \<noteq> is_fence l) xs i"
  by (auto simp: fenced_at_def)

lemma title_at_Cons [simp]:
  "title_at f (l # xs) 0 = (if f \<or> is_fence l then None else markdown_heading_title (trim_start l))"
  "title_at f (l # xs) (Suc i) = title_at (f \<noteq> is_fence l) xs i"
  by (simp_all add: title_at_def)

lemma under_agent_heading_Suc:
  "under_agent_heading (f \<noteq> is_fence l) xs i \<Longrightarrow> under_agent_heading f (l # xs) (Suc i)"
  unfolding under_agent_heading_def
proof (elim exE conjE)
  fix j t
  assume "j \<le> i" "title_at (f \<noteq> is_fence l) xs j = Some t" "review_checklist_section_is_agent_owned t"
    and "\<forall>k. j < k \<and> k \<le> i \<longrightarrow> title_at (f \<noteq> is_fence l) xs k = None"
  then show "\<exists>j \<le> Suc i. (\<exists>t. title_at f (l # xs) j = Some t \<and> review_checklist_section_is_agent_owned t) \<and>
      (\<forall>k. j < k \<and> k \<le> Suc i \<longrightarrow> title_at f (l # xs) k = None)"
    by (intro exI [of _ "Suc j"]) (auto simp: Suc_less_eq2)
qed

lemma no_title_Suc:
  assumes "title_at f (l # xs) 0 = None" and "\<forall>k \<le> i. title_at (f \<noteq> is_fence l) xs k = None"
  shows "\<forall>k \<le> Suc i. title_at f (l # xs) k = None"
proof (intro allI impI)
  fix k assume "k \<le> Suc i"
  then show "title_at f (l # xs) k = None" using assms by (cases k) auto
qed

lemma check_lines_where:
  assumes "i < length xs" and "check_lines f owned xs ! i \<noteq> xs ! i"
  shows "check_lines f owned xs ! i = check_markdown_checkbox_line (xs ! i) \<and> \<not> fenced_at f xs i \<and>
    (under_agent_heading f xs i \<or> owned \<and> (\<forall>k \<le> i. title_at f xs k = None))"
  using assms
proof (induction f owned xs arbitrary: i rule: check_lines.induct)
  case (2 f owned l xs)
  define owned' where "owned' = (if is_fence l \<or> f then owned else section_at l owned)"
  have tail: "check_lines f owned (l # xs) ! Suc k = check_lines (f \<noteq> is_fence l) owned' xs ! k" for k
    by (auto simp: owned'_def Let_def)
  have IH: "k < length xs \<Longrightarrow> check_lines (f \<noteq> is_fence l) owned' xs ! k \<noteq> xs ! k \<Longrightarrow>
      check_lines (f \<noteq> is_fence l) owned' xs ! k = check_markdown_checkbox_line (xs ! k) \<and>
      \<not> fenced_at (f \<noteq> is_fence l) xs k \<and>
      (under_agent_heading (f \<noteq> is_fence l) xs k \<or>
       owned' \<and> (\<forall>j \<le> k. title_at (f \<noteq> is_fence l) xs j = None))" for k
    using "2.IH"(1) [of k] "2.IH"(2) [of k] "2.IH"(3) [OF _ _ refl, of k]
    by (cases "is_fence l"; cases f) (simp_all add: owned'_def)
  show ?case
  proof (cases i)
    case 0
    then have changed: "\<not> is_fence l" "\<not> f" "section_at l owned"
      "check_lines f owned (l # xs) ! i = check_markdown_checkbox_line l" "check_markdown_checkbox_line l \<noteq> l"
      using "2.prems"(2) by (auto simp: Let_def split: if_splits)
    from check_line_cases [of l] changed(5) have "markdown_heading_title (trim_start l) = None"
      by (auto simp: trim_start_box box_not_heading)
    with changed 0 show ?thesis by (simp add: section_at_def)
  next
    case (Suc k)
    have IHk: "check_lines (f \<noteq> is_fence l) owned' xs ! k = check_markdown_checkbox_line (xs ! k)"
      "\<not> fenced_at (f \<noteq> is_fence l) xs k"
      "under_agent_heading (f \<noteq> is_fence l) xs k \<or>
       owned' \<and> (\<forall>j \<le> k. title_at (f \<noteq> is_fence l) xs j = None)"
      using IH [of k] "2.prems" unfolding Suc tail by auto
    have "under_agent_heading f (l # xs) i \<or> owned \<and> (\<forall>j \<le> i. title_at f (l # xs) j = None)"
    proof (cases "title_at f (l # xs) 0")
      case None
      then have "owned' = owned" by (auto simp: owned'_def section_at_def)
      then show ?thesis
        using IHk(3) under_agent_heading_Suc [of f l xs k] no_title_Suc [OF None] unfolding Suc by blast
    next
      case (Some t)
      then have o: "owned' = review_checklist_section_is_agent_owned t"
        by (auto simp: owned'_def section_at_def split: if_splits)
      have "under_agent_heading f (l # xs) (Suc k)"
        if "owned'" and none: "\<forall>j \<le> k. title_at (f \<noteq> is_fence l) xs j = None"
        unfolding under_agent_heading_def
        by (rule exI [of _ 0]) (use Some o that in \<open>auto simp: gr0_conv_Suc simp del: title_at_Cons(1)\<close>)
      then show ?thesis using IHk(3) under_agent_heading_Suc [of f l xs k] unfolding Suc by blast
    qed
    then show ?thesis using IHk(1,2) unfolding Suc tail by simp
  qed
qed simp

lemma check_line_boxes:
  "check_markdown_checkbox_line line \<noteq> line \<Longrightarrow>
   \<exists>before rest. trim_start line \<in> {''- [ ]'' @ rest, ''* [ ]'' @ rest} \<and>
     line = before @ ''[ ]'' @ rest \<and> check_markdown_checkbox_line line = before @ ''[x]'' @ rest"
  using check_line_cases [of line]
  by (elim disjE exE conjE) (simp, rule_tac x = "ws @ [c, CHR '' '']" in exI, rule_tac x = rest in exI, auto simp: trim_start_box)

text \<open>C18: The checklist update of a passed review touches only what the agent may tick: on a body without
  carriage returns it changes nothing but blanks into crosses; a line that it changes is a list box that
  is ticked, stands outside of fenced blocks and has one of the agent's headings as the nearest heading
  above; and once the update is done it has nothing left to change, so its read-back can succeed.\<close>

theorem checklist_update_only_ticks:
  assumes "char_of (13::nat) \<notin> set body"
  shows "ticks body (check_review_verified_issue_body_checkboxes body) \<and>
    (\<forall>i < length (split_on NEWLINE body).
       let line = split_on NEWLINE body ! i;
           line' = split_on NEWLINE (check_review_verified_issue_body_checkboxes body) ! i
       in line' = line \<or>
          \<not> fenced_at False (split_on NEWLINE body) i \<and> under_agent_heading False (split_on NEWLINE body) i \<and>
          (\<exists>before rest. trim_start line \<in> {''- [ ]'' @ rest, ''* [ ]'' @ rest} \<and>
             line = before @ ''[ ]'' @ rest \<and> line' = before @ ''[x]'' @ rest)) \<and>
    check_review_verified_issue_body_checkboxes (check_review_verified_issue_body_checkboxes body) =
      check_review_verified_issue_body_checkboxes body"
proof (intro conjI allI impI)
  fix i assume i: "i < length (split_on NEWLINE body)"
  let ?xs = "split_on NEWLINE body"
  have ys: "split_on NEWLINE (check_review_verified_issue_body_checkboxes body) = check_lines False False ?xs"
    by (rule checked_pieces [OF assms])
  show "let line = ?xs ! i; line' = split_on NEWLINE (check_review_verified_issue_body_checkboxes body) ! i
      in line' = line \<or> \<not> fenced_at False ?xs i \<and> under_agent_heading False ?xs i \<and>
         (\<exists>before rest. trim_start line \<in> {''- [ ]'' @ rest, ''* [ ]'' @ rest} \<and>
            line = before @ ''[ ]'' @ rest \<and> line' = before @ ''[x]'' @ rest)"
  proof (cases "check_lines False False ?xs ! i = ?xs ! i")
    case False
    from check_lines_where [OF i this]
    have at: "check_lines False False ?xs ! i = check_markdown_checkbox_line (?xs ! i)" "\<not> fenced_at False ?xs i"
      "under_agent_heading False ?xs i" by blast+
    then have "check_markdown_checkbox_line (?xs ! i) \<noteq> ?xs ! i" using False by simp
    from check_line_boxes [OF this] show ?thesis unfolding ys at(1) Let_def using at(2,3) by blast
  qed (simp add: ys Let_def)
qed (use checked_ticks [OF assms] in blast)+

text \<open>One box is the agent's, one is a human's.\<close>

definition sample_body :: string where
  "sample_body = ''## Completion Criteria'' @ NEWLINE # ''- [ ] done'' @ NEWLINE # ''## UAT'' @ NEWLINE # ''- [ ] tried''"

theorem checklist_update_only_ticks_witness:
  "ticks sample_body (check_review_verified_issue_body_checkboxes sample_body) \<and>
   check_review_verified_issue_body_checkboxes sample_body =
     ''## Completion Criteria'' @ NEWLINE # ''- [x] done'' @ NEWLINE # ''## UAT'' @ NEWLINE # ''- [ ] tried''"
proof
  have "char_of (13::nat) \<notin> set sample_body" by code_simp
  from checklist_update_only_ticks [OF this]
  show "ticks sample_body (check_review_verified_issue_body_checkboxes sample_body)" by blast
  show "check_review_verified_issue_body_checkboxes sample_body =
     ''## Completion Criteria'' @ NEWLINE # ''- [x] done'' @ NEWLINE # ''## UAT'' @ NEWLINE # ''- [ ] tried''"
    by code_simp
qed

end
