(* ===== verification/Review_Publication.thy ===== *)
theory Review_Publication
  imports Review_Workpad Review_Checklist Lane_Pool Effects Paths "HOL-Library.AList"
begin

section \<open>Publishing a review (\<^verbatim>\<open>src/lanes/review/publication.rs\<close>, \<^verbatim>\<open>automatic.rs\<close>)\<close>

text \<open>
  What happens to the result of a review run: it is kept in a receipt on disk, its evidence is
  written to the timeline, the claim of the run is closed, the checklist of a passed issue is
  ticked and the issue is routed. Between any two of these steps the issue is read again, and a
  result that no longer fits it is superseded.

  The world is the tracker, the receipts and job ledgers on disk, the locks this process holds,
  the audit of the mutations, and everything else (clock, file-system faults, processes).
  Reading an issue may change the tracker, for others work on it at the same time; only the
  read-back inside one mutation with recovery sees it as the mutation left it. A receipt file
  holds a receipt, or text that is not one with the reader's message. Printed lines are left out.
\<close>

subsection \<open>Receipts\<close>

datatype PublicationState = Starting | Running | ResultReady | EvidencePublished | Complete | Superseded

record ReviewPublication =
  pb_schema_version :: u32
  pb_issue :: TrackerIssue
  pb_claim :: "string option"
  pb_job :: "ReviewJob option"
  pb_state :: PublicationState
  pb_runtime_revision :: string
  pb_prompt_fingerprint :: "string option"
  pb_workspace :: "string option"
  pb_evidence :: "string option"
  pb_diagnostic :: "string option"

definition publication_new :: "string \<Rightarrow> TrackerIssue \<Rightarrow> LaneClaim option \<Rightarrow> ReviewPublication" where
  "publication_new revision issue claim =
     \<lparr>pb_schema_version = 1, pb_issue = issue, pb_claim = map_option claim_render claim, pb_job = None,
      pb_state = PublicationState.Starting, pb_runtime_revision = revision, pb_prompt_fingerprint = None,
      pb_workspace = None, pb_evidence = None, pb_diagnostic = None\<rparr>"

text \<open>A receipt's place: the directory of its issue and the file in it.\<close>

type_synonym place = "string \<times> string"
type_synonym receipt_file = "(string, ReviewPublication) result"

definition issue_root :: "RuntimeConfig \<Rightarrow> string \<Rightarrow> string" where
  "issue_root config issue_ref =
     path_join (path_join (path_join (obs_logs_root (rc_observability config)) ''reviews'') ''publications'')
       (safe_identifier issue_ref)"

definition publication_path :: "RuntimeConfig \<Rightarrow> string \<Rightarrow> LaneClaim option \<Rightarrow> string \<Rightarrow> place" where
  "publication_path config issue_ref claim job_id =
     (issue_root config issue_ref,
      safe_identifier (unwrap_or (map_option cl_run claim) job_id) @ ''.json'')"

definition publication_read :: "receipt_file \<Rightarrow> (string, ReviewPublication) result" where
  "publication_read file =
     and_then file (\<lambda>receipt.
       if pb_schema_version receipt \<noteq> 1 then Inl ''unsupported Review publication schema'' else Inr receipt)"

definition require_terminal :: "ReviewPublication \<Rightarrow> (string, ReviewJob) result" where
  "require_terminal receipt =
     (case filter_option review_job_is_terminal (pb_job receipt) of
        Some job \<Rightarrow> Inr job
      | None \<Rightarrow> Inl ''Review has no captured terminal result; preserve the claim and artifacts for Doctor triage; recovery does not launch a backend'')"

subsection \<open>World and environment\<close>

datatype review_failure =
    ReviewFailed string
  | Panicked panic
  | TemplatePanicked string
  | ReviewNeverReturns

record ('t, 'g) review_world =
  rw_tracker :: 't
  rw_outside :: 'g
  rw_receipts :: "string \<rightharpoonup> (string \<times> receipt_file) list"
  rw_ledgers :: ledger_dir
  rw_locks :: "string set"
  rw_audits :: "TrackerMutationAudit list"

type_synonym ('t, 'g, 'a) review = "(('t, 'g) review_world, review_failure, 'a) io"

text \<open>\<open>re_write\<close> is what may fail when a file is written, \<open>re_list\<close> when a directory is read and
  \<open>re_lock\<close> when a lock file is locked (another process may hold it); \<open>re_ledger\<close> is the same for
  the job ledgers. \<open>re_render\<close> renders a workpad template from its fields.\<close>

record ('t, 'g) ReviewEnv =
  re_adapter :: "'t TrackerAdapter"
  re_get_issue :: "'t \<Rightarrow> string \<Rightarrow> (TrackerError, TrackerIssue option) result \<times> 't"
  re_update_content :: "'t \<Rightarrow> string \<Rightarrow> string \<Rightarrow> string \<Rightarrow> (TrackerError, unit) result \<times> 't"
  re_clear_field :: "'t \<Rightarrow> string \<Rightarrow> string \<Rightarrow> (TrackerError, unit) result \<times> 't"
  re_issues_by_state :: "'t \<Rightarrow> string \<Rightarrow> (TrackerError, TrackerIssue list) result \<times> 't"
  re_write :: "place \<Rightarrow> ('g, string, unit) io"
  re_list :: "string \<Rightarrow> ('g, string, unit) io"
  re_lock :: "string \<Rightarrow> ('g, string, unit) io"
  re_ledger :: "'g \<Rightarrow> LedgerIo \<times> 'g"
  re_clock_ms :: "'g \<Rightarrow> u64 \<times> 'g"
  re_revision :: string
  re_render :: "string \<Rightarrow> fields \<Rightarrow> ('g, string, string) io"
  re_parse_prefix :: "string \<Rightarrow> json option"
  re_read_artifact :: "'g \<Rightarrow> string \<Rightarrow> json option"
  re_json_text :: "json \<Rightarrow> string"

definition review_failed :: "(string, 'a) result \<Rightarrow> (review_failure, 'a) result" where
  "review_failed r = (case r of Inl e \<Rightarrow> Inl (ReviewFailed e) | Inr a \<Rightarrow> Inr a)"

definition may_panic :: "(panic, 'a) result \<Rightarrow> (review_failure, 'a) result" where
  "may_panic r = (case r of Inl p \<Rightarrow> Inl (Panicked p) | Inr a \<Rightarrow> Inr a)"

definition on_tracker :: "('t \<Rightarrow> (TrackerError, 'a) result \<times> 't) \<Rightarrow> ('t, 'g, 'a) review" where
  "on_tracker f w =
     (case f (rw_tracker w) of
        (r, t) \<Rightarrow> (review_failed (map_sum tracker_error_display id r), w\<lparr>rw_tracker := t\<rparr>))"

definition recovered :: "('t \<Rightarrow> (string, 'a) result \<times> 't) \<Rightarrow> ('t, 'g, 'a) review" where
  "recovered f w = (case f (rw_tracker w) of (r, t) \<Rightarrow> (review_failed r, w\<lparr>rw_tracker := t\<rparr>))"

definition beyond :: "('g, string, 'a) io \<Rightarrow> ('t, 'g, 'a) review" where
  "beyond m w = (case m (rw_outside w) of (r, g) \<Rightarrow> (review_failed r, w\<lparr>rw_outside := g\<rparr>))"

definition clock_ms :: "('t, 'g) ReviewEnv \<Rightarrow> ('t, 'g, u64) review" where
  "clock_ms E w = (case re_clock_ms E (rw_outside w) of (now, g) \<Rightarrow> (Inr now, w\<lparr>rw_outside := g\<rparr>))"

definition look :: "(('t, 'g) review_world \<Rightarrow> 'a) \<Rightarrow> ('t, 'g, 'a) review" where
  "look f w = (Inr (f w), w)"

definition review_audit :: "TrackerMutationOutcome \<Rightarrow> TrackerMutationAudit \<Rightarrow> ('t, 'g, unit) review" where
  "review_audit outcome a w =
     (Inr (), if should_record_audit outcome then w\<lparr>rw_audits := rw_audits w @ [a]\<rparr> else w)"

definition get_issue :: "('t, 'g) ReviewEnv \<Rightarrow> string \<Rightarrow> string \<Rightarrow> ('t, 'g, TrackerIssue) review" where
  "get_issue E issue_ref missing =
     bindE (on_tracker (\<lambda>t. re_get_issue E t issue_ref)) (\<lambda>issue.
     case issue of None \<Rightarrow> failE (ReviewFailed missing) | Some i \<Rightarrow> returnE i)"

subsection \<open>Receipts on disk\<close>

definition publication_save ::
    "('t, 'g) ReviewEnv \<Rightarrow> place \<Rightarrow> ReviewPublication \<Rightarrow> ('t, 'g, unit) review" where
  "publication_save E place receipt =
     bindE (beyond (re_write E place)) (\<lambda>_ w.
       (Inr (), w\<lparr>rw_receipts := (rw_receipts w)(fst place \<mapsto>
          AList.update (snd place) (Inr receipt) (unwrap_or (rw_receipts w (fst place)) []))\<rparr>))"

definition receipt_at :: "place \<Rightarrow> ('t, 'g) review_world \<Rightarrow> receipt_file option" where
  "receipt_at place w = Option.bind (rw_receipts w (fst place)) (\<lambda>files. map_of files (snd place))"

definition lock_issue :: "('t, 'g) ReviewEnv \<Rightarrow> RuntimeConfig \<Rightarrow> string \<Rightarrow> ('t, 'g, unit) review" where
  "lock_issue E config issue_ref =
     (let root = issue_root config issue_ref;
          owned = (\<lambda>err. ''Review operation already owns '' @ issue_ref @ '', or locking is unavailable: '' @ err) in
      bindE (beyond (re_write E (root, ''dispatch.lock''))) (\<lambda>_.
      bindE (\<lambda>w. (Inr (), w\<lparr>rw_receipts := (rw_receipts w)(root \<mapsto> unwrap_or (rw_receipts w root) [])\<rparr>)) (\<lambda>_.
      bindE (look (\<lambda>w. root \<in> rw_locks w)) (\<lambda>held.
      if held then failE (ReviewFailed (owned ''operation would block''))
      else
        bindE (beyond (\<lambda>g. map_prod (map_sum owned id) id (re_lock E root g))) (\<lambda>_ w.
        (Inr (), w\<lparr>rw_locks := insert root (rw_locks w)\<rparr>))))))"

text \<open>The lock goes with the file handle, also when the holder fails.\<close>

definition unlock_issue :: "RuntimeConfig \<Rightarrow> string \<Rightarrow> ('t, 'g) review_world \<Rightarrow> ('t, 'g) review_world" where
  "unlock_issue config issue_ref w = w\<lparr>rw_locks := rw_locks w - {issue_root config issue_ref}\<rparr>"

definition with_lock ::
    "('t, 'g) ReviewEnv \<Rightarrow> RuntimeConfig \<Rightarrow> string \<Rightarrow> ('t, 'g, 'a) review \<Rightarrow> ('t, 'g, 'a) review" where
  "with_lock E config issue_ref m =
     bindE (lock_issue E config issue_ref) (\<lambda>_ w. map_prod id (unlock_issue config issue_ref) (m w))"

text \<open>\<^verbatim>\<open>path.extension()\<close>\<close>

definition file_extension :: "string \<Rightarrow> string option" where
  "file_extension name =
     (case split_once (CHR ''.'') (rev name) of
        None \<Rightarrow> None | Some (ext, stem) \<Rightarrow> if stem = [] then None else Some (rev ext))"

fun pending_in ::
    "string \<Rightarrow> (string \<times> receipt_file) list \<Rightarrow> (string \<times> ReviewPublication) option \<Rightarrow>
     (string, (string \<times> ReviewPublication) option) result" where
  "pending_in issue_ref [] pending = Inr pending"
| "pending_in issue_ref ((name, file) # entries) pending =
     (if file_extension name \<noteq> Some ''json'' then pending_in issue_ref entries pending
      else and_then (publication_read file) (\<lambda>receipt.
        if ti_identifier (pb_issue receipt) \<noteq> issue_ref then Inl ''Review receipt Issue mismatch''
        else if pb_state receipt \<in> {Complete, PublicationState.Superseded}
        then pending_in issue_ref entries pending
        else if pending \<noteq> None
        then Inl ''multiple pending Review publications require Doctor triage''
        else pending_in issue_ref entries (Some (name, receipt))))"

definition pending_publication ::
    "('t, 'g) ReviewEnv \<Rightarrow> RuntimeConfig \<Rightarrow> string \<Rightarrow> ('t, 'g, (string \<times> ReviewPublication) option) review" where
  "pending_publication E config issue_ref =
     bindE (look (\<lambda>w. rw_receipts w (issue_root config issue_ref))) (\<lambda>files.
     case files of
       None \<Rightarrow> returnE None
     | Some entries \<Rightarrow>
         bindE (beyond (re_list E (issue_root config issue_ref))) (\<lambda>_.
         liftE (review_failed (pending_in issue_ref entries None))))"

fun publication_state_debug :: "PublicationState \<Rightarrow> string" where
  "publication_state_debug PublicationState.Starting = ''Starting''"
| "publication_state_debug PublicationState.Running = ''Running''"
| "publication_state_debug ResultReady = ''ResultReady''"
| "publication_state_debug EvidencePublished = ''EvidencePublished''"
| "publication_state_debug Complete = ''Complete''"
| "publication_state_debug PublicationState.Superseded = ''Superseded''"

definition require_no_pending :: "('t, 'g) ReviewEnv \<Rightarrow> RuntimeConfig \<Rightarrow> string \<Rightarrow> ('t, 'g, unit) review" where
  "require_no_pending E config issue_ref =
     bindE (pending_publication E config issue_ref) (\<lambda>pending.
     case pending of
       None \<Rightarrow> returnE ()
     | Some (name, receipt) \<Rightarrow> failE (ReviewFailed
         (''Review has unfinished '' @ publication_state_debug (pb_state receipt) @ '' evidence at '' @
          path_join (issue_root config issue_ref) name @
          ''; inspect `review status` and use `review recover` for a captured terminal result before launching again'')))"

subsection \<open>Ticking the checklist (\<^verbatim>\<open>automatic.rs\<close>)\<close>

definition update_review_checklist_for_pass ::
    "('t, 'g) ReviewEnv \<Rightarrow> TrackerIssue \<Rightarrow> string \<Rightarrow> ('t, 'g, unit) review" where
  "update_review_checklist_for_pass E issue target_state =
     (case ti_description issue of
        None \<Rightarrow> returnE ()
      | Some description \<Rightarrow>
          (let body = canonical_issue_body_without_workpad description;
               updated = check_review_verified_issue_body_checkboxes body in
           if updated = body then returnE ()
           else
             bindE (on_tracker (\<lambda>t. re_update_content E t (ti_identifier issue) (ti_title issue) updated)) (\<lambda>_.
             review_audit Applied
               \<lparr>ta_command = ''review loop'', ta_mutation_type = ''issue_body_update'',
                ta_issue_ref = Some (ti_identifier issue), ta_target = Some ''non-UAT review checkboxes'',
                ta_from_state = Some (ti_state issue), ta_to_state = Some target_state,
                ta_reason = ''automatic review pass checklist evidence''\<rparr>)))"

subsection \<open>Closing the claim (\<^verbatim>\<open>manual.rs\<close>)\<close>

definition terminal_review_claim_value :: "LaneClaim \<Rightarrow> LaneClaimState \<Rightarrow> string \<Rightarrow> string" where
  "terminal_review_claim_value claim state res = claim_render (with_state claim state) @ '' result='' @ res"

definition review_agent_assignment :: "string \<Rightarrow> ProjectFieldAssignment" where
  "review_agent_assignment v = \<lparr>pa_name = ''Review Agent'', pa_value = v\<rparr>"

definition write_terminal_review_claim ::
    "('t, 'g) ReviewEnv \<Rightarrow> string \<Rightarrow> string \<Rightarrow> string \<Rightarrow> string \<Rightarrow> ('t, 'g, unit) review" where
  "write_terminal_review_claim E issue_ref from_state v reason =
     bindE (get_issue E issue_ref (''issue not found before terminal review claim: '' @ issue_ref)) (\<lambda>issue.
     bindE (recovered (\<lambda>t. set_project_field_with_recovery (re_adapter E) t (issue\<lparr>ti_state := from_state\<rparr>)
              (review_agent_assignment v) ''claim_field'')) (\<lambda>outcome.
     review_audit outcome
       \<lparr>ta_command = ''manual review routing'', ta_mutation_type = ''claim_field'', ta_issue_ref = Some issue_ref,
        ta_target = Some (''Review Agent='' @ v), ta_from_state = Some from_state, ta_to_state = None,
        ta_reason = reason\<rparr>))"

definition terminal_review_loop_claim_value ::
    "LaneClaim option \<Rightarrow> ReviewJob \<Rightarrow> ReviewGateDecision \<Rightarrow> string option" where
  "terminal_review_loop_claim_value claim job d =
     Option.bind claim (\<lambda>c.
       map_option (\<lambda>(state, res). terminal_review_claim_value c state res)
         (case rd_outcome d of
            PassedToHumanReview \<Rightarrow> Some (Done, ''passed'')
          | PassedToMerging \<Rightarrow> Some (Done, ''passed'')
          | NeedsRework \<Rightarrow> Some (Done, ''rejected'')
          | InconclusiveNeedsRework \<Rightarrow> Some (LaneClaimState.Failed, ''inconclusive'')
          | ReviewOutcome.NeedsHumanInput \<Rightarrow> Some (LaneClaimState.Failed, ''blocked'')
          | BackendUnavailable \<Rightarrow> Some (LaneClaimState.Failed, ''unavailable'')
          | ReviewOutcome.Cancelled \<Rightarrow> Some (LaneClaimState.Failed, ''cancelled'')
          | StillRunning \<Rightarrow>
              (case rj_state job of
                 ReviewJobState.Failed \<Rightarrow> Some (LaneClaimState.Failed, ''unavailable'')
               | TimedOut \<Rightarrow> Some (LaneClaimState.Failed, ''unavailable'')
               | ReviewJobState.Cancelled \<Rightarrow> Some (LaneClaimState.Failed, ''cancelled'')
               | _ \<Rightarrow> None)))"

subsection \<open>Freshness\<close>

definition state_key :: "string \<Rightarrow> string" where
  "state_key state = map (\<lambda>c. if c = CHR ''_'' then CHR '' '' else c) (normalize_state state)"

definition mapped_state :: "RuntimeConfig \<Rightarrow> string \<Rightarrow> string" where
  "mapped_state config state =
     (let m = tc_state_map (rc_tracker config) in
      if state = ''agent_review'' then sm_agent_review m
      else if state = ''human_review'' then sm_human_review m
      else if state = ''need_human_input'' then sm_need_human_input m
      else if state = ''rework'' then sm_rework m
      else if state = ''merging'' then sm_merging m
      else state)"

definition mapped_state_key :: "RuntimeConfig \<Rightarrow> string \<Rightarrow> string" where
  "mapped_state_key config state = state_key (mapped_state config state)"

definition has_marker :: "string \<Rightarrow> TrackerIssue \<Rightarrow> bool" where
  "has_marker marker issue \<longleftrightarrow>
     (case ti_description issue of Some body \<Rightarrow> contains body marker | None \<Rightarrow> False)"

definition canonical_body :: "TrackerIssue \<Rightarrow> string" where
  "canonical_body issue = canonical_issue_body_without_workpad (unwrap_or (ti_description issue) [])"

type_synonym ready_pr = "string option \<times> string option \<times> bool option \<times> string option"

definition ready_prs :: "TrackerIssue \<Rightarrow> ready_pr list" where
  "ready_prs issue =
     map (\<lambda>pr. (pr_url pr, pr_head_sha pr, pr_is_draft pr, pr_base_ref_name pr))
       (filter (\<lambda>pr. case pr_state pr of Some s \<Rightarrow> eq_ignore_ascii_case s ''open'' | None \<Rightarrow> False)
          (ti_linked_pull_requests issue))"

definition none_or_empty :: "string option \<Rightarrow> bool" where
  "none_or_empty s \<longleftrightarrow> (case s of None \<Rightarrow> True | Some v \<Rightarrow> v = [])"

text \<open>One open pull request that is not a draft and has an address and a head.\<close>

definition one_ready_pr :: "ready_pr list \<Rightarrow> bool" where
  "one_ready_pr before \<longleftrightarrow>
     (case before of
        [(url, head, draft, base)] \<Rightarrow> draft = Some False \<and> \<not> none_or_empty url \<and> \<not> none_or_empty head
      | _ \<Rightarrow> False)"

definition validate_publication_freshness ::
    "RuntimeConfig \<Rightarrow> TrackerIssue \<Rightarrow> TrackerIssue \<Rightarrow> LaneClaim option \<Rightarrow> string option \<Rightarrow> ReviewGateDecision \<Rightarrow>
     string \<Rightarrow> (string, unit) result" where
  "validate_publication_freshness config original current claim terminal_claim d marker =
     (let evidence_present = has_marker marker current;
          target_matches = (case rd_target_state d of
              Some target \<Rightarrow> state_key (ti_state current) = mapped_state_key config target | None \<Rightarrow> False);
          original_body = canonical_body original;
          current_body = canonical_body current;
          own_checklist = evidence_present \<and> is_passed (rd_outcome d) \<and>
            current_body = check_review_verified_issue_body_checkboxes original_body;
          current_claim = project_text_field current ''Review Agent''
      in
      if ti_id original \<noteq> ti_id current \<or> ti_identifier original \<noteq> ti_identifier current
      then Inl ''Review Issue identity changed''
      else if issue_is_closed current
      then Inl ''Review Issue is closed; captured result cannot route it''
      else if state_key (ti_state current) \<noteq> state_key (sm_agent_review (tc_state_map (rc_tracker config))) \<and>
              \<not> (evidence_present \<and> target_matches)
      then Inl ''Review state changed outside this publication''
      else if ti_title original \<noteq> ti_title current \<or> current_body \<noteq> original_body \<and> \<not> own_checklist
      then Inl ''Review Issue contract changed; captured result is stale''
      else if \<not> one_ready_pr (ready_prs original) \<or> ready_prs original \<noteq> ready_prs current
      then Inl ''Review PR linkage, readiness or head changed or is missing; captured result is stale''
      else if (case claim of
                 None \<Rightarrow> False
               | Some c \<Rightarrow> current_claim \<noteq> Some (claim_render c) \<and>
                           \<not> (evidence_present \<and> current_claim = terminal_claim))
      then Inl ''Review claim changed; this run no longer owns publication''
      else Inr ())"

subsection \<open>Publication\<close>

text \<open>A template that cannot be rendered panics (\<^verbatim>\<open>expect\<close>).\<close>

definition render_or_panic :: "('t, 'g) ReviewEnv \<Rightarrow> string \<Rightarrow> fields \<Rightarrow> ('t, 'g, string) review" where
  "render_or_panic E key fs w =
     (case re_render E key fs (rw_outside w) of
        (Inl e, g) \<Rightarrow> (Inl (TemplatePanicked e), w\<lparr>rw_outside := g\<rparr>)
      | (Inr text, g) \<Rightarrow> (Inr text, w\<lparr>rw_outside := g\<rparr>))"

definition review_evidence ::
    "('t, 'g) ReviewEnv \<Rightarrow> TrackerIssue \<Rightarrow> ReviewJob \<Rightarrow> ReviewRepeatedFailureEvidence option \<Rightarrow>
     ('t, 'g, string) review" where
  "review_evidence E issue job repeat =
     bindE (clock_ms E) (\<lambda>now_ms.
     bindE (look rw_outside) (\<lambda>g.
     let now = unat now_ms div 1000 in
     case repeat of
       Some e \<Rightarrow>
         bindE (liftE (may_panic (repeated_review_failure_fields now issue job e)))
           (render_or_panic E ''repeated_review_failure'')
     | None \<Rightarrow>
         bindE (liftE (may_panic (review_workpad_fields (re_parse_prefix E) (re_read_artifact E g) now issue job)))
           (render_or_panic E ''agent_review_run'')))"

definition fresh_issue ::
    "('t, 'g) ReviewEnv \<Rightarrow> RuntimeConfig \<Rightarrow> TrackerIssue \<Rightarrow> LaneClaim option \<Rightarrow> string option \<Rightarrow>
     ReviewGateDecision \<Rightarrow> string \<Rightarrow> place \<Rightarrow> ReviewPublication \<Rightarrow> ('t, 'g, TrackerIssue) review" where
  "fresh_issue E config issue claim terminal_claim d marker place receipt =
     bindE (get_issue E (ti_identifier issue) ''Review Issue disappeared during publication'') (\<lambda>current.
     case validate_publication_freshness config issue current claim terminal_claim d marker of
       Inl reason \<Rightarrow>
         bindE (publication_save E place
                  (receipt\<lparr>pb_state := PublicationState.Superseded, pb_diagnostic := Some reason\<rparr>)) (\<lambda>_.
         failE (ReviewFailed reason))
     | Inr _ \<Rightarrow> returnE current)"

definition publication_audit ::
    "TrackerIssue \<Rightarrow> ReviewJob \<Rightarrow> string \<Rightarrow> string \<Rightarrow> string option \<Rightarrow> string \<Rightarrow> TrackerMutationAudit" where
  "publication_audit issue job mutation_type from_state to_state reason =
     \<lparr>ta_command = ''review publication'', ta_mutation_type = mutation_type,
      ta_issue_ref = Some (ti_identifier issue), ta_target = Some (rj_id job),
      ta_from_state = Some from_state, ta_to_state = to_state, ta_reason = reason\<rparr>"

text \<open>The steps after the receipt is saved, with \<open>fresh\<close> the read that supersedes a stale result:
  the evidence,\<close>

definition publish_evidence ::
    "('t, 'g) ReviewEnv \<Rightarrow> (ReviewPublication \<Rightarrow> ('t, 'g, TrackerIssue) review) \<Rightarrow> TrackerIssue \<Rightarrow> ReviewJob \<Rightarrow>
     ReviewGateDecision \<Rightarrow> string \<Rightarrow> ReviewPublication \<Rightarrow> ('t, 'g, TrackerIssue) review" where
  "publish_evidence E fresh issue job d key receipt =
     (let marker = tracker_recovery_marker key in
      bindE (fresh receipt) (\<lambda>current.
      if pb_state receipt = EvidencePublished \<and> \<not> has_marker marker current
      then failE (ReviewFailed ''Previously published Review evidence is not visible; preserve the receipt and use targeted Doctor triage instead of duplicating the comment'')
      else
        bindE (recovered (\<lambda>t. add_timeline_comment_with_recovery (re_adapter E) t (ti_identifier issue)
                 (Some current) (unwrap_or (pb_evidence receipt) []) key ''timeline_comment'')) (\<lambda>outcome.
        bindE (review_audit outcome (publication_audit issue job ''timeline_comment'' (ti_state current)
                 (rd_target_state d) ''durable Review result evidence'')) (\<lambda>_.
        bindE (fresh receipt) (\<lambda>current.
        if \<not> has_marker marker current
        then failE (ReviewFailed ''Review evidence write is not visible in targeted readback; publication remains pending'')
        else returnE current)))))"

text \<open>the claim,\<close>

definition publish_claim ::
    "('t, 'g) ReviewEnv \<Rightarrow> ('t, 'g, TrackerIssue) review \<Rightarrow> TrackerIssue \<Rightarrow> string option \<Rightarrow> TrackerIssue \<Rightarrow>
     ('t, 'g, TrackerIssue) review" where
  "publish_claim E fresh issue terminal_claim current =
     (case terminal_claim of
        None \<Rightarrow> returnE current
      | Some v \<Rightarrow>
          bindE (write_terminal_review_claim E (ti_identifier issue) (ti_state current) v
                   ''evidence published for this Review run'') (\<lambda>_.
          bindE fresh (\<lambda>current.
          if project_text_field current ''Review Agent'' \<noteq> Some v
          then failE (ReviewFailed ''Review terminal claim readback failed; publication remains pending'')
          else returnE current)))"

text \<open>the checklist,\<close>

definition publish_checklist ::
    "('t, 'g) ReviewEnv \<Rightarrow> ('t, 'g, TrackerIssue) review \<Rightarrow> ReviewGateDecision \<Rightarrow> TrackerIssue \<Rightarrow>
     ('t, 'g, TrackerIssue) review" where
  "publish_checklist E fresh d current =
     (if \<not> is_passed (rd_outcome d) then returnE current
      else
        bindE (update_review_checklist_for_pass E current (unwrap_or (rd_target_state d) ''none'')) (\<lambda>_.
        bindE fresh (\<lambda>current.
        let body = canonical_body current in
        if check_review_verified_issue_body_checkboxes body \<noteq> body
        then failE (ReviewFailed ''Review checklist readback failed; publication remains pending'')
        else returnE current)))"

text \<open>and the state.\<close>

definition publish_state ::
    "('t, 'g) ReviewEnv \<Rightarrow> RuntimeConfig \<Rightarrow> ('t, 'g, TrackerIssue) review \<Rightarrow> TrackerIssue \<Rightarrow> ReviewJob \<Rightarrow>
     ReviewGateDecision \<Rightarrow> TrackerIssue \<Rightarrow> ('t, 'g, unit) review" where
  "publish_state E config fresh issue job d current =
     (case rd_target_state d of
        None \<Rightarrow> returnE ()
      | Some target \<Rightarrow>
          bindE (recovered (\<lambda>t. set_state_with_recovery (re_adapter E) t (ti_identifier issue) (Some current)
                   target ''state_change'')) (\<lambda>outcome.
          bindE (review_audit outcome (publication_audit issue job ''state_change'' (ti_state current)
                   (Some target) ''route only after evidence and supporting readbacks'')) (\<lambda>_.
          bindE fresh (\<lambda>current.
          if state_key (ti_state current) \<noteq> mapped_state_key config target
          then failE (ReviewFailed ''Review state readback failed; publication remains pending'')
          else returnE ()))))"

definition publish ::
    "('t, 'g) ReviewEnv \<Rightarrow> RuntimeConfig \<Rightarrow> TrackerIssue \<Rightarrow> ReviewJob \<Rightarrow> LaneClaim option \<Rightarrow>
     ReviewRepeatedFailureEvidence option \<Rightarrow> ReviewGateDecision \<Rightarrow> place \<Rightarrow> ReviewPublication \<Rightarrow>
     ('t, 'g, unit) review" where
  "publish E config issue job claim repeat d place receipt0 =
     (let key = recovery_key ''review-result'' (ti_identifier issue) (ti_identifier issue @ ''|'' @ rj_id job);
          marker = tracker_recovery_marker key;
          terminal_claim = terminal_review_loop_claim_value claim job d;
          fresh = fresh_issue E config issue claim terminal_claim d marker place;
          receipt1 = receipt0\<lparr>pb_job := Some job,
            pb_state := if pb_state receipt0 = EvidencePublished then EvidencePublished else ResultReady\<rparr> in
      bindE (case pb_evidence receipt1 of
               Some text \<Rightarrow> returnE text | None \<Rightarrow> review_evidence E issue job repeat) (\<lambda>text.
      let receipt = receipt1\<lparr>pb_evidence := Some text\<rparr>;
          published = receipt\<lparr>pb_state := EvidencePublished\<rparr> in
      bindE (publication_save E place receipt) (\<lambda>_.
      bindE (publish_evidence E fresh issue job d key receipt) (\<lambda>current.
      bindE (publication_save E place published) (\<lambda>_.
      bindE (publish_claim E (fresh published) issue terminal_claim current) (\<lambda>current.
      bindE (publish_checklist E (fresh published) d current) (\<lambda>current.
      bindE (publish_state E config (fresh published) issue job d current) (\<lambda>_.
      publication_save E place (published\<lparr>pb_state := Complete\<rparr>)))))))))"

definition receipt_matches :: "TrackerIssue \<Rightarrow> LaneClaim option \<Rightarrow> ReviewJob \<Rightarrow> ReviewPublication \<Rightarrow> bool" where
  "receipt_matches issue claim job receipt \<longleftrightarrow>
     ti_id (pb_issue receipt) = ti_id issue \<and> pb_claim receipt = map_option claim_render claim \<and>
     (case pb_job receipt of Some saved \<Rightarrow> rj_id saved = rj_id job | None \<Rightarrow> True)"

definition apply_review_result ::
    "('t, 'g) ReviewEnv \<Rightarrow> RuntimeConfig \<Rightarrow> TrackerIssue \<Rightarrow> ReviewJob \<Rightarrow> LaneClaim option \<Rightarrow>
     ReviewRepeatedFailureEvidence option \<Rightarrow> ('t, 'g, unit) review" where
  "apply_review_result E config issue job claim repeat =
     bindE (liftE (may_panic (review_gate_decision_for_issue job issue))) (\<lambda>d.
     if \<not> review_job_is_terminal job \<or> rj_issue_ref job \<noteq> ti_identifier issue
     then failE (ReviewFailed ''Review publication requires a terminal result for this Issue'')
     else if (case rd_target_state d of
                Some target \<Rightarrow> \<not> transition_allowed_for_review_agent target d | None \<Rightarrow> False)
     then failE (ReviewFailed ''review agent transition is not allowed for this decision'')
     else
       (let place = publication_path config (ti_identifier issue) claim (rj_id job) in
        bindE (look (receipt_at place)) (\<lambda>file.
        bindE (liftE (review_failed (case file of
                 Some f \<Rightarrow> publication_read f
               | None \<Rightarrow> Inr (publication_new (re_revision E) issue claim)))) (\<lambda>receipt.
        if \<not> receipt_matches issue claim job receipt
        then failE (ReviewFailed ''Review publication identity mismatch'')
        else if pb_state receipt = Complete then returnE ()
        else if pb_state receipt = PublicationState.Superseded
        then failE (ReviewFailed ''Review result was superseded; inspect the retained receipt'')
        else publish E config issue job claim repeat d place receipt))))"

subsection \<open>Facts: receipts\<close>

lemma publication_save_Inr:
  "publication_save E place receipt w = (Inr u, w') \<Longrightarrow> receipt_at place w' = Some (Inr receipt)"
  by (auto simp: publication_save_def bindE_Inr receipt_at_def update_conv')

lemma publish_Inr:
  assumes "publish E config issue job claim repeat d place receipt w = (Inr u, w')"
  shows "\<exists>evidence. receipt_at place w' = Some (Inr (receipt\<lparr>pb_job := Some job, pb_evidence := Some evidence, pb_state := Complete\<rparr>))"
proof -
  from assms obtain evidence w1 where "publication_save E place
      (receipt\<lparr>pb_job := Some job, pb_evidence := Some evidence, pb_state := Complete\<rparr>) w1 = (Inr u, w')"
    unfolding publish_def Let_def by (auto simp: bindE_Inr)
  then show ?thesis using publication_save_Inr by blast
qed

lemma look_Inr [simp]: "look f w = (Inr a, w') \<longleftrightarrow> a = f w \<and> w' = w"
  by (auto simp: look_def)

lemma review_failed_Inr [simp]:
  "review_failed r = Inr a \<longleftrightarrow> r = Inr a" "Inr a = review_failed r \<longleftrightarrow> r = Inr a"
  by (auto simp: review_failed_def split: sum.splits)

lemma may_panic_Inr [simp]:
  "may_panic r = Inr a \<longleftrightarrow> r = Inr a" "Inr a = may_panic r \<longleftrightarrow> r = Inr a"
  by (auto simp: may_panic_def split: sum.splits)

text \<open>The checks that a completed publication has passed.\<close>

lemma apply_review_result_Inr:
  assumes "apply_review_result E config issue job claim repeat w = (Inr u, w')"
  shows "\<exists>d receipt. review_gate_decision_for_issue job issue = Inr d \<and> review_job_is_terminal job \<and>
    rj_issue_ref job = ti_identifier issue \<and>
    (\<forall>target. rd_target_state d = Some target \<longrightarrow> transition_allowed_for_review_agent target d) \<and>
    receipt_at (publication_path config (ti_identifier issue) claim (rj_id job)) w' = Some (Inr receipt) \<and>
    pb_schema_version receipt = 1 \<and> receipt_matches issue claim job receipt \<and> pb_state receipt = Complete"
proof -
  let ?place = "publication_path config (ti_identifier issue) claim (rj_id job)"
  from assms obtain d where d: "review_gate_decision_for_issue job issue = Inr d"
    and t: "review_job_is_terminal job" "rj_issue_ref job = ti_identifier issue"
    and allowed: "\<forall>target. rd_target_state d = Some target \<longrightarrow> transition_allowed_for_review_agent target d"
    unfolding apply_review_result_def by (auto simp: bindE_Inr split: if_splits option.splits)
  from assms d t allowed obtain receipt where
    found: "(case receipt_at ?place w of Some f \<Rightarrow> publication_read f
       | None \<Rightarrow> Inr (publication_new (re_revision E) issue claim)) = Inr receipt"
    and m: "receipt_matches issue claim job receipt"
    and rest: "pb_state receipt = Complete \<and> w' = w \<or>
       publish E config issue job claim repeat d ?place receipt w = (Inr u, w')"
    unfolding apply_review_result_def Let_def
    by (auto simp: bindE_Inr split: if_splits option.split_asm)
  have schema: "pb_schema_version receipt = 1"
    using found by (auto simp: publication_read_def publication_new_def and_then_Inr_iff split: option.splits if_splits)
  from rest show ?thesis
  proof
    assume c: "pb_state receipt = Complete \<and> w' = w"
    then have "receipt_at ?place w' = Some (Inr receipt)"
      using found by (auto simp: publication_read_def publication_new_def and_then_Inr_iff split: option.splits if_splits)
    then show ?thesis using d t allowed schema m c by blast
  next
    assume "publish E config issue job claim repeat d ?place receipt w = (Inr u, w')"
    from publish_Inr [OF this] obtain evidence where r: "receipt_at ?place w' =
        Some (Inr (receipt\<lparr>pb_job := Some job, pb_evidence := Some evidence, pb_state := Complete\<rparr>))" by blast
    let ?r = "receipt\<lparr>pb_job := Some job, pb_evidence := Some evidence, pb_state := Complete\<rparr>"
    have "receipt_matches issue claim job ?r" "pb_state ?r = Complete" "pb_schema_version ?r = 1"
      using m schema by (simp_all add: receipt_matches_def)
    then show ?thesis using d t allowed r by blast
  qed
qed

text \<open>A new run is only started when every receipt of the issue is readable and settled.\<close>

definition settled_file :: "string \<Rightarrow> string \<times> receipt_file \<Rightarrow> bool" where
  "settled_file issue_ref = (\<lambda>(name, file). file_extension name = Some ''json'' \<longrightarrow>
     (\<exists>r. publication_read file = Inr r \<and> ti_identifier (pb_issue r) = issue_ref \<and>
        pb_state r \<in> {Complete, PublicationState.Superseded}))"

lemma pending_in_pending: "pending_in k files (Some p) \<noteq> Inr None"
  by (induction files) (auto simp: and_then_Inr_iff split: if_splits)

lemma pending_in_None: "pending_in k files None = Inr None \<longleftrightarrow> (\<forall>f \<in> set files. settled_file k f)"
proof (induction files)
  case (Cons f files)
  obtain name content where f: "f = (name, content)" by (cases f)
  show ?case
    using Cons.IH pending_in_pending [of k files]
    by (cases "publication_read content") (auto simp: f settled_file_def and_then_Inr_iff)
qed simp

lemma no_pending_settled:
  assumes "require_no_pending E config k w = (Inr u, w')" and "rw_receipts w (issue_root config k) = Some files"
  shows "\<forall>f \<in> set files. settled_file k f"
proof -
  have "pending_in k files None = Inr None"
    using assms by (auto simp: require_no_pending_def pending_publication_def bindE_Inr not_Some_eq [symmetric] split: option.splits)
  then show ?thesis by (simp add: pending_in_None)
qed

text \<open>The lock excludes a second operation on the issue until the first is over.\<close>

lemma lock_excludes:
  assumes "lock_issue E config k w = (Inr u, w')" and "lock_issue E config k w' = (r, w'')"
  shows "\<exists>e. r = Inl e"
proof -
  have held: "issue_root config k \<in> rw_locks w'"
    using assms(1) by (auto simp: lock_issue_def bindE_Inr Let_def split: if_splits)
  show ?thesis
  proof (cases r)
    case (Inr u)
    then show ?thesis
      using assms(2) held by (auto simp: lock_issue_def bindE_Inr Let_def beyond_def split: if_splits prod.splits)
  qed blast
qed

lemma with_lock_releases:
  assumes "with_lock E config k m w = (r, w')" and "issue_root config k \<notin> rw_locks w"
  shows "issue_root config k \<notin> rw_locks w'"
proof -
  obtain q w1 where l: "lock_issue E config k w = (q, w1)" by (cases "lock_issue E config k w")
  show ?thesis
  proof (cases q)
    case (Inl e)
    then have "w' = w1" using assms(1) l by (simp add: with_lock_def bindE_def)
    moreover have "rw_locks w1 = rw_locks w"
      using l Inl
      by (auto simp: lock_issue_def bindE_def Let_def beyond_def look_def split: prod.splits sum.splits if_splits)
    ultimately show ?thesis using assms(2) by simp
  next
    case (Inr v)
    then show ?thesis
      using assms(1) l by (auto simp: with_lock_def bindE_def unlock_issue_def map_prod_def split: prod.splits)
  qed
qed

subsection \<open>Facts: what the tracker was asked\<close>

text \<open>The same environment with a log of what was read of issues and written to the tracker.\<close>

datatype review_event =
    Saw string "(TrackerError, TrackerIssue option) result"
  | WroteState string string
  | WroteField string ProjectFieldAssignment
  | WroteWorkpad string string
  | WroteComment string string
  | ClosedIssue string
  | WroteContent string string string
  | ClearedField string string

definition noting :: "review_event \<Rightarrow> ('t \<Rightarrow> 'r \<times> 't) \<Rightarrow> 't \<times> review_event list \<Rightarrow> 'r \<times> ('t \<times> review_event list)" where
  "noting e f = (\<lambda>(t, es). case f t of (r, t') \<Rightarrow> (r, t', es @ [e]))"

definition logged_env :: "('t, 'g) ReviewEnv \<Rightarrow> ('t \<times> review_event list, 'g) ReviewEnv" where
  "logged_env E =
     (let A = re_adapter E in
      \<lparr>re_adapter =
         \<lparr>ta_get_issue = (\<lambda>t k. ta_get_issue A (fst t) k),
          ta_set_state = (\<lambda>t k s. noting (WroteState k s) (\<lambda>t. ta_set_state A t k s) t),
          ta_set_project_field = (\<lambda>t k a. noting (WroteField k a) (\<lambda>t. ta_set_project_field A t k a) t),
          ta_upsert_workpad = (\<lambda>t k m. noting (WroteWorkpad k m) (\<lambda>t. ta_upsert_workpad A t k m) t),
          ta_add_issue_comment = (\<lambda>t k m. noting (WroteComment k m) (\<lambda>t. ta_add_issue_comment A t k m) t),
          ta_close_issue = (\<lambda>t k. noting (ClosedIssue k) (\<lambda>t. ta_close_issue A t k) t)\<rparr>,
       re_get_issue = (\<lambda>t k. case re_get_issue E (fst t) k of (r, t') \<Rightarrow> (r, t', snd t @ [Saw k r])),
       re_update_content = (\<lambda>t k title body. noting (WroteContent k title body) (\<lambda>t. re_update_content E t k title body) t),
       re_clear_field = (\<lambda>t k name. noting (ClearedField k name) (\<lambda>t. re_clear_field E t k name) t),
       re_issues_by_state = (\<lambda>t state. case re_issues_by_state E (fst t) state of (r, t') \<Rightarrow> (r, t', snd t)),
       re_write = re_write E, re_list = re_list E, re_lock = re_lock E, re_ledger = re_ledger E,
       re_clock_ms = re_clock_ms E, re_revision = re_revision E, re_render = re_render E,
       re_parse_prefix = re_parse_prefix E, re_read_artifact = re_read_artifact E,
       re_json_text = re_json_text E\<rparr>)"

definition saw :: "string \<Rightarrow> TrackerIssue \<Rightarrow> review_event list \<Rightarrow> bool" where
  "saw k i es \<longleftrightarrow> Saw k (Inr (Some i)) \<in> set es"

text \<open>The last of the issues read.\<close>

definition last_saw :: "string \<Rightarrow> TrackerIssue \<Rightarrow> review_event list \<Rightarrow> bool" where
  "last_saw k i es \<longleftrightarrow>
     (\<exists>pre post. es = pre @ Saw k (Inr (Some i)) # post \<and> (\<forall>j r. Saw j r \<notin> set post))"

definition result_key :: "TrackerIssue \<Rightarrow> ReviewJob \<Rightarrow> string" where
  "result_key issue job =
     recovery_key ''review-result'' (ti_identifier issue) (ti_identifier issue @ ''|'' @ rj_id job)"

text \<open>The issue, as read last, still fits the result.\<close>

definition still_fresh ::
    "RuntimeConfig \<Rightarrow> TrackerIssue \<Rightarrow> ReviewJob \<Rightarrow> LaneClaim option \<Rightarrow> ReviewGateDecision \<Rightarrow> TrackerIssue \<Rightarrow>
     review_event list \<Rightarrow> bool" where
  "still_fresh config issue job claim d cur es \<longleftrightarrow>
     last_saw (ti_identifier issue) cur es \<and>
     validate_publication_freshness config issue cur claim (terminal_review_loop_claim_value claim job d) d
       (tracker_recovery_marker (result_key issue job)) = Inr ()"

definition evidence_seen :: "TrackerIssue \<Rightarrow> ReviewJob \<Rightarrow> review_event list \<Rightarrow> bool" where
  "evidence_seen issue job es \<longleftrightarrow>
     (\<exists>seen. saw (ti_identifier issue) seen es \<and>
        has_marker (tracker_recovery_marker (result_key issue job)) seen)"

definition claim_seen_closed ::
    "TrackerIssue \<Rightarrow> ReviewJob \<Rightarrow> LaneClaim option \<Rightarrow> ReviewGateDecision \<Rightarrow> review_event list \<Rightarrow> bool" where
  "claim_seen_closed issue job claim d es \<longleftrightarrow>
     (\<forall>v. terminal_review_loop_claim_value claim job d = Some v \<longrightarrow>
        (\<exists>seen. saw (ti_identifier issue) seen es \<and> project_text_field seen ''Review Agent'' = Some v))"

definition checklist_complete :: "TrackerIssue \<Rightarrow> bool" where
  "checklist_complete issue \<longleftrightarrow>
     check_review_verified_issue_body_checkboxes (canonical_body issue) = canonical_body issue"

text \<open>The evidence has been seen on the issue, the claim has been seen closed, and the issue, as read
  last, still fits the result and, when the run passed, has a complete checklist.\<close>

definition ready_to_route ::
    "RuntimeConfig \<Rightarrow> TrackerIssue \<Rightarrow> ReviewJob \<Rightarrow> LaneClaim option \<Rightarrow> ReviewGateDecision \<Rightarrow> review_event list \<Rightarrow> bool" where
  "ready_to_route config issue job claim d es \<longleftrightarrow>
     evidence_seen issue job es \<and> claim_seen_closed issue job claim d es \<and>
     (\<exists>cur. still_fresh config issue job claim d cur es \<and> (is_passed (rd_outcome d) \<longrightarrow> checklist_complete cur))"

text \<open>What a publication may write, after the given log.\<close>

definition may_write ::
    "RuntimeConfig \<Rightarrow> TrackerIssue \<Rightarrow> ReviewJob \<Rightarrow> LaneClaim option \<Rightarrow> ReviewGateDecision \<Rightarrow> review_event list \<Rightarrow>
     review_event \<Rightarrow> bool" where
  "may_write config issue job claim d es e \<longleftrightarrow>
     (case e of
        Saw k r \<Rightarrow> True
      | WroteState k target \<Rightarrow>
          k = ti_identifier issue \<and> rd_target_state d = Some target \<and> ready_to_route config issue job claim d es
      | WroteField k a \<Rightarrow>
          (\<exists>v. terminal_review_loop_claim_value claim job d = Some v \<and> a = review_agent_assignment v) \<and>
          evidence_seen issue job es
      | WroteComment k md \<Rightarrow>
          k = ti_identifier issue \<and> contains md (tracker_recovery_marker (result_key issue job)) \<and>
          (\<exists>cur. still_fresh config issue job claim d cur es)
      | WroteContent k title body \<Rightarrow> is_passed (rd_outcome d) \<and> evidence_seen issue job es
      | _ \<Rightarrow> False)"

definition orderly ::
    "RuntimeConfig \<Rightarrow> TrackerIssue \<Rightarrow> ReviewJob \<Rightarrow> LaneClaim option \<Rightarrow> ReviewGateDecision \<Rightarrow> review_event list \<Rightarrow> bool" where
  "orderly config issue job claim d es \<longleftrightarrow>
     (\<forall>pre e post. es = pre @ e # post \<longrightarrow> may_write config issue job claim d pre e)"

lemma orderly_snoc:
  "orderly config issue job claim d (es @ [e]) \<longleftrightarrow>
     orderly config issue job claim d es \<and> may_write config issue job claim d es e"
  (is "?l = ?r")
proof
  assume l: ?l
  then have "may_write config issue job claim d es e" unfolding orderly_def by blast
  moreover have "orderly config issue job claim d es"
    unfolding orderly_def
  proof (intro allI impI)
    fix pre x post assume "es = pre @ x # post"
    then have "es @ [e] = pre @ x # (post @ [e])" by simp
    then show "may_write config issue job claim d pre x" using l unfolding orderly_def by blast
  qed
  ultimately show ?r by blast
next
  assume r: ?r
  show ?l
    unfolding orderly_def
  proof (intro allI impI)
    fix pre x post assume "es @ [e] = pre @ x # post"
    then consider "pre = es" "x = e" | post' where "es = pre @ x # post'"
      by (cases post rule: rev_cases) auto
    then show "may_write config issue job claim d pre x" using r unfolding orderly_def by cases blast+
  qed
qed

lemma saw_append: "saw k i es \<Longrightarrow> saw k i (es @ ds)"
  by (simp add: saw_def)

lemma last_saw_snoc: "last_saw k i (es @ [Saw k (Inr (Some i))])"
  unfolding last_saw_def by (rule exI [of _ es], rule exI [of _ "[]"]) simp

lemma saw_snoc: "saw k i (es @ [Saw k (Inr (Some i))])"
  by (simp add: saw_def)

subsection \<open>Facts: operations on the log\<close>

text \<open>A property of the log before or after an operation.\<close>

definition logs :: "(review_event list \<Rightarrow> bool) \<Rightarrow> ('t \<times> review_event list, 'g) review_world \<Rightarrow> bool" where
  "logs R w \<longleftrightarrow> R (snd (rw_tracker w))"

lemma keeps_logs:
  "keeps (beyond m) (logs R)" "keeps (look f) (logs R)" "keeps (clock_ms E) (logs R)"
  "keeps (review_audit q a) (logs R)" "keeps (publication_save E place receipt) (logs R)"
  by (auto simp: keeps_def logs_def beyond_def look_def clock_ms_def review_audit_def publication_save_def bindE_def
      split: prod.splits sum.splits)

lemma evidence_keeps_logs: "keeps (review_evidence E issue job repeat) (logs R)"
proof -
  have r: "keeps (render_or_panic E key fs) (logs R)" for key fs
    by (auto simp: keeps_def logs_def render_or_panic_def split: prod.splits sum.splits)
  show ?thesis
    unfolding review_evidence_def Let_def
    by (cases repeat) (simp_all add: keeps_bind keeps_logs keeps_lift r)
qed

lemma valid_get_issue:
  assumes "\<And>es r. R es \<Longrightarrow> X (es @ [Saw k r])"
  shows "valid (logs R) (get_issue (logged_env E) k missing)
    (\<lambda>i. logs (\<lambda>es. \<exists>es0. R es0 \<and> es = es0 @ [Saw k (Inr (Some i))])) (logs X)"
  unfolding get_issue_def
proof (rule valid_bind)
  show "valid (logs R) (on_tracker (\<lambda>t. re_get_issue (logged_env E) t k))
      (\<lambda>q. logs (\<lambda>es. \<exists>es0. R es0 \<and> es = es0 @ [Saw k (Inr q)])) (logs X)"
    unfolding valid_def
  proof (intro allI impI)
    fix w r w' assume R: "logs R w" and m: "on_tracker (\<lambda>t. re_get_issue (logged_env E) t k) w = (r, w')"
    obtain q t where q: "re_get_issue E (fst (rw_tracker w)) k = (q, t)" by (cases "re_get_issue E (fst (rw_tracker w)) k")
    then have w': "snd (rw_tracker w') = snd (rw_tracker w) @ [Saw k q]" "r = review_failed (map_sum tracker_error_display id q)"
      using m by (auto simp: on_tracker_def logged_env_def Let_def)
    show "case r of Inl _ \<Rightarrow> logs X w'
        | Inr a \<Rightarrow> logs (\<lambda>es. \<exists>es0. R es0 \<and> es = es0 @ [Saw k (Inr a)]) w'"
      using R assms w' by (cases q) (auto simp: logs_def review_failed_def)
  qed
  show "valid (logs (\<lambda>es. \<exists>es0. R es0 \<and> es = es0 @ [Saw k (Inr q)]))
      (case q of None \<Rightarrow> failE (ReviewFailed missing) | Some i \<Rightarrow> returnE i)
      (\<lambda>i. logs (\<lambda>es. \<exists>es0. R es0 \<and> es = es0 @ [Saw k (Inr (Some i))])) (logs X)" for q
    using assms by (cases q) (auto simp: valid_def logs_def)
qed

lemma valid_recovered:
  assumes "\<And>t es. R es \<Longrightarrow> snd (snd (f (t, es))) = es \<or> (\<exists>e. snd (snd (f (t, es))) = es @ [e] \<and> S (es @ [e]))"
    and "\<And>es. R es \<Longrightarrow> S es"
  shows "valid (logs R) (recovered f) (\<lambda>_. logs S) (logs S)"
  unfolding valid_def
proof (intro allI impI)
  fix w r w' assume R: "logs R w" and m: "recovered f w = (r, w')"
  obtain t es where t: "rw_tracker w = (t, es)" by (cases "rw_tracker w")
  obtain q t' es' where q: "f (t, es) = (q, t', es')" by (metis prod.exhaust)
  have "S es'" using assms(1) [of es t] assms(2) [of es] R q t by (auto simp: logs_def)
  moreover have "snd (rw_tracker w') = es'" using m q t by (auto simp: recovered_def)
  ultimately show "case r of Inl _ \<Rightarrow> logs S w' | Inr a \<Rightarrow> logs S w'" by (simp add: logs_def split: sum.split)
qed

text \<open>A mutation with recovery makes at most its one request.\<close>

lemma recovered_logs:
  "snd (snd (set_state_with_recovery (re_adapter (logged_env E)) (t, es) k i st ty)) \<in> {es, es @ [WroteState k st]}"
  "snd (snd (set_project_field_with_recovery (re_adapter (logged_env E)) (t, es) issue a ty)) \<in>
     {es, es @ [WroteField (ti_identifier issue) a]}"
  "snd (snd (add_timeline_comment_with_recovery (re_adapter (logged_env E)) (t, es) k i md key ty)) \<in>
     {es, es @ [WroteComment k (ensure_tracker_recovery_marker md key)]}"
  by (auto simp: with_recovery_defs logged_env_def noting_def Let_def split: prod.splits sum.splits)

subsection \<open>Facts: the steps of a publication\<close>

lemma seen_monotone:
  "evidence_seen issue job es \<Longrightarrow> evidence_seen issue job (es @ ds)"
  "claim_seen_closed issue job claim d es \<Longrightarrow> claim_seen_closed issue job claim d (es @ ds)"
  unfolding evidence_seen_def claim_seen_closed_def using saw_append by blast+

lemma fresh_logs:
  assumes "\<And>es e. T es \<Longrightarrow> T (es @ [e])"
  shows "valid (logs (\<lambda>es. orderly config issue job claim d es \<and> T es))
    (fresh_issue (logged_env E) config issue claim (terminal_review_loop_claim_value claim job d) d
       (tracker_recovery_marker (result_key issue job)) place receipt)
    (\<lambda>cur. logs (\<lambda>es. orderly config issue job claim d es \<and> T es \<and> still_fresh config issue job claim d cur es \<and>
       saw (ti_identifier issue) cur es))
    (logs (orderly config issue job claim d))"
  unfolding fresh_issue_def
proof (rule valid_bind)
  let ?O = "orderly config issue job claim d"
  show "valid (logs (\<lambda>es. ?O es \<and> T es))
      (get_issue (logged_env E) (ti_identifier issue) ''Review Issue disappeared during publication'')
      (\<lambda>cur. logs (\<lambda>es. \<exists>es0. (?O es0 \<and> T es0) \<and> es = es0 @ [Saw (ti_identifier issue) (Inr (Some cur))])) (logs ?O)"
    by (rule valid_get_issue) (simp add: orderly_snoc may_write_def)
  fix cur
  let ?R = "\<lambda>es. \<exists>es0. (?O es0 \<and> T es0) \<and> es = es0 @ [Saw (ti_identifier issue) (Inr (Some cur))]"
  let ?v = "validate_publication_freshness config issue cur claim (terminal_review_loop_claim_value claim job d) d
     (tracker_recovery_marker (result_key issue job))"
  have O: "?R es \<Longrightarrow> ?O es" for es by (auto simp: orderly_snoc may_write_def)
  show "valid (logs ?R)
      (case ?v of
         Inl reason \<Rightarrow> bindE (publication_save (logged_env E) place
             (receipt\<lparr>pb_state := PublicationState.Superseded, pb_diagnostic := Some reason\<rparr>)) (\<lambda>_. failE (ReviewFailed reason))
       | Inr _ \<Rightarrow> returnE cur)
      (\<lambda>cur. logs (\<lambda>es. ?O es \<and> T es \<and> still_fresh config issue job claim d cur es \<and> saw (ti_identifier issue) cur es))
      (logs ?O)"
  proof (cases ?v)
    case (Inl reason)
    have "valid (logs ?O) (bindE (publication_save (logged_env E) place
        (receipt\<lparr>pb_state := PublicationState.Superseded, pb_diagnostic := Some reason\<rparr>)) (\<lambda>_. failE (ReviewFailed reason)))
        (\<lambda>_. Q) (logs ?O)" for Q
      by (rule valid_bind [OF valid_keeps [OF keeps_logs(5)]], rule valid_fail)
    then show ?thesis unfolding Inl sum.case
      by (rule valid_pre [OF valid_post [where Q = "\<lambda>_ _. False"]]) (use O in \<open>auto simp: logs_def\<close>)
  next
    case (Inr u)
    then show ?thesis
      using O assms by (auto simp: valid_def logs_def still_fresh_def last_saw_snoc saw_snoc)
  qed
qed

lemma publish_evidence_logs:
  fixes E config issue job claim d place
  defines "ok \<equiv> orderly config issue job claim d"
    and "fresh \<equiv> fresh_issue (logged_env E) config issue claim (terminal_review_loop_claim_value claim job d) d
       (tracker_recovery_marker (result_key issue job)) place"
  shows "valid (logs ok) (publish_evidence (logged_env E) fresh issue job d (result_key issue job) receipt)
    (\<lambda>cur. logs (\<lambda>es. ok es \<and> evidence_seen issue job es \<and> still_fresh config issue job claim d cur es)) (logs ok)"
proof -
  note fresh = fresh_logs [where T = "\<lambda>_. True", of config issue job claim d E place, folded ok_def, simplified, folded fresh_def]
  let ?F = "\<lambda>cur es. ok es \<and> still_fresh config issue job claim d cur es \<and> saw (ti_identifier issue) cur es"
  have step: "valid (logs (?F cur)) (recovered (\<lambda>t. add_timeline_comment_with_recovery (re_adapter (logged_env E)) t
      (ti_identifier issue) (Some cur) md (result_key issue job) ''timeline_comment'')) (\<lambda>_. logs ok) (logs ok)"
    for cur md
  proof (rule valid_recovered)
    fix t es assume "?F cur es"
    then have "ok (es @ [WroteComment (ti_identifier issue) (ensure_tracker_recovery_marker md (result_key issue job))])"
      unfolding ok_def orderly_snoc may_write_def using ensured_marker by auto
    then show "snd (snd (add_timeline_comment_with_recovery (re_adapter (logged_env E)) (t, es) (ti_identifier issue)
        (Some cur) md (result_key issue job) ''timeline_comment'')) = es \<or>
      (\<exists>e. snd (snd (add_timeline_comment_with_recovery (re_adapter (logged_env E)) (t, es) (ti_identifier issue)
        (Some cur) md (result_key issue job) ''timeline_comment'')) = es @ [e] \<and> ok (es @ [e]))"
      using recovered_logs(3) [of E t es "ti_identifier issue" "Some cur" md "result_key issue job" "''timeline_comment''"]
      by auto
  qed simp
  have last: "valid (logs ok) (bindE (fresh receipt) (\<lambda>current.
      if \<not> has_marker (tracker_recovery_marker (result_key issue job)) current
      then failE (ReviewFailed ''Review evidence write is not visible in targeted readback; publication remains pending'')
      else returnE current))
    (\<lambda>cur. logs (\<lambda>es. ok es \<and> evidence_seen issue job es \<and> still_fresh config issue job claim d cur es)) (logs ok)"
    by (rule valid_bind [OF fresh]) (auto intro!: valid_if valid_fail valid_return simp: logs_def evidence_seen_def)
  show ?thesis
    unfolding publish_evidence_def Let_def
    by (rule valid_bind [OF fresh], rule valid_if, rule valid_fail, simp add: logs_def,
        rule valid_bind [OF step], rule valid_bind [OF valid_keeps [OF keeps_logs(4)]], rule last)
qed

lemma write_claim_logs:
  fixes E config issue job claim d
  defines "ok \<equiv> orderly config issue job claim d"
  assumes v: "terminal_review_loop_claim_value claim job d = Some v"
  shows "valid (logs (\<lambda>es. ok es \<and> evidence_seen issue job es))
    (write_terminal_review_claim (logged_env E) (ti_identifier issue) from v reason)
    (\<lambda>_. logs (\<lambda>es. ok es \<and> evidence_seen issue job es)) (logs ok)"
  unfolding write_terminal_review_claim_def
proof (rule valid_bind)
  let ?R = "\<lambda>es. ok es \<and> evidence_seen issue job es"
  have saw: "?R (es @ [Saw k r])" if "?R es" for es k r
    using that by (simp add: ok_def orderly_snoc may_write_def seen_monotone)
  show "valid (logs ?R) (get_issue (logged_env E) (ti_identifier issue)
      (''issue not found before terminal review claim: '' @ ti_identifier issue)) (\<lambda>_. logs ?R) (logs ok)"
    by (rule valid_post [OF valid_get_issue [where R = ?R and X = ?R]]) (use saw in \<open>auto simp: logs_def\<close>)
  fix current
  have wrote: "?R (es @ [WroteField k (review_agent_assignment v)])" if "?R es" for es k
    using that v by (simp add: ok_def orderly_snoc may_write_def seen_monotone)
  have "valid (logs ?R) (recovered (\<lambda>t. set_project_field_with_recovery (re_adapter (logged_env E)) t
      (current\<lparr>ti_state := from\<rparr>) (review_agent_assignment v) ''claim_field'')) (\<lambda>_. logs ?R) (logs ?R)"
  proof (rule valid_recovered)
    fix t es assume "?R es"
    then show "snd (snd (set_project_field_with_recovery (re_adapter (logged_env E)) (t, es)
        (current\<lparr>ti_state := from\<rparr>) (review_agent_assignment v) ''claim_field'')) = es \<or>
      (\<exists>e. snd (snd (set_project_field_with_recovery (re_adapter (logged_env E)) (t, es)
        (current\<lparr>ti_state := from\<rparr>) (review_agent_assignment v) ''claim_field'')) = es @ [e] \<and> ?R (es @ [e]))"
      using recovered_logs(2) [of E t es "current\<lparr>ti_state := from\<rparr>" "review_agent_assignment v" "''claim_field''"]
        wrote by auto
  qed simp
  from valid_bind [OF this valid_keeps [OF keeps_logs(4)]]
  show "valid (logs ?R) (bindE (recovered (\<lambda>t. set_project_field_with_recovery (re_adapter (logged_env E)) t
      (current\<lparr>ti_state := from\<rparr>) (review_agent_assignment v) ''claim_field'')) (\<lambda>outcome.
      review_audit outcome \<lparr>ta_command = ''manual review routing'', ta_mutation_type = ''claim_field'',
        ta_issue_ref = Some (ti_identifier issue), ta_target = Some (''Review Agent='' @ v),
        ta_from_state = Some from, ta_to_state = None, ta_reason = reason\<rparr>)) (\<lambda>_. logs ?R) (logs ok)"
    by (rule valid_post) (auto simp: logs_def)
qed

lemma publish_claim_logs:
  fixes E config issue job claim d place receipt
  defines "ok \<equiv> orderly config issue job claim d"
    and "fresh \<equiv> fresh_issue (logged_env E) config issue claim (terminal_review_loop_claim_value claim job d) d
       (tracker_recovery_marker (result_key issue job)) place receipt"
  shows "valid (logs (\<lambda>es. ok es \<and> evidence_seen issue job es \<and> still_fresh config issue job claim d cur es))
    (publish_claim (logged_env E) fresh issue (terminal_review_loop_claim_value claim job d) cur)
    (\<lambda>cur. logs (\<lambda>es. ok es \<and> evidence_seen issue job es \<and> claim_seen_closed issue job claim d es \<and>
       still_fresh config issue job claim d cur es)) (logs ok)"
proof (cases "terminal_review_loop_claim_value claim job d")
  case None
  then show ?thesis
    unfolding publish_claim_def by (auto intro!: valid_return simp: logs_def claim_seen_closed_def)
next
  case (Some v)
  note fresh = fresh_logs [where T = "evidence_seen issue job", of config issue job claim d E place receipt,
      folded ok_def fresh_def]
  show ?thesis
    unfolding publish_claim_def Some option.case
    by (rule valid_bind [OF valid_pre [OF write_claim_logs [where config = config and issue = issue and E = E,
          OF Some, folded ok_def]]], simp add: logs_def, rule valid_bind [OF fresh])
      (use Some in \<open>auto intro!: seen_monotone valid_if valid_fail valid_return simp: logs_def claim_seen_closed_def\<close>)
qed

lemma content_logs:
  assumes "\<And>es. R es \<Longrightarrow> R (es @ [WroteContent (ti_identifier issue) (ti_title issue) (check_review_verified_issue_body_checkboxes (canonical_body issue))])"
  shows "keeps (update_review_checklist_for_pass (logged_env E) issue target) (logs R)"
proof (cases "ti_description issue")
  case None
  then show ?thesis by (simp add: update_review_checklist_for_pass_def keeps_return)
next
  case (Some body)
  then have "canonical_body issue = canonical_issue_body_without_workpad body" by (simp add: canonical_body_def)
  then show ?thesis
    using assms unfolding update_review_checklist_for_pass_def Some option.case Let_def
    by (intro keeps_if keeps_return keeps_bind keeps_logs)
      (fastforce simp: keeps_def on_tracker_def logged_env_def noting_def logs_def Let_def split: prod.splits)
qed

lemma publish_checklist_logs:
  fixes E config issue job claim d place receipt
  defines "ok \<equiv> orderly config issue job claim d"
    and "fresh \<equiv> fresh_issue (logged_env E) config issue claim (terminal_review_loop_claim_value claim job d) d
       (tracker_recovery_marker (result_key issue job)) place receipt"
  shows "valid (logs (\<lambda>es. ok es \<and> evidence_seen issue job es \<and> claim_seen_closed issue job claim d es \<and>
       still_fresh config issue job claim d cur es))
    (publish_checklist (logged_env E) fresh d cur)
    (\<lambda>cur. logs (\<lambda>es. ok es \<and> ready_to_route config issue job claim d es)) (logs ok)"
proof (cases "is_passed (rd_outcome d)")
  case False
  then show ?thesis
    unfolding publish_checklist_def by (auto intro!: valid_return simp: logs_def ready_to_route_def)
next
  case True
  let ?T = "\<lambda>es. evidence_seen issue job es \<and> claim_seen_closed issue job claim d es"
  note fresh = fresh_logs [where T = ?T, of config issue job claim d E place receipt, folded ok_def fresh_def]
  have "keeps (update_review_checklist_for_pass (logged_env E) cur target) (logs (\<lambda>es. ok es \<and> ?T es))" for target
    by (rule content_logs) (use True in \<open>simp add: ok_def orderly_snoc may_write_def seen_monotone\<close>)
  then have wrote: "valid (logs (\<lambda>es. ok es \<and> evidence_seen issue job es \<and> claim_seen_closed issue job claim d es \<and>
       still_fresh config issue job claim d cur es)) (update_review_checklist_for_pass (logged_env E) cur target)
      (\<lambda>_. logs (\<lambda>es. ok es \<and> ?T es)) (logs ok)" for target
    by (rule valid_post [OF valid_pre [OF valid_keeps]]) (auto simp: logs_def)
  show ?thesis
    unfolding publish_checklist_def Let_def checklist_complete_def [symmetric] simp_thms
    using True
    by (simp, intro valid_bind [OF wrote] valid_bind [OF fresh])
      (auto intro!: seen_monotone valid_if valid_fail valid_return simp: logs_def ready_to_route_def)
qed

lemma publish_state_logs:
  fixes E config issue job claim d place receipt
  defines "ok \<equiv> orderly config issue job claim d"
    and "fresh \<equiv> fresh_issue (logged_env E) config issue claim (terminal_review_loop_claim_value claim job d) d
       (tracker_recovery_marker (result_key issue job)) place receipt"
  shows "valid (logs (\<lambda>es. ok es \<and> ready_to_route config issue job claim d es))
    (publish_state (logged_env E) config fresh issue job d cur) (\<lambda>_. logs ok) (logs ok)"
proof (cases "rd_target_state d")
  case None
  then show ?thesis unfolding publish_state_def by (auto intro!: valid_return simp: logs_def)
next
  case (Some target)
  let ?R = "\<lambda>es. ok es \<and> ready_to_route config issue job claim d es"
  note fresh = fresh_logs [where T = "\<lambda>_. True", of config issue job claim d E place receipt, folded ok_def,
      simplified, folded fresh_def]
  have "valid (logs ?R) (recovered (\<lambda>t. set_state_with_recovery (re_adapter (logged_env E)) t
      (ti_identifier issue) (Some cur) target ''state_change'')) (\<lambda>_. logs ok) (logs ok)"
  proof (rule valid_recovered)
    fix t es assume "?R es"
    then have "ok (es @ [WroteState (ti_identifier issue) target])"
      using Some by (simp add: ok_def orderly_snoc may_write_def)
    then show "snd (snd (set_state_with_recovery (re_adapter (logged_env E)) (t, es) (ti_identifier issue)
        (Some cur) target ''state_change'')) = es \<or>
      (\<exists>e. snd (snd (set_state_with_recovery (re_adapter (logged_env E)) (t, es) (ti_identifier issue)
        (Some cur) target ''state_change'')) = es @ [e] \<and> ok (es @ [e]))"
      using recovered_logs(1) [of E t es "ti_identifier issue" "Some cur" target "''state_change''"] by auto
  qed simp
  then show ?thesis
    unfolding publish_state_def Some option.case
    by (rule valid_bind, intro valid_bind [OF valid_keeps [OF keeps_logs(4)]] valid_bind [OF fresh])
      (auto intro!: valid_if valid_fail valid_return simp: logs_def)
qed

lemma publish_logs:
  fixes E config issue job claim d
  defines "ok \<equiv> orderly config issue job claim d"
  shows "keeps (publish (logged_env E) config issue job claim repeat d place receipt) (logs ok)"
proof (rule keeps_valid)
  note save = valid_keeps [OF keeps_logs(5) [where E = "logged_env E" and place = place]]
  show "valid (logs ok) (publish (logged_env E) config issue job claim repeat d place receipt) (\<lambda>_. logs ok) (logs ok)"
    unfolding publish_def Let_def result_key_def [symmetric]
  proof (rule valid_bind)
    show "valid (logs ok) (case pb_evidence (receipt\<lparr>pb_job := Some job,
        pb_state := if pb_state receipt = EvidencePublished then EvidencePublished else ResultReady\<rparr>) of
        Some text \<Rightarrow> returnE text | None \<Rightarrow> review_evidence (logged_env E) issue job repeat) (\<lambda>_. logs ok) (logs ok)"
      by (cases "pb_evidence receipt") (auto intro!: valid_keeps keeps_return evidence_keeps_logs)
  next
    fix evidence
    let ?r = "receipt\<lparr>pb_job := Some job,
        pb_state := if pb_state receipt = EvidencePublished then EvidencePublished else ResultReady,
        pb_evidence := Some evidence\<rparr>"
    let ?p = "?r\<lparr>pb_state := EvidencePublished\<rparr>"
    have saved: "valid (logs (\<lambda>es. ok es \<and> S es)) (publication_save (logged_env E) place x)
        (\<lambda>_. logs (\<lambda>es. ok es \<and> S es)) (logs ok)" for S x
      by (rule valid_post [OF save]) (auto simp: logs_def)
    show "valid (logs ok)
      (bindE (publication_save (logged_env E) place ?r) (\<lambda>_.
       bindE (publish_evidence (logged_env E) (fresh_issue (logged_env E) config issue claim
          (terminal_review_loop_claim_value claim job d) d (tracker_recovery_marker (result_key issue job)) place)
          issue job d (result_key issue job) ?r) (\<lambda>current.
       bindE (publication_save (logged_env E) place ?p) (\<lambda>_.
       bindE (publish_claim (logged_env E) (fresh_issue (logged_env E) config issue claim
          (terminal_review_loop_claim_value claim job d) d (tracker_recovery_marker (result_key issue job)) place ?p)
          issue (terminal_review_loop_claim_value claim job d) current) (\<lambda>current.
       bindE (publish_checklist (logged_env E) (fresh_issue (logged_env E) config issue claim
          (terminal_review_loop_claim_value claim job d) d (tracker_recovery_marker (result_key issue job)) place ?p)
          d current) (\<lambda>current.
       bindE (publish_state (logged_env E) config (fresh_issue (logged_env E) config issue claim
          (terminal_review_loop_claim_value claim job d) d (tracker_recovery_marker (result_key issue job)) place ?p)
          issue job d current) (\<lambda>_.
       publication_save (logged_env E) place (?p\<lparr>pb_state := Complete\<rparr>)))))))) (\<lambda>_. logs ok) (logs ok)"
      unfolding ok_def
      by (intro valid_bind [OF save] valid_bind [OF publish_evidence_logs] valid_bind [OF saved [unfolded ok_def]]
          valid_bind [OF publish_claim_logs] valid_bind [OF publish_checklist_logs]
          valid_bind [OF publish_state_logs] save)
  qed
qed

lemma decided: "liftE (may_panic (Inr d)) = returnE d"
  by (simp add: fun_eq_iff liftE_def returnE_def may_panic_def)

lemma publication_orderly:
  assumes "apply_review_result (logged_env E) config issue job claim repeat w = (r, w')"
    and "snd (rw_tracker w) = []" and "snd (rw_tracker w') = pre @ e # post"
  shows "\<exists>d. review_gate_decision_for_issue job issue = Inr d \<and> may_write config issue job claim d pre e"
proof (cases "review_gate_decision_for_issue job issue")
  case (Inl p)
  then have "w' = w" using assms(1)
    by (auto simp: apply_review_result_def bindE_def liftE_def may_panic_def)
  then show ?thesis using assms(2,3) by simp
next
  case (Inr d)
  have "keeps (apply_review_result (logged_env E) config issue job claim repeat)
      (logs (orderly config issue job claim d))"
    unfolding apply_review_result_def Inr decided bindE_return Let_def
    by (intro keeps_if keeps_fail keeps_bind keeps_logs keeps_lift keeps_return publish_logs)
  moreover have "logs (orderly config issue job claim d) w"
    using assms(2) by (simp add: logs_def orderly_def)
  ultimately have "orderly config issue job claim d (snd (rw_tracker w'))"
    using assms(1) unfolding keeps_def logs_def by blast
  then show ?thesis using Inr assms(3) unfolding orderly_def by blast
qed

end
