(* ===== verification/Review_Board.thy ===== *)
theory Review_Board
  imports Review_Publication
begin

section \<open>A publication that reaches its end\<close>

text \<open>
  A tracker that does what it is asked and that nobody else changes: one issue with its comments,
  which are read after the body, behind the marker of attached evidence. On it a publication
  completes. This shows that the checks of a publication do not contradict its own writes.
\<close>

record board =
  bd_issue :: TrackerIssue
  bd_comments :: "string list"

definition ATTACHED :: string where "ATTACHED = ''<!-- shea-symphony-attached-evidence -->''"

definition board_view :: "board \<Rightarrow> TrackerIssue" where
  "board_view b =
     (if bd_comments b = [] then bd_issue b
      else (bd_issue b)\<lparr>ti_description := Some (unwrap_or (ti_description (bd_issue b)) [] @ ATTACHED @ concat (bd_comments b))\<rparr>)"

definition board_adapter :: "RuntimeConfig \<Rightarrow> board TrackerAdapter" where
  "board_adapter config =
     \<lparr>ta_get_issue = (\<lambda>b k. Inr (Some (board_view b))),
      ta_set_state = (\<lambda>b k s. (Inr (), b\<lparr>bd_issue := (bd_issue b)\<lparr>ti_state := mapped_state config s\<rparr>\<rparr>)),
      ta_set_project_field = (\<lambda>b k a. (Inr (), b\<lparr>bd_issue := (bd_issue b)\<lparr>ti_project_fields :=
         (ti_project_fields (bd_issue b))(pa_name a \<mapsto> String (pa_value a))\<rparr>\<rparr>)),
      ta_upsert_workpad = (\<lambda>b k md. (Inr (), b)),
      ta_add_issue_comment = (\<lambda>b k md. (Inr (), b\<lparr>bd_comments := bd_comments b @ [md]\<rparr>)),
      ta_close_issue = (\<lambda>b k. (Inr (), b))\<rparr>"

text \<open>A disk that never fails and a renderer that needs no template.\<close>

definition board_env :: "RuntimeConfig \<Rightarrow> (board, unit) ReviewEnv" where
  "board_env config =
     \<lparr>re_adapter = board_adapter config, re_get_issue = (\<lambda>b k. (Inr (Some (board_view b)), b)),
      re_update_content = (\<lambda>b k title body. (Inr (), b\<lparr>bd_issue := (bd_issue b)
         \<lparr>ti_title := title, ti_description := Some body\<rparr>\<rparr>)),
      re_clear_field = (\<lambda>b k name. (Inr (), b)),
      re_issues_by_state = (\<lambda>b state. (Inr [board_view b], b)),
      re_write = (\<lambda>place. returnE ()), re_list = (\<lambda>dir. returnE ()), re_lock = (\<lambda>dir. returnE ()),
      re_ledger = (\<lambda>g. (\<lparr>lo_create_dir = None, lo_stage = None, lo_persist = None\<rparr>, g)),
      re_clock_ms = (\<lambda>g. (0, g)), re_revision = ''unknown'', re_render = (\<lambda>key fs. returnE key),
      re_parse_prefix = (\<lambda>s. None), re_read_artifact = (\<lambda>g path. None), re_json_text = (\<lambda>v. [])\<rparr>"

subsection \<open>Facts: what the board shows\<close>

lemma trim_end_ticks: "ticks a b \<Longrightarrow> trim_end a = a \<Longrightarrow> trim_end b = b"
proof (cases "a = []")
  case False
  assume t: "ticks a b" and a: "trim_end a = a"
  from False obtain c x where ax: "a = x @ [c]" by (metis rev_exhaust)
  with t obtain y e where b: "b = y @ [e]" and e: "e = c \<or> c = CHR '' ''"
    unfolding ticks_def by (auto simp: list_all2_append1 list_all2_Cons1)
  have "\<not> is_whitespace c"
  proof
    assume "is_whitespace c"
    then have "length (trim_end a) < length a"
      using length_dropWhile_le [of is_whitespace "rev x"]
      by (simp add: ax trim_end_def trim_end_matches_def le_imp_less_Suc)
    then show False using a by simp
  qed
  then have "\<not> is_whitespace e" using e by (auto simp: is_whitespace_def)
  then show ?thesis by (simp add: b trim_end_def trim_end_matches_def)
qed (simp add: ticks_def)

lemma trim_end_idem: "trim_end (trim_end s) = trim_end s"
  by (simp add: trim_end_def trim_end_matches_def dropWhile_fixpoint)

lemma set_trim_end: "set (trim_end s) \<subseteq> set s"
  by (auto simp: trim_end_def trim_end_matches_def dest: set_dropWhileD)

lemma before_marker_at: "c \<notin> set a \<Longrightarrow> before_marker (c # p) (a @ (c # p) @ b) = a"
  unfolding before_marker_def using split_at_sub_first [of c a p b] by simp

lemma before_marker_absent: "c \<notin> set a \<Longrightarrow> before_marker (c # p) a = a"
  using contains_subset [of a "c # p"] by (auto simp: before_marker_def contains_def split: option.split)

lemma canonical_plain:
  "CHR ''<'' \<notin> set body \<Longrightarrow> canonical_issue_body_without_workpad body = trim_end body"
  by (simp add: canonical_issue_body_without_workpad_def before_marker_absent)

lemma canonical_attached:
  assumes "CHR ''<'' \<notin> set body"
  shows "canonical_issue_body_without_workpad (body @ ATTACHED @ x) = trim_end body"
proof -
  obtain p where p: "ATTACHED = CHR ''<'' # p" "''<!-- shea-symphony-attached-evidence -->'' = CHR ''<'' # p"
    by (simp add: ATTACHED_def)
  show ?thesis
    unfolding canonical_issue_body_without_workpad_def p before_marker_at [OF assms]
    by (simp add: before_marker_absent assms)
qed

lemma canonical_view:
  assumes "ti_description (bd_issue b) = Some body" and "CHR ''<'' \<notin> set body"
  shows "canonical_body (board_view b) = trim_end body"
  using assms by (simp add: canonical_body_def board_view_def canonical_plain canonical_attached)

lemma view_simps [simp]:
  "ti_id (board_view b) = ti_id (bd_issue b)" "ti_identifier (board_view b) = ti_identifier (bd_issue b)"
  "ti_title (board_view b) = ti_title (bd_issue b)" "ti_state (board_view b) = ti_state (bd_issue b)"
  "ti_linked_pull_requests (board_view b) = ti_linked_pull_requests (bd_issue b)"
  "ti_project_fields (board_view b) = ti_project_fields (bd_issue b)"
  "project_text_field (board_view b) name = project_text_field (bd_issue b) name"
  "issue_is_closed (board_view b) = issue_is_closed (bd_issue b)"
  "ready_prs (board_view b) = ready_prs (bd_issue b)"
  by (simp_all add: board_view_def project_text_field_def issue_is_closed_def ready_prs_def)

lemma view_marker:
  "md \<in> set (bd_comments b) \<Longrightarrow> contains md marker \<Longrightarrow> has_marker marker (board_view b)"
  by (auto simp: has_marker_def board_view_def contains_iff dest!: split_list) (metis append.assoc)

subsection \<open>Facts: the board stays fresh\<close>

text \<open>The boards that a publication of the result for \<open>issue\<close> goes through.\<close>

definition on_the_way ::
    "RuntimeConfig \<Rightarrow> TrackerIssue \<Rightarrow> LaneClaim \<Rightarrow> string \<Rightarrow> ReviewGateDecision \<Rightarrow> string \<Rightarrow> board \<Rightarrow> bool" where
  "on_the_way config issue c v d marker b \<longleftrightarrow>
     (\<exists>state body pf body0.
        bd_issue b = issue\<lparr>ti_state := state, ti_description := Some body, ti_project_fields := pf\<rparr> \<and>
        ti_description issue = Some body0 \<and> CHR ''<'' \<notin> set body0 \<and> char_of (13::nat) \<notin> set body0 \<and>
        pf ''GitHub Issue State'' = ti_project_fields issue ''GitHub Issue State'' \<and>
        (let published = has_marker marker (board_view b) in
         (state = ti_state issue \<or> published \<and>
            (case rd_target_state d of Some target \<Rightarrow> state = mapped_state config target | None \<Rightarrow> False)) \<and>
         (body = body0 \<or> published \<and> is_passed (rd_outcome d) \<and>
            body = check_review_verified_issue_body_checkboxes (trim_end body0)) \<and>
         (pf = ti_project_fields issue \<or>
          published \<and> pf = (ti_project_fields issue)(''Review Agent'' \<mapsto> String v))))"

lemma checked_body:
  assumes "CHR ''<'' \<notin> set body" and "char_of (13::nat) \<notin> set body"
  defines "checked \<equiv> check_review_verified_issue_body_checkboxes (trim_end body)"
  shows "CHR ''<'' \<notin> set checked" "trim_end checked = checked"
    "check_review_verified_issue_body_checkboxes checked = checked"
proof -
  have cr: "char_of (13::nat) \<notin> set (trim_end body)" using assms(2) set_trim_end [of body] by blast
  have t: "ticks (trim_end body) checked"
    "check_review_verified_issue_body_checkboxes checked = checked"
    using checked_ticks [OF cr] unfolding checked_def by blast+
  show "CHR ''<'' \<notin> set checked" using ticks_set [OF t(1)] set_trim_end [of body] assms(1) by auto
  show "trim_end checked = checked" by (rule trim_end_ticks [OF t(1) trim_end_idem])
  show "check_review_verified_issue_body_checkboxes checked = checked" by (rule t(2))
qed

lemma project_text_field_updated:
  "trim v = v \<Longrightarrow> v \<noteq> [] \<Longrightarrow>
   project_text_field (i\<lparr>ti_project_fields := pf(''Review Agent'' \<mapsto> String v)\<rparr>) ''Review Agent'' = Some v"
  by (simp add: project_text_field_def)

lemma board_fresh:
  assumes way: "on_the_way config issue c v d marker b"
    and state: "ti_state issue = sm_agent_review (tc_state_map (rc_tracker config))"
    and "open": "\<not> issue_is_closed issue" and pr: "one_ready_pr (ready_prs issue)"
    and claim: "project_text_field issue ''Review Agent'' = Some (claim_render c)"
    and v: "trim v = v" "v \<noteq> []"
  shows "validate_publication_freshness config issue (board_view b) (Some c) (Some v) d marker = Inr ()"
proof -
  from way obtain state' body pf body0 where
    i: "bd_issue b = issue\<lparr>ti_state := state', ti_description := Some body, ti_project_fields := pf\<rparr>"
    and body0: "ti_description issue = Some body0" "CHR ''<'' \<notin> set body0" "char_of (13::nat) \<notin> set body0"
    and pf: "pf ''GitHub Issue State'' = ti_project_fields issue ''GitHub Issue State''"
    and s: "state' = ti_state issue \<or> has_marker marker (board_view b) \<and>
       (case rd_target_state d of Some target \<Rightarrow> state' = mapped_state config target | None \<Rightarrow> False)"
    and bd: "body = body0 \<or> has_marker marker (board_view b) \<and> is_passed (rd_outcome d) \<and>
       body = check_review_verified_issue_body_checkboxes (trim_end body0)"
    and f: "pf = ti_project_fields issue \<or>
       has_marker marker (board_view b) \<and> pf = (ti_project_fields issue)(''Review Agent'' \<mapsto> String v)"
    unfolding on_the_way_def Let_def by blast
  have plain: "CHR ''<'' \<notin> set body" using bd body0(2) checked_body(1) [OF body0(2,3)] by auto
  have cur: "canonical_body (board_view b) = trim_end body"
    by (rule canonical_view) (simp_all add: i plain)
  have orig: "canonical_body issue = trim_end body0"
    using body0 by (simp add: canonical_body_def canonical_plain)
  have same_body: "trim_end body = trim_end body0 \<or> has_marker marker (board_view b) \<and> is_passed (rd_outcome d) \<and>
      trim_end body = check_review_verified_issue_body_checkboxes (trim_end body0)"
    using bd checked_body(2) [OF body0(2,3)] by auto
  have closed: "\<not> issue_is_closed (bd_issue b)" using "open" pf by (simp add: i issue_is_closed_def)
  have prs: "ready_prs (bd_issue b) = ready_prs issue" by (simp add: i ready_prs_def)
  have owner: "project_text_field (bd_issue b) ''Review Agent'' = Some (claim_render c) \<or>
      has_marker marker (board_view b) \<and> project_text_field (bd_issue b) ''Review Agent'' = Some v"
    using f claim project_text_field_updated [OF v] by (auto simp: i project_text_field_def)
  have routed: "state_key (ti_state (bd_issue b)) = state_key (sm_agent_review (tc_state_map (rc_tracker config))) \<or>
      has_marker marker (board_view b) \<and>
      (case rd_target_state d of Some target \<Rightarrow> state_key (ti_state (bd_issue b)) = mapped_state_key config target
       | None \<Rightarrow> False)"
    using s by (auto simp: i state mapped_state_key_def split: option.splits)
  show ?thesis
    unfolding validate_publication_freshness_def Let_def view_simps cur orig
    using routed same_body owner closed prs pr by (auto simp: i)
qed

subsection \<open>Facts: the closed claim\<close>

lemma terminal_job_decided:
  assumes "review_gate_decision_for_issue job issue = Inr d" and "review_job_is_terminal job"
  shows "rd_outcome d \<noteq> StillRunning"
  using assms
  by (auto simp: review_gate_decision_for_issue_def review_gate_decision_def review_gate_decision_for_actor_def
      review_job_is_terminal_def completed_decision_def failed_decision_def and_then_Inr_iff
      split: option.splits if_splits ReviewJobState.splits)

lemma terminal_value_trimmed:
  assumes "claim_complete c" and "word res"
  shows "trim (terminal_review_claim_value c st res) = terminal_review_claim_value c st res"
    "terminal_review_claim_value c st res \<noteq> []"
  using trim_terminal_value [of "with_state c st" res] assms by (simp_all add: terminal_review_claim_value_def)

lemma loop_claim_value:
  assumes "review_gate_decision_for_issue job issue = Inr d" and "review_job_is_terminal job" and "claim_complete c"
  shows "\<exists>v. terminal_review_loop_claim_value (Some c) job d = Some v \<and> trim v = v \<and> v \<noteq> []"
proof -
  have w: "word ''passed''" "word ''rejected''" "word ''inconclusive''" "word ''blocked''" "word ''unavailable''"
    "word ''cancelled''" by code_simp+
  show ?thesis
    using terminal_job_decided [OF assms(1,2)]
    by (cases "rd_outcome d") (simp_all add: terminal_review_loop_claim_value_def terminal_value_trimmed assms(3) w)
qed

subsection \<open>Facts: reaching the end\<close>

text \<open>The operation returns, with a value and a world as stated.\<close>

definition reaches :: "('w, 'e, 'a) io \<Rightarrow> ('a \<Rightarrow> 'w \<Rightarrow> bool) \<Rightarrow> 'w \<Rightarrow> bool" where
  "reaches m Q w \<longleftrightarrow> (\<exists>a w'. m w = (Inr a, w') \<and> Q a w')"

lemma reaches_bind: "reaches m (\<lambda>a. reaches (f a) Q) w \<Longrightarrow> reaches (bindE m f) Q w"
  by (auto simp: reaches_def bindE_def)

lemma reaches_return: "Q a w \<Longrightarrow> reaches (returnE a) Q w"
  by (simp add: reaches_def)

lemma reaches_post: "reaches m Q w \<Longrightarrow> (\<And>a w. Q a w \<Longrightarrow> Q' a w) \<Longrightarrow> reaches m Q' w"
  by (auto simp: reaches_def)

lemma reaches_save:
  "(\<And>w'. rw_tracker w' = rw_tracker w \<Longrightarrow> Q () w') \<Longrightarrow> reaches (publication_save (board_env config) place r) Q w"
  by (simp add: reaches_def publication_save_def bindE_def beyond_def board_env_def review_failed_def returnE_def)

lemma reaches_audit:
  "(\<And>w'. rw_tracker w' = rw_tracker w \<Longrightarrow> Q () w') \<Longrightarrow> reaches (review_audit outcome a) Q w"
  by (simp add: reaches_def review_audit_def)

lemma reaches_recovered:
  "f (rw_tracker w) = (Inr a, t) \<Longrightarrow> (\<And>w'. rw_tracker w' = t \<Longrightarrow> Q a w') \<Longrightarrow> reaches (recovered f) Q w"
  by (simp add: reaches_def recovered_def review_failed_def)

lemma reaches_on_tracker:
  "f (rw_tracker w) = (Inr a, t) \<Longrightarrow> (\<And>w'. rw_tracker w' = t \<Longrightarrow> Q a w') \<Longrightarrow> reaches (on_tracker f) Q w"
  by (simp add: reaches_def on_tracker_def review_failed_def)

lemma reaches_get:
  "(\<And>w'. rw_tracker w' = rw_tracker w \<Longrightarrow> Q (board_view (rw_tracker w)) w') \<Longrightarrow>
   reaches (get_issue (board_env config) k missing) Q w"
  unfolding get_issue_def
  by (intro reaches_bind reaches_on_tracker [where t = "rw_tracker w" and a = "Some (board_view (rw_tracker w))"])
    (simp_all add: board_env_def reaches_return)

text \<open>An issue in review that a run owns.\<close>

definition in_review :: "RuntimeConfig \<Rightarrow> TrackerIssue \<Rightarrow> LaneClaim \<Rightarrow> bool" where
  "in_review config issue c \<longleftrightarrow>
     tc_state_map (rc_tracker config) = default_state_map \<and> ti_state issue = ''Agent Review'' \<and>
     \<not> issue_is_closed issue \<and> one_ready_pr (ready_prs issue) \<and>
     project_text_field issue ''Review Agent'' = Some (claim_render c) \<and> claim_complete c \<and>
     (\<exists>body. ti_description issue = Some body \<and> CHR ''<'' \<notin> set body \<and> char_of (13::nat) \<notin> set body)"

lemma reaches_fresh:
  assumes "on_the_way config issue c v d marker (rw_tracker w)" and "in_review config issue c"
    and "trim v = v" "v \<noteq> []"
    and "\<And>w'. rw_tracker w' = rw_tracker w \<Longrightarrow> Q (board_view (rw_tracker w)) w'"
  shows "reaches (fresh_issue (board_env config) config issue (Some c) (Some v) d marker place receipt) Q w"
proof -
  have "ti_state issue = sm_agent_review (tc_state_map (rc_tracker config))"
    using assms(2) by (simp add: in_review_def default_state_map_def)
  then have "validate_publication_freshness config issue (board_view (rw_tracker w)) (Some c) (Some v) d marker = Inr ()"
    using board_fresh [OF assms(1)] assms(2-4) by (simp add: in_review_def)
  then show ?thesis
    unfolding fresh_issue_def by (intro reaches_bind reaches_get) (simp add: reaches_return assms(5))
qed

lemma start_on_the_way:
  assumes "in_review config issue c"
  shows "on_the_way config issue c v d marker \<lparr>bd_issue = issue, bd_comments = cs\<rparr>"
proof -
  obtain body where "ti_description issue = Some body" "CHR ''<'' \<notin> set body" "char_of (13::nat) \<notin> set body"
    using assms by (auto simp: in_review_def)
  then show ?thesis
    unfolding on_the_way_def Let_def
    by (intro exI [of _ "ti_state issue"] exI [of _ body] exI [of _ "ti_project_fields issue"] exI [of _ body]) simp
qed

lemma no_marker_yet:
  assumes "in_review config issue c"
  shows "\<not> issue_has_recovery_marker issue key"
proof
  assume "issue_has_recovery_marker issue key"
  then obtain body where "ti_description issue = Some body" "contains body (tracker_recovery_marker key)"
    by (auto simp: issue_has_recovery_marker_def split: option.splits)
  moreover have "CHR ''<'' \<in> set (tracker_recovery_marker key)" by (simp add: tracker_recovery_marker_def)
  ultimately show False using assms contains_subset [of body] by (auto simp: in_review_def)
qed

lemma reaches_else: "\<not> b \<Longrightarrow> reaches n Q w \<Longrightarrow> reaches (if b then m else n) Q w"
  by simp

lemma reaches_comment:
  assumes "rw_tracker w = \<lparr>bd_issue = issue, bd_comments = []\<rparr>" and "\<not> issue_has_recovery_marker issue key"
    and "\<And>w'. rw_tracker w' = \<lparr>bd_issue = issue, bd_comments = [ensure_tracker_recovery_marker md key]\<rparr> \<Longrightarrow> Q Applied w'"
  shows "reaches (recovered (\<lambda>t. add_timeline_comment_with_recovery (re_adapter (board_env config)) t
    (ti_identifier issue) (Some issue) md key ty)) Q w"
proof (rule reaches_recovered)
  show "add_timeline_comment_with_recovery (re_adapter (board_env config)) (rw_tracker w) (ti_identifier issue)
      (Some issue) md key ty = (Inr Applied, \<lparr>bd_issue = issue, bd_comments = [ensure_tracker_recovery_marker md key]\<rparr>)"
    by (simp add: assms(1,2) add_timeline_comment_with_recovery_def board_env_def board_adapter_def)
qed (rule assms(3))

lemma reaches_evidence:
  fixes issue job
  defines "marker \<equiv> tracker_recovery_marker (result_key issue job)"
  assumes fit: "in_review config issue c" and v: "trim v = v" "v \<noteq> []"
    and start: "rw_tracker w = \<lparr>bd_issue = issue, bd_comments = []\<rparr>"
    and receipt: "pb_state receipt \<noteq> EvidencePublished"
    and Q: "\<And>md w'. contains md marker \<Longrightarrow> rw_tracker w' = \<lparr>bd_issue = issue, bd_comments = [md]\<rparr> \<Longrightarrow>
      Q (board_view \<lparr>bd_issue = issue, bd_comments = [md]\<rparr>) w'"
  shows "reaches (publish_evidence (board_env config) (fresh_issue (board_env config) config issue (Some c) (Some v) d
      marker place) issue job d (result_key issue job) receipt) Q w"
proof -
  define md where "md = ensure_tracker_recovery_marker (unwrap_or (pb_evidence receipt) []) (result_key issue job)"
  let ?b = "\<lparr>bd_issue = issue, bd_comments = [md]\<rparr>"
  have md: "contains md marker" by (simp add: md_def marker_def ensured_marker)
  have way: "on_the_way config issue c v d marker ?b"
    by (rule start_on_the_way [OF fit])
  have seen: "has_marker marker (board_view ?b)" by (rule view_marker [OF _ md]) simp
  have view: "board_view \<lparr>bd_issue = issue, bd_comments = []\<rparr> = issue" by (simp add: board_view_def)
  have last: "reaches (fresh_issue (board_env config) config issue (Some c) (Some v) d marker place receipt)
      (\<lambda>current. reaches (if \<not> has_marker marker current
         then failE (ReviewFailed ''Review evidence write is not visible in targeted readback; publication remains pending'')
         else returnE current) Q) w'" if "rw_tracker w' = ?b" for w' :: "(board, unit) review_world"
  proof (rule reaches_fresh [OF _ fit v])
    show "on_the_way config issue c v d marker (rw_tracker w')" unfolding that by (rule way)
    fix w'' :: "(board, unit) review_world" assume "rw_tracker w'' = rw_tracker w'"
    then have "Q (board_view ?b) w''" using Q [OF md] that by simp
    then show "reaches (if \<not> has_marker marker (board_view (rw_tracker w'))
         then failE (ReviewFailed ''Review evidence write is not visible in targeted readback; publication remains pending'')
         else returnE (board_view (rw_tracker w'))) Q w''"
      unfolding that by (intro reaches_else reaches_return) (simp_all only: seen simp_thms)
  qed
  show ?thesis
    unfolding publish_evidence_def Let_def marker_def [symmetric]
  proof (rule reaches_bind, rule reaches_fresh [OF _ fit v])
    show "on_the_way config issue c v d marker (rw_tracker w)"
      using start_on_the_way [OF fit] start by simp
  qed (unfold start view, rule reaches_else, simp add: receipt, rule reaches_bind,
      rule reaches_comment [OF _ no_marker_yet [OF fit]], assumption, fold md_def,
      rule reaches_bind, rule reaches_audit, rule reaches_bind, rule last, simp)
qed

text \<open>The claim: the board then shows the closed one.\<close>

lemma reaches_field:
  assumes "\<And>w'. rw_tracker w' = b\<lparr>bd_issue := (bd_issue b)\<lparr>ti_project_fields :=
      (ti_project_fields (bd_issue b))(''Review Agent'' \<mapsto> String v)\<rparr>\<rparr> \<Longrightarrow> Q Applied w'"
    and "\<And>w'. rw_tracker w' = b \<Longrightarrow> project_text_field (bd_issue b) ''Review Agent'' = Some v \<Longrightarrow> Q AlreadyApplied w'"
    and b: "rw_tracker w = b"
  shows "reaches (recovered (\<lambda>t. set_project_field_with_recovery (re_adapter (board_env config)) t
    ((board_view b)\<lparr>ti_state := state\<rparr>) (review_agent_assignment v) ty)) Q w"
proof (cases "project_text_field (bd_issue b) ''Review Agent'' = Some v")
  case True
  then have "issue_project_field_matches ((board_view b)\<lparr>ti_state := state\<rparr>) ''Review Agent'' v"
    using view_simps(7) [of b "''Review Agent''"] by (simp add: issue_project_field_matches_def project_text_field_def)
  then have "set_project_field_with_recovery (re_adapter (board_env config)) (rw_tracker w)
      ((board_view b)\<lparr>ti_state := state\<rparr>) (review_agent_assignment v) ty = (Inr AlreadyApplied, b)"
    by (simp add: set_project_field_with_recovery_def review_agent_assignment_def b)
  then show ?thesis by (rule reaches_recovered) (rule assms(2) [OF _ True])
next
  case False
  then have "\<not> issue_project_field_matches ((board_view b)\<lparr>ti_state := state\<rparr>) ''Review Agent'' v"
    using view_simps(7) [of b "''Review Agent''"] by (simp add: issue_project_field_matches_def project_text_field_def)
  then have "set_project_field_with_recovery (re_adapter (board_env config)) (rw_tracker w)
      ((board_view b)\<lparr>ti_state := state\<rparr>) (review_agent_assignment v) ty =
      (Inr Applied, b\<lparr>bd_issue := (bd_issue b)\<lparr>ti_project_fields :=
        (ti_project_fields (bd_issue b))(''Review Agent'' \<mapsto> String v)\<rparr>\<rparr>)"
    by (simp add: set_project_field_with_recovery_def review_agent_assignment_def b board_env_def board_adapter_def)
  then show ?thesis by (rule reaches_recovered) (rule assms(1))
qed

text \<open>What holds of the board from the comment on.\<close>

definition published_on ::
    "RuntimeConfig \<Rightarrow> TrackerIssue \<Rightarrow> LaneClaim \<Rightarrow> string \<Rightarrow> ReviewGateDecision \<Rightarrow> string \<Rightarrow> board \<Rightarrow> bool" where
  "published_on config issue c v d marker b \<longleftrightarrow>
     on_the_way config issue c v d marker b \<and> (\<exists>md \<in> set (bd_comments b). contains md marker) \<and>
     ti_state (bd_issue b) = ti_state issue"

lemma published_has_marker: "published_on config issue c v d marker b \<Longrightarrow> has_marker marker (board_view b)"
  unfolding published_on_def using view_marker by blast

lemma has_marker_comments:
  "\<exists>md \<in> set (bd_comments b). contains md marker \<Longrightarrow> has_marker marker (board_view b)"
  using view_marker by blast

lemma claim_stays:
  assumes "published_on config issue c v d marker b"
  shows "published_on config issue c v d marker (b\<lparr>bd_issue := (bd_issue b)\<lparr>ti_project_fields :=
    (ti_project_fields (bd_issue b))(''Review Agent'' \<mapsto> String v)\<rparr>\<rparr>)"
proof -
  let ?b = "b\<lparr>bd_issue := (bd_issue b)\<lparr>ti_project_fields :=
    (ti_project_fields (bd_issue b))(''Review Agent'' \<mapsto> String v)\<rparr>\<rparr>"
  have "\<exists>md \<in> set (bd_comments ?b). contains md marker" using assms by (simp add: published_on_def)
  then have m: "has_marker marker (board_view b)" "has_marker marker (board_view ?b)"
    using published_has_marker [OF assms] has_marker_comments by blast+
  from assms obtain state body pf body0 where
    i: "bd_issue b = issue\<lparr>ti_state := state, ti_description := Some body, ti_project_fields := pf\<rparr>"
    and body0: "ti_description issue = Some body0" "CHR ''<'' \<notin> set body0" "char_of (13::nat) \<notin> set body0"
    and pf: "pf ''GitHub Issue State'' = ti_project_fields issue ''GitHub Issue State''"
    and st: "state = ti_state issue \<or> (case rd_target_state d of Some target \<Rightarrow> state = mapped_state config target | None \<Rightarrow> False)"
    and bd: "body = body0 \<or> is_passed (rd_outcome d) \<and> body = check_review_verified_issue_body_checkboxes (trim_end body0)"
    and f: "pf = ti_project_fields issue \<or> pf = (ti_project_fields issue)(''Review Agent'' \<mapsto> String v)"
    unfolding published_on_def on_the_way_def Let_def by blast
  let ?pf = "(ti_project_fields issue)(''Review Agent'' \<mapsto> String v)"
  have "pf(''Review Agent'' \<mapsto> String v) = ?pf" using f by auto
  then have "bd_issue ?b = issue\<lparr>ti_state := state, ti_description := Some body, ti_project_fields := ?pf\<rparr>"
    by (simp add: i)
  moreover have "?pf ''GitHub Issue State'' = ti_project_fields issue ''GitHub Issue State''" by simp
  ultimately have "on_the_way config issue c v d marker ?b"
    unfolding on_the_way_def Let_def using body0 st bd m(2)
    by (intro exI [of _ state] exI [of _ body] exI [of _ ?pf] exI [of _ body0]) (intro conjI; (assumption | blast))
  then show ?thesis using assms by (simp add: published_on_def)
qed

lemma reaches_claim:
  assumes fit: "in_review config issue c" and v: "trim v = v" "v \<noteq> []"
    and b: "published_on config issue c v d marker b" "rw_tracker w = b"
    and Q: "\<And>b w'. published_on config issue c v d marker b \<Longrightarrow> rw_tracker w' = b \<Longrightarrow>
      project_text_field (bd_issue b) ''Review Agent'' = Some v \<Longrightarrow> Q (board_view b) w'"
  shows "reaches (publish_claim (board_env config) (fresh_issue (board_env config) config issue (Some c) (Some v) d
      marker place receipt) issue (Some v) (board_view b)) Q w"
proof -
  have last: "reaches (bindE (fresh_issue (board_env config) config issue (Some c) (Some v) d marker place receipt)
      (\<lambda>current. if project_text_field current ''Review Agent'' \<noteq> Some v
         then failE (ReviewFailed ''Review terminal claim readback failed; publication remains pending'')
         else returnE current)) Q w'"
    if p: "published_on config issue c v d marker b'" "rw_tracker w' = b'"
      and f: "project_text_field (bd_issue b') ''Review Agent'' = Some v"
    for b' and w' :: "(board, unit) review_world"
  proof (rule reaches_bind, rule reaches_fresh [OF _ fit v])
    show "on_the_way config issue c v d marker (rw_tracker w')" using p by (simp add: published_on_def)
    fix w'' :: "(board, unit) review_world" assume "rw_tracker w'' = rw_tracker w'"
    then have "Q (board_view b') w''" using Q [OF p(1) _ f] p(2) by simp
    then show "reaches (if project_text_field (board_view (rw_tracker w')) ''Review Agent'' \<noteq> Some v
         then failE (ReviewFailed ''Review terminal claim readback failed; publication remains pending'')
         else returnE (board_view (rw_tracker w'))) Q w''"
      unfolding p(2) by (intro reaches_else reaches_return) (simp_all only: view_simps f not_not)
  qed
  show ?thesis
    unfolding publish_claim_def option.case write_terminal_review_claim_def bindE_assoc
  proof (rule reaches_bind, rule reaches_get, unfold b(2), rule reaches_bind, rule reaches_field)
    fix w1 w2 :: "(board, unit) review_world"
    let ?b = "b\<lparr>bd_issue := (bd_issue b)\<lparr>ti_project_fields := (ti_project_fields (bd_issue b))(''Review Agent'' \<mapsto> String v)\<rparr>\<rparr>"
    assume w2: "rw_tracker w2 = ?b"
    show "reaches (bindE (review_audit Applied
          \<lparr>ta_command = ''manual review routing'', ta_mutation_type = ''claim_field'',
           ta_issue_ref = Some (ti_identifier issue), ta_target = Some (''Review Agent='' @ v),
           ta_from_state = Some (ti_state (board_view b)), ta_to_state = None,
           ta_reason = ''evidence published for this Review run''\<rparr>)
        (\<lambda>_. bindE (fresh_issue (board_env config) config issue (Some c) (Some v) d marker place receipt)
          (\<lambda>current. if project_text_field current ''Review Agent'' \<noteq> Some v
            then failE (ReviewFailed ''Review terminal claim readback failed; publication remains pending'')
            else returnE current))) Q w2"
      by (rule reaches_bind, rule reaches_audit, rule last [OF claim_stays [OF b(1)]])
        (simp_all add: w2 project_text_field_updated [OF v])
  next
    fix w1 w2 :: "(board, unit) review_world"
    assume "rw_tracker w2 = b" and f: "project_text_field (bd_issue b) ''Review Agent'' = Some v"
    then show "reaches (bindE (review_audit AlreadyApplied
          \<lparr>ta_command = ''manual review routing'', ta_mutation_type = ''claim_field'',
           ta_issue_ref = Some (ti_identifier issue), ta_target = Some (''Review Agent='' @ v),
           ta_from_state = Some (ti_state (board_view b)), ta_to_state = None,
           ta_reason = ''evidence published for this Review run''\<rparr>)
        (\<lambda>_. bindE (fresh_issue (board_env config) config issue (Some c) (Some v) d marker place receipt)
          (\<lambda>current. if project_text_field current ''Review Agent'' \<noteq> Some v
            then failE (ReviewFailed ''Review terminal claim readback failed; publication remains pending'')
            else returnE current))) Q w2"
      by (intro reaches_bind [where m = "review_audit _ _"] reaches_audit) (rule last [OF b(1) _ f], simp)
  qed simp
qed

text \<open>The checklist of a passed issue: the body that a board on the way shows is the original one or
  the ticked one.\<close>

lemma board_body:
  assumes "on_the_way config issue c v d marker b"
  obtains body body0 where "ti_description (bd_issue b) = Some body" "CHR ''<'' \<notin> set body"
    "ti_description issue = Some body0" "CHR ''<'' \<notin> set body0" "char_of (13::nat) \<notin> set body0"
    "body = body0 \<or> body = check_review_verified_issue_body_checkboxes (trim_end body0)"
proof -
  from assms obtain state body pf body0 where
    i: "bd_issue b = issue\<lparr>ti_state := state, ti_description := Some body, ti_project_fields := pf\<rparr>"
    and body0: "ti_description issue = Some body0" "CHR ''<'' \<notin> set body0" "char_of (13::nat) \<notin> set body0"
    and bd: "body = body0 \<or> body = check_review_verified_issue_body_checkboxes (trim_end body0)"
    unfolding on_the_way_def Let_def by blast
  have "CHR ''<'' \<notin> set body" using bd body0(2) checked_body(1) [OF body0(2,3)] by auto
  then show ?thesis using that [of body body0] i body0 bd by simp
qed

lemma tick_stays:
  assumes "published_on config issue c v d marker b" and "is_passed (rd_outcome d)"
  defines "checked \<equiv> check_review_verified_issue_body_checkboxes (canonical_body (board_view b))"
  defines "ticked \<equiv> b\<lparr>bd_issue := (bd_issue b)\<lparr>ti_title := ti_title (board_view b), ti_description := Some checked\<rparr>\<rparr>"
  shows "published_on config issue c v d marker ticked"
    and "check_review_verified_issue_body_checkboxes (canonical_body (board_view ticked)) = canonical_body (board_view ticked)"
proof -
  let ?b = ticked
  from assms(1) obtain state body pf body0 where
    i: "bd_issue b = issue\<lparr>ti_state := state, ti_description := Some body, ti_project_fields := pf\<rparr>"
    and body0: "ti_description issue = Some body0" "CHR ''<'' \<notin> set body0" "char_of (13::nat) \<notin> set body0"
    and pf: "pf ''GitHub Issue State'' = ti_project_fields issue ''GitHub Issue State''"
    and st: "state = ti_state issue \<or> (case rd_target_state d of Some target \<Rightarrow> state = mapped_state config target | None \<Rightarrow> False)"
    and bd: "body = body0 \<or> body = check_review_verified_issue_body_checkboxes (trim_end body0)"
    and f: "pf = ti_project_fields issue \<or> pf = (ti_project_fields issue)(''Review Agent'' \<mapsto> String v)"
    unfolding published_on_def on_the_way_def Let_def by blast
  let ?checked = "check_review_verified_issue_body_checkboxes (trim_end body0)"
  have plain: "CHR ''<'' \<notin> set body" using bd body0(2) checked_body(1) [OF body0(2,3)] by auto
  have "canonical_body (board_view b) = trim_end body" by (rule canonical_view) (simp_all add: i plain)
  then have c: "checked = ?checked"
    unfolding checked_def using bd checked_body(2,3) [OF body0(2,3)] by auto
  have "\<exists>md \<in> set (bd_comments ?b). contains md marker" using assms(1) by (simp add: published_on_def ticked_def)
  then have m: "has_marker marker (board_view ?b)" by (rule has_marker_comments)
  have "bd_issue ?b = issue\<lparr>ti_state := state, ti_description := Some ?checked, ti_project_fields := pf\<rparr>"
    by (simp add: ticked_def i c)
  then have "on_the_way config issue c v d marker ?b"
    unfolding on_the_way_def Let_def using body0 pf st f m assms(2)
    by (intro exI [of _ state] exI [of _ ?checked] exI [of _ pf] exI [of _ body0]) (intro conjI; (assumption | blast))
  then show "published_on config issue c v d marker ?b" using assms(1) by (simp add: published_on_def ticked_def)
  have "canonical_body (board_view ?b) = trim_end ?checked"
    by (rule canonical_view) (simp_all add: ticked_def c checked_body(1) [OF body0(2,3)])
  then show "check_review_verified_issue_body_checkboxes (canonical_body (board_view ?b)) = canonical_body (board_view ?b)"
    by (simp only: checked_body(2,3) [OF body0(2,3)])
qed

lemma reaches_tick:
  assumes b: "published_on config issue c v d marker b" "rw_tracker w = b" and passed: "is_passed (rd_outcome d)"
    and Q: "\<And>b w'. published_on config issue c v d marker b \<Longrightarrow> rw_tracker w' = b \<Longrightarrow>
      check_review_verified_issue_body_checkboxes (canonical_body (board_view b)) = canonical_body (board_view b) \<Longrightarrow> Q () w'"
  shows "reaches (update_review_checklist_for_pass (board_env config) (board_view b) target) Q w"
proof -
  have "on_the_way config issue c v d marker b" using b(1) by (simp add: published_on_def)
  then obtain body where "ti_description (bd_issue b) = Some body" by (rule board_body)
  then obtain shown where shown: "ti_description (board_view b) = Some shown"
    by (cases "bd_comments b = []") (auto simp: board_view_def)
  then have cb: "canonical_issue_body_without_workpad shown = canonical_body (board_view b)" by (simp add: canonical_body_def)
  let ?checked = "check_review_verified_issue_body_checkboxes (canonical_body (board_view b))"
  show ?thesis
  proof (cases "?checked = canonical_body (board_view b)")
    case True
    then show ?thesis
      using Q [OF b True] by (simp add: update_review_checklist_for_pass_def shown cb Let_def reaches_return)
  next
    case False
    let ?b = "b\<lparr>bd_issue := (bd_issue b)\<lparr>ti_title := ti_title (board_view b), ti_description := Some ?checked\<rparr>\<rparr>"
    show ?thesis
      unfolding update_review_checklist_for_pass_def shown option.case Let_def cb
    proof (rule reaches_else [OF False], rule reaches_bind, rule reaches_on_tracker)
      show "re_update_content (board_env config) (rw_tracker w) (ti_identifier (board_view b)) (ti_title (board_view b))
          ?checked = (Inr (), ?b)" by (simp add: board_env_def b(2))
      fix w1 :: "(board, unit) review_world" assume "rw_tracker w1 = ?b"
      then show "reaches (review_audit Applied
          \<lparr>ta_command = ''review loop'', ta_mutation_type = ''issue_body_update'',
           ta_issue_ref = Some (ti_identifier (board_view b)), ta_target = Some ''non-UAT review checkboxes'',
           ta_from_state = Some (ti_state (board_view b)), ta_to_state = Some target,
           ta_reason = ''automatic review pass checklist evidence''\<rparr>) Q w1"
        by (intro reaches_audit Q [OF tick_stays(1) [OF b(1) passed] _ tick_stays(2) [OF b(1) passed]]) simp
    qed
  qed
qed

lemma reaches_checklist:
  assumes fit: "in_review config issue c" and v: "trim v = v" "v \<noteq> []"
    and b: "published_on config issue c v d marker b" "rw_tracker w = b"
    and Q: "\<And>b w'. published_on config issue c v d marker b \<Longrightarrow> rw_tracker w' = b \<Longrightarrow> Q (board_view b) w'"
  shows "reaches (publish_checklist (board_env config) (fresh_issue (board_env config) config issue (Some c) (Some v) d
      marker place receipt) d (board_view b)) Q w"
proof (cases "is_passed (rd_outcome d)")
  case False
  then show ?thesis by (simp add: publish_checklist_def reaches_return Q [OF b])
next
  case True
  show ?thesis
    unfolding publish_checklist_def Let_def
  proof (rule reaches_else, simp add: True, rule reaches_bind, rule reaches_tick [OF b True], rule reaches_bind,
      rule reaches_fresh [OF _ fit v])
    fix b1 and w1 w2 :: "(board, unit) review_world"
    assume b1: "published_on config issue c v d marker b1" "rw_tracker w1 = b1"
      and ticked: "check_review_verified_issue_body_checkboxes (canonical_body (board_view b1)) = canonical_body (board_view b1)"
    show "on_the_way config issue c v d marker (rw_tracker w1)" using b1 by (simp add: published_on_def)
    assume "rw_tracker w2 = rw_tracker w1"
    then have "Q (board_view b1) w2" using Q b1 by simp
    then show "reaches (if check_review_verified_issue_body_checkboxes (canonical_body (board_view (rw_tracker w1))) \<noteq>
          canonical_body (board_view (rw_tracker w1))
        then failE (ReviewFailed ''Review checklist readback failed; publication remains pending'')
        else returnE (board_view (rw_tracker w1))) Q w2"
      unfolding b1(2) by (intro reaches_else reaches_return) (simp_all only: ticked simp_thms)
  qed
qed

text \<open>The state. Under the shipped names a state is only left alone when the issue stays in review.\<close>

lemma default_states:
  assumes "tc_state_map (rc_tracker config) = default_state_map"
  shows "mapped_state config (route r) \<in> {''Human Review'', ''Merging'', ''Rework'', ''Need Human Input'', ''Agent Review''}"
    "tracker_state_match_key ''Agent Review'' = tracker_state_match_key (route r) \<Longrightarrow>
       mapped_state config (route r) = ''Agent Review''"
proof -
  have keys: "tracker_state_match_key ''Agent Review'' = ''agent review''"
    "tracker_state_match_key ''human_review'' = ''human review''" "tracker_state_match_key ''merging'' = ''merging''"
    "tracker_state_match_key ''rework'' = ''rework''"
    "tracker_state_match_key ''need_human_input'' = ''need human input''" by code_simp+
  show "mapped_state config (route r) \<in> {''Human Review'', ''Merging'', ''Rework'', ''Need Human Input'', ''Agent Review''}"
    by (cases r) (simp_all add: mapped_state_def assms default_state_map_def)
  show "mapped_state config (route r) = ''Agent Review''"
    if "tracker_state_match_key ''Agent Review'' = tracker_state_match_key (route r)"
    using that by (cases r) (simp_all add: mapped_state_def assms default_state_map_def keys)
qed

lemma moved_on_the_way:
  assumes "published_on config issue c v d marker b" and "rd_target_state d = Some target"
  shows "on_the_way config issue c v d marker (b\<lparr>bd_issue := (bd_issue b)\<lparr>ti_state := mapped_state config target\<rparr>\<rparr>)"
proof -
  let ?b = "b\<lparr>bd_issue := (bd_issue b)\<lparr>ti_state := mapped_state config target\<rparr>\<rparr>"
  from assms(1) obtain state body pf body0 where
    i: "bd_issue b = issue\<lparr>ti_state := state, ti_description := Some body, ti_project_fields := pf\<rparr>"
    and body0: "ti_description issue = Some body0" "CHR ''<'' \<notin> set body0" "char_of (13::nat) \<notin> set body0"
    and pf: "pf ''GitHub Issue State'' = ti_project_fields issue ''GitHub Issue State''"
    and bd: "body = body0 \<or> is_passed (rd_outcome d) \<and> body = check_review_verified_issue_body_checkboxes (trim_end body0)"
    and f: "pf = ti_project_fields issue \<or> pf = (ti_project_fields issue)(''Review Agent'' \<mapsto> String v)"
    unfolding published_on_def on_the_way_def Let_def by blast
  have "\<exists>md \<in> set (bd_comments ?b). contains md marker" using assms(1) by (simp add: published_on_def)
  then have m: "has_marker marker (board_view ?b)" by (rule has_marker_comments)
  have "bd_issue ?b = issue\<lparr>ti_state := mapped_state config target, ti_description := Some body, ti_project_fields := pf\<rparr>"
    by (simp add: i)
  moreover have "case rd_target_state d of Some target' \<Rightarrow> mapped_state config target = mapped_state config target' | None \<Rightarrow> False"
    by (simp add: assms(2))
  ultimately show ?thesis
    unfolding on_the_way_def Let_def using body0 pf bd f m
    by (intro exI [of _ "mapped_state config target"] exI [of _ body] exI [of _ pf] exI [of _ body0])
      (intro conjI; (assumption | blast))
qed

lemma reaches_state:
  assumes fit: "in_review config issue c" and v: "trim v = v" "v \<noteq> []"
    and b: "published_on config issue c v d marker b" "rw_tracker w = b"
    and d: "rd_target_state d = Some (route (rd_outcome d))"
    and Q: "\<And>w'. ti_state (bd_issue (rw_tracker w')) = mapped_state config (route (rd_outcome d)) \<Longrightarrow> Q () w'"
  shows "reaches (publish_state (board_env config) config (fresh_issue (board_env config) config issue (Some c) (Some v) d
      marker place receipt) issue job d (board_view b)) Q w"
proof -
  let ?target = "route (rd_outcome d)"
  let ?moved = "b\<lparr>bd_issue := (bd_issue b)\<lparr>ti_state := mapped_state config ?target\<rparr>\<rparr>"
  have names: "tc_state_map (rc_tracker config) = default_state_map" "ti_state (bd_issue b) = ''Agent Review''"
    using fit b(1) by (simp_all add: in_review_def published_on_def)
  have last: "reaches (bindE (review_audit outcome a) (\<lambda>_.
      bindE (fresh_issue (board_env config) config issue (Some c) (Some v) d marker place receipt) (\<lambda>current.
      if state_key (ti_state current) \<noteq> mapped_state_key config ?target
      then failE (ReviewFailed ''Review state readback failed; publication remains pending'') else returnE ()))) Q w'"
    if way: "on_the_way config issue c v d marker (rw_tracker w')"
      and st: "ti_state (bd_issue (rw_tracker w')) = mapped_state config ?target"
    for outcome a and w' :: "(board, unit) review_world"
  proof (rule reaches_bind, rule reaches_audit, rule reaches_bind, rule reaches_fresh [OF _ fit v])
    fix w1 w2 :: "(board, unit) review_world"
    assume w1: "rw_tracker w1 = rw_tracker w'"
    then show "on_the_way config issue c v d marker (rw_tracker w1)" using way by simp
    assume "rw_tracker w2 = rw_tracker w1"
    then have "Q () w2" by (intro Q) (simp add: w1 st)
    then show "reaches (if state_key (ti_state (board_view (rw_tracker w1))) \<noteq> mapped_state_key config ?target
        then failE (ReviewFailed ''Review state readback failed; publication remains pending'') else returnE ()) Q w2"
      by (intro reaches_else reaches_return) (simp_all add: w1 st mapped_state_key_def)
  qed
  show ?thesis
    unfolding publish_state_def d option.case
  proof (rule reaches_bind, cases "issue_state_matches (board_view b) ?target")
    case True
    then have same: "mapped_state config ?target = ''Agent Review''"
      using default_states(2) [OF names(1)] names(2) by (simp add: issue_state_matches_def)
    show "reaches (recovered (\<lambda>t. set_state_with_recovery (re_adapter (board_env config)) t (ti_identifier issue)
        (Some (board_view b)) ?target ''state_change'')) (\<lambda>outcome. reaches (bindE (review_audit outcome
        (publication_audit issue job ''state_change'' (ti_state (board_view b)) (Some ?target)
          ''route only after evidence and supporting readbacks'')) (\<lambda>_.
        bindE (fresh_issue (board_env config) config issue (Some c) (Some v) d marker place receipt) (\<lambda>current.
        if state_key (ti_state current) \<noteq> mapped_state_key config ?target
        then failE (ReviewFailed ''Review state readback failed; publication remains pending'') else returnE ()))) Q) w"
    proof (rule reaches_recovered)
      show "set_state_with_recovery (re_adapter (board_env config)) (rw_tracker w) (ti_identifier issue)
          (Some (board_view b)) ?target ''state_change'' = (Inr AlreadyApplied, b)"
        using True by (simp add: set_state_with_recovery_def b(2))
    qed (rule last, use b names(2) same in \<open>simp_all add: published_on_def\<close>)
  next
    case False
    show "reaches (recovered (\<lambda>t. set_state_with_recovery (re_adapter (board_env config)) t (ti_identifier issue)
        (Some (board_view b)) ?target ''state_change'')) (\<lambda>outcome. reaches (bindE (review_audit outcome
        (publication_audit issue job ''state_change'' (ti_state (board_view b)) (Some ?target)
          ''route only after evidence and supporting readbacks'')) (\<lambda>_.
        bindE (fresh_issue (board_env config) config issue (Some c) (Some v) d marker place receipt) (\<lambda>current.
        if state_key (ti_state current) \<noteq> mapped_state_key config ?target
        then failE (ReviewFailed ''Review state readback failed; publication remains pending'') else returnE ()))) Q) w"
    proof (rule reaches_recovered)
      show "set_state_with_recovery (re_adapter (board_env config)) (rw_tracker w) (ti_identifier issue)
          (Some (board_view b)) ?target ''state_change'' = (Inr Applied, ?moved)"
        using False by (simp add: set_state_with_recovery_def b(2) board_env_def board_adapter_def)
    qed (rule last, use moved_on_the_way [OF b(1) d] in simp_all)
  qed
qed

lemma reaches_review_evidence:
  assumes "review_workpad_fields (\<lambda>_. None) (\<lambda>_. None) 0 issue job = Inr fs"
    and "\<And>evidence w'. rw_tracker w' = rw_tracker w \<Longrightarrow> Q evidence w'"
  shows "reaches (review_evidence (board_env config) issue job None) Q w"
  unfolding review_evidence_def
  by (simp add: reaches_def bindE_def clock_ms_def look_def board_env_def assms(1) liftE_def may_panic_def
      render_or_panic_def returnE_def assms(2))

lemma reaches_publish:
  assumes fit: "in_review config issue c" and v: "trim v = v" "v \<noteq> []"
    and tv: "terminal_review_loop_claim_value (Some c) job d = Some v"
    and d: "rd_target_state d = Some (route (rd_outcome d))"
    and fs: "review_workpad_fields (\<lambda>_. None) (\<lambda>_. None) 0 issue job = Inr fs"
    and w: "rw_tracker w = \<lparr>bd_issue = issue, bd_comments = []\<rparr>"
    and receipt: "pb_state receipt \<noteq> EvidencePublished" "pb_evidence receipt = None"
  shows "reaches (publish (board_env config) config issue job (Some c) None d place receipt)
    (\<lambda>_ w'. ti_state (bd_issue (rw_tracker w')) = mapped_state config (route (rd_outcome d))) w"
proof -
  have pub: "published_on config issue c v d (tracker_recovery_marker (result_key issue job)) \<lparr>bd_issue = issue, bd_comments = [md]\<rparr>"
    if "contains md (tracker_recovery_marker (result_key issue job))" for md
    using that start_on_the_way [OF fit] by (simp add: published_on_def)
  have rest: "reaches (bindE (publication_save (board_env config) place published) (\<lambda>_.
        bindE (publish_claim (board_env config) (fresh_issue (board_env config) config issue (Some c) (Some v) d
            (tracker_recovery_marker (result_key issue job)) place published) issue (Some v)
            (board_view \<lparr>bd_issue = issue, bd_comments = [md]\<rparr>)) (\<lambda>current.
        bindE (publish_checklist (board_env config) (fresh_issue (board_env config) config issue (Some c) (Some v) d
            (tracker_recovery_marker (result_key issue job)) place published) d current) (\<lambda>current.
        bindE (publish_state (board_env config) config (fresh_issue (board_env config) config issue (Some c) (Some v) d
            (tracker_recovery_marker (result_key issue job)) place published) issue job d current) (\<lambda>_.
        publication_save (board_env config) place completed)))))
      (\<lambda>_ w'. ti_state (bd_issue (rw_tracker w')) = mapped_state config (route (rd_outcome d))) w3"
    if md: "contains md (tracker_recovery_marker (result_key issue job))"
      and w3: "rw_tracker w3 = \<lparr>bd_issue = issue, bd_comments = [md]\<rparr>"
    for md published completed and w3 :: "(board, unit) review_world"
    by (rule reaches_bind, rule reaches_save, rule reaches_bind, rule reaches_claim [OF fit v pub [OF md]],
        simp add: w3, rule reaches_bind, rule reaches_checklist [OF fit v], assumption, assumption,
        rule reaches_bind, rule reaches_state [OF fit v], assumption, assumption, rule d, rule reaches_save, simp)
  have ev: "pb_evidence (receipt\<lparr>pb_job := j, pb_state := s\<rparr>) = None" for j s
    by (simp add: receipt(2))
  have st: "pb_state (receipt\<lparr>pb_job := j, pb_state := if pb_state receipt = EvidencePublished then EvidencePublished
      else ResultReady, pb_evidence := e\<rparr>) \<noteq> EvidencePublished" for j e
    by (simp add: receipt(1))
  show ?thesis
    unfolding publish_def Let_def result_key_def [symmetric] tv ev option.case
  proof (rule reaches_bind, rule reaches_review_evidence [OF fs], rule reaches_bind, rule reaches_save,
      rule reaches_bind, rule reaches_evidence [OF fit v _ st])
    fix w1 w2 :: "(board, unit) review_world"
    assume "rw_tracker w1 = rw_tracker w" "rw_tracker w2 = rw_tracker w1"
    then show "rw_tracker w2 = \<lparr>bd_issue = issue, bd_comments = []\<rparr>" using w by simp
  qed (rule rest)
qed

lemma board_publishes:
  assumes "in_review config issue c"
    and "review_gate_decision_for_issue job issue = Inr d"
    and "review_job_is_terminal job" and "rj_issue_ref job = ti_identifier issue"
    and "review_workpad_fields (\<lambda>_. None) (\<lambda>_. None) 0 issue job = Inr fs"
    and "rw_tracker w = \<lparr>bd_issue = issue, bd_comments = []\<rparr>"
    and "receipt_at (publication_path config (ti_identifier issue) (Some c) (rj_id job)) w = None"
  shows "\<exists>w'. apply_review_result (board_env config) config issue job (Some c) None w = (Inr (), w') \<and>
    ti_state (bd_issue (rw_tracker w')) = mapped_state config (route (rd_outcome d))"
proof -
  have "claim_complete c" using assms(1) by (simp add: in_review_def)
  from loop_claim_value [OF assms(2,3) this] obtain v
    where v: "terminal_review_loop_claim_value (Some c) job d = Some v" "trim v = v" "v \<noteq> []" by blast
  have target: "rd_target_state d = Some (route (rd_outcome d))"
    using issue_gate_routed [OF assms(2)] by (simp add: routed_def)
  let ?place = "publication_path config (ti_identifier issue) (Some c) (rj_id job)"
  let ?receipt = "publication_new (re_revision (board_env config)) issue (Some c)"
  have fresh: "receipt_matches issue (Some c) job ?receipt" "pb_state ?receipt = PublicationState.Starting"
    "pb_evidence ?receipt = None"
    by (simp_all add: receipt_matches_def publication_new_def)
  have "apply_review_result (board_env config) config issue job (Some c) None w =
      publish (board_env config) config issue job (Some c) None d ?place ?receipt w"
    using assms(3,4,7) fresh route_allowed [of d] target
    by (simp add: apply_review_result_def assms(2) decided Let_def look_def liftE_def bindE_def review_failed_def)
  with reaches_publish [OF assms(1) v(2,3,1) target assms(5,6), of ?receipt ?place] fresh
  show ?thesis by (simp add: reaches_def)
qed

subsection \<open>Facts: the log\<close>

text \<open>Logging changes nothing: the operations of the logged environment are those of the environment,
  with the log dropped.\<close>

definition unlogged :: "('t \<times> review_event list, 'g) review_world \<Rightarrow> ('t, 'g) review_world" where
  "unlogged w = \<lparr>rw_tracker = fst (rw_tracker w), rw_outside = rw_outside w, rw_receipts = rw_receipts w,
     rw_ledgers = rw_ledgers w, rw_locks = rw_locks w, rw_audits = rw_audits w\<rparr>"

definition simulates :: "('t \<times> review_event list, 'g, 'a) review \<Rightarrow> ('t, 'g, 'a) review \<Rightarrow> bool" where
  "simulates m' m \<longleftrightarrow> (\<forall>w. m (unlogged w) = map_prod id unlogged (m' w))"

lemma simulates_basic:
  "simulates (returnE a) (returnE a)" "simulates (failE e) (failE e)" "simulates (liftE r) (liftE r)"
  "simulates (beyond m) (beyond m)" "simulates (review_audit q x) (review_audit q x)"
  "simulates (look rw_outside) (look rw_outside)" "simulates (look (receipt_at place)) (look (receipt_at place))"
  "simulates (clock_ms (logged_env E)) (clock_ms E)"
  "simulates (render_or_panic (logged_env E) key fs) (render_or_panic E key fs)"
  by (simp_all add: simulates_def unlogged_def returnE_def failE_def liftE_def beyond_def review_audit_def look_def
      receipt_at_def clock_ms_def render_or_panic_def logged_env_def Let_def split: prod.split sum.split)

lemma simulates_bind:
  assumes "simulates m' m" and "\<And>a. simulates (f' a) (f a)"
  shows "simulates (bindE m' f') (bindE m f)"
  unfolding simulates_def
proof
  fix w
  obtain r w' where "m' w = (r, w')" by (cases "m' w")
  then show "bindE m f (unlogged w) = map_prod id unlogged (bindE m' f' w)"
    using assms by (cases r) (simp_all add: simulates_def bindE_def)
qed

lemma simulates_if: "simulates m' m \<Longrightarrow> simulates n' n \<Longrightarrow> simulates (if b then m' else n') (if b then m else n)"
  by simp

lemma simulates_save: "simulates (publication_save (logged_env E) place r) (publication_save E place r)"
  unfolding publication_save_def
  by (rule simulates_bind)
    (simp_all add: logged_env_def Let_def simulates_basic, simp add: simulates_def unlogged_def)

lemma simulates_tracker:
  assumes "\<And>t es. f t = (fst (f' (t, es)), fst (snd (f' (t, es))))"
  shows "simulates (on_tracker f') (on_tracker f)"
  unfolding simulates_def
proof
  fix w :: "('a \<times> review_event list, 'c) review_world"
  obtain t es r t' es' where "rw_tracker w = (t, es)" "f' (t, es) = (r, t', es')" by (metis prod.exhaust)
  then show "on_tracker f (unlogged w) = map_prod id unlogged (on_tracker f' w)"
    using assms [of t es] by (simp add: on_tracker_def unlogged_def)
qed

lemma simulates_recovered:
  assumes "\<And>t es. f t = (fst (f' (t, es)), fst (snd (f' (t, es))))"
  shows "simulates (recovered f') (recovered f)"
  unfolding simulates_def
proof
  fix w :: "('a \<times> review_event list, 'c) review_world"
  obtain t es r t' es' where "rw_tracker w = (t, es)" "f' (t, es) = (r, t', es')" by (metis prod.exhaust)
  then show "recovered f (unlogged w) = map_prod id unlogged (recovered f' w)"
    using assms [of t es] by (simp add: recovered_def unlogged_def)
qed

lemma logged_recover:
  "recover_after_tracker_error (re_adapter (logged_env E)) (t, es) k ty e expected =
     recover_after_tracker_error (re_adapter E) t k ty e expected"
  by (simp add: recover_after_tracker_error_def logged_env_def Let_def)

lemma logged_requests:
  "ta_set_state (re_adapter (logged_env E)) (t, es) k st =
     (case ta_set_state (re_adapter E) t k st of (r, t') \<Rightarrow> (r, t', es @ [WroteState k st]))"
  "ta_set_project_field (re_adapter (logged_env E)) (t, es) k a =
     (case ta_set_project_field (re_adapter E) t k a of (r, t') \<Rightarrow> (r, t', es @ [WroteField k a]))"
  "ta_add_issue_comment (re_adapter (logged_env E)) (t, es) k md =
     (case ta_add_issue_comment (re_adapter E) t k md of (r, t') \<Rightarrow> (r, t', es @ [WroteComment k md]))"
  by (simp_all add: logged_env_def noting_def Let_def)

lemma simulates_mutations:
  "simulates (recovered (\<lambda>t. set_state_with_recovery (re_adapter (logged_env E)) t k i st ty))
     (recovered (\<lambda>t. set_state_with_recovery (re_adapter E) t k i st ty))"
  "simulates (recovered (\<lambda>t. set_project_field_with_recovery (re_adapter (logged_env E)) t issue a ty))
     (recovered (\<lambda>t. set_project_field_with_recovery (re_adapter E) t issue a ty))"
  "simulates (recovered (\<lambda>t. add_timeline_comment_with_recovery (re_adapter (logged_env E)) t k i md key ty))
     (recovered (\<lambda>t. add_timeline_comment_with_recovery (re_adapter E) t k i md key ty))"
  by (rule simulates_recovered;
    simp add: with_recovery_defs logged_requests logged_recover split: prod.split sum.split)+

lemma simulates_get: "simulates (get_issue (logged_env E) k missing) (get_issue E k missing)"
  unfolding get_issue_def
proof (rule simulates_bind)
  show "simulates (on_tracker (\<lambda>t. re_get_issue (logged_env E) t k)) (on_tracker (\<lambda>t. re_get_issue E t k))"
    by (rule simulates_tracker) (simp add: logged_env_def Let_def split: prod.split)
qed (simp add: simulates_basic split: option.split)

lemma simulates_fresh:
  "simulates (fresh_issue (logged_env E) config issue claim tc d marker place r)
     (fresh_issue E config issue claim tc d marker place r)"
  unfolding fresh_issue_def
  by (rule simulates_bind [OF simulates_get]) (simp add: simulates_basic simulates_bind simulates_save split: sum.split)

lemma simulates_content:
  "simulates (update_review_checklist_for_pass (logged_env E) issue target) (update_review_checklist_for_pass E issue target)"
proof -
  have request: "simulates (on_tracker (\<lambda>t. re_update_content (logged_env E) t k title body))
      (on_tracker (\<lambda>t. re_update_content E t k title body))" for k title body
    by (rule simulates_tracker) (simp add: logged_env_def noting_def Let_def split: prod.split)
  show ?thesis
    unfolding update_review_checklist_for_pass_def Let_def
    by (cases "ti_description issue"; simp only: option.case simulates_basic)
      (intro simulates_if simulates_bind request simulates_basic)
qed

lemma simulates_evidence: "simulates (review_evidence (logged_env E) issue job repeat) (review_evidence E issue job repeat)"
proof -
  have "re_parse_prefix (logged_env E) = re_parse_prefix E" "re_read_artifact (logged_env E) = re_read_artifact E"
    by (simp_all add: logged_env_def Let_def)
  then show ?thesis
    unfolding review_evidence_def Let_def
    by (intro simulates_bind simulates_basic) (simp add: simulates_bind simulates_basic split: option.split)
qed

lemma simulates_apply:
  "simulates (apply_review_result (logged_env E) config issue job claim repeat)
     (apply_review_result E config issue job claim repeat)"
proof -
  have evidence: "simulates (publish_evidence (logged_env E) (fresh_issue (logged_env E) config issue claim tc d marker place) issue job d key r)
      (publish_evidence E (fresh_issue E config issue claim tc d marker place) issue job d key r)" for tc d marker place key r
    unfolding publish_evidence_def Let_def
    by (intro simulates_bind simulates_if simulates_fresh simulates_basic simulates_mutations)
  have claimed: "simulates (publish_claim (logged_env E) (fresh_issue (logged_env E) config issue claim tc d marker place r) issue tc cur)
      (publish_claim E (fresh_issue E config issue claim tc d marker place r) issue tc cur)" for tc d marker place r cur
    unfolding publish_claim_def write_terminal_review_claim_def
    by (cases tc) (auto intro!: simulates_bind simulates_if simulates_fresh simulates_basic simulates_mutations simulates_get)
  have checklist: "simulates (publish_checklist (logged_env E) (fresh_issue (logged_env E) config issue claim tc d marker place r) d cur)
      (publish_checklist E (fresh_issue E config issue claim tc d marker place r) d cur)" for tc d marker place r cur
    unfolding publish_checklist_def Let_def
    by (intro simulates_bind simulates_if simulates_fresh simulates_basic simulates_content)
  have state: "simulates (publish_state (logged_env E) config (fresh_issue (logged_env E) config issue claim tc d marker place r) issue job d cur)
      (publish_state E config (fresh_issue E config issue claim tc d marker place r) issue job d cur)" for tc d marker place r cur
    unfolding publish_state_def
    by (cases "rd_target_state d")
      (auto intro!: simulates_bind simulates_if simulates_fresh simulates_basic simulates_mutations)
  have published: "simulates (publish (logged_env E) config issue job claim repeat d place r)
      (publish E config issue job claim repeat d place r)" for d place r
    unfolding publish_def Let_def
    by (intro simulates_bind simulates_save evidence claimed checklist state)
      (simp add: simulates_basic simulates_evidence split: option.split)
  have "re_revision (logged_env E) = re_revision E" by (simp add: logged_env_def Let_def)
  then show ?thesis
    unfolding apply_review_result_def Let_def
    by (simp only:) (intro simulates_bind simulates_if simulates_basic published)
qed

subsection \<open>An issue in review\<close>

definition sample_run :: LaneClaim where
  "sample_run =
     \<lparr>cl_lane = LaneClaimLane.Review, cl_actor = Codex, cl_worker = None, cl_source = Loop, cl_issue = ''#1'',
      cl_run = ''run-1'', cl_state = Active, cl_thread = ''unknown'', cl_registry = ''run/run-1''\<rparr>"

definition sample_review :: TrackerIssue where
  "sample_review =
     (sample_issue ''1'' ''Agent Review'')
       \<lparr>ti_description := Some sample_body,
        ti_linked_pull_requests :=
          [\<lparr>pr_id = None, pr_number = Some 7, pr_url = Some ''pull/7'', pr_state = Some ''OPEN'',
            pr_is_draft = Some False, pr_merge_state_status = None, pr_review_decision = None,
            pr_base_ref_name = Some ''main'', pr_head_ref_name = None, pr_head_sha = Some ''c0ffee'',
            pr_source = GithubNative\<rparr>],
        ti_project_fields := [''Review Agent'' \<mapsto> String (claim_render sample_run)]\<rparr>"

abbreviation board_world :: "'t \<Rightarrow> ('t, unit) review_world" where
  "board_world t \<equiv>
     \<lparr>rw_tracker = t, rw_outside = (), rw_receipts = Map.empty, rw_ledgers = Map.empty, rw_locks = {},
      rw_audits = []\<rparr>"

abbreviation sample_board :: board where
  "sample_board \<equiv> \<lparr>bd_issue = sample_review, bd_comments = []\<rparr>"

lemma sample_in_review: "in_review (example_config 1) sample_review sample_run"
proof -
  have t: "trim (claim_render sample_run) = claim_render sample_run" "claim_render sample_run \<noteq> []" by code_simp+
  have b: "CHR ''<'' \<notin> set sample_body" "char_of (13::nat) \<notin> set sample_body" by code_simp+
  have "tc_state_map (rc_tracker (example_config 1)) = default_state_map" by (simp add: example_config_def)
  moreover have "claim_complete sample_run" by (simp add: claim_complete_def sample_run_def)
  moreover have "one_ready_pr (ready_prs sample_review)"
    by (simp add: sample_review_def ready_prs_def one_ready_pr_def none_or_empty_def) code_simp
  ultimately show ?thesis
    using t b by (simp add: in_review_def sample_review_def sample_issue_def issue_is_closed_def project_text_field_def)
qed

lemma sample_decision:
  "\<exists>d. review_gate_decision_for_issue passing_job sample_review = Inr d \<and> is_passed (rd_outcome d) \<and>
     rd_outcome d = PassedToHumanReview"
  by (rule passing_decision)
    (simp add: is_native_subissue_def native_parent_identifier_def sample_review_def)

lemma sample_job:
  "review_job_is_terminal passing_job" "rj_issue_ref passing_job = ti_identifier sample_review"
  by (simp_all add: passing_job_def review_job_is_terminal_def sample_review_def sample_issue_def)

lemma sample_published:
  "\<exists>w'. apply_review_result (board_env (example_config 1)) (example_config 1) sample_review passing_job
     (Some sample_run) None (board_world sample_board) = (Inr (), w') \<and>
   ti_state (bd_issue (rw_tracker w')) = ''Human Review''"
proof -
  obtain d fs where d: "review_gate_decision_for_issue passing_job sample_review = Inr d"
      "rd_outcome d = PassedToHumanReview"
    and fs: "review_workpad_fields (\<lambda>_. None) (\<lambda>_. None) 0 sample_review passing_job = Inr fs"
    using sample_decision passing_workpad by blast
  from board_publishes [OF sample_in_review d(1) sample_job fs, of "board_world sample_board"]
  show ?thesis by (simp add: receipt_at_def d(2) mapped_state_def example_config_def default_state_map_def)
qed

text \<open>A board only changes its state by a write of the state.\<close>

definition traced :: "board \<times> review_event list \<Rightarrow> bool" where
  "traced t \<longleftrightarrow>
     ti_state (bd_issue (fst t)) = ''Agent Review'' \<or> (\<exists>k target. WroteState k target \<in> set (snd t))"

lemma keeps_tracker:
  "keeps (beyond m) (\<lambda>w. R (rw_tracker w))" "keeps (look f) (\<lambda>w. R (rw_tracker w))"
  "keeps (clock_ms E) (\<lambda>w. R (rw_tracker w))" "keeps (review_audit q a) (\<lambda>w. R (rw_tracker w))"
  "keeps (publication_save E place receipt) (\<lambda>w. R (rw_tracker w))"
  "keeps (render_or_panic E key fs) (\<lambda>w. R (rw_tracker w))"
  by (auto simp: keeps_def beyond_def look_def clock_ms_def review_audit_def publication_save_def bindE_def
      render_or_panic_def split: prod.splits sum.splits)

lemma keeps_requests:
  shows "(\<And>t. R t \<Longrightarrow> R (snd (f t))) \<Longrightarrow> keeps (on_tracker f) (\<lambda>w. R (rw_tracker w))"
    "(\<And>t. R t \<Longrightarrow> R (snd (g t))) \<Longrightarrow> keeps (recovered g) (\<lambda>w. R (rw_tracker w))"
  by (fastforce simp: keeps_def on_tracker_def recovered_def split: prod.splits)+

lemma traced_requests:
  fixes config
  defines "L \<equiv> logged_env (board_env config)"
  shows "traced t \<Longrightarrow> traced (snd (re_get_issue L t k))"
    "traced t \<Longrightarrow> traced (snd (re_update_content L t k title body))"
    "traced t \<Longrightarrow> traced (snd (set_state_with_recovery (re_adapter L) t k i st ty))"
    "traced t \<Longrightarrow> traced (snd (set_project_field_with_recovery (re_adapter L) t issue a ty))"
    "traced t \<Longrightarrow> traced (snd (add_timeline_comment_with_recovery (re_adapter L) t k i md key ty))"
  by (cases t; simp add: L_def with_recovery_defs logged_requests;
    auto simp: traced_def logged_env_def board_env_def board_adapter_def noting_def)+

lemma keeps_traced:
  "keeps (apply_review_result (logged_env (board_env config)) config issue job claim repeat) (\<lambda>w. traced (rw_tracker w))"
proof -
  let ?L = "logged_env (board_env config)" and ?P = "\<lambda>w. traced (rw_tracker w)"
  note base = keeps_tracker [where R = traced]
    keeps_requests(1) [where R = traced, OF traced_requests(1)] keeps_requests(1) [where R = traced, OF traced_requests(2)]
    keeps_requests(2) [where R = traced, OF traced_requests(3)] keeps_requests(2) [where R = traced, OF traced_requests(4)]
    keeps_requests(2) [where R = traced, OF traced_requests(5)]
  have found: "keeps (case i of None \<Rightarrow> failE e | Some x \<Rightarrow> returnE x) ?P" for i :: "TrackerIssue option" and e
    by (cases i) (simp_all add: keeps_fail keeps_return)
  have get: "keeps (get_issue ?L k missing) ?P" for k missing
    unfolding get_issue_def by (intro keeps_bind base found)
  have fresh: "keeps (fresh_issue ?L config issue claim tc d marker place r) ?P" for tc d marker place r
    unfolding fresh_issue_def
    by (intro keeps_bind get) (simp add: keeps_bind base keeps_fail keeps_return split: sum.split)
  have evidence: "keeps (review_evidence ?L issue job repeat) ?P"
    unfolding review_evidence_def Let_def
    by (cases repeat; simp only: option.case) (intro keeps_bind keeps_lift base)+
  have tick: "keeps (update_review_checklist_for_pass ?L i target) ?P" for i target
    unfolding update_review_checklist_for_pass_def Let_def
    by (cases "ti_description i"; simp only: option.case) (intro keeps_if keeps_bind keeps_return base)+
  have claimed: "keeps (publish_claim ?L (fresh_issue ?L config issue claim tc d marker place r) issue tc cur) ?P"
    for tc d marker place r cur
    unfolding publish_claim_def write_terminal_review_claim_def
    by (cases tc; simp only: option.case) (intro keeps_if keeps_bind keeps_return keeps_fail get fresh base)+
  have state: "keeps (publish_state ?L config (fresh_issue ?L config issue claim tc d marker place r) issue job d cur) ?P"
    for tc d marker place r cur
    unfolding publish_state_def
    by (cases "rd_target_state d"; simp only: option.case) (intro keeps_if keeps_bind keeps_return keeps_fail fresh base)+
  have "keeps (case pb_evidence r of Some s \<Rightarrow> returnE s | None \<Rightarrow> review_evidence ?L issue job repeat) ?P" for r
    by (simp add: keeps_return evidence split: option.split)
  then show ?thesis
    unfolding apply_review_result_def publish_def publish_evidence_def publish_checklist_def Let_def
    by (intro keeps_if keeps_bind keeps_return keeps_fail keeps_lift fresh tick claimed state base)
qed

subsection \<open>Properties\<close>



text \<open>C16: Publishing a result is done once: after it has succeeded, publishing it again, as a rerun
  or a recovery does, succeeds without a request to the tracker or a change of any file, whatever
  the tracker shows by then.\<close>

theorem publication_happens_once:
  assumes "apply_review_result E config issue job claim repeat w = (Inr u, w')"
  shows "apply_review_result E config issue job claim again (w'\<lparr>rw_tracker := t, rw_outside := g\<rparr>) =
    (Inr (), w'\<lparr>rw_tracker := t, rw_outside := g\<rparr>)"
proof -
  from apply_review_result_Inr [OF assms] obtain d receipt
    where f: "review_gate_decision_for_issue job issue = Inr d" "review_job_is_terminal job"
      "rj_issue_ref job = ti_identifier issue"
      "\<forall>target. rd_target_state d = Some target \<longrightarrow> transition_allowed_for_review_agent target d"
      "receipt_at (publication_path config (ti_identifier issue) claim (rj_id job)) w' = Some (Inr receipt)"
      "pb_schema_version receipt = 1" "receipt_matches issue claim job receipt" "pb_state receipt = Complete"
    by blast
  moreover have "receipt_at place (w'\<lparr>rw_tracker := t, rw_outside := g\<rparr>) = receipt_at place w'" for place
    by (simp add: receipt_at_def)
  ultimately show ?thesis
    unfolding apply_review_result_def Let_def
    by (simp add: bindE_def look_def liftE_def may_panic_def review_failed_def publication_read_def
        split: option.splits)
qed

theorem publication_happens_once_witness:
  "\<exists>w'. apply_review_result (board_env (example_config 1)) (example_config 1) sample_review passing_job
      (Some sample_run) None (board_world sample_board) = (Inr (), w') \<and>
    apply_review_result (board_env (example_config 1)) (example_config 1) sample_review passing_job
      (Some sample_run) None (w'\<lparr>rw_tracker := sample_board, rw_outside := ()\<rparr>) =
    (Inr (), w'\<lparr>rw_tracker := sample_board, rw_outside := ()\<rparr>)"
proof -
  obtain w' where w': "apply_review_result (board_env (example_config 1)) (example_config 1) sample_review passing_job
      (Some sample_run) None (board_world sample_board) = (Inr (), w')"
    using sample_published by blast
  from publication_happens_once [OF this] w' show ?thesis by blast
qed

text \<open>C9: A review routes an issue only on published evidence. However the tracker answers and others
  change it meanwhile, when the state is written, it is the one the gate decided; the evidence
  of this run has been read back from the issue, the run's claim has been read back closed, and the
  issue as it was last read is open, unchanged, still owned by the run and has the same single
  ready pull request at the same head, with its checklist ticked if the review passed. Evidence is
  only written to an issue that was found fresh by the last read, too.\<close>

theorem routes_only_on_published_evidence:
  assumes "apply_review_result (logged_env E) config issue job claim repeat w = (r, w')"
    and "snd (rw_tracker w) = []" and "snd (rw_tracker w') = pre @ e # post"
  shows "\<exists>d. review_gate_decision_for_issue job issue = Inr d \<and>
    (\<forall>k target. e = WroteState k target \<longrightarrow>
       k = ti_identifier issue \<and> rd_target_state d = Some target \<and>
       evidence_seen issue job pre \<and> claim_seen_closed issue job claim d pre \<and>
       (\<exists>cur. still_fresh config issue job claim d cur pre \<and> (is_passed (rd_outcome d) \<longrightarrow> checklist_complete cur))) \<and>
    (\<forall>k md. e = WroteComment k md \<longrightarrow>
       k = ti_identifier issue \<and> (\<exists>cur. still_fresh config issue job claim d cur pre))"
  using publication_orderly [OF assms] by (auto simp: may_write_def ready_to_route_def)

theorem routes_only_on_published_evidence_witness:
  "\<exists>w' pre k target post.
     apply_review_result (logged_env (board_env (example_config 1))) (example_config 1) sample_review passing_job
       (Some sample_run) None (board_world (sample_board, [])) = (Inr (), w') \<and>
     snd (rw_tracker w') = pre @ WroteState k target # post \<and>
     (\<exists>d cur. k = ''#1'' \<and> rd_target_state d = Some target \<and> evidence_seen sample_review passing_job pre \<and>
        claim_seen_closed sample_review passing_job (Some sample_run) d pre \<and>
        still_fresh (example_config 1) sample_review passing_job (Some sample_run) d cur pre)"
proof -
  let ?L = "logged_env (board_env (example_config 1))" and ?c = "example_config 1"
  let ?w = "board_world (sample_board, [])"
  obtain r w' where run: "apply_review_result ?L ?c sample_review passing_job (Some sample_run) None ?w = (r, w')"
    by (cases "apply_review_result ?L ?c sample_review passing_job (Some sample_run) None ?w")
  have start: "unlogged ?w = board_world sample_board" by (simp add: unlogged_def)
  have "apply_review_result (board_env ?c) ?c sample_review passing_job (Some sample_run) None (unlogged ?w) =
      map_prod id unlogged (apply_review_result ?L ?c sample_review passing_job (Some sample_run) None ?w)"
    using simulates_apply unfolding simulates_def by blast
  then have "apply_review_result (board_env ?c) ?c sample_review passing_job (Some sample_run) None
      (board_world sample_board) = (r, unlogged w')"
    unfolding start run by simp
  then have ok: "r = Inr ()" and "ti_state (bd_issue (rw_tracker (unlogged w'))) = ''Human Review''"
    using sample_published by auto
  then have moved: "ti_state (bd_issue (fst (rw_tracker w'))) = ''Human Review''" by (simp add: unlogged_def)
  have "traced (rw_tracker ?w)" by (simp add: traced_def sample_review_def sample_issue_def)
  then have "traced (rw_tracker w')"
    using keeps_traced [of ?c sample_review passing_job "Some sample_run" None] run unfolding keeps_def by blast
  then obtain k target where "WroteState k target \<in> set (snd (rw_tracker w'))"
    using moved by (auto simp: traced_def)
  then obtain pre post where split: "snd (rw_tracker w') = pre @ WroteState k target # post" by (meson split_list)
  have "snd (rw_tracker ?w) = []" by simp
  from routes_only_on_published_evidence [OF run this split]
  obtain d cur where "k = ti_identifier sample_review" "rd_target_state d = Some target"
      "evidence_seen sample_review passing_job pre" "claim_seen_closed sample_review passing_job (Some sample_run) d pre"
      "still_fresh ?c sample_review passing_job (Some sample_run) d cur pre"
    by blast
  moreover have "ti_identifier sample_review = ''#1''" by (simp add: sample_review_def sample_issue_def)
  ultimately show ?thesis using run ok split by blast
qed

end
