(* ===== verification/Spec2Isabelle.thy ===== *)
theory Spec2Isabelle
  imports
    Prelude
    Issue_Model
    Config
    Tracker_State
    Quality_Gate
    Dispatch
    Lane_Claim
    Identity
    Coordinator
    Workflow_Index
    Projector
    Local_State
    Reader
    Transition_Contract
    Coordinator_Start
    Reconcile
    Text_Tools
    Event_Log
    Tracker_Recovery
    Lane_Pool
    Lane_Lock
    Review_Report
    Review_Health
    Review_Gate
    Ownership
    Merge_Lane
    Paths
    Config_Load
    Effects
    Serde
    File_System
    Json_Text
    Runtime_State
    Session_Registry
    Main_Preflight
    Main_Loop
    Handoff
    Merge_Agent
    Merge_Tick
    Review_Workpad
    Review_Checklist
    Review_Publication
    Review_Board
begin

text \<open>
  \<^bold>\<open>Shea Symphony\<close> is a Rust program that drives coding agents through the issues of a tracker. This
  library models the logic of its crate under \<^verbatim>\<open>src/src/\<close> and proves what makes it correct.

  \<^bold>\<open>The program.\<close> A workflow file configures one project. The \<^emph>\<open>main lane\<close> polls the tracker, plans which
  issues to dispatch, claims them in a field of the tracker, starts an agent per issue in a worktree,
  and hands the result over to review. The \<^emph>\<open>review lane\<close> runs a reviewer and routes the issue by its
  verdict. The \<^emph>\<open>merge lane\<close> judges the pull request of an approved issue, repairs its branch and lands
  it. A \<^emph>\<open>coordinator\<close> turns activation evidence into durable Temporal workflows and keeps a local
  SQLite index of them. State that outlives a process is in the tracker, in three JSON files (worker
  states, sessions, review ledger), in the event log and in that database.

  \<^bold>\<open>Foundations.\<close>
  \<^item> \<open>Prelude\<close>, \<open>Text_Tools\<close>: results, options, lists, JSON values, Rust's text functions. A text is a list
    of characters below 256, so code points above 255 are outside the model; machine integers keep their
    width (\<open>u64\<close>, \<open>u32\<close>), \<^verbatim>\<open>usize\<close> counters of collections are natural numbers.
  \<^item> \<open>Effects\<close>: functions that change the world and may fail, with \<open>bindE\<close> for the \<^verbatim>\<open>?\<close> operator, loops,
    and the judgements \<open>returns\<close> (what a returned value satisfies) and \<open>keeps\<close> (what survives, also
    failures).
  \<^item> \<open>Serde\<close>, \<open>Json_Text\<close>: derived encoders and decoders; \<open>json_text_ok\<close> is what the code relies on of
    serde's printer and parser, and \<open>Json_Text\<close> a pair that has it.
  \<^item> \<open>File_System\<close>: files by path, every call may fail with a fault from a schedule, also half way
    through a write; \<open>replace_file\<close> is the write to a temporary file and rename that the stores use. The
    locale \<open>record_store\<close> is the interface of a list of records with a key.
  \<^item> \<open>Paths\<close>: \<^verbatim>\<open>Path\<close> on Unix: joining, parent, file name.

  \<^bold>\<open>Data and configuration.\<close>
  \<^item> \<open>Issue_Model\<close> (\<^verbatim>\<open>model.rs\<close>), \<open>Tracker_State\<close> (\<^verbatim>\<open>tracker/state.rs\<close>): issues, gates, states.
  \<^item> \<open>Config\<close>, \<open>Config_Load\<close> (\<^verbatim>\<open>config.rs\<close>): every section, loading from the front matter, defaults,
    environment variables, paths, validation. Facts: all paths absolute, a validated Codex review is
    read-only and unattended, limits positive.

  \<^bold>\<open>Dispatch and claims.\<close>
  \<^item> \<open>Quality_Gate\<close> (\<^verbatim>\<open>quality_gate.rs\<close>), \<open>Dispatch\<close> (\<^verbatim>\<open>orchestrator.rs\<close>): the plan respects every limit and
    gate, is fair, and keeps the limits written in the workflow file (below).
  \<^item> \<open>Lane_Claim\<close> (\<^verbatim>\<open>lane_claim.rs\<close>), \<open>Lane_Pool\<close> (\<^verbatim>\<open>lanes/claim.rs\<close> and the selections), \<open>Lane_Lock\<close>: claims
    as text, who may take an issue, and the refinement of an abstract lock by the claim field.
  \<^item> \<open>Event_Log\<close> (\<^verbatim>\<open>event_log.rs\<close>), \<open>Tracker_Recovery\<close> (\<^verbatim>\<open>tracker/error.rs\<close>,
    \<^verbatim>\<open>orchestration/tracker_recovery.rs\<close>), \<open>Ownership\<close> (\<^verbatim>\<open>ownership.rs\<close>): the audit, mutations that read back
    after an open failure, ownership markers.

  \<^bold>\<open>Main lane.\<close>
  \<^item> \<open>Runtime_State\<close> (\<^verbatim>\<open>runtime_state.rs\<close>), \<open>Session_Registry\<close> (\<^verbatim>\<open>session_registry.rs\<close>): the two stores. Facts:
    round trips through the file, all-or-nothing updates under any fault, classification of session output.
  \<^item> \<open>Main_Preflight\<close> (\<^verbatim>\<open>lanes/main_loop/runtime*.rs\<close>, \<^verbatim>\<open>supervision.rs\<close>): what happens to remembered workers.
    The step relation \<open>preflight_step\<close> carries the invariant: one worker per issue, none counted twice.
  \<^item> \<open>Main_Loop\<close> (\<^verbatim>\<open>lanes/main_loop.rs\<close>, \<^verbatim>\<open>dispatch.rs\<close>, \<^verbatim>\<open>preflight.rs\<close>): the loop; its worker limit, and
    that a limited loop returns.
  \<^item> \<open>Handoff\<close> (\<^verbatim>\<open>handoff.rs\<close>): branches, workspaces and pull requests of an issue, and the exact evidence
    gate before Agent Review.

  \<^bold>\<open>Review lane.\<close>
  \<^item> \<open>Review_Report\<close>, \<open>Review_Health\<close>, \<open>Review_Gate\<close> (\<^verbatim>\<open>review/\<close>, parts of \<^verbatim>\<open>review.rs\<close>,
    \<^verbatim>\<open>agent.rs\<close>, \<^verbatim>\<open>workspace.rs\<close>): verdicts and findings, provider failures, decisions, freshness, jobs.
  \<^item> \<open>Review_Workpad\<close> (\<^verbatim>\<open>review.rs\<close>), \<open>Review_Checklist\<close> (\<^verbatim>\<open>lanes/review/automatic.rs\<close>): the evidence
    comment, which agrees with the gate and is bounded and escaped; the checklist of an issue, of which
    only the agent's boxes are ticked.
  \<^item> \<open>Review_Publication\<close> (\<^verbatim>\<open>lanes/review/publication.rs\<close>, \<^verbatim>\<open>apply_review_result\<close> in \<^verbatim>\<open>automatic.rs\<close>,
    the closing of the claim in \<^verbatim>\<open>manual.rs\<close>): receipts, locks and the steps of a publication on the world
    \<open>review_world\<close>, in which every read may show what others did. \<open>logged_env\<close> runs it beside a log of its
    reads and writes; the invariant \<open>orderly\<close> says what each write rests on.
  \<^item> \<open>Review_Board\<close>: a tracker that nobody else changes, on which every publication completes, so the
    freshness checks never reject the publication's own writes; the properties of publishing.

  \<^bold>\<open>Merge lane.\<close>
  \<^item> \<open>Merge_Lane\<close> (\<^verbatim>\<open>merge_lane.rs\<close>): the decision on a pull request, merging with recovery, mechanical
    repair. Facts over the log of the commands it runs: only clean merges are pushed.
  \<^item> \<open>Merge_Agent\<close> (\<^verbatim>\<open>lanes/merge/repair*\<close>): the agent's repair. Facts: at most one push, last, clean,
    and authorised; proved once for every runner with the judgement \<open>logs\<close>.
  \<^item> \<open>Merge_Tick\<close> (\<^verbatim>\<open>lanes/merge/tick*.rs\<close>, \<^verbatim>\<open>evidence.rs\<close>, \<^verbatim>\<open>merge.rs\<close>): a tick on the world of tracker,
    commands and audit. Facts with the triple \<open>valid\<close>: only landed work is finished, a dry run changes
    nothing.

  \<^bold>\<open>Coordinator and local state.\<close>
  \<^item> \<open>Identity\<close>, \<open>Coordinator\<close>, \<open>Transition_Contract\<close>, \<open>Coordinator_Start\<close> (\<^verbatim>\<open>symphony/\<close>): identities,
    activation requests, Workflow IDs, idempotency keys, starting through an adapter.
  \<^item> \<open>Workflow_Index\<close>, \<open>Projector\<close>, \<open>Reader\<close>, \<open>Reconcile\<close>, \<open>Local_State\<close> (\<^verbatim>\<open>symphony/local_state/\<close>): the
    index table behind the locale \<open>workflow_store\<close>, projections with their reachable tables, active reads,
    repair, initialization and health under faults and concurrent processes.

  \<^bold>\<open>Parameters.\<close> What is not code of the repository is an argument: the tracker service
  (\<open>TrackerAdapter\<close>), commands (\<open>runner\<close>, with \<open>logged\<close> for the same runner beside a log), the agent
  (\<open>MergeAgentEnv\<close>), SQLite and the clock (\<open>Connection\<close>, \<open>InitEnv\<close>, \<open>TimeLib\<close>), serde and the template
  engine. Environment records (\<open>PreflightEnv\<close>, \<open>MainLoopEnv\<close>, \<open>MergeEnv\<close>, \<open>ReviewEnv\<close>) bundle them for one component;
  they also hold the few steps of the program that are left to later work, named below.

  \<^bold>\<open>Loops.\<close> Loops without a bound are \<open>partial_function (option)\<close> with no fuel: the journal-mode retry,
  the review poll, the conflict repair, the main and the merge loop. That they return is proved where it
  holds: for a repair whose worktrees stay, a limited main loop, a poll whose job ends; in
  \<open>Merge_Tick\<close> a repair that never returns is the error \<open>NeverReturns\<close>.

  \<^bold>\<open>Not modelled.\<close> Terminal output. Network clients (\<^verbatim>\<open>tracker/github\<close>, \<^verbatim>\<open>tracker/linear.rs\<close>) and the Temporal
  SDK wiring, which only translate to services. Processes of agents and reviewers (most of \<^verbatim>\<open>agent.rs\<close>
  and \<^verbatim>\<open>review.rs\<close>, \<^verbatim>\<open>codex_app_server.rs\<close>), what one thread of the main lane does after the dispatch
  (\<^verbatim>\<open>lanes/main_loop/execution.rs\<close>, \<^verbatim>\<open>write_candidate/\<close>), the automatic review loop and the manual review commands around the publication, worktree and git
  commands of the workspaces, the command line, the doctor, issue templates, status surfaces and the
  desktop application: they print, render or start processes around the modelled decisions. Threads
  interleave only through the files and the tracker, which the models of the stores take as arguments.
\<close>

section \<open>Properties across components\<close>

lemma selected_in_state:
  "length (filter (in_state n) (dp_selected (plan_dispatch c is))) \<le> state_limit c n"
  using plan_loop_inv [of c "is"] by (simp add: plan_inv_def plan_dispatch_def Let_def)



end
